(* ===== verification/Prelude.thy ===== *)
theory Prelude
  imports Main "HOL-Library.AList" "HOL-Library.Char_ord" "HOL-Library.List_Lexorder"
begin

text \<open>
  Shared vocabulary of the development: the JavaScript collections and string functions the
  services use, and the lemmas on them that the component theories share.

  \<^item> A JavaScript \<open>Set\<close> iterates in insertion order; it is modelled as a distinct list
    (\<open>js_set\<close>). A \<open>Map\<close> is an association list in insertion order where setting an existing
    key keeps its position (\<open>js_map\<close>, over the library's \<open>AList.update\<close>).
  \<^item> A string is a list of characters. Characters stand for UTF-16 code units below 256, so the
    default \<open>sort()\<close> of strings is the lexicographic order on character codes.
\<close>

named_theorems js_simps \<open>membership and lookup facts of the JavaScript collections\<close>
named_theorems op_simps \<open>unfolding of the operations that may throw\<close>

section \<open>Sets and maps in insertion order\<close>

definition js_add :: "'a list \<Rightarrow> 'a \<Rightarrow> 'a list" where
  "js_add xs x = (if x \<in> set xs then xs else xs @ [x])"

definition js_set :: "'a list \<Rightarrow> 'a list" where
  "js_set xs = foldl js_add [] xs"

definition js_map :: "('k \<times> 'v) list \<Rightarrow> ('k \<times> 'v) list" where
  "js_map ps = foldl (\<lambda>m p. AList.update (fst p) (snd p) m) [] ps"

lemma set_js_add [simp]: "set (js_add xs x) = insert x (set xs)"
  by (auto simp: js_add_def)

lemma distinct_js_add: "distinct (js_add xs x) = distinct xs"
  by (auto simp: js_add_def)

lemma set_foldl_js_add: "set (foldl js_add acc xs) = set acc \<union> set xs"
  by (induction xs arbitrary: acc) auto

lemma distinct_foldl_js_add: "distinct (foldl js_add acc xs) = distinct acc"
  by (induction xs arbitrary: acc) (auto simp: distinct_js_add)

lemma foldl_js_add_distinct:
  "distinct (acc @ xs) \<Longrightarrow> foldl js_add acc xs = acc @ xs"
  by (induction xs arbitrary: acc) (auto simp: js_add_def)

lemma set_js_set [simp, js_simps]: "set (js_set xs) = set xs"
  by (simp add: js_set_def set_foldl_js_add)

lemma distinct_js_set [simp]: "distinct (js_set xs)"
  by (simp add: js_set_def distinct_foldl_js_add)

lemma js_set_distinct: "distinct xs \<Longrightarrow> js_set xs = xs"
  using foldl_js_add_distinct [of "[]" xs] by (simp add: js_set_def)

lemma js_set_Nil [simp]: "js_set [] = []"
  by (simp add: js_set_def)

lemma map_of_foldl_update:
  "map_of (foldl (\<lambda>m p. AList.update (fst p) (snd p) m) acc ps) = map_of acc ++ map_of (rev ps)"
  by (induction ps arbitrary: acc) (auto simp: update_conv' map_add_def fun_eq_iff split: option.splits)

lemma map_of_js_map [js_simps]: "map_of (js_map ps) = map_of (rev ps)"
  by (simp add: js_map_def map_of_foldl_update)

lemma map_of_rev_distinct: "distinct (map fst ps) \<Longrightarrow> map_of (rev ps) = map_of ps"
  by (rule map_of_inject_set [THEN iffD2]) (auto simp: rev_map [symmetric])

lemma map_of_js_map_distinct: "distinct (map fst ps) \<Longrightarrow> map_of (js_map ps) = map_of ps"
  by (simp add: map_of_js_map map_of_rev_distinct)

lemma set_js_map_keys: "fst ` set (js_map ps) = fst ` set ps"
proof -
  have "dom (map_of (js_map ps)) = dom (map_of (rev ps))" by (simp add: map_of_js_map)
  then show ?thesis by (simp add: dom_map_of_conv_image_fst)
qed

lemma distinct_foldl_update:
  "distinct (map fst acc) \<Longrightarrow>
   distinct (map fst (foldl (\<lambda>m p. AList.update (fst p) (snd p) m) acc ps))"
  by (induction ps arbitrary: acc) (auto intro: distinct_update)

lemma distinct_js_map [simp]: "distinct (map fst (js_map ps))"
  by (simp add: js_map_def distinct_foldl_update)

lemma map_of_SomeI: "distinct (map fst xs) \<Longrightarrow> (k, v) \<in> set xs \<Longrightarrow> map_of xs k = Some v"
  by simp

lemma filter_keys_map_of:
  "k \<in> set (filter (\<lambda>k. case map_of m k of None \<Rightarrow> False | Some v \<Rightarrow> Q v) (map fst m))
   \<longleftrightarrow> (\<exists>v. map_of m k = Some v \<and> Q v)"
  by (cases "map_of m k") (auto dest: map_of_SomeD intro: rev_image_eqI)

section \<open>Sorted, de-duplicated lists\<close>

text \<open>\<open>[...new Set(values)].sort()\<close>, the normal form of the entitlement snapshot.\<close>

definition sortedUnique :: "('a::linorder) list \<Rightarrow> 'a list" where
  "sortedUnique values = sort (js_set values)"

lemma set_sortedUnique [simp, js_simps]: "set (sortedUnique xs) = set xs"
  by (simp add: sortedUnique_def)

lemma distinct_sortedUnique [simp]: "distinct (sortedUnique xs)"
  by (simp add: sortedUnique_def)

lemma sorted_sortedUnique [simp]: "sorted (sortedUnique xs)"
  by (simp add: sortedUnique_def)

lemma sortedUnique_canonical: "sortedUnique xs = sorted_list_of_set (set xs)"
  by (rule sorted_distinct_set_unique) auto

lemma sortedUnique_eq_iff: "sortedUnique xs = sortedUnique ys \<longleftrightarrow> set xs = set ys"
  by (metis set_sortedUnique sortedUnique_canonical)

lemma sortedUnique_idem [simp]: "sortedUnique (sortedUnique xs) = sortedUnique xs"
  by (simp add: sortedUnique_eq_iff)

section \<open>Optional values\<close>

text \<open>A nullable string the code tests for truth: the empty string counts as absent.\<close>

definition some_id :: "string option \<Rightarrow> string option" where
  "some_id i = (case i of None \<Rightarrow> None | Some s \<Rightarrow> if s = [] then None else Some s)"

text \<open>\<open>...(v !== undefined ? { field: v } : {})\<close> applied to a row.\<close>

definition opt_set :: "'a option \<Rightarrow> ('a \<Rightarrow> 'b \<Rightarrow> 'b) \<Rightarrow> 'b \<Rightarrow> 'b" where
  "opt_set v f x = (case v of None \<Rightarrow> x | Some y \<Rightarrow> f y x)"

text \<open>\<open>if (v) query.andWhere(...)\<close>\<close>

definition opt_where :: "'a option \<Rightarrow> ('a \<Rightarrow> 'r \<Rightarrow> bool) \<Rightarrow> 'r list \<Rightarrow> 'r list" where
  "opt_where v f rows = (case v of None \<Rightarrow> rows | Some y \<Rightarrow> filter (f y) rows)"

lemma some_id_Some_iff: "some_id i = Some s \<longleftrightarrow> i = Some s \<and> s \<noteq> []"
  by (auto simp: some_id_def split: option.splits)

section \<open>Strings\<close>

definition js_space :: "char \<Rightarrow> bool" where
  "js_space c \<longleftrightarrow> of_char c \<in> {9, 10, 11, 12, 13, 32, 160 :: nat}"

definition js_trim :: "string \<Rightarrow> string" where
  "js_trim s = rev (dropWhile js_space (rev (dropWhile js_space s)))"

definition starts_with :: "string \<Rightarrow> string \<Rightarrow> bool" where
  "starts_with p s \<longleftrightarrow> take (length p) s = p"

definition ends_with :: "string \<Rightarrow> string \<Rightarrow> bool" where
  "ends_with p s \<longleftrightarrow> length p \<le> length s \<and> drop (length s - length p) s = p"

text \<open>\<open>s.split(c)\<close> for a one-character separator: never empty.\<close>

fun js_split :: "char \<Rightarrow> string \<Rightarrow> string list" where
  "js_split c [] = [[]]"
| "js_split c (x # xs) =
     (if x = c then [] # js_split c xs
      else (case js_split c xs of [] \<Rightarrow> [[x]] | y # ys \<Rightarrow> (x # y) # ys))"

fun js_join :: "string \<Rightarrow> string list \<Rightarrow> string" where
  "js_join sep [] = []"
| "js_join sep [x] = x"
| "js_join sep (x # y # zs) = x @ sep @ js_join sep (y # zs)"

lemma js_split_nonempty [simp]: "js_split c s \<noteq> []"
  by (induction s) (auto split: list.splits)

lemma js_split_no_sep: "c \<notin> set s \<Longrightarrow> js_split c s = [s]"
  by (induction s) auto

lemma js_split_append: "js_split c (p @ c # s) = js_split c p @ js_split c s"
  by (induction p) (auto split: list.splits)

lemma js_split_parts: "p \<in> set (js_split c s) \<Longrightarrow> c \<notin> set p"
  by (induction s arbitrary: p) (auto split: if_splits list.splits)

lemma js_join_split: "js_join [c] (js_split c s) = s"
proof (induction s)
  case (Cons x xs)
  then show ?case by (cases "js_split c xs"; cases "tl (js_split c xs)") (auto split: list.splits)
qed simp

lemma last_js_split_append: "c \<notin> set s \<Longrightarrow> last (js_split c (p @ c # s)) = s"
  by (simp add: js_split_append js_split_no_sep)

lemma starts_with_append [simp]: "starts_with p (p @ s)"
  by (simp add: starts_with_def)

section \<open>Decimal numerals\<close>

text \<open>\<open>String(n)\<close> of a non-negative integer, and the value of a string of decimal digits.\<close>

definition digit_char :: "nat \<Rightarrow> char" where
  "digit_char d = char_of (48 + d)"

definition is_digit :: "char \<Rightarrow> bool" where
  "is_digit c \<longleftrightarrow> of_char c \<in> {48..57 :: nat}"

definition digit_val :: "char \<Rightarrow> nat" where
  "digit_val c = of_char c - 48"

fun show_nat :: "nat \<Rightarrow> string" where
  "show_nat n = (if n < 10 then [digit_char n] else show_nat (n div 10) @ [digit_char (n mod 10)])"

declare show_nat.simps [simp del]

definition show_int :: "int \<Rightarrow> string" where
  "show_int z = (if z < 0 then ''-'' @ show_nat (nat (- z)) else show_nat (nat z))"

definition digits_val :: "string \<Rightarrow> nat" where
  "digits_val s = foldl (\<lambda>v c. 10 * v + digit_val c) 0 s"

lemma of_char_digit: "d < 10 \<Longrightarrow> of_char (digit_char d) = 48 + d"
  by (simp add: digit_char_def of_char_of)

lemma is_digit_digit_char [simp]: "d < 10 \<Longrightarrow> is_digit (digit_char d)"
  by (simp add: is_digit_def of_char_digit)

lemma digit_val_digit_char [simp]: "d < 10 \<Longrightarrow> digit_val (digit_char d) = d"
  by (simp add: digit_val_def of_char_digit)

lemma digits_val_snoc [simp]: "digits_val (s @ [c]) = 10 * digits_val s + digit_val c"
  by (simp add: digits_val_def)

lemma digits_val_Nil [simp]: "digits_val [] = 0"
  by (simp add: digits_val_def)

lemma digits_val_zeros: "digits_val (replicate k (CHR ''0'') @ s) = digits_val s"
proof -
  have "foldl (\<lambda>v c. 10 * v + digit_val c) 0 (replicate k (CHR ''0'')) = 0"
    by (induction k) (auto simp: digit_val_def)
  then show ?thesis by (simp add: digits_val_def)
qed

lemma digits_val_append_zeros: "digits_val (s @ replicate k (CHR ''0'')) = digits_val s * 10 ^ k"
proof (induction k)
  case (Suc k)
  have "s @ replicate (Suc k) (CHR ''0'') = (s @ replicate k (CHR ''0'')) @ [CHR ''0'']"
    by (simp add: replicate_append_same)
  with Suc show ?case by (simp del: replicate_Suc append_assoc add: digit_val_def)
qed simp

lemma digits_val_show_nat [simp]: "digits_val (show_nat n) = n"
proof (induction n rule: show_nat.induct)
  case (1 n)
  have one: "digits_val [c] = digit_val c" for c by (simp add: digits_val_def)
  show ?case
  proof (cases "n < 10")
    case False
    with 1 show ?thesis by (subst show_nat.simps) simp
  qed (simp add: show_nat.simps one)
qed

lemma show_nat_digits: "list_all is_digit (show_nat n)"
proof (induction n rule: show_nat.induct)
  case (1 n)
  then show ?case by (subst show_nat.simps) auto
qed

lemma show_nat_nonempty [simp]: "show_nat n \<noteq> []"
  by (subst show_nat.simps) simp

lemma show_nat_inj: "show_nat m = show_nat n \<longleftrightarrow> m = n"
  by (metis digits_val_show_nat)

lemma is_digit_not [simp]: "\<not> is_digit (CHR ''.'')" "\<not> is_digit (CHR ''-'')"
  by (simp_all add: is_digit_def)

lemma js_space_minus [simp]: "\<not> js_space (CHR ''-'')"
  by (simp add: js_space_def)

lemma is_digit_not_space: "is_digit c \<Longrightarrow> \<not> js_space c"
  by (auto simp: is_digit_def js_space_def)

lemma dropWhile_noop: "xs \<noteq> [] \<Longrightarrow> \<not> P (hd xs) \<Longrightarrow> dropWhile P xs = xs"
  by (cases xs) auto

lemma js_trim_noop:
  assumes "s \<noteq> []" "\<not> js_space (hd s)" "\<not> js_space (last s)"
  shows "js_trim s = s"
  using assms by (simp add: js_trim_def dropWhile_noop hd_rev)

section \<open>Finding rows\<close>

lemma find_map: "find P (map f xs) = map_option f (find (P \<circ> f) xs)"
  by (induction xs) auto

lemma find_append: "find P (xs @ ys) = (case find P xs of None \<Rightarrow> find P ys | Some x \<Rightarrow> Some x)"
  by (induction xs) auto

lemma find_SomeD: "find P xs = Some x \<Longrightarrow> x \<in> set xs \<and> P x"
  by (induction xs) (auto split: if_splits)

lemma find_None_iff_all: "find P xs = None \<longleftrightarrow> (\<forall>x \<in> set xs. \<not> P x)"
  by (induction xs) auto

lemma find_key:
  "distinct (map key xs) \<Longrightarrow> x \<in> set xs \<Longrightarrow> find (\<lambda>y. key y = key x) xs = Some x"
  by (induction xs) (auto simp: image_iff)

lemma map_of_rows:
  "x \<in> A \<Longrightarrow> map_of (map (\<lambda>p. (key p, val p)) (filter (\<lambda>p. key p \<in> A) xs)) x
     = map_option val (find (\<lambda>p. key p = x) xs)"
  by (induction xs) auto

lemma filter_key_none: "x \<notin> key ` set xs \<Longrightarrow> filter (\<lambda>y. key y = x) xs = []"
  by (auto simp: filter_empty_conv)

text \<open>\<open>UPDATE ... WHERE key = i\<close>.\<close>

definition patch_rows :: "('r \<Rightarrow> 'k) \<Rightarrow> 'k \<Rightarrow> ('r \<Rightarrow> 'r) \<Rightarrow> 'r list \<Rightarrow> 'r list" where
  "patch_rows key i f rows = map (\<lambda>r. if key r = i then f r else r) rows"

lemma patch_rows_keys [simp]: "(\<And>r. key (f r) = key r) \<Longrightarrow> map key (patch_rows key i f rows) = map key rows"
  by (auto simp: patch_rows_def)

lemma length_patch_rows [simp]: "length (patch_rows key i f rows) = length rows"
  by (simp add: patch_rows_def)

lemma patch_rows_field: "(\<And>r. g (f r) = g r) \<Longrightarrow> map g (patch_rows key i f rows) = map g rows"
  by (auto simp: patch_rows_def)

lemma patch_rows_other: "r \<in> set rows \<Longrightarrow> key r \<noteq> i \<Longrightarrow> r \<in> set (patch_rows key i f rows)"
  by (force simp: patch_rows_def)

lemma find_patch_rows:
  "(\<And>r. key (f r) = key r) \<Longrightarrow>
   find (\<lambda>r. key r = j) (patch_rows key i f rows)
     = map_option (\<lambda>r. if j = i then f r else r) (find (\<lambda>r. key r = j) rows)"
  by (induction rows) (auto simp: patch_rows_def)

lemma find_patched:
  "(\<And>r. P (f r) = P r) \<Longrightarrow> (\<And>r. P r \<Longrightarrow> key r = i) \<Longrightarrow>
   find P (patch_rows key i f rows) = map_option f (find P rows)"
  by (induction rows) (auto simp: patch_rows_def)

lemma sorted_wrt_last_le:
  "sorted_wrt (\<lambda>x y. f x < (f y :: 'b :: preorder)) xs \<Longrightarrow> e \<in> set xs \<Longrightarrow> f e \<le> f (last xs)"
  by (induction xs rule: rev_induct) (auto simp: sorted_wrt_append less_imp_le)

lemma drop_after:
  assumes "sorted_wrt (\<lambda>x y. f x < (f y :: int)) xs" and "take k xs \<noteq> []"
  shows "filter (\<lambda>e. f (last (take k xs)) < f e) xs = drop k xs"
proof -
  let ?l = "last (take k xs)"
  have split: "sorted_wrt (\<lambda>x y. f x < f y) (take k xs @ drop k xs)" using assms(1) by simp
  have "filter (\<lambda>e. f ?l < f e) (take k xs) = []"
  proof -
    have "f e \<le> f ?l" if "e \<in> set (take k xs)" for e
      using split that by (intro sorted_wrt_last_le) (simp_all only: sorted_wrt_append)
    then show ?thesis by (fastforce simp: filter_empty_conv)
  qed
  moreover have "filter (\<lambda>e. f ?l < f e) (drop k xs) = drop k xs"
    using split last_in_set [OF assms(2)] unfolding sorted_wrt_append by (intro filter_True) blast
  ultimately have "filter (\<lambda>e. f ?l < f e) (take k xs @ drop k xs) = drop k xs" by (simp only: filter_append append_Nil)
  then show ?thesis by simp
qed

end
