(* ===== verification/Errors.thy ===== *)
theory Errors
  imports Prelude
begin

text \<open>
  The typed errors of \<open>packages/shared/src/errors/app-error.ts\<close>, their mapping to an RFC 7807
  response by \<open>api/src/http/error-handler.ts\<close>, the safe errors of
  \<open>db-mcp-server/src/errors.ts\<close>, and the operations of the services as state transformers that
  may throw. An exception is a value (\<open>exn\<close>): an application error, or any other thrown
  JavaScript value (a \<open>TypeError\<close>, a driver error) of which only a name or message is kept.
\<close>

section \<open>Application errors\<close>

datatype error_category =
  CatValidation | CatUnauthenticated | CatForbidden | CatNotFound | CatConflict
| CatRateLimited | CatInternal

record app_error =
  ae_message :: string
  ae_code :: string
  ae_category :: error_category
  ae_detail :: "string option"

datatype exn = App app_error | OtherErr string

definition ValidationError :: "string \<Rightarrow> string \<Rightarrow> app_error" where
  "ValidationError detail code =
     \<lparr>ae_message = ''Request validation failed'', ae_code = code,
      ae_category = CatValidation, ae_detail = Some detail\<rparr>"

definition UnauthenticatedError :: "string \<Rightarrow> string \<Rightarrow> app_error" where
  "UnauthenticatedError detail code =
     \<lparr>ae_message = ''Authentication required'', ae_code = code,
      ae_category = CatUnauthenticated, ae_detail = Some detail\<rparr>"

definition ForbiddenError :: "string \<Rightarrow> string \<Rightarrow> app_error" where
  "ForbiddenError detail code =
     \<lparr>ae_message = ''Access denied'', ae_code = code,
      ae_category = CatForbidden, ae_detail = Some detail\<rparr>"

definition NotFoundError :: "string \<Rightarrow> string \<Rightarrow> app_error" where
  "NotFoundError detail code =
     \<lparr>ae_message = ''Resource not found'', ae_code = code,
      ae_category = CatNotFound, ae_detail = Some detail\<rparr>"

definition ConflictError :: "string \<Rightarrow> string \<Rightarrow> app_error" where
  "ConflictError detail code =
     \<lparr>ae_message = ''Resource conflict'', ae_code = code,
      ae_category = CatConflict, ae_detail = Some detail\<rparr>"

definition InternalError :: "string \<Rightarrow> app_error" where
  "InternalError code =
     \<lparr>ae_message = ''Internal server error'', ae_code = code,
      ae_category = CatInternal, ae_detail = None\<rparr>"

text \<open>The constructors with their default codes and details, as the services throw them.\<close>

abbreviation validation_error :: "string \<Rightarrow> exn" where
  "validation_error d \<equiv> App (ValidationError d ''validation_failed'')"

abbreviation unauthenticated_error :: "string \<Rightarrow> exn" where
  "unauthenticated_error d \<equiv> App (UnauthenticatedError d ''unauthenticated'')"

abbreviation forbidden_error :: "string \<Rightarrow> exn" where
  "forbidden_error d \<equiv> App (ForbiddenError d ''forbidden'')"

abbreviation not_found_error :: "string \<Rightarrow> exn" where
  "not_found_error d \<equiv> App (NotFoundError d ''not_found'')"

abbreviation conflict_error :: "string \<Rightarrow> exn" where
  "conflict_error d \<equiv> App (ConflictError d ''conflict'')"

text \<open>The default details of the constructors.\<close>

abbreviation unauthenticated_default :: exn where
  "unauthenticated_default \<equiv> unauthenticated_error ''Authentication is required.''"

abbreviation forbidden_default :: exn where
  "forbidden_default \<equiv> forbidden_error ''You do not have access to this resource.''"

abbreviation not_found_default :: exn where
  "not_found_default \<equiv> not_found_error ''The requested resource was not found.''"

definition exn_category :: "exn \<Rightarrow> error_category" where
  "exn_category e = (case e of App a \<Rightarrow> ae_category a | OtherErr _ \<Rightarrow> CatInternal)"

lemma exn_category_simps [simp]:
  "exn_category (App (ValidationError d c)) = CatValidation"
  "exn_category (App (UnauthenticatedError d c)) = CatUnauthenticated"
  "exn_category (App (ForbiddenError d c)) = CatForbidden"
  "exn_category (App (NotFoundError d c)) = CatNotFound"
  "exn_category (App (ConflictError d c)) = CatConflict"
  "exn_category (OtherErr m) = CatInternal"
  by (simp_all add: exn_category_def ValidationError_def UnauthenticatedError_def
      ForbiddenError_def NotFoundError_def ConflictError_def)

section \<open>The error handler\<close>

fun status_by_category :: "error_category \<Rightarrow> nat" where
  "status_by_category CatValidation = 400"
| "status_by_category CatUnauthenticated = 401"
| "status_by_category CatForbidden = 403"
| "status_by_category CatNotFound = 404"
| "status_by_category CatConflict = 409"
| "status_by_category CatRateLimited = 429"
| "status_by_category CatInternal = 500"

record api_error_response =
  aer_type :: string
  aer_title :: string
  aer_status :: nat
  aer_detail :: "string option"
  aer_code :: string
  aer_correlationId :: string

text \<open>\<open>req.id\<close> is a string or a number (already rendered) or something else.\<close>

definition correlationIdOf :: "string option \<Rightarrow> string" where
  "correlationIdOf rid = (case rid of Some i \<Rightarrow> i | None \<Rightarrow> ''unknown'')"

definition error_handler :: "exn \<Rightarrow> string option \<Rightarrow> api_error_response" where
  "error_handler err rid =
     (let appError = (case err of App a \<Rightarrow> a | OtherErr _ \<Rightarrow> InternalError ''internal_error'')
      in \<lparr>aer_type = ''https://errors.nova.platform/'' @ ae_code appError,
          aer_title = ae_message appError,
          aer_status = status_by_category (ae_category appError),
          aer_detail = ae_detail appError,
          aer_code = ae_code appError,
          aer_correlationId = correlationIdOf rid\<rparr>)"

lemma status_by_category_range: "400 \<le> status_by_category c \<and> status_by_category c < 600"
  by (cases c) simp_all

lemma status_by_category_inj: "status_by_category c = status_by_category d \<longleftrightarrow> c = d"
  by (cases c; cases d) simp_all

lemma error_handler_status: "aer_status (error_handler e r) = status_by_category (exn_category e)"
  by (simp add: error_handler_def exn_category_def InternalError_def Let_def split: exn.splits)

section \<open>Errors of the database MCP server\<close>

datatype mcp_error_code =
  McpUnauthenticated | McpForbidden | McpViewForbidden | McpInvalidRequest
| McpSqlRejected | McpUpstreamUnavailable | McpInternal

datatype mcp_exn = McpError mcp_error_code string | McpOther string

fun toSafeError :: "mcp_exn \<Rightarrow> mcp_error_code \<times> string" where
  "toSafeError (McpError code message) = (code, message)"
| "toSafeError (McpOther _) = (McpInternal, ''The request could not be completed.'')"


section \<open>Operations that change state and may throw\<close>

text \<open>The error type is a parameter: application errors for the API (\<open>op\<close>), the errors of a
  client or of the MCP server elsewhere.\<close>

type_synonym ('e, 's, 'a) eop = "'s \<Rightarrow> ('e + 'a) \<times> 's"
type_synonym ('s, 'a) op = "(exn, 's, 'a) eop"

definition returnM :: "'a \<Rightarrow> ('e, 's, 'a) eop" where
  "returnM x = (\<lambda>s. (Inr x, s))"

definition throwM :: "'e \<Rightarrow> ('e, 's, 'a) eop" where
  "throwM e = (\<lambda>s. (Inl e, s))"

definition bindM :: "('e, 's, 'a) eop \<Rightarrow> ('a \<Rightarrow> ('e, 's, 'b) eop) \<Rightarrow> ('e, 's, 'b) eop" where
  "bindM m f = (\<lambda>s. case m s of (Inl e, s') \<Rightarrow> (Inl e, s') | (Inr x, s') \<Rightarrow> f x s')"

definition thenM :: "('e, 's, 'a) eop \<Rightarrow> ('e, 's, 'b) eop \<Rightarrow> ('e, 's, 'b) eop" where
  "thenM m n = bindM m (\<lambda>_. n)"

definition getM :: "('s \<Rightarrow> 'a) \<Rightarrow> ('e, 's, 'a) eop" where
  "getM f = (\<lambda>s. (Inr (f s), s))"

definition modifyM :: "('s \<Rightarrow> 's) \<Rightarrow> ('e, 's, unit) eop" where
  "modifyM f = (\<lambda>s. (Inr (), f s))"

definition guardM :: "bool \<Rightarrow> 'e \<Rightarrow> ('e, 's, unit) eop" where
  "guardM b e = (if b then returnM () else throwM e)"

definition someM :: "'a option \<Rightarrow> 'e \<Rightarrow> ('e, 's, 'a) eop" where
  "someM x e = (case x of None \<Rightarrow> throwM e | Some y \<Rightarrow> returnM y)"

definition liftM :: "'e + 'a \<Rightarrow> ('e, 's, 'a) eop" where
  "liftM r = (\<lambda>s. (r, s))"

text \<open>A database transaction: a throw inside rolls every change back.\<close>

definition transactionM :: "('e, 's, 'a) eop \<Rightarrow> ('e, 's, 'a) eop" where
  "transactionM m = (\<lambda>s. case m s of (Inl e, _) \<Rightarrow> (Inl e, s) | (Inr x, s') \<Rightarrow> (Inr x, s'))"

definition catchM :: "('e, 's, 'a) eop \<Rightarrow> ('e \<Rightarrow> ('e, 's, 'a) eop) \<Rightarrow> ('e, 's, 'a) eop" where
  "catchM m h = (\<lambda>s. case m s of (Inl e, s') \<Rightarrow> h e s' | (Inr x, s') \<Rightarrow> (Inr x, s'))"

lemmas op_defs = returnM_def throwM_def bindM_def thenM_def getM_def modifyM_def guardM_def
  someM_def liftM_def transactionM_def catchM_def

lemma returnM_apply [op_simps, code]: "returnM x s = (Inr x, s)"
  by (simp add: returnM_def)

lemma throwM_apply [op_simps, code]: "throwM e s = (Inl e, s)"
  by (simp add: throwM_def)

lemma bindM_apply [op_simps, code]:
  "bindM m f s = (case m s of (Inl e, s') \<Rightarrow> (Inl e, s') | (Inr x, s') \<Rightarrow> f x s')"
  by (simp add: bindM_def)

lemma thenM_apply [op_simps, code]:
  "thenM m n s = (case m s of (Inl e, s') \<Rightarrow> (Inl e, s') | (Inr x, s') \<Rightarrow> n s')"
  by (simp add: thenM_def bindM_def)

lemma getM_apply [op_simps, code]: "getM f s = (Inr (f s), s)"
  by (simp add: getM_def)

lemma modifyM_apply [op_simps, code]: "modifyM f s = (Inr (), f s)"
  by (simp add: modifyM_def)

lemma guardM_apply [op_simps, code]: "guardM b e s = (if b then (Inr (), s) else (Inl e, s))"
  by (simp add: guardM_def returnM_def throwM_def)

lemma someM_apply [op_simps, code]:
  "someM x e s = (case x of None \<Rightarrow> (Inl e, s) | Some y \<Rightarrow> (Inr y, s))"
  by (simp add: someM_def returnM_def throwM_def split: option.splits)

lemma liftM_apply [op_simps, code]: "liftM r s = (r, s)"
  by (simp add: liftM_def)

lemma transactionM_apply [op_simps, code]:
  "transactionM m s = (case m s of (Inl e, _) \<Rightarrow> (Inl e, s) | (Inr x, s') \<Rightarrow> (Inr x, s'))"
  by (simp add: transactionM_def)

lemma catchM_apply [op_simps, code]:
  "catchM m h s = (case m s of (Inl e, s') \<Rightarrow> h e s' | (Inr x, s') \<Rightarrow> (Inr x, s'))"
  by (simp add: catchM_def)

lemma transactionM_rollback: "transactionM m s = (Inl e, s') \<Longrightarrow> s' = s"
  by (auto simp: transactionM_def split: prod.splits sum.splits)

lemma transactionM_commit: "transactionM m s = (Inr x, s') \<Longrightarrow> m s = (Inr x, s')"
  by (auto simp: transactionM_def split: prod.splits sum.splits)

lemma succeeds: "\<not> isl (fst x) \<Longrightarrow> \<exists>a s. x = (Inr a, s)"
  by (cases x; cases "fst x") auto

section \<open>Invariants of operations\<close>

definition preserves :: "('s \<Rightarrow> bool) \<Rightarrow> ('e, 's, 'a) eop \<Rightarrow> bool" where
  "preserves I m \<longleftrightarrow> (\<forall>s. I s \<longrightarrow> I (snd (m s)))"

lemma preservesD: "preserves I m \<Longrightarrow> I s \<Longrightarrow> m s = (r, s') \<Longrightarrow> I s'"
  by (metis preserves_def snd_conv)

lemma preserves_returnM [intro]: "preserves I (returnM x)"
  by (simp add: preserves_def returnM_def)

lemma preserves_throwM [intro]: "preserves I (throwM e)"
  by (simp add: preserves_def throwM_def)

lemma preserves_getM [intro]: "preserves I (getM f)"
  by (simp add: preserves_def getM_def)

lemma preserves_liftM [intro]: "preserves I (liftM r)"
  by (simp add: preserves_def liftM_def)

lemma preserves_guardM [intro]: "preserves I (guardM b e)"
  by (simp add: preserves_def op_defs)

lemma preserves_someM [intro]: "preserves I (someM x e)"
  by (simp add: preserves_def op_defs split: option.splits)

lemma preserves_modifyM: "(\<And>s. I s \<Longrightarrow> I (f s)) \<Longrightarrow> preserves I (modifyM f)"
  by (simp add: preserves_def modifyM_def)

lemma preserves_bindM:
  assumes "preserves I m" and "\<And>x. preserves I (f x)"
  shows "preserves I (bindM m f)"
  using assms by (auto simp: preserves_def bindM_def split: prod.splits sum.splits)

lemma preserves_thenM: "preserves I m \<Longrightarrow> preserves I n \<Longrightarrow> preserves I (thenM m n)"
  unfolding thenM_def by (rule preserves_bindM)

lemma preserves_catchM:
  assumes "preserves I m" and "\<And>e. preserves I (h e)"
  shows "preserves I (catchM m h)"
  using assms by (auto simp: preserves_def catchM_def split: prod.splits sum.splits)

lemma preserves_transactionM: "preserves I m \<Longrightarrow> preserves I (transactionM m)"
  by (auto simp: preserves_def transactionM_def split: prod.splits sum.splits)

lemmas preserves_intros = preserves_returnM preserves_throwM preserves_getM preserves_liftM
  preserves_guardM preserves_someM preserves_modifyM preserves_bindM preserves_thenM
  preserves_catchM preserves_transactionM

section \<open>Loops over operations and state parts\<close>

text \<open>\<open>for (const x of xs) await f(x)\<close>, collecting the results; the first throw stops it.\<close>

fun mapM :: "('a \<Rightarrow> ('e, 's, 'b) eop) \<Rightarrow> 'a list \<Rightarrow> ('e, 's, 'b list) eop" where
  "mapM f [] = returnM []"
| "mapM f (x # xs) = bindM (f x) (\<lambda>y. bindM (mapM f xs) (\<lambda>ys. returnM (y # ys)))"

text \<open>A synchronous \<open>xs.map(f)\<close> whose callback may throw.\<close>

fun map_throwing :: "('a \<Rightarrow> 'e + 'b) \<Rightarrow> 'a list \<Rightarrow> 'e + 'b list" where
  "map_throwing f [] = Inr []"
| "map_throwing f (x # xs) =
     (case f x of Inl e \<Rightarrow> Inl e
      | Inr y \<Rightarrow> (case map_throwing f xs of Inl e \<Rightarrow> Inl e | Inr ys \<Rightarrow> Inr (y # ys)))"

lemma map_throwing_Inr_iff:
  "map_throwing f xs = Inr ys \<longleftrightarrow> list_all2 (\<lambda>x y. f x = Inr y) xs ys"
proof (induction xs arbitrary: ys)
  case (Cons x xs)
  show ?case by (cases ys) (auto simp: Cons.IH [symmetric] split: sum.splits)
qed auto

lemma map_throwing_all: "(\<And>x. x \<in> set xs \<Longrightarrow> f x = Inr (g x)) \<Longrightarrow> map_throwing f xs = Inr (map g xs)"
  by (induction xs) auto

lemma preserves_mapM: "(\<And>x. preserves I (f x)) \<Longrightarrow> preserves I (mapM f xs)"
  by (induction xs) (auto intro!: preserves_bindM)

text \<open>\<open>db_query_failed\<close> is the driver error of a violated constraint.\<close>

definition db_query_failed :: exn where
  "db_query_failed = OtherErr ''QueryFailedError''"

definition checked_update :: "('s \<Rightarrow> bool) \<Rightarrow> ('s \<Rightarrow> 's) \<Rightarrow> ('s, unit) op" where
  "checked_update ok f = (\<lambda>s. if ok s then (Inr (), f s) else (Inl db_query_failed, s))"

lemma checked_update_apply [op_simps, code]:
  "checked_update ok f s = (if ok s then (Inr (), f s) else (Inl db_query_failed, s))"
  by (simp add: checked_update_def)

lemma preserves_checked_update:
  "(\<And>s. I s \<Longrightarrow> ok s \<Longrightarrow> I (f s)) \<Longrightarrow> preserves I (checked_update ok f)"
  by (simp add: preserves_def checked_update_def)

section \<open>Sequences of commands\<close>

text \<open>The requests a service handles one after another; a request that throws leaves the state its
  handler left.\<close>

fun run_commands :: "('c \<Rightarrow> ('e, 's, 'a) eop) \<Rightarrow> 'c list \<Rightarrow> 's \<Rightarrow> 's" where
  "run_commands exec [] s = s"
| "run_commands exec (c # cs) s = run_commands exec cs (snd (exec c s))"

text \<open>The contract of a service with an invariant and a relation between earlier and later states.\<close>

locale tracked_service =
  fixes exec :: "'c \<Rightarrow> ('e, 's, 'a) eop"
    and inv :: "'s \<Rightarrow> bool"
    and rel :: "'s \<Rightarrow> 's \<Rightarrow> bool"
  assumes step_inv: "inv s \<Longrightarrow> inv (snd (exec c s))"
    and step_rel: "inv s \<Longrightarrow> rel s (snd (exec c s))"
    and rel_refl: "rel s s"
    and rel_trans: "rel s t \<Longrightarrow> rel t u \<Longrightarrow> rel s u"
begin

lemma all_inv: "inv s \<Longrightarrow> inv (run_commands exec cs s)"
  by (induction cs arbitrary: s) (auto intro: step_inv)

lemma all_rel: "inv s \<Longrightarrow> rel s (run_commands exec cs s)"
proof (induction cs arbitrary: s)
  case Nil
  show ?case by (simp add: rel_refl)
next
  case (Cons c cs)
  from rel_trans [OF step_rel [OF Cons.prems] Cons.IH [OF step_inv [OF Cons.prems]]] show ?case
    by simp
qed

end

text \<open>The contract of a service with an invariant and an append-only log.\<close>

locale command_service =
  fixes exec :: "'c \<Rightarrow> ('e, 's, 'a) eop"
    and inv :: "'s \<Rightarrow> bool"
    and log :: "'s \<Rightarrow> 'l list"
  assumes exec_inv: "inv s \<Longrightarrow> inv (snd (exec c s))"
    and exec_log: "inv s \<Longrightarrow> \<exists>new. log (snd (exec c s)) = log s @ new"

sublocale command_service < tracked: tracked_service exec inv "\<lambda>s t. \<exists>new. log t = log s @ new"
  by unfold_locales (auto intro: exec_inv exec_log)

context command_service
begin

lemma run_inv: "inv s \<Longrightarrow> inv (run_commands exec cs s)"
  by (rule tracked.all_inv)

lemma run_log: "inv s \<Longrightarrow> \<exists>new. log (run_commands exec cs s) = log s @ new"
  by (rule tracked.all_rel)

end

end
