(* ===== verification/Permissions.thy ===== *)
theory Permissions
  imports Prelude Errors
begin

text \<open>
  The static RBAC catalog of \<open>packages/shared/src/rbac/permissions.ts\<close>: the permissions, the
  built-in roles, the role grants, and the functions that resolve them. Roles and permissions are
  strings here as in the rest of the platform; where the source relies on its \<open>Role\<close> type
  (indexing \<open>ROLE_PERMISSIONS\<close>), an unknown role is the \<open>TypeError\<close> that iterating or
  calling \<open>includes\<close> on \<open>undefined\<close> throws.
\<close>

definition PERMISSIONS :: "string list" where
  "PERMISSIONS =
     [''read-customers'', ''write-customers'', ''create-issues'', ''read-issues'',
      ''write-issues'', ''read-sales'', ''write-sales'', ''read-permissions'',
      ''write-permissions'', ''read-actions'', ''create-actions'', ''write-actions'',
      ''read-sop'', ''write-sop'', ''read-users'', ''write-users'',
      ''create-agent-run'', ''read-agent-run'', ''cancel-agent-run'', ''read-agents'',
      ''write-agents'']"

definition ROLES :: "string list" where
  "ROLES =
     [''sales-user'', ''support-operations-user'', ''admin'',
      ''customer-support'', ''ops-compliance'']"

definition ROLE_PERMISSIONS :: "(string \<times> string list) list" where
  "ROLE_PERMISSIONS =
     [(''sales-user'',
       [''read-customers'', ''write-customers'', ''read-issues'', ''read-sales'',
        ''write-sales'', ''read-actions'', ''read-sop'', ''create-agent-run'',
        ''read-agent-run'', ''cancel-agent-run'']),
      (''support-operations-user'',
       [''read-customers'', ''write-customers'', ''read-issues'', ''write-issues'',
        ''read-sales'', ''read-actions'', ''write-actions'', ''read-sop'',
        ''create-agent-run'', ''read-agent-run'', ''cancel-agent-run'']),
      (''admin'',
       [''read-customers'', ''write-customers'', ''create-issues'', ''read-issues'',
        ''write-issues'', ''read-sales'', ''write-sales'', ''read-permissions'',
        ''write-permissions'', ''read-actions'', ''create-actions'', ''write-actions'',
        ''read-sop'', ''write-sop'', ''read-users'', ''write-users'',
        ''create-agent-run'', ''read-agent-run'', ''cancel-agent-run'', ''read-agents'',
        ''write-agents'']),
      (''ops-compliance'',
       [''read-sop'', ''write-sop'', ''create-agent-run'', ''read-agent-run'',
        ''cancel-agent-run'']),
      (''customer-support'',
       [''read-customers'', ''create-issues'', ''read-issues'', ''write-issues'',
        ''read-sales'', ''read-actions'', ''create-actions'', ''write-actions'',
        ''create-agent-run'', ''read-agent-run'', ''cancel-agent-run''])]"

definition isPermission :: "string \<Rightarrow> bool" where
  "isPermission value \<longleftrightarrow> value \<in> set (js_set PERMISSIONS)"

definition isRole :: "string \<Rightarrow> bool" where
  "isRole value \<longleftrightarrow> value \<in> set (js_set ROLES)"

definition toKnownRoles :: "string list \<Rightarrow> string list" where
  "toKnownRoles values = filter isRole values"

definition type_error :: exn where
  "type_error = OtherErr ''TypeError''"

text \<open>The loop of \<open>permissionsForRoles\<close>, with the set built so far.\<close>

fun permissionsForRoles_loop :: "string list \<Rightarrow> string list \<Rightarrow> exn + string list" where
  "permissionsForRoles_loop granted [] = Inr granted"
| "permissionsForRoles_loop granted (role # roles) =
     (case map_of ROLE_PERMISSIONS role of
        None \<Rightarrow> Inl type_error
      | Some perms \<Rightarrow> permissionsForRoles_loop (foldl js_add granted perms) roles)"

definition permissionsForRoles :: "string list \<Rightarrow> exn + string list" where
  "permissionsForRoles roles = permissionsForRoles_loop [] roles"

fun rolesGrantPermission :: "string list \<Rightarrow> string \<Rightarrow> exn + bool" where
  "rolesGrantPermission [] required = Inr False"
| "rolesGrantPermission (role # roles) required =
     (case map_of ROLE_PERMISSIONS role of
        None \<Rightarrow> Inl type_error
      | Some perms \<Rightarrow>
          if required \<in> set perms then Inr True else rolesGrantPermission roles required)"

section \<open>The grants as a relation\<close>

text \<open>The abstract content of the matrix: which role grants which permission.\<close>

definition static_grants :: "(string \<times> string) set" where
  "static_grants = {(r, p). \<exists>ps. (r, ps) \<in> set ROLE_PERMISSIONS \<and> p \<in> set ps}"

lemma ROLE_PERMISSIONS_keys: "map fst ROLE_PERMISSIONS =
    [''sales-user'', ''support-operations-user'', ''admin'', ''ops-compliance'', ''customer-support'']"
  by (simp add: ROLE_PERMISSIONS_def)

lemma distinct_ROLE_PERMISSIONS [simp]: "distinct (map fst ROLE_PERMISSIONS)"
  by (simp add: ROLE_PERMISSIONS_keys)

lemma set_ROLES: "set ROLES = fst ` set ROLE_PERMISSIONS"
proof -
  have "fst ` set ROLE_PERMISSIONS = set (map fst ROLE_PERMISSIONS)" by simp
  also have "\<dots> = set ROLES" unfolding ROLE_PERMISSIONS_keys ROLES_def by auto
  finally show ?thesis by simp
qed

lemma isRole_iff: "isRole r \<longleftrightarrow> (\<exists>ps. map_of ROLE_PERMISSIONS r = Some ps)"
proof -
  have "isRole r \<longleftrightarrow> r \<in> fst ` set ROLE_PERMISSIONS"
    by (simp add: isRole_def set_ROLES)
  also have "\<dots> \<longleftrightarrow> map_of ROLE_PERMISSIONS r \<noteq> None"
    by (simp add: map_of_eq_None_iff)
  finally show ?thesis by auto
qed

lemma static_grants_iff:
  "map_of ROLE_PERMISSIONS r = Some ps \<Longrightarrow> (r, p) \<in> static_grants \<longleftrightarrow> p \<in> set ps"
  using eq_key_imp_eq_value [OF distinct_ROLE_PERMISSIONS]
  by (auto simp: static_grants_def dest!: map_of_SomeD)

lemma permissionsForRoles_loop_set:
  assumes "\<forall>r \<in> set roles. isRole r"
  shows "\<exists>gs. permissionsForRoles_loop acc roles = Inr gs
    \<and> set gs = set acc \<union> {p. \<exists>r \<in> set roles. (r, p) \<in> static_grants}
    \<and> (distinct acc \<longrightarrow> distinct gs)"
  using assms
proof (induction roles arbitrary: acc)
  case (Cons r rs)
  then obtain ps where ps: "map_of ROLE_PERMISSIONS r = Some ps"
    by (auto simp: isRole_iff)
  from Cons.IH [of "foldl js_add acc ps"] Cons.prems ps show ?case
    by (auto simp: static_grants_iff set_foldl_js_add distinct_foldl_js_add)
qed simp

lemma permissionsForRoles_known:
  assumes "\<forall>r \<in> set roles. isRole r"
  obtains gs where "permissionsForRoles roles = Inr gs" "distinct gs"
    "set gs = {p. \<exists>r \<in> set roles. (r, p) \<in> static_grants}"
  using permissionsForRoles_loop_set [OF assms, of "[]"]
  by (auto simp: permissionsForRoles_def)

lemma rolesGrantPermission_known:
  "\<forall>r \<in> set roles. isRole r \<Longrightarrow>
   rolesGrantPermission roles p = Inr (\<exists>r \<in> set roles. (r, p) \<in> static_grants)"
proof (induction roles)
  case (Cons r rs)
  then obtain ps where "map_of ROLE_PERMISSIONS r = Some ps"
    by (auto simp: isRole_iff)
  with Cons show ?case by (auto simp: static_grants_iff)
qed simp

lemma toKnownRoles_known: "\<forall>r \<in> set (toKnownRoles vs). isRole r"
  by (simp add: toKnownRoles_def)

end
