(* ===== verification/Capabilities.thy ===== *)
theory Capabilities
  imports Permissions
begin

text \<open>
  The capability catalog of \<open>packages/shared/src/rbac/capabilities.ts\<close>: every agent skill and
  MCP tool with the permissions it requires, in the source's order, and the AND-composed checks
  over it. A JavaScript \<open>ReadonlySet\<close> of permissions is a list.
\<close>

datatype capability_kind = AgentSkill | McpTool
datatype capability_mode = ReadMode | WriteMode
datatype capability_risk = RiskLow | RiskHigh

record capability_descriptor =
  cap_id :: string
  cap_kind :: capability_kind
  cap_mode :: capability_mode
  cap_requiredPermissions :: "string list"
  cap_risk :: capability_risk
  cap_resourceScoped :: bool
  cap_delegated :: "bool option"
  cap_requiresApproval :: "bool option"

definition capability ::
  "string \<Rightarrow> capability_kind \<Rightarrow> capability_mode \<Rightarrow> string list \<Rightarrow> capability_risk \<Rightarrow> bool
   \<Rightarrow> bool option \<Rightarrow> bool option \<Rightarrow> capability_descriptor" where
  "capability i k m req ri rs de ra =
     \<lparr>cap_id = i, cap_kind = k, cap_mode = m, cap_requiredPermissions = req, cap_risk = ri,
      cap_resourceScoped = rs, cap_delegated = de, cap_requiresApproval = ra\<rparr>"

text \<open>The catalog, in three consecutive parts of the source's list.\<close>

definition CATALOG_DOMAIN :: "capability_descriptor list" where
  "CATALOG_DOMAIN =
     [capability ''sales.report.customer'' AgentSkill ReadMode [''read-sales'', ''read-customers''] RiskLow True (Some True) None,
      capability ''sales.products.forCustomer'' AgentSkill ReadMode [''read-sales'', ''read-customers''] RiskLow True (Some True) None,
      capability ''sales.create'' AgentSkill WriteMode [''write-sales''] RiskLow False (Some True) None,
      capability ''issues.list.pendingForCustomer'' AgentSkill ReadMode [''read-issues'', ''read-customers''] RiskLow True (Some True) None,
      capability ''actions.next'' AgentSkill ReadMode [''read-actions''] RiskLow False (Some True) None,
      capability ''actions.markCompleted'' AgentSkill WriteMode [''write-actions''] RiskLow True (Some True) None,
      capability ''issues.create'' AgentSkill WriteMode [''create-issues''] RiskLow False (Some True) None,
      capability ''sop.read'' AgentSkill ReadMode [''read-sop''] RiskLow False (Some True) None]"

definition CATALOG_RESOLVERS :: "capability_descriptor list" where
  "CATALOG_RESOLVERS =
     [capability ''customers.search'' AgentSkill ReadMode [''read-customers''] RiskLow False (Some True) None,
      capability ''customers.get'' AgentSkill ReadMode [''read-customers''] RiskLow True (Some True) None,
      capability ''products.search'' AgentSkill ReadMode [''read-sales''] RiskLow False (Some True) None,
      capability ''products.get'' AgentSkill ReadMode [''read-sales''] RiskLow True (Some True) None,
      capability ''sales.list'' AgentSkill ReadMode [''read-sales''] RiskLow False (Some True) None,
      capability ''sales.get'' AgentSkill ReadMode [''read-sales''] RiskLow True (Some True) None,
      capability ''issues.list'' AgentSkill ReadMode [''read-issues''] RiskLow False (Some True) None,
      capability ''issues.get'' AgentSkill ReadMode [''read-issues''] RiskLow True (Some True) None,
      capability ''actions.list'' AgentSkill ReadMode [''read-actions''] RiskLow False (Some True) None,
      capability ''actions.get'' AgentSkill ReadMode [''read-actions''] RiskLow True (Some True) None]"

definition CATALOG_WRITES :: "capability_descriptor list" where
  "CATALOG_WRITES =
     [capability ''actions.create'' AgentSkill WriteMode [''create-actions''] RiskLow False (Some True) None,
      capability ''actions.addComment'' AgentSkill WriteMode [''write-actions''] RiskLow True (Some True) None,
      capability ''actions.update'' AgentSkill WriteMode [''write-actions''] RiskLow True (Some True) None,
      capability ''issues.update'' AgentSkill WriteMode [''write-issues''] RiskLow True (Some True) None,
      capability ''sop.create'' AgentSkill WriteMode [''write-sop''] RiskLow False (Some True) None,
      capability ''sop.update'' AgentSkill WriteMode [''write-sop''] RiskLow True (Some True) None,
      capability ''sop.addVersion'' AgentSkill WriteMode [''write-sop''] RiskLow True (Some True) None,
      capability ''data.schema.describe'' McpTool ReadMode [''create-agent-run''] RiskLow False None None,
      capability ''data.query.select'' McpTool ReadMode [''create-agent-run''] RiskLow True None None,
      capability ''data.analyse.read'' AgentSkill ReadMode [''create-agent-run''] RiskLow True (Some False) None,
      capability ''data.act.write'' AgentSkill WriteMode [''create-agent-run''] RiskHigh True (Some False) None]"

definition CAPABILITY_CATALOG :: "capability_descriptor list" where
  "CAPABILITY_CATALOG = CATALOG_DOMAIN @ CATALOG_RESOLVERS @ CATALOG_WRITES"

definition CAPABILITY_BY_ID :: "(string \<times> capability_descriptor) list" where
  "CAPABILITY_BY_ID = js_map (map (\<lambda>c. (cap_id c, c)) CAPABILITY_CATALOG)"

definition getCapability :: "string \<Rightarrow> capability_descriptor option" where
  "getCapability i = map_of CAPABILITY_BY_ID i"

definition permissionsSatisfyCapability :: "capability_descriptor \<Rightarrow> string list \<Rightarrow> bool" where
  "permissionsSatisfyCapability c permissions \<longleftrightarrow>
     list_all (\<lambda>p. p \<in> set permissions) (cap_requiredPermissions c)"

definition capabilitiesForPermissions :: "string list \<Rightarrow> capability_descriptor list" where
  "capabilitiesForPermissions permissions =
     filter (\<lambda>c. permissionsSatisfyCapability c permissions) CAPABILITY_CATALOG"

text \<open>\<open>every\<close> over a callback that may throw: left to right, stopping at the first false.\<close>

fun every_throwing :: "('a \<Rightarrow> exn + bool) \<Rightarrow> 'a list \<Rightarrow> exn + bool" where
  "every_throwing f [] = Inr True"
| "every_throwing f (x # xs) =
     (case f x of Inl e \<Rightarrow> Inl e | Inr b \<Rightarrow> if b then every_throwing f xs else Inr False)"

definition rolesGrantCapability :: "string list \<Rightarrow> string \<Rightarrow> exn + bool" where
  "rolesGrantCapability roles capabilityId =
     (case getCapability capabilityId of
        None \<Rightarrow> Inr False
      | Some c \<Rightarrow>
          if length (cap_requiredPermissions c) = 0 then Inr False
          else every_throwing (rolesGrantPermission roles) (cap_requiredPermissions c))"

definition capabilityRequiresApproval :: "capability_descriptor \<Rightarrow> bool" where
  "capabilityRequiresApproval c \<longleftrightarrow> cap_requiresApproval c = Some True"

section \<open>Well-formedness of the catalog\<close>

lemmas catalog_defs = CAPABILITY_CATALOG_def CATALOG_DOMAIN_def CATALOG_RESOLVERS_def
  CATALOG_WRITES_def

lemma catalog_ids_distinct [simp]: "distinct (map cap_id CAPABILITY_CATALOG)"
  by code_simp

lemma catalog_required_nonempty: "list_all (\<lambda>c. cap_requiredPermissions c \<noteq> []) CAPABILITY_CATALOG"
  by code_simp

lemma catalog_required_known:
  "list_all (\<lambda>c. list_all isPermission (cap_requiredPermissions c)) CAPABILITY_CATALOG"
  by code_simp

lemma getCapability_map_of:
  "getCapability i = map_of (map (\<lambda>c. (cap_id c, c)) CAPABILITY_CATALOG) i"
  unfolding getCapability_def CAPABILITY_BY_ID_def
  by (rule fun_cong [OF map_of_js_map_distinct]) (simp add: o_def)

lemma getCapability_Some_iff:
  "getCapability i = Some c \<longleftrightarrow> c \<in> set CAPABILITY_CATALOG \<and> cap_id c = i"
  unfolding getCapability_map_of
  by (subst map_of_eq_Some_iff) (auto simp: o_def)

lemma getCapability_None_iff: "getCapability i = None \<longleftrightarrow> i \<notin> cap_id ` set CAPABILITY_CATALOG"
  by (auto simp: getCapability_map_of map_of_eq_None_iff image_image)

lemma every_throwing_Inr:
  "(\<And>x. x \<in> set xs \<Longrightarrow> f x = Inr (g x)) \<Longrightarrow> every_throwing f xs = Inr (list_all g xs)"
  by (induction xs) auto

lemma catalog_capability_nonempty:
  "getCapability i = Some c \<Longrightarrow> cap_requiredPermissions c \<noteq> []"
  using catalog_required_nonempty by (auto simp: getCapability_Some_iff list_all_iff)

lemma set_capabilitiesForPermissions:
  "c \<in> set (capabilitiesForPermissions ps)
   \<longleftrightarrow> c \<in> set CAPABILITY_CATALOG \<and> set (cap_requiredPermissions c) \<subseteq> set ps"
  by (auto simp: capabilitiesForPermissions_def permissionsSatisfyCapability_def list_all_iff)

end
