(* ===== verification/Data_Views.thy ===== *)
theory Data_Views
  imports Capabilities
begin

text \<open>
  The per-view permission maps of \<open>packages/shared/src/rbac/data-views.ts\<close>. Indexing the
  constant objects is a lookup of their own keys (the names \<open>Object.prototype\<close> adds, such as
  \<open>constructor\<close>, are never view names).
\<close>

definition MCP_READ_VIEW_PERMISSIONS :: "(string \<times> string) list" where
  "MCP_READ_VIEW_PERMISSIONS =
     [(''customers'', ''read-customers''),
      (''products'', ''read-sales''),
      (''sales'', ''read-sales''),
      (''products_sold'', ''read-sales''),
      (''customer_issues'', ''read-issues''),
      (''issue_actions'', ''read-actions''),
      (''my_assigned_actions'', ''read-actions''),
      (''sops'', ''read-sop''),
      (''sop_details'', ''read-sop''),
      (''users'', ''read-users'')]"

definition MCP_WRITE_VIEW_PERMISSIONS :: "(string \<times> string) list" where
  "MCP_WRITE_VIEW_PERMISSIONS =
     [(''sales'', ''write-sales''),
      (''products_sold'', ''write-sales''),
      (''customer_issues'', ''write-issues''),
      (''issue_actions'', ''write-actions''),
      (''my_assigned_actions'', ''write-actions''),
      (''sops'', ''write-sop''),
      (''sop_details'', ''write-sop'')]"

definition permissionForView :: "string \<Rightarrow> string option" where
  "permissionForView view = map_of MCP_READ_VIEW_PERMISSIONS view"

definition accessibleViews :: "string list \<Rightarrow> string list" where
  "accessibleViews permissions =
     filter (\<lambda>view. case map_of MCP_READ_VIEW_PERMISSIONS view of
                      None \<Rightarrow> False | Some p \<Rightarrow> p \<in> set permissions)
       (map fst MCP_READ_VIEW_PERMISSIONS)"

definition permissionForWriteView :: "string \<Rightarrow> string option" where
  "permissionForWriteView view = map_of MCP_WRITE_VIEW_PERMISSIONS view"

definition writableViews :: "string list \<Rightarrow> string list" where
  "writableViews permissions =
     filter (\<lambda>view. case map_of MCP_WRITE_VIEW_PERMISSIONS view of
                      None \<Rightarrow> False | Some p \<Rightarrow> p \<in> set permissions)
       (map fst MCP_WRITE_VIEW_PERMISSIONS)"

lemma distinct_read_views [simp]: "distinct (map fst MCP_READ_VIEW_PERMISSIONS)"
  by code_simp

lemma distinct_write_views [simp]: "distinct (map fst MCP_WRITE_VIEW_PERMISSIONS)"
  by code_simp

lemma set_accessibleViews:
  "v \<in> set (accessibleViews ps) \<longleftrightarrow> (\<exists>p. permissionForView v = Some p \<and> p \<in> set ps)"
  by (simp only: accessibleViews_def permissionForView_def filter_keys_map_of)

lemma set_writableViews:
  "v \<in> set (writableViews ps) \<longleftrightarrow> (\<exists>p. permissionForWriteView v = Some p \<and> p \<in> set ps)"
  by (simp only: writableViews_def permissionForWriteView_def filter_keys_map_of)

end
