(* ===== verification/Registry.thy ===== *)
theory Registry
  imports Data_Views
begin

text \<open>
  \<open>api/src/rbac/rbac-registry.ts\<close>: the immutable in-memory view over the authorization policy
  that every enforcement point of the API consults. \<open>mkRegistry\<close> is the class constructor (its
  derived sets and maps), followed by one definition per method and by \<open>fromStaticCatalog\<close>.
  Kinds and modes that the database stores as text stay strings. The two locales state what the
  enforcement layer relies on: \<open>role_policy\<close> (roles to permissions) and \<open>capability_policy\<close>
  (permissions to capabilities); both are interpreted on the registry and, for capabilities, on
  the static catalog the MCP server uses.
\<close>

record role_view =
  rv_name :: string
  rv_description :: "string option"
  rv_isSystem :: bool
  rv_keycloakRoleId :: "string option"

record permission_view =
  pv_name :: string
  pv_description :: "string option"
  pv_isSystem :: bool

record capability_view =
  cv_id :: string
  cv_kind :: string
  cv_mode :: string
  cv_risk :: capability_risk
  cv_resourceScoped :: bool
  cv_delegated :: bool
  cv_enabled :: bool
  cv_requiresApproval :: bool
  cv_isSystem :: bool
  cv_requiredPermissions :: "string list"

record route_policy_view =
  rpv_routeId :: string
  rpv_kind :: string
  rpv_permissionName :: "string option"
  rpv_audit :: bool

record view_permission_view =
  vpv_viewName :: string
  vpv_mode :: string
  vpv_permissionName :: string

record registry_data =
  rd_revision :: int
  rd_roles :: "role_view list"
  rd_permissions :: "permission_view list"
  rd_rolePermissions :: "(string \<times> string list) list"
  rd_capabilities :: "capability_view list"
  rd_routePolicies :: "route_policy_view list"
  rd_viewPermissions :: "view_permission_view list"

record rbac_registry =
  rg_data :: registry_data
  rg_roleSet :: "string list"
  rg_rolePermissionMap :: "(string \<times> string list) list"
  rg_capabilityMap :: "(string \<times> capability_view) list"
  rg_routePolicyMap :: "(string \<times> route_policy_view) list"
  rg_viewReadMap :: "(string \<times> string) list"
  rg_viewWriteMap :: "(string \<times> string) list"

definition view_map :: "string \<Rightarrow> view_permission_view list \<Rightarrow> (string \<times> string) list" where
  "view_map mode vs =
     js_map (map (\<lambda>v. (vpv_viewName v, vpv_permissionName v)) (filter (\<lambda>v. vpv_mode v = mode) vs))"

definition mkRegistry :: "registry_data \<Rightarrow> rbac_registry" where
  "mkRegistry data =
     \<lparr>rg_data = data,
      rg_roleSet = js_set (map rv_name (rd_roles data)),
      rg_rolePermissionMap =
        js_map (map (\<lambda>(role, perms). (role, js_set perms)) (rd_rolePermissions data)),
      rg_capabilityMap = js_map (map (\<lambda>c. (cv_id c, c)) (rd_capabilities data)),
      rg_routePolicyMap = js_map (map (\<lambda>p. (rpv_routeId p, p)) (rd_routePolicies data)),
      rg_viewReadMap = view_map ''read'' (rd_viewPermissions data),
      rg_viewWriteMap = view_map ''write'' (rd_viewPermissions data)\<rparr>"

definition registry_revision :: "rbac_registry \<Rightarrow> int" where
  "registry_revision R = rd_revision (rg_data R)"

definition registry_snapshot :: "rbac_registry \<Rightarrow> registry_data" where
  "registry_snapshot R = rg_data R"

definition hasRole :: "rbac_registry \<Rightarrow> string \<Rightarrow> bool" where
  "hasRole R name \<longleftrightarrow> name \<in> set (rg_roleSet R)"

definition knownRoles :: "rbac_registry \<Rightarrow> string list \<Rightarrow> string list" where
  "knownRoles R values = filter (\<lambda>v. v \<in> set (rg_roleSet R)) values"

definition reg_permissionsForRoles :: "rbac_registry \<Rightarrow> string list \<Rightarrow> string list" where
  "reg_permissionsForRoles R roles =
     foldl (\<lambda>granted role.
        case map_of (rg_rolePermissionMap R) role of
          None \<Rightarrow> granted
        | Some perms \<Rightarrow> foldl js_add granted perms) [] roles"

definition reg_rolesGrantPermission :: "rbac_registry \<Rightarrow> string list \<Rightarrow> string \<Rightarrow> bool" where
  "reg_rolesGrantPermission R roles required \<longleftrightarrow>
     list_ex (\<lambda>role. case map_of (rg_rolePermissionMap R) role of
                       None \<Rightarrow> False | Some perms \<Rightarrow> required \<in> set perms) roles"

definition routePolicy :: "rbac_registry \<Rightarrow> string \<Rightarrow> route_policy_view option" where
  "routePolicy R routeId = map_of (rg_routePolicyMap R) routeId"

definition reg_getCapability :: "rbac_registry \<Rightarrow> string \<Rightarrow> capability_view option" where
  "reg_getCapability R i = map_of (rg_capabilityMap R) i"

definition reg_permissionsSatisfyCapability :: "capability_view \<Rightarrow> string list \<Rightarrow> bool" where
  "reg_permissionsSatisfyCapability c permissions =
     (if \<not> cv_enabled c \<or> length (cv_requiredPermissions c) = 0 then False
      else list_all (\<lambda>p. p \<in> set permissions) (cv_requiredPermissions c))"

definition capabilityAllowlist :: "rbac_registry \<Rightarrow> string list \<Rightarrow> string list" where
  "capabilityAllowlist R permissions =
     map cv_id (filter (\<lambda>c. reg_permissionsSatisfyCapability c permissions)
                  (rd_capabilities (rg_data R)))"

definition reg_permissionForView :: "rbac_registry \<Rightarrow> string \<Rightarrow> string \<Rightarrow> string option" where
  "reg_permissionForView R view mode =
     map_of (if mode = ''read'' then rg_viewReadMap R else rg_viewWriteMap R) view"

definition reg_accessibleViews :: "rbac_registry \<Rightarrow> string list \<Rightarrow> string list" where
  "reg_accessibleViews R permissions =
     map fst (filter (\<lambda>(view, p). p \<in> set permissions) (rg_viewReadMap R))"

fun kind_string :: "capability_kind \<Rightarrow> string" where
  "kind_string AgentSkill = ''agent-skill''"
| "kind_string McpTool = ''mcp-tool''"

fun mode_string :: "capability_mode \<Rightarrow> string" where
  "mode_string ReadMode = ''read''"
| "mode_string WriteMode = ''write''"

definition static_capability_view :: "capability_descriptor \<Rightarrow> capability_view" where
  "static_capability_view c =
     \<lparr>cv_id = cap_id c, cv_kind = kind_string (cap_kind c), cv_mode = mode_string (cap_mode c),
      cv_risk = cap_risk c, cv_resourceScoped = cap_resourceScoped c,
      cv_delegated = (case cap_delegated c of None \<Rightarrow> False | Some b \<Rightarrow> b),
      cv_enabled = True,
      cv_requiresApproval = (case cap_requiresApproval c of None \<Rightarrow> False | Some b \<Rightarrow> b),
      cv_isSystem = True,
      cv_requiredPermissions = cap_requiredPermissions c\<rparr>"

definition static_registry_data :: "registry_data" where
  "static_registry_data =
     \<lparr>rd_revision = 0,
      rd_roles = map (\<lambda>n. \<lparr>rv_name = n, rv_description = None, rv_isSystem = True,
                           rv_keycloakRoleId = None\<rparr>) ROLES,
      rd_permissions = map (\<lambda>n. \<lparr>pv_name = n, pv_description = None, pv_isSystem = True\<rparr>)
                         PERMISSIONS,
      rd_rolePermissions =
        js_map (map (\<lambda>r. (r, case map_of ROLE_PERMISSIONS r of None \<Rightarrow> [] | Some ps \<Rightarrow> ps)) ROLES),
      rd_capabilities = map static_capability_view CAPABILITY_CATALOG,
      rd_routePolicies = [],
      rd_viewPermissions =
        map (\<lambda>(v, p). \<lparr>vpv_viewName = v, vpv_mode = ''read'', vpv_permissionName = p\<rparr>)
          MCP_READ_VIEW_PERMISSIONS
        @ map (\<lambda>(v, p). \<lparr>vpv_viewName = v, vpv_mode = ''write'', vpv_permissionName = p\<rparr>)
          MCP_WRITE_VIEW_PERMISSIONS\<rparr>"

definition fromStaticCatalog :: rbac_registry where
  "fromStaticCatalog = mkRegistry static_registry_data"

section \<open>The registry as a relation\<close>

text \<open>
  The abstract policy of a registry: which role grants which permission. \<open>registry_wf\<close> is what
  the constructor and the primary keys of the tables establish.
\<close>

definition reg_grants :: "rbac_registry \<Rightarrow> string \<Rightarrow> string \<Rightarrow> bool" where
  "reg_grants R role p \<longleftrightarrow>
     (\<exists>perms. map_of (rg_rolePermissionMap R) role = Some perms \<and> p \<in> set perms)"

definition registry_wf :: "rbac_registry \<Rightarrow> bool" where
  "registry_wf R \<longleftrightarrow>
     R = mkRegistry (rg_data R) \<and>
     distinct (map rv_name (rd_roles (rg_data R))) \<and>
     distinct (map fst (rd_rolePermissions (rg_data R))) \<and>
     distinct (map cv_id (rd_capabilities (rg_data R))) \<and>
     distinct (map rpv_routeId (rd_routePolicies (rg_data R))) \<and>
     distinct (map (\<lambda>v. (vpv_viewName v, vpv_mode v)) (rd_viewPermissions (rg_data R)))"

lemma rg_data_mkRegistry [simp]: "rg_data (mkRegistry d) = d"
  by (simp add: mkRegistry_def)

lemma set_reg_permissionsForRoles_fold:
  "set (foldl (\<lambda>granted role. case map_of m role of None \<Rightarrow> granted
                 | Some perms \<Rightarrow> foldl js_add granted perms) acc roles)
   = set acc \<union> {p. \<exists>r \<in> set roles. \<exists>perms. map_of m r = Some perms \<and> p \<in> set perms}"
  by (induction roles arbitrary: acc) (auto simp: set_foldl_js_add split: option.splits)

lemma distinct_reg_permissionsForRoles_fold:
  "distinct acc \<Longrightarrow>
   distinct (foldl (\<lambda>granted role. case map_of m role of None \<Rightarrow> granted
                 | Some perms \<Rightarrow> foldl js_add granted perms) acc roles)"
  by (induction roles arbitrary: acc) (auto simp: distinct_foldl_js_add split: option.splits)

lemma set_reg_permissionsForRoles:
  "set (reg_permissionsForRoles R roles) = {p. \<exists>r \<in> set roles. reg_grants R r p}"
  by (simp add: reg_permissionsForRoles_def set_reg_permissionsForRoles_fold reg_grants_def)

lemma distinct_reg_permissionsForRoles [simp]: "distinct (reg_permissionsForRoles R roles)"
  by (simp add: reg_permissionsForRoles_def distinct_reg_permissionsForRoles_fold)

lemma reg_rolesGrantPermission_iff:
  "reg_rolesGrantPermission R roles p \<longleftrightarrow> (\<exists>r \<in> set roles. reg_grants R r p)"
  by (auto simp: reg_rolesGrantPermission_def list_ex_iff reg_grants_def split: option.splits)

lemma reg_satisfies_iff:
  "reg_permissionsSatisfyCapability c ps \<longleftrightarrow>
     cv_enabled c \<and> cv_requiredPermissions c \<noteq> [] \<and> set (cv_requiredPermissions c) \<subseteq> set ps"
  by (auto simp: reg_permissionsSatisfyCapability_def list_all_iff)

lemma reg_getCapability_wf:
  assumes "registry_wf R"
  shows "reg_getCapability R i = Some c \<longleftrightarrow> c \<in> set (rd_capabilities (rg_data R)) \<and> cv_id c = i"
proof -
  let ?kv = "map (\<lambda>c. (cv_id c, c)) (rd_capabilities (rg_data R))"
  from assms have d: "distinct (map fst ?kv)"
    by (simp add: registry_wf_def o_def)
  from assms have R: "R = mkRegistry (rg_data R)" by (simp only: registry_wf_def)
  have "rg_capabilityMap R = js_map ?kv"
    by (rule trans [OF arg_cong [OF R, of rg_capabilityMap]]) (simp add: mkRegistry_def)
  then have "reg_getCapability R i = map_of ?kv i"
    by (simp add: reg_getCapability_def map_of_js_map_distinct [OF d])
  then have "reg_getCapability R i = Some c \<longleftrightarrow> (i, c) \<in> set ?kv"
    by (simp only: map_of_eq_Some_iff [OF d])
  also have "\<dots> \<longleftrightarrow> c \<in> set (rd_capabilities (rg_data R)) \<and> cv_id c = i"
    by auto
  finally show ?thesis .
qed

section \<open>Interface: roles to permissions\<close>

text \<open>
  What the authentication context relies on. \<open>perms_for\<close> is a set in insertion order; \<open>filter_known\<close>
  keeps the values that are roles of the platform.
\<close>

locale role_policy =
  fixes known :: "'r \<Rightarrow> string \<Rightarrow> bool"
    and grants :: "'r \<Rightarrow> string \<Rightarrow> string \<Rightarrow> bool"
    and filter_known :: "'r \<Rightarrow> string list \<Rightarrow> string list"
    and perms_for :: "'r \<Rightarrow> string list \<Rightarrow> string list"
  assumes filter_known_set: "set (filter_known r vs) = {v \<in> set vs. known r v}"
    and perms_for_set: "set (perms_for r roles) = {p. \<exists>x \<in> set roles. grants r x p}"
    and perms_for_distinct: "distinct (perms_for r roles)"
begin

definition effective :: "'r \<Rightarrow> string list \<Rightarrow> string list" where
  "effective r claimed = perms_for r (filter_known r claimed)"

lemma effective_iff:
  "p \<in> set (effective r claimed) \<longleftrightarrow> (\<exists>x \<in> set claimed. known r x \<and> grants r x p)"
  by (auto simp: effective_def perms_for_set filter_known_set)

lemma effective_mono: "set claimed \<subseteq> set claimed' \<Longrightarrow> set (effective r claimed) \<subseteq> set (effective r claimed')"
  unfolding subset_iff effective_iff by blast

lemma effective_unknown:
  assumes "\<forall>x \<in> set claimed. \<not> known r x"
  shows "effective r claimed = []"
proof -
  have "p \<notin> set (effective r claimed)" for p
    using assms by (simp add: effective_iff)
  then show ?thesis by (cases "effective r claimed") auto
qed

lemma effective_append:
  "set (effective r (a @ b)) = set (effective r a) \<union> set (effective r b)"
  by (auto simp: effective_iff)

end

interpretation reg: role_policy hasRole reg_grants knownRoles reg_permissionsForRoles
  by unfold_locales (auto simp: hasRole_def knownRoles_def set_reg_permissionsForRoles)

section \<open>Interface: permissions to capabilities\<close>

text \<open>
  What the gates rely on: a provider \<open>r\<close> of capability policy, well-formed in the sense of
  \<open>invar\<close>, looks a capability up, decides whether a permission set satisfies it and lists the
  capabilities a permission set may invoke. Default deny is the law \<open>deny_empty\<close>.
\<close>

locale capability_policy =
  fixes invar :: "'r \<Rightarrow> bool"
    and lookup :: "'r \<Rightarrow> string \<Rightarrow> 'c option"
    and satisfies :: "'c \<Rightarrow> string list \<Rightarrow> bool"
    and allowlist :: "'r \<Rightarrow> string list \<Rightarrow> string list"
  assumes allowlist_iff:
      "invar r \<Longrightarrow> i \<in> set (allowlist r ps) \<longleftrightarrow> (\<exists>c. lookup r i = Some c \<and> satisfies c ps)"
    and satisfies_mono: "satisfies c ps \<Longrightarrow> set ps \<subseteq> set qs \<Longrightarrow> satisfies c qs"
    and deny_empty: "invar r \<Longrightarrow> lookup r i = Some c \<Longrightarrow> \<not> satisfies c []"
begin

definition gate :: "'r \<Rightarrow> string list \<Rightarrow> string \<Rightarrow> bool" where
  "gate r ps i \<longleftrightarrow> (case lookup r i of None \<Rightarrow> False | Some c \<Rightarrow> satisfies c ps)"

lemma gate_iff: "gate r ps i \<longleftrightarrow> (\<exists>c. lookup r i = Some c \<and> satisfies c ps)"
  by (auto simp: gate_def split: option.splits)

lemma gate_allowlist: "invar r \<Longrightarrow> i \<in> set (allowlist r ps) \<longleftrightarrow> gate r ps i"
  by (simp add: allowlist_iff gate_iff)

lemma gate_mono: "gate r ps i \<Longrightarrow> set ps \<subseteq> set qs \<Longrightarrow> gate r qs i"
  by (auto simp: gate_iff intro: satisfies_mono)

lemma gate_set_cong: "set ps = set qs \<Longrightarrow> gate r ps i = gate r qs i"
  using gate_mono by blast

lemma gate_nothing: "invar r \<Longrightarrow> \<not> gate r [] i"
  by (auto simp: gate_iff dest: deny_empty)

lemma allowlist_nothing: "invar r \<Longrightarrow> allowlist r [] = []"
  using gate_allowlist gate_nothing by (metis list.set_intros(1) neq_Nil_conv)

end

interpretation regcap: capability_policy registry_wf reg_getCapability
  reg_permissionsSatisfyCapability capabilityAllowlist
proof unfold_locales
  fix R :: rbac_registry and i :: string and ps :: "string list"
  assume wf: "registry_wf R"
  show "i \<in> set (capabilityAllowlist R ps) \<longleftrightarrow>
      (\<exists>c. reg_getCapability R i = Some c \<and> reg_permissionsSatisfyCapability c ps)"
    by (auto simp: capabilityAllowlist_def reg_getCapability_wf [OF wf])
qed (auto simp: reg_satisfies_iff)

text \<open>The static catalog as a provider; its state is trivial.\<close>

definition static_lookup :: "unit \<Rightarrow> string \<Rightarrow> capability_descriptor option" where
  "static_lookup u i = getCapability i"

definition static_allowlist :: "unit \<Rightarrow> string list \<Rightarrow> string list" where
  "static_allowlist u ps = map cap_id (capabilitiesForPermissions ps)"

interpretation statcap: capability_policy "\<lambda>_. True" static_lookup permissionsSatisfyCapability
  static_allowlist
proof unfold_locales
  fix u :: unit and i :: string and ps :: "string list"
  show "i \<in> set (static_allowlist u ps) \<longleftrightarrow>
      (\<exists>c. static_lookup u i = Some c \<and> permissionsSatisfyCapability c ps)"
    by (auto simp: static_allowlist_def static_lookup_def capabilitiesForPermissions_def
        getCapability_Some_iff)
next
  fix u :: unit and i :: string and c :: capability_descriptor
  assume "static_lookup u i = Some c"
  then show "\<not> permissionsSatisfyCapability c []"
    using catalog_capability_nonempty [of i c]
    by (cases "cap_requiredPermissions c")
      (auto simp: static_lookup_def permissionsSatisfyCapability_def)
qed (auto simp: permissionsSatisfyCapability_def list_all_iff)

section \<open>The static catalog as a registry\<close>

lemma fromStaticCatalog_wf: "registry_wf fromStaticCatalog"
proof -
  have "distinct (map rv_name (rd_roles static_registry_data))"
    "distinct (map fst (rd_rolePermissions static_registry_data))"
    "distinct (map cv_id (rd_capabilities static_registry_data))"
    "distinct (map rpv_routeId (rd_routePolicies static_registry_data))"
    "distinct (map (\<lambda>v. (vpv_viewName v, vpv_mode v)) (rd_viewPermissions static_registry_data))"
    by code_simp+
  then show ?thesis by (simp add: registry_wf_def fromStaticCatalog_def)
qed

lemma static_roleSet: "rg_roleSet fromStaticCatalog = js_set ROLES"
  by (simp add: fromStaticCatalog_def mkRegistry_def static_registry_data_def o_def)

lemma static_rolePermissionMap:
  "map_of (rg_rolePermissionMap fromStaticCatalog) r = map_of ROLE_PERMISSIONS r"
proof (cases "r \<in> set ROLES")
  case True
  have "list_all (\<lambda>r. map_of (rg_rolePermissionMap fromStaticCatalog) r = map_of ROLE_PERMISSIONS r) ROLES"
    by code_simp
  with True show ?thesis by (simp add: list_all_iff)
next
  case False
  have "map fst (rg_rolePermissionMap fromStaticCatalog) = ROLES"
    by code_simp
  then have "fst ` set (rg_rolePermissionMap fromStaticCatalog) = set ROLES"
    by (metis set_map)
  with False set_ROLES show ?thesis by (metis map_of_eq_None_iff)
qed

lemma static_permissionsForRoles_loop:
  "\<forall>r \<in> set roles. isRole r \<Longrightarrow> permissionsForRoles_loop acc roles =
     Inr (foldl (\<lambda>granted role.
        case map_of (rg_rolePermissionMap fromStaticCatalog) role of
          None \<Rightarrow> granted
        | Some perms \<Rightarrow> foldl js_add granted perms) acc roles)"
  by (induction roles arbitrary: acc) (auto simp: static_rolePermissionMap isRole_iff)

lemma capabilityAllowlist_static:
  "capabilityAllowlist fromStaticCatalog ps = map cap_id (capabilitiesForPermissions ps)"
proof -
  have eq: "reg_permissionsSatisfyCapability (static_capability_view c) ps =
      permissionsSatisfyCapability c ps" if "c \<in> set CAPABILITY_CATALOG" for c
    using that catalog_required_nonempty
    by (auto simp: reg_permissionsSatisfyCapability_def static_capability_view_def
        permissionsSatisfyCapability_def list_all_iff)
  have "capabilityAllowlist fromStaticCatalog ps =
      map cv_id (filter (\<lambda>c. reg_permissionsSatisfyCapability c ps)
        (map static_capability_view CAPABILITY_CATALOG))"
    by (simp add: capabilityAllowlist_def fromStaticCatalog_def static_registry_data_def)
  also have "\<dots> = map cap_id (filter (\<lambda>c. reg_permissionsSatisfyCapability
        (static_capability_view c) ps) CAPABILITY_CATALOG)"
    by (simp add: filter_map o_def static_capability_view_def)
  also have "\<dots> = map cap_id (capabilitiesForPermissions ps)"
    by (simp add: capabilitiesForPermissions_def eq cong: filter_cong)
  finally show ?thesis .
qed

lemma static_viewReadMap: "rg_viewReadMap fromStaticCatalog = MCP_READ_VIEW_PERMISSIONS"
  by code_simp

lemma reg_accessibleViews_static:
  "reg_accessibleViews fromStaticCatalog ps = accessibleViews ps"
proof -
  have "map_of MCP_READ_VIEW_PERMISSIONS v = Some p" if "(v, p) \<in> set MCP_READ_VIEW_PERMISSIONS" for v p
    using that by simp
  then have "map fst (filter (\<lambda>(v, p). p \<in> set ps) MCP_READ_VIEW_PERMISSIONS) =
      map fst (filter (\<lambda>x. case map_of MCP_READ_VIEW_PERMISSIONS (fst x) of
                            None \<Rightarrow> False | Some p \<Rightarrow> p \<in> set ps) MCP_READ_VIEW_PERMISSIONS)"
    by (intro arg_cong [of _ _ "map fst"] filter_cong) auto
  then show ?thesis
    by (simp add: reg_accessibleViews_def static_viewReadMap accessibleViews_def filter_map o_def)
qed

section \<open>Properties\<close>

text \<open>C24: The registry built from the static catalog takes exactly the decisions of the static
  functions: same known roles, same effective permissions in the same order (and the static
  function does not throw on them), same capability allowlist, same readable views.\<close>

theorem fromStaticCatalog_agrees:
  "knownRoles fromStaticCatalog vs = toKnownRoles vs
   \<and> permissionsForRoles (toKnownRoles vs)
       = Inr (reg_permissionsForRoles fromStaticCatalog (knownRoles fromStaticCatalog vs))
   \<and> capabilityAllowlist fromStaticCatalog ps = map cap_id (capabilitiesForPermissions ps)
   \<and> reg_accessibleViews fromStaticCatalog ps = accessibleViews ps"
proof -
  have k: "knownRoles fromStaticCatalog vs = toKnownRoles vs"
    by (simp add: knownRoles_def toKnownRoles_def static_roleSet isRole_def [abs_def])
  then show ?thesis
    using static_permissionsForRoles_loop [of "toKnownRoles vs" "[]"]
    by (simp add: permissionsForRoles_def reg_permissionsForRoles_def toKnownRoles_known
        capabilityAllowlist_static reg_accessibleViews_static)
qed

text \<open>The capability allowlist a registry advertises is exactly the set of capabilities its
  gate lets through: present, enabled, with a non-empty requirement wholly contained in the
  caller's permissions; with no permission it is empty (default deny), and more permissions never
  remove a capability.\<close>

theorem capabilityAllowlist_exact:
  assumes "registry_wf R"
  shows "set (capabilityAllowlist R ps) =
      {cv_id c |c. c \<in> set (rd_capabilities (rg_data R)) \<and> cv_enabled c
         \<and> cv_requiredPermissions c \<noteq> [] \<and> set (cv_requiredPermissions c) \<subseteq> set ps}
    \<and> capabilityAllowlist R [] = []
    \<and> set (capabilityAllowlist R ps) \<subseteq> set (capabilityAllowlist R (ps @ qs))
    \<and> (i \<in> set (capabilityAllowlist R ps) \<longleftrightarrow>
         (\<exists>c. reg_getCapability R i = Some c \<and> reg_permissionsSatisfyCapability c ps))"
proof (intro conjI)
  show "set (capabilityAllowlist R ps) =
      {cv_id c |c. c \<in> set (rd_capabilities (rg_data R)) \<and> cv_enabled c
         \<and> cv_requiredPermissions c \<noteq> [] \<and> set (cv_requiredPermissions c) \<subseteq> set ps}"
    by (auto simp: capabilityAllowlist_def reg_satisfies_iff)
  show "capabilityAllowlist R [] = []"
    by (rule regcap.allowlist_nothing [OF assms])
  show "set (capabilityAllowlist R ps) \<subseteq> set (capabilityAllowlist R (ps @ qs))"
    using regcap.gate_mono by (auto simp: regcap.gate_allowlist [OF assms])
  show "i \<in> set (capabilityAllowlist R ps) \<longleftrightarrow>
      (\<exists>c. reg_getCapability R i = Some c \<and> reg_permissionsSatisfyCapability c ps)"
    by (simp only: regcap.gate_allowlist [OF assms] regcap.gate_iff)
qed

theorem capabilityAllowlist_exact_witness:
  "''sales.create'' \<in> set (capabilityAllowlist fromStaticCatalog [''write-sales''])
   \<and> capabilityAllowlist fromStaticCatalog [] = []"
proof -
  have "case reg_getCapability fromStaticCatalog ''sales.create'' of None \<Rightarrow> False
      | Some c \<Rightarrow> reg_permissionsSatisfyCapability c [''write-sales'']"
    by code_simp
  then have "\<exists>c. reg_getCapability fromStaticCatalog ''sales.create'' = Some c
      \<and> reg_permissionsSatisfyCapability c [''write-sales'']"
    by (auto split: option.splits)
  with capabilityAllowlist_exact
    [OF fromStaticCatalog_wf, of "[''write-sales'']" "[]" "''sales.create''"]
  show ?thesis by blast
qed

end
