(* ===== verification/Json.thy ===== *)
theory Json
  imports Errors
begin

text \<open>
  JSON values as the services receive them (token claims, tool arguments, parse trees, stored
  payloads) and the JavaScript tests the code makes on them. Numbers are integers: the code
  reads counts, identifiers and epoch seconds. An object is an association list with unique keys.
\<close>

datatype json =
  JNull
| JBool bool
| JNum int
| JStr string
| JArr "json list"
| JObj "(string \<times> json) list"

text \<open>Property access \<open>o[k]\<close> on a value the code has narrowed to an object; \<open>None\<close> is
  \<open>undefined\<close>.\<close>

fun jget :: "string \<Rightarrow> json \<Rightarrow> json option" where
  "jget k (JObj kvs) = map_of kvs k"
| "jget k _ = None"

fun jstring :: "json option \<Rightarrow> string option" where
  "jstring (Some (JStr s)) = Some s"
| "jstring _ = None"

fun jnumber :: "json option \<Rightarrow> int option" where
  "jnumber (Some (JNum n)) = Some n"
| "jnumber _ = None"

fun jarray :: "json option \<Rightarrow> json list option" where
  "jarray (Some (JArr xs)) = Some xs"
| "jarray _ = None"

text \<open>\<open>xs.filter((x): x is string => typeof x === 'string')\<close>\<close>

definition jstrings :: "json list \<Rightarrow> string list" where
  "jstrings xs = concat (map (\<lambda>x. case x of JStr s \<Rightarrow> [s] | _ \<Rightarrow> []) xs)"

text \<open>JavaScript truthiness of a value that may be \<open>undefined\<close>.\<close>

fun truthy :: "json option \<Rightarrow> bool" where
  "truthy None = False"
| "truthy (Some JNull) = False"
| "truthy (Some (JBool b)) = b"
| "truthy (Some (JNum n)) = (n \<noteq> 0)"
| "truthy (Some (JStr s)) = (s \<noteq> [])"
| "truthy (Some (JArr _)) = True"
| "truthy (Some (JObj _)) = True"

lemma set_jstrings: "set (jstrings xs) = {s. JStr s \<in> set xs}"
  by (induction xs) (auto simp: jstrings_def split: json.splits)

lemma jstrings_map_JStr [simp]: "jstrings (map JStr ss) = ss"
  by (induction ss) (auto simp: jstrings_def)

lemma jstring_Some_iff: "jstring v = Some s \<longleftrightarrow> v = Some (JStr s)"
  by (cases v rule: jstring.cases) auto

end
