(* ===== verification/Authz.thy ===== *)
theory Authz
  imports Registry Json
begin

text \<open>
  Authentication and authorization of a request at the API edge: \<open>api/src/auth/auth-context.ts\<close>,
  \<open>authenticate.ts\<close>, \<open>token-verifier.ts\<close>, \<open>service-authenticate.ts\<close>, \<open>service-token-verifier.ts\<close>,
  \<open>route-policy.ts\<close> and \<open>authorize.ts\<close>. The verification of a token's signature, issuer,
  audience and lifetime is the library \<open>jose\<close>: it is the argument \<open>jwtVerify\<close>, \<open>None\<close> when it throws.
  The active registry (\<open>getActiveRegistry()\<close>) is the argument \<open>R\<close>.
\<close>

section \<open>The authentication context\<close>

datatype jwt_audience = AudOne string | AudMany "string list"

record jwt_payload =
  pl_sub :: "string option"
  pl_iss :: "string option"
  pl_aud :: "jwt_audience option"
  pl_claims :: "(string \<times> json) list"

record auth_context =
  ac_subject :: string
  ac_issuer :: string
  ac_audience :: "string list"
  ac_email :: "string option"
  ac_username :: "string option"
  ac_givenName :: "string option"
  ac_familyName :: "string option"
  ac_roles :: "string list"
  ac_permissions :: "string list"
  ac_scopes :: "string list"
  ac_applicationUserId :: "string option"

definition claim :: "jwt_payload \<Rightarrow> string \<Rightarrow> json option" where
  "claim payload k = map_of (pl_claims payload) k"

definition extractRealmRoles :: "jwt_payload \<Rightarrow> string list" where
  "extractRealmRoles payload =
     (case claim payload ''realm_access'' of
        Some (JObj kvs) \<Rightarrow>
          (case map_of kvs ''roles'' of Some (JArr roles) \<Rightarrow> jstrings roles | _ \<Rightarrow> [])
      | _ \<Rightarrow> [])"

definition extractScopes :: "jwt_payload \<Rightarrow> string list" where
  "extractScopes payload =
     (case claim payload ''scope'' of
        Some (JStr scope) \<Rightarrow> filter (\<lambda>entry. length entry > 0) (js_split CHR '' '' scope)
      | _ \<Rightarrow> [])"

definition asString :: "json option \<Rightarrow> string option" where
  "asString v = jstring v"

definition asAudience :: "jwt_audience option \<Rightarrow> string list" where
  "asAudience v = (case v of
      Some (AudMany xs) \<Rightarrow> xs
    | Some (AudOne a) \<Rightarrow> if a = [] then [] else [a]
    | None \<Rightarrow> [])"

definition nullish :: "'a option \<Rightarrow> 'a \<Rightarrow> 'a" where
  "nullish v d = (case v of None \<Rightarrow> d | Some x \<Rightarrow> x)"

definition buildAuthContext :: "rbac_registry \<Rightarrow> jwt_payload \<Rightarrow> auth_context" where
  "buildAuthContext R payload =
     (let roles = knownRoles R (extractRealmRoles payload)
      in \<lparr>ac_subject = nullish (pl_sub payload) [],
          ac_issuer = nullish (pl_iss payload) [],
          ac_audience = asAudience (pl_aud payload),
          ac_email = asString (claim payload ''email''),
          ac_username = asString (claim payload ''preferred_username''),
          ac_givenName = asString (claim payload ''given_name''),
          ac_familyName = asString (claim payload ''family_name''),
          ac_roles = roles,
          ac_permissions = reg_permissionsForRoles R roles,
          ac_scopes = extractScopes payload,
          ac_applicationUserId = None\<rparr>)"

section \<open>Bearer tokens\<close>

definition BEARER_PREFIX :: string where
  "BEARER_PREFIX = ''Bearer ''"

definition bearer :: "exn \<Rightarrow> string option \<Rightarrow> exn + string" where
  "bearer err header =
     (case header of
        None \<Rightarrow> Inl err
      | Some h \<Rightarrow>
          if h = [] \<or> \<not> starts_with BEARER_PREFIX h then Inl err
          else let token = js_trim (drop (length BEARER_PREFIX) h)
               in if length token = 0 then Inl err else Inr token)"

definition extractBearerToken :: "string option \<Rightarrow> exn + string" where
  "extractBearerToken header = bearer (unauthenticated_error ''A bearer token is required.'') header"

definition token_verify :: "(string \<Rightarrow> jwt_payload option) \<Rightarrow> string \<Rightarrow> exn + jwt_payload" where
  "token_verify jwtVerify token =
     (case jwtVerify token of
        Some payload \<Rightarrow> Inr payload
      | None \<Rightarrow> Inl (unauthenticated_error ''The provided token is invalid or expired.''))"

definition authenticate ::
  "rbac_registry \<Rightarrow> (string \<Rightarrow> jwt_payload option) \<Rightarrow> string option \<Rightarrow> exn + auth_context" where
  "authenticate R jwtVerify header =
     (case extractBearerToken header of
        Inl e \<Rightarrow> Inl e
      | Inr token \<Rightarrow>
          (case token_verify jwtVerify token of
             Inl e \<Rightarrow> Inl e
           | Inr payload \<Rightarrow> Inr (buildAuthContext R payload)))"

definition service_token_verify ::
  "string list \<Rightarrow> (string \<Rightarrow> jwt_payload option) \<Rightarrow> string \<Rightarrow> exn + jwt_payload" where
  "service_token_verify authorizedParties jwtVerify token =
     (case jwtVerify token of
        None \<Rightarrow> Inl (unauthenticated_error ''The provided service token is invalid or expired.'')
      | Some payload \<Rightarrow>
          (case jstring (claim payload ''azp'') of
             None \<Rightarrow> Inl (unauthenticated_error ''The service token was issued to an unauthorized party.'')
           | Some azp \<Rightarrow>
               if azp = [] \<or> azp \<notin> set authorizedParties
               then Inl (unauthenticated_error ''The service token was issued to an unauthorized party.'')
               else Inr payload))"

definition service_authenticate ::
  "string list \<Rightarrow> (string \<Rightarrow> jwt_payload option) \<Rightarrow> string option \<Rightarrow> exn + unit" where
  "service_authenticate authorizedParties jwtVerify header =
     (case bearer (unauthenticated_error ''A service token is required.'') header of
        Inl e \<Rightarrow> Inl e
      | Inr token \<Rightarrow>
          (case service_token_verify authorizedParties jwtVerify token of
             Inl e \<Rightarrow> Inl e
           | Inr payload \<Rightarrow> Inr ()))"

section \<open>Route policies\<close>

text \<open>The union type of a declared policy, with the value of an unsupported shape at run time.\<close>

datatype route_access_policy =
  PublicRoute string
| AuthenticatedRoute string "bool option"
| PermissionRoute string string "bool option"
| UnsupportedRoute string

fun rap_routeId :: "route_access_policy \<Rightarrow> string" where
  "rap_routeId (PublicRoute r) = r"
| "rap_routeId (AuthenticatedRoute r a) = r"
| "rap_routeId (PermissionRoute r p a) = r"
| "rap_routeId (UnsupportedRoute r) = r"

text \<open>The module-level registry of declared policies is a \<open>Map\<close> in insertion order.\<close>

type_synonym policy_store = "(string \<times> route_access_policy) list"

definition defineRoutePolicy :: "route_access_policy \<Rightarrow> (policy_store, route_access_policy) op" where
  "defineRoutePolicy policy = (\<lambda>store.
     if rap_routeId policy \<in> fst ` set store
     then (Inl (OtherErr (''Duplicate route policy registered for routeId \"'' @ rap_routeId policy @ ''\".'')), store)
     else (Inr policy, AList.update (rap_routeId policy) policy store))"

definition getRegisteredPolicies :: "policy_store \<Rightarrow> route_access_policy list" where
  "getRegisteredPolicies store = map snd store"

definition resolveEffectivePolicy :: "rbac_registry \<Rightarrow> route_access_policy \<Rightarrow> route_policy_view" where
  "resolveEffectivePolicy R policy =
     (case routePolicy R (rap_routeId policy) of
        Some fromRegistry \<Rightarrow> fromRegistry
      | None \<Rightarrow>
          (case policy of
             PublicRoute r \<Rightarrow>
               \<lparr>rpv_routeId = r, rpv_kind = ''public'', rpv_permissionName = None, rpv_audit = False\<rparr>
           | AuthenticatedRoute r audit \<Rightarrow>
               \<lparr>rpv_routeId = r, rpv_kind = ''authenticated'', rpv_permissionName = None,
                rpv_audit = (audit = Some True)\<rparr>
           | PermissionRoute r p audit \<Rightarrow>
               \<lparr>rpv_routeId = r, rpv_kind = ''permission'', rpv_permissionName = Some p,
                rpv_audit = (audit = Some True)\<rparr>
           | UnsupportedRoute r \<Rightarrow>
               \<lparr>rpv_routeId = r, rpv_kind = ''permission'', rpv_permissionName = None,
                rpv_audit = False\<rparr>))"

text \<open>What \<open>authorize\<close> writes to the request log.\<close>

datatype access_log =
  AuthenticatedAccess string string
| AuthorizationDenied string "string option" string
| AuthorizationGranted string string string

definition authorize ::
  "rbac_registry \<Rightarrow> route_access_policy \<Rightarrow> auth_context option \<Rightarrow> (exn + unit) \<times> access_log list" where
  "authorize R policy req_auth =
     (let effective = resolveEffectivePolicy R policy
      in if rpv_kind effective = ''public'' then (Inr (), [])
         else case req_auth of
           None \<Rightarrow> (Inl unauthenticated_default, [])
         | Some auth \<Rightarrow>
             if rpv_kind effective = ''authenticated'' then
               (Inr (), if rpv_audit effective
                        then [AuthenticatedAccess (rpv_routeId effective) (ac_subject auth)] else [])
             else
               let required = rpv_permissionName effective
               in case required of
                    None \<Rightarrow> (Inl forbidden_default,
                             [AuthorizationDenied (rpv_routeId effective) required (ac_subject auth)])
                  | Some p \<Rightarrow>
                      if p = [] \<or> p \<notin> set (ac_permissions auth)
                      then (Inl forbidden_default,
                            [AuthorizationDenied (rpv_routeId effective) required (ac_subject auth)])
                      else (Inr (), if rpv_audit effective
                                    then [AuthorizationGranted (rpv_routeId effective) p (ac_subject auth)]
                                    else []))"

text \<open>A protected route: \<open>authenticate\<close>, then \<open>authorize(policy)\<close>, then the handler
  (\<open>router.get(path, authenticate, authorize(policy), handler)\<close>).\<close>

definition protected_request ::
  "rbac_registry \<Rightarrow> (string \<Rightarrow> jwt_payload option) \<Rightarrow> route_access_policy \<Rightarrow> string option
   \<Rightarrow> exn + auth_context" where
  "protected_request R jwtVerify policy header =
     (case authenticate R jwtVerify header of
        Inl e \<Rightarrow> Inl e
      | Inr auth \<Rightarrow>
          (case fst (authorize R policy (Some auth)) of
             Inl e \<Rightarrow> Inl e
           | Inr _ \<Rightarrow> Inr auth))"

section \<open>Lemmas\<close>

lemma bearer_Inr_iff:
  "bearer err header = Inr token \<longleftrightarrow>
     (\<exists>rest. header = Some (BEARER_PREFIX @ rest) \<and> js_trim rest = token \<and> token \<noteq> [])"
proof
  assume "bearer err header = Inr token"
  then obtain h where h: "header = Some h" "starts_with BEARER_PREFIX h"
      "js_trim (drop (length BEARER_PREFIX) h) = token" "token \<noteq> []"
    by (auto simp: bearer_def Let_def split: option.splits if_splits)
  then have "h = BEARER_PREFIX @ drop (length BEARER_PREFIX) h"
    by (metis starts_with_def append_take_drop_id)
  with h show "\<exists>rest. header = Some (BEARER_PREFIX @ rest) \<and> js_trim rest = token \<and> token \<noteq> []"
    by blast
qed (auto simp: bearer_def BEARER_PREFIX_def starts_with_def)

lemma authenticate_Inr_iff:
  "authenticate R jv header = Inr auth \<longleftrightarrow>
     (\<exists>rest payload. header = Some (BEARER_PREFIX @ rest) \<and> js_trim rest \<noteq> []
        \<and> jv (js_trim rest) = Some payload \<and> auth = buildAuthContext R payload)"
proof -
  have "authenticate R jv header = Inr auth \<longleftrightarrow>
     (\<exists>token payload. extractBearerToken header = Inr token \<and> jv token = Some payload
        \<and> auth = buildAuthContext R payload)"
    by (auto simp: authenticate_def token_verify_def split: sum.splits option.splits)
  then show ?thesis
    by (auto simp: extractBearerToken_def bearer_Inr_iff)
qed

lemma buildAuthContext_permissions:
  "ac_permissions (buildAuthContext R payload) = reg.effective R (extractRealmRoles payload)"
  by (simp add: buildAuthContext_def reg.effective_def Let_def)

lemma set_buildAuthContext_permissions:
  "p \<in> set (ac_permissions (buildAuthContext R payload)) \<longleftrightarrow>
     (\<exists>role \<in> set (extractRealmRoles payload). hasRole R role \<and> reg_grants R role p)"
  by (simp only: buildAuthContext_permissions reg.effective_iff)

lemma authorize_Inr_iff:
  "fst (authorize R pol auth) = Inr () \<longleftrightarrow>
     rpv_kind (resolveEffectivePolicy R pol) = ''public''
     \<or> (\<exists>a. auth = Some a \<and>
          (rpv_kind (resolveEffectivePolicy R pol) = ''authenticated''
           \<or> (\<exists>p. rpv_permissionName (resolveEffectivePolicy R pol) = Some p \<and> p \<noteq> []
                   \<and> p \<in> set (ac_permissions a))))"
  by (auto simp: authorize_def Let_def split: option.splits if_splits)

lemma defineRoutePolicy_ok:
  "defineRoutePolicy p s = (Inr q, s') \<longleftrightarrow>
     rap_routeId p \<notin> fst ` set s \<and> q = p \<and> s' = s @ [(rap_routeId p, p)]"
proof -
  have "AList.update k v s = s @ [(k, v)]" if "k \<notin> fst ` set s" for k and v :: route_access_policy
    using that by (induction s) auto
  then show ?thesis by (auto simp: defineRoutePolicy_def)
qed

section \<open>Properties\<close>

text \<open>C9: The authorization decision is complete and denies by default. A request passes exactly
  when the effective policy is public, or the caller is authenticated and the policy either asks
  for no permission or names a non-empty permission the caller holds; every other request is
  answered 401 when there is no authentication context and 403 when there is one.\<close>

theorem authorize_decision:
  "(fst (authorize R pol auth) = Inr () \<longleftrightarrow>
     rpv_kind (resolveEffectivePolicy R pol) = ''public''
     \<or> (\<exists>a. auth = Some a \<and>
          (rpv_kind (resolveEffectivePolicy R pol) = ''authenticated''
           \<or> (\<exists>p. rpv_permissionName (resolveEffectivePolicy R pol) = Some p \<and> p \<noteq> []
                   \<and> p \<in> set (ac_permissions a)))))
   \<and> fst (authorize R pol auth) \<in>
       {Inr (), Inl (if auth = None then unauthenticated_default else forbidden_default)}
   \<and> fst (authorize fromStaticCatalog (UnsupportedRoute rid) (Some a)) = Inl forbidden_default"
proof (intro conjI)
  show "fst (authorize R pol auth) \<in>
      {Inr (), Inl (if auth = None then unauthenticated_default else forbidden_default)}"
    by (auto simp: authorize_def Let_def split: option.splits)
  show "fst (authorize fromStaticCatalog (UnsupportedRoute rid) (Some a)) = Inl forbidden_default"
    by (simp add: authorize_def resolveEffectivePolicy_def routePolicy_def fromStaticCatalog_def
        mkRegistry_def static_registry_data_def js_map_def Let_def)
qed (rule authorize_Inr_iff)

text \<open>End-to-end safety of a protected route. When a request to a route whose effective
  policy names a permission is let through, its header was a bearer token that the verifier
  accepted, and one of the realm roles claimed in that token is a role of the active registry
  that grants the named permission. Roles the registry does not know grant nothing.\<close>

theorem protected_request_safe:
  assumes ok: "protected_request R jwtVerify pol header = Inr auth"
    and kind: "rpv_kind (resolveEffectivePolicy R pol) \<notin> {''public'', ''authenticated''}"
  shows "\<exists>rest payload p role. header = Some (''Bearer '' @ rest)
    \<and> jwtVerify (js_trim rest) = Some payload
    \<and> rpv_permissionName (resolveEffectivePolicy R pol) = Some p \<and> p \<noteq> []
    \<and> role \<in> set (extractRealmRoles payload) \<and> hasRole R role \<and> reg_grants R role p"
proof -
  from ok have a: "authenticate R jwtVerify header = Inr auth"
    and z: "fst (authorize R pol (Some auth)) = Inr ()"
    by (auto simp: protected_request_def split: sum.splits)
  from z kind obtain p where p: "rpv_permissionName (resolveEffectivePolicy R pol) = Some p"
      "p \<noteq> []" "p \<in> set (ac_permissions auth)"
    by (auto simp: authorize_Inr_iff)
  from a obtain rest payload where "header = Some (BEARER_PREFIX @ rest)"
      "jwtVerify (js_trim rest) = Some payload" "auth = buildAuthContext R payload"
    by (auto simp: authenticate_Inr_iff)
  with p show ?thesis
    by (auto simp: set_buildAuthContext_permissions BEARER_PREFIX_def)
qed

definition example_payload :: jwt_payload where
  "example_payload = \<lparr>pl_sub = Some ''u1'', pl_iss = None, pl_aud = Some (AudOne ''nova-api''),
     pl_claims = [(''realm_access'',
       JObj [(''roles'', JArr [JStr ''sales-user'', JNum 3, JStr ''root''])])]\<rparr>"

definition example_verify :: "string \<Rightarrow> jwt_payload option" where
  "example_verify t = (if t = ''tok'' then Some example_payload else None)"

theorem protected_request_safe_witness:
  "\<exists>auth. protected_request fromStaticCatalog example_verify
            (PermissionRoute ''sales.list'' ''read-sales'' (Some True)) (Some ''Bearer  tok '') = Inr auth
   \<and> (\<exists>rest payload p role. Some ''Bearer  tok '' = Some (''Bearer '' @ rest)
    \<and> example_verify (js_trim rest) = Some payload
    \<and> rpv_permissionName (resolveEffectivePolicy fromStaticCatalog
         (PermissionRoute ''sales.list'' ''read-sales'' (Some True))) = Some p \<and> p \<noteq> []
    \<and> role \<in> set (extractRealmRoles payload) \<and> hasRole fromStaticCatalog role
    \<and> reg_grants fromStaticCatalog role p)"
proof -
  let ?pol = "PermissionRoute ''sales.list'' ''read-sales'' (Some True)"
  have "case protected_request fromStaticCatalog example_verify ?pol (Some ''Bearer  tok '') of
      Inl _ \<Rightarrow> False | Inr _ \<Rightarrow> True"
    by code_simp
  then obtain auth where ok:
      "protected_request fromStaticCatalog example_verify ?pol (Some ''Bearer  tok '') = Inr auth"
    by (auto split: sum.splits)
  have "rpv_kind (resolveEffectivePolicy fromStaticCatalog ?pol) \<notin> {''public'', ''authenticated''}"
    by code_simp
  from protected_request_safe [OF ok this] ok show ?thesis by blast
qed

text \<open>An internal endpoint lets a call through exactly when its header carries a non-empty
  bearer token that the verifier accepts (issuer, audience, signature, lifetime) and whose \<open>azp\<close>
  claim is one of the configured parties; an empty or missing \<open>azp\<close> is refused even if the
  configuration lists the empty string.\<close>

theorem service_authenticate_exact:
  "service_authenticate parties jwtVerify header = Inr () \<longleftrightarrow>
     (\<exists>rest payload azp. header = Some (''Bearer '' @ rest) \<and> js_trim rest \<noteq> []
        \<and> jwtVerify (js_trim rest) = Some payload
        \<and> claim payload ''azp'' = Some (JStr azp) \<and> azp \<noteq> [] \<and> azp \<in> set parties)"
proof -
  have v: "service_token_verify parties jwtVerify t = Inr payload \<longleftrightarrow>
      jwtVerify t = Some payload \<and>
      (\<exists>azp. claim payload ''azp'' = Some (JStr azp) \<and> azp \<noteq> [] \<and> azp \<in> set parties)" for t payload
    by (auto simp: service_token_verify_def jstring_Some_iff split: option.splits if_splits)
  have "service_authenticate parties jwtVerify header = Inr () \<longleftrightarrow>
     (\<exists>token payload. bearer (unauthenticated_error ''A service token is required.'') header = Inr token
        \<and> service_token_verify parties jwtVerify token = Inr payload)"
    by (auto simp: service_authenticate_def split: sum.splits)
  then show ?thesis
    by (auto simp: bearer_Inr_iff v BEARER_PREFIX_def)
qed

end
