(* ===== verification/Rbac_Db.thy ===== *)
theory Rbac_Db
  imports Authz
begin

text \<open>
  The RBAC tables of PostgreSQL as the migrations declare them
  (\<open>packages/database/src/migrations/1717200000000-InitialNovaSchema.ts\<close> and
  \<open>1717800000000-DynamicRbac.ts\<close>): rows as records, primary and foreign keys and checks as
  guards of the statements, a violated constraint as the driver's error. On them, the load of the
  registry (\<open>api/src/rbac/rbac-registry.service.ts\<close>), the reconciliation of code-declared route
  policies (\<open>route-policy-reconciler.ts\<close>) and the RBAC part of the seed
  (\<open>packages/database/src/seeds/seed.ts\<close>). A table is a list in heap order.
\<close>

record capability_row =
  cr_id :: string
  cr_kind :: string
  cr_mode :: string
  cr_risk :: string
  cr_resourceScoped :: bool
  cr_delegated :: bool
  cr_enabled :: bool
  cr_requiresApproval :: bool
  cr_isSystem :: bool
  cr_description :: "string option"

record route_policy_row =
  rr_routeId :: string
  rr_kind :: string
  rr_permissionName :: "string option"
  rr_audit :: bool
  rr_isSystem :: bool

record view_permission_row =
  vr_viewName :: string
  vr_mode :: string
  vr_permissionName :: string
  vr_isSystem :: bool

record rbac_audit_row =
  au_actorSubject :: string
  au_actorUserId :: "string option"
  au_action :: string
  au_targetType :: string
  au_targetId :: string
  au_details :: "json option"

record rbac_db =
  db_roles :: "role_view list"
  db_permissions :: "permission_view list"
  db_rolePermissions :: "(string \<times> string) list"
  db_userRoles :: "(string \<times> string) list"
  db_capabilities :: "capability_row list"
  db_capabilityPermissions :: "(string \<times> string) list"
  db_routePolicies :: "route_policy_row list"
  db_viewPermissions :: "view_permission_row list"
  db_revision :: "int option"
  db_rbacAudit :: "rbac_audit_row list"

section \<open>Constraints\<close>

definition role_names :: "'z rbac_db_scheme \<Rightarrow> string list" where
  "role_names db = map rv_name (db_roles db)"

definition permission_names :: "'z rbac_db_scheme \<Rightarrow> string list" where
  "permission_names db = map pv_name (db_permissions db)"

definition capability_ids :: "'z rbac_db_scheme \<Rightarrow> string list" where
  "capability_ids db = map cr_id (db_capabilities db)"

definition capability_row_ok :: "capability_row \<Rightarrow> bool" where
  "capability_row_ok c \<longleftrightarrow> cr_kind c \<in> {''agent-skill'', ''mcp-tool''}
     \<and> cr_mode c \<in> {''read'', ''write''} \<and> cr_risk c \<in> {''low'', ''high''}"

definition route_row_ok :: "route_policy_row \<Rightarrow> bool" where
  "route_row_ok r \<longleftrightarrow> rr_kind r \<in> {''public'', ''authenticated'', ''permission''}
     \<and> (rr_kind r = ''permission'' \<longleftrightarrow> rr_permissionName r \<noteq> None)"

text \<open>The constraints the migrations declare, as one executable predicate.\<close>

definition rbac_db_ok :: "'z rbac_db_scheme \<Rightarrow> bool" where
  "rbac_db_ok db \<longleftrightarrow>
     distinct (role_names db) \<and> distinct (permission_names db) \<and> distinct (capability_ids db)
   \<and> distinct (db_rolePermissions db) \<and> distinct (db_userRoles db)
   \<and> distinct (db_capabilityPermissions db)
   \<and> distinct (map rr_routeId (db_routePolicies db))
   \<and> distinct (map (\<lambda>v. (vr_viewName v, vr_mode v)) (db_viewPermissions db))
   \<and> list_all (\<lambda>(r, p). r \<in> set (role_names db) \<and> p \<in> set (permission_names db)) (db_rolePermissions db)
   \<and> list_all (\<lambda>(u, r). r \<in> set (role_names db)) (db_userRoles db)
   \<and> list_all (\<lambda>(c, p). c \<in> set (capability_ids db) \<and> p \<in> set (permission_names db)) (db_capabilityPermissions db)
   \<and> list_all capability_row_ok (db_capabilities db)
   \<and> list_all (\<lambda>r. route_row_ok r \<and> (case rr_permissionName r of None \<Rightarrow> True
                                       | Some p \<Rightarrow> p \<in> set (permission_names db))) (db_routePolicies db)
   \<and> list_all (\<lambda>v. vr_mode v \<in> {''read'', ''write''} \<and> vr_permissionName v \<in> set (permission_names db))
       (db_viewPermissions db)"

text \<open>A statement runs its update and fails when the result violates a constraint; foreign keys
  that cascade are part of the update.\<close>

definition statement :: "('z rbac_db_scheme \<Rightarrow> 'z rbac_db_scheme) \<Rightarrow> ('z rbac_db_scheme, unit) op" where
  "statement f = checked_update (\<lambda>db. rbac_db_ok (f db)) f"

lemma preserves_statement: "preserves rbac_db_ok (statement f)"
  unfolding statement_def by (rule preserves_checked_update)

definition delete_role_row :: "string \<Rightarrow> 'z rbac_db_scheme \<Rightarrow> 'z rbac_db_scheme" where
  "delete_role_row name db =
     db\<lparr>db_roles := filter (\<lambda>r. rv_name r \<noteq> name) (db_roles db),
        db_rolePermissions := filter (\<lambda>(r, p). r \<noteq> name) (db_rolePermissions db)\<rparr>"

definition delete_permission_row :: "string \<Rightarrow> 'z rbac_db_scheme \<Rightarrow> 'z rbac_db_scheme" where
  "delete_permission_row name db =
     db\<lparr>db_permissions := filter (\<lambda>p. pv_name p \<noteq> name) (db_permissions db),
        db_rolePermissions := filter (\<lambda>(r, p). p \<noteq> name) (db_rolePermissions db),
        db_capabilityPermissions := filter (\<lambda>(c, p). p \<noteq> name) (db_capabilityPermissions db)\<rparr>"

definition delete_capability_row :: "string \<Rightarrow> 'z rbac_db_scheme \<Rightarrow> 'z rbac_db_scheme" where
  "delete_capability_row i db =
     db\<lparr>db_capabilities := filter (\<lambda>c. cr_id c \<noteq> i) (db_capabilities db),
        db_capabilityPermissions := filter (\<lambda>(c, p). c \<noteq> i) (db_capabilityPermissions db)\<rparr>"

section \<open>Loading the registry\<close>

definition readRevision :: "'z rbac_db_scheme \<Rightarrow> int" where
  "readRevision db = (case db_revision db of None \<Rightarrow> 0 | Some r \<Rightarrow> r)"

text \<open>\<open>(rolePermissions[row.roleName] ??= []).push(row.permissionName)\<close> over the rows.\<close>

definition push_at :: "('k \<times> 'v list) list \<Rightarrow> 'k \<times> 'v \<Rightarrow> ('k \<times> 'v list) list" where
  "push_at m row =
     AList.update (fst row)
       ((case map_of m (fst row) of None \<Rightarrow> [] | Some vs \<Rightarrow> vs) @ [snd row]) m"

definition capability_view_of :: "(string \<times> string list) list \<Rightarrow> capability_row \<Rightarrow> capability_view" where
  "capability_view_of requiredByCapability c =
     \<lparr>cv_id = cr_id c, cv_kind = cr_kind c, cv_mode = cr_mode c,
      cv_risk = (if cr_risk c = ''high'' then RiskHigh else RiskLow),
      cv_resourceScoped = cr_resourceScoped c, cv_delegated = cr_delegated c,
      cv_enabled = cr_enabled c, cv_requiresApproval = cr_requiresApproval c,
      cv_isSystem = cr_isSystem c,
      cv_requiredPermissions =
        (case map_of requiredByCapability (cr_id c) of None \<Rightarrow> [] | Some ps \<Rightarrow> ps)\<rparr>"

text \<open>The eight reads run concurrently on a connection pool, so each sees a committed state of
  its own: one for the policy tables' rows \<open>d\<close> and one for the revision row \<open>dr\<close>.\<close>

definition loadData_from :: "'z rbac_db_scheme \<Rightarrow> 'z rbac_db_scheme \<Rightarrow> registry_data" where
  "loadData_from d dr =
     (let rolePermissions =
            foldl push_at (js_map (map (\<lambda>r. (rv_name r, [])) (db_roles d))) (db_rolePermissions d);
          requiredByCapability = foldl push_at [] (db_capabilityPermissions d)
      in \<lparr>rd_revision = readRevision dr,
          rd_roles = db_roles d,
          rd_permissions = db_permissions d,
          rd_rolePermissions = rolePermissions,
          rd_capabilities = map (capability_view_of requiredByCapability) (db_capabilities d),
          rd_routePolicies =
            map (\<lambda>p. \<lparr>rpv_routeId = rr_routeId p, rpv_kind = rr_kind p,
                       rpv_permissionName = rr_permissionName p, rpv_audit = rr_audit p\<rparr>)
              (db_routePolicies d),
          rd_viewPermissions =
            map (\<lambda>v. \<lparr>vpv_viewName = vr_viewName v, vpv_mode = vr_mode v,
                       vpv_permissionName = vr_permissionName v\<rparr>) (db_viewPermissions d)\<rparr>)"

definition loadData :: "'z rbac_db_scheme \<Rightarrow> registry_data" where
  "loadData db = loadData_from db db"

text \<open>\<open>pollForChanges\<close>: the revision read and the reload may each fail (\<open>None\<close>); a failure keeps
  the last known policy.\<close>

definition pollForChanges ::
  "int option \<Rightarrow> registry_data option \<Rightarrow> rbac_registry \<Rightarrow> rbac_registry" where
  "pollForChanges revision_read reload current =
     (case revision_read of
        None \<Rightarrow> current
      | Some revision \<Rightarrow>
          if revision \<noteq> registry_revision current
          then (case reload of None \<Rightarrow> current | Some data \<Rightarrow> mkRegistry data)
          else current)"

section \<open>Lemmas on loading\<close>

lemma map_of_push_at:
  "map_of (push_at m row) k =
     (if k = fst row then Some ((case map_of m k of None \<Rightarrow> [] | Some vs \<Rightarrow> vs) @ [snd row])
      else map_of m k)"
  by (simp add: push_at_def update_conv')

lemma map_of_foldl_push:
  "map_of (foldl push_at m rows) k =
     (if (\<exists>v. (k, v) \<in> set rows) \<or> map_of m k \<noteq> None
      then Some ((case map_of m k of None \<Rightarrow> [] | Some vs \<Rightarrow> vs) @ map snd (filter (\<lambda>r. fst r = k) rows))
      else None)"
proof (induction rows arbitrary: m)
  case (Cons r rows)
  show ?case
    by (cases r) (auto simp: Cons.IH map_of_push_at split: option.splits)
qed (auto split: option.splits)

lemma map_of_const_Nil: "map_of (js_map (map (\<lambda>r. (f r, [])) xs)) k = (if k \<in> f ` set xs then Some [] else None)"
proof -
  have "map_of (rev (map (\<lambda>r. (f r, [])) xs)) k = (if k \<in> f ` set xs then Some [] else None)"
    by (induction xs) (auto simp: map_add_def split: option.splits)
  then show ?thesis by (simp add: map_of_js_map)
qed

lemma loaded_rolePermissions:
  assumes "rbac_db_ok d"
  shows "map_of (rd_rolePermissions (loadData_from d dr)) r =
     (if r \<in> set (role_names d)
      then Some (map snd (filter (\<lambda>x. fst x = r) (db_rolePermissions d))) else None)"
proof -
  have "(\<exists>v. (r, v) \<in> set (db_rolePermissions d)) \<Longrightarrow> r \<in> set (role_names d)"
    using assms by (auto simp: rbac_db_ok_def list_all_iff)
  then show ?thesis
    by (auto simp: loadData_from_def Let_def map_of_foldl_push map_of_const_Nil role_names_def)
qed

lemma distinct_foldl_push:
  "distinct (map fst m) \<Longrightarrow> distinct (map fst (foldl push_at m rows))"
  by (induction rows arbitrary: m) (auto simp: push_at_def intro: distinct_update)

lemma capability_view_of_simps [simp]:
  "cv_id (capability_view_of m c) = cr_id c"
  "cv_enabled (capability_view_of m c) = cr_enabled c"
  by (simp_all add: capability_view_of_def)

lemma loaded_required:
  "cv_requiredPermissions (capability_view_of (foldl push_at [] (db_capabilityPermissions d)) c) =
     map snd (filter (\<lambda>x. fst x = cr_id c) (db_capabilityPermissions d))"
  by (auto simp: capability_view_of_def map_of_foldl_push filter_empty_conv split: option.splits)

lemma loaded_satisfies_iff:
  "reg_permissionsSatisfyCapability (capability_view_of (foldl push_at [] (db_capabilityPermissions d)) c) ps
   \<longleftrightarrow> cr_enabled c \<and> (\<exists>q. (cr_id c, q) \<in> set (db_capabilityPermissions d))
       \<and> (\<forall>q. (cr_id c, q) \<in> set (db_capabilityPermissions d) \<longrightarrow> q \<in> set ps)"
proof -
  let ?req = "map snd (filter (\<lambda>x. fst x = cr_id c) (db_capabilityPermissions d))"
  have s: "set ?req = {q. (cr_id c, q) \<in> set (db_capabilityPermissions d)}" by force
  have "?req \<noteq> [] \<longleftrightarrow> (\<exists>q. (cr_id c, q) \<in> set (db_capabilityPermissions d))"
    unfolding set_empty [symmetric] s by blast
  with s show ?thesis unfolding reg_satisfies_iff loaded_required by auto
qed

lemma loaded_wf:
  assumes "rbac_db_ok d"
  shows "registry_wf (mkRegistry (loadData_from d dr))"
proof -
  have "distinct (map rpv_routeId (rd_routePolicies (loadData_from d dr)))"
    "distinct (map cv_id (rd_capabilities (loadData_from d dr)))"
    "distinct (map (\<lambda>v. (vpv_viewName v, vpv_mode v)) (rd_viewPermissions (loadData_from d dr)))"
    "distinct (map rv_name (rd_roles (loadData_from d dr)))"
    using assms by (auto simp: loadData_from_def Let_def rbac_db_ok_def capability_ids_def role_names_def
        capability_view_of_def o_def)
  moreover have "distinct (map fst (rd_rolePermissions (loadData_from d dr)))"
    by (simp add: loadData_from_def Let_def distinct_foldl_push)
  ultimately show ?thesis by (simp add: registry_wf_def)
qed

lemma mkRegistry_rolePermissionMap:
  assumes "distinct (map fst (rd_rolePermissions data))"
  shows "map_of (rg_rolePermissionMap (mkRegistry data)) r =
    map_option js_set (map_of (rd_rolePermissions data) r)"
proof -
  have d: "distinct (map fst (map (\<lambda>(role, perms). (role, js_set perms)) (rd_rolePermissions data)))"
    using assms by (simp add: o_def case_prod_unfold)
  have "map_of (map (\<lambda>(role, perms). (role, js_set perms)) xs) r = map_option js_set (map_of xs r)" for xs
    by (induction xs) auto
  then show ?thesis
    by (simp add: mkRegistry_def map_of_js_map_distinct [OF d])
qed

lemma loaded_grants:
  assumes "rbac_db_ok d"
  shows "reg_grants (mkRegistry (loadData_from d dr)) r p \<longleftrightarrow> (r, p) \<in> set (db_rolePermissions d)"
proof -
  have "distinct (map fst (rd_rolePermissions (loadData_from d dr)))"
    by (simp add: loadData_from_def Let_def distinct_foldl_push)
  moreover have "(r, p) \<in> set (db_rolePermissions d) \<Longrightarrow> r \<in> set (role_names d)"
    using assms by (auto simp: rbac_db_ok_def list_all_iff)
  ultimately show ?thesis
    by (auto simp: reg_grants_def mkRegistry_rolePermissionMap loaded_rolePermissions [OF assms] image_iff)
qed

lemma loaded_hasRole: "hasRole (mkRegistry (loadData_from d dr)) r \<longleftrightarrow> r \<in> set (role_names d)"
  by (simp add: hasRole_def mkRegistry_def loadData_from_def Let_def role_names_def)

end
