(* ===== verification/Money.thy ===== *)
theory Money
  imports Json "HOL-Library.Signed_Division"
begin

text \<open>
  The decimal-safe money helpers of \<open>api/src/lib/money.ts\<close> and the pagination envelope of
  \<open>api/src/http/pagination.ts\<close>. A \<open>bigint\<close> is an \<open>int\<close>; the division of BigInts truncates
  toward zero (\<open>sdiv\<close>).
\<close>

definition decimalToScaledBigInt :: "string \<Rightarrow> nat \<Rightarrow> exn + int" where
  "decimalToScaledBigInt value scale =
     (let trimmed = js_trim value;
          negative = starts_with ''-'' trimmed;
          unsigned = (if negative then drop 1 trimmed else trimmed);
          parts = js_split (CHR ''.'') unsigned;
          intPart = hd parts;
          fracPart = (case tl parts of [] \<Rightarrow> [] | f # _ \<Rightarrow> f)
      in if \<not> list_all is_digit intPart \<or> \<not> list_all is_digit fracPart
         then Inl (OtherErr (''Invalid decimal value: '' @ value))
         else let fracPadded = take scale (fracPart @ replicate scale (CHR ''0''));
                  magnitude = int (digits_val ((if intPart = [] then ''0'' else intPart) @ fracPadded))
              in Inr (if negative then - magnitude else magnitude))"

definition padStart :: "nat \<Rightarrow> char \<Rightarrow> string \<Rightarrow> string" where
  "padStart n c s = replicate (n - length s) c @ s"

definition scaledBigIntToDecimal :: "int \<Rightarrow> nat \<Rightarrow> string" where
  "scaledBigIntToDecimal value scale =
     (let negative = value < 0;
          digits = padStart (scale + 1) (CHR ''0'') (show_nat (nat (if negative then - value else value)));
          cut = length digits - scale;
          result = (if scale > 0 then take cut digits @ ''.'' @ drop cut digits else digits)
      in if negative then ''-'' @ result else result)"

record receipt_line =
  rl_priceCents :: int
  rl_quantity :: int

definition receipt_subtotal :: "receipt_line list \<Rightarrow> int" where
  "receipt_subtotal lines = foldl (\<lambda>sum line. sum + rl_priceCents line * rl_quantity line) 0 lines"

definition computeReceiptTotalCents :: "receipt_line list \<Rightarrow> string option \<Rightarrow> exn + int" where
  "computeReceiptTotalCents lines discountPercent =
     (let subtotal = receipt_subtotal lines
      in if discountPercent = None \<or> discountPercent = Some [] then Inr subtotal
         else case decimalToScaledBigInt (the discountPercent) 2 of
             Inl e \<Rightarrow> Inl e
           | Inr centiPercent \<Rightarrow>
               let retained = 10000 - centiPercent
               in Inr ((subtotal * retained + 5000) sdiv 10000))"

section \<open>Pagination\<close>

record 'a paginated_result =
  pr_items :: "'a list"
  pr_page :: nat
  pr_pageSize :: nat
  pr_total :: nat
  pr_totalPages :: nat

text \<open>\<open>Math.ceil(total / pageSize)\<close> for a page size of at least one.\<close>

definition ceil_div :: "nat \<Rightarrow> nat \<Rightarrow> nat" where
  "ceil_div a b = (a + b - 1) div b"

definition buildPaginatedResult :: "'a list \<Rightarrow> nat \<Rightarrow> nat \<Rightarrow> nat \<Rightarrow> 'a paginated_result" where
  "buildPaginatedResult items count page pageSize =
     \<lparr>pr_items = items, pr_page = page, pr_pageSize = pageSize, pr_total = count,
      pr_totalPages = max 1 (ceil_div count pageSize)\<rparr>"

text \<open>The page a repository returns: \<open>skip((page - 1) * pageSize).take(pageSize)\<close>.\<close>

definition page_slice :: "nat \<Rightarrow> nat \<Rightarrow> 'a list \<Rightarrow> 'a list" where
  "page_slice page pageSize xs = take pageSize (drop ((page - 1) * pageSize) xs)"

section \<open>Lemmas\<close>

lemma padStart_digits: "list_all is_digit s \<Longrightarrow> list_all is_digit (padStart n (CHR ''0'') s)"
  by (auto simp: padStart_def list_all_iff is_digit_def)

lemma length_padStart: "n \<le> length (padStart n c s)"
  by (simp add: padStart_def)

lemma digits_val_padStart [simp]: "digits_val (padStart n (CHR ''0'') s) = digits_val s"
  by (simp add: padStart_def digits_val_zeros)

lemma digit_no_dot: "list_all is_digit s \<Longrightarrow> CHR ''.'' \<notin> set s"
  by (auto simp: list_all_iff)

text \<open>Parsing a decimal of the shape the formatter writes.\<close>

lemma parse_unsigned:
  assumes i: "list_all is_digit ip" "ip \<noteq> []" and f: "list_all is_digit fp" and fp: "fp \<noteq> []"
  shows "decimalToScaledBigInt (ip @ ''.'' @ fp) (length fp + k) = Inr (int (digits_val (ip @ fp)) * 10 ^ k)"
    and "decimalToScaledBigInt (''-'' @ ip @ ''.'' @ fp) (length fp + k) = Inr (- (int (digits_val (ip @ fp)) * 10 ^ k))"
proof -
  have pad: "take (length fp + k) (fp @ replicate (length fp + k) (CHR ''0'')) = fp @ replicate k (CHR ''0'')"
    by simp
  have val: "digits_val (ip @ fp @ replicate k (CHR ''0'')) = digits_val (ip @ fp) * 10 ^ k"
    using digits_val_append_zeros [of "ip @ fp" k] by simp
  have hd: "is_digit (hd ip)" and lst: "is_digit (last fp)"
    using i f fp by (auto simp: list_all_iff)
  then have "hd ip \<noteq> CHR ''-''" by auto
  then have neg: "\<not> starts_with ''-'' (ip @ ''.'' @ fp)"
    using i(2) by (cases ip) (auto simp: starts_with_def)
  have sp: "js_split (CHR ''.'') (ip @ ''.'' @ fp) = [ip, fp]"
    using js_split_append [of "CHR ''.''" ip fp] digit_no_dot [OF i(1)] digit_no_dot [OF f]
    by (simp add: js_split_no_sep)
  have t: "js_trim (ip @ ''.'' @ fp) = ip @ ''.'' @ fp"
    using i(2) fp hd lst by (intro js_trim_noop) (auto simp: is_digit_not_space)
  have t': "js_trim (''-'' @ ip @ ''.'' @ fp) = ''-'' @ ip @ ''.'' @ fp"
    using fp lst by (intro js_trim_noop) (auto simp: is_digit_not_space)
  show "decimalToScaledBigInt (ip @ ''.'' @ fp) (length fp + k) = Inr (int (digits_val (ip @ fp)) * 10 ^ k)"
    using i f sp neg t val unfolding decimalToScaledBigInt_def Let_def by (simp add: pad)
  show "decimalToScaledBigInt (''-'' @ ip @ ''.'' @ fp) (length fp + k) = Inr (- (int (digits_val (ip @ fp)) * 10 ^ k))"
    using i f sp t' val unfolding decimalToScaledBigInt_def Let_def by (simp add: pad starts_with_def)
qed

lemma parse_integer:
  assumes "list_all is_digit ip" "ip \<noteq> []"
  shows "decimalToScaledBigInt ip 0 = Inr (int (digits_val ip))"
    and "decimalToScaledBigInt (''-'' @ ip) 0 = Inr (- int (digits_val ip))"
proof -
  have hd: "is_digit (hd ip)" and lst: "is_digit (last ip)"
    using assms by (auto simp: list_all_iff)
  then have "hd ip \<noteq> CHR ''-''" by auto
  then have neg: "\<not> starts_with ''-'' ip"
    using assms(2) by (cases ip) (auto simp: starts_with_def)
  have sp: "js_split (CHR ''.'') ip = [ip]"
    using digit_no_dot [OF assms(1)] by (simp add: js_split_no_sep)
  have t: "js_trim ip = ip"
    using assms(2) hd lst by (intro js_trim_noop) (auto simp: is_digit_not_space)
  have t': "js_trim (''-'' @ ip) = ''-'' @ ip"
    using assms(2) lst by (intro js_trim_noop) (auto simp: is_digit_not_space)
  show "decimalToScaledBigInt ip 0 = Inr (int (digits_val ip))"
    using assms sp neg t by (simp add: decimalToScaledBigInt_def Let_def)
  show "decimalToScaledBigInt (''-'' @ ip) 0 = Inr (- int (digits_val ip))"
    using assms sp t' by (simp add: decimalToScaledBigInt_def Let_def starts_with_def)
qed

lemma sdiv_pos: "0 \<le> a \<Longrightarrow> 0 < b \<Longrightarrow> a sdiv b = a div (b :: int)"
  by (simp add: signed_divide_int_def sgn_if)

lemma receipt_subtotal_fold:
  "foldl (\<lambda>sum line. sum + rl_priceCents line * rl_quantity line) a ls
     = a + (\<Sum>l \<leftarrow> ls. rl_priceCents l * rl_quantity l)"
  by (induction ls arbitrary: a) auto

lemma receipt_subtotal_sum:
  "receipt_subtotal ls = (\<Sum>l \<leftarrow> ls. rl_priceCents l * rl_quantity l)"
  by (simp add: receipt_subtotal_def receipt_subtotal_fold)

lemma receipt_subtotal_nonneg:
  "list_all (\<lambda>l. 0 \<le> rl_priceCents l \<and> 0 \<le> rl_quantity l) ls \<Longrightarrow> 0 \<le> receipt_subtotal ls"
  by (induction ls) (auto simp: receipt_subtotal_sum)

lemma round_half_up:
  fixes x b :: int
  assumes "0 \<le> x" "x \<le> b * 10000"
  shows "0 \<le> (x + 5000) sdiv 10000" "(x + 5000) sdiv 10000 \<le> b"
    "\<bar>10000 * ((x + 5000) sdiv 10000) - x\<bar> \<le> 5000"
proof -
  have t: "(x + 5000) sdiv 10000 = (x + 5000) div 10000" using assms by (simp add: sdiv_pos)
  show "0 \<le> (x + 5000) sdiv 10000" "(x + 5000) sdiv 10000 \<le> b"
    "\<bar>10000 * ((x + 5000) sdiv 10000) - x\<bar> \<le> 5000"
    unfolding t using assms by linarith+
qed

lemma ceil_div_least:
  "0 < b \<Longrightarrow> a \<le> ceil_div a b * b \<and> (\<forall>k. a \<le> k * b \<longrightarrow> ceil_div a b \<le> k)"
proof (intro conjI allI impI)
  assume b: "0 < b"
  have "a + b - 1 < (ceil_div a b + 1) * b"
    using b unfolding ceil_div_def by (metis Suc_eq_plus1 dividend_less_div_times add.commute mult_Suc)
  then show "a \<le> ceil_div a b * b" using b by (simp add: algebra_simps)
  fix k assume "a \<le> k * b"
  then have "a + b - 1 < Suc k * b" using b by simp
  then have "ceil_div a b < Suc k"
    unfolding ceil_div_def using b by (simp add: div_less_iff_less_mult)
  then show "ceil_div a b \<le> k" by simp
qed

lemma parse_formatted_extra:
  assumes pos: "0 < scale"
  shows "decimalToScaledBigInt (scaledBigIntToDecimal v scale) (scale + k) = Inr (v * 10 ^ k)"
proof -
  let ?n = "nat (if v < 0 then - v else v)"
  let ?d = "padStart (scale + 1) (CHR ''0'') (show_nat ?n)"
  have dig: "list_all is_digit ?d" by (intro padStart_digits show_nat_digits)
  have len: "scale + 1 \<le> length ?d" by (rule length_padStart)
  have val: "int (digits_val ?d) = \<bar>v\<bar>" by simp
  let ?ip = "take (length ?d - scale) ?d" and ?fp = "drop (length ?d - scale) ?d"
  have parts: "list_all is_digit ?ip" "?ip \<noteq> []" "list_all is_digit ?fp"
    using dig len by (auto simp: list_all_iff dest: in_set_takeD in_set_dropD)
  have lf: "length ?fp = scale" using len by simp
  then have ne: "?fp \<noteq> []" using pos by auto
  show ?thesis
    using parse_unsigned [OF parts ne, of k, unfolded lf] val pos
    by (cases "v < 0") (simp_all add: scaledBigIntToDecimal_def Let_def)
qed

lemma parse_formatted: "decimalToScaledBigInt (scaledBigIntToDecimal v scale) scale = Inr v"
proof (cases "scale = 0")
  case False
  then show ?thesis using parse_formatted_extra [of scale v 0] by simp
next
  case True
  let ?d = "padStart 1 (CHR ''0'') (show_nat (nat (if v < 0 then - v else v)))"
  have dig: "list_all is_digit ?d" by (intro padStart_digits show_nat_digits)
  have "1 \<le> length ?d" by (rule length_padStart)
  then have ne: "?d \<noteq> []" by auto
  from parse_integer [OF dig ne] True show ?thesis
    by (cases "v < 0") (simp_all add: scaledBigIntToDecimal_def Let_def)
qed

section \<open>Properties\<close>

text \<open>Formatting a scaled amount and parsing it back is the identity, for every amount
  (negative ones included) and every scale.\<close>

theorem decimal_roundtrip:
  "decimalToScaledBigInt (scaledBigIntToDecimal v scale) scale = Inr v"
  by (rule parse_formatted)

text \<open>The receipt total under a discount of 0 to 100 percent is between zero and the subtotal
  and is the exact discounted amount rounded to the nearest cent (half a cent at most away);
  without a discount it is the subtotal itself.\<close>

theorem receipt_total_bounds:
  assumes "list_all (\<lambda>l. 0 \<le> rl_priceCents l \<and> 0 \<le> rl_quantity l) lines"
    and "d \<noteq> []" and "decimalToScaledBigInt d 2 = Inr c" and "0 \<le> c" and "c \<le> 10000"
  shows "\<exists>t. computeReceiptTotalCents lines (Some d) = Inr t
    \<and> 0 \<le> t \<and> t \<le> receipt_subtotal lines
    \<and> \<bar>10000 * t - receipt_subtotal lines * (10000 - c)\<bar> \<le> 5000
    \<and> computeReceiptTotalCents lines None = Inr (\<Sum>l \<leftarrow> lines. rl_priceCents l * rl_quantity l)"
proof -
  let ?x = "receipt_subtotal lines * (10000 - c)"
  have s: "0 \<le> receipt_subtotal lines" by (rule receipt_subtotal_nonneg [OF assms(1)])
  have x: "0 \<le> ?x" "?x \<le> receipt_subtotal lines * 10000"
    using s assms(4,5) by (auto intro: mult_left_mono)
  from round_half_up [OF x] assms(2,3) show ?thesis
    by (simp add: computeReceiptTotalCents_def Let_def receipt_subtotal_sum)
qed

theorem receipt_total_bounds_witness:
  "\<exists>t. computeReceiptTotalCents [\<lparr>rl_priceCents = 1999, rl_quantity = 3\<rparr>] (Some ''12.5'') = Inr t
    \<and> 0 \<le> t \<and> t \<le> receipt_subtotal [\<lparr>rl_priceCents = 1999, rl_quantity = 3\<rparr>]
    \<and> \<bar>10000 * t - receipt_subtotal [\<lparr>rl_priceCents = 1999, rl_quantity = 3\<rparr>] * (10000 - 1250)\<bar> \<le> 5000"
proof -
  have "decimalToScaledBigInt ''12.5'' 2 = Inr 1250" by code_simp
  with receipt_total_bounds [of "[\<lparr>rl_priceCents = 1999, rl_quantity = 3\<rparr>]" "''12.5''" 1250]
  show ?thesis by auto
qed

text \<open>The parser reads only the first two parts of a dotted string.\<close>

lemma decimal_third_part_ignored: "decimalToScaledBigInt ''1.2.x'' 2 = Inr 120"
  by code_simp

lemma buildPaginatedResult_pages:
  assumes "0 < pageSize"
  shows "1 \<le> pr_totalPages (buildPaginatedResult items n page pageSize)"
    "n \<le> pr_totalPages (buildPaginatedResult items n page pageSize) * pageSize"
proof -
  have "n \<le> ceil_div n pageSize * pageSize" using ceil_div_least [OF assms] by simp
  also have "\<dots> \<le> max 1 (ceil_div n pageSize) * pageSize" by simp
  finally show "n \<le> pr_totalPages (buildPaginatedResult items n page pageSize) * pageSize"
    by (simp only: buildPaginatedResult_def paginated_result.simps)
qed (simp add: buildPaginatedResult_def)

end
