(* ===== verification/Store.thy ===== *)
theory Store
  imports Rbac_Db Money "HOL-Library.Product_Lexorder"
begin

text \<open>
  The business tables of the \<open>nova\<close> database
  (\<open>packages/database/src/entities\<close>, \<open>migrations/1717200000000-InitialNovaSchema.ts\<close>,
  \<open>1717300000000-AddUserKeycloakIdentity.ts\<close>), extending the RBAC tables, and their
  constraints. Dates are milliseconds since the epoch, \<open>numeric\<close> columns keep the decimal string
  the code reads and writes; the row timestamps are not kept, except where the code orders by
  them. A new row's identifier is \<open>gen db\<close>, an argument standing for \<open>gen_random_uuid()\<close>.
\<close>

datatype issue_status = InAssistance | IssueRejected | IssueCompleted
datatype action_status = ActionPending | ActionInProgress | ActionCompleted | ActionRejected
datatype message_role = RoleSystem | RoleUser | RoleAssistant

record user =
  us_id :: string
  us_email :: string
  us_keycloakId :: "string option"
  us_active :: bool
  us_firstName :: string
  us_lastName :: string
  us_middleName :: "string option"
  us_description :: "string option"
  us_createdAt :: int

record customer =
  cu_id :: string
  cu_email :: string
  cu_fullName :: string
  cu_firstName :: string
  cu_lastName :: string
  cu_age :: "int option"
  cu_active :: bool
  cu_createdAt :: int

record product =
  pd_id :: string
  pd_name :: string
  pd_description :: "string option"
  pd_category :: string
  pd_price :: string
  pd_inCatalog :: bool

record sale =
  sa_id :: string
  sa_customerId :: string
  sa_discountApplied :: "string option"
  sa_date :: int
  sa_totalAmountReceipt :: string
  sa_paymentReceived :: bool
  sa_dateOfPayment :: "int option"

record product_sold =
  ps_saleId :: string
  ps_productId :: string
  ps_quantity :: int

record customer_issue =
  ci_id :: string
  ci_salesId :: string
  ci_description :: string
  ci_dateRaised :: int
  ci_dateLastUpdate :: int
  ci_status :: issue_status

record issue_action =
  ia_id :: string
  ia_issueId :: string
  ia_title :: string
  ia_description :: string
  ia_status :: action_status
  ia_updatedById :: "string option"
  ia_updatedAI :: bool
  ia_createdDate :: int
  ia_assignedOwnerId :: string

record action_comment =
  ac_id :: string
  ac_issueActionId :: string
  ac_userId :: string
  ac_comment :: string
  ac_datetime :: int

record sop =
  so_id :: string
  so_name :: string
  so_active :: bool
  so_description :: string

record sop_detail =
  sd_sopId :: string
  sd_version :: int
  sd_fullText :: string
  sd_dateOfCreation :: int
  sd_createdById :: string

record conversation =
  cv_convId :: string
  cv_userId :: string
  cv_createdDate :: int

record message =
  ms_id :: string
  ms_conversationId :: string
  ms_role :: message_role
  ms_text :: string
  ms_isMCPApps :: bool
  ms_MCPAppLink :: "string option"
  ms_MCPActive :: "bool option"
  ms_createdDate :: int

record nova_db = rbac_db +
  tb_users :: "user list"
  tb_customers :: "customer list"
  tb_products :: "product list"
  tb_sales :: "sale list"
  tb_productsSold :: "product_sold list"
  tb_issues :: "customer_issue list"
  tb_actions :: "issue_action list"
  tb_comments :: "action_comment list"
  tb_sops :: "sop list"
  tb_sopDetails :: "sop_detail list"
  tb_conversations :: "conversation list"
  tb_messages :: "message list"

section \<open>Constraints\<close>

text \<open>The checks on the \<open>numeric\<close> columns, read at the columns' scale of two decimals.\<close>

definition money_between :: "int \<Rightarrow> int option \<Rightarrow> string \<Rightarrow> bool" where
  "money_between lo hi s \<longleftrightarrow>
     (case decimalToScaledBigInt s 2 of
        Inl _ \<Rightarrow> False
      | Inr c \<Rightarrow> lo \<le> c \<and> (case hi of None \<Rightarrow> True | Some h \<Rightarrow> c \<le> h))"

definition max_numeric_12_2 :: int where
  "max_numeric_12_2 = 999999999999"

definition max_integer :: int where
  "max_integer = 2147483647"

text \<open>A decimal literal PostgreSQL accepts for a \<open>numeric(_,2)\<close> column, and the column read back:
  rounded to the column's scale, half away from zero.\<close>

definition numeric_literal :: "string \<Rightarrow> bool" where
  "numeric_literal s \<longleftrightarrow>
     (let t = js_trim s; parts = js_split (CHR ''.'') (if starts_with ''-'' t then drop 1 t else t)
      in length parts \<le> 2 \<and> list_all (list_all is_digit) parts \<and> concat parts \<noteq> [])"

definition numeric_column :: "string \<Rightarrow> string" where
  "numeric_column s =
     (case decimalToScaledBigInt s 3 of
        Inl _ \<Rightarrow> s
      | Inr c \<Rightarrow> scaledBigIntToDecimal (sgn c * ((\<bar>c\<bar> + 5) div 10)) 2)"

definition sale_row_ok :: "sale \<Rightarrow> bool" where
  "sale_row_ok s \<longleftrightarrow>
     (case sa_discountApplied s of None \<Rightarrow> True | Some d \<Rightarrow> money_between 0 (Some 10000) d)
   \<and> money_between 0 (Some max_numeric_12_2) (sa_totalAmountReceipt s)"

definition refers :: "('r \<Rightarrow> string) \<Rightarrow> ('t \<Rightarrow> string) \<Rightarrow> 'r list \<Rightarrow> 't list \<Rightarrow> bool" where
  "refers fk key rows targets \<longleftrightarrow> list_all (\<lambda>r. fk r \<in> set (map key targets)) rows"

definition keys_ok :: "'z nova_db_scheme \<Rightarrow> bool" where
  "keys_ok db \<longleftrightarrow>
     distinct (map us_id (tb_users db)) \<and> distinct (map us_email (tb_users db))
   \<and> distinct (List.map_filter us_keycloakId (tb_users db))
   \<and> distinct (map cu_id (tb_customers db)) \<and> distinct (map cu_email (tb_customers db))
   \<and> distinct (map pd_id (tb_products db)) \<and> distinct (map pd_name (tb_products db))
   \<and> distinct (map sa_id (tb_sales db))
   \<and> distinct (map (\<lambda>l. (ps_saleId l, ps_productId l)) (tb_productsSold db))
   \<and> distinct (map ci_id (tb_issues db)) \<and> distinct (map ia_id (tb_actions db))
   \<and> distinct (map ac_id (tb_comments db))
   \<and> distinct (map so_id (tb_sops db)) \<and> distinct (map so_name (tb_sops db))
   \<and> distinct (map (\<lambda>d. (sd_sopId d, sd_version d)) (tb_sopDetails db))
   \<and> distinct (map cv_convId (tb_conversations db)) \<and> distinct (map ms_id (tb_messages db))"

definition references_ok :: "'z nova_db_scheme \<Rightarrow> bool" where
  "references_ok db \<longleftrightarrow>
     refers fst us_id (db_userRoles db) (tb_users db)
   \<and> refers sa_customerId cu_id (tb_sales db) (tb_customers db)
   \<and> refers ps_saleId sa_id (tb_productsSold db) (tb_sales db)
   \<and> refers ps_productId pd_id (tb_productsSold db) (tb_products db)
   \<and> refers ci_salesId sa_id (tb_issues db) (tb_sales db)
   \<and> refers ia_issueId ci_id (tb_actions db) (tb_issues db)
   \<and> refers ia_assignedOwnerId us_id (tb_actions db) (tb_users db)
   \<and> list_all (\<lambda>a. case ia_updatedById a of None \<Rightarrow> True | Some u \<Rightarrow> u \<in> set (map us_id (tb_users db))) (tb_actions db)
   \<and> refers ac_issueActionId ia_id (tb_comments db) (tb_actions db)
   \<and> refers ac_userId us_id (tb_comments db) (tb_users db)
   \<and> refers sd_sopId so_id (tb_sopDetails db) (tb_sops db)
   \<and> refers sd_createdById us_id (tb_sopDetails db) (tb_users db)
   \<and> refers cv_userId us_id (tb_conversations db) (tb_users db)
   \<and> refers ms_conversationId cv_convId (tb_messages db) (tb_conversations db)"

definition rows_ok :: "'z nova_db_scheme \<Rightarrow> bool" where
  "rows_ok db \<longleftrightarrow>
     list_all sale_row_ok (tb_sales db) \<and> list_all (\<lambda>l. 0 < ps_quantity l \<and> ps_quantity l \<le> max_integer) (tb_productsSold db)
   \<and> list_all (\<lambda>p. money_between 0 (Some max_numeric_12_2) (pd_price p)) (tb_products db)
   \<and> list_all (\<lambda>d. 0 < sd_version d) (tb_sopDetails db)
   \<and> list_all (\<lambda>c. case cu_age c of None \<Rightarrow> True | Some a \<Rightarrow> 0 < a) (tb_customers db)"

definition nova_db_ok :: "'z nova_db_scheme \<Rightarrow> bool" where
  "nova_db_ok db \<longleftrightarrow> rbac_db_ok db \<and> keys_ok db \<and> references_ok db \<and> rows_ok db"

text \<open>A statement of the business tables.\<close>

definition nova_statement :: "('z nova_db_scheme \<Rightarrow> 'z nova_db_scheme) \<Rightarrow> ('z nova_db_scheme, unit) op" where
  "nova_statement f = checked_update (\<lambda>db. nova_db_ok (f db)) f"

lemma nova_statement_apply [op_simps, code]:
  "nova_statement f d = (if nova_db_ok (f d) then (Inr (), f d) else (Inl db_query_failed, d))"
  by (simp add: nova_statement_def op_simps)

lemma preserves_nova_statement: "preserves nova_db_ok (nova_statement f)"
  unfolding nova_statement_def by (rule preserves_checked_update)

section \<open>Pages\<close>

text \<open>\<open>orderBy(key, 'DESC').skip((page - 1) * pageSize).take(pageSize)\<close> with the total count.\<close>

definition sort_desc :: "('a \<Rightarrow> 'k::linorder) \<Rightarrow> 'a list \<Rightarrow> 'a list" where
  "sort_desc key xs = rev (sort_key key xs)"

definition find_paginated :: "nat \<Rightarrow> nat \<Rightarrow> 'a list \<Rightarrow> 'a list \<times> nat" where
  "find_paginated page pageSize xs = (page_slice page pageSize xs, length xs)"

definition paginated :: "nat \<Rightarrow> nat \<Rightarrow> 'a list \<Rightarrow> 'a paginated_result" where
  "paginated page pageSize xs =
     (let (items, n) = find_paginated page pageSize xs
      in buildPaginatedResult items n page pageSize)"

definition like_pattern :: "string \<Rightarrow> string" where
  "like_pattern search = ''%'' @ search @ ''%''"

lemma set_sort_desc [simp]: "set (sort_desc key xs) = set xs"
  by (simp add: sort_desc_def)

lemma length_sort_desc [simp]: "length (sort_desc key xs) = length xs"
  by (simp add: sort_desc_def)

lemma sorted_sort_desc: "sorted (rev (map key (sort_desc key xs)))"
  by (simp add: sort_desc_def rev_map)

lemma concat_page_slices:
  assumes "0 < k"
  shows "concat (map (\<lambda>p. page_slice p k xs) [1..<Suc n]) = take (n * k) xs"
proof (induction n)
  case (Suc n)
  have "take (Suc n * k) xs = take (n * k) xs @ take k (drop (n * k) xs)"
    by (metis add.commute mult_Suc take_add)
  with Suc show ?case by (simp add: page_slice_def)
qed simp

text \<open>Reading every page in turn yields the whole filtered, sorted list.\<close>

lemma pages_cover_slices:
  assumes "0 < k"
  shows "concat (map (\<lambda>p. page_slice p k xs) [1..<Suc (pr_totalPages (paginated n k xs))]) = xs"
proof -
  have t: "pr_totalPages (paginated n k xs) = max 1 (ceil_div (length xs) k)"
    by (simp add: paginated_def find_paginated_def buildPaginatedResult_def)
  have "length xs \<le> ceil_div (length xs) k * k" using ceil_div_least [OF assms] by simp
  also have "\<dots> \<le> max 1 (ceil_div (length xs) k) * k" by simp
  finally have l: "length xs \<le> max 1 (ceil_div (length xs) k) * k" .
  show ?thesis unfolding t concat_page_slices [OF assms] using l by simp
qed

end
