(* ===== verification/Keycloak.thy ===== *)
theory Keycloak
  imports Registry
begin

text \<open>
  Provisioning of users and realm roles in Keycloak:
  \<open>api/src/modules/admin/keycloak-provisioning.service.ts\<close>. The Admin REST client
  (\<open>auth/keycloak-admin-client.ts\<close>, \<open>Keycloak_Client\<close>) is the record \<open>kc_client\<close> of its methods over an
  abstract Keycloak state \<open>'k\<close>; \<open>kc_lawful\<close> states the documented behaviour of the role endpoints.
\<close>

datatype kc_error = KeycloakAdminError string | KcOther

record realm_role =
  rr_id :: string
  rr_name :: string

record kc_new_user =
  kn_username :: string
  kn_email :: string
  kn_firstName :: string
  kn_lastName :: string
  kn_enabled :: bool

record 'k kc_client =
  kc_createRealmRole :: "string \<Rightarrow> string option \<Rightarrow> (kc_error, 'k, realm_role) eop"
  kc_updateRealmRole :: "string \<Rightarrow> string option \<Rightarrow> (kc_error, 'k, unit) eop"
  kc_getRealmRole :: "string \<Rightarrow> (kc_error, 'k, realm_role option) eop"
  kc_deleteRealmRole :: "string \<Rightarrow> (kc_error, 'k, unit) eop"
  kc_createUser :: "kc_new_user \<Rightarrow> (kc_error, 'k, string) eop"
  kc_findUserByUsername :: "string \<Rightarrow> (kc_error, 'k, string option) eop"
  kc_setUserEnabled :: "string \<Rightarrow> bool \<Rightarrow> (kc_error, 'k, unit) eop"
  kc_updateUserProfile :: "string \<Rightarrow> string \<Rightarrow> string \<Rightarrow> (kc_error, 'k, unit) eop"
  kc_getUserRealmRoles :: "string \<Rightarrow> (kc_error, 'k, string list) eop"
  kc_addRealmRoles :: "string \<Rightarrow> realm_role list \<Rightarrow> (kc_error, 'k, unit) eop"
  kc_removeRealmRoles :: "string \<Rightarrow> realm_role list \<Rightarrow> (kc_error, 'k, unit) eop"
  kc_sendUpdatePasswordEmail :: "string \<Rightarrow> (kc_error, 'k, unit) eop"

datatype sync_status = Synced | Partial | SyncNotFound | SyncError

record realm_role_sync =
  rs_keycloakRoleId :: "string option"
  rs_status :: sync_status
  rs_lastSyncError :: "string option"

record provision_result =
  pv_keycloakId :: "string option"
  pv_status :: sync_status
  pv_lastSyncError :: "string option"

record provision_input =
  pi_username :: string
  pi_email :: string
  pi_firstName :: string
  pi_lastName :: string
  pi_enabled :: bool
  pi_roles :: "string list"

definition NOT_CONFIGURED :: provision_result where
  "NOT_CONFIGURED = \<lparr>pv_keycloakId = None, pv_status = SyncNotFound,
     pv_lastSyncError = Some ''Keycloak provisioning is not configured.''\<rparr>"

definition messageOf :: "kc_error \<Rightarrow> string" where
  "messageOf e = (case e of KeycloakAdminError m \<Rightarrow> m | KcOther \<Rightarrow> ''Keycloak provisioning failed.'')"

text \<open>\<open>try { ... } catch (error) { return h(error) }\<close>\<close>

definition kc_try :: "(kc_error, 'k, 'a) eop \<Rightarrow> (kc_error \<Rightarrow> 'a) \<Rightarrow> 'k \<Rightarrow> 'a \<times> 'k" where
  "kc_try m h = (\<lambda>k. case m k of (Inl e, k') \<Rightarrow> (h e, k') | (Inr x, k') \<Rightarrow> (x, k'))"

definition role_not_configured :: realm_role_sync where
  "role_not_configured = \<lparr>rs_keycloakRoleId = None, rs_status = SyncNotFound,
     rs_lastSyncError = pv_lastSyncError NOT_CONFIGURED\<rparr>"

definition role_error :: "kc_error \<Rightarrow> realm_role_sync" where
  "role_error e = \<lparr>rs_keycloakRoleId = None, rs_status = SyncError, rs_lastSyncError = Some (messageOf e)\<rparr>"

definition role_synced :: "string option \<Rightarrow> realm_role_sync" where
  "role_synced i = \<lparr>rs_keycloakRoleId = i, rs_status = Synced, rs_lastSyncError = None\<rparr>"

definition ensureRealmRole ::
  "'k kc_client option \<Rightarrow> string \<Rightarrow> string option \<Rightarrow> 'k \<Rightarrow> realm_role_sync \<times> 'k" where
  "ensureRealmRole client name description =
     (case client of
        None \<Rightarrow> (\<lambda>k. (role_not_configured, k))
      | Some c \<Rightarrow> kc_try (bindM (kc_createRealmRole c name description)
                          (\<lambda>role. returnM (role_synced (Some (rr_id role))))) role_error)"

definition provision_updateRealmRole ::
  "'k kc_client option \<Rightarrow> string \<Rightarrow> string option \<Rightarrow> 'k \<Rightarrow> realm_role_sync \<times> 'k" where
  "provision_updateRealmRole client name description =
     (case client of
        None \<Rightarrow> (\<lambda>k. (role_not_configured, k))
      | Some c \<Rightarrow> kc_try (thenM (kc_updateRealmRole c name description)
                          (bindM (kc_getRealmRole c name)
                            (\<lambda>role. returnM (role_synced (map_option rr_id role))))) role_error)"

definition provision_deleteRealmRole ::
  "'k kc_client option \<Rightarrow> string \<Rightarrow> 'k \<Rightarrow> realm_role_sync \<times> 'k" where
  "provision_deleteRealmRole client name =
     (case client of
        None \<Rightarrow> (\<lambda>k. (role_not_configured, k))
      | Some c \<Rightarrow> kc_try (thenM (kc_deleteRealmRole c name) (returnM (role_synced None))) role_error)"

section \<open>Role reconciliation\<close>

text \<open>The loop \<open>for (const role of roles) await client.getRealmRole(role)\<close>: the representations
  found and the names that have none.\<close>

definition lookup_role :: "'k kc_client \<Rightarrow> string \<Rightarrow> (kc_error, 'k, string \<times> realm_role option) eop" where
  "lookup_role client role = bindM (kc_getRealmRole client role) (\<lambda>rep. returnM (role, rep))"

definition lookup_roles ::
  "'k kc_client \<Rightarrow> string list \<Rightarrow> (kc_error, 'k, realm_role list \<times> string list) eop" where
  "lookup_roles client roles =
     bindM (mapM (lookup_role client) roles)
       (\<lambda>found. returnM
          (concat (map (\<lambda>(role, rep). case rep of None \<Rightarrow> [] | Some r \<Rightarrow> [r]) found),
           concat (map (\<lambda>(role, rep). case rep of None \<Rightarrow> [role] | Some r \<Rightarrow> []) found)))"

definition reconcile_outcome :: "string list \<Rightarrow> sync_status \<times> string option" where
  "reconcile_outcome missing =
     (if length missing > 0
      then (Partial, Some (''Missing Keycloak realm roles: '' @ js_join '', '' missing))
      else (Synced, None))"

definition reconcileRoles ::
  "(string \<Rightarrow> bool) \<Rightarrow> 'k kc_client \<Rightarrow> string \<Rightarrow> string list
   \<Rightarrow> (kc_error, 'k, sync_status \<times> string option) eop" where
  "reconcileRoles isManagedRole client keycloakId desired =
     bindM (kc_getUserRealmRoles client keycloakId) (\<lambda>current.
       let desiredNova = js_set (filter isManagedRole desired);
           currentNova = filter isManagedRole current;
           toAdd = filter (\<lambda>role. role \<notin> set currentNova) desiredNova;
           toRemove = filter (\<lambda>role. role \<notin> set desiredNova) currentNova
       in bindM (lookup_roles client toAdd) (\<lambda>(addReps, missing).
          bindM (lookup_roles client toRemove) (\<lambda>(removeReps, _).
          thenM (kc_addRealmRoles client keycloakId addReps)
          (thenM (kc_removeRealmRoles client keycloakId removeReps)
          (returnM (reconcile_outcome missing))))))"

definition new_user_of :: "provision_input \<Rightarrow> kc_new_user" where
  "new_user_of i = \<lparr>kn_username = pi_username i, kn_email = pi_email i,
     kn_firstName = pi_firstName i, kn_lastName = pi_lastName i, kn_enabled = pi_enabled i\<rparr>"

definition provisionUser ::
  "(string \<Rightarrow> bool) \<Rightarrow> 'k kc_client option \<Rightarrow> provision_input \<Rightarrow> bool \<Rightarrow> 'k \<Rightarrow> provision_result \<times> 'k" where
  "provisionUser isManagedRole client i sendResetPasswordEmail =
     (case client of
        None \<Rightarrow> (\<lambda>k. (NOT_CONFIGURED, k))
      | Some c \<Rightarrow> kc_try
          (bindM (kc_createUser c (new_user_of i)) (\<lambda>keycloakId.
           bindM (reconcileRoles isManagedRole c keycloakId (pi_roles i)) (\<lambda>(status, err).
           thenM (if sendResetPasswordEmail
                  then catchM (kc_sendUpdatePasswordEmail c keycloakId) (\<lambda>_. returnM ())
                  else returnM ())
           (returnM \<lparr>pv_keycloakId = Some keycloakId, pv_status = status, pv_lastSyncError = err\<rparr>))))
          (\<lambda>e. \<lparr>pv_keycloakId = None, pv_status = SyncError, pv_lastSyncError = Some (messageOf e)\<rparr>))"

definition syncUser ::
  "(string \<Rightarrow> bool) \<Rightarrow> 'k kc_client option \<Rightarrow> provision_input \<Rightarrow> string option \<Rightarrow> 'k \<Rightarrow> provision_result \<times> 'k" where
  "syncUser isManagedRole client i existingKeycloakId =
     (case client of
        None \<Rightarrow> (\<lambda>k. (NOT_CONFIGURED, k))
      | Some c \<Rightarrow> kc_try
          (bindM (case some_id existingKeycloakId of
                    Some x \<Rightarrow> returnM (Some x)
                  | None \<Rightarrow> kc_findUserByUsername c (pi_username i)) (\<lambda>found.
           bindM (case some_id found of
                    Some x \<Rightarrow> returnM x
                  | None \<Rightarrow> kc_createUser c (new_user_of i)) (\<lambda>keycloakId.
           thenM (kc_setUserEnabled c keycloakId (pi_enabled i))
           (thenM (kc_updateUserProfile c keycloakId (pi_firstName i) (pi_lastName i))
           (bindM (reconcileRoles isManagedRole c keycloakId (pi_roles i)) (\<lambda>(status, err).
           returnM \<lparr>pv_keycloakId = Some keycloakId, pv_status = status, pv_lastSyncError = err\<rparr>))))))
          (\<lambda>e. \<lparr>pv_keycloakId = existingKeycloakId, pv_status = SyncError,
                 pv_lastSyncError = Some (messageOf e)\<rparr>))"

definition provision_setEnabled ::
  "'k kc_client option \<Rightarrow> string \<Rightarrow> bool \<Rightarrow> 'k \<Rightarrow> provision_result \<times> 'k" where
  "provision_setEnabled client keycloakId enabled =
     (case client of
        None \<Rightarrow> (\<lambda>k. (NOT_CONFIGURED, k))
      | Some c \<Rightarrow> kc_try
          (thenM (kc_setUserEnabled c keycloakId enabled)
            (returnM \<lparr>pv_keycloakId = Some keycloakId, pv_status = Synced, pv_lastSyncError = None\<rparr>))
          (\<lambda>e. \<lparr>pv_keycloakId = Some keycloakId, pv_status = SyncError,
                 pv_lastSyncError = Some (messageOf e)\<rparr>))"

section \<open>Documented behaviour of the role endpoints\<close>

text \<open>\<open>roles_of k u\<close> are the realm roles mapped to user \<open>u\<close>, \<open>realm k\<close> the roles of the realm, \<open>good k\<close> what
  the client keeps of its own state: reading changes none of them and does not fail, a mapped role
  exists in the realm, adding and removing change the mappings of that user by the named roles.\<close>

definition kc_same :: "('k \<Rightarrow> bool) \<Rightarrow> ('k \<Rightarrow> string \<Rightarrow> string list) \<Rightarrow> ('k \<Rightarrow> string set) \<Rightarrow> 'k \<Rightarrow> 'k \<Rightarrow> bool" where
  "kc_same good roles_of realm k k' \<longleftrightarrow> good k' \<and> roles_of k' = roles_of k \<and> realm k' = realm k"

definition kc_lawful ::
  "'k kc_client \<Rightarrow> ('k \<Rightarrow> bool) \<Rightarrow> ('k \<Rightarrow> string \<Rightarrow> string list) \<Rightarrow> ('k \<Rightarrow> string set) \<Rightarrow> bool" where
  "kc_lawful c good roles_of realm \<longleftrightarrow>
     (\<forall>k u. good k \<longrightarrow> set (roles_of k u) \<subseteq> realm k \<and>
        (\<exists>k'. kc_getUserRealmRoles c u k = (Inr (roles_of k u), k') \<and> kc_same good roles_of realm k k'))
   \<and> (\<forall>k r. good k \<longrightarrow> (\<exists>rep k'. kc_getRealmRole c r k = (Inr rep, k') \<and> kc_same good roles_of realm k k'
        \<and> (rep = None \<longleftrightarrow> r \<notin> realm k) \<and> (\<forall>x. rep = Some x \<longrightarrow> rr_name x = r)))
   \<and> (\<forall>k u reps. good k \<longrightarrow> rr_name ` set reps \<subseteq> realm k \<longrightarrow>
        (\<exists>k'. kc_addRealmRoles c u reps k = (Inr (), k') \<and> good k'
          \<and> (\<forall>v. set (roles_of k' v) = (if v = u then set (roles_of k u) \<union> rr_name ` set reps
                                          else set (roles_of k v)))))
   \<and> (\<forall>k u reps. good k \<longrightarrow>
        (\<exists>k'. kc_removeRealmRoles c u reps k = (Inr (), k') \<and> good k'
          \<and> (\<forall>v. set (roles_of k' v) = (if v = u then set (roles_of k u) - rr_name ` set reps
                                          else set (roles_of k v)))))"

lemma kc_same_trans: "kc_same good f g a b \<Longrightarrow> kc_same good f g b c \<Longrightarrow> kc_same good f g a c"
  by (simp add: kc_same_def)

lemma kc_lawful_current:
  "kc_lawful c good roles_of realm \<Longrightarrow> good k \<Longrightarrow> set (roles_of k u) \<subseteq> realm k \<and>
   (\<exists>k'. kc_getUserRealmRoles c u k = (Inr (roles_of k u), k') \<and> kc_same good roles_of realm k k')"
  by (simp add: kc_lawful_def)

lemma kc_lawful_lookup:
  assumes "kc_lawful c good roles_of realm" "good k"
  shows "\<exists>rep k'. lookup_role c r k = (Inr (r, rep), k') \<and> kc_same good roles_of realm k k'
     \<and> (rep = None \<longleftrightarrow> r \<notin> realm k) \<and> (\<forall>x. rep = Some x \<longrightarrow> rr_name x = r)"
proof -
  obtain rep k' where "kc_getRealmRole c r k = (Inr rep, k')" "kc_same good roles_of realm k k'"
    "rep = None \<longleftrightarrow> r \<notin> realm k" "\<forall>x. rep = Some x \<longrightarrow> rr_name x = r"
    using assms(1) [unfolded kc_lawful_def, THEN conjunct2, THEN conjunct1, rule_format, OF assms(2), of r] by blast
  then show ?thesis by (intro exI [of _ rep] exI [of _ k']) (simp add: lookup_role_def op_simps)
qed

lemma kc_lawful_add:
  assumes "kc_lawful c good roles_of realm" "good k" "rr_name ` set reps \<subseteq> realm k"
  shows "\<exists>k'. kc_addRealmRoles c u reps k = (Inr (), k') \<and> good k'
     \<and> (\<forall>v. set (roles_of k' v) = (if v = u then set (roles_of k u) \<union> rr_name ` set reps
                                     else set (roles_of k v)))"
  by (rule assms(1) [unfolded kc_lawful_def, THEN conjunct2, THEN conjunct2, THEN conjunct1,
        rule_format, OF assms(2,3)])

lemma kc_lawful_remove:
  assumes "kc_lawful c good roles_of realm" "good k"
  shows "\<exists>k'. kc_removeRealmRoles c u reps k = (Inr (), k') \<and> good k'
     \<and> (\<forall>v. set (roles_of k' v) = (if v = u then set (roles_of k u) - rr_name ` set reps
                                     else set (roles_of k v)))"
  by (rule assms(1) [unfolded kc_lawful_def, THEN conjunct2, THEN conjunct2, THEN conjunct2, rule_format, OF assms(2)])

lemma lookup_each_lawful:
  assumes law: "kc_lawful c good roles_of realm" and "good k"
  shows "\<exists>found k'. mapM (lookup_role c) roles k = (Inr found, k') \<and> kc_same good roles_of realm k k'
    \<and> concat (map (\<lambda>(role, rep). case rep of None \<Rightarrow> [role] | Some r \<Rightarrow> []) found)
        = filter (\<lambda>r. r \<notin> realm k) roles
    \<and> rr_name ` set (concat (map (\<lambda>(role, rep). case rep of None \<Rightarrow> [] | Some r \<Rightarrow> [r]) found))
        = set roles \<inter> realm k"
  using assms(2)
proof (induction roles arbitrary: k)
  case Nil
  then show ?case by (simp add: op_simps kc_same_def)
next
  case (Cons a roles)
  from kc_lawful_lookup [OF law Cons.prems] obtain rep k1 where a: "lookup_role c a k = (Inr (a, rep), k1)"
    "kc_same good roles_of realm k k1" "rep = None \<longleftrightarrow> a \<notin> realm k" "\<forall>x. rep = Some x \<longrightarrow> rr_name x = a" by blast
  then have k1: "good k1" "realm k1 = realm k" by (simp_all add: kc_same_def)
  from Cons.IH [OF k1(1)] obtain found k2 where f: "mapM (lookup_role c) roles k1 = (Inr found, k2)"
    "kc_same good roles_of realm k1 k2"
    "concat (map (\<lambda>(role, rep). case rep of None \<Rightarrow> [role] | Some r \<Rightarrow> []) found)
      = filter (\<lambda>r. r \<notin> realm k) roles"
    "rr_name ` set (concat (map (\<lambda>(role, rep). case rep of None \<Rightarrow> [] | Some r \<Rightarrow> [r]) found))
      = set roles \<inter> realm k" unfolding k1(2) by blast
  have "mapM (lookup_role c) (a # roles) k = (Inr ((a, rep) # found), k2)"
    using a(1) f(1) by (simp add: op_simps)
  with kc_same_trans [OF a(2) f(2)] a(3,4) f(3,4) show ?case
    by (intro exI [of _ "(a, rep) # found"] exI [of _ k2]) (cases rep; simp only: list.map concat.simps; auto)
qed

lemma lookup_roles_lawful:
  assumes "kc_lawful c good roles_of realm" "good k"
  shows "\<exists>reps k'. lookup_roles c roles k = (Inr (reps, filter (\<lambda>r. r \<notin> realm k) roles), k')
    \<and> kc_same good roles_of realm k k' \<and> rr_name ` set reps = set roles \<inter> realm k"
  using lookup_each_lawful [OF assms, of roles] by (auto simp: lookup_roles_def op_simps)

text \<open>Reconciling reaches the desired managed roles that exist, keeps the unmanaged ones and other users.\<close>

lemma reconcileRoles_exact:
  assumes law: "kc_lawful c good roles_of realm" and good: "good k"
  shows "\<exists>out k'. reconcileRoles managed c u desired k = (Inr out, k') \<and> good k'
    \<and> set (roles_of k' u) = {r \<in> set (roles_of k u). \<not> managed r}
        \<union> {r \<in> set desired. managed r \<and> r \<in> realm k}
    \<and> (\<forall>v. v \<noteq> u \<longrightarrow> set (roles_of k' v) = set (roles_of k v))
    \<and> (fst out = Synced \<longleftrightarrow> {r \<in> set desired. managed r} \<subseteq> realm k)"
proof -
  let ?cur = "roles_of k u" and ?des = "js_set (filter managed desired)"
  let ?add = "filter (\<lambda>r. r \<notin> set (filter managed ?cur)) ?des"
  let ?rem = "filter (\<lambda>r. r \<notin> set ?des) (filter managed ?cur)"
  from kc_lawful_current [OF law good] obtain k0 where cur: "kc_getUserRealmRoles c u k = (Inr ?cur, k0)"
    "kc_same good roles_of realm k k0" "set ?cur \<subseteq> realm k" by blast
  then have k0: "good k0" "realm k0 = realm k" "roles_of k0 = roles_of k" by (simp_all add: kc_same_def)
  from lookup_roles_lawful [OF law k0(1), of ?add] obtain ar ka where
    a: "lookup_roles c ?add k0 = (Inr (ar, filter (\<lambda>r. r \<notin> realm k) ?add), ka)"
       "kc_same good roles_of realm k0 ka" "rr_name ` set ar = set ?add \<inter> realm k" unfolding k0(2) by blast
  then have ka: "good ka" "realm ka = realm k" "roles_of ka = roles_of k" using k0 by (simp_all add: kc_same_def)
  from lookup_roles_lawful [OF law ka(1), of ?rem] obtain rr kb where
    r: "lookup_roles c ?rem ka = (Inr (rr, filter (\<lambda>r. r \<notin> realm k) ?rem), kb)"
       "kc_same good roles_of realm ka kb" "rr_name ` set rr = set ?rem \<inter> realm k" unfolding ka(2) by blast
  then have kb: "good kb" "realm kb = realm k" "roles_of kb = roles_of k" using ka by (simp_all add: kc_same_def)
  from a(3) have "rr_name ` set ar \<subseteq> realm kb" by (simp add: kb(2))
  from kc_lawful_add [OF law kb(1) this] obtain k1 where k1: "kc_addRealmRoles c u ar kb = (Inr (), k1)" "good k1"
      "\<forall>v. set (roles_of k1 v) = (if v = u then set ?cur \<union> rr_name ` set ar else set (roles_of k v))"
    unfolding kb(3) by blast
  from kc_lawful_remove [OF law k1(2)] obtain k2 where k2: "kc_removeRealmRoles c u rr k1 = (Inr (), k2)" "good k2"
      "\<forall>v. set (roles_of k2 v) = (if v = u then set (roles_of k1 u) - rr_name ` set rr else set (roles_of k1 v))"
    by blast
  have run: "reconcileRoles managed c u desired k =
      (Inr (reconcile_outcome (filter (\<lambda>r. r \<notin> realm k) ?add)), k2)"
    using cur(1) a(1) r(1) k1(1) k2(1) by (simp add: reconcileRoles_def op_simps Let_def)
  have fin: "set (roles_of k2 u) = {r \<in> set ?cur. \<not> managed r} \<union> {r \<in> set desired. managed r \<and> r \<in> realm k}"
    using k1(3) k2(3) a(3) r(3) cur(3) by auto
  have "fst (reconcile_outcome xs) = Synced \<longleftrightarrow> xs = []" for xs
    by (simp add: reconcile_outcome_def)
  then have st: "fst (reconcile_outcome (filter (\<lambda>r. r \<notin> realm k) ?add)) = Synced
      \<longleftrightarrow> {r \<in> set desired. managed r} \<subseteq> realm k"
    using cur(3) by (auto simp: filter_empty_conv)
  have oth: "\<forall>v. v \<noteq> u \<longrightarrow> set (roles_of k2 v) = set (roles_of k v)"
    using k1(3) k2(3) by simp
  show ?thesis using run k2(2) fin st oth by blast
qed

end
