(* ===== verification/Rbac_Admin.thy ===== *)
theory Rbac_Admin
  imports Rbac_Db Keycloak
begin

text \<open>
  The audited mutation surface of the RBAC policy: \<open>api/src/modules/admin/rbac-admin.service.ts\<close>,
  with the publication of the refreshed registry by \<open>api/src/rbac/rbac-registry.service.ts\<close> and
  \<open>registry-holder.ts\<close>. The state \<open>world\<close> holds the database, the registry the service keeps,
  the process-wide active registry and the Keycloak state. The notification of other instances
  (\<open>pg_notify\<close>, errors swallowed) changes none of these.
\<close>

record ('z, 'k) world =
  w_db :: "'z rbac_db_scheme"
  w_current :: rbac_registry
  w_active :: rbac_registry
  w_kc :: 'k

record rbac_actor =
  actor_subject :: string
  actor_userId :: "string option"

record audit_entry =
  ae_action :: string
  ae_targetType :: string
  ae_targetId :: string
  ae_details :: "json option"

record rbac_write_result =
  wr_registry :: registry_data
  wr_keycloak :: "realm_role_sync option"

definition CRITICAL_PERMISSIONS :: "string list" where
  "CRITICAL_PERMISSIONS = [''read-permissions'', ''write-permissions'', ''read-users'', ''write-users'']"

definition on_db :: "('z rbac_db_scheme, 'a) op \<Rightarrow> (('z, 'k) world, 'a) op" where
  "on_db m = (\<lambda>w. case m (w_db w) of (r, d) \<Rightarrow> (r, w\<lparr>w_db := d\<rparr>))"

definition on_kc :: "('k \<Rightarrow> 'a \<times> 'k) \<Rightarrow> (('z, 'k) world, 'a) op" where
  "on_kc f = (\<lambda>w. case f (w_kc w) of (x, k) \<Rightarrow> (Inr x, w\<lparr>w_kc := k\<rparr>))"

definition refresh :: "(('z, 'k) world, rbac_registry) op" where
  "refresh = (\<lambda>w. let R = mkRegistry (loadData (w_db w))
                  in (Inr R, w\<lparr>w_current := R, w_active := R\<rparr>))"

section \<open>Checks shared by the mutations\<close>

definition requireRole :: "string \<Rightarrow> ('z rbac_db_scheme, role_view) op" where
  "requireRole name = bindM (getM (\<lambda>db. find (\<lambda>r. rv_name r = name) (db_roles db)))
     (\<lambda>role. someM role (not_found_error ''Role not found.''))"

definition requirePermission :: "string \<Rightarrow> ('z rbac_db_scheme, permission_view) op" where
  "requirePermission name = bindM (getM (\<lambda>db. find (\<lambda>p. pv_name p = name) (db_permissions db)))
     (\<lambda>permission. someM permission (not_found_error ''Permission not found.''))"

definition requirePermissionsExist :: "string list \<Rightarrow> ('z rbac_db_scheme, unit) op" where
  "requirePermissionsExist names =
     (if length names = 0 then returnM ()
      else bindM (getM (\<lambda>db. filter (\<lambda>name. name \<notin> set (permission_names db)) names))
        (\<lambda>missing. guardM (missing = [])
           (validation_error (''Unknown permission(s): '' @ js_join '', '' (js_set missing)))))"

definition orphaned_permissions :: "'z rbac_db_scheme \<Rightarrow> string list" where
  "orphaned_permissions db =
     filter (\<lambda>permission. permission \<notin> set (map snd (db_rolePermissions db))) CRITICAL_PERMISSIONS"

definition assertCriticalPermissionsCovered :: "('z rbac_db_scheme, unit) op" where
  "assertCriticalPermissionsCovered =
     bindM (getM orphaned_permissions) (\<lambda>orphaned.
       guardM (orphaned = [])
         (validation_error (''This change would leave no role with required admin permission(s): ''
            @ js_join '', '' orphaned @ ''.'')))"

definition insert_audit :: "rbac_actor \<Rightarrow> audit_entry \<Rightarrow> ('z rbac_db_scheme, unit) op" where
  "insert_audit actor entry = modifyM (\<lambda>db. db\<lparr>db_rbacAudit := db_rbacAudit db @
     [\<lparr>au_actorSubject = actor_subject actor, au_actorUserId = actor_userId actor,
       au_action = ae_action entry, au_targetType = ae_targetType entry,
       au_targetId = ae_targetId entry, au_details = ae_details entry\<rparr>]\<rparr>)"

text \<open>\<open>UPDATE rbac_revision SET revision = revision + 1 WHERE id = 1\<close>\<close>

definition bump_revision :: "('z rbac_db_scheme, unit) op" where
  "bump_revision = modifyM (\<lambda>db. db\<lparr>db_revision := map_option (\<lambda>r. r + 1) (db_revision db)\<rparr>)"

definition mutate_tx :: "rbac_actor \<Rightarrow> ('z rbac_db_scheme, audit_entry) op \<Rightarrow> ('z rbac_db_scheme, unit) op" where
  "mutate_tx actor work =
     transactionM (bindM work (\<lambda>entry.
       thenM assertCriticalPermissionsCovered
       (thenM (insert_audit actor entry) bump_revision)))"

definition mutate :: "rbac_actor \<Rightarrow> ('z rbac_db_scheme, audit_entry) op \<Rightarrow> (('z, 'k) world, registry_data) op" where
  "mutate actor work =
     thenM (on_db (mutate_tx actor work))
       (bindM refresh (\<lambda>R. returnM (registry_snapshot R)))"

definition entry :: "string \<Rightarrow> string \<Rightarrow> string \<Rightarrow> json option \<Rightarrow> audit_entry" where
  "entry action targetType targetId details =
     \<lparr>ae_action = action, ae_targetType = targetType, ae_targetId = targetId, ae_details = details\<rparr>"

definition jnullable :: "string option \<Rightarrow> json" where
  "jnullable v = (case v of None \<Rightarrow> JNull | Some s \<Rightarrow> JStr s)"

section \<open>Roles\<close>

definition createRole_work :: "string \<Rightarrow> string option \<Rightarrow> ('z rbac_db_scheme, audit_entry) op" where
  "createRole_work name description =
     bindM (getM (\<lambda>db. find (\<lambda>r. rv_name r = name) (db_roles db))) (\<lambda>existing.
     thenM (guardM (existing = None) (conflict_error ''A role with this name already exists.''))
     (thenM (statement (\<lambda>db. db\<lparr>db_roles := db_roles db @
          [\<lparr>rv_name = name, rv_description = description, rv_isSystem = False,
            rv_keycloakRoleId = None\<rparr>]\<rparr>))
     (returnM (entry ''role.create'' ''role'' name None))))"

definition set_keycloakRoleId :: "string \<Rightarrow> string \<Rightarrow> ('z rbac_db_scheme, unit) op" where
  "set_keycloakRoleId name i = statement (\<lambda>db. db\<lparr>db_roles :=
     map (\<lambda>r. if rv_name r = name then r\<lparr>rv_keycloakRoleId := Some i\<rparr> else r) (db_roles db)\<rparr>)"

definition current_result :: "realm_role_sync option \<Rightarrow> (('z, 'k) world, rbac_write_result) op" where
  "current_result kc = bindM (getM w_current) (\<lambda>R. returnM \<lparr>wr_registry = registry_snapshot R, wr_keycloak = kc\<rparr>)"

definition createRole ::
  "'k kc_client option \<Rightarrow> rbac_actor \<Rightarrow> string \<Rightarrow> string option \<Rightarrow> (('z, 'k) world, rbac_write_result) op" where
  "createRole client actor name description =
     thenM (mutate actor (createRole_work name description))
     (bindM (on_kc (ensureRealmRole client name description)) (\<lambda>keycloak.
      thenM (case some_id (rs_keycloakRoleId keycloak) of
               None \<Rightarrow> returnM ()
             | Some i \<Rightarrow> thenM (on_db (set_keycloakRoleId name i)) (bindM refresh (\<lambda>_. returnM ())))
      (current_result (Some keycloak))))"

definition updateRole_work :: "string \<Rightarrow> string option \<Rightarrow> ('z rbac_db_scheme, audit_entry) op" where
  "updateRole_work name description =
     thenM (requireRole name)
     (thenM (statement (\<lambda>db. db\<lparr>db_roles :=
         map (\<lambda>r. if rv_name r = name then r\<lparr>rv_description := description\<rparr> else r) (db_roles db)\<rparr>))
     (returnM (entry ''role.update'' ''role'' name
        (Some (JObj [(''description'', jnullable description)])))))"

definition updateRole ::
  "'k kc_client option \<Rightarrow> rbac_actor \<Rightarrow> string \<Rightarrow> string option \<Rightarrow> (('z, 'k) world, rbac_write_result) op" where
  "updateRole client actor name description =
     thenM (mutate actor (updateRole_work name description))
     (bindM (on_kc (provision_updateRealmRole client name description)) (\<lambda>keycloak.
      current_result (Some keycloak)))"

definition deleteRole_work :: "string \<Rightarrow> ('z rbac_db_scheme, audit_entry) op" where
  "deleteRole_work name =
     bindM (requireRole name) (\<lambda>role.
     thenM (guardM (\<not> rv_isSystem role) (conflict_error ''Built-in roles cannot be deleted.''))
     (bindM (getM (\<lambda>db. length (filter (\<lambda>(u, r). r = name) (db_userRoles db)))) (\<lambda>assignments.
     thenM (guardM (assignments = 0)
       (conflict_error ''Reassign or remove this role from all users before deleting it.''))
     (thenM (statement (delete_role_row name))
     (returnM (entry ''role.delete'' ''role'' name None))))))"

definition deleteRole ::
  "'k kc_client option \<Rightarrow> rbac_actor \<Rightarrow> string \<Rightarrow> (('z, 'k) world, rbac_write_result) op" where
  "deleteRole client actor name =
     thenM (mutate actor (deleteRole_work name))
     (bindM (on_kc (provision_deleteRealmRole client name)) (\<lambda>keycloak.
      current_result (Some keycloak)))"

definition plain_result :: "registry_data \<Rightarrow> (('z, 'k) world, rbac_write_result) op" where
  "plain_result registry = returnM \<lparr>wr_registry = registry, wr_keycloak = None\<rparr>"

section \<open>Permissions and grants\<close>

definition createPermission_work :: "string \<Rightarrow> string option \<Rightarrow> ('z rbac_db_scheme, audit_entry) op" where
  "createPermission_work name description =
     bindM (getM (\<lambda>db. find (\<lambda>p. pv_name p = name) (db_permissions db))) (\<lambda>existing.
     thenM (guardM (existing = None) (conflict_error ''A permission with this name already exists.''))
     (thenM (statement (\<lambda>db. db\<lparr>db_permissions := db_permissions db @
          [\<lparr>pv_name = name, pv_description = description, pv_isSystem = False\<rparr>]\<rparr>))
     (returnM (entry ''permission.create'' ''permission'' name None))))"

definition updatePermission_work :: "string \<Rightarrow> string option \<Rightarrow> ('z rbac_db_scheme, audit_entry) op" where
  "updatePermission_work name description =
     thenM (requirePermission name)
     (thenM (statement (\<lambda>db. db\<lparr>db_permissions :=
         map (\<lambda>p. if pv_name p = name then p\<lparr>pv_description := description\<rparr> else p)
           (db_permissions db)\<rparr>))
     (returnM (entry ''permission.update'' ''permission'' name None)))"

definition deletePermission_work :: "string \<Rightarrow> ('z rbac_db_scheme, audit_entry) op" where
  "deletePermission_work name =
     bindM (requirePermission name) (\<lambda>permission.
     thenM (guardM (\<not> pv_isSystem permission) (conflict_error ''Built-in permissions cannot be deleted.''))
     (bindM (getM (\<lambda>db. length (filter (\<lambda>r. rr_permissionName r = Some name) (db_routePolicies db)))) (\<lambda>routeRefs.
     bindM (getM (\<lambda>db. length (filter (\<lambda>v. vr_permissionName v = name) (db_viewPermissions db)))) (\<lambda>viewRefs.
     thenM (guardM (\<not> (routeRefs > 0 \<or> viewRefs > 0))
       (conflict_error ''Rebind the routes/views that require this permission before deleting it.''))
     (thenM (statement (delete_permission_row name))
     (returnM (entry ''permission.delete'' ''permission'' name None)))))))"

definition setRolePermissions_work :: "string \<Rightarrow> string list \<Rightarrow> ('z rbac_db_scheme, audit_entry) op" where
  "setRolePermissions_work roleName permissions =
     thenM (requireRole roleName)
     (thenM (requirePermissionsExist permissions)
     (thenM (statement (\<lambda>db. db\<lparr>db_rolePermissions :=
         filter (\<lambda>(r, p). r \<noteq> roleName) (db_rolePermissions db)\<rparr>))
     (thenM (statement (\<lambda>db. db\<lparr>db_rolePermissions :=
         db_rolePermissions db @ map (\<lambda>p. (roleName, p)) permissions\<rparr>))
     (returnM (entry ''role-permission.set'' ''role'' roleName
        (Some (JObj [(''permissions'', JArr (map JStr permissions))])))))))"

section \<open>Capabilities\<close>

record create_capability_body =
  ccb_id :: string
  ccb_kind :: string
  ccb_mode :: string
  ccb_risk :: string
  ccb_resourceScoped :: bool
  ccb_delegated :: bool
  ccb_requiresApproval :: bool
  ccb_requiredPermissions :: "string list"
  ccb_description :: "string option"

text \<open>Absent fields are \<open>None\<close>; a present description may be \<open>null\<close>.\<close>

record update_capability_body =
  ucb_enabled :: "bool option"
  ucb_risk :: "string option"
  ucb_requiresApproval :: "bool option"
  ucb_requiredPermissions :: "string list option"
  ucb_description :: "string option option"

definition insert_capability_permissions :: "string \<Rightarrow> string list \<Rightarrow> ('z rbac_db_scheme, unit) op" where
  "insert_capability_permissions i permissions =
     statement (\<lambda>db. db\<lparr>db_capabilityPermissions :=
       db_capabilityPermissions db @ map (\<lambda>p. (i, p)) permissions\<rparr>)"

definition createCapability_work :: "create_capability_body \<Rightarrow> ('z rbac_db_scheme, audit_entry) op" where
  "createCapability_work body =
     bindM (getM (\<lambda>db. find (\<lambda>c. cr_id c = ccb_id body) (db_capabilities db))) (\<lambda>existing.
     thenM (guardM (existing = None) (conflict_error ''A capability with this id already exists.''))
     (thenM (requirePermissionsExist (ccb_requiredPermissions body))
     (thenM (statement (\<lambda>db. db\<lparr>db_capabilities := db_capabilities db @
          [\<lparr>cr_id = ccb_id body, cr_kind = ccb_kind body, cr_mode = ccb_mode body,
            cr_risk = ccb_risk body, cr_resourceScoped = ccb_resourceScoped body,
            cr_delegated = ccb_delegated body, cr_enabled = True,
            cr_requiresApproval = ccb_requiresApproval body, cr_isSystem = False,
            cr_description = ccb_description body\<rparr>]\<rparr>))
     (thenM (insert_capability_permissions (ccb_id body) (ccb_requiredPermissions body))
     (returnM (entry ''capability.create'' ''capability'' (ccb_id body) None))))))"

definition patch_capability :: "update_capability_body \<Rightarrow> capability_row \<Rightarrow> capability_row" where
  "patch_capability body c =
     opt_set (ucb_description body) (\<lambda>d x. x\<lparr>cr_description := d\<rparr>)
     (opt_set (ucb_requiresApproval body) (\<lambda>b x. x\<lparr>cr_requiresApproval := b\<rparr>)
     (opt_set (ucb_risk body) (\<lambda>r x. x\<lparr>cr_risk := r\<rparr>)
     (opt_set (ucb_enabled body) (\<lambda>b x. x\<lparr>cr_enabled := b\<rparr>) c)))"

definition updateCapability_work :: "string \<Rightarrow> update_capability_body \<Rightarrow> ('z rbac_db_scheme, audit_entry) op" where
  "updateCapability_work i body =
     bindM (getM (\<lambda>db. find (\<lambda>c. cr_id c = i) (db_capabilities db))) (\<lambda>capability.
     thenM (guardM (capability \<noteq> None) (not_found_error ''Capability not found.''))
     (thenM (statement (\<lambda>db. db\<lparr>db_capabilities :=
          map (\<lambda>c. if cr_id c = i then patch_capability body c else c) (db_capabilities db)\<rparr>))
     (thenM (case ucb_requiredPermissions body of
               None \<Rightarrow> returnM ()
             | Some permissions \<Rightarrow>
                 thenM (requirePermissionsExist permissions)
                 (thenM (statement (\<lambda>db. db\<lparr>db_capabilityPermissions :=
                     filter (\<lambda>(c, p). c \<noteq> i) (db_capabilityPermissions db)\<rparr>))
                 (insert_capability_permissions i permissions)))
     (returnM (entry ''capability.update'' ''capability'' i None)))))"

definition deleteCapability_work :: "string \<Rightarrow> ('z rbac_db_scheme, audit_entry) op" where
  "deleteCapability_work i =
     bindM (getM (\<lambda>db. find (\<lambda>c. cr_id c = i) (db_capabilities db))) (\<lambda>found.
     bindM (someM found (not_found_error ''Capability not found.'')) (\<lambda>capability.
     thenM (guardM (\<not> cr_isSystem capability) (conflict_error ''Built-in capabilities cannot be deleted.''))
     (thenM (statement (delete_capability_row i))
     (returnM (entry ''capability.delete'' ''capability'' i None)))))"

section \<open>Route policies and view bindings\<close>

record update_route_body =
  urb_kind :: string
  urb_permissionName :: "string option"
  urb_audit :: "bool option"

definition updateRoutePolicy_work :: "string \<Rightarrow> update_route_body \<Rightarrow> ('z rbac_db_scheme, audit_entry) op" where
  "updateRoutePolicy_work routeId body =
     bindM (getM (\<lambda>db. find (\<lambda>r. rr_routeId r = routeId) (db_routePolicies db))) (\<lambda>policy.
     thenM (guardM (policy \<noteq> None) (not_found_error ''Route policy not found.''))
     (let permissionName = (if urb_kind body = ''permission'' then urb_permissionName body else None) in
      thenM (case some_id permissionName of
               Some p \<Rightarrow> if urb_kind body = ''permission'' then requirePermissionsExist [p] else returnM ()
             | None \<Rightarrow> returnM ())
      (thenM (statement (\<lambda>db. db\<lparr>db_routePolicies :=
           map (\<lambda>r. if rr_routeId r = routeId
                    then opt_set (urb_audit body) (\<lambda>b x. x\<lparr>rr_audit := b\<rparr>)
                           (r\<lparr>rr_kind := urb_kind body, rr_permissionName := permissionName\<rparr>)
                    else r) (db_routePolicies db)\<rparr>))
      (returnM (entry ''route-policy.update'' ''route'' routeId
         (Some (JObj [(''kind'', JStr (urb_kind body)), (''permissionName'', jnullable permissionName)])))))))"

definition upsert_view :: "string \<Rightarrow> string \<Rightarrow> string \<Rightarrow> view_permission_row list \<Rightarrow> view_permission_row list" where
  "upsert_view viewName mode permissionName rows =
     (let row = \<lparr>vr_viewName = viewName, vr_mode = mode, vr_permissionName = permissionName,
                 vr_isSystem = False\<rparr>
      in if list_ex (\<lambda>v. vr_viewName v = viewName \<and> vr_mode v = mode) rows
         then map (\<lambda>v. if vr_viewName v = viewName \<and> vr_mode v = mode then row else v) rows
         else rows @ [row])"

definition updateViewPermission_work :: "string \<Rightarrow> string \<Rightarrow> string \<Rightarrow> ('z rbac_db_scheme, audit_entry) op" where
  "updateViewPermission_work viewName mode permissionName =
     thenM (requirePermissionsExist [permissionName])
     (thenM (statement (\<lambda>db. db\<lparr>db_viewPermissions :=
        upsert_view viewName mode permissionName (db_viewPermissions db)\<rparr>))
     (returnM (entry ''view-permission.update'' ''view'' (viewName @ '':'' @ mode)
        (Some (JObj [(''permissionName'', JStr permissionName)])))))"

section \<open>The service as commands\<close>

datatype rbac_command =
  CreateRole string "string option"
| UpdateRole string "string option"
| DeleteRole string
| CreatePermission string "string option"
| UpdatePermission string "string option"
| DeletePermission string
| SetRolePermissions string "string list"
| CreateCapability create_capability_body
| UpdateCapability string update_capability_body
| DeleteCapability string
| UpdateRoutePolicy string update_route_body
| UpdateViewPermission string string string

text \<open>The work of a command inside its transaction.\<close>

fun command_work :: "rbac_command \<Rightarrow> ('z rbac_db_scheme, audit_entry) op" where
  "command_work (CreateRole n d) = createRole_work n d"
| "command_work (UpdateRole n d) = updateRole_work n d"
| "command_work (DeleteRole n) = deleteRole_work n"
| "command_work (CreatePermission n d) = createPermission_work n d"
| "command_work (UpdatePermission n d) = updatePermission_work n d"
| "command_work (DeletePermission n) = deletePermission_work n"
| "command_work (SetRolePermissions r ps) = setRolePermissions_work r ps"
| "command_work (CreateCapability b) = createCapability_work b"
| "command_work (UpdateCapability i b) = updateCapability_work i b"
| "command_work (DeleteCapability i) = deleteCapability_work i"
| "command_work (UpdateRoutePolicy i b) = updateRoutePolicy_work i b"
| "command_work (UpdateViewPermission v m p) = updateViewPermission_work v m p"

text \<open>The service method of a command: the role commands also mirror to Keycloak.\<close>

fun rbac_exec ::
  "'k kc_client option \<Rightarrow> rbac_actor \<Rightarrow> rbac_command \<Rightarrow> (('z, 'k) world, rbac_write_result) op" where
  "rbac_exec client actor (CreateRole n d) = createRole client actor n d"
| "rbac_exec client actor (UpdateRole n d) = updateRole client actor n d"
| "rbac_exec client actor (DeleteRole n) = deleteRole client actor n"
| "rbac_exec client actor c = bindM (mutate actor (command_work c)) plain_result"

section \<open>Lemmas\<close>

lemma statement_apply [op_simps, code]:
  "statement f d = (if rbac_db_ok (f d) then (Inr (), f d) else (Inl db_query_failed, d))"
  by (simp add: statement_def op_simps)

lemma preserves_statement_frame: "(\<And>d. I d \<Longrightarrow> I (f d)) \<Longrightarrow> preserves I (statement f)"
  unfolding statement_def by (rule preserves_checked_update)

lemma preserves_requireRole: "preserves I (requireRole n)"
  unfolding requireRole_def by (intro preserves_intros)

lemma preserves_requirePermission: "preserves I (requirePermission n)"
  unfolding requirePermission_def by (intro preserves_intros)

lemma preserves_requirePermissionsExist: "preserves I (requirePermissionsExist ns)"
  unfolding requirePermissionsExist_def by (auto intro!: preserves_bindM)

lemmas work_defs = createRole_work_def updateRole_work_def deleteRole_work_def
  createPermission_work_def updatePermission_work_def deletePermission_work_def
  setRolePermissions_work_def createCapability_work_def updateCapability_work_def
  deleteCapability_work_def updateRoutePolicy_work_def updateViewPermission_work_def
  insert_capability_permissions_def

lemmas work_intros = preserves_returnM preserves_throwM preserves_getM preserves_guardM
  preserves_someM preserves_bindM preserves_thenM preserves_requireRole preserves_requirePermission
  preserves_requirePermissionsExist

lemma command_work_ok: "preserves rbac_db_ok (command_work c)"
  by (cases c) (auto simp: work_defs Let_def intro!: work_intros preserves_statement split: option.splits)

text \<open>What a command's own statements never touch: the audit log, the revision, the users' roles.\<close>

definition frame :: "rbac_audit_row list \<Rightarrow> int option \<Rightarrow> (string \<times> string) list \<Rightarrow> 'z rbac_db_scheme \<Rightarrow> bool" where
  "frame a r u d \<longleftrightarrow> db_rbacAudit d = a \<and> db_revision d = r \<and> db_userRoles d = u"

lemma command_work_frame: "preserves (frame a r u) (command_work c)"
  by (cases c) (auto simp: work_defs Let_def frame_def delete_role_row_def delete_permission_row_def
      delete_capability_row_def intro!: work_intros preserves_statement_frame split: option.splits)

lemma command_work_frameD:
  assumes "command_work c d = (res, d1)"
  shows "db_rbacAudit d1 = db_rbacAudit d" "db_revision d1 = db_revision d" "db_userRoles d1 = db_userRoles d"
  using preservesD [OF command_work_frame _ assms, of "db_rbacAudit d" "db_revision d" "db_userRoles d"]
  by (auto simp: frame_def)

lemma mutate_tx_Inl: "mutate_tx actor work d = (Inl e, d') \<Longrightarrow> d' = d"
  unfolding mutate_tx_def by (rule transactionM_rollback)

definition audited :: "rbac_actor \<Rightarrow> audit_entry \<Rightarrow> 'z rbac_db_scheme \<Rightarrow> 'z rbac_db_scheme" where
  "audited actor e d = d\<lparr>db_rbacAudit := db_rbacAudit d @
       [\<lparr>au_actorSubject = actor_subject actor, au_actorUserId = actor_userId actor,
         au_action = ae_action e, au_targetType = ae_targetType e,
         au_targetId = ae_targetId e, au_details = ae_details e\<rparr>],
     db_revision := map_option (\<lambda>r. r + 1) (db_revision d)\<rparr>"

lemma mutate_tx_Inr_iff:
  "mutate_tx actor work d = (Inr (), d') \<longleftrightarrow>
     (\<exists>e d1. work d = (Inr e, d1) \<and> orphaned_permissions d1 = [] \<and> d' = audited actor e d1)"
  by (auto simp: mutate_tx_def op_simps assertCriticalPermissionsCovered_def insert_audit_def
      bump_revision_def audited_def split: prod.splits sum.splits if_splits)

lemma audited_simps [simp]:
  "db_roles (audited actor e d) = db_roles d"
  "db_permissions (audited actor e d) = db_permissions d"
  "db_rolePermissions (audited actor e d) = db_rolePermissions d"
  "db_userRoles (audited actor e d) = db_userRoles d"
  "db_capabilities (audited actor e d) = db_capabilities d"
  "db_capabilityPermissions (audited actor e d) = db_capabilityPermissions d"
  "db_routePolicies (audited actor e d) = db_routePolicies d"
  "db_viewPermissions (audited actor e d) = db_viewPermissions d"
  "db_revision (audited actor e d) = map_option (\<lambda>r. r + 1) (db_revision d)"
  "role_names (audited actor e d) = role_names d"
  "permission_names (audited actor e d) = permission_names d"
  "capability_ids (audited actor e d) = capability_ids d"
  by (simp_all add: audited_def role_names_def permission_names_def capability_ids_def)

lemma rbac_db_ok_audited [simp]: "rbac_db_ok (audited actor e d) = rbac_db_ok d"
  by (simp add: rbac_db_ok_def cong: option.case_cong)

lemma orphaned_audited [simp]: "orphaned_permissions (audited actor e d) = orphaned_permissions d"
  by (simp add: orphaned_permissions_def audited_def)

definition critical_covered :: "'z rbac_db_scheme \<Rightarrow> bool" where
  "critical_covered db \<longleftrightarrow> list_all (\<lambda>p. list_ex (\<lambda>(r, q). q = p) (db_rolePermissions db)) CRITICAL_PERMISSIONS"

lemma orphaned_Nil_iff: "orphaned_permissions db = [] \<longleftrightarrow> critical_covered db"
  by (auto simp: orphaned_permissions_def critical_covered_def list_all_iff list_ex_iff filter_empty_conv
      image_iff case_prod_unfold)

definition rbac_world_ok :: "('z, 'k) world \<Rightarrow> bool" where
  "rbac_world_ok w \<longleftrightarrow> rbac_db_ok (w_db w) \<and> critical_covered (w_db w)"

lemma mutate_cases:
  obtains (failed) e where "mutate actor work w = (Inl e, w)"
  | (committed) en d1 where "work (w_db w) = (Inr en, d1)" "critical_covered d1"
      "mutate actor work w =
        (Inr (loadData (audited actor en d1)),
         w\<lparr>w_db := audited actor en d1, w_current := mkRegistry (loadData (audited actor en d1)),
           w_active := mkRegistry (loadData (audited actor en d1))\<rparr>)"
proof (cases "mutate_tx actor work (w_db w)")
  case (Pair r d')
  show ?thesis
  proof (cases r)
    case (Inl e)
    with Pair mutate_tx_Inl have "d' = w_db w" by blast
    with Inl Pair show ?thesis
      by (intro failed [of e]) (simp add: mutate_def op_simps on_db_def)
  next
    case (Inr u)
    with Pair obtain en d1 where "work (w_db w) = (Inr en, d1)" "orphaned_permissions d1 = []"
      "d' = audited actor en d1" using mutate_tx_Inr_iff by (metis (full_types) old.unit.exhaust)
    with Inr Pair show ?thesis
      by (intro committed [of en d1])
        (simp_all add: mutate_def op_simps on_db_def refresh_def registry_snapshot_def orphaned_Nil_iff Let_def)
  qed
qed

lemma mutate_world_ok:
  assumes "rbac_world_ok w"
  shows "rbac_world_ok (snd (mutate actor (command_work c) w))
    \<and> (\<exists>new. db_rbacAudit (w_db (snd (mutate actor (command_work c) w))) = db_rbacAudit (w_db w) @ new)"
proof (cases rule: mutate_cases [of actor "command_work c" w])
  case (failed e)
  with assms show ?thesis by simp
next
  case (committed en d1)
  have "rbac_db_ok d1"
    using preservesD [OF command_work_ok _ committed(1)] assms by (simp add: rbac_world_ok_def)
  with committed command_work_frameD [OF committed(1)] show ?thesis
    by (simp add: rbac_world_ok_def orphaned_Nil_iff [symmetric]) (simp add: audited_def)
qed

text \<open>The steps after the transaction: Keycloak, the stored Keycloak id, the reload.\<close>

definition rbac_step_ok :: "rbac_audit_row list \<Rightarrow> ('z, 'k) world \<Rightarrow> bool" where
  "rbac_step_ok a w \<longleftrightarrow> rbac_world_ok w \<and> (\<exists>new. db_rbacAudit (w_db w) = a @ new)"

lemma step_ok_on_kc: "preserves (rbac_step_ok a) (on_kc f)"
  by (auto simp: preserves_def on_kc_def rbac_step_ok_def rbac_world_ok_def split: prod.splits)

lemma step_ok_refresh: "preserves (rbac_step_ok a) refresh"
  by (auto simp: preserves_def refresh_def rbac_step_ok_def rbac_world_ok_def Let_def)

lemma step_ok_set_keycloakRoleId: "preserves (rbac_step_ok a) (on_db (set_keycloakRoleId n i))"
  by (auto simp: preserves_def on_db_def set_keycloakRoleId_def op_simps rbac_step_ok_def rbac_world_ok_def
      critical_covered_def)

lemma step_ok_mutate: "preserves (rbac_step_ok a) (mutate actor (command_work c))"
  using mutate_world_ok by (fastforce simp: preserves_def rbac_step_ok_def)

lemma step_ok_current_result: "preserves (rbac_step_ok a) (current_result kc)"
  unfolding current_result_def by (intro preserves_intros)

lemma rbac_exec_step_ok: "preserves (rbac_step_ok a) (rbac_exec client actor c)"
proof -
  have plain: "preserves (rbac_step_ok a) (bindM (mutate actor (command_work c)) plain_result)" for c
    unfolding plain_result_def by (intro preserves_bindM step_ok_mutate preserves_returnM)
  show ?thesis
  proof (cases c)
    case (CreateRole n d)
    then show ?thesis
      using step_ok_mutate [of a actor "CreateRole n d"]
      by (auto simp: createRole_def intro!: preserves_thenM preserves_bindM step_ok_on_kc step_ok_refresh
          step_ok_set_keycloakRoleId step_ok_current_result split: option.splits)
  next
    case (UpdateRole n d)
    then show ?thesis
      using step_ok_mutate [of a actor "UpdateRole n d"]
      by (auto simp: updateRole_def intro!: preserves_thenM preserves_bindM step_ok_on_kc step_ok_current_result)
  next
    case (DeleteRole n)
    then show ?thesis
      using step_ok_mutate [of a actor "DeleteRole n"]
      by (auto simp: deleteRole_def intro!: preserves_thenM preserves_bindM step_ok_on_kc step_ok_current_result)
  qed (simp_all only: rbac_exec.simps plain)
qed

text \<open>The RBAC service meets the contract of a service with an invariant and an append-only log.\<close>

interpretation rbac: command_service "\<lambda>(actor, c). rbac_exec client actor c" rbac_world_ok
  "\<lambda>w :: ('z, 'k) world. db_rbacAudit (w_db w)" for client :: "'k kc_client option"
proof unfold_locales
  fix ac :: "rbac_actor \<times> rbac_command" and w :: "('z, 'k) world"
  assume "rbac_world_ok w"
  then have "rbac_step_ok (db_rbacAudit (w_db w)) w" by (simp add: rbac_step_ok_def)
  then have "rbac_step_ok (db_rbacAudit (w_db w)) (snd (rbac_exec client (fst ac) (snd ac) w))"
    using rbac_exec_step_ok unfolding preserves_def by blast
  then show "rbac_world_ok (snd ((case ac of (actor, c) \<Rightarrow> rbac_exec client actor c) w))"
    and "\<exists>new. db_rbacAudit (w_db (snd ((case ac of (actor, c) \<Rightarrow> rbac_exec client actor c) w)))
           = db_rbacAudit (w_db w) @ new"
    by (simp_all add: rbac_step_ok_def case_prod_unfold)
qed

section \<open>A small policy\<close>

text \<open>Two roles and the critical permissions; the instance the witnesses evaluate.\<close>

definition example_db :: rbac_db where
  "example_db =
     \<lparr>db_roles = map (\<lambda>n. \<lparr>rv_name = n, rv_description = None, rv_isSystem = False, rv_keycloakRoleId = None\<rparr>)
        [''admin'', ''temp''],
      db_permissions = map (\<lambda>n. \<lparr>pv_name = n, pv_description = None, pv_isSystem = True\<rparr>) CRITICAL_PERMISSIONS,
      db_rolePermissions = map (\<lambda>p. (''admin'', p)) CRITICAL_PERMISSIONS @ [(''temp'', ''read-users'')],
      db_userRoles = [(''u1'', ''admin'')],
      db_capabilities = [\<lparr>cr_id = ''c'', cr_kind = ''agent-skill'', cr_mode = ''read'', cr_risk = ''low'',
        cr_resourceScoped = False, cr_delegated = True, cr_enabled = True, cr_requiresApproval = False,
        cr_isSystem = False, cr_description = None\<rparr>],
      db_capabilityPermissions = [(''c'', ''read-users'')], db_routePolicies = [], db_viewPermissions = [],
      db_revision = Some 1, db_rbacAudit = []\<rparr>"

definition example_actor :: rbac_actor where
  "example_actor = \<lparr>actor_subject = ''s'', actor_userId = None\<rparr>"

definition example_world :: "(unit, unit) world" where
  "example_world = \<lparr>w_db = example_db, w_current = fromStaticCatalog, w_active = fromStaticCatalog, w_kc = ()\<rparr>"

lemma example_db_ok: "rbac_db_ok example_db"
  by code_simp

lemma example_world_ok: "rbac_world_ok example_world"
proof -
  have "critical_covered example_db" by code_simp
  then show ?thesis by (simp add: rbac_world_ok_def example_world_def example_db_ok)
qed

lemma example_mutation:
  "\<exists>d1. mutate_tx example_actor (command_work (SetRolePermissions ''temp'' [])) example_db = (Inr (), d1)
     \<and> db_rolePermissions d1 = map (\<lambda>p. (''admin'', p)) CRITICAL_PERMISSIONS"
proof -
  have "case mutate_tx example_actor (command_work (SetRolePermissions ''temp'' [])) example_db of
      (Inl e, d) \<Rightarrow> False
    | (Inr u, d) \<Rightarrow> db_rolePermissions d = map (\<lambda>p. (''admin'', p)) CRITICAL_PERMISSIONS"
    by code_simp
  then show ?thesis by (auto split: prod.splits sum.splits)
qed

section \<open>Properties\<close>

text \<open>C6: Last-admin protection holds along every history. Starting from a database that satisfies
  its constraints and where every critical permission is granted to some role, any sequence of
  administrative commands by any actors, succeeding or failing, leaves the constraints satisfied
  and each of the four critical permissions granted to a role that exists; the audit log only
  grows.\<close>

theorem rbac_last_admin:
  assumes "rbac_world_ok w"
  shows "rbac_db_ok (w_db (run_commands (\<lambda>(actor, c). rbac_exec client actor c) cs w))
    \<and> (\<forall>p \<in> {''read-permissions'', ''write-permissions'', ''read-users'', ''write-users''}.
         \<exists>r \<in> set (role_names (w_db (run_commands (\<lambda>(actor, c). rbac_exec client actor c) cs w))).
           (r, p) \<in> set (db_rolePermissions (w_db (run_commands (\<lambda>(actor, c). rbac_exec client actor c) cs w))))
    \<and> (\<exists>new. db_rbacAudit (w_db (run_commands (\<lambda>(actor, c). rbac_exec client actor c) cs w))
          = db_rbacAudit (w_db w) @ new)"
proof -
  let ?w = "run_commands (\<lambda>(actor, c). rbac_exec client actor c) cs w"
  have ok: "rbac_db_ok (w_db ?w)" "critical_covered (w_db ?w)"
    using rbac.run_inv [OF assms] by (simp_all add: rbac_world_ok_def)
  have "\<exists>r \<in> set (role_names (w_db ?w)). (r, p) \<in> set (db_rolePermissions (w_db ?w))"
    if "p \<in> set CRITICAL_PERMISSIONS" for p
    using ok that by (fastforce simp: critical_covered_def rbac_db_ok_def list_all_iff list_ex_iff)
  with ok(1) rbac.run_log [OF assms] show ?thesis by (simp add: CRITICAL_PERMISSIONS_def)
qed

theorem rbac_last_admin_witness:
  "rbac_db_ok (w_db (run_commands (\<lambda>(actor, c). rbac_exec None actor c)
      [(example_actor, SetRolePermissions ''admin'' []), (example_actor, DeleteRole ''temp'')] example_world))"
  using rbac_last_admin [OF example_world_ok] by blast



text \<open>C25: What the enforcement layer decides is what the tables say. For a database that
  satisfies its constraints, the loaded registry is well formed, knows exactly the roles of the
  roles table, grants a permission to a set of roles exactly when a row of role_permissions does,
  and lets a capability through exactly when its row is enabled, it requires something, and all
  its capability_permissions rows name permissions the caller holds.\<close>

theorem loaded_registry_faithful:
  assumes "rbac_db_ok d"
  shows "registry_wf (mkRegistry (loadData d))
    \<and> (\<forall>r. hasRole (mkRegistry (loadData d)) r \<longleftrightarrow> r \<in> set (role_names d))
    \<and> (reg_rolesGrantPermission (mkRegistry (loadData d)) roles p
         \<longleftrightarrow> (\<exists>r \<in> set roles. (r, p) \<in> set (db_rolePermissions d)))
    \<and> (i \<in> set (capabilityAllowlist (mkRegistry (loadData d)) ps) \<longleftrightarrow>
         (\<exists>c \<in> set (db_capabilities d). cr_id c = i \<and> cr_enabled c)
         \<and> (\<exists>q. (i, q) \<in> set (db_capabilityPermissions d))
         \<and> (\<forall>q. (i, q) \<in> set (db_capabilityPermissions d) \<longrightarrow> q \<in> set ps))"
proof -
  have caps: "rd_capabilities (loadData d) =
      map (capability_view_of (foldl push_at [] (db_capabilityPermissions d))) (db_capabilities d)"
    by (simp add: loadData_def loadData_from_def Let_def)
  have wf: "registry_wf (mkRegistry (loadData d))"
    unfolding loadData_def by (rule loaded_wf [OF assms])
  have "i \<in> set (capabilityAllowlist (mkRegistry (loadData d)) ps) \<longleftrightarrow>
      (\<exists>c \<in> set (db_capabilities d). cr_id c = i \<and> cr_enabled c
        \<and> reg_permissionsSatisfyCapability
            (capability_view_of (foldl push_at [] (db_capabilityPermissions d)) c) ps)"
    by (force simp: capabilityAllowlist_def caps reg_satisfies_iff)
  also have "\<dots> \<longleftrightarrow> (\<exists>c \<in> set (db_capabilities d). cr_id c = i \<and> cr_enabled c)
         \<and> (\<exists>q. (i, q) \<in> set (db_capabilityPermissions d))
         \<and> (\<forall>q. (i, q) \<in> set (db_capabilityPermissions d) \<longrightarrow> q \<in> set ps)"
    unfolding loaded_satisfies_iff by blast
  finally show ?thesis
    using wf by (simp add: reg_rolesGrantPermission_iff loadData_def loaded_grants [OF assms] loaded_hasRole)
qed

theorem loaded_registry_faithful_witness:
  "reg_rolesGrantPermission (mkRegistry (loadData example_db)) [''temp''] ''read-users''
   \<and> ''c'' \<in> set (capabilityAllowlist (mkRegistry (loadData example_db)) [''read-users''])"
  using loaded_registry_faithful [OF example_db_ok,
      where p = "''read-users''" and roles = "[''temp'']" and i = "''c''" and ps = "[''read-users'']"]
  by (simp add: example_db_def)

text \<open>Setting the grants of a role takes effect at once and touches no other role: after a
  successful call the registry that the enforcement layer reads grants the role exactly the given
  permissions, and every other role exactly what the tables granted it before.\<close>

theorem setRolePermissions_effective:
  assumes "rbac_db_ok (w_db w)"
    and "rbac_exec client actor (SetRolePermissions role perms) w = (Inr res, w')"
  shows "reg_grants (w_active w') r p \<longleftrightarrow>
      (if r = role then p \<in> set perms else (r, p) \<in> set (db_rolePermissions (w_db w)))"
proof -
  from assms(2) obtain reg where m: "mutate actor (command_work (SetRolePermissions role perms)) w = (Inr reg, w')"
    by (auto simp: op_simps plain_result_def split: prod.splits sum.splits)
  then obtain en d1 where work: "setRolePermissions_work role perms (w_db w) = (Inr en, d1)"
    and w': "w_active w' = mkRegistry (loadData (audited actor en d1))"
    by (cases rule: mutate_cases [of actor "command_work (SetRolePermissions role perms)" w]) auto
  have "rbac_db_ok d1"
    using preservesD [OF command_work_ok [of "SetRolePermissions role perms"] assms(1)] work by simp
  moreover have "db_rolePermissions d1 =
      filter (\<lambda>(r, p). r \<noteq> role) (db_rolePermissions (w_db w)) @ map (\<lambda>p. (role, p)) perms"
    using work by (auto simp: setRolePermissions_work_def requireRole_def requirePermissionsExist_def op_simps
        split: option.splits if_splits prod.splits sum.splits)
  ultimately show ?thesis
    by (auto simp: w' loadData_def loaded_grants)
qed

theorem setRolePermissions_effective_witness:
  "\<exists>res w'. rbac_exec None example_actor (SetRolePermissions ''temp'' []) example_world = (Inr res, w')
     \<and> \<not> reg_grants (w_active w') ''temp'' ''read-users'' \<and> reg_grants (w_active w') ''admin'' ''read-users''"
proof -
  from example_mutation obtain d1 where
    "mutate_tx example_actor (command_work (SetRolePermissions ''temp'' [])) example_db = (Inr (), d1)" by blast
  then obtain res w' where
    m: "rbac_exec None example_actor (SetRolePermissions ''temp'' []) example_world = (Inr res, w')"
    by (simp add: mutate_def op_simps on_db_def example_world_def refresh_def Let_def plain_result_def)
  have ok: "rbac_db_ok (w_db example_world)" by (simp add: example_world_def example_db_ok)
  from m setRolePermissions_effective [OF ok m] show ?thesis
    by (auto simp: example_world_def example_db_def CRITICAL_PERMISSIONS_def)
qed

end
