(* ===== verification/Users.thy ===== *)
theory Users
  imports Store Rbac_Admin
begin

text \<open>
  Application users: the repository and the profile of the caller
  (\<open>api/src/modules/users/user.repository.ts\<close>, \<open>current-user.ts\<close>, \<open>user.dto.ts\<close>) and their
  administration with Keycloak (\<open>modules/admin/admin-user.service.ts\<close>). \<open>gen\<close> generates a row
  identifier, \<open>now\<close> is the request's clock, \<open>ilike\<close> is PostgreSQL's operator.
\<close>

section \<open>The repository\<close>

type_synonym user_with_roles = "user \<times> string list"

definition rolesOf :: "'z nova_db_scheme \<Rightarrow> user \<Rightarrow> string list" where
  "rolesOf db u = sort (map snd (filter (\<lambda>ur. fst ur = us_id u) (db_userRoles db)))"

definition with_roles :: "'z nova_db_scheme \<Rightarrow> user \<Rightarrow> user_with_roles" where
  "with_roles db u = (u, rolesOf db u)"

definition user_findById :: "string \<Rightarrow> 'z nova_db_scheme \<Rightarrow> user_with_roles option" where
  "user_findById i db = map_option (with_roles db) (find (\<lambda>u. us_id u = i) (tb_users db))"

definition user_findByEmail :: "string \<Rightarrow> 'z nova_db_scheme \<Rightarrow> user_with_roles option" where
  "user_findByEmail email db = map_option (with_roles db) (find (\<lambda>u. us_email u = email) (tb_users db))"

definition user_findByKeycloakId :: "string \<Rightarrow> 'z nova_db_scheme \<Rightarrow> user_with_roles option" where
  "user_findByKeycloakId k db =
     map_option (with_roles db) (find (\<lambda>u. us_keycloakId u = Some k) (tb_users db))"

record user_list_filter =
  uf_page :: nat
  uf_pageSize :: nat
  uf_search :: "string option"
  uf_role :: "string option"

definition user_findPaginated ::
  "(string \<Rightarrow> string \<Rightarrow> bool) \<Rightarrow> user_list_filter \<Rightarrow> 'z nova_db_scheme \<Rightarrow> user_with_roles list \<times> nat" where
  "user_findPaginated ilike f db =
     (let rows = opt_where (some_id (uf_role f)) (\<lambda>r u. (us_id u, r) \<in> set (db_userRoles db))
                  (opt_where (some_id (uf_search f)) (\<lambda>q u. ilike (us_email u) (like_pattern q)
                      \<or> ilike (us_firstName u) (like_pattern q) \<or> ilike (us_lastName u) (like_pattern q))
                    (tb_users db))
      in find_paginated (uf_page f) (uf_pageSize f)
           (map (with_roles db) (sort_desc (\<lambda>u. (us_createdAt u, us_id u)) rows)))"

record create_user_data =
  cud_email :: string
  cud_firstName :: string
  cud_lastName :: string
  cud_middleName :: "string option"
  cud_description :: "string option"
  cud_keycloakId :: "string option"
  cud_active :: bool

definition user_create ::
  "('z nova_db_scheme \<Rightarrow> string) \<Rightarrow> int \<Rightarrow> create_user_data \<Rightarrow> ('z nova_db_scheme, user) op" where
  "user_create gen now d =
     bindM (getM gen) (\<lambda>i.
       let u = \<lparr>us_id = i, us_email = cud_email d, us_keycloakId = cud_keycloakId d,
                us_active = cud_active d, us_firstName = cud_firstName d, us_lastName = cud_lastName d,
                us_middleName = cud_middleName d, us_description = cud_description d, us_createdAt = now\<rparr>
       in thenM (nova_statement (\<lambda>db. db\<lparr>tb_users := tb_users db @ [u]\<rparr>)) (returnM u))"

definition user_patch :: "string \<Rightarrow> (user \<Rightarrow> user) \<Rightarrow> ('z nova_db_scheme, unit) op" where
  "user_patch i f = nova_statement (\<lambda>db. db\<lparr>tb_users :=
     map (\<lambda>u. if us_id u = i then f u else u) (tb_users db)\<rparr>)"

definition setKeycloakId :: "string \<Rightarrow> string option \<Rightarrow> ('z nova_db_scheme, unit) op" where
  "setKeycloakId i k = user_patch i (\<lambda>u. u\<lparr>us_keycloakId := k\<rparr>)"

definition replaceRoles :: "string \<Rightarrow> string list \<Rightarrow> ('z nova_db_scheme, unit) op" where
  "replaceRoles i roles =
     transactionM
       (thenM (nova_statement (\<lambda>db. db\<lparr>db_userRoles := filter (\<lambda>ur. fst ur \<noteq> i) (db_userRoles db)\<rparr>))
       (if length roles > 0
        then nova_statement (\<lambda>db. db\<lparr>db_userRoles := db_userRoles db @ map (\<lambda>r. (i, r)) roles\<rparr>)
        else returnM ()))"

section \<open>The current user\<close>

definition localPartOf :: "string option \<Rightarrow> string" where
  "localPartOf email = (case email of None \<Rightarrow> ''user'' | Some e \<Rightarrow> hd (js_split (CHR 0x40) e))"

definition provision_profile ::
  "('z nova_db_scheme \<Rightarrow> string) \<Rightarrow> int \<Rightarrow> auth_context \<Rightarrow> string \<Rightarrow> ('z nova_db_scheme, user_with_roles) op" where
  "provision_profile gen now auth email =
     bindM (user_create gen now
       \<lparr>cud_email = email, cud_firstName = nullish (ac_givenName auth) (localPartOf (Some email)),
        cud_lastName = nullish (ac_familyName auth) [], cud_middleName = None, cud_description = None,
        cud_keycloakId = Some (ac_subject auth), cud_active = True\<rparr>) (\<lambda>created.
     let roles = sort (ac_roles auth) in
     thenM (if length roles > 0 then replaceRoles (us_id created) roles else returnM ())
       (returnM (created, roles)))"

definition resolveCurrentUser ::
  "('z nova_db_scheme \<Rightarrow> string) \<Rightarrow> int \<Rightarrow> auth_context \<Rightarrow> ('z nova_db_scheme, user_with_roles) op" where
  "resolveCurrentUser gen now auth =
     (case some_id (ac_applicationUserId auth) of
        Some i \<Rightarrow> bindM (getM (user_findById i)) (\<lambda>pinned.
          someM pinned (unauthenticated_error ''Entitlement snapshot references an unknown user.''))
      | None \<Rightarrow>
          if ac_subject auth = [] then throwM (unauthenticated_error ''Token is missing a subject.'')
          else bindM (getM (user_findByKeycloakId (ac_subject auth))) (\<lambda>byKeycloak.
            case byKeycloak of
              Some u \<Rightarrow> returnM u
            | None \<Rightarrow>
                (case some_id (ac_email auth) of
                   None \<Rightarrow> throwM (unauthenticated_error ''Token is missing an email claim.'')
                 | Some email \<Rightarrow>
                     bindM (getM (user_findByEmail email)) (\<lambda>byEmail.
                       case byEmail of
                         Some (u, roles) \<Rightarrow>
                           if us_keycloakId u = None
                           then thenM (setKeycloakId (us_id u) (Some (ac_subject auth)))
                                  (returnM (u\<lparr>us_keycloakId := Some (ac_subject auth)\<rparr>, roles))
                           else returnM (u, roles)
                       | None \<Rightarrow> provision_profile gen now auth email))))"

section \<open>Data transfer objects\<close>

definition effectivePermissions :: "rbac_registry \<Rightarrow> string list \<Rightarrow> string list" where
  "effectivePermissions R roles = sort (reg_permissionsForRoles R (knownRoles R roles))"

record admin_user_dto =
  aud_user :: user
  aud_roles :: "string list"
  aud_permissions :: "string list"
  aud_active :: bool
  aud_kcExists :: bool
  aud_kcEnabled :: bool
  aud_syncedRoles :: "string list"
  aud_syncStatus :: sync_status
  aud_lastSyncError :: "string option"

definition toAdminUserDto ::
  "rbac_registry \<Rightarrow> user \<Rightarrow> string list \<Rightarrow> sync_status option \<Rightarrow> string option \<Rightarrow> admin_user_dto" where
  "toAdminUserDto R u roles status lastSyncError =
     \<lparr>aud_user = u, aud_roles = roles, aud_permissions = effectivePermissions R roles,
      aud_active = us_active u, aud_kcExists = (us_keycloakId u \<noteq> None), aud_kcEnabled = us_active u,
      aud_syncedRoles = roles,
      aud_syncStatus = nullish status (if us_keycloakId u \<noteq> None then Synced else SyncNotFound),
      aud_lastSyncError = lastSyncError\<rparr>"

record current_user_dto =
  cur_user :: user
  cur_roles :: "string list"
  cur_permissions :: "string list"

definition toCurrentUserDto :: "rbac_registry \<Rightarrow> user \<Rightarrow> string list \<Rightarrow> current_user_dto" where
  "toCurrentUserDto R u roles =
     \<lparr>cur_user = u, cur_roles = roles, cur_permissions = effectivePermissions R roles\<rparr>"

definition me ::
  "('z nova_db_scheme \<Rightarrow> string) \<Rightarrow> int \<Rightarrow> rbac_registry \<Rightarrow> auth_context option
   \<Rightarrow> ('z nova_db_scheme, current_user_dto) op" where
  "me gen now R auth =
     (case auth of
        None \<Rightarrow> throwM unauthenticated_default
      | Some a \<Rightarrow> bindM (resolveCurrentUser gen now a) (\<lambda>(user, roles). returnM (toCurrentUserDto R user roles)))"

section \<open>Administration of users\<close>

type_synonym ('z, 'k) nova_world = "('z nova_db_ext, 'k) world"

definition to_lower :: "char \<Rightarrow> char" where
  "to_lower c = (let n = of_char c :: nat in
     if (65 \<le> n \<and> n \<le> 90) \<or> (192 \<le> n \<and> n \<le> 222 \<and> n \<noteq> 215) then char_of (n + 32) else c)"

record create_user_input =
  cui_email :: string
  cui_firstName :: string
  cui_lastName :: string
  cui_middleName :: "string option"
  cui_description :: "string option"
  cui_roles :: "string list"
  cui_sendResetPasswordEmail :: "bool option"

record update_user_input =
  uui_firstName :: "string option"
  uui_lastName :: "string option"
  uui_middleName :: "string option option"
  uui_description :: "string option option"
  uui_active :: "bool option"

definition requireUser :: "string \<Rightarrow> (('z, 'k) nova_world, user_with_roles) op" where
  "requireUser i = bindM (getM (\<lambda>w. user_findById i (w_db w)))
     (\<lambda>found. someM found (not_found_error ''User not found.''))"

definition dto_of ::
  "user_with_roles \<Rightarrow> sync_status option \<Rightarrow> string option \<Rightarrow> (('z, 'k) nova_world, admin_user_dto) op" where
  "dto_of ur status err = bindM (getM w_active) (\<lambda>R. returnM (toAdminUserDto R (fst ur) (snd ur) status err))"

definition reloadWithStatus :: "string \<Rightarrow> provision_result \<Rightarrow> (('z, 'k) nova_world, admin_user_dto) op" where
  "reloadWithStatus i provision = bindM (requireUser i)
     (\<lambda>found. dto_of found (Some (pv_status provision)) (pv_lastSyncError provision))"

definition sync_input_of :: "user_with_roles \<Rightarrow> provision_input" where
  "sync_input_of ur = \<lparr>pi_username = us_email (fst ur), pi_email = us_email (fst ur),
     pi_firstName = us_firstName (fst ur), pi_lastName = us_lastName (fst ur),
     pi_enabled = us_active (fst ur), pi_roles = snd ur\<rparr>"

definition do_sync :: "'k kc_client option \<Rightarrow> user_with_roles \<Rightarrow> (('z, 'k) nova_world, provision_result) op" where
  "do_sync client ur = bindM (getM w_active) (\<lambda>R.
     on_kc (syncUser (hasRole R) client (sync_input_of ur) (us_keycloakId (fst ur))))"

definition syncAndReload :: "'k kc_client option \<Rightarrow> string \<Rightarrow> (('z, 'k) nova_world, admin_user_dto) op" where
  "syncAndReload client i = bindM (requireUser i) (\<lambda>found.
     if client = None \<or> us_keycloakId (fst found) = None then dto_of found None None
     else bindM (do_sync client found) (\<lambda>provision.
       dto_of found (Some (pv_status provision)) (pv_lastSyncError provision)))"

definition admin_listUsers ::
  "(string \<Rightarrow> string \<Rightarrow> bool) \<Rightarrow> user_list_filter
   \<Rightarrow> (('z, 'k) nova_world, admin_user_dto paginated_result) op" where
  "admin_listUsers ilike f =
     bindM (getM (\<lambda>w. user_findPaginated ilike f (w_db w))) (\<lambda>(items, n).
     bindM (getM w_active) (\<lambda>R.
     returnM (buildPaginatedResult (map (\<lambda>(u, roles). toAdminUserDto R u roles None None) items) n
       (uf_page f) (uf_pageSize f))))"

definition admin_getUser :: "string \<Rightarrow> (('z, 'k) nova_world, admin_user_dto) op" where
  "admin_getUser i = bindM (requireUser i) (\<lambda>found. dto_of found None None)"

definition admin_createUser ::
  "('z nova_db_scheme \<Rightarrow> string) \<Rightarrow> int \<Rightarrow> 'k kc_client option \<Rightarrow> create_user_input
   \<Rightarrow> (('z, 'k) nova_world, admin_user_dto) op" where
  "admin_createUser gen now client input =
     (let email = map to_lower (cui_email input) in
      bindM (getM (\<lambda>w. user_findByEmail email (w_db w))) (\<lambda>existing.
      thenM (guardM (existing = None) (conflict_error ''A user with this email already exists.''))
      (bindM (on_db (user_create gen now
         \<lparr>cud_email = email, cud_firstName = cui_firstName input, cud_lastName = cui_lastName input,
          cud_middleName = cui_middleName input, cud_description = cui_description input,
          cud_keycloakId = None, cud_active = True\<rparr>)) (\<lambda>created.
      thenM (on_db (replaceRoles (us_id created) (cui_roles input)))
      (bindM (getM w_active) (\<lambda>R.
       bindM (on_kc (provisionUser (hasRole R) client
         \<lparr>pi_username = email, pi_email = email, pi_firstName = cui_firstName input,
          pi_lastName = cui_lastName input, pi_enabled = True, pi_roles = cui_roles input\<rparr>
         (cui_sendResetPasswordEmail input = Some True))) (\<lambda>provision.
      thenM (case some_id (pv_keycloakId provision) of
               None \<Rightarrow> returnM ()
             | Some k \<Rightarrow> on_db (setKeycloakId (us_id created) (Some k)))
      (reloadWithStatus (us_id created) provision))))))))"

definition admin_updateUser ::
  "'k kc_client option \<Rightarrow> string \<Rightarrow> update_user_input \<Rightarrow> (('z, 'k) nova_world, admin_user_dto) op" where
  "admin_updateUser client i input =
     thenM (requireUser i)
     (thenM (on_db (user_patch i (\<lambda>u.
        opt_set (uui_active input) (\<lambda>v x. x\<lparr>us_active := v\<rparr>)
        (opt_set (uui_description input) (\<lambda>v x. x\<lparr>us_description := v\<rparr>)
        (opt_set (uui_middleName input) (\<lambda>v x. x\<lparr>us_middleName := v\<rparr>)
        (opt_set (uui_lastName input) (\<lambda>v x. x\<lparr>us_lastName := v\<rparr>)
        (opt_set (uui_firstName input) (\<lambda>v x. x\<lparr>us_firstName := v\<rparr>) u)))))))
     (syncAndReload client i))"

definition admin_setUserRoles ::
  "'k kc_client option \<Rightarrow> string \<Rightarrow> string list \<Rightarrow> (('z, 'k) nova_world, admin_user_dto) op" where
  "admin_setUserRoles client i roles =
     thenM (requireUser i) (thenM (on_db (replaceRoles i roles)) (syncAndReload client i))"

definition admin_syncUserToKeycloak ::
  "'k kc_client option \<Rightarrow> string \<Rightarrow> (('z, 'k) nova_world, admin_user_dto) op" where
  "admin_syncUserToKeycloak client i =
     bindM (requireUser i) (\<lambda>found.
     bindM (do_sync client found) (\<lambda>provision.
     thenM (case some_id (pv_keycloakId provision) of
              None \<Rightarrow> returnM ()
            | Some k \<Rightarrow> if pv_keycloakId provision \<noteq> us_keycloakId (fst found)
                        then on_db (setKeycloakId i (Some k)) else returnM ())
     (reloadWithStatus i provision)))"

section \<open>Lemmas\<close>

lemma nova_db_ok_keys: "nova_db_ok db \<Longrightarrow> distinct (map us_id (tb_users db))"
  by (simp add: nova_db_ok_def keys_ok_def)

lemma nova_db_ok_user_roles: "nova_db_ok db \<Longrightarrow> ur \<in> set (db_userRoles db) \<Longrightarrow> fst ur \<in> us_id ` set (tb_users db)"
  by (auto simp: nova_db_ok_def references_ok_def refers_def list_all_iff)

lemma preserves_user_ops:
  "preserves nova_db_ok (user_create gen now d)"
  "preserves nova_db_ok (user_patch i f)"
  "preserves nova_db_ok (setKeycloakId i k)"
  "preserves nova_db_ok (replaceRoles i roles)"
  unfolding user_create_def user_patch_def setKeycloakId_def replaceRoles_def Let_def
  by (auto intro!: preserves_intros preserves_nova_statement)

lemma preserves_resolveCurrentUser: "preserves nova_db_ok (resolveCurrentUser gen now auth)"
  unfolding resolveCurrentUser_def provision_profile_def Let_def
  by (auto intro!: preserves_bindM preserves_thenM preserves_throwM preserves_returnM preserves_getM
      preserves_someM preserves_user_ops split: option.splits)

lemma replaceRoles_ok:
  "replaceRoles i roles db = (Inr (), db') \<Longrightarrow>
   db' = db\<lparr>db_userRoles := filter (\<lambda>ur. fst ur \<noteq> i) (db_userRoles db) @ map (\<lambda>r. (i, r)) roles\<rparr>"
  by (auto simp: replaceRoles_def op_simps split: if_splits sum.splits prod.splits)

lemma rolesOf_replaceRoles:
  "us_id u = i \<Longrightarrow>
   rolesOf (db\<lparr>db_userRoles := filter (\<lambda>ur. fst ur \<noteq> i) (db_userRoles db) @ map (\<lambda>r. (i, r)) roles\<rparr>) u
     = sort roles"
  by (simp add: rolesOf_def o_def)

lemma user_findById_row:
  "nova_db_ok db \<Longrightarrow> u \<in> set (tb_users db) \<Longrightarrow> user_findById (us_id u) db = Some (with_roles db u)"
  by (simp add: user_findById_def find_key nova_db_ok_keys)

definition provisioned_user :: "string \<Rightarrow> int \<Rightarrow> auth_context \<Rightarrow> string \<Rightarrow> user" where
  "provisioned_user i now auth email =
     \<lparr>us_id = i, us_email = email, us_keycloakId = Some (ac_subject auth), us_active = True,
      us_firstName = nullish (ac_givenName auth) (localPartOf (Some email)),
      us_lastName = nullish (ac_familyName auth) [], us_middleName = None, us_description = None,
      us_createdAt = now\<rparr>"

lemma provision_profile_cases:
  assumes "provision_profile gen now auth email db = (Inr ur, db')"
  shows "ur = (provisioned_user (gen db) now auth email, sort (ac_roles auth))
    \<and> nova_db_ok (db\<lparr>tb_users := tb_users db @ [provisioned_user (gen db) now auth email]\<rparr>)
    \<and> db' = db\<lparr>tb_users := tb_users db @ [provisioned_user (gen db) now auth email],
              db_userRoles := (if ac_roles auth = [] then db_userRoles db
                 else filter (\<lambda>x. fst x \<noteq> gen db) (db_userRoles db)
                   @ map (\<lambda>r. (gen db, r)) (sort (ac_roles auth)))\<rparr>"
proof -
  have l: "0 < length (sort (ac_roles auth)) \<longleftrightarrow> ac_roles auth \<noteq> []" by simp
  show ?thesis
    using assms unfolding provision_profile_def user_create_def Let_def l
    by (cases "ac_roles auth = []")
      (auto simp: op_simps provisioned_user_def dest!: replaceRoles_ok split: if_splits sum.splits prod.splits)
qed

lemma provision_profile_ok:
  assumes ok: "nova_db_ok db" and none: "user_findByKeycloakId (ac_subject auth) db = None"
    and run: "provision_profile gen now auth email db = (Inr ur, db')"
  shows "user_findByKeycloakId (ac_subject auth) db' = Some ur"
proof -
  let ?u = "provisioned_user (gen db) now auth email"
  note r = provision_profile_cases [OF run]
  have i: "us_id ?u = gen db" "us_keycloakId ?u = Some (ac_subject auth)" by (simp_all add: provisioned_user_def)
  have fresh: "gen db \<notin> us_id ` set (tb_users db)"
    using nova_db_ok_keys [OF conjunct1 [OF conjunct2 [OF r]]] by (simp add: i)
  have no: "filter (\<lambda>x. fst x = gen db) (db_userRoles db) = []"
    using nova_db_ok_user_roles [OF ok] fresh by (fastforce simp: filter_empty_conv)
  have found: "find (\<lambda>v. us_keycloakId v = Some (ac_subject auth)) (tb_users db @ [?u]) = Some ?u"
    using none i by (auto simp: user_findByKeycloakId_def find_append)
  show ?thesis
    using found no r by (simp add: user_findByKeycloakId_def with_roles_def rolesOf_def o_def i sorted_sort_id)
qed

lemma link_profile_ok:
  assumes ok: "nova_db_ok db" and none: "user_findByKeycloakId k db = None"
    and u: "find (\<lambda>v. us_email v = email) (tb_users db) = Some u"
    and run: "setKeycloakId (us_id u) (Some k) db = (Inr (), db')"
  shows "user_findByKeycloakId k db' = Some (u\<lparr>us_keycloakId := Some k\<rparr>, rolesOf db u)"
proof -
  let ?g = "\<lambda>v. if us_id v = us_id u then v\<lparr>us_keycloakId := Some k\<rparr> else v"
  from run have db': "db' = db\<lparr>tb_users := map ?g (tb_users db)\<rparr>"
    by (auto simp: setKeycloakId_def user_patch_def op_simps split: if_splits)
  have mem: "u \<in> set (tb_users db)" using find_SomeD [OF u] by simp
  have "find (\<lambda>v. us_keycloakId v = Some k) (map ?g (tb_users db)) =
      map_option ?g (find (\<lambda>v. us_id v = us_id u) (tb_users db))"
    unfolding find_map using none
    by (intro arg_cong [of _ _ "map_option ?g"] find_cong)
      (auto simp: user_findByKeycloakId_def find_None_iff_all)
  also have "\<dots> = Some (u\<lparr>us_keycloakId := Some k\<rparr>)"
    using find_key [OF nova_db_ok_keys [OF ok] mem] by simp
  finally show ?thesis
    by (simp add: user_findByKeycloakId_def db' with_roles_def rolesOf_def)
qed

text \<open>When a principal is resolved: what the next resolution will find, without writing.\<close>

definition resolved :: "auth_context \<Rightarrow> user_with_roles \<Rightarrow> 'z nova_db_scheme \<Rightarrow> bool" where
  "resolved auth ur db \<longleftrightarrow>
     (case some_id (ac_applicationUserId auth) of
        Some i \<Rightarrow> user_findById i db = Some ur
      | None \<Rightarrow> ac_subject auth \<noteq> [] \<and>
          (user_findByKeycloakId (ac_subject auth) db = Some ur
           \<or> user_findByKeycloakId (ac_subject auth) db = None \<and> us_keycloakId (fst ur) \<noteq> None
             \<and> (\<exists>email. some_id (ac_email auth) = Some email \<and> user_findByEmail email db = Some ur)))"

lemma resolved_run: "resolved auth ur db \<Longrightarrow> resolveCurrentUser gen now auth db = (Inr ur, db)"
  by (cases ur) (auto simp: resolved_def resolveCurrentUser_def op_simps split: option.splits)

lemma resolved_cong:
  "tb_users db' = tb_users db \<Longrightarrow> db_userRoles db' = db_userRoles db \<Longrightarrow> resolved auth ur db' = resolved auth ur db"
  by (simp add: resolved_def user_findById_def user_findByKeycloakId_def user_findByEmail_def
      with_roles_def [abs_def] rolesOf_def split: option.split)

lemma resolve_resolved:
  assumes ok: "nova_db_ok db" and run: "resolveCurrentUser gen now auth db = (Inr ur, db')"
  shows "resolved auth ur db'"
proof (cases "some_id (ac_applicationUserId auth)")
  case (Some i)
  with run show ?thesis
    by (auto simp: resolveCurrentUser_def resolved_def op_simps split: option.splits)
next
  case app: None
  with run have subj: "ac_subject auth \<noteq> []"
    by (auto simp: resolveCurrentUser_def op_simps split: if_splits)
  have byKc: ?thesis if "user_findByKeycloakId (ac_subject auth) db' = Some ur"
    using that app subj by (simp add: resolved_def)
  show ?thesis
  proof (cases "user_findByKeycloakId (ac_subject auth) db")
    case (Some v)
    with run app subj byKc show ?thesis by (simp add: resolveCurrentUser_def op_simps)
  next
    case noKc: None
    from run app subj noKc obtain email where email: "some_id (ac_email auth) = Some email"
      by (auto simp: resolveCurrentUser_def op_simps split: option.splits)
    show ?thesis
    proof (cases "user_findByEmail email db")
      case None
      with run app subj noKc email have "provision_profile gen now auth email db = (Inr ur, db')"
        by (simp add: resolveCurrentUser_def op_simps)
      from byKc [OF provision_profile_ok [OF ok noKc this]] show ?thesis .
    next
      case (Some v)
      then obtain u where u: "find (\<lambda>v. us_email v = email) (tb_users db) = Some u" "v = (u, rolesOf db u)"
        by (auto simp: user_findByEmail_def with_roles_def)
      show ?thesis
      proof (cases "us_keycloakId u")
        case None
        with run app subj noKc email Some u(2)
        have "setKeycloakId (us_id u) (Some (ac_subject auth)) db = (Inr (), db')"
          "ur = (u\<lparr>us_keycloakId := Some (ac_subject auth)\<rparr>, rolesOf db u)"
          by (auto simp: resolveCurrentUser_def op_simps split: sum.splits prod.splits)
        with byKc link_profile_ok [OF ok noKc u(1)] show ?thesis by blast
      next
        case kc: (Some k)
        with run app subj noKc email Some u(2) have "ur = v" "db' = db"
          by (auto simp: resolveCurrentUser_def op_simps)
        with kc app subj noKc email Some u(2) show ?thesis by (auto simp: resolved_def)
      qed
    qed
  qed
qed

lemma resolve_ok: "nova_db_ok db \<Longrightarrow> resolveCurrentUser gen now auth db = (r, db') \<Longrightarrow> nova_db_ok db'"
  by (rule preservesD [OF preserves_resolveCurrentUser])

section \<open>Properties\<close>

text \<open>Resolving the caller's profile is idempotent. Once a request has resolved (and perhaps
  provisioned or linked) a profile, resolving the same principal again returns the same profile
  with the same roles and changes nothing, whatever identifiers and clock the second request
  would use; the database constraints are kept.\<close>

theorem resolveCurrentUser_idempotent:
  assumes "nova_db_ok db" and "resolveCurrentUser gen now auth db = (Inr ur, db')"
  shows "resolveCurrentUser gen' now' auth db' = (Inr ur, db') \<and> nova_db_ok db'"
  by (intro conjI resolved_run resolve_resolved [OF assms] resolve_ok [OF assms])

definition example_nova :: nova_db where
  "example_nova = rbac_db.extend example_db
     \<lparr>tb_users = [\<lparr>us_id = ''u1'', us_email = ''a@x'', us_keycloakId = None, us_active = True,
          us_firstName = ''A'', us_lastName = ''X'', us_middleName = None, us_description = None, us_createdAt = 0\<rparr>],
      tb_customers = [\<lparr>cu_id = ''c1'', cu_email = ''c@x'', cu_fullName = ''C X'', cu_firstName = ''C'',
          cu_lastName = ''X'', cu_age = None, cu_active = True, cu_createdAt = 0\<rparr>],
      tb_products = [\<lparr>pd_id = ''p1'', pd_name = ''P'', pd_description = None, pd_category = ''k'',
          pd_price = ''19.99'', pd_inCatalog = True\<rparr>],
      tb_sales = [], tb_productsSold = [], tb_issues = [], tb_actions = [], tb_comments = [],
      tb_sops = [], tb_sopDetails = [], tb_conversations = [], tb_messages = []\<rparr>"

definition example_auth :: auth_context where
  "example_auth = \<lparr>ac_subject = ''s1'', ac_issuer = [], ac_audience = [], ac_email = Some ''a@x'',
     ac_username = None, ac_givenName = None, ac_familyName = None, ac_roles = [''admin''],
     ac_permissions = [], ac_scopes = [], ac_applicationUserId = None\<rparr>"

definition pinned_auth :: auth_context where
  "pinned_auth = example_auth\<lparr>ac_applicationUserId := Some ''u1''\<rparr>"

lemma example_nova_ok: "nova_db_ok example_nova"
  by code_simp

theorem resolveCurrentUser_idempotent_witness:
  "\<exists>ur db'. resolveCurrentUser (\<lambda>_. ''n'') 5 example_auth example_nova = (Inr ur, db')
     \<and> resolveCurrentUser (\<lambda>_. ''m'') 6 example_auth db' = (Inr ur, db')"
proof -
  have "case resolveCurrentUser (\<lambda>_. ''n'') 5 example_auth example_nova of (Inl e, d) \<Rightarrow> False | (Inr x, d) \<Rightarrow> True"
    by code_simp
  then obtain ur db' where "resolveCurrentUser (\<lambda>_. ''n'') 5 example_auth example_nova = (Inr ur, db')"
    by (auto split: prod.splits sum.splits)
  with resolveCurrentUser_idempotent [OF example_nova_ok this] show ?thesis by blast
qed

text \<open>The email fallback does not look at the subject a profile is already linked to.\<close>

lemma email_fallback_ignores_subject:
  assumes "some_id (ac_applicationUserId auth) = None" "ac_subject auth \<noteq> []"
    and "user_findByKeycloakId (ac_subject auth) db = None"
    and "ac_email auth = Some email" "email \<noteq> []"
    and "user_findByEmail email db = Some (u, roles)" "us_keycloakId u = Some other"
  shows "resolveCurrentUser gen now auth db = (Inr (u, roles), db)"
  using assms by (simp add: resolveCurrentUser_def op_simps some_id_def)

end
