(* ===== verification/Sales.thy ===== *)
theory Sales
  imports Users
begin

text \<open>
  Customers, products and sales (\<open>api/src/modules/customers\<close>, \<open>products\<close>, \<open>sales\<close>): listings,
  lookups, the aggregation of a customer's purchases and the creation of a sale. A parsed
  date is its time in milliseconds; a data transfer object is the row with its loaded relations.
\<close>

section \<open>Customers\<close>

record customer_list_filter =
  cf_page :: nat
  cf_pageSize :: nat
  cf_active :: "bool option"
  cf_search :: "string option"

definition customer_findPaginated ::
  "(string \<Rightarrow> string \<Rightarrow> bool) \<Rightarrow> customer_list_filter \<Rightarrow> 'z nova_db_scheme \<Rightarrow> customer list \<times> nat" where
  "customer_findPaginated ilike f db =
     (let rows = opt_where (some_id (cf_search f)) (\<lambda>q c. ilike (cu_fullName c) (like_pattern q)
                     \<or> ilike (cu_email c) (like_pattern q))
                  (opt_where (cf_active f) (\<lambda>a c. cu_active c = a) (tb_customers db))
      in find_paginated (cf_page f) (cf_pageSize f) (sort_desc (\<lambda>c. (cu_createdAt c, cu_id c)) rows))"

definition customer_findById :: "string \<Rightarrow> 'z nova_db_scheme \<Rightarrow> customer option" where
  "customer_findById i db = find (\<lambda>c. cu_id c = i) (tb_customers db)"

definition listCustomers ::
  "(string \<Rightarrow> string \<Rightarrow> bool) \<Rightarrow> customer_list_filter \<Rightarrow> ('z nova_db_scheme, customer paginated_result) op" where
  "listCustomers ilike f = getM (\<lambda>db. let (items, n) = customer_findPaginated ilike f db
     in buildPaginatedResult items n (cf_page f) (cf_pageSize f))"

definition getCustomerById :: "string \<Rightarrow> ('z nova_db_scheme, customer) op" where
  "getCustomerById i = bindM (getM (customer_findById i))
     (\<lambda>c. someM c (not_found_error ''Customer not found.''))"

section \<open>Products\<close>

record product_list_filter =
  pf_page :: nat
  pf_pageSize :: nat
  pf_search :: "string option"
  pf_category :: "string option"
  pf_inCatalog :: "bool option"

definition product_findPaginated ::
  "(string \<Rightarrow> string \<Rightarrow> bool) \<Rightarrow> product_list_filter \<Rightarrow> 'z nova_db_scheme \<Rightarrow> product list \<times> nat" where
  "product_findPaginated ilike f db =
     (let rows = opt_where (pf_inCatalog f) (\<lambda>b p. pd_inCatalog p = b)
                  (opt_where (some_id (pf_category f)) (\<lambda>k p. pd_category p = k)
                  (opt_where (some_id (pf_search f)) (\<lambda>q p. ilike (pd_name p) (like_pattern q)
                     \<or> (case pd_description p of None \<Rightarrow> False | Some d \<Rightarrow> ilike d (like_pattern q)))
                    (tb_products db)))
      in find_paginated (pf_page f) (pf_pageSize f) (sort_key pd_name rows))"

definition product_findById :: "string \<Rightarrow> 'z nova_db_scheme \<Rightarrow> product option" where
  "product_findById i db = find (\<lambda>p. pd_id p = i) (tb_products db)"

definition product_findByIds :: "string list \<Rightarrow> 'z nova_db_scheme \<Rightarrow> product list" where
  "product_findByIds ids db =
     (if length ids = 0 then [] else filter (\<lambda>p. pd_id p \<in> set ids) (tb_products db))"

definition listProducts ::
  "(string \<Rightarrow> string \<Rightarrow> bool) \<Rightarrow> product_list_filter \<Rightarrow> ('z nova_db_scheme, product paginated_result) op" where
  "listProducts ilike f = getM (\<lambda>db. let (items, n) = product_findPaginated ilike f db
     in buildPaginatedResult items n (pf_page f) (pf_pageSize f))"

definition getProductById :: "string \<Rightarrow> ('z nova_db_scheme, product) op" where
  "getProductById i = bindM (getM (product_findById i))
     (\<lambda>p. someM p (not_found_error ''Product not found.''))"

section \<open>Sales\<close>

record sale_list_filter =
  sf_page :: nat
  sf_pageSize :: nat
  sf_customerId :: "string option"
  sf_paymentReceived :: "bool option"
  sf_from :: "int option"
  sf_to :: "int option"

record sale_dto =
  sdt_sale :: sale
  sdt_customer :: "customer option"
  sdt_productsSold :: "(product_sold \<times> product option) list option"

definition with_customer :: "'z nova_db_scheme \<Rightarrow> sale \<Rightarrow> sale_dto" where
  "with_customer db s = \<lparr>sdt_sale = s, sdt_customer = customer_findById (sa_customerId s) db,
     sdt_productsSold = None\<rparr>"

definition with_lines :: "'z nova_db_scheme \<Rightarrow> sale \<Rightarrow> sale_dto" where
  "with_lines db s = (with_customer db s)\<lparr>sdt_productsSold :=
     Some (map (\<lambda>l. (l, product_findById (ps_productId l) db))
            (filter (\<lambda>l. ps_saleId l = sa_id s) (tb_productsSold db)))\<rparr>"

definition sale_rows :: "sale_list_filter \<Rightarrow> 'z nova_db_scheme \<Rightarrow> sale list" where
  "sale_rows f db =
     opt_where (sf_to f) (\<lambda>t s. sa_date s \<le> t)
     (opt_where (sf_from f) (\<lambda>t s. sa_date s \<ge> t)
     (opt_where (sf_paymentReceived f) (\<lambda>b s. sa_paymentReceived s = b)
     (opt_where (some_id (sf_customerId f)) (\<lambda>c s. sa_customerId s = c) (tb_sales db))))"

definition sale_findPaginated :: "sale_list_filter \<Rightarrow> 'z nova_db_scheme \<Rightarrow> sale_dto list \<times> nat" where
  "sale_findPaginated f db = find_paginated (sf_page f) (sf_pageSize f)
     (map (with_customer db) (sort_desc (\<lambda>s. (sa_date s, sa_id s)) (sale_rows f db)))"

definition sale_findById :: "string \<Rightarrow> 'z nova_db_scheme \<Rightarrow> sale_dto option" where
  "sale_findById i db = map_option (with_lines db) (find (\<lambda>s. sa_id s = i) (tb_sales db))"

record customer_product =
  cp_productId :: string
  cp_name :: string
  cp_category :: string
  cp_price :: string
  cp_totalQuantity :: int
  cp_saleCount :: nat

definition lines_of_customer :: "string \<Rightarrow> 'z nova_db_scheme \<Rightarrow> product_sold list" where
  "lines_of_customer c db =
     filter (\<lambda>l. list_ex (\<lambda>s. sa_id s = ps_saleId l \<and> sa_customerId s = c) (tb_sales db)) (tb_productsSold db)"

definition aggregateProductsForCustomer :: "string \<Rightarrow> 'z nova_db_scheme \<Rightarrow> customer_product list" where
  "aggregateProductsForCustomer c db =
     (let lines = lines_of_customer c db;
          bought = filter (\<lambda>p. pd_id p \<in> set (map ps_productId lines)) (tb_products db)
      in map (\<lambda>p. let own = filter (\<lambda>l. ps_productId l = pd_id p) lines in
             \<lparr>cp_productId = pd_id p, cp_name = pd_name p, cp_category = pd_category p,
              cp_price = pd_price p, cp_totalQuantity = sum_list (map ps_quantity own),
              cp_saleCount = length (js_set (map ps_saleId own))\<rparr>)
           (sort_key pd_name bought))"

record create_sale_data =
  csd_customerId :: string
  csd_date :: int
  csd_discountApplied :: string
  csd_totalAmountReceipt :: string
  csd_paymentReceived :: bool
  csd_dateOfPayment :: "int option"
  csd_items :: "(string \<times> int) list"

definition sale_create ::
  "('z nova_db_scheme \<Rightarrow> string) \<Rightarrow> create_sale_data \<Rightarrow> ('z nova_db_scheme, string) op" where
  "sale_create gen d = transactionM (bindM (getM gen) (\<lambda>i.
     let s = \<lparr>sa_id = i, sa_customerId = csd_customerId d,
              sa_discountApplied = Some (numeric_column (csd_discountApplied d)), sa_date = csd_date d,
              sa_totalAmountReceipt = numeric_column (csd_totalAmountReceipt d),
              sa_paymentReceived = csd_paymentReceived d, sa_dateOfPayment = csd_dateOfPayment d\<rparr>;
         lines = map (\<lambda>it. \<lparr>ps_saleId = i, ps_productId = fst it, ps_quantity = snd it\<rparr>) (csd_items d)
     in thenM (guardM (numeric_literal (csd_discountApplied d) \<and> numeric_literal (csd_totalAmountReceipt d))
          db_query_failed)
        (thenM (nova_statement (\<lambda>db. db\<lparr>tb_sales := tb_sales db @ [s]\<rparr>))
        (thenM (nova_statement (\<lambda>db. db\<lparr>tb_productsSold := tb_productsSold db @ lines\<rparr>))
        (returnM i)))))"

section \<open>The sale service\<close>

record create_sale_input =
  csi_customerId :: string
  csi_date :: int
  csi_discountApplied :: string
  csi_paymentReceived :: bool
  csi_dateOfPayment :: "int option"
  csi_items :: "(string \<times> int) list"

definition listSales :: "sale_list_filter \<Rightarrow> ('z nova_db_scheme, sale_dto paginated_result) op" where
  "listSales f = getM (\<lambda>db. let (items, n) = sale_findPaginated f db
     in buildPaginatedResult items n (sf_page f) (sf_pageSize f))"

definition getSaleById :: "string \<Rightarrow> ('z nova_db_scheme, sale_dto) op" where
  "getSaleById i = bindM (getM (sale_findById i)) (\<lambda>s. someM s (not_found_error ''Sale not found.''))"

definition productsForCustomer :: "string \<Rightarrow> ('z nova_db_scheme, string \<times> customer_product list \<times> nat) op" where
  "productsForCustomer c = bindM (getM (aggregateProductsForCustomer c))
     (\<lambda>products. returnM (c, products, length products))"

definition sale_line :: "(string \<times> string) list \<Rightarrow> string \<times> int \<Rightarrow> exn + receipt_line" where
  "sale_line priceById it =
     (case map_of priceById (fst it) of
        None \<Rightarrow> Inl (validation_error (''Product '' @ fst it @ '' does not exist.''))
      | Some price \<Rightarrow>
          (case decimalToScaledBigInt price 2 of
             Inl e \<Rightarrow> Inl e
           | Inr cents \<Rightarrow> Inr \<lparr>rl_priceCents = cents, rl_quantity = snd it\<rparr>))"

definition createSale ::
  "('z nova_db_scheme \<Rightarrow> string) \<Rightarrow> create_sale_input \<Rightarrow> ('z nova_db_scheme, sale_dto) op" where
  "createSale gen input =
     bindM (getM (customer_findById (csi_customerId input))) (\<lambda>customer.
     thenM (guardM (customer \<noteq> None) (validation_error ''The selected customer does not exist.''))
     (bindM (getM (product_findByIds (map fst (csi_items input)))) (\<lambda>products.
      let priceById = js_map (map (\<lambda>p. (pd_id p, pd_price p)) products) in
      bindM (liftM (map_throwing (sale_line priceById) (csi_items input))) (\<lambda>lines.
      bindM (liftM (computeReceiptTotalCents lines (Some (csi_discountApplied input)))) (\<lambda>totalCents.
      bindM (sale_create gen
        \<lparr>csd_customerId = csi_customerId input, csd_date = csi_date input,
         csd_discountApplied = csi_discountApplied input,
         csd_totalAmountReceipt = scaledBigIntToDecimal totalCents 2,
         csd_paymentReceived = csi_paymentReceived input,
         csd_dateOfPayment = csi_dateOfPayment input, csd_items = csi_items input\<rparr>) getSaleById)))))"

section \<open>Lemmas\<close>

lemma numeric_column_formatted [simp]: "numeric_column (scaledBigIntToDecimal c 2) = scaledBigIntToDecimal c 2"
proof -
  have "sgn c * ((\<bar>c * 10\<bar> + 5) div 10) = c"
  proof -
    have "(\<bar>c * 10\<bar> + 5) div 10 = \<bar>c\<bar>" by (simp add: abs_mult)
    then show ?thesis by (simp add: sgn_mult_abs)
  qed
  then show ?thesis
    using parse_formatted_extra [of 2 c 1] by (simp add: numeric_column_def numeral_3_eq_3 sgn_mult)
qed

lemma sale_create_ok:
  assumes "sale_create gen d db = (Inr i, db')"
  shows "\<exists>s. sa_id s = gen db \<and> i = gen db
    \<and> s = \<lparr>sa_id = gen db, sa_customerId = csd_customerId d,
            sa_discountApplied = Some (numeric_column (csd_discountApplied d)), sa_date = csd_date d,
            sa_totalAmountReceipt = numeric_column (csd_totalAmountReceipt d),
            sa_paymentReceived = csd_paymentReceived d, sa_dateOfPayment = csd_dateOfPayment d\<rparr>
    \<and> nova_db_ok (db\<lparr>tb_sales := tb_sales db @ [s]\<rparr>) \<and> nova_db_ok db'
    \<and> db' = db\<lparr>tb_sales := tb_sales db @ [s], tb_productsSold := tb_productsSold db @
          map (\<lambda>it. \<lparr>ps_saleId = gen db, ps_productId = fst it, ps_quantity = snd it\<rparr>) (csd_items d)\<rparr>"
  using transactionM_commit [OF assms [unfolded sale_create_def]]
  by (auto simp: op_simps Let_def split: if_splits)

lemma sale_create_error: "sale_create gen d db = (Inl e, db') \<Longrightarrow> db' = db"
  unfolding sale_create_def by (rule transactionM_rollback)

lemma keys_products: "nova_db_ok db \<Longrightarrow> distinct (map pd_id (tb_products db))"
  and keys_sales: "nova_db_ok db \<Longrightarrow> distinct (map sa_id (tb_sales db))"
  by (simp_all add: nova_db_ok_def keys_ok_def)

text \<open>The price table of the request is the product table, restricted to the products asked for.\<close>

lemma priceById_lookup:
  assumes ok: "nova_db_ok db" and x: "x \<in> set ids"
  shows "map_of (js_map (map (\<lambda>p. (pd_id p, pd_price p)) (product_findByIds ids db))) x
    = map_option pd_price (product_findById x db)"
proof -
  let ?rows = "filter (\<lambda>p. pd_id p \<in> set ids) (tb_products db)"
  have rows: "product_findByIds ids db = ?rows" using x by (auto simp: product_findByIds_def)
  have d: "distinct (map pd_id ?rows)" using keys_products [OF ok] by (rule distinct_map_filter)
  then have "distinct (map fst (map (\<lambda>p. (pd_id p, pd_price p)) ?rows))" by (simp add: o_def)
  then have "map_of (js_map (map (\<lambda>p. (pd_id p, pd_price p)) ?rows)) x
      = map_of (map (\<lambda>p. (pd_id p, pd_price p)) ?rows) x"
    by (simp add: map_of_js_map_distinct)
  also have "\<dots> = map_option pd_price (find (\<lambda>p. pd_id p = x) (tb_products db))"
    using x by (rule map_of_rows)
  finally show ?thesis by (simp add: rows product_findById_def)
qed

lemma find_new_sale:
  assumes "nova_db_ok (db\<lparr>tb_sales := tb_sales db @ [s]\<rparr>)"
  shows "find (\<lambda>x. sa_id x = sa_id s) (tb_sales db @ [s]) = Some s"
  using find_key [OF keys_sales [OF assms], of s] by simp

lemma no_lines_of_new_sale:
  assumes ok: "nova_db_ok db" and ok': "nova_db_ok (db\<lparr>tb_sales := tb_sales db @ [s]\<rparr>)"
  shows "filter (\<lambda>l. ps_saleId l = sa_id s) (tb_productsSold db) = []"
proof -
  have "sa_id s \<notin> sa_id ` set (tb_sales db)" using keys_sales [OF ok'] by simp
  moreover have "\<forall>l \<in> set (tb_productsSold db). ps_saleId l \<in> sa_id ` set (tb_sales db)"
    using ok by (simp add: nova_db_ok_def references_ok_def refers_def list_all_iff)
  ultimately have "sa_id s \<notin> ps_saleId ` set (tb_productsSold db)" by auto
  then show ?thesis by (rule filter_key_none)
qed

section \<open>Properties\<close>

text \<open>What the receipt of a sale must say: every line is priced at the catalog price of an existing
  product, and the amount is their discounted total.\<close>

definition sale_priced :: "'z nova_db_scheme \<Rightarrow> create_sale_input \<Rightarrow> int \<Rightarrow> bool" where
  "sale_priced db input t \<longleftrightarrow>
     (\<exists>lines. list_all2 (\<lambda>it l. rl_quantity l = snd it \<and>
          (\<exists>p. product_findById (fst it) db = Some p
             \<and> decimalToScaledBigInt (pd_price p) 2 = Inr (rl_priceCents l))) (csi_items input) lines
       \<and> computeReceiptTotalCents lines (Some (csi_discountApplied input)) = Inr t)"

lemma createSale_cases:
  assumes ok: "nova_db_ok db" and run: "createSale gen input db = (Inr dto, db')"
  shows "\<exists>s t. sale_priced db input t \<and> sa_totalAmountReceipt s = scaledBigIntToDecimal t 2
    \<and> sa_id s = gen db \<and> sa_customerId s = csi_customerId input \<and> sa_date s = csi_date input
    \<and> sa_paymentReceived s = csi_paymentReceived input \<and> sa_dateOfPayment s = csi_dateOfPayment input
    \<and> nova_db_ok (db\<lparr>tb_sales := tb_sales db @ [s]\<rparr>) \<and> nova_db_ok db'
    \<and> db' = db\<lparr>tb_sales := tb_sales db @ [s], tb_productsSold := tb_productsSold db @
          map (\<lambda>it. \<lparr>ps_saleId = gen db, ps_productId = fst it, ps_quantity = snd it\<rparr>) (csi_items input)\<rparr>
    \<and> sale_findById (gen db) db' = Some dto"
proof -
  let ?pm = "js_map (map (\<lambda>p. (pd_id p, pd_price p)) (product_findByIds (map fst (csi_items input)) db))"
  from run obtain lines t i where
      lines: "map_throwing (sale_line ?pm) (csi_items input) = Inr lines"
      and t: "computeReceiptTotalCents lines (Some (csi_discountApplied input)) = Inr t"
      and cr: "sale_create gen \<lparr>csd_customerId = csi_customerId input, csd_date = csi_date input,
         csd_discountApplied = csi_discountApplied input, csd_totalAmountReceipt = scaledBigIntToDecimal t 2,
         csd_paymentReceived = csi_paymentReceived input, csd_dateOfPayment = csi_dateOfPayment input,
         csd_items = csi_items input\<rparr> db = (Inr i, db')"
      and dto: "sale_findById i db' = Some dto"
    by (auto simp: createSale_def getSaleById_def op_simps Let_def split: if_splits sum.splits prod.splits option.splits)
  have "list_all2 (\<lambda>it l. rl_quantity l = snd it \<and> (\<exists>p. product_findById (fst it) db = Some p
      \<and> decimalToScaledBigInt (pd_price p) 2 = Inr (rl_priceCents l))) (csi_items input) lines"
    using lines [unfolded map_throwing_Inr_iff]
    by (rule list.rel_mono_strong)
      (auto simp: sale_line_def priceById_lookup [OF ok] split: option.splits sum.splits)
  with t have priced: "sale_priced db input t" by (auto simp: sale_priced_def)
  from sale_create_ok [OF cr] obtain s where i: "i = gen db"
      and row: "s = \<lparr>sa_id = gen db, sa_customerId = csi_customerId input,
            sa_discountApplied = Some (numeric_column (csi_discountApplied input)), sa_date = csi_date input,
            sa_totalAmountReceipt = scaledBigIntToDecimal t 2,
            sa_paymentReceived = csi_paymentReceived input, sa_dateOfPayment = csi_dateOfPayment input\<rparr>"
      and ok': "nova_db_ok (db\<lparr>tb_sales := tb_sales db @ [s]\<rparr>)" "nova_db_ok db'"
      and db': "db' = db\<lparr>tb_sales := tb_sales db @ [s], tb_productsSold := tb_productsSold db @
          map (\<lambda>it. \<lparr>ps_saleId = gen db, ps_productId = fst it, ps_quantity = snd it\<rparr>) (csi_items input)\<rparr>"
    unfolding create_sale_data.simps numeric_column_formatted by blast
  have s: "sa_id s = gen db" "sa_customerId s = csi_customerId input" "sa_date s = csi_date input"
      "sa_totalAmountReceipt s = scaledBigIntToDecimal t 2"
      "sa_paymentReceived s = csi_paymentReceived input" "sa_dateOfPayment s = csi_dateOfPayment input"
    by (simp_all add: row)
  note facts = priced s ok' db' dto [unfolded i]
  show ?thesis
    by (rule exI [of _ s], rule exI [of _ t]) (intro conjI facts)
qed

lemma sale_reads_back:
  assumes ok: "nova_db_ok db" and s: "nova_db_ok (db\<lparr>tb_sales := tb_sales db @ [s]\<rparr>)"
    and db': "db' = db\<lparr>tb_sales := tb_sales db @ [s], tb_productsSold := tb_productsSold db @
          map (\<lambda>it. \<lparr>ps_saleId = sa_id s, ps_productId = fst it, ps_quantity = snd it\<rparr>) items\<rparr>"
  shows "sale_findById (sa_id s) db' = Some \<lparr>sdt_sale = s, sdt_customer = customer_findById (sa_customerId s) db,
     sdt_productsSold = Some (map (\<lambda>it. (\<lparr>ps_saleId = sa_id s, ps_productId = fst it, ps_quantity = snd it\<rparr>,
        product_findById (fst it) db)) items)\<rparr>"
  using find_new_sale [OF s] no_lines_of_new_sale [OF ok s]
  by (simp add: sale_findById_def db' with_lines_def with_customer_def customer_findById_def
      product_findById_def o_def)

lemma createSale_error:
  assumes ok: "nova_db_ok db" and run: "createSale gen input db = (Inl e, db')"
  shows "db' = db"
proof -
  have found: False if c: "sale_create gen data db = (Inr i, d)" and n: "sale_findById i d = None" for i d data
  proof -
    obtain s where s: "sa_id s = gen db" "i = gen db" "nova_db_ok (db\<lparr>tb_sales := tb_sales db @ [s]\<rparr>)"
      "d = db\<lparr>tb_sales := tb_sales db @ [s], tb_productsSold := tb_productsSold db @
          map (\<lambda>it. \<lparr>ps_saleId = gen db, ps_productId = fst it, ps_quantity = snd it\<rparr>) (csd_items data)\<rparr>"
      using sale_create_ok [OF c] by blast
    from sale_reads_back [OF ok s(3), of d "csd_items data"] s n show ?thesis by simp
  qed
  with run show ?thesis
    by (auto simp: createSale_def getSaleById_def op_simps Let_def dest: sale_create_error found
        split: if_splits sum.splits prod.splits option.splits)
qed

text \<open>C31: Creating a sale is atomic and its receipt is right. A request that fails leaves every table
  as it was; a request that succeeds adds exactly one sale and its lines, every line naming an
  existing product; the stored total reads back as the discounted total of quantities times
  catalog prices; the constraints hold after it and the answer is the new sale with its customer
  and lines.\<close>

theorem createSale_correct:
  assumes "nova_db_ok db"
  shows "case createSale gen input db of
      (Inl e, db') \<Rightarrow> db' = db
    | (Inr dto, db') \<Rightarrow>
        nova_db_ok db' \<and> sa_id (sdt_sale dto) = gen db
        \<and> sa_customerId (sdt_sale dto) = csi_customerId input
        \<and> (\<exists>t. sale_priced db input t
             \<and> decimalToScaledBigInt (sa_totalAmountReceipt (sdt_sale dto)) 2 = Inr t)
        \<and> db' = db\<lparr>tb_sales := tb_sales db @ [sdt_sale dto],
             tb_productsSold := tb_productsSold db @ map (\<lambda>it. \<lparr>ps_saleId = gen db,
                ps_productId = fst it, ps_quantity = snd it\<rparr>) (csi_items input)\<rparr>
        \<and> sdt_customer dto = customer_findById (csi_customerId input) db
        \<and> sdt_productsSold dto = Some (map (\<lambda>it. (\<lparr>ps_saleId = gen db, ps_productId = fst it,
             ps_quantity = snd it\<rparr>, product_findById (fst it) db)) (csi_items input))"
proof (cases "createSale gen input db")
  case (Pair r db')
  show ?thesis
  proof (cases r)
    case (Inl e)
    with Pair createSale_error [OF assms, of gen input e db'] show ?thesis by simp
  next
    case (Inr dto)
    obtain s t where "sale_priced db input t" "sa_totalAmountReceipt s = scaledBigIntToDecimal t 2"
        "sa_id s = gen db" "sa_customerId s = csi_customerId input" "nova_db_ok db'"
        "nova_db_ok (db\<lparr>tb_sales := tb_sales db @ [s]\<rparr>)" "sale_findById (gen db) db' = Some dto"
        "db' = db\<lparr>tb_sales := tb_sales db @ [s], tb_productsSold := tb_productsSold db @
          map (\<lambda>it. \<lparr>ps_saleId = gen db, ps_productId = fst it, ps_quantity = snd it\<rparr>) (csi_items input)\<rparr>"
      using createSale_cases [OF assms Pair [unfolded Inr]] by blast
    moreover from sale_reads_back [OF assms this(6), of db' "csi_items input"] this
    have "dto = \<lparr>sdt_sale = s, sdt_customer = customer_findById (sa_customerId s) db,
     sdt_productsSold = Some (map (\<lambda>it. (\<lparr>ps_saleId = sa_id s, ps_productId = fst it, ps_quantity = snd it\<rparr>,
        product_findById (fst it) db)) (csi_items input))\<rparr>" by simp
    ultimately show ?thesis using Pair Inr by (auto simp: parse_formatted)
  qed
qed

definition example_sale :: create_sale_input where
  "example_sale = \<lparr>csi_customerId = ''c1'', csi_date = 7, csi_discountApplied = ''10'',
     csi_paymentReceived = False, csi_dateOfPayment = None, csi_items = [(''p1'', 2)]\<rparr>"

definition example_sale_row :: sale where
  "example_sale_row = \<lparr>sa_id = ''s1'', sa_customerId = ''c1'', sa_discountApplied = Some ''10.00'', sa_date = 7,
     sa_totalAmountReceipt = ''35.98'', sa_paymentReceived = False, sa_dateOfPayment = None\<rparr>"

lemma example_sale_values:
  "customer_findById ''c1'' example_nova \<noteq> None"
  "tb_sales example_nova = []" "tb_productsSold example_nova = []"
  "map_throwing (sale_line (js_map (map (\<lambda>p. (pd_id p, pd_price p))
      (product_findByIds [''p1''] example_nova)))) [(''p1'', 2)] = Inr [\<lparr>rl_priceCents = 1999, rl_quantity = 2\<rparr>]"
  "computeReceiptTotalCents [\<lparr>rl_priceCents = 1999, rl_quantity = 2\<rparr>] (Some ''10'') = Inr 3598"
  "scaledBigIntToDecimal 3598 2 = ''35.98''" "numeric_column ''10'' = ''10.00''"
  "numeric_literal ''10''" "numeric_literal ''35.98''"
  by code_simp+

lemma example_sale_total: "numeric_column ''35.98'' = ''35.98''"
  using numeric_column_formatted [of 3598] by (simp add: example_sale_values)

lemma example_sale_inserts:
  "nova_db_ok (example_nova\<lparr>tb_sales := [example_sale_row]\<rparr>)"
  "nova_db_ok (example_nova\<lparr>tb_sales := [example_sale_row],
     tb_productsSold := [\<lparr>ps_saleId = ''s1'', ps_productId = ''p1'', ps_quantity = 2\<rparr>]\<rparr>)"
  by code_simp+

theorem createSale_correct_witness:
  "\<exists>dto db'. createSale (\<lambda>_. ''s1'') example_sale example_nova = (Inr dto, db')
     \<and> sa_totalAmountReceipt (sdt_sale dto) = ''35.98'' \<and> nova_db_ok db'
     \<and> sdt_customer dto = customer_findById ''c1'' example_nova"
proof -
  have "\<exists>dto db'. createSale (\<lambda>_. ''s1'') example_sale example_nova = (Inr dto, db')
     \<and> sa_totalAmountReceipt (sdt_sale dto) = ''35.98''"
    using example_sale_values example_sale_inserts example_sale_total
    by (simp add: createSale_def op_simps example_sale_def Let_def sale_create_def getSaleById_def
        sale_findById_def example_sale_row_def with_lines_def with_customer_def)
  with createSale_correct [OF example_nova_ok, of "\<lambda>_. ''s1''" example_sale] show ?thesis
    by (auto simp: example_sale_def)
qed

text \<open>The pages of the sales list are a partition of the answer. Reading the pages one to
  \<open>totalPages\<close> of a filter in turn yields every sale that satisfies the filter exactly once and no
  other, in descending order of date and identifier, whatever the page size.\<close>

theorem listSales_pages:
  assumes "0 < sf_pageSize f" and "nova_db_ok db"
  shows "\<exists>items. (\<forall>n. \<exists>r. listSales (f\<lparr>sf_page := n\<rparr>) db = (Inr r, db)
        \<and> pr_items r = page_slice n (sf_pageSize f) items \<and> pr_total r = length items
        \<and> concat (map (\<lambda>p. page_slice p (sf_pageSize f) items) [1..<Suc (pr_totalPages r)]) = items)
    \<and> distinct (map sdt_sale items) \<and> set (map sdt_sale items) = set (sale_rows f db)
    \<and> sorted (rev (map (\<lambda>d. (sa_date (sdt_sale d), sa_id (sdt_sale d))) items))"
proof -
  let ?items = "map (with_customer db) (sort_desc (\<lambda>s. (sa_date s, sa_id s)) (sale_rows f db))"
  have rows: "sale_rows (f\<lparr>sf_page := n\<rparr>) db = sale_rows f db" for n by (simp add: sale_rows_def)
  have run: "listSales (f\<lparr>sf_page := n\<rparr>) db = (Inr (paginated n (sf_pageSize f) ?items), db)" for n
    by (simp add: listSales_def sale_findPaginated_def rows paginated_def op_simps)
  have id: "map (\<lambda>d. g (sdt_sale d)) ?items = map g (sort_desc (\<lambda>s. (sa_date s, sa_id s)) (sale_rows f db))" for g
    by (simp add: with_customer_def)
  show ?thesis
  proof (intro exI [of _ ?items] conjI allI)
    fix n
    show "\<exists>r. listSales (f\<lparr>sf_page := n\<rparr>) db = (Inr r, db)
        \<and> pr_items r = page_slice n (sf_pageSize f) ?items \<and> pr_total r = length ?items
        \<and> concat (map (\<lambda>p. page_slice p (sf_pageSize f) ?items) [1..<Suc (pr_totalPages r)]) = ?items"
      unfolding run using pages_cover_slices [OF assms(1), where n = n and xs = ?items]
      by (intro exI [of _ "paginated n (sf_pageSize f) ?items"])
        (simp add: paginated_def find_paginated_def buildPaginatedResult_def)
    have "distinct (tb_sales db)" using keys_sales [OF assms(2)] by (simp add: distinct_map)
    then show "distinct (map sdt_sale ?items)"
      using id [of "\<lambda>x. x"] by (simp add: sort_desc_def sale_rows_def opt_where_def split: option.split)
    show "set (map sdt_sale ?items) = set (sale_rows f db)"
      using id [of "\<lambda>x. x"] by simp
    show "sorted (rev (map (\<lambda>d. (sa_date (sdt_sale d), sa_id (sdt_sale d))) ?items))"
      unfolding id [of "\<lambda>s. (sa_date s, sa_id s)"] by (rule sorted_sort_desc)
  qed
qed

theorem listSales_pages_witness:
  "\<exists>items :: sale_dto list. distinct (map sdt_sale items) \<and> set (map sdt_sale items) = set (tb_sales example_nova)"
proof -
  let ?f = "\<lparr>sf_page = 1, sf_pageSize = 2, sf_customerId = None,
      sf_paymentReceived = None, sf_from = None, sf_to = None\<rparr>"
  have "sale_rows ?f example_nova = tb_sales example_nova"
    by (simp add: sale_rows_def opt_where_def some_id_def)
  with listSales_pages [of ?f example_nova] example_nova_ok show ?thesis by auto
qed

text \<open>The products of a customer add up. The aggregation names each product the customer ever
  bought exactly once and no other, its total quantity is the sum over all of the customer's
  lines for it, and its sale count is the number of the customer's sales that have it.\<close>

theorem productsForCustomer_exact:
  assumes "nova_db_ok db"
  shows "\<exists>ps. productsForCustomer c db = (Inr (c, ps, length ps), db)
    \<and> distinct (map cp_productId ps)
    \<and> set (map cp_productId ps) = ps_productId ` set (lines_of_customer c db)
    \<and> list_all (\<lambda>p. cp_totalQuantity p = sum_list (map ps_quantity
           (filter (\<lambda>l. ps_productId l = cp_productId p) (lines_of_customer c db)))
        \<and> cp_saleCount p = card {i. \<exists>s \<in> set (tb_sales db). sa_id s = i \<and> sa_customerId s = c
             \<and> (\<exists>l \<in> set (tb_productsSold db). ps_saleId l = i \<and> ps_productId l = cp_productId p)}) ps"
proof -
  let ?L = "lines_of_customer c db"
  let ?own = "\<lambda>i. filter (\<lambda>l. ps_productId l = i) ?L"
  let ?ps = "aggregateProductsForCustomer c db"
  let ?bought = "filter (\<lambda>p. pd_id p \<in> set (map ps_productId ?L)) (tb_products db)"
  have ids: "map cp_productId ?ps = map pd_id (sort_key pd_name ?bought)"
    by (simp add: aggregateProductsForCustomer_def Let_def)
  have d: "distinct (map cp_productId ?ps)"
    unfolding ids using distinct_map_filter [OF keys_products [OF assms]] by (simp add: distinct_map)
  have ref: "\<forall>l \<in> set (tb_productsSold db). ps_productId l \<in> pd_id ` set (tb_products db)"
    using assms by (simp add: nova_db_ok_def references_ok_def refers_def list_all_iff)
  have sub: "set ?L \<subseteq> set (tb_productsSold db)" by (auto simp: lines_of_customer_def)
  have s: "set (map cp_productId ?ps) = ps_productId ` set ?L"
  proof -
    have "\<exists>p \<in> set ?bought. pd_id p = ps_productId l" if "l \<in> set ?L" for l
      using that ref sub by (force simp: subset_iff)
    then show ?thesis unfolding ids by force
  qed
  have cnt: "length (js_set (map ps_saleId (?own i))) = card {j. \<exists>s \<in> set (tb_sales db). sa_id s = j
      \<and> sa_customerId s = c \<and> (\<exists>l \<in> set (tb_productsSold db). ps_saleId l = j \<and> ps_productId l = i)}" for i
  proof -
    have "length (js_set (map ps_saleId (?own i))) = card (ps_saleId ` set (?own i))"
      by (metis distinct_card distinct_js_set set_js_set set_map)
    also have "ps_saleId ` set (?own i) = {j. \<exists>s \<in> set (tb_sales db). sa_id s = j \<and> sa_customerId s = c
      \<and> (\<exists>l \<in> set (tb_productsSold db). ps_saleId l = j \<and> ps_productId l = i)}"
      by (force simp: lines_of_customer_def list_ex_iff)
    finally show ?thesis .
  qed
  show ?thesis
    by (intro exI [of _ ?ps] conjI d s)
      (simp_all add: productsForCustomer_def op_simps aggregateProductsForCustomer_def Let_def
        list_all_iff cnt [symmetric])
qed

theorem productsForCustomer_exact_witness:
  "\<exists>ps. productsForCustomer ''c1'' example_nova = (Inr (''c1'', ps, length ps), example_nova)
     \<and> set (map cp_productId ps) = ps_productId ` set (lines_of_customer ''c1'' example_nova)"
  using productsForCustomer_exact [OF example_nova_ok, of "''c1''"] by blast

end
