(* ===== verification/Issues.thy ===== *)
theory Issues
  imports Sales
begin

text \<open>
  Customer issues and the actions on them (\<open>api/src/modules/issues\<close>, \<open>api/src/modules/actions\<close>):
  listings, lookups and the writes, with the attribution of every write on an action to the
  caller. The dependencies between actions, which no operation writes, are not kept.
\<close>

section \<open>Actions: repository and data transfer objects\<close>

record action_dto =
  iad_action :: issue_action
  iad_assignedOwner :: "user option"
  iad_updatedBy :: "user option"
  iad_comments :: "(action_comment \<times> user option) list option"

definition user_row :: "'z nova_db_scheme \<Rightarrow> string \<Rightarrow> user option" where
  "user_row db i = find (\<lambda>u. us_id u = i) (tb_users db)"

definition toIssueActionDto :: "'z nova_db_scheme \<Rightarrow> (action_comment \<times> user option) list option \<Rightarrow> issue_action \<Rightarrow> action_dto" where
  "toIssueActionDto db comments a =
     \<lparr>iad_action = a, iad_assignedOwner = user_row db (ia_assignedOwnerId a),
      iad_updatedBy = Option.bind (ia_updatedById a) (user_row db), iad_comments = comments\<rparr>"

definition comments_of :: "'z nova_db_scheme \<Rightarrow> issue_action \<Rightarrow> (action_comment \<times> user option) list" where
  "comments_of db a = map (\<lambda>c. (c, user_row db (ac_userId c)))
     (sort_key ac_datetime (filter (\<lambda>c. ac_issueActionId c = ia_id a) (tb_comments db)))"

definition with_comments :: "'z nova_db_scheme \<Rightarrow> issue_action \<Rightarrow> action_dto" where
  "with_comments db a = toIssueActionDto db (Some (comments_of db a)) a"

record action_list_filter =
  alf_page :: nat
  alf_pageSize :: nat
  alf_status :: "action_status option"
  alf_assignedOwnerId :: "string option"
  alf_issueId :: "string option"

definition action_findPaginated :: "action_list_filter \<Rightarrow> 'z nova_db_scheme \<Rightarrow> action_dto list \<times> nat" where
  "action_findPaginated f db =
     (let rows = opt_where (some_id (alf_issueId f)) (\<lambda>i a. ia_issueId a = i)
                  (opt_where (some_id (alf_assignedOwnerId f)) (\<lambda>u a. ia_assignedOwnerId a = u)
                  (opt_where (alf_status f) (\<lambda>s a. ia_status a = s) (tb_actions db)))
      in find_paginated (alf_page f) (alf_pageSize f)
           (map (with_comments db) (sort_desc (\<lambda>a. (ia_createdDate a, ia_id a)) rows)))"

definition action_findById :: "string \<Rightarrow> 'z nova_db_scheme \<Rightarrow> action_dto option" where
  "action_findById i db = map_option (with_comments db) (find (\<lambda>a. ia_id a = i) (tb_actions db))"

definition action_exists :: "string \<Rightarrow> 'z nova_db_scheme \<Rightarrow> bool" where
  "action_exists i db = list_ex (\<lambda>a. ia_id a = i) (tb_actions db)"

record create_action_data =
  cad_issueId :: string
  cad_title :: string
  cad_description :: string
  cad_status :: action_status
  cad_assignedOwnerId :: string
  cad_createdDate :: int
  cad_updatedById :: string

definition action_create ::
  "('z nova_db_scheme \<Rightarrow> string) \<Rightarrow> create_action_data \<Rightarrow> ('z nova_db_scheme, string) op" where
  "action_create gen d = bindM (getM gen) (\<lambda>i.
     thenM (nova_statement (\<lambda>db. db\<lparr>tb_actions := tb_actions db @
       [\<lparr>ia_id = i, ia_issueId = cad_issueId d, ia_title = cad_title d, ia_description = cad_description d,
         ia_status = cad_status d, ia_updatedById = Some (cad_updatedById d), ia_updatedAI = False,
         ia_createdDate = cad_createdDate d, ia_assignedOwnerId = cad_assignedOwnerId d\<rparr>]\<rparr>))
     (returnM i))"

record update_action_input =
  uai_status :: "action_status option"
  uai_description :: "string option"
  uai_assignedOwnerId :: "string option"

definition action_patch :: "update_action_input \<Rightarrow> string \<Rightarrow> issue_action \<Rightarrow> issue_action" where
  "action_patch d updatedById a =
     opt_set (uai_assignedOwnerId d) (\<lambda>v x. x\<lparr>ia_assignedOwnerId := v\<rparr>)
     (opt_set (uai_description d) (\<lambda>v x. x\<lparr>ia_description := v\<rparr>)
     (opt_set (uai_status d) (\<lambda>v x. x\<lparr>ia_status := v\<rparr>)
     (a\<lparr>ia_updatedById := Some updatedById, ia_updatedAI := False\<rparr>)))"

definition action_update :: "string \<Rightarrow> update_action_input \<Rightarrow> string \<Rightarrow> ('z nova_db_scheme, unit) op" where
  "action_update i d updatedById = nova_statement (\<lambda>db. db\<lparr>tb_actions :=
     patch_rows ia_id i (action_patch d updatedById) (tb_actions db)\<rparr>)"

definition comment_create ::
  "('z nova_db_scheme \<Rightarrow> string) \<Rightarrow> string \<Rightarrow> string \<Rightarrow> string \<Rightarrow> int
   \<Rightarrow> ('z nova_db_scheme, action_comment \<times> user option) op" where
  "comment_create gen issueActionId userId text datetime = bindM (getM gen) (\<lambda>i.
     let c = \<lparr>ac_id = i, ac_issueActionId = issueActionId, ac_userId = userId, ac_comment = text,
              ac_datetime = datetime\<rparr>
     in thenM (nova_statement (\<lambda>db. db\<lparr>tb_comments := tb_comments db @ [c]\<rparr>))
        (getM (\<lambda>db. (c, user_row db userId))))"

section \<open>Issues: repository\<close>

record issue_dto =
  isd_issue :: customer_issue
  isd_sale :: "sale_dto option"
  isd_issueActions :: "action_dto list option"

definition sale_of_issue :: "'z nova_db_scheme \<Rightarrow> customer_issue \<Rightarrow> sale option" where
  "sale_of_issue db x = find (\<lambda>s. sa_id s = ci_salesId x) (tb_sales db)"

definition with_sale :: "'z nova_db_scheme \<Rightarrow> customer_issue \<Rightarrow> issue_dto" where
  "with_sale db x = \<lparr>isd_issue = x, isd_sale = map_option (with_customer db) (sale_of_issue db x),
     isd_issueActions = None\<rparr>"

definition with_actions :: "'z nova_db_scheme \<Rightarrow> customer_issue \<Rightarrow> issue_dto" where
  "with_actions db x = (with_sale db x)\<lparr>isd_issueActions := Some (map (toIssueActionDto db None)
     (sort_key ia_createdDate (filter (\<lambda>a. ia_issueId a = ci_id x) (tb_actions db))))\<rparr>"

record issue_list_filter =
  ilf_page :: nat
  ilf_pageSize :: nat
  ilf_status :: "issue_status option"
  ilf_customerId :: "string option"
  ilf_from :: "int option"
  ilf_to :: "int option"

definition issue_findPaginated :: "issue_list_filter \<Rightarrow> 'z nova_db_scheme \<Rightarrow> issue_dto list \<times> nat" where
  "issue_findPaginated f db =
     (let rows = opt_where (ilf_to f) (\<lambda>t x. ci_dateRaised x \<le> t)
                  (opt_where (ilf_from f) (\<lambda>t x. ci_dateRaised x \<ge> t)
                  (opt_where (some_id (ilf_customerId f))
                     (\<lambda>c x. case sale_of_issue db x of None \<Rightarrow> False | Some s \<Rightarrow> sa_customerId s = c)
                  (opt_where (ilf_status f) (\<lambda>s x. ci_status x = s) (tb_issues db))))
      in find_paginated (ilf_page f) (ilf_pageSize f)
           (map (with_sale db) (sort_desc (\<lambda>x. (ci_dateRaised x, ci_id x)) rows)))"

definition issue_findById :: "string \<Rightarrow> 'z nova_db_scheme \<Rightarrow> issue_dto option" where
  "issue_findById i db = map_option (with_actions db) (find (\<lambda>x. ci_id x = i) (tb_issues db))"

record create_issue_input =
  cii_salesId :: string
  cii_description :: string
  cii_dateRaised :: int
  cii_status :: issue_status

definition issue_create ::
  "('z nova_db_scheme \<Rightarrow> string) \<Rightarrow> create_issue_input \<Rightarrow> ('z nova_db_scheme, string) op" where
  "issue_create gen d = bindM (getM gen) (\<lambda>i.
     thenM (nova_statement (\<lambda>db. db\<lparr>tb_issues := tb_issues db @
       [\<lparr>ci_id = i, ci_salesId = cii_salesId d, ci_description = cii_description d,
         ci_dateRaised = cii_dateRaised d, ci_dateLastUpdate = cii_dateRaised d, ci_status = cii_status d\<rparr>]\<rparr>))
     (returnM i))"

record update_issue_input =
  uii_description :: "string option"
  uii_status :: "issue_status option"
  uii_dateLastUpdate :: "int option"

definition issue_patch :: "update_issue_input \<Rightarrow> int \<Rightarrow> customer_issue \<Rightarrow> customer_issue" where
  "issue_patch d dateLastUpdate x =
     opt_set (uii_status d) (\<lambda>v y. y\<lparr>ci_status := v\<rparr>)
     (opt_set (uii_description d) (\<lambda>v y. y\<lparr>ci_description := v\<rparr>)
     (x\<lparr>ci_dateLastUpdate := dateLastUpdate\<rparr>))"

definition issue_update :: "string \<Rightarrow> update_issue_input \<Rightarrow> int \<Rightarrow> ('z nova_db_scheme, unit) op" where
  "issue_update i d dateLastUpdate = nova_statement (\<lambda>db. db\<lparr>tb_issues :=
     patch_rows ci_id i (issue_patch d dateLastUpdate) (tb_issues db)\<rparr>)"

section \<open>The issue service\<close>

definition listIssues :: "issue_list_filter \<Rightarrow> ('z nova_db_scheme, issue_dto paginated_result) op" where
  "listIssues f = getM (\<lambda>db. let (items, n) = issue_findPaginated f db
     in buildPaginatedResult items n (ilf_page f) (ilf_pageSize f))"

definition getIssueById :: "string \<Rightarrow> ('z nova_db_scheme, issue_dto) op" where
  "getIssueById i = bindM (getM (issue_findById i))
     (\<lambda>x. someM x (not_found_error ''Customer issue not found.''))"

definition createIssue ::
  "('z nova_db_scheme \<Rightarrow> string) \<Rightarrow> create_issue_input \<Rightarrow> ('z nova_db_scheme, issue_dto) op" where
  "createIssue gen input =
     bindM (getM (sale_findById (cii_salesId input))) (\<lambda>sale.
     thenM (guardM (sale \<noteq> None) (validation_error ''The referenced sale does not exist.''))
     (bindM (issue_create gen input) getIssueById))"

definition updateIssue ::
  "int \<Rightarrow> string \<Rightarrow> update_issue_input \<Rightarrow> ('z nova_db_scheme, issue_dto) op" where
  "updateIssue now i input =
     bindM (getM (issue_findById i)) (\<lambda>existing.
     thenM (guardM (existing \<noteq> None) (not_found_error ''Customer issue not found.''))
     (thenM (issue_update i input (nullish (uii_dateLastUpdate input) now)) (getIssueById i)))"

section \<open>The action service\<close>

definition listActions :: "action_list_filter \<Rightarrow> ('z nova_db_scheme, action_dto paginated_result) op" where
  "listActions f = getM (\<lambda>db. let (items, n) = action_findPaginated f db
     in buildPaginatedResult items n (alf_page f) (alf_pageSize f))"

definition getActionById :: "string \<Rightarrow> ('z nova_db_scheme, action_dto) op" where
  "getActionById i = bindM (getM (action_findById i))
     (\<lambda>a. someM a (not_found_error ''Issue action not found.''))"

record create_action_input =
  cai_issueId :: string
  cai_title :: string
  cai_description :: string
  cai_assignedOwnerId :: "string option"
  cai_status :: "action_status option"

definition createAction ::
  "('z nova_db_scheme \<Rightarrow> string) \<Rightarrow> int \<Rightarrow> create_action_input \<Rightarrow> auth_context
   \<Rightarrow> ('z nova_db_scheme, action_dto) op" where
  "createAction gen now input auth =
     bindM (getM (issue_findById (cai_issueId input))) (\<lambda>issue.
     thenM (guardM (issue \<noteq> None) (validation_error ''The referenced issue does not exist.''))
     (bindM (resolveCurrentUser gen now auth) (\<lambda>(user, roles).
      let assignedOwnerId = nullish (cai_assignedOwnerId input) (us_id user) in
      bindM (getM (user_findById assignedOwnerId)) (\<lambda>owner.
      thenM (guardM (owner \<noteq> None) (validation_error ''The assigned owner does not exist.''))
      (bindM (action_create gen
         \<lparr>cad_issueId = cai_issueId input, cad_title = cai_title input,
          cad_description = cai_description input, cad_status = nullish (cai_status input) ActionPending,
          cad_assignedOwnerId = assignedOwnerId, cad_createdDate = now,
          cad_updatedById = us_id user\<rparr>) getActionById)))))"

definition updateAction ::
  "('z nova_db_scheme \<Rightarrow> string) \<Rightarrow> int \<Rightarrow> string \<Rightarrow> update_action_input \<Rightarrow> auth_context
   \<Rightarrow> ('z nova_db_scheme, action_dto) op" where
  "updateAction gen now i input auth =
     bindM (getM (action_exists i)) (\<lambda>found.
     thenM (guardM found (not_found_error ''Issue action not found.''))
     (thenM (case uai_assignedOwnerId input of
               None \<Rightarrow> returnM ()
             | Some o' \<Rightarrow> bindM (getM (user_findById o')) (\<lambda>owner.
                 guardM (owner \<noteq> None) (validation_error ''The assigned owner does not exist.'')))
     (bindM (resolveCurrentUser gen now auth) (\<lambda>(user, roles).
      thenM (action_update i input (us_id user)) (getActionById i)))))"

definition addComment ::
  "('z nova_db_scheme \<Rightarrow> string) \<Rightarrow> int \<Rightarrow> string \<Rightarrow> string \<Rightarrow> int \<Rightarrow> auth_context
   \<Rightarrow> ('z nova_db_scheme, action_comment \<times> user option) op" where
  "addComment gen now actionId text datetime auth =
     bindM (getM (action_exists actionId)) (\<lambda>found.
     thenM (guardM found (not_found_error ''Issue action not found.''))
     (bindM (resolveCurrentUser gen now auth) (\<lambda>(user, roles).
      comment_create gen actionId (us_id user) text datetime)))"

end
