(* ===== verification/Sops.thy ===== *)
theory Sops
  imports Users
begin

text \<open>
  Standard operating procedures and their immutable versions (\<open>api/src/modules/sops\<close>).
\<close>

section \<open>The repository\<close>

record sop_list_filter =
  slf_page :: nat
  slf_pageSize :: nat
  slf_search :: "string option"
  slf_active :: "bool option"

definition details_of :: "'z nova_db_scheme \<Rightarrow> string \<Rightarrow> sop_detail list" where
  "details_of db i = filter (\<lambda>d. sd_sopId d = i) (tb_sopDetails db)"

definition sop_findPaginated ::
  "(string \<Rightarrow> string \<Rightarrow> bool) \<Rightarrow> sop_list_filter \<Rightarrow> 'z nova_db_scheme \<Rightarrow> (sop \<times> sop_detail list) list \<times> nat" where
  "sop_findPaginated ilike f db =
     (let rows = opt_where (slf_active f) (\<lambda>b s. so_active s = b)
                  (opt_where (some_id (slf_search f)) (\<lambda>q s. ilike (so_name s) (like_pattern q)
                     \<or> ilike (so_description s) (like_pattern q)) (tb_sops db))
      in find_paginated (slf_page f) (slf_pageSize f)
           (map (\<lambda>s. (s, details_of db (so_id s))) (sort_key so_name rows)))"

definition sop_findById :: "string \<Rightarrow> 'z nova_db_scheme \<Rightarrow> (sop \<times> sop_detail list) option" where
  "sop_findById i db = map_option (\<lambda>s. (s, details_of db (so_id s))) (find (\<lambda>s. so_id s = i) (tb_sops db))"

definition sop_findByName :: "string \<Rightarrow> 'z nova_db_scheme \<Rightarrow> sop option" where
  "sop_findByName name db = find (\<lambda>s. so_name s = name) (tb_sops db)"

record create_sop_input =
  cso_name :: string
  cso_description :: string
  cso_active :: bool
  cso_fullText :: string

definition insert_detail :: "sop_detail \<Rightarrow> ('z nova_db_scheme, unit) op" where
  "insert_detail d = nova_statement (\<lambda>db. db\<lparr>tb_sopDetails := tb_sopDetails db @ [d]\<rparr>)"

definition sop_create ::
  "('z nova_db_scheme \<Rightarrow> string) \<Rightarrow> create_sop_input \<Rightarrow> string \<Rightarrow> int \<Rightarrow> ('z nova_db_scheme, string) op" where
  "sop_create gen d createdById dateOfCreation = transactionM (bindM (getM gen) (\<lambda>i.
     thenM (nova_statement (\<lambda>db. db\<lparr>tb_sops := tb_sops db @
       [\<lparr>so_id = i, so_name = cso_name d, so_active = cso_active d, so_description = cso_description d\<rparr>]\<rparr>))
     (thenM (insert_detail \<lparr>sd_sopId = i, sd_version = 1, sd_fullText = cso_fullText d,
        sd_dateOfCreation = dateOfCreation, sd_createdById = createdById\<rparr>)
     (returnM i))))"

record update_sop_input =
  uso_name :: "string option"
  uso_description :: "string option"
  uso_active :: "bool option"

definition sop_patch :: "update_sop_input \<Rightarrow> sop \<Rightarrow> sop" where
  "sop_patch d s =
     opt_set (uso_active d) (\<lambda>v x. x\<lparr>so_active := v\<rparr>)
     (opt_set (uso_description d) (\<lambda>v x. x\<lparr>so_description := v\<rparr>)
     (opt_set (uso_name d) (\<lambda>v x. x\<lparr>so_name := v\<rparr>) s))"

definition sop_update :: "string \<Rightarrow> update_sop_input \<Rightarrow> ('z nova_db_scheme, unit) op" where
  "sop_update i d = nova_statement (\<lambda>db. db\<lparr>tb_sops := patch_rows so_id i (sop_patch d) (tb_sops db)\<rparr>)"

text \<open>The head of the versions ordered by version, descending.\<close>

definition latest_version :: "sop_detail list \<Rightarrow> int option" where
  "latest_version ds = (case sort_desc sd_version ds of [] \<Rightarrow> None | d # _ \<Rightarrow> Some (sd_version d))"

definition sop_addVersion ::
  "string \<Rightarrow> string \<Rightarrow> string \<Rightarrow> int \<Rightarrow> ('z nova_db_scheme, sop_detail) op" where
  "sop_addVersion i fullText createdById dateOfCreation = transactionM (
     bindM (getM (\<lambda>db. latest_version (details_of db i))) (\<lambda>latest.
     let d = \<lparr>sd_sopId = i, sd_version = nullish latest 0 + 1, sd_fullText = fullText,
              sd_dateOfCreation = dateOfCreation, sd_createdById = createdById\<rparr>
     in thenM (insert_detail d) (returnM d)))"

section \<open>The service\<close>

record sop_dto =
  std_sop :: sop
  std_details :: "sop_detail list"
  std_latestVersion :: "int option"

definition toSopDto :: "sop \<times> sop_detail list \<Rightarrow> sop_dto" where
  "toSopDto s =
     (let details = rev (sort_key sd_version (rev (snd s)))
      in \<lparr>std_sop = fst s, std_details = details,
          std_latestVersion = (case details of [] \<Rightarrow> None | d # _ \<Rightarrow> Some (sd_version d))\<rparr>)"

definition listSops ::
  "(string \<Rightarrow> string \<Rightarrow> bool) \<Rightarrow> sop_list_filter \<Rightarrow> ('z nova_db_scheme, sop_dto paginated_result) op" where
  "listSops ilike f = getM (\<lambda>db. let (items, n) = sop_findPaginated ilike f db
     in buildPaginatedResult (map toSopDto items) n (slf_page f) (slf_pageSize f))"

definition getSopById :: "string \<Rightarrow> ('z nova_db_scheme, sop_dto) op" where
  "getSopById i = bindM (getM (sop_findById i)) (\<lambda>s.
     bindM (someM s (not_found_error ''SOP not found.'')) (\<lambda>x. returnM (toSopDto x)))"

definition createSop ::
  "('z nova_db_scheme \<Rightarrow> string) \<Rightarrow> int \<Rightarrow> create_sop_input \<Rightarrow> auth_context \<Rightarrow> ('z nova_db_scheme, sop_dto) op" where
  "createSop gen now input auth =
     bindM (getM (sop_findByName (cso_name input))) (\<lambda>clash.
     thenM (guardM (clash = None) (conflict_error ''A SOP with this name already exists.''))
     (bindM (resolveCurrentUser gen now auth) (\<lambda>(user, roles).
      bindM (sop_create gen input (us_id user) now) getSopById)))"

definition updateSop :: "string \<Rightarrow> update_sop_input \<Rightarrow> ('z nova_db_scheme, sop_dto) op" where
  "updateSop i input =
     bindM (getM (sop_findById i)) (\<lambda>found.
     bindM (someM found (not_found_error ''SOP not found.'')) (\<lambda>(s, details).
     thenM (case uso_name input of
              None \<Rightarrow> returnM ()
            | Some name \<Rightarrow> if name \<noteq> so_name s
                then bindM (getM (sop_findByName name)) (\<lambda>clash.
                  guardM (case clash of None \<Rightarrow> True | Some c \<Rightarrow> so_id c = i)
                    (conflict_error ''A SOP with this name already exists.''))
                else returnM ())
     (thenM (sop_update i input) (getSopById i))))"

definition addVersion ::
  "('z nova_db_scheme \<Rightarrow> string) \<Rightarrow> int \<Rightarrow> string \<Rightarrow> string \<Rightarrow> auth_context \<Rightarrow> ('z nova_db_scheme, sop_detail) op" where
  "addVersion gen now i fullText auth =
     bindM (getM (sop_findById i)) (\<lambda>found.
     thenM (guardM (found \<noteq> None) (not_found_error ''SOP not found.''))
     (bindM (resolveCurrentUser gen now auth) (\<lambda>(user, roles).
      sop_addVersion i fullText (us_id user) now)))"

end
