(* ===== verification/Chat.thy ===== *)
theory Chat
  imports Users
begin

text \<open>
  Conversations of the authenticated user (\<open>api/src/modules/chat\<close>).
\<close>

section \<open>The repository\<close>

definition messages_of :: "'z nova_db_scheme \<Rightarrow> conversation \<Rightarrow> message list" where
  "messages_of db c = filter (\<lambda>m. ms_conversationId m = cv_convId c) (tb_messages db)"

definition listForUser :: "string \<Rightarrow> 'z nova_db_scheme \<Rightarrow> (conversation \<times> message list) list" where
  "listForUser userId db = map (\<lambda>c. (c, messages_of db c))
     (sort_desc cv_createdDate (filter (\<lambda>c. cv_userId c = userId) (tb_conversations db)))"

definition findForUser :: "string \<Rightarrow> string \<Rightarrow> 'z nova_db_scheme \<Rightarrow> (conversation \<times> message list) option" where
  "findForUser i userId db = map_option (\<lambda>c. (c, messages_of db c))
     (find (\<lambda>c. cv_convId c = i \<and> cv_userId c = userId) (tb_conversations db))"

definition conversation_create ::
  "('z nova_db_scheme \<Rightarrow> string) \<Rightarrow> int \<Rightarrow> string \<Rightarrow> ('z nova_db_scheme, conversation) op" where
  "conversation_create gen now userId = bindM (getM gen) (\<lambda>i.
     let c = \<lparr>cv_convId = i, cv_userId = userId, cv_createdDate = now\<rparr>
     in thenM (nova_statement (\<lambda>db. db\<lparr>tb_conversations := tb_conversations db @ [c]\<rparr>)) (returnM c))"

record create_message_data =
  cmd_conversationId :: string
  cmd_role :: message_role
  cmd_text :: string
  cmd_isMCPApps :: bool
  cmd_MCPAppLink :: "string option"
  cmd_MCPActive :: "bool option"
  cmd_createdDate :: int

definition addMessage ::
  "('z nova_db_scheme \<Rightarrow> string) \<Rightarrow> create_message_data \<Rightarrow> ('z nova_db_scheme, message) op" where
  "addMessage gen d = bindM (getM gen) (\<lambda>i.
     let m = \<lparr>ms_id = i, ms_conversationId = cmd_conversationId d, ms_role = cmd_role d, ms_text = cmd_text d,
              ms_isMCPApps = cmd_isMCPApps d, ms_MCPAppLink = cmd_MCPAppLink d,
              ms_MCPActive = cmd_MCPActive d, ms_createdDate = cmd_createdDate d\<rparr>
     in thenM (nova_statement (\<lambda>db. db\<lparr>tb_messages := tb_messages db @ [m]\<rparr>)) (returnM m))"

definition findMessageInConversation :: "string \<Rightarrow> string \<Rightarrow> 'z nova_db_scheme \<Rightarrow> message option" where
  "findMessageInConversation conversationId messageId db =
     find (\<lambda>m. ms_id m = messageId \<and> ms_conversationId m = conversationId) (tb_messages db)"

section \<open>Data transfer objects\<close>

record conversation_dto =
  cvd_conversation :: conversation
  cvd_title :: "string option"
  cvd_messages :: "message list option"

definition deriveTitle :: "message list option \<Rightarrow> string option" where
  "deriveTitle messages =
     (case Option.bind messages (find (\<lambda>m. ms_role m = RoleUser)) of
        None \<Rightarrow> None
      | Some firstUser \<Rightarrow>
          let text = js_trim (ms_text firstUser)
          in Some (if length text > 60 then take 57 text @ ''...'' else text))"

definition toConversationDto :: "conversation \<Rightarrow> message list option \<Rightarrow> conversation_dto" where
  "toConversationDto c messages =
     \<lparr>cvd_conversation = c, cvd_title = deriveTitle messages,
      cvd_messages = map_option (sort_key ms_createdDate) messages\<rparr>"

section \<open>The service\<close>

definition listConversations ::
  "('z nova_db_scheme \<Rightarrow> string) \<Rightarrow> int \<Rightarrow> auth_context \<Rightarrow> ('z nova_db_scheme, conversation_dto list) op" where
  "listConversations gen now auth = bindM (resolveCurrentUser gen now auth) (\<lambda>(user, roles).
     getM (\<lambda>db. map (\<lambda>(c, ms). toConversationDto c (Some ms)) (listForUser (us_id user) db)))"

definition getConversation ::
  "('z nova_db_scheme \<Rightarrow> string) \<Rightarrow> int \<Rightarrow> string \<Rightarrow> auth_context \<Rightarrow> ('z nova_db_scheme, conversation_dto) op" where
  "getConversation gen now i auth = bindM (resolveCurrentUser gen now auth) (\<lambda>(user, roles).
     bindM (getM (findForUser i (us_id user))) (\<lambda>found.
     bindM (someM found (not_found_error ''Conversation not found.''))
       (\<lambda>(c, ms). returnM (toConversationDto c (Some ms)))))"

definition createConversation ::
  "('z nova_db_scheme \<Rightarrow> string) \<Rightarrow> int \<Rightarrow> auth_context \<Rightarrow> ('z nova_db_scheme, conversation_dto) op" where
  "createConversation gen now auth = bindM (resolveCurrentUser gen now auth) (\<lambda>(user, roles).
     bindM (conversation_create gen now (us_id user)) (\<lambda>c. returnM (toConversationDto c None)))"

section \<open>Properties\<close>

lemma find_pair_SomeD: "findForUser i u db = Some (c, ms) \<Longrightarrow>
    c \<in> set (tb_conversations db) \<and> cv_convId c = i \<and> cv_userId c = u \<and> ms = messages_of db c"
  by (auto simp: findForUser_def dest: find_SomeD)

lemma title_bound: "deriveTitle ms = Some t \<Longrightarrow> length t \<le> 60"
  by (auto simp: deriveTitle_def Let_def split: option.splits if_splits)

lemma findForUser_foreign:
  assumes "distinct (map cv_convId (tb_conversations db))" and "c \<in> set (tb_conversations db)"
    and "cv_userId c \<noteq> u"
  shows "findForUser (cv_convId c) u db = None"
  using assms by (auto simp: findForUser_def find_None_iff_all distinct_map dest: inj_onD)

text \<open>C13: Conversations are readable by their owner only. What the service returns, singly or in the
  list, belongs to the profile the request resolves to, with exactly the messages of that
  conversation in the order of time and a title of at most 60 characters; the identifier of
  somebody else's conversation is answered as not found.\<close>

theorem conversation_ownership:
  assumes "resolveCurrentUser gen now auth db = (Inr (u, roles), db1)" and "nova_db_ok db1"
  shows "(\<forall>i dto db2. getConversation gen now i auth db = (Inr dto, db2) \<longrightarrow> db2 = db1
          \<and> cvd_conversation dto \<in> set (tb_conversations db1) \<and> cv_convId (cvd_conversation dto) = i
          \<and> cv_userId (cvd_conversation dto) = us_id u
          \<and> (\<exists>ms. cvd_messages dto = Some ms \<and> sorted (map ms_createdDate ms)
               \<and> set ms = {m \<in> set (tb_messages db1). ms_conversationId m = i})
          \<and> (\<forall>t. cvd_title dto = Some t \<longrightarrow> length t \<le> 60))
    \<and> (\<forall>c \<in> set (tb_conversations db1). cv_userId c \<noteq> us_id u \<longrightarrow>
          getConversation gen now (cv_convId c) auth db
            = (Inl (not_found_error ''Conversation not found.''), db1))
    \<and> (\<exists>dtos. listConversations gen now auth db = (Inr dtos, db1)
          \<and> cvd_conversation ` set dtos = {c \<in> set (tb_conversations db1). cv_userId c = us_id u})"
proof (intro conjI allI impI ballI)
  have d: "distinct (map cv_convId (tb_conversations db1))"
    using assms(2) by (simp add: nova_db_ok_def keys_ok_def)
  fix i dto db2 assume run: "getConversation gen now i auth db = (Inr dto, db2)"
  then obtain c ms where f: "findForUser i (us_id u) db1 = Some (c, ms)"
      "dto = toConversationDto c (Some ms)" "db2 = db1"
    using assms(1) by (auto simp: getConversation_def op_simps split: option.splits)
  note c = f [unfolded conjunct2 [OF conjunct2 [OF conjunct2 [OF find_pair_SomeD [OF f(1)]]]]]
  from c(3) show "db2 = db1" .
  from find_pair_SomeD [OF c(1)] c(2)
  show "cvd_conversation dto \<in> set (tb_conversations db1)" "cv_convId (cvd_conversation dto) = i"
    "cv_userId (cvd_conversation dto) = us_id u"
    by (simp_all add: toConversationDto_def)
  have "cvd_messages dto = Some (sort_key ms_createdDate (messages_of db1 c))"
    by (simp add: c(2) toConversationDto_def)
  moreover have "set (messages_of db1 c) = {m \<in> set (tb_messages db1). ms_conversationId m = i}"
    using find_pair_SomeD [OF c(1)] by (auto simp: messages_of_def)
  ultimately show "\<exists>ms. cvd_messages dto = Some ms \<and> sorted (map ms_createdDate ms)
               \<and> set ms = {m \<in> set (tb_messages db1). ms_conversationId m = i}"
    by simp
  fix t assume "cvd_title dto = Some t"
  with c(2) show "length t \<le> 60" by (auto simp: toConversationDto_def intro: title_bound)
next
  have d: "distinct (map cv_convId (tb_conversations db1))"
    using assms(2) by (simp add: nova_db_ok_def keys_ok_def)
  fix c assume "c \<in> set (tb_conversations db1)" "cv_userId c \<noteq> us_id u"
  from findForUser_foreign [OF d this] assms(1)
  show "getConversation gen now (cv_convId c) auth db = (Inl (not_found_error ''Conversation not found.''), db1)"
    by (simp add: getConversation_def op_simps)
next
  show "\<exists>dtos. listConversations gen now auth db = (Inr dtos, db1)
          \<and> cvd_conversation ` set dtos = {c \<in> set (tb_conversations db1). cv_userId c = us_id u}"
    using assms(1) by (auto simp: listConversations_def op_simps listForUser_def toConversationDto_def image_image)
qed

lemma example_current_user:
  "resolveCurrentUser (\<lambda>_. ''n'') 5 (example_auth\<lparr>ac_applicationUserId := Some ''u1''\<rparr>) example_nova
     = (Inr (hd (tb_users example_nova), rolesOf example_nova (hd (tb_users example_nova))), example_nova)"
  by code_simp

theorem conversation_ownership_witness:
  "\<exists>dtos. listConversations (\<lambda>_. ''n'') 5 (example_auth\<lparr>ac_applicationUserId := Some ''u1''\<rparr>) example_nova
     = (Inr dtos, example_nova)"
  using conversation_ownership [OF example_current_user example_nova_ok] by blast

end
