(* ===== verification/Business.thy ===== *)
theory Business
  imports Issues Sops Chat
begin

text \<open>
  The writes of the business services along any sequence of requests: which invariants they keep
  and which of the tables only grow.
\<close>

section \<open>Requests\<close>

datatype business_command =
  CreateSale create_sale_input
| CreateIssue create_issue_input
| UpdateIssue string update_issue_input
| CreateAction create_action_input
| UpdateAction string update_action_input
| AddComment string string int
| CreateSop create_sop_input
| UpdateSop string update_sop_input
| AddVersion string string
| CreateConversation

text \<open>A request: what it asks, who asks and when, and the identifiers the database would draw.\<close>

record 'z business_request =
  br_command :: business_command
  br_auth :: auth_context
  br_now :: int
  br_gen :: "'z nova_db_scheme \<Rightarrow> string"

fun business_handler ::
  "('z nova_db_scheme \<Rightarrow> string) \<Rightarrow> int \<Rightarrow> auth_context \<Rightarrow> business_command \<Rightarrow> ('z nova_db_scheme, unit) op" where
  "business_handler gen now auth (CreateSale x) = thenM (createSale gen x) (returnM ())"
| "business_handler gen now auth (CreateIssue x) = thenM (createIssue gen x) (returnM ())"
| "business_handler gen now auth (UpdateIssue i x) = thenM (updateIssue now i x) (returnM ())"
| "business_handler gen now auth (CreateAction x) = thenM (createAction gen now x auth) (returnM ())"
| "business_handler gen now auth (UpdateAction i x) = thenM (updateAction gen now i x auth) (returnM ())"
| "business_handler gen now auth (AddComment i t d) = thenM (addComment gen now i t d auth) (returnM ())"
| "business_handler gen now auth (CreateSop x) = thenM (createSop gen now x auth) (returnM ())"
| "business_handler gen now auth (UpdateSop i x) = thenM (updateSop i x) (returnM ())"
| "business_handler gen now auth (AddVersion i t) = thenM (addVersion gen now i t auth) (returnM ())"
| "business_handler gen now auth CreateConversation = thenM (createConversation gen now auth) (returnM ())"

definition business_exec :: "'z business_request \<Rightarrow> ('z nova_db_scheme, unit) op" where
  "business_exec r = business_handler (br_gen r) (br_now r) (br_auth r) (br_command r)"

section \<open>Invariants\<close>

text \<open>The versions of every procedure are 1, 2, ..., n, stored in this order.\<close>

definition versions_contiguous :: "'z nova_db_scheme \<Rightarrow> bool" where
  "versions_contiguous db \<longleftrightarrow>
     (\<forall>s \<in> set (tb_sops db). 0 < length (details_of db (so_id s))
        \<and> map sd_version (details_of db (so_id s)) = map (\<lambda>k. int k + 1) [0..<length (details_of db (so_id s))])"

definition business_ok :: "'z nova_db_scheme \<Rightarrow> bool" where
  "business_ok db \<longleftrightarrow> nova_db_ok db \<and> versions_contiguous db"

text \<open>What no business request ever changes or removes.\<close>

definition history_kept :: "'z nova_db_scheme \<Rightarrow> 'z nova_db_scheme \<Rightarrow> bool" where
  "history_kept db db' \<longleftrightarrow>
     (\<exists>a. tb_sales db' = tb_sales db @ a) \<and> (\<exists>a. tb_productsSold db' = tb_productsSold db @ a)
   \<and> (\<exists>a. tb_comments db' = tb_comments db @ a) \<and> (\<exists>a. tb_sopDetails db' = tb_sopDetails db @ a)
   \<and> (\<exists>a. tb_conversations db' = tb_conversations db @ a) \<and> (\<exists>a. tb_messages db' = tb_messages db @ a)
   \<and> tb_products db' = tb_products db \<and> tb_customers db' = tb_customers db
   \<and> (\<exists>a. map ci_id (tb_issues db') = map ci_id (tb_issues db) @ a)
   \<and> (\<exists>a. map ia_id (tb_actions db') = map ia_id (tb_actions db) @ a)
   \<and> (\<exists>a. map so_id (tb_sops db') = map so_id (tb_sops db) @ a)"

lemma history_kept_refl [simp, intro]: "history_kept db db"
  by (simp add: history_kept_def)

lemma history_kept_trans: "history_kept a b \<Longrightarrow> history_kept b c \<Longrightarrow> history_kept a c"
  unfolding history_kept_def by (metis (no_types, lifting) append.assoc)

definition business_inv :: "'z nova_db_scheme \<Rightarrow> 'z nova_db_scheme \<Rightarrow> bool" where
  "business_inv db0 db \<longleftrightarrow> business_ok db \<and> history_kept db0 db"

lemma preserves_business_statement:
  assumes "\<And>s. business_ok s \<Longrightarrow> nova_db_ok (f s) \<Longrightarrow> versions_contiguous (f s) \<and> history_kept s (f s)"
  shows "preserves (business_inv db0) (nova_statement f)"
  using assms history_kept_trans
  by (fastforce simp: preserves_def business_inv_def business_ok_def nova_statement_apply)

lemma preserves_case_prod: "(\<And>x y. preserves I (f x y)) \<Longrightarrow> preserves I (case p of (x, y) \<Rightarrow> f x y)"
  by (simp add: case_prod_beta)

lemmas business_intros = preserves_bindM preserves_thenM preserves_getM preserves_returnM
  preserves_throwM preserves_guardM preserves_someM preserves_liftM preserves_transactionM
  preserves_case_prod

lemma preserves_user_writes:
  "preserves (business_inv db0) (user_create gen now d)"
  "preserves (business_inv db0) (setKeycloakId i k)"
  "preserves (business_inv db0) (replaceRoles i roles)"
  unfolding user_create_def setKeycloakId_def user_patch_def replaceRoles_def Let_def
  by (auto intro!: business_intros preserves_business_statement
      simp: history_kept_def business_ok_def versions_contiguous_def details_of_def)

lemma preserves_caller: "preserves (business_inv db0) (resolveCurrentUser gen now auth)"
  unfolding resolveCurrentUser_def provision_profile_def Let_def
  by (auto intro!: business_intros preserves_user_writes split: option.splits)

lemma action_patch_id [simp]: "ia_id (action_patch d u a) = ia_id a"
  by (simp add: action_patch_def opt_set_def split: option.split)

lemma issue_patch_id [simp]: "ci_id (issue_patch d u a) = ci_id a"
  by (simp add: issue_patch_def opt_set_def split: option.split)

lemma sop_patch_id [simp]: "so_id (sop_patch d a) = so_id a"
  by (simp add: sop_patch_def opt_set_def split: option.split)

lemma versions_contiguous_image:
  "versions_contiguous db \<longleftrightarrow> (\<forall>i \<in> so_id ` set (tb_sops db). 0 < length (details_of db i)
     \<and> map sd_version (details_of db i) = map (\<lambda>k. int k + 1) [0..<length (details_of db i)])"
  by (simp add: versions_contiguous_def)

lemma versionsD:
  "versions_contiguous db \<Longrightarrow> i \<in> so_id ` set (tb_sops db) \<Longrightarrow>
     map sd_version (details_of db i) = map (\<lambda>k. int k + 1) [0..<length (details_of db i)]"
  by (auto simp: versions_contiguous_def)

lemma versions_contiguous_cong:
  "so_id ` set (tb_sops db) = so_id ` set (tb_sops db') \<Longrightarrow> tb_sopDetails db = tb_sopDetails db'
   \<Longrightarrow> versions_contiguous db = versions_contiguous db'"
  by (simp add: versions_contiguous_image details_of_def)

lemma preserves_plain_writes:
  "preserves (business_inv db0) (sale_create gen sd)"
  "preserves (business_inv db0) (issue_create gen id')"
  "preserves (business_inv db0) (issue_update i iu t)"
  "preserves (business_inv db0) (action_create gen ad)"
  "preserves (business_inv db0) (action_update i au u)"
  "preserves (business_inv db0) (comment_create gen i u txt t)"
  "preserves (business_inv db0) (conversation_create gen t u)"
  unfolding sale_create_def issue_create_def issue_update_def action_create_def action_update_def
    comment_create_def conversation_create_def Let_def
  by (auto intro!: business_intros preserves_business_statement
      simp: history_kept_def business_ok_def versions_contiguous_def details_of_def)

lemma preserves_sop_update: "preserves (business_inv (db0 :: 'z nova_db_scheme)) (sop_update i d)"
  unfolding sop_update_def
proof (rule preserves_business_statement)
  fix s :: "'z nova_db_scheme"
  assume "business_ok s"
  moreover have "versions_contiguous (s\<lparr>tb_sops := patch_rows so_id i (sop_patch d) (tb_sops s)\<rparr>)
      = versions_contiguous s"
    by (rule versions_contiguous_cong) (simp_all flip: set_map)
  ultimately show "versions_contiguous (s\<lparr>tb_sops := patch_rows so_id i (sop_patch d) (tb_sops s)\<rparr>)
      \<and> history_kept s (s\<lparr>tb_sops := patch_rows so_id i (sop_patch d) (tb_sops s)\<rparr>)"
    by (simp add: business_ok_def history_kept_def)
qed

text \<open>The version after the latest one continues the sequence.\<close>

lemma latest_version_contiguous:
  assumes "map sd_version ds = map (\<lambda>k. int k + 1) [0..<length ds]"
  shows "nullish (latest_version ds) 0 = int (length ds)"
proof (cases ds rule: rev_cases)
  case Nil
  then show ?thesis by (simp add: latest_version_def sort_desc_def nullish_def)
next
  case (snoc xs d)
  have "sorted (map (\<lambda>k. int k + 1) [0..<length ds])" by (simp add: sorted_map)
  then have "sorted (map sd_version ds)" by (simp add: assms)
  then have "sort_desc sd_version ds = d # rev xs"
    by (simp add: sort_desc_def sort_key_id_if_sorted snoc)
  moreover have "sd_version d = int (length ds)"
    using arg_cong [OF assms, of last] by (simp add: snoc)
  ultimately show ?thesis by (simp add: latest_version_def nullish_def)
qed

lemma nova_db_ok_detail_sop: "nova_db_ok db \<Longrightarrow> d \<in> set (tb_sopDetails db) \<Longrightarrow> sd_sopId d \<in> so_id ` set (tb_sops db)"
  by (simp add: nova_db_ok_def references_ok_def refers_def list_all_iff)

lemma preserves_addVersion_write: "preserves (business_inv (db0 :: 'z nova_db_scheme)) (sop_addVersion i t u c)"
proof (rule preserves_def [THEN iffD2, rule_format])
  fix s :: "'z nova_db_scheme"
  assume inv: "business_inv db0 s"
  let ?d = "\<lparr>sd_sopId = i, sd_version = nullish (latest_version (details_of s i)) 0 + 1, sd_fullText = t,
     sd_dateOfCreation = c, sd_createdById = u\<rparr>"
  let ?s = "s\<lparr>tb_sopDetails := tb_sopDetails s @ [?d]\<rparr>"
  show "business_inv db0 (snd (sop_addVersion i t u c s))"
  proof (cases "nova_db_ok ?s")
    case False
    then show ?thesis using inv by (simp add: sop_addVersion_def insert_detail_def op_simps Let_def)
  next
    case True
    have vc: "versions_contiguous s" using inv by (simp add: business_inv_def business_ok_def)
    have i: "i \<in> so_id ` set (tb_sops s)" using nova_db_ok_detail_sop [OF True, of ?d] by simp
    have v: "map sd_version (details_of s i) = map (\<lambda>k. int k + 1) [0..<length (details_of s i)]"
      by (rule versionsD [OF vc i])
    have "versions_contiguous ?s"
      using vc latest_version_contiguous [OF v] v
      by (auto simp: versions_contiguous_image details_of_def)
    moreover have "history_kept db0 ?s"
      using inv by (auto simp: business_inv_def intro: history_kept_trans [of _ s] simp: history_kept_def)
    ultimately have "business_inv db0 ?s" using True by (simp add: business_inv_def business_ok_def)
    then show ?thesis using True by (simp add: sop_addVersion_def insert_detail_def op_simps Let_def)
  qed
qed

lemma preserves_sop_create: "preserves (business_inv (db0 :: 'z nova_db_scheme)) (sop_create gen d u c)"
proof (rule preserves_def [THEN iffD2, rule_format])
  fix s :: "'z nova_db_scheme"
  assume inv: "business_inv db0 s"
  let ?i = "gen s"
  let ?p = "\<lparr>so_id = ?i, so_name = cso_name d, so_active = cso_active d, so_description = cso_description d\<rparr>"
  let ?d = "\<lparr>sd_sopId = ?i, sd_version = 1, sd_fullText = cso_fullText d, sd_dateOfCreation = c, sd_createdById = u\<rparr>"
  let ?s1 = "s\<lparr>tb_sops := tb_sops s @ [?p]\<rparr>"
  let ?s2 = "?s1\<lparr>tb_sopDetails := tb_sopDetails s @ [?d]\<rparr>"
  show "business_inv db0 (snd (sop_create gen d u c s))"
  proof (cases "nova_db_ok ?s1 \<and> nova_db_ok ?s2")
    case False
    then show ?thesis using inv by (auto simp: sop_create_def insert_detail_def op_simps Let_def)
  next
    case True
    have ok: "nova_db_ok s" "versions_contiguous s" using inv by (simp_all add: business_inv_def business_ok_def)
    have fresh: "?i \<notin> so_id ` set (tb_sops s)"
      using True by (simp add: nova_db_ok_def keys_ok_def)
    then have "?i \<notin> sd_sopId ` set (tb_sopDetails s)" using nova_db_ok_detail_sop [OF ok(1)] by auto
    then have none: "details_of s ?i = []" unfolding details_of_def by (rule filter_key_none)
    have "versions_contiguous ?s2"
      using ok(2) fresh none by (auto simp: versions_contiguous_image details_of_def)
    moreover have "history_kept db0 ?s2"
      using inv by (auto simp: business_inv_def intro: history_kept_trans [of _ s] simp: history_kept_def)
    ultimately have "business_inv db0 ?s2" using True by (simp add: business_inv_def business_ok_def)
    then show ?thesis using True by (simp add: sop_create_def insert_detail_def op_simps Let_def)
  qed
qed

lemmas business_writes = preserves_caller preserves_plain_writes preserves_sop_update
  preserves_addVersion_write preserves_sop_create

lemma preserves_business_handler: "preserves (business_inv db0) (business_handler gen now auth c)"
  by (cases c)
    (auto simp: createSale_def getSaleById_def createIssue_def getIssueById_def updateIssue_def
      createAction_def getActionById_def updateAction_def addComment_def createSop_def getSopById_def
      updateSop_def addVersion_def createConversation_def Let_def
      intro!: business_intros business_writes split: option.split)

interpretation business: tracked_service business_exec business_ok history_kept
proof unfold_locales
  fix s :: "'z nova_db_scheme" and c :: "'z business_request"
  assume ok: "business_ok s"
  have "business_inv s (snd (business_exec c s))"
    unfolding business_exec_def
    by (rule preserves_business_handler [unfolded preserves_def, rule_format])
      (simp add: business_inv_def ok)
  then show "business_ok (snd (business_exec c s))" "history_kept s (snd (business_exec c s))"
    by (simp_all add: business_inv_def)
qed (auto intro: history_kept_trans)

lemma example_business_ok: "business_ok example_nova"
proof -
  have "tb_sops example_nova = []" by code_simp
  then show ?thesis by (simp add: business_ok_def example_nova_ok versions_contiguous_def)
qed

text \<open>No business request rewrites history. Along every sequence of requests, whoever sends them
  and whatever they fail on, the database constraints hold and the versions of each procedure are
  exactly 1 to n; sales, their lines, comments, procedure versions and conversations are only ever
  appended; no message, issue, action or procedure disappears; customers and products do not change.\<close>

theorem business_history:
  assumes "business_ok db"
  shows "business_ok (run_commands business_exec rs db)
    \<and> history_kept db (run_commands business_exec rs db)"
  using business.all_inv [OF assms] business.all_rel [OF assms] by blast

theorem business_history_witness:
  "business_ok (run_commands business_exec
     [\<lparr>br_command = CreateSop \<lparr>cso_name = ''n'', cso_description = ''d'', cso_active = True, cso_fullText = ''t''\<rparr>,
       br_auth = example_auth, br_now = 1, br_gen = \<lambda>_. ''x1''\<rparr>] example_nova)"
  by (rule conjunct1 [OF business_history [OF example_business_ok]])

lemma toSopDto_latest:
  assumes "d \<in> set ds" and "\<And>x. x \<in> set ds \<Longrightarrow> sd_version x \<le> sd_version d"
  shows "std_latestVersion (toSopDto (p, ds)) = Some (sd_version d)"
proof -
  let ?ys = "sort_key sd_version (rev ds)"
  have ne: "?ys \<noteq> []" using assms(1) by (metis empty_iff list.set(1) set_rev set_sort)
  then obtain zs z where z: "?ys = zs @ [z]" by (metis append_butlast_last_id)
  have "sorted (map sd_version ?ys)" by simp
  then have "\<forall>x \<in> set ?ys. sd_version x \<le> sd_version z" unfolding z by (auto simp: sorted_append)
  moreover have "z \<in> set ?ys" unfolding z by simp
  ultimately have "sd_version z = sd_version d" using assms by (simp add: order_antisym)
  then show ?thesis by (simp add: toSopDto_def z)
qed

text \<open>C36: Adding a version to a procedure numbers it next. If the caller resolves and the procedure
  exists, the new version is one more than the number of versions there are, it is attributed to
  the caller, and the procedure then reads back with it as the latest.\<close>

theorem addVersion_next:
  assumes "business_ok db" and "addVersion gen now i text auth db = (Inr d, db')"
  shows "\<exists>u roles db1. resolveCurrentUser gen now auth db = (Inr (u, roles), db1)
    \<and> sd_version d = int (length (details_of db1 i)) + 1 \<and> sd_createdById d = us_id u
    \<and> sd_fullText d = text \<and> tb_sopDetails db' = tb_sopDetails db1 @ [d]
    \<and> (\<exists>dto. getSopById i db' = (Inr dto, db') \<and> std_latestVersion dto = Some (sd_version d))"
proof -
  from assms(2) obtain u roles db1 where r: "resolveCurrentUser gen now auth db = (Inr (u, roles), db1)"
      and w: "sop_addVersion i text (us_id u) now db1 = (Inr d, db')"
    by (auto simp: addVersion_def op_simps split: option.splits sum.splits prod.splits if_splits)
  have "business_inv db db1"
    using preservesD [OF preserves_caller _ r, of db] assms(1) by (simp add: business_inv_def)
  then have ok: "versions_contiguous db1" by (simp add: business_inv_def business_ok_def)
  from transactionM_commit [OF w [unfolded sop_addVersion_def]]
  have d: "d = \<lparr>sd_sopId = i, sd_version = nullish (latest_version (details_of db1 i)) 0 + 1, sd_fullText = text,
     sd_dateOfCreation = now, sd_createdById = us_id u\<rparr>"
    and db': "db' = db1\<lparr>tb_sopDetails := tb_sopDetails db1 @ [d]\<rparr>" and okd: "nova_db_ok db'"
    by (auto simp: op_simps insert_detail_def Let_def split: if_splits)
  have i: "i \<in> so_id ` set (tb_sops db1)" using nova_db_ok_detail_sop [OF okd, of d] by (simp add: db' d)
  have v: "map sd_version (details_of db1 i) = map (\<lambda>k. int k + 1) [0..<length (details_of db1 i)]"
    by (rule versionsD [OF ok i])
  have ver: "sd_version d = int (length (details_of db1 i)) + 1"
    using latest_version_contiguous [OF v] by (simp add: d)
  obtain p where p: "find (\<lambda>s. so_id s = i) (tb_sops db1) = Some p" "so_id p = i"
    using i by (metis (mono_tags, lifting) find_None_iff_all find_SomeD imageE not_Some_eq)
  have det: "details_of db' i = details_of db1 i @ [d]" by (simp add: details_of_def db') (simp add: d)
  have le: "sd_version x \<le> sd_version d" if "x \<in> set (details_of db' i)" for x
  proof -
    from that have "x = d \<or> sd_version x \<in> set (map sd_version (details_of db1 i))" by (auto simp: det)
    then show ?thesis unfolding v ver by (auto simp: ver)
  qed
  have p': "find (\<lambda>s. so_id s = i) (tb_sops db') = Some p" by (simp add: db' p(1))
  have "sop_findById i db' = Some (p, details_of db' i)" by (simp add: sop_findById_def p' p(2))
  moreover have "std_latestVersion (toSopDto (p, details_of db' i)) = Some (sd_version d)"
    by (rule toSopDto_latest) (use le det in simp_all)
  ultimately have "getSopById i db' = (Inr (toSopDto (p, details_of db' i)), db')"
    "std_latestVersion (toSopDto (p, details_of db' i)) = Some (sd_version d)"
    by (simp_all add: getSopById_def op_simps)
  with r ver show ?thesis by (auto simp: d db')
qed

text \<open>A database with one procedure.\<close>

definition example_sop_db :: nova_db where
  "example_sop_db = example_nova\<lparr>
     tb_sops := [\<lparr>so_id = ''p1'', so_name = ''n'', so_active = True, so_description = ''d''\<rparr>],
     tb_sopDetails := [\<lparr>sd_sopId = ''p1'', sd_version = 1, sd_fullText = ''t'', sd_dateOfCreation = 0, sd_createdById = ''u1''\<rparr>]\<rparr>"

lemma example_sop_values:
  "user_findById ''u1'' example_sop_db \<noteq> None"
  "map us_id (tb_users example_sop_db) = [''u1'']"
  "some_id (ac_applicationUserId pinned_auth) = Some ''u1''"
  "sop_findById ''p1'' example_sop_db \<noteq> None" "latest_version (details_of example_sop_db ''p1'') = Some 1"
  "versions_contiguous example_sop_db"
  by code_simp+

lemma example_sop_db_ok:
  "nova_db_ok example_sop_db"
  "nova_db_ok (example_sop_db\<lparr>tb_sopDetails := tb_sopDetails example_sop_db @
     [\<lparr>sd_sopId = ''p1'', sd_version = 2, sd_fullText = ''t2'', sd_dateOfCreation = 5, sd_createdById = ''u1''\<rparr>]\<rparr>)"
  by code_simp+

theorem addVersion_next_witness:
  "\<exists>d db'. addVersion (\<lambda>_. ''x'') 5 ''p1'' ''t2'' pinned_auth example_sop_db = (Inr d, db')
     \<and> sd_version d = 2 \<and> (\<exists>dto. getSopById ''p1'' db' = (Inr dto, db') \<and> std_latestVersion dto = Some 2)"
proof -
  obtain u roles where u: "user_findById ''u1'' example_sop_db = Some (u, roles)"
    using example_sop_values(1) by auto
  then have "us_id u = ''u1''" by (auto simp: user_findById_def with_roles_def dest: find_SomeD)
  with u example_sop_values(3-5) example_sop_db_ok(2)
  have "\<exists>d db'. addVersion (\<lambda>_. ''x'') 5 ''p1'' ''t2'' pinned_auth example_sop_db = (Inr d, db') \<and> sd_version d = 2"
    by (simp add: addVersion_def resolveCurrentUser_def op_simps sop_addVersion_def insert_detail_def nullish_def Let_def)
  with addVersion_next [of example_sop_db "\<lambda>_. ''x''" 5 "''p1''" "''t2''" pinned_auth]
    example_sop_values(6) example_sop_db_ok(1)
  show ?thesis by (fastforce simp: business_ok_def)
qed

end
