(* ===== verification/Capability_Executor.thy ===== *)
theory Capability_Executor
  imports Business Capabilities
begin

text \<open>
  The capability executor of the tool gateway
  (\<open>api/src/modules/agent-runs/capability-executor.ts\<close>): the schemas of the tool inputs, one
  handler per capability over the business services, and the dispatch. What the zod library
  decides about a string (a UUID, an ISO date-time) and PostgreSQL's \<open>ILIKE\<close> are parameters.
\<close>

record 'z exec_env =
  xe_gen :: "'z nova_db_scheme \<Rightarrow> string"
  xe_now :: int
  xe_ilike :: "string \<Rightarrow> string \<Rightarrow> bool"
  xe_isUuid :: "string \<Rightarrow> bool"
  xe_datetime :: "string \<Rightarrow> int option"

section \<open>Schemas\<close>

text \<open>A schema parses a JSON value; \<open>None\<close> is a failed \<open>safeParse\<close>. An optional field that is absent
  gives \<open>Some None\<close>, unknown keys are ignored.\<close>

type_synonym 'a schema = "json \<Rightarrow> 'a option"

fun z_string :: "string schema" where
  "z_string (JStr s) = Some s"
| "z_string _ = None"

fun z_boolean :: "bool schema" where
  "z_boolean (JBool b) = Some b"
| "z_boolean _ = None"

fun z_number :: "int schema" where
  "z_number (JNum n) = Some n"
| "z_number _ = None"

definition z_positive :: "int schema" where
  "z_positive j = Option.bind (z_number j) (\<lambda>n. if 0 < n then Some n else None)"

definition z_trimmed :: "nat \<Rightarrow> nat option \<Rightarrow> string schema" where
  "z_trimmed lo hi j = Option.bind (z_string j) (\<lambda>s.
     let t = js_trim s
     in if lo \<le> length t \<and> (case hi of None \<Rightarrow> True | Some h \<Rightarrow> length t \<le> h) then Some t else None)"

definition z_uuid :: "'z exec_env \<Rightarrow> string schema" where
  "z_uuid env j = Option.bind (z_string j) (\<lambda>s. if xe_isUuid env s then Some s else None)"

definition z_datetime :: "'z exec_env \<Rightarrow> int schema" where
  "z_datetime env j = Option.bind (z_string j) (xe_datetime env)"

definition z_enum :: "(string \<times> 'a) list \<Rightarrow> 'a schema" where
  "z_enum values j = Option.bind (z_string j) (map_of values)"

definition z_nullable :: "'a schema \<Rightarrow> 'a option schema" where
  "z_nullable p j = (if j = JNull then Some None else map_option Some (p j))"

fun z_all :: "'a schema \<Rightarrow> json list \<Rightarrow> 'a list option" where
  "z_all p [] = Some []"
| "z_all p (j # js) = Option.bind (p j) (\<lambda>x. Option.bind (z_all p js) (\<lambda>xs. Some (x # xs)))"

definition z_array :: "nat \<Rightarrow> 'a schema \<Rightarrow> 'a list schema" where
  "z_array lo p j = (case j of JArr js \<Rightarrow> if lo \<le> length js then z_all p js else None | _ \<Rightarrow> None)"

fun z_object :: "json \<Rightarrow> unit option" where
  "z_object (JObj _) = Some ()"
| "z_object _ = None"

definition field :: "string \<Rightarrow> 'a schema \<Rightarrow> 'a schema" where
  "field k p j = Option.bind (jget k j) p"

definition optional :: "string \<Rightarrow> 'a schema \<Rightarrow> 'a option schema" where
  "optional k p j = (case jget k j of None \<Rightarrow> Some None | Some v \<Rightarrow> map_option Some (p v))"

definition defaulted :: "string \<Rightarrow> 'a \<Rightarrow> 'a schema \<Rightarrow> 'a schema" where
  "defaulted k d p j = (case jget k j of None \<Rightarrow> Some d | Some v \<Rightarrow> p v)"

definition issue_status_values :: "(string \<times> issue_status) list" where
  "issue_status_values =
     [(''in_assistance'', InAssistance), (''rejected'', IssueRejected), (''completed'', IssueCompleted)]"

definition action_status_values :: "(string \<times> action_status) list" where
  "action_status_values =
     [(''pending'', ActionPending), (''in_progress'', ActionInProgress),
      (''completed'', ActionCompleted), (''rejected'', ActionRejected)]"

fun issue_status_value :: "issue_status \<Rightarrow> string" where
  "issue_status_value InAssistance = ''in_assistance''"
| "issue_status_value IssueRejected = ''rejected''"
| "issue_status_value IssueCompleted = ''completed''"

fun action_status_value :: "action_status \<Rightarrow> string" where
  "action_status_value ActionPending = ''pending''"
| "action_status_value ActionInProgress = ''in_progress''"
| "action_status_value ActionCompleted = ''completed''"
| "action_status_value ActionRejected = ''rejected''"

definition customerIdInput :: "'z exec_env \<Rightarrow> string schema" where
  "customerIdInput env = field ''customerId'' (z_uuid env)"

definition actionIdInput :: "'z exec_env \<Rightarrow> string schema" where
  "actionIdInput env = field ''actionId'' (z_uuid env)"

definition productIdInput :: "'z exec_env \<Rightarrow> string schema" where
  "productIdInput env = field ''productId'' (z_uuid env)"

definition saleIdInput :: "'z exec_env \<Rightarrow> string schema" where
  "saleIdInput env = field ''saleId'' (z_uuid env)"

definition issueIdInput :: "'z exec_env \<Rightarrow> string schema" where
  "issueIdInput env = field ''issueId'' (z_uuid env)"

definition sopReadInput :: "'z exec_env \<Rightarrow> string option schema" where
  "sopReadInput env j = Option.bind (z_object j) (\<lambda>_. optional ''sopId'' (z_uuid env) j)"

definition issuesCreateInput :: "'z exec_env \<Rightarrow> (string \<times> string \<times> int option) schema" where
  "issuesCreateInput env j =
     Option.bind (field ''salesId'' (z_uuid env) j) (\<lambda>salesId.
     Option.bind (field ''description'' (z_trimmed 1 (Some 2000)) j) (\<lambda>description.
     Option.bind (optional ''dateRaised'' (z_datetime env) j) (\<lambda>dateRaised.
     Some (salesId, description, dateRaised))))"

definition saleItemInput :: "'z exec_env \<Rightarrow> (string \<times> int) schema" where
  "saleItemInput env j =
     Option.bind (field ''productId'' (z_uuid env) j) (\<lambda>productId.
     Option.bind (field ''quantity'' z_positive j) (\<lambda>quantity. Some (productId, quantity)))"

definition salesCreateInput :: "'z exec_env \<Rightarrow> create_sale_input schema" where
  "salesCreateInput env j =
     Option.bind (field ''customerId'' (z_uuid env) j) (\<lambda>customerId.
     Option.bind (field ''date'' (z_datetime env) j) (\<lambda>date.
     Option.bind (defaulted ''discountApplied'' ''0'' z_string j) (\<lambda>discountApplied.
     Option.bind (defaulted ''paymentReceived'' False z_boolean j) (\<lambda>paymentReceived.
     Option.bind (defaulted ''dateOfPayment'' None (z_nullable (z_datetime env)) j) (\<lambda>dateOfPayment.
     Option.bind (field ''items'' (z_array 1 (saleItemInput env)) j) (\<lambda>items.
     Some \<lparr>csi_customerId = customerId, csi_date = date, csi_discountApplied = discountApplied,
           csi_paymentReceived = paymentReceived, csi_dateOfPayment = dateOfPayment, csi_items = items\<rparr>))))))"

definition customersSearchInput :: "(string option \<times> bool option) schema" where
  "customersSearchInput j =
     Option.bind (z_object j) (\<lambda>_.
     Option.bind (optional ''search'' (z_trimmed 1 (Some 200)) j) (\<lambda>search.
     Option.bind (optional ''active'' z_boolean j) (\<lambda>active. Some (search, active))))"

definition productsSearchInput :: "(string option \<times> string option \<times> bool option) schema" where
  "productsSearchInput j =
     Option.bind (z_object j) (\<lambda>_.
     Option.bind (optional ''search'' (z_trimmed 1 (Some 200)) j) (\<lambda>search.
     Option.bind (optional ''category'' (z_trimmed 1 (Some 255)) j) (\<lambda>category.
     Option.bind (optional ''inCatalog'' z_boolean j) (\<lambda>inCatalog. Some (search, category, inCatalog)))))"

definition salesListInput ::
  "'z exec_env \<Rightarrow> (string option \<times> bool option \<times> int option \<times> int option) schema" where
  "salesListInput env j =
     Option.bind (z_object j) (\<lambda>_.
     Option.bind (optional ''customerId'' (z_uuid env) j) (\<lambda>customerId.
     Option.bind (optional ''paymentReceived'' z_boolean j) (\<lambda>paymentReceived.
     Option.bind (optional ''from'' (z_datetime env) j) (\<lambda>frm.
     Option.bind (optional ''to'' (z_datetime env) j) (\<lambda>til.
     Some (customerId, paymentReceived, frm, til))))))"

definition issuesListInput ::
  "'z exec_env \<Rightarrow> (issue_status option \<times> string option \<times> int option \<times> int option) schema" where
  "issuesListInput env j =
     Option.bind (z_object j) (\<lambda>_.
     Option.bind (optional ''status'' (z_enum issue_status_values) j) (\<lambda>status.
     Option.bind (optional ''customerId'' (z_uuid env) j) (\<lambda>customerId.
     Option.bind (optional ''from'' (z_datetime env) j) (\<lambda>frm.
     Option.bind (optional ''to'' (z_datetime env) j) (\<lambda>til.
     Some (status, customerId, frm, til))))))"

definition actionsListInput ::
  "'z exec_env \<Rightarrow> (action_status option \<times> string option \<times> string option) schema" where
  "actionsListInput env j =
     Option.bind (z_object j) (\<lambda>_.
     Option.bind (optional ''status'' (z_enum action_status_values) j) (\<lambda>status.
     Option.bind (optional ''assignedOwnerId'' (z_uuid env) j) (\<lambda>assignedOwnerId.
     Option.bind (optional ''issueId'' (z_uuid env) j) (\<lambda>issueId.
     Some (status, assignedOwnerId, issueId)))))"

definition actionsCreateInput :: "'z exec_env \<Rightarrow> create_action_input schema" where
  "actionsCreateInput env j =
     Option.bind (field ''issueId'' (z_uuid env) j) (\<lambda>issueId.
     Option.bind (field ''title'' (z_trimmed 1 (Some 255)) j) (\<lambda>title.
     Option.bind (field ''description'' (z_trimmed 1 (Some 2000)) j) (\<lambda>description.
     Option.bind (optional ''assignedOwnerId'' (z_uuid env) j) (\<lambda>assignedOwnerId.
     Some \<lparr>cai_issueId = issueId, cai_title = title, cai_description = description,
           cai_assignedOwnerId = assignedOwnerId, cai_status = None\<rparr>))))"

definition actionAddCommentInput :: "'z exec_env \<Rightarrow> (string \<times> string) schema" where
  "actionAddCommentInput env j =
     Option.bind (field ''actionId'' (z_uuid env) j) (\<lambda>actionId.
     Option.bind (field ''comment'' (z_trimmed 1 (Some 2000)) j) (\<lambda>text. Some (actionId, text)))"

definition actionUpdateInput :: "'z exec_env \<Rightarrow> (string \<times> update_action_input) schema" where
  "actionUpdateInput env j =
     Option.bind (field ''actionId'' (z_uuid env) j) (\<lambda>actionId.
     Option.bind (optional ''status'' (z_enum action_status_values) j) (\<lambda>status.
     Option.bind (optional ''description'' (z_trimmed 1 (Some 2000)) j) (\<lambda>description.
     Option.bind (optional ''assignedOwnerId'' (z_uuid env) j) (\<lambda>assignedOwnerId.
     if status \<noteq> None \<or> description \<noteq> None \<or> assignedOwnerId \<noteq> None
     then Some (actionId, \<lparr>uai_status = status, uai_description = description,
                           uai_assignedOwnerId = assignedOwnerId\<rparr>)
     else None))))"

definition issueUpdateInput :: "'z exec_env \<Rightarrow> (string \<times> update_issue_input) schema" where
  "issueUpdateInput env j =
     Option.bind (field ''issueId'' (z_uuid env) j) (\<lambda>issueId.
     Option.bind (optional ''description'' (z_trimmed 1 (Some 2000)) j) (\<lambda>description.
     Option.bind (optional ''status'' (z_enum issue_status_values) j) (\<lambda>status.
     if description \<noteq> None \<or> status \<noteq> None
     then Some (issueId, \<lparr>uii_description = description, uii_status = status, uii_dateLastUpdate = None\<rparr>)
     else None)))"

definition sopCreateInput :: "create_sop_input schema" where
  "sopCreateInput j =
     Option.bind (field ''name'' (z_trimmed 1 (Some 255)) j) (\<lambda>name.
     Option.bind (field ''description'' (z_trimmed 1 None) j) (\<lambda>description.
     Option.bind (field ''fullText'' (z_trimmed 1 None) j) (\<lambda>fullText.
     Option.bind (defaulted ''active'' True z_boolean j) (\<lambda>active.
     Some \<lparr>cso_name = name, cso_description = description, cso_active = active, cso_fullText = fullText\<rparr>))))"

definition sopUpdateInput :: "'z exec_env \<Rightarrow> (string \<times> update_sop_input) schema" where
  "sopUpdateInput env j =
     Option.bind (field ''sopId'' (z_uuid env) j) (\<lambda>sopId.
     Option.bind (optional ''name'' (z_trimmed 1 (Some 255)) j) (\<lambda>name.
     Option.bind (optional ''description'' (z_trimmed 1 None) j) (\<lambda>description.
     Option.bind (optional ''active'' z_boolean j) (\<lambda>active.
     if name \<noteq> None \<or> description \<noteq> None \<or> active \<noteq> None
     then Some (sopId, \<lparr>uso_name = name, uso_description = description, uso_active = active\<rparr>)
     else None))))"

definition sopAddVersionInput :: "'z exec_env \<Rightarrow> (string \<times> string) schema" where
  "sopAddVersionInput env j =
     Option.bind (field ''sopId'' (z_uuid env) j) (\<lambda>sopId.
     Option.bind (field ''fullText'' (z_trimmed 1 None) j) (\<lambda>fullText. Some (sopId, fullText)))"

section \<open>Results\<close>

datatype link_type = LinkCustomer | LinkSale | LinkIssue | LinkAction | LinkSop | LinkExternal

record tool_link =
  tl_label :: string
  tl_href :: string
  tl_type :: link_type

datatype tool_data =
  SalesReportData customer "sale_dto list" nat
| CustomerProductsData customer string "customer_product list" nat
| IssuesData "issue_dto list" nat
| NextActionData "action_dto option" nat
| ActionData action_dto
| SaleData sale_dto
| IssueData issue_dto
| SopData sop_dto
| SopsData "sop_dto list" nat
| CustomerMatches "(string \<times> string \<times> string \<times> bool) list" nat
| CustomerData customer
| ProductMatches "(string \<times> string \<times> string \<times> string \<times> bool) list" nat
| ProductData product
| SaleMatches "(string \<times> string \<times> int \<times> string \<times> bool) list" nat
| IssueMatches "(string \<times> string \<times> issue_status \<times> int) list" nat
| ActionMatches "(string \<times> string \<times> action_status \<times> string) list" nat
| CommentData "action_comment \<times> user option"
| DetailData sop_detail

record tool_call_result =
  tr_capabilityId :: string
  tr_summary :: string
  tr_data :: tool_data
  tr_links :: "tool_link list"

type_synonym 'z handler = "'z exec_env \<Rightarrow> auth_context \<Rightarrow> json option \<Rightarrow> ('z nova_db_scheme, tool_call_result) op"

text \<open>\<open>schema.safeParse(input ?? {})\<close>\<close>

definition parse_input :: "'a schema \<Rightarrow> json option \<Rightarrow> ('z nova_db_scheme, 'a) op" where
  "parse_input schema input =
     liftM (case schema (case input of None \<Rightarrow> JObj [] | Some v \<Rightarrow> if v = JNull then JObj [] else v) of
        None \<Rightarrow> Inl (validation_error ''Invalid capability input.'')
      | Some x \<Rightarrow> Inr x)"

definition LIST_PAGE_SIZE :: nat where
  "LIST_PAGE_SIZE = 50"

definition RESOLVER_PREVIEW :: nat where
  "RESOLVER_PREVIEW = 5"

definition short_id :: "string \<Rightarrow> string" where
  "short_id i = take 8 i"

definition quoted :: "string \<Rightarrow> string" where
  "quoted s = CHR 0x22 # s @ [CHR 0x22]"

text \<open>The dash U+2014 of the summaries, as one character.\<close>

definition em_dash :: string where
  "em_dash = [CHR 0x97]"

definition link :: "string \<Rightarrow> string \<Rightarrow> link_type \<Rightarrow> tool_link" where
  "link label href t = \<lparr>tl_label = label, tl_href = href, tl_type = t\<rparr>"

definition result :: "string \<Rightarrow> string \<Rightarrow> tool_data \<Rightarrow> tool_link list \<Rightarrow> tool_call_result" where
  "result i summary d links = \<lparr>tr_capabilityId = i, tr_summary = summary, tr_data = d, tr_links = links\<rparr>"

definition preview :: "string list \<Rightarrow> string" where
  "preview xs = js_join ''; '' (take RESOLVER_PREVIEW xs)"

definition suffix_if :: "string \<Rightarrow> string" where
  "suffix_if s = (if s = [] then [] else '': '' @ s)"

definition matchSummary :: "string \<Rightarrow> nat \<Rightarrow> string option \<Rightarrow> string list \<Rightarrow> string" where
  "matchSummary noun n search previews =
     (let head = show_nat n @ '' '' @ noun @ ''(s) match'' @
            (case some_id search of None \<Rightarrow> [] | Some s \<Rightarrow> '' '' @ quoted s) @ ''.''
      in if length previews = 0 then head else head @ '' Top: '' @ preview previews @ ''.'')"

definition paid_word :: "bool \<Rightarrow> string" where
  "paid_word b = (if b then ''paid'' else ''unpaid'')"

definition customer_link :: "customer \<Rightarrow> string \<Rightarrow> tool_link" where
  "customer_link c i = link (''Open '' @ cu_fullName c) (''nova://customer/'' @ i) LinkCustomer"

definition action_link :: "string \<Rightarrow> tool_link" where
  "action_link i = link ''Open action'' (''nova://action/'' @ i) LinkAction"

section \<open>Reads\<close>

definition salesReport :: "'z handler" where
  "salesReport env auth input =
     bindM (parse_input (customerIdInput env) input) (\<lambda>customerId.
     bindM (getCustomerById customerId) (\<lambda>c.
     bindM (listSales \<lparr>sf_page = 1, sf_pageSize = LIST_PAGE_SIZE, sf_customerId = Some customerId,
        sf_paymentReceived = None, sf_from = None, sf_to = None\<rparr>) (\<lambda>sales.
     returnM (result ''sales.report.customer''
       (cu_fullName c @ '' has '' @ show_nat (pr_total sales) @ '' sale(s) on record.'')
       (SalesReportData c (pr_items sales) (pr_total sales)) [customer_link c customerId]))))"

definition customerProducts :: "'z handler" where
  "customerProducts env auth input =
     bindM (parse_input (customerIdInput env) input) (\<lambda>customerId.
     bindM (getCustomerById customerId) (\<lambda>c.
     bindM (productsForCustomer customerId) (\<lambda>(cid, products, n).
      let shown = preview (map (\<lambda>p. cp_name p @ '' x'' @ show_int (cp_totalQuantity p)) products) in
      returnM (result ''sales.products.forCustomer''
        (if n = 0 then cu_fullName c @ '' has not purchased any products.''
         else cu_fullName c @ '' purchased '' @ show_nat n @ '' distinct product(s)'' @ suffix_if shown @ ''.'')
        (CustomerProductsData c cid products n) [customer_link c customerId]))))"

definition pendingIssues :: "'z handler" where
  "pendingIssues env auth input =
     bindM (parse_input (customerIdInput env) input) (\<lambda>customerId.
     bindM (listIssues \<lparr>ilf_page = 1, ilf_pageSize = LIST_PAGE_SIZE, ilf_status = Some InAssistance,
        ilf_customerId = Some customerId, ilf_from = None, ilf_to = None\<rparr>) (\<lambda>issues.
     returnM (result ''issues.list.pendingForCustomer''
       (show_nat (pr_total issues) @ '' pending issue(s) for this customer.'')
       (IssuesData (pr_items issues) (pr_total issues))
       (map (\<lambda>x. link (''Open issue '' @ short_id (ci_id (isd_issue x)))
                    (''nova://issue/'' @ ci_id (isd_issue x)) LinkIssue) (take 5 (pr_items issues))))))"

definition nextAction :: "'z handler" where
  "nextAction env auth input =
     bindM (listActions \<lparr>alf_page = 1, alf_pageSize = 1, alf_status = Some ActionPending,
        alf_assignedOwnerId = None, alf_issueId = None\<rparr>) (\<lambda>pending.
      let nxt = (case pr_items pending of [] \<Rightarrow> None | a # _ \<Rightarrow> Some a) in
      returnM (result ''actions.next''
        (case nxt of None \<Rightarrow> ''No pending actions.'' | Some a \<Rightarrow> ''Next action: '' @ ia_title (iad_action a))
        (NextActionData nxt (pr_total pending))
        (case nxt of None \<Rightarrow> [] | Some a \<Rightarrow> [action_link (ia_id (iad_action a))])))"

definition readSop :: "'z handler" where
  "readSop env auth input =
     bindM (parse_input (sopReadInput env) input) (\<lambda>sopId.
     case some_id sopId of
       Some i \<Rightarrow> bindM (getSopById i) (\<lambda>s.
         returnM (result ''sop.read'' (''SOP '' @ quoted (so_name (std_sop s)) @ ''.'') (SopData s)
           [link (''Open '' @ so_name (std_sop s)) (''nova://sop/'' @ so_id (std_sop s)) LinkSop]))
     | None \<Rightarrow> bindM (listSops (xe_ilike env) \<lparr>slf_page = 1, slf_pageSize = 20, slf_search = None, slf_active = None\<rparr>) (\<lambda>sops.
         let titles = preview (filter (\<lambda>n. n \<noteq> []) (map (\<lambda>s. so_name (std_sop s)) (pr_items sops))) in
         returnM (result ''sop.read''
           (if pr_total sops = 0 then ''No SOPs available.''
            else show_nat (pr_total sops) @ '' SOP(s) available'' @ suffix_if titles @ ''.'')
           (SopsData (pr_items sops) (pr_total sops)) [])))"

definition searchCustomers :: "'z handler" where
  "searchCustomers env auth input =
     bindM (parse_input customersSearchInput input) (\<lambda>(search, active).
     bindM (listCustomers (xe_ilike env) \<lparr>cf_page = 1, cf_pageSize = LIST_PAGE_SIZE, cf_active = active, cf_search = search\<rparr>) (\<lambda>r.
      let matches = map (\<lambda>c. (cu_id c, cu_fullName c, cu_email c, cu_active c)) (pr_items r) in
      returnM (result ''customers.search''
        (matchSummary ''customer'' (pr_total r) search (map (\<lambda>(i, n, e, a). n @ '' ('' @ i @ '')'') matches))
        (CustomerMatches matches (pr_total r))
        (map (\<lambda>(i, n, e, a). link (''Open '' @ n) (''nova://customer/'' @ i) LinkCustomer)
           (take RESOLVER_PREVIEW matches)))))"

definition getCustomer :: "'z handler" where
  "getCustomer env auth input =
     bindM (parse_input (customerIdInput env) input) (\<lambda>customerId.
     bindM (getCustomerById customerId) (\<lambda>c.
     returnM (result ''customers.get''
       (cu_fullName c @ '' <'' @ cu_email c @ ''>'' @ (if cu_active c then [] else '' (inactive)'') @ ''.'')
       (CustomerData c) [customer_link c customerId])))"

definition searchProducts :: "'z handler" where
  "searchProducts env auth input =
     bindM (parse_input productsSearchInput input) (\<lambda>(search, category, inCatalog).
     bindM (listProducts (xe_ilike env) \<lparr>pf_page = 1, pf_pageSize = LIST_PAGE_SIZE, pf_search = search,
        pf_category = category, pf_inCatalog = inCatalog\<rparr>) (\<lambda>r.
      let matches = map (\<lambda>p. (pd_id p, pd_name p, pd_category p, pd_price p, pd_inCatalog p)) (pr_items r) in
      returnM (result ''products.search''
        (matchSummary ''product'' (pr_total r) search (map (\<lambda>(i, n, rest). n @ '' ('' @ i @ '')'') matches))
        (ProductMatches matches (pr_total r)) [])))"

definition getProduct :: "'z handler" where
  "getProduct env auth input =
     bindM (parse_input (productIdInput env) input) (\<lambda>productId.
     bindM (getProductById productId) (\<lambda>p.
     returnM (result ''products.get''
       (pd_name p @ '' '' @ em_dash @ '' '' @ pd_category p @ '', '' @ pd_price p
          @ (if pd_inCatalog p then [] else '' (not in catalog)'') @ ''.'')
       (ProductData p) [])))"

definition sale_match :: "sale_dto \<Rightarrow> string \<times> string \<times> int \<times> string \<times> bool" where
  "sale_match d = (let s = sdt_sale d in
     (sa_id s, sa_customerId s, sa_date s, sa_totalAmountReceipt s, sa_paymentReceived s))"

definition cap_listSales :: "'z handler" where
  "cap_listSales env auth input =
     bindM (parse_input (salesListInput env) input) (\<lambda>(customerId, paymentReceived, frm, til).
     bindM (listSales \<lparr>sf_page = 1, sf_pageSize = LIST_PAGE_SIZE, sf_customerId = customerId,
        sf_paymentReceived = paymentReceived, sf_from = frm, sf_to = til\<rparr>) (\<lambda>r.
      let matches = map sale_match (pr_items r);
          shown = preview (map (\<lambda>(i, c, d, t, b). short_id i @ '' ('' @ t @ '', '' @ paid_word b @ '')'') matches) in
      returnM (result ''sales.list'' (show_nat (pr_total r) @ '' sale(s) match'' @ suffix_if shown @ ''.'')
        (SaleMatches matches (pr_total r))
        (map (\<lambda>(i, rest). link (''Open sale '' @ short_id i) (''nova://sale/'' @ i) LinkSale)
           (take RESOLVER_PREVIEW matches)))))"

definition getSale :: "'z handler" where
  "getSale env auth input =
     bindM (parse_input (saleIdInput env) input) (\<lambda>saleId.
     bindM (getSaleById saleId) (\<lambda>d.
      let s = sdt_sale d in
      returnM (result ''sales.get''
        (''Sale '' @ short_id (sa_id s) @ '' '' @ em_dash @ '' '' @ sa_totalAmountReceipt s @ '', ''
           @ paid_word (sa_paymentReceived s) @ ''.'')
        (SaleData d) [link (''Open sale '' @ short_id (sa_id s)) (''nova://sale/'' @ sa_id s) LinkSale])))"

definition issue_match :: "issue_dto \<Rightarrow> string \<times> string \<times> issue_status \<times> int" where
  "issue_match d = (let x = isd_issue d in (ci_id x, ci_salesId x, ci_status x, ci_dateRaised x))"

definition cap_listIssues :: "'z handler" where
  "cap_listIssues env auth input =
     bindM (parse_input (issuesListInput env) input) (\<lambda>(status, customerId, frm, til).
     bindM (listIssues \<lparr>ilf_page = 1, ilf_pageSize = LIST_PAGE_SIZE, ilf_status = status,
        ilf_customerId = customerId, ilf_from = frm, ilf_to = til\<rparr>) (\<lambda>r.
      let matches = map issue_match (pr_items r);
          shown = preview (map (\<lambda>(i, s, st, d). short_id i @ '' ('' @ issue_status_value st @ '')'') matches) in
      returnM (result ''issues.list'' (show_nat (pr_total r) @ '' issue(s) match'' @ suffix_if shown @ ''.'')
        (IssueMatches matches (pr_total r))
        (map (\<lambda>(i, rest). link (''Open issue '' @ short_id i) (''nova://issue/'' @ i) LinkIssue)
           (take RESOLVER_PREVIEW matches)))))"

definition issue_link :: "string \<Rightarrow> string \<Rightarrow> tool_link" where
  "issue_link label i = link label (''nova://issue/'' @ i) LinkIssue"

definition getIssue :: "'z handler" where
  "getIssue env auth input =
     bindM (parse_input (issueIdInput env) input) (\<lambda>issueId.
     bindM (getIssueById issueId) (\<lambda>d.
      let x = isd_issue d in
      returnM (result ''issues.get''
        (''Issue '' @ short_id (ci_id x) @ '' '' @ em_dash @ '' status '' @ issue_status_value (ci_status x) @ ''.'')
        (IssueData d) [issue_link (''Open issue '' @ short_id (ci_id x)) (ci_id x)])))"

definition cap_listActions :: "'z handler" where
  "cap_listActions env auth input =
     bindM (parse_input (actionsListInput env) input) (\<lambda>(status, assignedOwnerId, issueId).
     bindM (listActions \<lparr>alf_page = 1, alf_pageSize = LIST_PAGE_SIZE, alf_status = status,
        alf_assignedOwnerId = assignedOwnerId, alf_issueId = issueId\<rparr>) (\<lambda>r.
      let matches = map (\<lambda>d. let a = iad_action d in (ia_id a, ia_title a, ia_status a, ia_issueId a)) (pr_items r) in
      returnM (result ''actions.list''
        (matchSummary ''action'' (pr_total r) None (map (\<lambda>(i, t, rest). t @ '' ('' @ i @ '')'') matches))
        (ActionMatches matches (pr_total r))
        (map (\<lambda>(i, rest). action_link i) (take RESOLVER_PREVIEW matches)))))"

definition getAction :: "'z handler" where
  "getAction env auth input =
     bindM (parse_input (actionIdInput env) input) (\<lambda>actionId.
     bindM (getActionById actionId) (\<lambda>d.
      let a = iad_action d in
      returnM (result ''actions.get''
        (''Action '' @ quoted (ia_title a) @ '' '' @ em_dash @ '' status '' @ action_status_value (ia_status a) @ ''.'')
        (ActionData d) [action_link (ia_id a)])))"

section \<open>Writes\<close>

definition markActionCompleted :: "'z handler" where
  "markActionCompleted env auth input =
     bindM (parse_input (actionIdInput env) input) (\<lambda>actionId.
     bindM (updateAction (xe_gen env) (xe_now env) actionId
        \<lparr>uai_status = Some ActionCompleted, uai_description = None, uai_assignedOwnerId = None\<rparr> auth) (\<lambda>d.
      let a = iad_action d in
      returnM (result ''actions.markCompleted'' (''Marked action '' @ quoted (ia_title a) @ '' as completed.'')
        (ActionData d) [action_link (ia_id a)])))"

definition cap_createSale :: "'z handler" where
  "cap_createSale env auth input =
     bindM (parse_input (salesCreateInput env) input) (\<lambda>d.
     bindM (createSale (xe_gen env) d) (\<lambda>s.
      let x = sdt_sale s in
      returnM (result ''sales.create''
        (''Created sale '' @ short_id (sa_id x) @ '' for '' @ sa_totalAmountReceipt x @ ''.'')
        (SaleData s) [link ''Open sale'' (''nova://sale/'' @ sa_id x) LinkSale])))"

definition cap_createIssue :: "'z handler" where
  "cap_createIssue env auth input =
     bindM (parse_input (issuesCreateInput env) input) (\<lambda>(salesId, description, dateRaised).
     bindM (createIssue (xe_gen env) \<lparr>cii_salesId = salesId, cii_description = description,
        cii_dateRaised = nullish dateRaised (xe_now env), cii_status = InAssistance\<rparr>) (\<lambda>d.
      let x = isd_issue d in
      returnM (result ''issues.create'' (''Opened issue '' @ short_id (ci_id x) @ ''.'') (IssueData d)
        [issue_link ''Open issue'' (ci_id x)])))"

definition cap_createAction :: "'z handler" where
  "cap_createAction env auth input =
     bindM (parse_input (actionsCreateInput env) input) (\<lambda>d.
     bindM (createAction (xe_gen env) (xe_now env) d auth) (\<lambda>r.
      let a = iad_action r in
      returnM (result ''actions.create'' (''Created action '' @ quoted (ia_title a) @ ''.'')
        (ActionData r) [action_link (ia_id a)])))"

definition addActionComment :: "'z handler" where
  "addActionComment env auth input =
     bindM (parse_input (actionAddCommentInput env) input) (\<lambda>(actionId, text).
     bindM (addComment (xe_gen env) (xe_now env) actionId text (xe_now env) auth) (\<lambda>c.
      returnM (result ''actions.addComment'' (''Added a comment to action '' @ short_id actionId @ ''.'')
        (CommentData c) [action_link actionId])))"

definition cap_updateAction :: "'z handler" where
  "cap_updateAction env auth input =
     bindM (parse_input (actionUpdateInput env) input) (\<lambda>(actionId, d).
     bindM (updateAction (xe_gen env) (xe_now env) actionId d auth) (\<lambda>r.
      let a = iad_action r in
      returnM (result ''actions.update''
        (''Updated action '' @ quoted (ia_title a) @ '' (status '' @ action_status_value (ia_status a) @ '').'')
        (ActionData r) [action_link (ia_id a)])))"

definition cap_updateIssue :: "'z handler" where
  "cap_updateIssue env auth input =
     bindM (parse_input (issueUpdateInput env) input) (\<lambda>(issueId, d).
     bindM (updateIssue (xe_now env) issueId d) (\<lambda>r.
      let x = isd_issue r in
      returnM (result ''issues.update''
        (''Updated issue '' @ short_id (ci_id x) @ '' (status '' @ issue_status_value (ci_status x) @ '').'')
        (IssueData r) [issue_link (''Open issue '' @ short_id (ci_id x)) (ci_id x)])))"

definition sop_link :: "sop \<Rightarrow> tool_link" where
  "sop_link s = link (''Open '' @ so_name s) (''nova://sop/'' @ so_id s) LinkSop"

definition cap_createSop :: "'z handler" where
  "cap_createSop env auth input =
     bindM (parse_input sopCreateInput input) (\<lambda>d.
     bindM (createSop (xe_gen env) (xe_now env) d auth) (\<lambda>r.
      returnM (result ''sop.create'' (''Created SOP '' @ quoted (so_name (std_sop r)) @ ''.'')
        (SopData r) [sop_link (std_sop r)])))"

definition cap_updateSop :: "'z handler" where
  "cap_updateSop env auth input =
     bindM (parse_input (sopUpdateInput env) input) (\<lambda>(sopId, d).
     bindM (updateSop sopId d) (\<lambda>r.
      returnM (result ''sop.update'' (''Updated SOP '' @ quoted (so_name (std_sop r)) @ ''.'')
        (SopData r) [sop_link (std_sop r)])))"

definition addSopVersion :: "'z handler" where
  "addSopVersion env auth input =
     bindM (parse_input (sopAddVersionInput env) input) (\<lambda>(sopId, fullText).
     bindM (addVersion (xe_gen env) (xe_now env) sopId fullText auth) (\<lambda>d.
      returnM (result ''sop.addVersion''
        (''Added version '' @ show_int (sd_version d) @ '' to SOP '' @ short_id sopId @ ''.'')
        (DetailData d) [link ''Open SOP'' (''nova://sop/'' @ sopId) LinkSop])))"

section \<open>Dispatch\<close>

text \<open>The cases of the switch, in its order.\<close>

definition executors :: "(string \<times> 'z handler) list" where
  "executors =
     [(''sales.report.customer'', salesReport), (''sales.products.forCustomer'', customerProducts),
      (''issues.list.pendingForCustomer'', pendingIssues), (''actions.next'', nextAction),
      (''actions.markCompleted'', markActionCompleted), (''sales.create'', cap_createSale),
      (''issues.create'', cap_createIssue), (''sop.read'', readSop),
      (''customers.search'', searchCustomers), (''customers.get'', getCustomer),
      (''products.search'', searchProducts), (''products.get'', getProduct),
      (''sales.list'', cap_listSales), (''sales.get'', getSale),
      (''issues.list'', cap_listIssues), (''issues.get'', getIssue),
      (''actions.list'', cap_listActions), (''actions.get'', getAction),
      (''actions.create'', cap_createAction), (''actions.addComment'', addActionComment),
      (''actions.update'', cap_updateAction), (''issues.update'', cap_updateIssue),
      (''sop.create'', cap_createSop), (''sop.update'', cap_updateSop), (''sop.addVersion'', addSopVersion)]"

definition execute ::
  "'z exec_env \<Rightarrow> string \<Rightarrow> json option \<Rightarrow> auth_context \<Rightarrow> ('z nova_db_scheme, tool_call_result) op" where
  "execute env capabilityId input auth =
     (case map_of executors capabilityId of
        Some h \<Rightarrow> h env auth input
      | None \<Rightarrow> throwM (validation_error (''Capability '' @ quoted capabilityId @ '' is not executable.'')))"

section \<open>Reads do not write\<close>

definition no_write :: "('s, 'a) op \<Rightarrow> bool" where
  "no_write m \<longleftrightarrow> (\<forall>s. snd (m s) = s)"

lemma no_write_preserves: "no_write m \<Longrightarrow> preserves I m"
  by (simp add: no_write_def preserves_def)

lemma no_write_iff: "no_write m \<longleftrightarrow> (\<forall>s0. preserves (\<lambda>s. s = s0) m)"
  by (auto simp: no_write_def preserves_def)

lemma preserves_parse_input: "preserves I (parse_input schema input)"
  unfolding parse_input_def by (rule preserves_liftM)

lemmas read_handlers = salesReport_def customerProducts_def pendingIssues_def nextAction_def readSop_def
  searchCustomers_def getCustomer_def searchProducts_def getProduct_def cap_listSales_def getSale_def
  cap_listIssues_def getIssue_def cap_listActions_def getAction_def

lemmas read_services = getCustomerById_def listCustomers_def listSales_def getSaleById_def
  productsForCustomer_def listIssues_def getIssueById_def listActions_def getActionById_def
  listProducts_def getProductById_def listSops_def getSopById_def

definition read_capabilities :: "(string \<times> 'z handler) list" where
  "read_capabilities =
     [(''sales.report.customer'', salesReport), (''sales.products.forCustomer'', customerProducts),
      (''issues.list.pendingForCustomer'', pendingIssues), (''actions.next'', nextAction),
      (''sop.read'', readSop), (''customers.search'', searchCustomers), (''customers.get'', getCustomer),
      (''products.search'', searchProducts), (''products.get'', getProduct),
      (''sales.list'', cap_listSales), (''sales.get'', getSale), (''issues.list'', cap_listIssues),
      (''issues.get'', getIssue), (''actions.list'', cap_listActions), (''actions.get'', getAction)]"

lemma read_handlers_preserve: "h \<in> snd ` set read_capabilities \<Longrightarrow> preserves I (h env auth input)"
  unfolding read_capabilities_def
  by (auto simp: read_handlers read_services Let_def
      intro!: business_intros preserves_parse_input split: option.split)

lemma read_capabilities_executors: "set read_capabilities \<subseteq> set executors"
  unfolding read_capabilities_def executors_def list.set
  by (simp only: insert_subset empty_subsetI insert_iff simp_thms)

definition EXECUTOR_IDS :: "string list" where
  "EXECUTOR_IDS =
     [''sales.report.customer'', ''sales.products.forCustomer'', ''issues.list.pendingForCustomer'',
      ''actions.next'', ''actions.markCompleted'', ''sales.create'', ''issues.create'', ''sop.read'',
      ''customers.search'', ''customers.get'', ''products.search'', ''products.get'', ''sales.list'',
      ''sales.get'', ''issues.list'', ''issues.get'', ''actions.list'', ''actions.get'',
      ''actions.create'', ''actions.addComment'', ''actions.update'', ''issues.update'',
      ''sop.create'', ''sop.update'', ''sop.addVersion'']"

lemma executors_ids: "map fst executors = EXECUTOR_IDS"
  unfolding executors_def EXECUTOR_IDS_def list.map fst_conv ..

lemma read_capabilities_ids:
  "map fst read_capabilities =
     [''sales.report.customer'', ''sales.products.forCustomer'', ''issues.list.pendingForCustomer'',
      ''actions.next'', ''sop.read'', ''customers.search'', ''customers.get'', ''products.search'',
      ''products.get'', ''sales.list'', ''sales.get'', ''issues.list'', ''issues.get'',
      ''actions.list'', ''actions.get'']"
  unfolding read_capabilities_def list.map fst_conv ..

text \<open>The catalog's entry points of the data agent and its SQL tools, which the database MCP server
  and the agents execute.\<close>

definition DATA_PLANE_IDS :: "string list" where
  "DATA_PLANE_IDS = [''data.schema.describe'', ''data.query.select'', ''data.analyse.read'', ''data.act.write'']"

lemma distinct_executor_ids: "distinct EXECUTOR_IDS"
  by code_simp

lemma catalog_executor_ids:
  "set (map cap_id CAPABILITY_CATALOG) = set EXECUTOR_IDS \<union> set DATA_PLANE_IDS"
  "set EXECUTOR_IDS \<inter> set DATA_PLANE_IDS = {}"
  by code_simp+

lemma read_mode_ids:
  "list_all (\<lambda>c. cap_mode c = ReadMode \<and> cap_id c \<notin> set DATA_PLANE_IDS \<longrightarrow> cap_id c \<in>
     {''sales.report.customer'', ''sales.products.forCustomer'', ''issues.list.pendingForCustomer'',
      ''actions.next'', ''sop.read'', ''customers.search'', ''customers.get'', ''products.search'',
      ''products.get'', ''sales.list'', ''sales.get'', ''issues.list'', ''issues.get'',
      ''actions.list'', ''actions.get''}) CAPABILITY_CATALOG"
  by code_simp

lemma execute_unknown:
  fixes env :: "'z exec_env"
  assumes "i \<notin> set EXECUTOR_IDS"
  shows "\<exists>e. execute env i input auth db = (Inl e, db)"
proof -
  from assms have "map_of (executors :: (string \<times> 'z handler) list) i = None"
    by (simp only: map_of_eq_None_iff set_map [symmetric] executors_ids simp_thms)
  then show ?thesis by (simp add: execute_def op_simps)
qed

lemma execute_read:
  fixes env :: "'z exec_env"
  assumes "(i, h) \<in> set (read_capabilities :: (string \<times> 'z handler) list)"
  shows "snd (execute env i input auth db) = db"
proof -
  have "distinct (map fst (executors :: (string \<times> 'z handler) list))" unfolding executors_ids by (rule distinct_executor_ids)
  moreover have "(i, h) \<in> set executors" using read_capabilities_executors assms by blast
  ultimately have "map_of executors i = Some h" by (rule map_of_is_SomeI)
  moreover have "preserves (\<lambda>s. s = db) (h env auth input)"
    by (rule read_handlers_preserve) (use assms in force)
  ultimately show ?thesis by (simp add: execute_def preserves_def)
qed

lemma execute_preserves_business:
  fixes env :: "'z exec_env"
  shows "preserves (business_inv db0) (execute env i input auth)"
proof (cases "map_of (executors :: (string \<times> 'z handler) list) i")
  case None
  then show ?thesis by (simp add: execute_def preserves_throwM)
next
  case (Some h)
  then have h: "h \<in> snd ` set (executors :: (string \<times> 'z handler) list)"
    by (metis image_iff map_of_SomeD snd_conv)
  have "preserves (business_inv db0) (h env auth input)"
    using h unfolding executors_def
    by (auto simp: read_handlers read_services Let_def markActionCompleted_def cap_createSale_def
        cap_createIssue_def cap_createAction_def addActionComment_def cap_updateAction_def
        cap_updateIssue_def cap_createSop_def cap_updateSop_def addSopVersion_def
        createSale_def createIssue_def updateIssue_def createAction_def updateAction_def addComment_def
        createSop_def updateSop_def addVersion_def
        intro!: business_intros business_writes preserves_parse_input split: option.split)
  with Some show ?thesis by (simp add: execute_def)
qed



definition example_exec_env :: "unit exec_env" where
  "example_exec_env = \<lparr>xe_gen = (\<lambda>_. ''x1''), xe_now = 5, xe_ilike = (\<lambda>_ _. True), xe_isUuid = (\<lambda>_. True),
     xe_datetime = (\<lambda>_. Some 0)\<rparr>"


end
