(* ===== verification/Snapshot.thy ===== *)
theory Snapshot
  imports Authz "HOL-Library.Sublist"
begin

text \<open>
  The entitlement snapshot: its canonical form and hash
  (\<open>packages/shared/src/auth/entitlement-snapshot.ts\<close>) and its construction at the API edge
  (\<open>api/src/modules/agent-runs/entitlement-snapshot.ts\<close>). \<open>JSON.stringify\<close> is written out for
  the values it is applied to (strings, arrays of strings, integers); SHA-256 of the UTF-8
  encoding, in hexadecimal, is the argument \<open>sha256\<close>.
\<close>

section \<open>JSON text\<close>

definition hex_digit :: "nat \<Rightarrow> char" where
  "hex_digit d = ''0123456789abcdef'' ! d"

definition json_escape :: "char \<Rightarrow> string" where
  "json_escape c =
     (let n = of_char c :: nat in
      if c = CHR 0x22 then [CHR 0x5C, CHR 0x22]
      else if c = CHR 0x5C then [CHR 0x5C, CHR 0x5C]
      else if n = 8 then [CHR 0x5C, CHR ''b'']
      else if n = 9 then [CHR 0x5C, CHR ''t'']
      else if n = 10 then [CHR 0x5C, CHR ''n'']
      else if n = 12 then [CHR 0x5C, CHR ''f'']
      else if n = 13 then [CHR 0x5C, CHR ''r'']
      else if n < 32 then [CHR 0x5C, CHR ''u'', CHR ''0'', CHR ''0'', hex_digit (n div 16), hex_digit (n mod 16)]
      else [c])"

definition json_string :: "string \<Rightarrow> string" where
  "json_string s = [CHR 0x22] @ concat (map json_escape s) @ [CHR 0x22]"

definition json_string_array :: "string list \<Rightarrow> string" where
  "json_string_array xs = ''['' @ js_join '','' (map json_string xs) @ '']''"

definition json_key :: "string \<Rightarrow> string" where
  "json_key k = json_string k @ '':''"

section \<open>The canonical form and its hash\<close>

record snapshot_payload =
  sp_ownerSubject :: string
  sp_roles :: "string list"
  sp_permissions :: "string list"
  sp_capabilityAllowlist :: "string list"
  sp_issuedAtEpochS :: int
  sp_expiresAtEpochS :: int

definition snapshot_canonical :: "snapshot_payload \<Rightarrow> string" where
  "snapshot_canonical p =
     ''{'' @ json_key ''ownerSubject'' @ json_string (sp_ownerSubject p)
     @ '','' @ json_key ''roles'' @ json_string_array (sortedUnique (sp_roles p))
     @ '','' @ json_key ''permissions'' @ json_string_array (sortedUnique (sp_permissions p))
     @ '','' @ json_key ''capabilityAllowlist'' @ json_string_array (sortedUnique (sp_capabilityAllowlist p))
     @ '','' @ json_key ''issuedAtEpochS'' @ show_int (sp_issuedAtEpochS p)
     @ '','' @ json_key ''expiresAtEpochS'' @ show_int (sp_expiresAtEpochS p) @ ''}''"

definition computeSnapshotHash :: "(string \<Rightarrow> string) \<Rightarrow> snapshot_payload \<Rightarrow> string" where
  "computeSnapshotHash sha256 p = ''sha256:'' @ sha256 (snapshot_canonical p)"

section \<open>Building a snapshot\<close>

text \<open>Dates are milliseconds since the epoch.\<close>

record entitlement_snapshot =
  es_ownerSubject :: string
  es_ownerUserId :: string
  es_roles :: "string list"
  es_permissions :: "string list"
  es_capabilityAllowlist :: "string list"
  es_snapshotHash :: string
  es_issuedAt :: int
  es_expiresAt :: int

definition buildEntitlementSnapshot ::
  "(string \<Rightarrow> string) \<Rightarrow> string \<Rightarrow> string \<Rightarrow> string list \<Rightarrow> string list
   \<Rightarrow> (string list \<Rightarrow> string list) \<Rightarrow> int \<Rightarrow> int \<Rightarrow> entitlement_snapshot" where
  "buildEntitlementSnapshot sha256 ownerSubject ownerUserId roles0 permissions0 resolveCapabilityAllowlist ttlSeconds now =
     (let issuedAtEpochS = now div 1000;
          expiresAtEpochS = issuedAtEpochS + ttlSeconds;
          roles = sortedUnique roles0;
          permissions = sortedUnique permissions0;
          allowlist = sortedUnique (resolveCapabilityAllowlist permissions0);
          snapshotHash = computeSnapshotHash sha256
            \<lparr>sp_ownerSubject = ownerSubject, sp_roles = roles, sp_permissions = permissions,
             sp_capabilityAllowlist = allowlist, sp_issuedAtEpochS = issuedAtEpochS,
             sp_expiresAtEpochS = expiresAtEpochS\<rparr>
      in \<lparr>es_ownerSubject = ownerSubject, es_ownerUserId = ownerUserId, es_roles = roles,
          es_permissions = permissions, es_capabilityAllowlist = allowlist,
          es_snapshotHash = snapshotHash, es_issuedAt = issuedAtEpochS * 1000,
          es_expiresAt = expiresAtEpochS * 1000\<rparr>)"

section \<open>The canonical form is injective\<close>

definition escaped :: "char \<Rightarrow> bool" where
  "escaped c \<longleftrightarrow> (of_char c :: nat) < 32 \<or> c = CHR 0x22 \<or> c = CHR 0x5C"

lemma json_escape_plain: "\<not> escaped c \<Longrightarrow> json_escape c = [c]"
  by (auto simp: escaped_def json_escape_def Let_def)

lemma json_escape_special: "escaped c \<Longrightarrow> \<exists>t. json_escape c = CHR 0x5C # t"
  by (auto simp: escaped_def json_escape_def Let_def)

text \<open>A decoder of one escape sequence.\<close>

definition hex_value :: "char \<Rightarrow> nat" where
  "hex_value h = length (takeWhile (\<lambda>x. x \<noteq> h) ''0123456789abcdef'')"

definition unescape :: "string \<Rightarrow> nat" where
  "unescape s = (let x = s ! 1 in
     if x = CHR 0x22 then 34 else if x = CHR 0x5C then 92 else if x = CHR ''b'' then 8
     else if x = CHR ''t'' then 9 else if x = CHR ''n'' then 10 else if x = CHR ''f'' then 12
     else if x = CHR ''r'' then 13 else 16 * hex_value (s ! 4) + hex_value (s ! 5))"

lemma hex_value_digit: "d < 16 \<Longrightarrow> hex_value (hex_digit d) = d"
proof -
  have "list_all (\<lambda>d. hex_value (hex_digit d) = d) [0, 1, 2, 3, 4, 5, 6, 7, 8, 9, 10, 11, 12, 13, 14, 15]"
    by code_simp
  moreover assume "d < 16"
  then have "d = 0 \<or> d = 1 \<or> d = 2 \<or> d = 3 \<or> d = 4 \<or> d = 5 \<or> d = 6 \<or> d = 7 \<or> d = 8 \<or> d = 9 \<or> d = 10
      \<or> d = 11 \<or> d = 12 \<or> d = 13 \<or> d = 14 \<or> d = 15" by presburger
  ultimately show ?thesis by auto
qed

lemma unescape_json_escape:
  assumes "escaped c"
  shows "unescape (json_escape c @ r) = of_char c"
proof -
  have "(of_char c :: nat) < 32 \<Longrightarrow> 16 * hex_value (hex_digit (of_char c div 16)) + hex_value (hex_digit (of_char c mod 16))
      = of_char c"
    by (subst hex_value_digit; (subst hex_value_digit)?; simp)
  with assms show ?thesis
    by (auto simp: escaped_def json_escape_def unescape_def Let_def)
qed

lemma json_escape_prefix_free:
  assumes "json_escape c @ r = json_escape d @ r'"
  shows "c = d \<and> r = r'"
proof -
  have "c = d"
  proof (cases "escaped c"; cases "escaped d")
    assume c: "escaped c" and d: "escaped d"
    from unescape_json_escape [OF c, of r] unescape_json_escape [OF d, of r'] assms
    show ?thesis by (metis of_char_eq_iff)
  next
    assume c: "escaped c" and d: "\<not> escaped d"
    from json_escape_special [OF c] json_escape_plain [OF d] assms have "d = CHR 0x5C" by auto
    with d show ?thesis by (simp add: escaped_def)
  next
    assume c: "\<not> escaped c" and d: "escaped d"
    from json_escape_special [OF d] json_escape_plain [OF c] assms have "c = CHR 0x5C" by auto
    with c show ?thesis by (simp add: escaped_def)
  next
    assume "\<not> escaped c" "\<not> escaped d"
    with assms show ?thesis by (simp add: json_escape_plain)
  qed
  with assms show ?thesis by simp
qed

lemma json_escape_not_quote: "json_escape c @ r \<noteq> CHR 0x22 # r'"
proof (cases "escaped c")
  case True
  from json_escape_special [OF this] show ?thesis by auto
next
  case False
  then have "c \<noteq> CHR 0x22" by (auto simp: escaped_def)
  with False show ?thesis by (simp add: json_escape_plain)
qed

lemma json_string_body_prefix_free:
  "concat (map json_escape s) @ CHR 0x22 # r = concat (map json_escape t) @ CHR 0x22 # r' \<Longrightarrow> s = t \<and> r = r'"
proof (induction s arbitrary: t)
  case Nil
  then show ?case
    using json_escape_not_quote by (cases t) (auto, metis)
next
  case (Cons c s)
  show ?case
  proof (cases t)
    case Nil
    with Cons.prems json_escape_not_quote show ?thesis by simp
  next
    case (Cons d t')
    with Cons.prems json_escape_prefix_free [of c _ d] have "c = d"
      "concat (map json_escape s) @ CHR 0x22 # r = concat (map json_escape t') @ CHR 0x22 # r'" by auto
    with Cons.IH Cons show ?thesis by blast
  qed
qed

lemma json_string_prefix_free: "json_string s @ r = json_string t @ r' \<longleftrightarrow> s = t \<and> r = r'"
  using json_string_body_prefix_free [of s r t r'] by (auto simp: json_string_def)

lemma json_string_Cons: "\<exists>b. json_string s = CHR 0x22 # b"
  by (simp add: json_string_def)

lemma json_elements_prefix_free:
  "js_join '','' (map json_string xs) @ '']'' @ r = js_join '','' (map json_string ys) @ '']'' @ r' \<Longrightarrow>
   xs = ys \<and> r = r'"
proof (induction xs arbitrary: ys)
  case Nil
  then show ?case
    by (cases ys rule: js_join.cases [of "('','', _)", simplified])
      (auto simp: json_string_def)
next
  case (Cons x xs)
  then obtain y ys' where ys: "ys = y # ys'"
    by (cases ys; cases xs) (auto simp: json_string_def)
  show ?case
  proof (cases xs)
    case Nil
    with Cons.prems ys show ?thesis
      by (cases ys') (auto simp: json_string_prefix_free)
  next
    case (Cons x2 xs2)
    note xs = this
    with Cons.prems ys obtain y2 ys2 where ys': "ys' = y2 # ys2"
      by (cases ys') (auto simp: json_string_prefix_free)
    from Cons.prems ys ys' xs have "x = y"
      "js_join '','' (map json_string xs) @ '']'' @ r = js_join '','' (map json_string ys') @ '']'' @ r'"
      by (auto simp: json_string_prefix_free)
    with Cons.IH ys show ?thesis by blast
  qed
qed

lemma json_string_array_prefix_free:
  "json_string_array xs @ r = json_string_array ys @ r' \<longleftrightarrow> xs = ys \<and> r = r'"
  using json_elements_prefix_free [of xs r ys r'] by (auto simp: json_string_array_def)

lemma digits_prefix_free:
  assumes "list_all is_digit xs" "list_all is_digit ys" "\<not> is_digit c" "\<not> is_digit d"
    and "xs @ c # r = ys @ d # r'"
  shows "xs = ys \<and> c # r = d # r'"
  using assms by (induction xs arbitrary: ys) (auto simp: Cons_eq_append_conv append_eq_Cons_conv)

lemma show_int_prefix_free:
  assumes "\<not> is_digit c" "\<not> is_digit d"
  shows "show_int m @ c # r = show_int n @ d # r' \<longleftrightarrow> m = n \<and> c # r = d # r'"
proof
  assume eq: "show_int m @ c # r = show_int n @ d # r'"
  have hd: "is_digit (hd (show_nat k))" "show_nat k \<noteq> []" for k
    using show_nat_digits [of k] by (cases "show_nat k"; simp)+
  have nm: "\<not> (show_nat k @ s = CHR ''-'' # s')" for k s s'
    using hd [of k] by (cases "show_nat k") auto
  have sn: "j = k \<and> c # r = d # r'" if "show_nat j @ c # r = show_nat k @ d # r'" for j k
    using digits_prefix_free [OF show_nat_digits show_nat_digits assms that] by (simp add: show_nat_inj)
  show "m = n \<and> c # r = d # r'"
  proof (cases "m < 0"; cases "n < 0")
    assume "m < 0" "n < 0"
    with eq sn [of "nat (- m)" "nat (- n)"] have "nat (- m) = nat (- n)" "c # r = d # r'"
      by (simp_all add: show_int_def)
    with \<open>m < 0\<close> \<open>n < 0\<close> show ?thesis by linarith
  next
    assume "m < 0" "\<not> n < 0"
    with eq have "show_nat (nat n) @ d # r' = CHR ''-'' # show_nat (nat (- m)) @ c # r"
      by (simp add: show_int_def)
    with nm show ?thesis by blast
  next
    assume "\<not> m < 0" "n < 0"
    with eq have "show_nat (nat m) @ c # r = CHR ''-'' # show_nat (nat (- n)) @ d # r'"
      by (simp add: show_int_def)
    with nm show ?thesis by blast
  next
    assume "\<not> m < 0" "\<not> n < 0"
    with eq sn [of "nat m" "nat n"] have "nat m = nat n" "c # r = d # r'"
      by (simp_all add: show_int_def)
    with \<open>\<not> m < 0\<close> \<open>\<not> n < 0\<close> show ?thesis by linarith
  qed
qed auto

lemma show_int_inj [simp]: "show_int m = show_int n \<longleftrightarrow> m = n"
  using show_int_prefix_free [of "CHR ''.''" "CHR ''.''" m "[]" n "[]"] by auto

text \<open>Two payloads with the same content: lists compared as sets.\<close>

definition same_entitlement :: "snapshot_payload \<Rightarrow> snapshot_payload \<Rightarrow> bool" where
  "same_entitlement p q \<longleftrightarrow>
     sp_ownerSubject p = sp_ownerSubject q \<and> set (sp_roles p) = set (sp_roles q)
   \<and> set (sp_permissions p) = set (sp_permissions q)
   \<and> set (sp_capabilityAllowlist p) = set (sp_capabilityAllowlist q)
   \<and> sp_issuedAtEpochS p = sp_issuedAtEpochS q \<and> sp_expiresAtEpochS p = sp_expiresAtEpochS q"

lemma not_digit_separators [simp]: "\<not> is_digit (CHR '','')" "\<not> is_digit (CHR ''}'')"
  by (simp_all add: is_digit_def)

lemma snapshot_canonical_inj: "snapshot_canonical p = snapshot_canonical q \<longleftrightarrow> same_entitlement p q"
proof -
  have "snapshot_canonical p = snapshot_canonical q \<longleftrightarrow>
      sp_ownerSubject p = sp_ownerSubject q \<and> sortedUnique (sp_roles p) = sortedUnique (sp_roles q)
    \<and> sortedUnique (sp_permissions p) = sortedUnique (sp_permissions q)
    \<and> sortedUnique (sp_capabilityAllowlist p) = sortedUnique (sp_capabilityAllowlist q)
    \<and> sp_issuedAtEpochS p = sp_issuedAtEpochS q \<and> sp_expiresAtEpochS p = sp_expiresAtEpochS q"
    unfolding snapshot_canonical_def
    by (simp add: json_string_prefix_free json_string_array_prefix_free show_int_prefix_free)
  then show ?thesis by (simp add: same_entitlement_def sortedUnique_eq_iff)
qed

section \<open>Properties\<close>

text \<open>C34: The hash identifies an entitlement. The canonical form of two snapshots is the same exactly
  when they agree on owner, issue time, expiry and, as sets, on roles, permissions and
  capabilities; so the hash does not depend on order or duplicates, and any change to one of
  those fields either changes the hash or exhibits two different texts with the same SHA-256.\<close>

theorem snapshot_hash_identifies:
  "(same_entitlement p q \<longrightarrow> computeSnapshotHash sha256 p = computeSnapshotHash sha256 q)
   \<and> (computeSnapshotHash sha256 p = computeSnapshotHash sha256 q \<and> \<not> same_entitlement p q \<longrightarrow>
        snapshot_canonical p \<noteq> snapshot_canonical q
        \<and> sha256 (snapshot_canonical p) = sha256 (snapshot_canonical q))"
  by (auto simp: computeSnapshotHash_def snapshot_canonical_inj [symmetric])

theorem snapshot_hash_identifies_witness:
  "computeSnapshotHash (\<lambda>s. s)
     \<lparr>sp_ownerSubject = ''u'', sp_roles = [''b'', ''a'', ''b''], sp_permissions = [], sp_capabilityAllowlist = [],
      sp_issuedAtEpochS = 1, sp_expiresAtEpochS = 2\<rparr>
   = computeSnapshotHash (\<lambda>s. s)
     \<lparr>sp_ownerSubject = ''u'', sp_roles = [''a'', ''b''], sp_permissions = [], sp_capabilityAllowlist = [],
      sp_issuedAtEpochS = 1, sp_expiresAtEpochS = 2\<rparr>"
  using snapshot_hash_identifies
    [of "\<lparr>sp_ownerSubject = ''u'', sp_roles = [''b'', ''a'', ''b''], sp_permissions = [],
          sp_capabilityAllowlist = [], sp_issuedAtEpochS = 1, sp_expiresAtEpochS = 2\<rparr>"
        "\<lparr>sp_ownerSubject = ''u'', sp_roles = [''a'', ''b''], sp_permissions = [],
          sp_capabilityAllowlist = [], sp_issuedAtEpochS = 1, sp_expiresAtEpochS = 2\<rparr>" "\<lambda>s. s"]
  by (simp add: same_entitlement_def insert_commute)

end
