(* ===== verification/Agent_Runs.thy ===== *)
theory Agent_Runs
  imports Chat Snapshot
begin

text \<open>
  Agent runs: the \<open>postgres-agents\<close> tables (\<open>packages/database/src/agents\<close>), their repository
  (\<open>api/src/modules/agent-runs/agent-run.repository.ts\<close>), the service
  (\<open>agent-run.service.ts\<close>) and its transfer objects (\<open>agent-run.dto.ts\<close>). The service works on
  two databases that share no transaction; the orchestrator client is a parameter that acts on a
  state of its own.
\<close>

section \<open>Tables\<close>

datatype run_status =
  Queued | Accepted | Planning | Running | WaitingForAgent | WaitingForTool | WaitingForInput
| Retrying | PartiallyCompleted | Completed | Failed | Canceled | Expired

definition TERMINAL_AGENT_RUN_STATUSES :: "run_status list" where
  "TERMINAL_AGENT_RUN_STATUSES = [Completed, Failed, Canceled, Expired]"

datatype event_visibility = VisibleUser | VisibleInternal | VisibleSecurity

record agent_run =
  ar_id :: string
  ar_ownerSubject :: string
  ar_ownerUserId :: string
  ar_conversationId :: "string option"
  ar_status :: run_status
  ar_promptRef :: string
  ar_responseRef :: "string option"
  ar_entitlementSnapshotId :: string
  ar_idempotencyKey :: string
  ar_cancelRequested :: bool
  ar_expiresAt :: "int option"
  ar_createdAt :: int

record agent_run_event =
  ev_id :: string
  ev_runId :: string
  ev_sequence :: int
  ev_type :: string
  ev_payload :: json
  ev_visibility :: event_visibility
  ev_createdAt :: int

record run_entitlement = entitlement_snapshot +
  en_id :: string

datatype audit_decision = Allow | Deny

record tool_audit =
  ta_runId :: string
  ta_ownerSubject :: string
  ta_actor :: string
  ta_action :: string
  ta_capability :: "string option"
  ta_decision :: audit_decision
  ta_reason :: "string option"
  ta_correlationId :: "string option"

record agents_db =
  ag_runs :: "agent_run list"
  ag_events :: "agent_run_event list"
  ag_entitlements :: "run_entitlement list"
  ag_audit :: "tool_audit list"

definition agents_db_ok :: "agents_db \<Rightarrow> bool" where
  "agents_db_ok db \<longleftrightarrow>
     distinct (map ar_id (ag_runs db))
   \<and> distinct (map (\<lambda>r. (ar_ownerSubject r, ar_idempotencyKey r)) (ag_runs db))
   \<and> distinct (map en_id (ag_entitlements db))
   \<and> distinct (map ev_id (ag_events db))
   \<and> distinct (map (\<lambda>e. (ev_runId e, ev_sequence e)) (ag_events db))
   \<and> list_all (\<lambda>r. ar_entitlementSnapshotId r \<in> set (map en_id (ag_entitlements db))) (ag_runs db)
   \<and> list_all (\<lambda>e. ev_runId e \<in> set (map ar_id (ag_runs db))) (ag_events db)"

definition agents_statement :: "(agents_db \<Rightarrow> agents_db) \<Rightarrow> (agents_db, unit) op" where
  "agents_statement f = checked_update (\<lambda>db. agents_db_ok (f db)) f"

section \<open>The repository\<close>

definition USER_EVENT_PAGE_SIZE :: nat where
  "USER_EVENT_PAGE_SIZE = 200"

record create_run_data =
  crd_ownerSubject :: string
  crd_ownerUserId :: string
  crd_conversationId :: "string option"
  crd_promptRef :: string
  crd_idempotencyKey :: string
  crd_snapshot :: entitlement_snapshot

definition run_create ::
  "(agents_db \<Rightarrow> string) \<Rightarrow> int \<Rightarrow> create_run_data \<Rightarrow> (agents_db, agent_run) op" where
  "run_create gen now d = transactionM
     (bindM (getM gen) (\<lambda>eid.
      thenM (agents_statement (\<lambda>db. db\<lparr>ag_entitlements := ag_entitlements db @
        [entitlement_snapshot.extend (crd_snapshot d) \<lparr>en_id = eid\<rparr>]\<rparr>))
      (bindM (getM gen) (\<lambda>i.
       let run = \<lparr>ar_id = i, ar_ownerSubject = crd_ownerSubject d, ar_ownerUserId = crd_ownerUserId d,
             ar_conversationId = crd_conversationId d, ar_status = Queued, ar_promptRef = crd_promptRef d,
             ar_responseRef = None, ar_entitlementSnapshotId = eid, ar_idempotencyKey = crd_idempotencyKey d,
             ar_cancelRequested = False, ar_expiresAt = Some (es_expiresAt (crd_snapshot d)), ar_createdAt = now\<rparr>
       in thenM (agents_statement (\<lambda>db. db\<lparr>ag_runs := ag_runs db @ [run]\<rparr>)) (returnM run)))))"

definition findByIdForOwner :: "string \<Rightarrow> string \<Rightarrow> agents_db \<Rightarrow> agent_run option" where
  "findByIdForOwner runId ownerSubject db =
     find (\<lambda>r. ar_id r = runId \<and> ar_ownerSubject r = ownerSubject) (ag_runs db)"

definition findRunWithEntitlement :: "string \<Rightarrow> agents_db \<Rightarrow> (agent_run \<times> run_entitlement) option" where
  "findRunWithEntitlement runId db =
     (case find (\<lambda>r. ar_id r = runId) (ag_runs db) of
        None \<Rightarrow> None
      | Some run \<Rightarrow>
          (case find (\<lambda>e. en_id e = ar_entitlementSnapshotId run) (ag_entitlements db) of
             None \<Rightarrow> None
           | Some entitlement \<Rightarrow> Some (run, entitlement)))"

definition setResponseRef :: "string \<Rightarrow> string \<Rightarrow> (agents_db, unit) op" where
  "setResponseRef runId responseRef = agents_statement (\<lambda>db. db\<lparr>ag_runs :=
     patch_rows ar_id runId (\<lambda>r. r\<lparr>ar_responseRef := Some responseRef\<rparr>) (ag_runs db)\<rparr>)"

definition recordToolAudit :: "tool_audit \<Rightarrow> (agents_db, unit) op" where
  "recordToolAudit a = agents_statement (\<lambda>db. db\<lparr>ag_audit := ag_audit db @ [a]\<rparr>)"

definition findByOwnerAndIdempotencyKey :: "string \<Rightarrow> string \<Rightarrow> agents_db \<Rightarrow> agent_run option" where
  "findByOwnerAndIdempotencyKey ownerSubject idempotencyKey db =
     find (\<lambda>r. ar_ownerSubject r = ownerSubject \<and> ar_idempotencyKey r = idempotencyKey) (ag_runs db)"

definition listForOwnerAndConversation :: "string \<Rightarrow> string \<Rightarrow> agents_db \<Rightarrow> agent_run list" where
  "listForOwnerAndConversation ownerSubject conversationId db =
     sort_key ar_createdAt
       (filter (\<lambda>r. ar_ownerSubject r = ownerSubject \<and> ar_conversationId r = Some conversationId) (ag_runs db))"

definition visible_events :: "string \<Rightarrow> bool \<Rightarrow> agents_db \<Rightarrow> agent_run_event list" where
  "visible_events runId includeNonUser db =
     filter (\<lambda>e. ev_runId e = runId \<and> (includeNonUser \<or> ev_visibility e = VisibleUser)) (ag_events db)"

definition listUserEventsAfter ::
  "string \<Rightarrow> bool \<Rightarrow> agents_db \<Rightarrow> int \<Rightarrow> nat \<Rightarrow> agent_run_event list" where
  "listUserEventsAfter runId includeNonUser db afterSequence limit =
     take limit (sort_key ev_sequence
       (filter (\<lambda>e. ev_sequence e > afterSequence) (visible_events runId includeNonUser db)))"

text \<open>The loop over pages; for an arbitrary source of pages it need not end.\<close>

partial_function (option) collect_pages ::
  "nat \<Rightarrow> (int \<Rightarrow> nat \<Rightarrow> 'e list) \<Rightarrow> ('e \<Rightarrow> int) \<Rightarrow> int \<Rightarrow> 'e list option" where
  "collect_pages k fetch seq afterSequence =
     (let batch = fetch afterSequence k
      in if batch = [] then Some []
         else if length batch < k then Some batch
         else Option.bind (collect_pages k fetch seq (seq (last batch))) (\<lambda>rest. Some (batch @ rest)))"

definition listAllUserEvents :: "string \<Rightarrow> bool \<Rightarrow> agents_db \<Rightarrow> agent_run_event list option" where
  "listAllUserEvents runId includeNonUser db =
     collect_pages USER_EVENT_PAGE_SIZE (listUserEventsAfter runId includeNonUser db) ev_sequence 0"

definition requestCancel :: "agent_run \<Rightarrow> (agents_db, agent_run) op" where
  "requestCancel run =
     (if ar_status run \<in> set TERMINAL_AGENT_RUN_STATUSES \<or> ar_cancelRequested run then returnM run
      else thenM (agents_statement (\<lambda>db. db\<lparr>ag_runs :=
              patch_rows ar_id (ar_id run) (\<lambda>r. r\<lparr>ar_cancelRequested := True\<rparr>) (ag_runs db)\<rparr>))
             (returnM (run\<lparr>ar_cancelRequested := True\<rparr>)))"

section \<open>Transfer objects\<close>

record agent_run_dto =
  ard_runId :: string
  ard_status :: run_status
  ard_conversationId :: "string option"
  ard_cancelRequested :: bool
  ard_finalResponse :: "string option"
  ard_responseMessageId :: "string option"
  ard_eventsUrl :: string
  ard_createdAt :: int
  ard_expiresAt :: "int option"

definition eventsUrlFor :: "string \<Rightarrow> string" where
  "eventsUrlFor runId = ''/api/v1/agent-runs/'' @ runId @ ''/events''"

definition responseMessageIdFrom :: "string option \<Rightarrow> string option" where
  "responseMessageIdFrom responseRef =
     (case some_id responseRef of
        None \<Rightarrow> None
      | Some r \<Rightarrow> (let messageId = last (js_split (CHR ''/'') r)
                   in if messageId \<noteq> [] then Some messageId else None))"

definition toAgentRunDto :: "agent_run \<Rightarrow> agent_run_dto" where
  "toAgentRunDto run =
     \<lparr>ard_runId = ar_id run, ard_status = ar_status run, ard_conversationId = ar_conversationId run,
      ard_cancelRequested = ar_cancelRequested run, ard_finalResponse = None,
      ard_responseMessageId = responseMessageIdFrom (ar_responseRef run),
      ard_eventsUrl = eventsUrlFor (ar_id run), ard_createdAt = ar_createdAt run,
      ard_expiresAt = ar_expiresAt run\<rparr>"

record agent_run_event_dto =
  evd_id :: string
  evd_sequence :: int
  evd_type :: string
  evd_payload :: json
  evd_createdAt :: int

definition toAgentRunEventDto :: "agent_run_event \<Rightarrow> agent_run_event_dto" where
  "toAgentRunEventDto e =
     \<lparr>evd_id = ev_id e, evd_sequence = ev_sequence e, evd_type = ev_type e, evd_payload = ev_payload e,
      evd_createdAt = ev_createdAt e\<rparr>"

section \<open>The service\<close>

text \<open>The two databases and the state of the orchestrator client.\<close>

record ('z, 'o) platform =
  pf_nova :: "'z nova_db_scheme"
  pf_agents :: agents_db
  pf_orchestrator :: 'o

definition on_nova :: "('e, 'z nova_db_scheme, 'a) eop \<Rightarrow> ('e, ('z, 'o) platform, 'a) eop" where
  "on_nova m = (\<lambda>p. case m (pf_nova p) of (r, db) \<Rightarrow> (r, p\<lparr>pf_nova := db\<rparr>))"

definition on_agents :: "('e, agents_db, 'a) eop \<Rightarrow> ('e, ('z, 'o) platform, 'a) eop" where
  "on_agents m = (\<lambda>p. case m (pf_agents p) of (r, db) \<Rightarrow> (r, p\<lparr>pf_agents := db\<rparr>))"

definition on_orchestrator :: "('e, 'o, 'a) eop \<Rightarrow> ('e, ('z, 'o) platform, 'a) eop" where
  "on_orchestrator m = (\<lambda>p. case m (pf_orchestrator p) of (r, s) \<Rightarrow> (r, p\<lparr>pf_orchestrator := s\<rparr>))"

lemma on_nova_apply [op_simps, code]:
  "on_nova m p = (case m (pf_nova p) of (r, db) \<Rightarrow> (r, p\<lparr>pf_nova := db\<rparr>))"
  by (simp add: on_nova_def)

lemma on_agents_apply [op_simps, code]:
  "on_agents m p = (case m (pf_agents p) of (r, db) \<Rightarrow> (r, p\<lparr>pf_agents := db\<rparr>))"
  by (simp add: on_agents_def)

lemma on_orchestrator_apply [op_simps, code]:
  "on_orchestrator m p = (case m (pf_orchestrator p) of (r, s) \<Rightarrow> (r, p\<lparr>pf_orchestrator := s\<rparr>))"
  by (simp add: on_orchestrator_def)

lemma agents_statement_apply [op_simps, code]:
  "agents_statement f d = (if agents_db_ok (f d) then (Inr (), f d) else (Inl db_query_failed, d))"
  by (simp add: agents_statement_def op_simps)

record enqueue_run_payload =
  eq_runId :: string
  eq_requestId :: string
  eq_idempotencyKey :: string
  eq_actingSubject :: string
  eq_entitlementSnapshotId :: string
  eq_entitlementSnapshotHash :: string

text \<open>What a request draws from its environment: identifiers of both databases, the clock, SHA-256,
  the active registry, the configured lifetime, a random request identifier and the client.\<close>

record ('z, 'o) run_env =
  re_genNova :: "'z nova_db_scheme \<Rightarrow> string"
  re_genAgents :: "agents_db \<Rightarrow> string"
  re_now :: int
  re_sha256 :: "string \<Rightarrow> string"
  re_registry :: rbac_registry
  re_runTtlSeconds :: int
  re_uuid :: string
  re_orchestrator :: "(enqueue_run_payload \<Rightarrow> ('o, unit) op) option"

record create_run_input =
  cri_message :: string
  cri_conversationId :: "string option"
  cri_auth :: auth_context
  cri_idempotencyKey :: string
  cri_requestId :: string

definition enqueue_payload :: "('z, 'o) run_env \<Rightarrow> agent_run \<Rightarrow> string \<Rightarrow> string \<Rightarrow> enqueue_run_payload" where
  "enqueue_payload env run requestId snapshotHash =
     \<lparr>eq_runId = ar_id run, eq_requestId = (if requestId = [] then re_uuid env else requestId),
      eq_idempotencyKey = ar_idempotencyKey run, eq_actingSubject = ar_ownerSubject run,
      eq_entitlementSnapshotId = ar_entitlementSnapshotId run, eq_entitlementSnapshotHash = snapshotHash\<rparr>"

definition enqueue ::
  "('z, 'o) run_env \<Rightarrow> agent_run \<Rightarrow> string \<Rightarrow> string \<Rightarrow> (('z, 'o) platform, unit) op" where
  "enqueue env run requestId snapshotHash =
     (case re_orchestrator env of
        None \<Rightarrow> returnM ()
      | Some enqueueRun \<Rightarrow>
          catchM (on_orchestrator (enqueueRun (enqueue_payload env run requestId snapshotHash)))
            (\<lambda>_. returnM ()))"

definition nova_ref :: "string \<Rightarrow> string \<Rightarrow> string" where
  "nova_ref conversationId messageId = ''nova-msg://'' @ conversationId @ ''/'' @ messageId"

definition submit_message ::
  "('z, 'o) run_env \<Rightarrow> create_run_input \<Rightarrow> string \<Rightarrow> ('z nova_db_scheme, conversation \<times> message) op" where
  "submit_message env input userId =
     bindM (case some_id (cri_conversationId input) of
              Some i \<Rightarrow> getM (\<lambda>db. map_option fst (findForUser i userId db))
            | None \<Rightarrow> bindM (conversation_create (re_genNova env) (re_now env) userId) (\<lambda>c. returnM (Some c)))
       (\<lambda>found. bindM (someM found (not_found_error ''Conversation not found.'')) (\<lambda>conversation.
        bindM (addMessage (re_genNova env)
          \<lparr>cmd_conversationId = cv_convId conversation, cmd_role = RoleUser, cmd_text = cri_message input,
           cmd_isMCPApps = False, cmd_MCPAppLink = None, cmd_MCPActive = None,
           cmd_createdDate = re_now env\<rparr>) (\<lambda>message. returnM (conversation, message))))"

definition createRun ::
  "('z, 'o) run_env \<Rightarrow> create_run_input \<Rightarrow> (('z, 'o) platform, agent_run_dto) op" where
  "createRun env input =
     bindM (on_nova (resolveCurrentUser (re_genNova env) (re_now env) (cri_auth input))) (\<lambda>(user, roles).
     let ownerSubject = ac_subject (cri_auth input) in
     bindM (getM (\<lambda>p. findByOwnerAndIdempotencyKey ownerSubject (cri_idempotencyKey input) (pf_agents p))) (\<lambda>existing.
     case existing of
       Some run \<Rightarrow> returnM (toAgentRunDto run)
     | None \<Rightarrow>
         bindM (on_nova (submit_message env input (us_id user))) (\<lambda>(conversation, message).
         let snapshot = buildEntitlementSnapshot (re_sha256 env) ownerSubject (us_id user)
               (ac_roles (cri_auth input)) (ac_permissions (cri_auth input))
               (capabilityAllowlist (re_registry env)) (re_runTtlSeconds env) (re_now env) in
         bindM (on_agents (run_create (re_genAgents env) (re_now env)
           \<lparr>crd_ownerSubject = ownerSubject, crd_ownerUserId = us_id user,
            crd_conversationId = Some (cv_convId conversation),
            crd_promptRef = nova_ref (cv_convId conversation) (ms_id message),
            crd_idempotencyKey = cri_idempotencyKey input, crd_snapshot = snapshot\<rparr>)) (\<lambda>run.
         thenM (enqueue env run (cri_requestId input) (es_snapshotHash snapshot))
           (returnM (toAgentRunDto run))))))"

definition requireOwnedRun :: "string \<Rightarrow> auth_context \<Rightarrow> (('z, 'o) platform, agent_run) op" where
  "requireOwnedRun runId auth =
     thenM (guardM (ac_subject auth \<noteq> []) (validation_error ''Token is missing a subject.''))
     (bindM (getM (\<lambda>p. findByIdForOwner runId (ac_subject auth) (pf_agents p)))
       (\<lambda>run. someM run (not_found_error ''Agent run not found.'')))"

definition getRun :: "string \<Rightarrow> auth_context \<Rightarrow> (('z, 'o) platform, agent_run_dto) op" where
  "getRun runId auth = bindM (requireOwnedRun runId auth) (\<lambda>run. returnM (toAgentRunDto run))"

definition cancelRun :: "string \<Rightarrow> auth_context \<Rightarrow> (('z, 'o) platform, agent_run_dto) op" where
  "cancelRun runId auth = bindM (requireOwnedRun runId auth)
     (\<lambda>run. bindM (on_agents (requestCancel run)) (\<lambda>updated. returnM (toAgentRunDto updated)))"

definition MAX_EVENT_BATCH :: nat where
  "MAX_EVENT_BATCH = 200"

definition getEventBatch ::
  "string \<Rightarrow> int \<Rightarrow> auth_context \<Rightarrow> bool \<Rightarrow> (('z, 'o) platform, agent_run \<times> agent_run_event_dto list) op" where
  "getEventBatch runId afterSequence auth detailed = bindM (requireOwnedRun runId auth) (\<lambda>run.
     getM (\<lambda>p. (run, map toAgentRunEventDto
       (listUserEventsAfter runId detailed (pf_agents p) afterSequence MAX_EVENT_BATCH))))"

definition listRunsForConversation ::
  "string \<Rightarrow> auth_context \<Rightarrow> (('z, 'o) platform, agent_run_dto list) op" where
  "listRunsForConversation conversationId auth =
     thenM (guardM (ac_subject auth \<noteq> []) (validation_error ''Token is missing a subject.''))
     (getM (\<lambda>p. map toAgentRunDto (listForOwnerAndConversation (ac_subject auth) conversationId (pf_agents p))))"

text \<open>The answer is \<open>None\<close> where the paging loop would not end.\<close>

definition getRunTrace ::
  "string \<Rightarrow> auth_context \<Rightarrow> bool \<Rightarrow> (('z, 'o) platform, (agent_run \<times> agent_run_event_dto list) option) op" where
  "getRunTrace runId auth detailed = bindM (requireOwnedRun runId auth) (\<lambda>run.
     getM (\<lambda>p. map_option (\<lambda>events. (run, map toAgentRunEventDto events))
       (listAllUserEvents runId detailed (pf_agents p))))"

section \<open>Reading a log in pages\<close>

text \<open>The contract of a paged, resumable log: \<open>fetch s a k\<close> is the first \<open>k\<close> entries after position
  \<open>a\<close> of a log that strictly increases in position.\<close>

locale event_source =
  fixes inv :: "'s \<Rightarrow> bool"
    and visible :: "'s \<Rightarrow> 'e list"
    and fetch :: "'s \<Rightarrow> int \<Rightarrow> nat \<Rightarrow> 'e list"
    and seq :: "'e \<Rightarrow> int"
  assumes strict: "inv s \<Longrightarrow> sorted_wrt (\<lambda>x y. seq x < seq y) (visible s)"
    and fetch_eq: "inv s \<Longrightarrow> fetch s a k = take k (filter (\<lambda>e. a < seq e) (visible s))"
begin

lemma after_sorted: "inv s \<Longrightarrow> sorted_wrt (\<lambda>x y. seq x < seq y) (filter (\<lambda>e. a < seq e) (visible s))"
  by (simp add: strict sorted_wrt_filter)

lemma resume:
  assumes "inv s" and "fetch s a k \<noteq> []"
  shows "filter (\<lambda>e. seq (last (fetch s a k)) < seq e) (visible s)
    = drop k (filter (\<lambda>e. a < seq e) (visible s))"
proof -
  let ?xs = "filter (\<lambda>e. a < seq e) (visible s)"
  have b: "fetch s a k = take k ?xs" using assms(1) by (rule fetch_eq)
  have ne: "take k ?xs \<noteq> []" using assms by (simp add: fetch_eq)
  have "a < seq (last (take k ?xs))" using last_in_set [OF ne] by (auto dest: in_set_takeD)
  then have "filter (\<lambda>e. seq (last (take k ?xs)) < seq e) (visible s)
      = filter (\<lambda>e. seq (last (take k ?xs)) < seq e) ?xs"
    by (auto intro: filter_cong)
  also have "\<dots> = drop k ?xs" by (rule drop_after [OF after_sorted [OF assms(1)] ne])
  finally show ?thesis by (simp add: b)
qed

lemma pages_all:
  assumes "inv s" and "0 < k"
  shows "collect_pages k (fetch s) seq a = Some (filter (\<lambda>e. a < seq e) (visible s))"
proof (induction "length (filter (\<lambda>e. a < seq e) (visible s))" arbitrary: a rule: less_induct)
  case less
  let ?xs = "filter (\<lambda>e. a < seq e) (visible s)"
  let ?b = "fetch s a k"
  have b: "?b = take k ?xs" using assms(1) by (rule fetch_eq)
  consider "?xs = []" | "?xs \<noteq> []" "length ?xs < k" | "?xs \<noteq> []" "k \<le> length ?xs" by linarith
  then show ?case
  proof cases
    case 1
    then show ?thesis by (subst collect_pages.simps) (simp add: b)
  next
    case 2
    then show ?thesis using assms(2) by (subst collect_pages.simps) (simp add: b)
  next
    case 3
    have ne: "?b \<noteq> []" using 3 assms(2) by (simp add: b)
    note r = resume [OF assms(1) ne]
    have "length (filter (\<lambda>e. seq (last ?b) < seq e) (visible s)) < length ?xs"
      unfolding r using 3 assms(2) by simp
    from less.hyps [OF this] have
      "collect_pages k (fetch s) seq (seq (last ?b)) = Some (drop k ?xs)" by (simp add: r)
    moreover have "\<not> length ?b < k" using 3 by (simp add: b)
    ultimately show ?thesis
      using ne by (subst collect_pages.simps) (simp add: Let_def, simp add: b)
  qed
qed

end

definition event_log :: "string \<Rightarrow> bool \<Rightarrow> agents_db \<Rightarrow> agent_run_event list" where
  "event_log runId includeNonUser db = sort_key ev_sequence (visible_events runId includeNonUser db)"

lemma event_log_strict:
  assumes "agents_db_ok db"
  shows "sorted_wrt (\<lambda>x y. ev_sequence x < ev_sequence y) (event_log runId d db)"
proof -
  have "distinct (map (\<lambda>e. (ev_runId e, ev_sequence e)) (visible_events runId d db))"
    using assms distinct_map_filter by (fastforce simp: agents_db_ok_def visible_events_def)
  then have "distinct (map ev_sequence (visible_events runId d db))"
    by (auto simp: distinct_map inj_on_def visible_events_def)
  then have "distinct (map ev_sequence (event_log runId d db))"
    by (simp add: event_log_def distinct_map)
  moreover have "sorted (map ev_sequence (event_log runId d db))" by (simp add: event_log_def)
  ultimately have "sorted_wrt (<) (map ev_sequence (event_log runId d db))"
    by (simp add: strict_sorted_iff)
  then show ?thesis by (simp add: sorted_wrt_map)
qed

interpretation runlog: event_source agents_db_ok "event_log runId d" "listUserEventsAfter runId d" ev_sequence
  for runId d
  by unfold_locales
    (simp_all add: event_log_strict, simp add: listUserEventsAfter_def event_log_def filter_sort)

text \<open>C39: The full trace of a run is complete and its paging loop ends. For every database that
  satisfies the constraints the loop returns, and what it returns is every event of the run at
  position one or later that the caller may see, in order, however many pages that takes; without
  the opt-in it is events of user visibility only.\<close>

theorem listAllUserEvents_complete:
  assumes "agents_db_ok db"
  shows "\<exists>events. listAllUserEvents runId d db = Some events
    \<and> sorted_wrt (\<lambda>x y. ev_sequence x < ev_sequence y) events
    \<and> set events = {e \<in> set (ag_events db). ev_runId e = runId \<and> 0 < ev_sequence e
         \<and> (d \<or> ev_visibility e = VisibleUser)}"
proof -
  have "listAllUserEvents runId d db = Some (filter (\<lambda>e. 0 < ev_sequence e) (event_log runId d db))"
    unfolding listAllUserEvents_def
    by (rule runlog.pages_all [OF assms]) (simp add: USER_EVENT_PAGE_SIZE_def)
  with runlog.after_sorted [OF assms, of 0 runId d] show ?thesis
    by (auto simp: event_log_def visible_events_def)
qed

section \<open>Ownership\<close>

lemma requireOwnedRun_cases:
  "requireOwnedRun runId auth p =
     (if ac_subject auth = [] then Inl (validation_error ''Token is missing a subject.'')
      else case findByIdForOwner runId (ac_subject auth) (pf_agents p) of
          None \<Rightarrow> Inl (not_found_error ''Agent run not found.'')
        | Some run \<Rightarrow> Inr run, p)"
  by (simp add: requireOwnedRun_def op_simps split: option.split)

lemma findByIdForOwner_foreign:
  assumes "agents_db_ok db" "r \<in> set (ag_runs db)" "ar_ownerSubject r \<noteq> u"
  shows "findByIdForOwner (ar_id r) u db = None"
  using assms by (auto simp: findByIdForOwner_def find_None_iff_all agents_db_ok_def distinct_map dest: inj_onD)

lemma findByIdForOwner_unknown: "runId \<notin> ar_id ` set (ag_runs db) \<Longrightarrow> findByIdForOwner runId u db = None"
  by (auto simp: findByIdForOwner_def find_None_iff_all)

text \<open>C8: A run is invisible to everyone but its owner. For a run of another subject, every operation
  that takes a run identifier (status, cancellation, event batch, trace) changes nothing and
  answers exactly what it answers for an identifier that does not exist, so probing cannot tell
  the two apart; the list of a conversation's runs holds the caller's own runs only.\<close>

theorem runs_invisible_to_others:
  assumes "agents_db_ok (pf_agents p)" and "r \<in> set (ag_runs (pf_agents p))"
    and "ar_ownerSubject r \<noteq> ac_subject auth" and "x \<notin> ar_id ` set (ag_runs (pf_agents p))"
  shows "getRun (ar_id r) auth p = getRun x auth p \<and> snd (getRun (ar_id r) auth p) = p
    \<and> cancelRun (ar_id r) auth p = cancelRun x auth p \<and> snd (cancelRun (ar_id r) auth p) = p
    \<and> getEventBatch (ar_id r) n auth d p = getEventBatch x n auth d p
    \<and> getRunTrace (ar_id r) auth d p = getRunTrace x auth d p
    \<and> (\<exists>e. getRun x auth p = (Inl e, p))
    \<and> (\<forall>c dtos. listRunsForConversation c auth p = (Inr dtos, p) \<longrightarrow>
          ard_runId ` set dtos \<subseteq> ar_id ` {q \<in> set (ag_runs (pf_agents p)). ar_ownerSubject q = ac_subject auth})"
proof -
  have "findByIdForOwner (ar_id r) (ac_subject auth) (pf_agents p) = None"
    by (rule findByIdForOwner_foreign [OF assms(1-3)])
  moreover have "findByIdForOwner x (ac_subject auth) (pf_agents p) = None"
    by (rule findByIdForOwner_unknown [OF assms(4)])
  ultimately show ?thesis
    by (auto simp: getRun_def cancelRun_def getEventBatch_def getRunTrace_def requireOwnedRun_cases
        op_simps listRunsForConversation_def listForOwnerAndConversation_def toAgentRunDto_def
        split: if_splits)
qed

section \<open>Cancellation\<close>

text \<open>Cancellation is cooperative and idempotent. Of a run in a terminal status nothing changes;
  otherwise the only change is that the run's flag is set, its status and every other run stay as
  they were, and a second request changes nothing and gives the same answer.\<close>

theorem cancelRun_idempotent:
  assumes "agents_db_ok (pf_agents p)" and "cancelRun runId auth p = (Inr dto, p')"
  shows "cancelRun runId auth p' = (Inr dto, p')
    \<and> (\<exists>run. findByIdForOwner runId (ac_subject auth) (pf_agents p) = Some run
        \<and> ard_status dto = ar_status run
        \<and> (if ar_status run \<in> set TERMINAL_AGENT_RUN_STATUSES then p' = p
           else ard_cancelRequested dto \<and> p' = p\<lparr>pf_agents := (pf_agents p)\<lparr>ag_runs :=
              patch_rows ar_id runId (\<lambda>r. r\<lparr>ar_cancelRequested := True\<rparr>) (ag_runs (pf_agents p))\<rparr>\<rparr>))"
proof -
  from assms(2) obtain run where run: "findByIdForOwner runId (ac_subject auth) (pf_agents p) = Some run"
      and subj: "ac_subject auth \<noteq> []"
    by (auto simp: cancelRun_def requireOwnedRun_cases op_simps split: if_splits option.splits)
  then have id: "ar_id run = runId" "run \<in> set (ag_runs (pf_agents p))" "ar_ownerSubject run = ac_subject auth"
    by (auto simp: findByIdForOwner_def dest: find_SomeD)
  let ?rows = "patch_rows ar_id runId (\<lambda>r. r\<lparr>ar_cancelRequested := True\<rparr>) (ag_runs (pf_agents p))"
  let ?p = "p\<lparr>pf_agents := (pf_agents p)\<lparr>ag_runs := ?rows\<rparr>\<rparr>"
  have found: "findByIdForOwner runId (ac_subject auth) (pf_agents ?p) = Some (run\<lparr>ar_cancelRequested := True\<rparr>)"
    using run unfolding findByIdForOwner_def
    by (simp, subst find_patched) auto
  show ?thesis
  proof (cases "ar_status run \<in> set TERMINAL_AGENT_RUN_STATUSES \<or> ar_cancelRequested run")
    case True
    then have eq: "p' = p" "dto = toAgentRunDto run"
      using assms(2) run subj by (auto simp: cancelRun_def requireOwnedRun_cases op_simps requestCancel_def)
    have noop: "?rows = ag_runs (pf_agents p)" if "ar_cancelRequested run"
    proof -
      have "r = run" if "r \<in> set (ag_runs (pf_agents p))" "ar_id r = runId" for r
        using assms(1) that id by (auto simp: agents_db_ok_def distinct_map dest: inj_onD)
      then show ?thesis using that unfolding patch_rows_def by (intro map_idI) auto
    qed
    have "p = ?p" if "ar_cancelRequested run" using noop [OF that] by simp
    with True eq assms(2) run show ?thesis by (auto simp: toAgentRunDto_def)
  next
    case False
    then have eq: "p' = ?p" "dto = toAgentRunDto (run\<lparr>ar_cancelRequested := True\<rparr>)"
      using assms(2) run subj id
      by (auto simp: cancelRun_def requireOwnedRun_cases op_simps requestCancel_def split: if_splits)
    have "cancelRun runId auth ?p = (Inr dto, ?p)"
      using found subj eq(2) by (simp add: cancelRun_def requireOwnedRun_cases op_simps requestCancel_def)
    with False eq run show ?thesis by (auto simp: toAgentRunDto_def)
  qed
qed

section \<open>Submission\<close>

lemma submit_message_ok:
  assumes "submit_message env input userId db = (Inr (c, m), db')"
  shows "\<exists>cs. db' = db\<lparr>tb_conversations := tb_conversations db @ cs, tb_messages := tb_messages db @ [m]\<rparr>
    \<and> nova_db_ok db' \<and> ms_conversationId m = cv_convId c \<and> ms_text m = cri_message input
    \<and> ms_role m = RoleUser \<and> (\<exists>d. ms_id m = re_genNova env d) \<and> cv_userId c = userId
    \<and> c \<in> set (tb_conversations db')"
proof (cases "some_id (cri_conversationId input)")
  case None
  with assms show ?thesis
    by (auto simp: submit_message_def conversation_create_def addMessage_def op_simps Let_def split: if_splits)
next
  case (Some i)
  with assms obtain ms where f: "findForUser i userId db = Some (c, ms)"
    by (auto simp: submit_message_def op_simps split: option.splits sum.splits prod.splits)
  from find_pair_SomeD [OF this] Some f assms show ?thesis
    by (intro exI [of _ "[]"])
      (auto simp: submit_message_def addMessage_def op_simps Let_def split: if_splits)
qed

lemma submit_message_conversation:
  assumes "submit_message env input userId db = (Inr (c, m), db')"
  shows "cv_convId c \<noteq> [] \<or> (\<exists>d. cv_convId c = re_genNova env d)"
proof (cases "some_id (cri_conversationId input)")
  case None
  with assms have "cv_convId c = re_genNova env db"
    by (auto simp: submit_message_def conversation_create_def addMessage_def op_simps Let_def split: if_splits)
  then show ?thesis by blast
next
  case (Some i)
  with assms obtain ms where f: "findForUser i userId db = Some (c, ms)"
    by (auto simp: submit_message_def op_simps split: option.splits sum.splits prod.splits)
  from find_pair_SomeD [OF this] Some show ?thesis by (auto simp: some_id_Some_iff)
qed

lemma run_create_ok:
  assumes "run_create gen now d db = (Inr run, db')"
  shows "\<exists>eid. ar_entitlementSnapshotId run = eid
    \<and> db' = db\<lparr>ag_entitlements := ag_entitlements db @ [entitlement_snapshot.extend (crd_snapshot d) \<lparr>en_id = eid\<rparr>],
         ag_runs := ag_runs db @ [run]\<rparr>
    \<and> agents_db_ok db' \<and> ar_ownerSubject run = crd_ownerSubject d \<and> ar_ownerUserId run = crd_ownerUserId d
    \<and> ar_conversationId run = crd_conversationId d \<and> ar_promptRef run = crd_promptRef d
    \<and> ar_idempotencyKey run = crd_idempotencyKey d \<and> ar_status run = Queued \<and> ar_responseRef run = None
    \<and> \<not> ar_cancelRequested run \<and> ar_expiresAt run = Some (es_expiresAt (crd_snapshot d))"
  using transactionM_commit [OF assms [unfolded run_create_def]]
  by (auto simp: op_simps Let_def split: if_splits)

lemma enqueue_frame:
  "enqueue env run rid h p = (r, p') \<Longrightarrow> r = Inr () \<and> pf_nova p' = pf_nova p \<and> pf_agents p' = pf_agents p"
  by (auto simp: enqueue_def op_simps split: option.splits sum.splits prod.splits)

definition submitted_snapshot :: "('z, 'o) run_env \<Rightarrow> create_run_input \<Rightarrow> string \<Rightarrow> entitlement_snapshot" where
  "submitted_snapshot env input userId =
     buildEntitlementSnapshot (re_sha256 env) (ac_subject (cri_auth input)) userId
       (ac_roles (cri_auth input)) (ac_permissions (cri_auth input))
       (capabilityAllowlist (re_registry env)) (re_runTtlSeconds env) (re_now env)"

text \<open>A submission either found the run of its key or created one.\<close>

lemma createRun_cases:
  assumes "createRun env input p = (Inr dto, p')" and "nova_db_ok (pf_nova p)"
  shows "\<exists>u roles. resolved (cri_auth input) (u, roles) (pf_nova p') \<and> nova_db_ok (pf_nova p')
    \<and> (\<exists>run. findByOwnerAndIdempotencyKey (ac_subject (cri_auth input)) (cri_idempotencyKey input) (pf_agents p) = Some run
          \<and> pf_agents p' = pf_agents p \<and> dto = toAgentRunDto run
       \<or> findByOwnerAndIdempotencyKey (ac_subject (cri_auth input)) (cri_idempotencyKey input) (pf_agents p) = None
          \<and> dto = toAgentRunDto run
          \<and> (\<exists>c m nova1. submit_message env input (us_id u) nova1 = (Inr (c, m), pf_nova p')
              \<and> run_create (re_genAgents env) (re_now env)
                  \<lparr>crd_ownerSubject = ac_subject (cri_auth input), crd_ownerUserId = us_id u,
                   crd_conversationId = Some (cv_convId c), crd_promptRef = nova_ref (cv_convId c) (ms_id m),
                   crd_idempotencyKey = cri_idempotencyKey input,
                   crd_snapshot = submitted_snapshot env input (us_id u)\<rparr> (pf_agents p)
                 = (Inr run, pf_agents p')))"
proof -
  from assms(1) obtain u roles nova1 where
      r: "resolveCurrentUser (re_genNova env) (re_now env) (cri_auth input) (pf_nova p) = (Inr (u, roles), nova1)"
    by (auto simp: createRun_def op_simps Let_def split: sum.splits prod.splits)
  note res = resolve_resolved [OF assms(2) r] and ok1 = resolve_ok [OF assms(2) r]
  show ?thesis
  proof (cases "findByOwnerAndIdempotencyKey (ac_subject (cri_auth input)) (cri_idempotencyKey input) (pf_agents p)")
    case (Some run)
    with assms(1) r have "dto = toAgentRunDto run" "p' = p\<lparr>pf_nova := nova1\<rparr>"
      by (auto simp: createRun_def op_simps Let_def)
    with res ok1 Some show ?thesis by auto
  next
    case None
    from assms(1) r None obtain c m nova2 run agents' where
        sub: "submit_message env input (us_id u) nova1 = (Inr (c, m), nova2)"
        and crt: "run_create (re_genAgents env) (re_now env)
                  \<lparr>crd_ownerSubject = ac_subject (cri_auth input), crd_ownerUserId = us_id u,
                   crd_conversationId = Some (cv_convId c), crd_promptRef = nova_ref (cv_convId c) (ms_id m),
                   crd_idempotencyKey = cri_idempotencyKey input,
                   crd_snapshot = submitted_snapshot env input (us_id u)\<rparr> (pf_agents p) = (Inr run, agents')"
        and p': "dto = toAgentRunDto run" "pf_nova p' = nova2" "pf_agents p' = agents'"
      by (auto simp: createRun_def submitted_snapshot_def op_simps Let_def dest: enqueue_frame
          split: sum.splits prod.splits)
    from submit_message_ok [OF sub] have "nova_db_ok nova2" "tb_users nova2 = tb_users nova1"
        "db_userRoles nova2 = db_userRoles nova1" by auto
    with res have "resolved (cri_auth input) (u, roles) nova2" using resolved_cong by metis
    with \<open>nova_db_ok nova2\<close> None sub crt p' show ?thesis by blast
  qed
qed

text \<open>C14: Submitting a run is idempotent per owner and key. After a submission has been answered, any
  later submission by the same principal under the same key, whatever its message, conversation
  or clock, gives the same answer and changes nothing: no second run, message, conversation or
  task is made. The run the answer names is the owner's run under that key, queued if new.\<close>

theorem createRun_idempotent:
  assumes "nova_db_ok (pf_nova p)" and "agents_db_ok (pf_agents p)"
    and "createRun env input p = (Inr dto, p')"
    and "cri_auth input' = cri_auth input" and "cri_idempotencyKey input' = cri_idempotencyKey input"
  shows "createRun env' input' p' = (Inr dto, p')
    \<and> (\<exists>run \<in> set (ag_runs (pf_agents p')). dto = toAgentRunDto run
         \<and> ar_ownerSubject run = ac_subject (cri_auth input)
         \<and> ar_idempotencyKey run = cri_idempotencyKey input
         \<and> (run \<notin> set (ag_runs (pf_agents p)) \<longrightarrow> ar_status run = Queued))
    \<and> length (ag_runs (pf_agents p')) \<le> Suc (length (ag_runs (pf_agents p)))"
proof -
  let ?find = "findByOwnerAndIdempotencyKey (ac_subject (cri_auth input)) (cri_idempotencyKey input)"
  obtain u roles run where res: "resolved (cri_auth input) (u, roles) (pf_nova p')"
      and found: "?find (pf_agents p') = Some run" "dto = toAgentRunDto run"
      and old: "run \<notin> set (ag_runs (pf_agents p)) \<longrightarrow> ar_status run = Queued"
      and len: "length (ag_runs (pf_agents p')) \<le> Suc (length (ag_runs (pf_agents p)))"
  proof -
    from createRun_cases [OF assms(3,1)] obtain u roles run where
        res: "resolved (cri_auth input) (u, roles) (pf_nova p')" and dto: "dto = toAgentRunDto run"
        and cases: "?find (pf_agents p) = Some run \<and> pf_agents p' = pf_agents p
          \<or> ?find (pf_agents p) = None \<and> (\<exists>d. crd_ownerSubject d = ac_subject (cri_auth input)
              \<and> crd_idempotencyKey d = cri_idempotencyKey input
              \<and> run_create (re_genAgents env) (re_now env) d (pf_agents p) = (Inr run, pf_agents p'))"
      by fastforce
    from cases show ?thesis
    proof (elim disjE conjE exE)
      assume "?find (pf_agents p) = Some run" "pf_agents p' = pf_agents p"
      with res dto that show ?thesis
        by (auto simp: findByOwnerAndIdempotencyKey_def dest: find_SomeD)
    next
      fix d assume none: "?find (pf_agents p) = None" and d: "crd_ownerSubject d = ac_subject (cri_auth input)"
        "crd_idempotencyKey d = cri_idempotencyKey input"
        "run_create (re_genAgents env) (re_now env) d (pf_agents p) = (Inr run, pf_agents p')"
      from run_create_ok [OF d(3)] d(1,2) have r: "ag_runs (pf_agents p') = ag_runs (pf_agents p) @ [run]"
        "ar_ownerSubject run = ac_subject (cri_auth input)" "ar_idempotencyKey run = cri_idempotencyKey input"
        "ar_status run = Queued" by auto
      with none have "?find (pf_agents p') = Some run"
        by (simp add: findByOwnerAndIdempotencyKey_def find_append)
      with res dto r that show ?thesis by simp
    qed
  qed
  have again: "createRun env' input' p' = (Inr dto, p')"
    using resolved_run [OF res, of "re_genNova env'" "re_now env'"] found assms(4,5)
    by (simp add: createRun_def op_simps Let_def)
  from found(1) have "run \<in> set (ag_runs (pf_agents p'))" "ar_ownerSubject run = ac_subject (cri_auth input)"
      "ar_idempotencyKey run = cri_idempotencyKey input"
    by (auto simp: findByOwnerAndIdempotencyKey_def dest: find_SomeD)
  with again found(2) old len show ?thesis by blast
qed

section \<open>Examples\<close>

definition example_snapshot :: entitlement_snapshot where
  "example_snapshot = buildEntitlementSnapshot (\<lambda>s. s) ''s1'' ''u1'' [''admin''] [''sale.read''] (\<lambda>_. []) 600 1000"

definition example_run :: agent_run where
  "example_run = \<lparr>ar_id = ''r1'', ar_ownerSubject = ''s1'', ar_ownerUserId = ''u1'', ar_conversationId = Some ''c1'',
     ar_status = Running, ar_promptRef = ''nova-msg://c1/m1'', ar_responseRef = None,
     ar_entitlementSnapshotId = ''e1'', ar_idempotencyKey = ''k1'', ar_cancelRequested = False,
     ar_expiresAt = Some 601000, ar_createdAt = 1000\<rparr>"

definition example_event :: "string \<Rightarrow> int \<Rightarrow> event_visibility \<Rightarrow> agent_run_event" where
  "example_event i n v = \<lparr>ev_id = i, ev_runId = ''r1'', ev_sequence = n, ev_type = ''run.started'',
     ev_payload = JNull, ev_visibility = v, ev_createdAt = n\<rparr>"

definition example_agents :: agents_db where
  "example_agents = \<lparr>ag_runs = [example_run],
     ag_events = [example_event ''v2'' 2 VisibleInternal, example_event ''v1'' 1 VisibleUser],
     ag_entitlements = [entitlement_snapshot.extend example_snapshot \<lparr>en_id = ''e1''\<rparr>], ag_audit = []\<rparr>"

definition example_platform :: "(unit, unit) platform" where
  "example_platform = \<lparr>pf_nova = example_nova, pf_agents = example_agents, pf_orchestrator = ()\<rparr>"

lemma example_agents_ok: "agents_db_ok example_agents" by code_simp

lemma example_parts [simp]: "pf_agents example_platform = example_agents" "pf_nova example_platform = example_nova"
  by (simp_all add: example_platform_def)

theorem listAllUserEvents_complete_witness:
  "\<exists>events. listAllUserEvents ''r1'' False example_agents = Some events
     \<and> set events = {example_event ''v1'' 1 VisibleUser}"
proof -
  have "{e \<in> set (ag_events example_agents). ev_runId e = ''r1'' \<and> 0 < ev_sequence e \<and> (False \<or> ev_visibility e = VisibleUser)}
     = {example_event ''v1'' 1 VisibleUser}"
    by (auto simp: example_agents_def example_event_def)
  with listAllUserEvents_complete [OF example_agents_ok, of "''r1''" False] show ?thesis by auto
qed

theorem runs_invisible_to_others_witness:
  "getRun ''r1'' (example_auth\<lparr>ac_subject := ''s2''\<rparr>) example_platform
     = getRun ''r9'' (example_auth\<lparr>ac_subject := ''s2''\<rparr>) example_platform"
  using runs_invisible_to_others [of example_platform example_run "example_auth\<lparr>ac_subject := ''s2''\<rparr>" "''r9''"]
    example_agents_ok by (simp add: example_agents_def example_run_def)

theorem cancelRun_idempotent_witness:
  "\<exists>dto p'. cancelRun ''r1'' example_auth example_platform = (Inr dto, p') \<and> cancelRun ''r1'' example_auth p' = (Inr dto, p')"
proof -
  have "\<not> isl (fst (cancelRun ''r1'' example_auth example_platform))" by code_simp
  from succeeds [OF this] obtain dto p' where "cancelRun ''r1'' example_auth example_platform = (Inr dto, p')"
    by blast
  from conjunct1 [OF cancelRun_idempotent [OF _ this]] this show ?thesis by (auto simp: example_agents_ok)
qed

definition example_run_env :: "(unit, unit) run_env" where
  "example_run_env = \<lparr>re_genNova = (\<lambda>db. replicate (length (tb_messages db) + length (tb_conversations db) + 5) (CHR ''x'')),
     re_genAgents = (\<lambda>db. replicate (length (ag_entitlements db) + 5) (CHR ''y'')), re_now = 2000,
     re_sha256 = (\<lambda>s. s), re_registry = fromStaticCatalog, re_runTtlSeconds = 600, re_uuid = ''q'',
     re_orchestrator = None\<rparr>"

definition example_input :: create_run_input where
  "example_input = \<lparr>cri_message = ''hello'', cri_conversationId = None, cri_auth = pinned_auth,
     cri_idempotencyKey = ''k2'', cri_requestId = []\<rparr>"

lemma example_submission: "\<not> isl (fst (createRun example_run_env example_input example_platform))"
  by code_simp

lemma example_platform_ok: "nova_db_ok (pf_nova example_platform)" "agents_db_ok (pf_agents example_platform)"
  by (simp_all add: example_nova_ok example_agents_ok)

theorem createRun_idempotent_witness:
  "\<exists>dto p'. createRun example_run_env example_input example_platform = (Inr dto, p')
     \<and> createRun example_run_env (example_input\<lparr>cri_message := ''again''\<rparr>) p' = (Inr dto, p')
     \<and> length (ag_runs (pf_agents p')) \<le> 2"
proof -
  from succeeds [OF example_submission] obtain dto p' where
    r: "createRun example_run_env example_input example_platform = (Inr dto, p')" by blast
  note c = createRun_idempotent [OF example_platform_ok r, of "example_input\<lparr>cri_message := ''again''\<rparr>" example_run_env]
  from c r show ?thesis by (auto simp: example_agents_def)
qed

end
