(* ===== verification/Service_Token.thy ===== *)
theory Service_Token
  imports Errors
begin

text \<open>
  The OAuth2 \<open>client_credentials\<close> client with its cache
  (\<open>packages/shared/src/auth/service-token-client.ts\<close>). The identity provider is the argument
  \<open>idp\<close>, which answers a request and changes its own state; times are milliseconds.
\<close>

record token_client_config =
  tc_tokenUrl :: string
  tc_clientId :: string
  tc_clientSecret :: string
  tc_scope :: "string option"
  tc_requestAudienceScopes :: "bool option"
  tc_requestTimeoutMs :: "int option"
  tc_expirySkewMs :: "int option"

datatype service_token_error = ServiceTokenError string "nat option" | TokenOther string

definition DEFAULT_TIMEOUT_MS :: int where
  "DEFAULT_TIMEOUT_MS = 10000"

definition DEFAULT_EXPIRY_SKEW_MS :: int where
  "DEFAULT_EXPIRY_SKEW_MS = 15000"

record token_response =
  tk_access_token :: "string option"
  tk_expires_in :: "int option"

text \<open>The body of the request is its form fields; \<open>fetch\<close> rejects (with a \<open>TimeoutError\<close> or
  another error) or answers with a status and a body that may not be JSON.\<close>

record token_request =
  tq_url :: string
  tq_form :: "(string \<times> string) list"
  tq_timeoutMs :: int

datatype 'b fetched = FetchTimeout | FetchFailed | Fetched nat "'b option"

definition response_ok :: "nat \<Rightarrow> bool" where
  "response_ok status \<longleftrightarrow> 200 \<le> status \<and> status \<le> 299"

text \<open>The private field \<open>cached\<close> and the provider's state.\<close>

record 'w token_client =
  tl_cached :: "(string \<times> int) option"
  tl_idp :: 'w

type_synonym 'w idp = "token_request \<Rightarrow> 'w \<Rightarrow> token_response fetched \<times> 'w"

definition token_request_of :: "token_client_config \<Rightarrow> token_request" where
  "token_request_of config =
     \<lparr>tq_url = tc_tokenUrl config,
      tq_form = [(''grant_type'', ''client_credentials''), (''client_id'', tc_clientId config), (''client_secret'', tc_clientSecret config)]
        @ (case some_id (tc_scope config) of
             Some scope \<Rightarrow> if tc_requestAudienceScopes config = Some True then [(''scope'', scope)] else []
           | None \<Rightarrow> []),
      tq_timeoutMs = (case tc_requestTimeoutMs config of None \<Rightarrow> DEFAULT_TIMEOUT_MS | Some t \<Rightarrow> t)\<rparr>"

definition getToken ::
  "token_client_config \<Rightarrow> 'w idp \<Rightarrow> int \<Rightarrow> (service_token_error, 'w token_client, string) eop" where
  "getToken config idp now = (\<lambda>client.
     let skew = (case tc_expirySkewMs config of None \<Rightarrow> DEFAULT_EXPIRY_SKEW_MS | Some s \<Rightarrow> s);
         request = (let (answer, w) = idp (token_request_of config) (tl_idp client);
                        client1 = client\<lparr>tl_idp := w\<rparr>
                    in case answer of
                         FetchTimeout \<Rightarrow> (Inl (ServiceTokenError ''Service token request timed out.'' None), client1)
                       | FetchFailed \<Rightarrow> (Inl (ServiceTokenError ''Service token request failed.'' None), client1)
                       | Fetched status body \<Rightarrow>
                           if \<not> response_ok status
                           then (Inl (ServiceTokenError ''Failed to obtain a service token.'' (Some status)), client1)
                           else (case body of
                              None \<Rightarrow> (Inl (TokenOther ''SyntaxError''), client1)
                            | Some json \<Rightarrow>
                                (case some_id (tk_access_token json) of
                                   None \<Rightarrow> (Inl (ServiceTokenError ''Token response did not include an access token.'' None), client1)
                                 | Some token \<Rightarrow>
                                     (Inr token, client1\<lparr>tl_cached := Some (token,
                                        now + (case tk_expires_in json of None \<Rightarrow> 60 | Some s \<Rightarrow> s) * 1000)\<rparr>))))
     in case tl_cached client of
          Some (val, expiresAt) \<Rightarrow> if expiresAt - skew > now then (Inr val, client) else request
        | None \<Rightarrow> request)"

definition invalidate :: "'w token_client \<Rightarrow> 'w token_client" where
  "invalidate client = client\<lparr>tl_cached := None\<rparr>"

section \<open>What a token client promises\<close>

definition token_skew :: "token_client_config \<Rightarrow> int" where
  "token_skew config = (case tc_expirySkewMs config of None \<Rightarrow> DEFAULT_EXPIRY_SKEW_MS | Some s \<Rightarrow> s)"

definition token_live :: "token_client_config \<Rightarrow> int \<Rightarrow> 'w token_client \<Rightarrow> bool" where
  "token_live config now client \<longleftrightarrow>
     (case tl_cached client of None \<Rightarrow> False | Some (_, expiresAt) \<Rightarrow> now < expiresAt - token_skew config)"

lemma getToken_cached:
  "token_live config now client \<Longrightarrow> getToken config idp now client = (Inr (fst (the (tl_cached client))), client)"
  by (auto simp: token_live_def getToken_def token_skew_def Let_def split: option.splits)

text \<open>A token that is near its expiry is never handed out again: the provider is asked.\<close>

lemma getToken_asks:
  assumes "\<not> token_live config now client"
  shows "tl_idp (snd (getToken config idp now client)) = snd (idp (token_request_of config) (tl_idp client))"
  using assms
  by (auto simp: token_live_def getToken_def token_skew_def Let_def split: option.splits prod.splits fetched.splits)

lemma getToken_success:
  assumes "getToken config idp now client = (Inr token, client')"
  shows "(\<exists>expiresAt. tl_cached client' = Some (token, expiresAt))
    \<and> (client' = client \<or> (\<exists>status json. fst (idp (token_request_of config) (tl_idp client)) = Fetched status (Some json)
         \<and> response_ok status \<and> tk_access_token json = Some token \<and> token \<noteq> []))"
  using assms
  by (auto simp: getToken_def Let_def some_id_def split: option.splits prod.splits fetched.splits if_splits)

text \<open>A failure keeps the cache as it was: nothing half-read is stored.\<close>

lemma getToken_failure: "getToken config idp now client = (Inl e, client') \<Longrightarrow> tl_cached client' = tl_cached client"
  by (auto simp: getToken_def Let_def split: option.splits prod.splits fetched.splits if_splits)

lemma invalidate_forces_request:
  "tl_idp (snd (getToken config idp now (invalidate client))) = snd (idp (token_request_of config) (tl_idp client))"
  by (subst getToken_asks) (simp_all add: token_live_def invalidate_def)

end
