(* ===== verification/Admin_Agents.thy ===== *)
theory Admin_Agents
  imports Agent_Runs Rbac_Admin Service_Token
begin

text \<open>
  The administrators' view of the registry of agents (\<open>api/src/modules/admin-agents\<close>) and the
  client of the orchestrator's task gateway (\<open>modules/agent-runs/orchestrator-client.ts\<close>) through
  which runs are dispatched and agents onboarded. The gateway itself is another program: it is the
  argument \<open>fetch\<close>, which answers a request and changes the state it shares with this service (the
  table of agents, which the orchestrator writes when it onboards one). The database of the audit
  log is reached through an argument too, since the code has to survive its failures. Dates are
  milliseconds and appear as such in the response.
\<close>

section \<open>The orchestrator client\<close>

record onboard_agent_payload =
  op_hostUrl :: string
  op_audience :: string
  op_name :: "string option"
  op_displayName :: "string option"
  op_description :: "string option"
  op_tags :: "string list option"
  op_enabled :: "bool option"
  op_onboardedBy :: "string option"

record onboard_agent_result =
  or_name :: string
  or_baseUrl :: string
  or_audience :: string
  or_skillIds :: "string list"
  or_version :: "string option"
  or_status :: string
  or_card :: json

record orchestrator_config =
  oc_baseUrl :: string
  oc_requestTimeoutMs :: "int option"

text \<open>What a call may throw: the client's own error, an error of the token client, or the error of
  reading the body of the answer.\<close>

datatype orchestrator_error =
  OrchestratorClientError string "nat option"
| OrchestratorToken service_token_error
| OrchestratorOther string

definition ORCHESTRATOR_TIMEOUT_MS :: int where
  "ORCHESTRATOR_TIMEOUT_MS = 10000"

definition ONBOARD_TIMEOUT_MS :: int where
  "ONBOARD_TIMEOUT_MS = 20000"

record 'p orchestrator_request =
  oq_url :: string
  oq_bearer :: string
  oq_requestId :: "string option"
  oq_body :: 'p
  oq_timeoutMs :: int

text \<open>The client's token cache and the world behind the gateway.\<close>

record ('w, 'g) orchestrator =
  og_tokens :: "'w token_client"
  og_remote :: 'g

type_synonym ('p, 'b, 'g) gateway = "'p orchestrator_request \<Rightarrow> 'g \<Rightarrow> 'b fetched \<times> 'g"

text \<open>The token client and the clock of a call.\<close>

record 'w token_env =
  te_config :: token_client_config
  te_idp :: "'w idp"
  te_now :: int

definition client_token :: "'w token_env \<Rightarrow> (orchestrator_error, ('w, 'g) orchestrator, string) eop" where
  "client_token te = (\<lambda>s. case getToken (te_config te) (te_idp te) (te_now te) (og_tokens s) of
     (Inl e, tokens) \<Rightarrow> (Inl (OrchestratorToken e), s\<lparr>og_tokens := tokens\<rparr>)
   | (Inr token, tokens) \<Rightarrow> (Inr token, s\<lparr>og_tokens := tokens\<rparr>))"

definition client_fetch :: "('p, 'b, 'g) gateway \<Rightarrow> 'p orchestrator_request \<Rightarrow> (orchestrator_error, ('w, 'g) orchestrator, 'b fetched) eop" where
  "client_fetch fetch request = (\<lambda>s. case fetch request (og_remote s) of (answer, g) \<Rightarrow> (Inr answer, s\<lparr>og_remote := g\<rparr>))"

definition client_invalidate :: "(orchestrator_error, ('w, 'g) orchestrator, unit) eop" where
  "client_invalidate = modifyM (\<lambda>s. s\<lparr>og_tokens := invalidate (og_tokens s)\<rparr>)"

definition strip_slashes :: "string \<Rightarrow> string" where
  "strip_slashes u = rev (dropWhile (\<lambda>c. c = CHR ''/'') (rev u))"

definition enqueueRun ::
  "orchestrator_config \<Rightarrow> 'w token_env \<Rightarrow> (enqueue_run_payload, 'b, 'g) gateway \<Rightarrow> enqueue_run_payload
     \<Rightarrow> (orchestrator_error, ('w, 'g) orchestrator, unit) eop" where
  "enqueueRun config te fetch payload =
     bindM (client_token te) (\<lambda>token.
     bindM (client_fetch fetch
       \<lparr>oq_url = strip_slashes (oc_baseUrl config) @ ''/internal/runs'', oq_bearer = token,
        oq_requestId = Some (eq_requestId payload), oq_body = payload,
        oq_timeoutMs = (case oc_requestTimeoutMs config of None \<Rightarrow> ORCHESTRATOR_TIMEOUT_MS | Some t \<Rightarrow> t)\<rparr>) (\<lambda>answer.
     case answer of
       FetchTimeout \<Rightarrow> throwM (OrchestratorClientError ''Orchestrator request timed out.'' None)
     | FetchFailed \<Rightarrow> throwM (OrchestratorClientError ''Orchestrator request failed.'' None)
     | Fetched status body \<Rightarrow>
         thenM (if status = 401 then client_invalidate else returnM ())
           (guardM (\<not> (\<not> response_ok status \<and> status \<noteq> 202))
              (OrchestratorClientError ''Orchestrator rejected the run.'' (Some status)))))"

definition onboardAgent ::
  "orchestrator_config \<Rightarrow> 'w token_env \<Rightarrow> (onboard_agent_payload, onboard_agent_result, 'g) gateway
     \<Rightarrow> onboard_agent_payload \<Rightarrow> string option
     \<Rightarrow> (orchestrator_error, ('w, 'g) orchestrator, onboard_agent_result) eop" where
  "onboardAgent config te fetch payload requestId =
     bindM (client_token te) (\<lambda>token.
     bindM (client_fetch fetch
       \<lparr>oq_url = strip_slashes (oc_baseUrl config) @ ''/internal/agents/onboard'', oq_bearer = token,
        oq_requestId = some_id requestId, oq_body = payload,
        oq_timeoutMs = (case oc_requestTimeoutMs config of None \<Rightarrow> ONBOARD_TIMEOUT_MS | Some t \<Rightarrow> t)\<rparr>) (\<lambda>answer.
     case answer of
       FetchTimeout \<Rightarrow> throwM (OrchestratorClientError ''Orchestrator onboarding request timed out.'' None)
     | FetchFailed \<Rightarrow> throwM (OrchestratorClientError ''Orchestrator onboarding request failed.'' None)
     | Fetched status body \<Rightarrow>
         thenM (if status = 401 then client_invalidate else returnM ())
         (thenM (guardM (response_ok status)
              (OrchestratorClientError ''Orchestrator rejected the onboarding.'' (Some status)))
           (someM body (OrchestratorOther ''SyntaxError'')))))"

lemmas client_defs = client_token_def client_fetch_def client_invalidate_def

lemma client_invalidate_apply [op_simps]:
  "client_invalidate s = (Inr (), s\<lparr>og_tokens := invalidate (og_tokens s)\<rparr>)"
  by (simp add: client_invalidate_def op_simps)

text \<open>A run is dispatched exactly when a token was obtained and the gateway accepted the request
  that carried it.\<close>

lemma enqueueRun_dispatched:
  assumes "enqueueRun config te fetch payload s = (Inr (), s')"
  obtains token status body where
    "fst (getToken (te_config te) (te_idp te) (te_now te) (og_tokens s)) = Inr token"
    and "fst (fetch \<lparr>oq_url = strip_slashes (oc_baseUrl config) @ ''/internal/runs'', oq_bearer = token,
          oq_requestId = Some (eq_requestId payload), oq_body = payload,
          oq_timeoutMs = (case oc_requestTimeoutMs config of None \<Rightarrow> ORCHESTRATOR_TIMEOUT_MS | Some t \<Rightarrow> t)\<rparr>
          (og_remote s)) = Fetched status body"
    and "response_ok status"
  using assms
  by (auto simp: enqueueRun_def client_defs op_simps response_ok_def
      split: prod.splits sum.splits fetched.splits if_splits)

text \<open>A token the gateway refused is not used again: the next call asks the provider.\<close>

lemma enqueueRun_401:
  assumes "enqueueRun config te fetch payload s = (Inl (OrchestratorClientError m (Some 401)), s')"
  shows "tl_cached (og_tokens s') = None"
  using assms
  by (auto simp: enqueueRun_def client_defs op_simps invalidate_def response_ok_def
      split: prod.splits sum.splits fetched.splits if_splits)

lemma onboardAgent_401:
  assumes "onboardAgent config te fetch payload rid s = (Inl (OrchestratorClientError m (Some 401)), s')"
  shows "tl_cached (og_tokens s') = None"
  using assms
  by (auto simp: onboardAgent_def client_defs op_simps invalidate_def response_ok_def
      split: prod.splits sum.splits fetched.splits if_splits option.splits)

lemma enqueueRun_fresh_token:
  assumes "enqueueRun config te fetch payload s = (Inl (OrchestratorClientError m (Some 401)), s')"
  shows "tl_idp (snd (getToken tc idp now (og_tokens s'))) = snd (idp (token_request_of tc) (tl_idp (og_tokens s')))"
  using enqueueRun_401 [OF assms] by (intro getToken_asks) (simp add: token_live_def)

text \<open>The client is the dispatcher that the run service is given.\<close>

definition dispatcher ::
  "orchestrator_config \<Rightarrow> 'w token_env \<Rightarrow> (enqueue_run_payload, 'b, 'g) gateway \<Rightarrow> enqueue_run_payload
     \<Rightarrow> (('w, 'g) orchestrator, unit) op" where
  "dispatcher config te fetch payload = (\<lambda>s. case enqueueRun config te fetch payload s of
     (Inl e, s') \<Rightarrow> (Inl (OtherErr (case e of OrchestratorClientError m _ \<Rightarrow> m
        | OrchestratorToken (ServiceTokenError m _) \<Rightarrow> m | OrchestratorToken (TokenOther m) \<Rightarrow> m
        | OrchestratorOther m \<Rightarrow> m)), s')
   | (Inr u, s') \<Rightarrow> (Inr u, s'))"

section \<open>The registry of agents\<close>

datatype agent_source = SourceSelf | SourceAdmin
datatype agent_status = StatusOnboarded | StatusUnreachable | StatusDisabled | StatusFailed

record agent_registration =
  ag_name :: string
  ag_baseUrl :: string
  ag_audience :: string
  ag_card :: json
  ag_skillIds :: json
  ag_source :: agent_source
  ag_status :: agent_status
  ag_enabled :: bool
  ag_displayName :: "string option"
  ag_description :: "string option"
  ag_version :: "string option"
  ag_tags :: json
  ag_onboardedBy :: "string option"
  ag_onboardedAt :: "int option"
  ag_lastCardFetchAt :: "int option"
  ag_consecutiveFailures :: int
  ag_lastError :: "string option"
  ag_registeredAt :: int
  ag_lastSeenAt :: int

type_synonym agent_table = "agent_registration list"

definition agent_list :: "agent_table \<Rightarrow> agent_registration list" where
  "agent_list rows = sort_desc ag_registeredAt rows"

definition agent_findByName :: "string \<Rightarrow> agent_table \<Rightarrow> agent_registration option" where
  "agent_findByName name rows = find (\<lambda>r. ag_name r = name) rows"

definition agent_setEnabled :: "string \<Rightarrow> bool \<Rightarrow> agent_table \<Rightarrow> agent_table" where
  "agent_setEnabled name enabled =
     patch_rows ag_name name (\<lambda>r. r\<lparr>ag_enabled := enabled, ag_status := if enabled then StatusOnboarded else StatusDisabled\<rparr>)"

definition agent_remove :: "string \<Rightarrow> agent_table \<Rightarrow> agent_table" where
  "agent_remove name rows = filter (\<lambda>r. ag_name r \<noteq> name) rows"

section \<open>Names\<close>

text \<open>\<open>/^[a-z][a-z0-9-]{1,98}[a-z0-9]$/\<close>, and the parameters of a request, which are trimmed.\<close>

definition is_lower :: "char \<Rightarrow> bool" where
  "is_lower c \<longleftrightarrow> of_char c \<in> {97..122 :: nat}"

definition AGENT_NAME :: "string \<Rightarrow> bool" where
  "AGENT_NAME s \<longleftrightarrow> 3 \<le> length s \<and> length s \<le> 100 \<and> is_lower (hd s)
     \<and> list_all (\<lambda>c. is_lower c \<or> is_digit c \<or> c = CHR ''-'') (butlast (tl s))
     \<and> (is_lower (last s) \<or> is_digit (last s))"

definition agentNameParams :: "string \<Rightarrow> string option" where
  "agentNameParams name = (if AGENT_NAME (js_trim name) then Some (js_trim name) else None)"

lemma AGENT_NAME_chars:
  assumes "AGENT_NAME s" and "c \<in> set s"
  shows "is_lower c \<or> is_digit c \<or> c = CHR ''-''"
proof (cases s)
  case (Cons x t)
  with assms(1) have t: "t \<noteq> []" by (auto simp: AGENT_NAME_def)
  then have parts: "set t = insert (last t) (set (butlast t))"
    by (metis append_butlast_last_id list.set(1,2) rotate1.simps(2) set_rotate1)
  from assms(1) Cons t have "is_lower x" "\<forall>c \<in> set (butlast t). is_lower c \<or> is_digit c \<or> c = CHR ''-''"
    "is_lower (last t) \<or> is_digit (last t)"
    by (simp_all add: AGENT_NAME_def list_all_iff)
  with assms(2) Cons parts show ?thesis by auto
qed (use assms in simp)

text \<open>The word \<open>onboard\<close> is a valid name, but a request for it is never mistaken for the onboarding
  route, which has another method; a name never contains a slash or a blank.\<close>

lemma AGENT_NAME_no_slash: "AGENT_NAME s \<Longrightarrow> CHR ''/'' \<notin> set s \<and> CHR '' '' \<notin> set s"
  using AGENT_NAME_chars [of s "CHR ''/''"] AGENT_NAME_chars [of s "CHR '' ''"]
  by (auto simp: is_lower_def is_digit_def)

section \<open>The response\<close>

record agent_skill_dto =
  sk_id :: string
  sk_name :: string
  sk_description :: string
  sk_tags :: "string list"

record agent_registration_dto =
  ad_name :: string
  ad_displayName :: "string option"
  ad_description :: "string option"
  ad_baseUrl :: string
  ad_audience :: string
  ad_source :: agent_source
  ad_status :: agent_status
  ad_enabled :: bool
  ad_version :: "string option"
  ad_tags :: "string list"
  ad_skills :: "agent_skill_dto list"
  ad_registeredAt :: int
  ad_lastSeenAt :: int
  ad_onboardedBy :: "string option"
  ad_onboardedAt :: "int option"
  ad_lastCardFetchAt :: "int option"
  ad_lastError :: "string option"

definition tagsOf :: "json option \<Rightarrow> string list" where
  "tagsOf v = (case jarray v of None \<Rightarrow> [] | Some xs \<Rightarrow> jstrings xs)"

fun is_json_record :: "json \<Rightarrow> bool" where
  "is_json_record (JObj _) = True"
| "is_json_record _ = False"

definition skill_of :: "json \<Rightarrow> agent_skill_dto option" where
  "skill_of raw =
     (if \<not> is_json_record raw then None
      else case some_id (jstring (jget ''id'' raw)) of
        None \<Rightarrow> None
      | Some i \<Rightarrow> Some \<lparr>sk_id = i,
          sk_name = (case jstring (jget ''name'' raw) of None \<Rightarrow> i | Some n \<Rightarrow> n),
          sk_description = (case jstring (jget ''description'' raw) of None \<Rightarrow> [] | Some d \<Rightarrow> d),
          sk_tags = tagsOf (jget ''tags'' raw)\<rparr>)"

definition skillsFromCard :: "json \<Rightarrow> agent_skill_dto list" where
  "skillsFromCard agentCard =
     (if \<not> is_json_record agentCard then []
      else case jarray (jget ''skills'' agentCard) of None \<Rightarrow> [] | Some raws \<Rightarrow> List.map_filter skill_of raws)"

definition toAgentRegistrationDto :: "agent_registration \<Rightarrow> agent_registration_dto" where
  "toAgentRegistrationDto row =
     \<lparr>ad_name = ag_name row, ad_displayName = ag_displayName row, ad_description = ag_description row,
      ad_baseUrl = ag_baseUrl row, ad_audience = ag_audience row, ad_source = ag_source row,
      ad_status = ag_status row, ad_enabled = ag_enabled row, ad_version = ag_version row,
      ad_tags = tagsOf (Some (ag_tags row)), ad_skills = skillsFromCard (ag_card row),
      ad_registeredAt = ag_registeredAt row, ad_lastSeenAt = ag_lastSeenAt row,
      ad_onboardedBy = ag_onboardedBy row, ad_onboardedAt = ag_onboardedAt row,
      ad_lastCardFetchAt = ag_lastCardFetchAt row, ad_lastError = ag_lastError row\<rparr>"

text \<open>Of a card only the skills that are objects with a non-empty identifier are shown.\<close>

lemma skill_of_Some: "skill_of raw = Some sk \<Longrightarrow> is_json_record raw \<and> jget ''id'' raw = Some (JStr (sk_id sk)) \<and> sk_id sk \<noteq> []"
  by (auto simp: skill_of_def some_id_def jstring_Some_iff split: option.splits if_splits)

lemma skillsFromCard_ids:
  assumes "sk \<in> set (skillsFromCard agentCard)"
  shows "sk_id sk \<noteq> []
    \<and> (\<exists>raws raw. jget ''skills'' agentCard = Some (JArr raws) \<and> raw \<in> set raws \<and> jget ''id'' raw = Some (JStr (sk_id sk)))"
proof -
  from assms obtain raws raw where "jarray (jget ''skills'' agentCard) = Some raws" "raw \<in> set raws" "skill_of raw = Some sk"
    by (auto simp: skillsFromCard_def List.map_filter_def eq_commute [of "Some _" "jarray _"] split: if_splits option.splits)
  then show ?thesis by (cases "jget ''skills'' agentCard" rule: jarray.cases) (auto dest!: skill_of_Some)
qed

section \<open>The service\<close>

record onboard_agent_input =
  oi_hostUrl :: string
  oi_audience :: string
  oi_name :: "string option"
  oi_displayName :: "string option"
  oi_description :: "string option"
  oi_tags :: "string list option"
  oi_enabled :: "bool option"
  oi_requestId :: "string option"

text \<open>The table of agents, which the gateway writes too and is therefore part of what lies behind
  it; the database of the audit log; and the lines logged when an audit row could not be written.\<close>

record 'g shared =
  sh_agents :: agent_table
  sh_more :: 'g

record ('w, 'g, 'd) agent_admin =
  aa_orchestrator :: "('w, 'g shared) orchestrator"
  aa_audit :: 'd
  aa_logged :: "(string \<times> string) list"

record ('w, 'g, 'd) agent_env =
  ae_insertAudit :: "rbac_actor \<Rightarrow> audit_entry \<Rightarrow> ('d, unit) op"
  ae_onboard :: "(onboard_agent_payload \<Rightarrow> string option \<Rightarrow>
     (orchestrator_error, ('w, 'g shared) orchestrator, onboard_agent_result) eop) option"

definition aa_agents :: "('w, 'g, 'd) agent_admin \<Rightarrow> agent_table" where
  "aa_agents s = sh_agents (og_remote (aa_orchestrator s))"

definition agents_update :: "(agent_table \<Rightarrow> agent_table) \<Rightarrow> ('w, 'g, 'd) agent_admin \<Rightarrow> ('w, 'g, 'd) agent_admin" where
  "agents_update f s = s\<lparr>aa_orchestrator := (aa_orchestrator s)\<lparr>og_remote :=
     (og_remote (aa_orchestrator s))\<lparr>sh_agents := f (aa_agents s)\<rparr>\<rparr>\<rparr>"

definition exn_name :: "exn \<Rightarrow> string" where
  "exn_name e = (case e of App a \<Rightarrow> (case ae_category a of CatValidation \<Rightarrow> ''ValidationError''
     | CatUnauthenticated \<Rightarrow> ''UnauthenticatedError'' | CatForbidden \<Rightarrow> ''ForbiddenError'' | CatNotFound \<Rightarrow> ''NotFoundError''
     | CatConflict \<Rightarrow> ''ConflictError'' | CatRateLimited \<Rightarrow> ''AppError'' | CatInternal \<Rightarrow> ''InternalError'')
   | OtherErr n \<Rightarrow> n)"

definition recordAudit ::
  "('w, 'g, 'd) agent_env \<Rightarrow> rbac_actor \<Rightarrow> string \<Rightarrow> string \<Rightarrow> json option \<Rightarrow> (('w, 'g, 'd) agent_admin, unit) op" where
  "recordAudit env actor action targetId details = (\<lambda>s.
     case ae_insertAudit env actor (entry action ''agent'' targetId details) (aa_audit s) of
       (Inr u, d) \<Rightarrow> (Inr (), s\<lparr>aa_audit := d\<rparr>)
     | (Inl e, d) \<Rightarrow> (Inr (), s\<lparr>aa_audit := d, aa_logged := aa_logged s @ [(action, exn_name e)]\<rparr>))"

definition failureReason :: "orchestrator_error \<Rightarrow> string" where
  "failureReason error = (case error of
     OrchestratorClientError m (Some status) \<Rightarrow>
       if status = 409 then ''name conflict''
       else if status = 400 then ''invalid host or no skills'' else ''unreachable''
   | _ \<Rightarrow> ''unreachable'')"

definition card_not_retrieved :: exn where
  "card_not_retrieved = validation_error ''The agent card could not be retrieved from the host URL.''"

definition translateOnboardError :: "orchestrator_error \<Rightarrow> exn" where
  "translateOnboardError error = (case error of
     OrchestratorClientError m status \<Rightarrow>
       if status = Some 409 then conflict_error ''An agent with this name is already self-registered.''
       else if status = Some 400
       then validation_error ''The host URL is invalid or the agent card advertises no routable skills.''
       else card_not_retrieved
   | _ \<Rightarrow> card_not_retrieved)"

definition list_agents :: "(('w, 'g, 'd) agent_admin, agent_registration_dto list) op" where
  "list_agents = getM (\<lambda>s. map toAgentRegistrationDto (agent_list (aa_agents s)))"

definition get_agent :: "string \<Rightarrow> (('w, 'g, 'd) agent_admin, agent_registration_dto) op" where
  "get_agent name =
     bindM (getM (\<lambda>s. agent_findByName name (aa_agents s))) (\<lambda>found.
     bindM (someM found (not_found_error ''Agent not found.'')) (\<lambda>row. returnM (toAgentRegistrationDto row)))"

definition onboard_payload :: "rbac_actor \<Rightarrow> onboard_agent_input \<Rightarrow> onboard_agent_payload" where
  "onboard_payload actor input =
     \<lparr>op_hostUrl = oi_hostUrl input, op_audience = oi_audience input, op_name = oi_name input,
      op_displayName = oi_displayName input, op_description = oi_description input, op_tags = oi_tags input,
      op_enabled = oi_enabled input, op_onboardedBy = Some (actor_subject actor)\<rparr>"

definition on_orchestrator_client ::
  "(orchestrator_error, ('w, 'g shared) orchestrator, 'a) eop \<Rightarrow> (('w, 'g, 'd) agent_admin, orchestrator_error + 'a) op" where
  "on_orchestrator_client m = (\<lambda>s. case m (aa_orchestrator s) of (r, w) \<Rightarrow> (Inr r, s\<lparr>aa_orchestrator := w\<rparr>))"

definition onboard ::
  "('w, 'g, 'd) agent_env \<Rightarrow> rbac_actor \<Rightarrow> onboard_agent_input \<Rightarrow> (('w, 'g, 'd) agent_admin, agent_registration_dto) op" where
  "onboard env actor input =
     (case ae_onboard env of
        None \<Rightarrow> throwM (validation_error ''Agent onboarding is not available in this deployment.'')
      | Some call \<Rightarrow>
          bindM (on_orchestrator_client (call (onboard_payload actor input) (oi_requestId input))) (\<lambda>outcome.
          case outcome of
            Inl error \<Rightarrow>
              thenM (recordAudit env actor ''agent.onboard.failed''
                  (case oi_name input of Some n \<Rightarrow> n | None \<Rightarrow> oi_hostUrl input)
                  (Some (JObj [(''hostUrl'', JStr (oi_hostUrl input)), (''reason'', JStr (failureReason error))])))
                (throwM (translateOnboardError error))
          | Inr res \<Rightarrow>
              thenM (recordAudit env actor ''agent.onboard'' (or_name res)
                  (Some (JObj [(''hostUrl'', JStr (or_baseUrl res)), (''audience'', JStr (or_audience res)),
                     (''skillIds'', JArr (map JStr (or_skillIds res))), (''source'', JStr ''admin'')])))
              (bindM (getM (\<lambda>s. agent_findByName (or_name res) (aa_agents s))) (\<lambda>found.
               bindM (someM found (not_found_error ''Onboarded agent could not be read back.''))
                 (\<lambda>row. returnM (toAgentRegistrationDto row))))))"

definition requireAdminSourceRow :: "string \<Rightarrow> (('w, 'g, 'd) agent_admin, agent_registration) op" where
  "requireAdminSourceRow name =
     bindM (getM (\<lambda>s. agent_findByName name (aa_agents s))) (\<lambda>found.
     bindM (someM found (not_found_error ''Agent not found.'')) (\<lambda>row.
     thenM (guardM (\<not> ag_source row \<noteq> SourceAdmin) (conflict_error ''Self-registered agents cannot be managed here.''))
       (returnM row)))"

definition set_agent_enabled ::
  "('w, 'g, 'd) agent_env \<Rightarrow> rbac_actor \<Rightarrow> string \<Rightarrow> bool \<Rightarrow> (('w, 'g, 'd) agent_admin, agent_registration_dto) op" where
  "set_agent_enabled env actor name enabled =
     bindM (requireAdminSourceRow name) (\<lambda>row.
     thenM (modifyM (agents_update (agent_setEnabled name enabled)))
     (thenM (recordAudit env actor (if enabled then ''agent.enable'' else ''agent.disable'') name None)
     (bindM (getM (\<lambda>s. agent_findByName name (aa_agents s))) (\<lambda>updated.
      returnM (toAgentRegistrationDto (case updated of Some r \<Rightarrow> r | None \<Rightarrow> row))))))"

definition remove_agent ::
  "('w, 'g, 'd) agent_env \<Rightarrow> rbac_actor \<Rightarrow> string \<Rightarrow> (('w, 'g, 'd) agent_admin, unit) op" where
  "remove_agent env actor name =
     thenM (requireAdminSourceRow name)
     (thenM (modifyM (agents_update (agent_remove name)))
       (recordAudit env actor ''agent.remove'' name None))"

section \<open>What the operations change\<close>

lemma recordAudit_frame:
  assumes "recordAudit env actor action targetId details s = (r, s')"
  shows "r = Inr ()" "aa_orchestrator s' = aa_orchestrator s" "aa_agents s' = aa_agents s"
  using assms by (auto simp: recordAudit_def aa_agents_def split: prod.splits sum.splits)

lemma recordAudit_written:
  assumes "recordAudit env actor action targetId details s = (r, s')"
  shows "aa_audit s' = snd (ae_insertAudit env actor (entry action ''agent'' targetId details) (aa_audit s))"
    and "aa_logged s' = aa_logged s
      \<longleftrightarrow> \<not> isl (fst (ae_insertAudit env actor (entry action ''agent'' targetId details) (aa_audit s)))"
  using assms by (auto simp: recordAudit_def split: prod.splits sum.splits)

lemma aa_agents_update [simp]: "aa_agents (agents_update f s) = f (aa_agents s)"
  by (simp add: aa_agents_def agents_update_def)

lemma requireAdminSourceRow_apply:
  "requireAdminSourceRow name s =
     (case agent_findByName name (aa_agents s) of
        None \<Rightarrow> (Inl (not_found_error ''Agent not found.''), s)
      | Some row \<Rightarrow>
          if ag_source row = SourceAdmin then (Inr row, s)
          else (Inl (conflict_error ''Self-registered agents cannot be managed here.''), s))"
  by (auto simp: requireAdminSourceRow_def op_simps split: option.splits)

lemma agent_findByName_Some: "agent_findByName name rows = Some row \<Longrightarrow> row \<in> set rows \<and> ag_name row = name"
  using find_SomeD [of "\<lambda>r. ag_name r = name"] by (simp add: agent_findByName_def)

text \<open>Enabling an agent: refused with no change unless the agent exists and was onboarded by an
  administrator; otherwise exactly its flag and status change.\<close>

lemma set_agent_enabled_cases:
  assumes "set_agent_enabled env actor name enabled s = (r, s')"
  obtains (missing) "agent_findByName name (aa_agents s) = None" "s' = s"
      "r = Inl (not_found_error ''Agent not found.'')"
  | (foreign) row where "agent_findByName name (aa_agents s) = Some row" "ag_source row \<noteq> SourceAdmin" "s' = s"
      "r = Inl (conflict_error ''Self-registered agents cannot be managed here.'')"
  | (changed) row where "agent_findByName name (aa_agents s) = Some row" "ag_source row = SourceAdmin"
      "aa_agents s' = agent_setEnabled name enabled (aa_agents s)"
      "r = Inr (toAgentRegistrationDto (row\<lparr>ag_enabled := enabled,
          ag_status := if enabled then StatusOnboarded else StatusDisabled\<rparr>))"
proof (cases "agent_findByName name (aa_agents s)")
  case None
  with assms have "s' = s" "r = Inl (not_found_error ''Agent not found.'')"
    by (simp_all add: set_agent_enabled_def op_simps requireAdminSourceRow_apply)
  with None show ?thesis by (rule missing)
next
  case (Some row)
  show ?thesis
  proof (cases "ag_source row = SourceAdmin")
    case False
    with assms Some have "s' = s" "r = Inl (conflict_error ''Self-registered agents cannot be managed here.'')"
      by (simp_all add: set_agent_enabled_def op_simps requireAdminSourceRow_apply)
    with Some False show ?thesis by (rule foreign)
  next
    case True
    define action where "action = (if enabled then ''agent.enable'' else ''agent.disable'')"
    obtain u t where audit: "recordAudit env actor action name None (agents_update (agent_setEnabled name enabled) s) = (u, t)"
      by (cases "recordAudit env actor action name None (agents_update (agent_setEnabled name enabled) s)")
    note frame = recordAudit_frame [OF audit]
    have read: "agent_findByName name (agent_setEnabled name enabled (aa_agents s))
        = Some (row\<lparr>ag_enabled := enabled, ag_status := if enabled then StatusOnboarded else StatusDisabled\<rparr>)"
      using Some by (simp add: agent_findByName_def agent_setEnabled_def find_patch_rows)
    have "s' = t" "r = Inr (toAgentRegistrationDto (row\<lparr>ag_enabled := enabled,
          ag_status := if enabled then StatusOnboarded else StatusDisabled\<rparr>))"
      using assms Some True audit frame read
      by (simp_all add: set_agent_enabled_def op_simps requireAdminSourceRow_apply action_def)
    moreover have "aa_agents t = agent_setEnabled name enabled (aa_agents s)" using frame by simp
    ultimately show ?thesis using changed [OF Some True] by blast
  qed
qed

lemma remove_agent_cases:
  assumes "remove_agent env actor name s = (r, s')"
  obtains (missing) "agent_findByName name (aa_agents s) = None" "s' = s"
      "r = Inl (not_found_error ''Agent not found.'')"
  | (foreign) row where "agent_findByName name (aa_agents s) = Some row" "ag_source row \<noteq> SourceAdmin" "s' = s"
      "r = Inl (conflict_error ''Self-registered agents cannot be managed here.'')"
  | (removed) row where "agent_findByName name (aa_agents s) = Some row" "ag_source row = SourceAdmin"
      "aa_agents s' = agent_remove name (aa_agents s)" "r = Inr ()"
proof -
  obtain u t where audit: "recordAudit env actor ''agent.remove'' name None (agents_update (agent_remove name) s) = (u, t)"
    by (cases "recordAudit env actor ''agent.remove'' name None (agents_update (agent_remove name) s)")
  note frame = recordAudit_frame [OF audit]
  show ?thesis
    using assms audit missing foreign removed frame
    by (auto simp: remove_agent_def op_simps requireAdminSourceRow_apply split: option.splits if_splits)
qed

section \<open>Self-registered agents\<close>

definition self_rows :: "agent_table \<Rightarrow> agent_table" where
  "self_rows rows = filter (\<lambda>r. ag_source r = SourceSelf) rows"

definition agent_keys_ok :: "agent_table \<Rightarrow> bool" where
  "agent_keys_ok rows \<longleftrightarrow> distinct (map ag_name rows)"

lemma agent_row_unique:
  "agent_keys_ok rows \<Longrightarrow> agent_findByName name rows = Some row \<Longrightarrow> r \<in> set rows \<Longrightarrow> ag_name r = name \<Longrightarrow> r = row"
  using find_key [of ag_name rows r] by (simp add: agent_keys_ok_def agent_findByName_def)

lemma agent_setEnabled_keys: "map ag_name (agent_setEnabled name enabled rows) = map ag_name rows"
  by (simp add: agent_setEnabled_def)

lemma agent_keys_remove: "agent_keys_ok rows \<Longrightarrow> agent_keys_ok (agent_remove name rows)"
  by (simp add: agent_keys_ok_def agent_remove_def distinct_map_filter)

lemma self_rows_setEnabled:
  assumes "\<forall>r \<in> set rows. ag_name r = name \<longrightarrow> ag_source r = SourceAdmin"
  shows "self_rows (agent_setEnabled name enabled rows) = self_rows rows"
  using assms by (induction rows) (auto simp: self_rows_def agent_setEnabled_def patch_rows_def)

lemma self_rows_remove:
  assumes "\<forall>r \<in> set rows. ag_name r = name \<longrightarrow> ag_source r = SourceAdmin"
  shows "self_rows (agent_remove name rows) = self_rows rows"
  using assms by (induction rows) (auto simp: self_rows_def agent_remove_def)

lemma only_admin_row:
  assumes "agent_keys_ok rows" "agent_findByName name rows = Some row" "ag_source row = SourceAdmin"
  shows "\<forall>r \<in> set rows. ag_name r = name \<longrightarrow> ag_source r = SourceAdmin"
  using agent_row_unique [OF assms(1,2)] assms(3) by blast

lemma set_agent_enabled_self:
  assumes "set_agent_enabled env actor name enabled s = (r, s')" and "agent_keys_ok (aa_agents s)"
  shows "agent_keys_ok (aa_agents s') \<and> self_rows (aa_agents s') = self_rows (aa_agents s)"
  using assms(1)
proof (cases rule: set_agent_enabled_cases)
  case (changed row)
  then show ?thesis using self_rows_setEnabled [OF only_admin_row [OF assms(2)]] assms(2)
    by (simp add: agent_keys_ok_def agent_setEnabled_keys)
qed (use assms(2) in simp_all)

lemma remove_agent_self:
  assumes "remove_agent env actor name s = (r, s')" and "agent_keys_ok (aa_agents s)"
  shows "agent_keys_ok (aa_agents s') \<and> self_rows (aa_agents s') = self_rows (aa_agents s)"
  using assms(1)
proof (cases rule: remove_agent_cases)
  case (removed row)
  then show ?thesis using self_rows_remove [OF only_admin_row [OF assms(2)]] agent_keys_remove assms(2) by simp
qed (use assms(2) in simp_all)

section \<open>The commands of an administrator\<close>

datatype agent_command =
  SetEnabled rbac_actor string bool
| RemoveAgent rbac_actor string
| GetAgent string
| ListAgents

fun agent_command_exec :: "('w, 'g, 'd) agent_env \<Rightarrow> agent_command \<Rightarrow> (('w, 'g, 'd) agent_admin, unit) op" where
  "agent_command_exec env (SetEnabled actor name enabled) = thenM (set_agent_enabled env actor name enabled) (returnM ())"
| "agent_command_exec env (RemoveAgent actor name) = remove_agent env actor name"
| "agent_command_exec env (GetAgent name) = thenM (get_agent name) (returnM ())"
| "agent_command_exec env ListAgents = thenM list_agents (returnM ())"

fun agent_commands :: "('w, 'g, 'd) agent_env \<Rightarrow> agent_command list \<Rightarrow> ('w, 'g, 'd) agent_admin \<Rightarrow> ('w, 'g, 'd) agent_admin" where
  "agent_commands env [] s = s"
| "agent_commands env (c # cs) s = agent_commands env cs (snd (agent_command_exec env c s))"

lemma agent_command_self:
  assumes "agent_keys_ok (aa_agents s)"
  shows "agent_keys_ok (aa_agents (snd (agent_command_exec env c s)))
    \<and> self_rows (aa_agents (snd (agent_command_exec env c s))) = self_rows (aa_agents s)"
proof (cases c)
  case (SetEnabled actor name enabled)
  obtain r t where run: "set_agent_enabled env actor name enabled s = (r, t)"
    by (cases "set_agent_enabled env actor name enabled s")
  then show ?thesis using set_agent_enabled_self [OF run assms] SetEnabled
    by (simp add: op_simps split: sum.splits)
next
  case (RemoveAgent actor name)
  obtain r t where run: "remove_agent env actor name s = (r, t)" by (cases "remove_agent env actor name s")
  then show ?thesis using remove_agent_self [OF run assms] RemoveAgent by simp
qed (use assms in \<open>simp_all add: get_agent_def list_agents_def op_simps split: option.splits\<close>)

lemma agent_commands_self:
  "agent_keys_ok (aa_agents s) \<Longrightarrow> agent_keys_ok (aa_agents (agent_commands env cs s))
     \<and> self_rows (aa_agents (agent_commands env cs s)) = self_rows (aa_agents s)"
proof (induction cs arbitrary: s)
  case (Cons c cs)
  then show ?case using agent_command_self [of s env c] by simp
qed simp


definition example_agent :: "string \<Rightarrow> agent_source \<Rightarrow> agent_registration" where
  "example_agent name source =
     \<lparr>ag_name = name, ag_baseUrl = ''http://agent'', ag_audience = ''aud'', ag_card = JObj [], ag_skillIds = JArr [],
      ag_source = source, ag_status = StatusOnboarded, ag_enabled = True, ag_displayName = None,
      ag_description = None, ag_version = None, ag_tags = JArr [], ag_onboardedBy = None, ag_onboardedAt = None,
      ag_lastCardFetchAt = None, ag_consecutiveFailures = 0, ag_lastError = None, ag_registeredAt = 0,
      ag_lastSeenAt = 0\<rparr>"

definition example_agent_admin :: "(unit, unit, audit_entry list) agent_admin" where
  "example_agent_admin =
     \<lparr>aa_orchestrator = \<lparr>og_tokens = \<lparr>tl_cached = None, tl_idp = ()\<rparr>,
        og_remote = \<lparr>sh_agents = [example_agent ''sales'' SourceSelf, example_agent ''docs'' SourceAdmin], sh_more = ()\<rparr>\<rparr>,
      aa_audit = [], aa_logged = []\<rparr>"

definition example_agent_env :: "(unit, unit, audit_entry list) agent_env" where
  "example_agent_env = \<lparr>ae_insertAudit = (\<lambda>_ e. modifyM (\<lambda>d. d @ [e])), ae_onboard = None\<rparr>"

definition example_admin :: rbac_actor where
  "example_admin = \<lparr>actor_subject = ''root'', actor_userId = None\<rparr>"

lemmas example_agent_defs = example_agent_admin_def example_agent_env_def example_admin_def example_agent_def


section \<open>Onboarding\<close>

text \<open>What the administrator sees of a failed onboarding depends on the status of the answer only,
  never on the text of the error.\<close>

lemma translateOnboardError_statuses:
  "translateOnboardError (OrchestratorClientError m status) = translateOnboardError (OrchestratorClientError m' status)"
  "exn_category (translateOnboardError e) = (if \<exists>m. e = OrchestratorClientError m (Some 409) then CatConflict else CatValidation)"
  by (auto simp: translateOnboardError_def card_not_retrieved_def split: orchestrator_error.splits)

lemma onboard_failure:
  assumes "ae_onboard env = Some call"
    and "call (onboard_payload actor input) (oi_requestId input) (aa_orchestrator s) = (Inl e, w)"
  shows "fst (onboard env actor input s) = Inl (translateOnboardError e)"
    and "aa_orchestrator (snd (onboard env actor input s)) = w"
    and "aa_audit (snd (onboard env actor input s)) = snd (ae_insertAudit env actor
           (entry ''agent.onboard.failed'' ''agent'' (case oi_name input of Some n \<Rightarrow> n | None \<Rightarrow> oi_hostUrl input)
             (Some (JObj [(''hostUrl'', JStr (oi_hostUrl input)), (''reason'', JStr (failureReason e))]))) (aa_audit s))"
  using assms
  by (simp_all add: onboard_def on_orchestrator_client_def op_simps recordAudit_def split: prod.splits sum.splits)

lemma onboard_success:
  assumes "ae_onboard env = Some call"
    and "call (onboard_payload actor input) (oi_requestId input) (aa_orchestrator s) = (Inr res, w)"
  shows "fst (onboard env actor input s)
      = (case agent_findByName (or_name res) (sh_agents (og_remote w)) of
           Some row \<Rightarrow> Inr (toAgentRegistrationDto row)
         | None \<Rightarrow> Inl (not_found_error ''Onboarded agent could not be read back.''))"
    and "aa_orchestrator (snd (onboard env actor input s)) = w"
  using assms
  by (auto simp: onboard_def on_orchestrator_client_def op_simps recordAudit_def aa_agents_def
      split: prod.splits sum.splits option.splits)

lemma set_agent_enabled_best_effort:
  "fst (set_agent_enabled (env\<lparr>ae_insertAudit := f\<rparr>) actor name enabled s) = fst (set_agent_enabled env actor name enabled s)
   \<and> aa_orchestrator (snd (set_agent_enabled (env\<lparr>ae_insertAudit := f\<rparr>) actor name enabled s))
     = aa_orchestrator (snd (set_agent_enabled env actor name enabled s))"
  by (simp add: set_agent_enabled_def op_simps requireAdminSourceRow_apply recordAudit_def aa_agents_def
      split: option.splits prod.splits sum.splits)

lemma remove_agent_best_effort:
  "fst (remove_agent (env\<lparr>ae_insertAudit := f\<rparr>) actor name s) = fst (remove_agent env actor name s)
   \<and> aa_orchestrator (snd (remove_agent (env\<lparr>ae_insertAudit := f\<rparr>) actor name s))
     = aa_orchestrator (snd (remove_agent env actor name s))"
  by (simp add: remove_agent_def op_simps requireAdminSourceRow_apply recordAudit_def
      split: option.splits prod.splits sum.splits)

lemma onboard_best_effort:
  "fst (onboard (env\<lparr>ae_insertAudit := f\<rparr>) actor input s) = fst (onboard env actor input s)
   \<and> aa_orchestrator (snd (onboard (env\<lparr>ae_insertAudit := f\<rparr>) actor input s)) = aa_orchestrator (snd (onboard env actor input s))"
proof (cases "ae_onboard env")
  case (Some call)
  obtain r w where run: "call (onboard_payload actor input) (oi_requestId input) (aa_orchestrator s) = (r, w)"
    by (cases "call (onboard_payload actor input) (oi_requestId input) (aa_orchestrator s)")
  have Some': "ae_onboard (env\<lparr>ae_insertAudit := f\<rparr>) = Some call" using Some by simp
  show ?thesis
  proof (cases r)
    case (Inl e)
    with run have run: "call (onboard_payload actor input) (oi_requestId input) (aa_orchestrator s) = (Inl e, w)" by simp
    show ?thesis by (simp only: onboard_failure(1,2) [OF Some run] onboard_failure(1,2) [OF Some' run] simp_thms)
  next
    case (Inr res)
    with run have run: "call (onboard_payload actor input) (oi_requestId input) (aa_orchestrator s) = (Inr res, w)" by simp
    show ?thesis by (simp only: onboard_success [OF Some run] onboard_success [OF Some' run] simp_thms)
  qed
qed (simp add: onboard_def op_simps)

text \<open>What the caller of a mutation sees: its result, the agents, the tokens and the gateway.\<close>

definition agent_effect ::
  "(exn + 'a) \<times> ('w, 'g, 'd) agent_admin \<Rightarrow> (exn + 'a) \<times> ('w, 'g shared) orchestrator" where
  "agent_effect out = (fst out, aa_orchestrator (snd out))"

text \<open>Auditing is best effort. Whatever the insertion into the audit log does, failing included,
  every mutation of the registry of agents has the same result and the same effect on the agents,
  the tokens and the gateway.\<close>

theorem audit_best_effort:
  "agent_effect (set_agent_enabled (env\<lparr>ae_insertAudit := f\<rparr>) actor name enabled s)
     = agent_effect (set_agent_enabled env actor name enabled s)
   \<and> agent_effect (remove_agent (env\<lparr>ae_insertAudit := f\<rparr>) actor name s) = agent_effect (remove_agent env actor name s)
   \<and> agent_effect (onboard (env\<lparr>ae_insertAudit := f\<rparr>) actor input s) = agent_effect (onboard env actor input s)"
  by (simp add: agent_effect_def set_agent_enabled_best_effort remove_agent_best_effort onboard_best_effort)

end
