(* ===== verification/Tool_Gateway.thy ===== *)
theory Tool_Gateway
  imports Agent_Runs Capability_Executor
begin

text \<open>
  The internal tool gateway (\<open>api/src/modules/agent-runs/tool-gateway.service.ts\<close>): every call of
  the worker re-verifies the run's entitlement snapshot and re-gates the capability, then runs
  the executor on the business database and records the decision in the agents' audit log.
\<close>

definition WORKER_ACTOR :: string where
  "WORKER_ACTOR = ''nova-celery-worker''"

text \<open>What a gateway call draws from its environment.\<close>

record 'z gateway_env =
  ge_exec :: "'z exec_env"
  ge_sha256 :: "string \<Rightarrow> string"
  ge_registry :: rbac_registry

definition snapshot_payload_of :: "'x entitlement_snapshot_scheme \<Rightarrow> snapshot_payload" where
  "snapshot_payload_of e =
     \<lparr>sp_ownerSubject = es_ownerSubject e, sp_roles = es_roles e, sp_permissions = es_permissions e,
      sp_capabilityAllowlist = es_capabilityAllowlist e, sp_issuedAtEpochS = es_issuedAt e div 1000,
      sp_expiresAtEpochS = es_expiresAt e div 1000\<rparr>"

definition audit_of :: "agent_run \<Rightarrow> string \<Rightarrow> string option \<Rightarrow> audit_decision \<Rightarrow> string option \<Rightarrow> tool_audit" where
  "audit_of run action cap_opt decision reason =
     \<lparr>ta_runId = ar_id run, ta_ownerSubject = ar_ownerSubject run, ta_actor = WORKER_ACTOR,
      ta_action = action, ta_capability = cap_opt, ta_decision = decision, ta_reason = reason,
      ta_correlationId = None\<rparr>"

definition loadVerified ::
  "'z gateway_env \<Rightarrow> string \<Rightarrow> (('z, 'o) platform, agent_run \<times> run_entitlement) op" where
  "loadVerified env runId =
     bindM (getM (\<lambda>p. findRunWithEntitlement runId (pf_agents p))) (\<lambda>found.
     bindM (someM found (not_found_error ''Agent run not found.'')) (\<lambda>(run, entitlement).
     thenM (if computeSnapshotHash (ge_sha256 env) (snapshot_payload_of entitlement) \<noteq> es_snapshotHash entitlement
            then thenM (on_agents (recordToolAudit (audit_of run ''snapshot.verify'' None Deny (Some ''snapshot_hash_mismatch''))))
                   (throwM (forbidden_error ''Entitlement snapshot failed integrity verification.''))
            else returnM ())
     (thenM (guardM (es_expiresAt entitlement > xe_now (ge_exec env))
               (forbidden_error ''Entitlement snapshot has expired.''))
     (returnM (run, entitlement)))))"

definition authFromSnapshot :: "rbac_registry \<Rightarrow> 'x entitlement_snapshot_scheme \<Rightarrow> auth_context" where
  "authFromSnapshot R e =
     \<lparr>ac_subject = es_ownerSubject e, ac_issuer = [], ac_audience = [], ac_email = None,
      ac_username = None, ac_givenName = None, ac_familyName = None, ac_roles = knownRoles R (es_roles e),
      ac_permissions = js_set (es_permissions e), ac_scopes = [],
      ac_applicationUserId = Some (es_ownerUserId e)\<rparr>"

definition getPrompt :: "'z gateway_env \<Rightarrow> string \<Rightarrow> (('z, 'o) platform, string) op" where
  "getPrompt env runId =
     bindM (loadVerified env runId) (\<lambda>(run, entitlement).
     bindM (someM (some_id (ar_conversationId run)) (not_found_error ''Run has no associated conversation.'')) (\<lambda>conversationId.
     let messageId = last (js_split (CHR ''/'') (ar_promptRef run)) in
     bindM (getM (\<lambda>p. findMessageInConversation conversationId messageId (pf_nova p))) (\<lambda>found.
     bindM (someM found (not_found_error ''Prompt message not found.'')) (\<lambda>message.
     returnM (ms_text message)))))"

definition executeCapability ::
  "'z gateway_env \<Rightarrow> string \<Rightarrow> string \<Rightarrow> json option \<Rightarrow> (('z, 'o) platform, tool_call_result) op" where
  "executeCapability env runId capabilityId input =
     bindM (loadVerified env runId) (\<lambda>(run, entitlement).
     let capability = reg_getCapability (ge_registry env) capabilityId;
         permissionSet = js_set (es_permissions entitlement);
         granted = (case capability of None \<Rightarrow> False
                    | Some c \<Rightarrow> reg_permissionsSatisfyCapability c permissionSet) in
     if \<not> granted
     then thenM (on_agents (recordToolAudit (audit_of run ''tool.invoke'' (Some capabilityId) Deny
                   (Some (if capability = None then ''unknown_capability'' else ''missing_permission'')))))
            (throwM (forbidden_error ''The acting user is not entitled to this capability.''))
     else bindM (on_nova (execute (ge_exec env) capabilityId input (authFromSnapshot (ge_registry env) entitlement))) (\<lambda>r.
          thenM (on_agents (recordToolAudit (audit_of run ''tool.invoke'' (Some capabilityId) Allow None)))
            (returnM r)))"

definition finalizeRun ::
  "'z gateway_env \<Rightarrow> string \<Rightarrow> string \<Rightarrow> tool_link list \<Rightarrow> (('z, 'o) platform, string) op" where
  "finalizeRun env runId text links =
     bindM (loadVerified env runId) (\<lambda>(run, entitlement).
     bindM (someM (some_id (ar_conversationId run)) (not_found_error ''Run has no associated conversation.'')) (\<lambda>conversationId.
     bindM (on_nova (addMessage (xe_gen (ge_exec env))
       \<lparr>cmd_conversationId = conversationId, cmd_role = RoleAssistant, cmd_text = text,
        cmd_isMCPApps = (length links > 0),
        cmd_MCPAppLink = (case links of [] \<Rightarrow> None | l # _ \<Rightarrow> Some (tl_href l)),
        cmd_MCPActive = (if length links > 0 then Some True else None),
        cmd_createdDate = xe_now (ge_exec env)\<rparr>)) (\<lambda>message.
     let responseRef = nova_ref conversationId (ms_id message) in
     thenM (on_agents (setResponseRef (ar_id run) responseRef)) (returnM responseRef))))"

record entitlement_view =
  evw_runId :: string
  evw_ownerSubject :: string
  evw_roles :: "string list"
  evw_permissions :: "string list"
  evw_capabilityAllowlist :: "string list"
  evw_snapshotHash :: string
  evw_issuedAt :: int
  evw_expiresAt :: int

definition entitlement_view_of :: "string \<Rightarrow> 'x entitlement_snapshot_scheme \<Rightarrow> entitlement_view" where
  "entitlement_view_of runId e =
     \<lparr>evw_runId = runId, evw_ownerSubject = es_ownerSubject e, evw_roles = es_roles e,
      evw_permissions = es_permissions e, evw_capabilityAllowlist = es_capabilityAllowlist e,
      evw_snapshotHash = es_snapshotHash e, evw_issuedAt = es_issuedAt e, evw_expiresAt = es_expiresAt e\<rparr>"

definition getEntitlement :: "'z gateway_env \<Rightarrow> string \<Rightarrow> (('z, 'o) platform, entitlement_view) op" where
  "getEntitlement env runId =
     bindM (loadVerified env runId) (\<lambda>(run, entitlement). returnM (entitlement_view_of runId entitlement))"

section \<open>The gate\<close>

lemma agents_db_ok_audit [simp]: "agents_db_ok (db\<lparr>ag_audit := a\<rparr>) = agents_db_ok db"
  by (simp add: agents_db_ok_def)

definition with_audit :: "tool_audit list \<Rightarrow> ('z, 'o) platform \<Rightarrow> ('z, 'o) platform" where
  "with_audit log p = p\<lparr>pf_agents := (pf_agents p)\<lparr>ag_audit := ag_audit (pf_agents p) @ log\<rparr>\<rparr>"

lemma with_audit_simps [simp]:
  "with_audit [] p = p" "pf_nova (with_audit l p) = pf_nova p" "pf_orchestrator (with_audit l p) = pf_orchestrator p"
  "ag_audit (pf_agents (with_audit l p)) = ag_audit (pf_agents p) @ l"
  "ag_runs (pf_agents (with_audit l p)) = ag_runs (pf_agents p)"
  "ag_entitlements (pf_agents (with_audit l p)) = ag_entitlements (pf_agents p)"
  "agents_db_ok (pf_agents (with_audit l p)) = agents_db_ok (pf_agents p)"
  by (simp_all add: with_audit_def)

lemma record_audit:
  "agents_db_ok db \<Longrightarrow> recordToolAudit a db = (Inr (), db\<lparr>ag_audit := ag_audit db @ [a]\<rparr>)"
  by (simp add: recordToolAudit_def op_simps)

lemma with_audit_one: "with_audit [a] p = p\<lparr>pf_agents := (pf_agents p)\<lparr>ag_audit := ag_audit (pf_agents p) @ [a]\<rparr>\<rparr>"
  by (simp add: with_audit_def)

text \<open>What the gateway asks of a run before any operation.\<close>

definition snapshot_intact :: "(string \<Rightarrow> string) \<Rightarrow> 'x entitlement_snapshot_scheme \<Rightarrow> bool" where
  "snapshot_intact sha256 e \<longleftrightarrow> computeSnapshotHash sha256 (snapshot_payload_of e) = es_snapshotHash e"

definition verified_run :: "'z gateway_env \<Rightarrow> string \<Rightarrow> agents_db \<Rightarrow> agent_run \<Rightarrow> run_entitlement \<Rightarrow> bool" where
  "verified_run env runId db run e \<longleftrightarrow> findRunWithEntitlement runId db = Some (run, e)
     \<and> snapshot_intact (ge_sha256 env) e \<and> xe_now (ge_exec env) < es_expiresAt e"

lemma loadVerified_run:
  assumes "agents_db_ok (pf_agents p)"
  shows "loadVerified env runId p =
    (case findRunWithEntitlement runId (pf_agents p) of
       None \<Rightarrow> (Inl (not_found_error ''Agent run not found.''), p)
     | Some (run, e) \<Rightarrow>
         if \<not> snapshot_intact (ge_sha256 env) e
         then (Inl (forbidden_error ''Entitlement snapshot failed integrity verification.''),
               with_audit [audit_of run ''snapshot.verify'' None Deny (Some ''snapshot_hash_mismatch'')] p)
         else if es_expiresAt e \<le> xe_now (ge_exec env)
         then (Inl (forbidden_error ''Entitlement snapshot has expired.''), p)
         else (Inr (run, e), p))"
  using assms by (auto simp: loadVerified_def op_simps record_audit with_audit_one snapshot_intact_def split: option.splits)

lemma loadVerified_Inr_iff:
  assumes "agents_db_ok (pf_agents p)"
  shows "loadVerified env runId p = (Inr (run, e), p') \<longleftrightarrow> p' = p \<and> verified_run env runId (pf_agents p) run e"
  using assms by (auto simp: loadVerified_run verified_run_def split: option.splits)

lemma findRun_id: "findRunWithEntitlement runId db = Some (run, e) \<Longrightarrow> ar_id run = runId
    \<and> run \<in> set (ag_runs db) \<and> e \<in> set (ag_entitlements db) \<and> en_id e = ar_entitlementSnapshotId run"
  by (auto simp: findRunWithEntitlement_def dest!: find_SomeD split: option.splits)

lemma loadVerified_Inl:
  assumes "agents_db_ok (pf_agents p)" "loadVerified env runId p = (Inl x, p')"
  shows "\<exists>log. p' = with_audit log p \<and> length log \<le> 1 \<and> (\<forall>a \<in> set log. ta_decision a = Deny \<and> ta_runId a = runId)"
proof (cases "findRunWithEntitlement runId (pf_agents p)")
  case None
  with assms show ?thesis by (auto simp: loadVerified_run intro!: exI [of _ "[]"])
next
  case (Some re)
  then obtain run e where re: "re = (run, e)" "ar_id run = runId" by (metis findRun_id surj_pair)
  show ?thesis
  proof (cases "snapshot_intact (ge_sha256 env) e")
    case True
    with assms Some re show ?thesis by (auto simp: loadVerified_run split: if_splits intro!: exI [of _ "[]"])
  next
    case False
    with assms Some re have "p' = with_audit [audit_of run ''snapshot.verify'' None Deny (Some ''snapshot_hash_mismatch'')] p"
      by (simp add: loadVerified_run)
    with re show ?thesis by (intro exI [of _ "[_]"] conjI) (auto simp: audit_of_def)
  qed
qed

text \<open>A call on a verified run.\<close>

definition granted :: "rbac_registry \<Rightarrow> string list \<Rightarrow> string \<Rightarrow> bool" where
  "granted R permissions i \<longleftrightarrow>
     (\<exists>c. reg_getCapability R i = Some c \<and> reg_permissionsSatisfyCapability c permissions)"

lemma executeCapability_verified:
  assumes "agents_db_ok (pf_agents p)" and "verified_run env runId (pf_agents p) run e"
  shows "executeCapability env runId i input p =
    (if granted (ge_registry env) (js_set (es_permissions e)) i
     then (case execute (ge_exec env) i input (authFromSnapshot (ge_registry env) e) (pf_nova p) of
             (Inl x, db) \<Rightarrow> (Inl x, p\<lparr>pf_nova := db\<rparr>)
           | (Inr y, db) \<Rightarrow> (Inr y, with_audit [audit_of run ''tool.invoke'' (Some i) Allow None] (p\<lparr>pf_nova := db\<rparr>)))
     else (Inl (forbidden_error ''The acting user is not entitled to this capability.''),
           with_audit [audit_of run ''tool.invoke'' (Some i) Deny
             (Some (if reg_getCapability (ge_registry env) i = None then ''unknown_capability'' else ''missing_permission''))] p))"
proof -
  have "loadVerified env runId p = (Inr (run, e), p)" using assms by (simp add: loadVerified_Inr_iff)
  with assms(1) show ?thesis
    by (auto simp: executeCapability_def granted_def op_simps Let_def record_audit with_audit_one
        split: option.splits sum.splits prod.splits)
qed

lemma executeCapability_refused:
  "loadVerified env runId p = (Inl x, p') \<Longrightarrow> executeCapability env runId i input p = (Inl x, p')"
  by (simp add: executeCapability_def op_simps)


text \<open>The hash does not cover the application user a snapshot acts as.\<close>

lemma owner_user_not_hashed:
  "snapshot_intact sha256 (e\<lparr>es_ownerUserId := u\<rparr>) = snapshot_intact sha256 e"
  "ac_applicationUserId (authFromSnapshot R (e\<lparr>es_ownerUserId := u\<rparr>)) = Some u"
  by (simp_all add: snapshot_intact_def snapshot_payload_of_def authFromSnapshot_def)

section \<open>From submission to execution\<close>

lemma extend_fields [simp]:
  "es_ownerSubject (entitlement_snapshot.extend s m) = es_ownerSubject s"
  "es_ownerUserId (entitlement_snapshot.extend s m) = es_ownerUserId s"
  "es_roles (entitlement_snapshot.extend s m) = es_roles s"
  "es_permissions (entitlement_snapshot.extend s m) = es_permissions s"
  "es_capabilityAllowlist (entitlement_snapshot.extend s m) = es_capabilityAllowlist s"
  "es_snapshotHash (entitlement_snapshot.extend s m) = es_snapshotHash s"
  "es_issuedAt (entitlement_snapshot.extend s m) = es_issuedAt s"
  "es_expiresAt (entitlement_snapshot.extend s m) = es_expiresAt s"
  by (simp_all add: entitlement_snapshot.defs)

lemma extend_id [simp]: "en_id (entitlement_snapshot.extend s \<lparr>en_id = i\<rparr>) = i"
  by (simp add: entitlement_snapshot.defs)

lemma built_snapshot_intact: "snapshot_intact sha (buildEntitlementSnapshot sha s u rs ps f ttl now)"
  by (simp add: snapshot_intact_def snapshot_payload_of_def buildEntitlementSnapshot_def Let_def)

lemma extended_snapshot_intact: "snapshot_intact sha (entitlement_snapshot.extend s m) = snapshot_intact sha s"
  by (simp add: snapshot_intact_def snapshot_payload_of_def)

lemma find_last_row: "distinct (map f (xs @ [x])) \<Longrightarrow> find (\<lambda>y. f y = f x) (xs @ [x]) = Some x"
  by (rule find_key) auto

lemma run_create_found:
  assumes "run_create gen now d db = (Inr run, db')"
  shows "findRunWithEntitlement (ar_id run) db' =
    Some (run, entitlement_snapshot.extend (crd_snapshot d) \<lparr>en_id = ar_entitlementSnapshotId run\<rparr>)"
proof -
  let ?e = "entitlement_snapshot.extend (crd_snapshot d) \<lparr>en_id = ar_entitlementSnapshotId run\<rparr>"
  from run_create_ok [OF assms] have db': "ag_entitlements db' = ag_entitlements db @ [?e]"
      "ag_runs db' = ag_runs db @ [run]" "agents_db_ok db'" by auto
  have "find (\<lambda>r. ar_id r = ar_id run) (ag_runs db') = Some run"
    unfolding db'(2) by (rule find_last_row) (use db' in \<open>simp add: agents_db_ok_def\<close>)
  moreover have "find (\<lambda>e. en_id e = en_id ?e) (ag_entitlements db') = Some ?e"
    unfolding db'(1) by (rule find_last_row) (use db' in \<open>simp add: agents_db_ok_def\<close>)
  ultimately show ?thesis by (simp add: findRunWithEntitlement_def)
qed

text \<open>What a first submission under a key leaves for the gateway to find.\<close>

lemma createRun_new:
  assumes "nova_db_ok (pf_nova p)" and "createRun env input p = (Inr dto, p')"
    and "findByOwnerAndIdempotencyKey (ac_subject (cri_auth input)) (cri_idempotencyKey input) (pf_agents p) = None"
  shows "\<exists>u roles run (c :: conversation) m e. dto = toAgentRunDto run \<and> agents_db_ok (pf_agents p')
    \<and> resolved (cri_auth input) (u, roles) (pf_nova p')
    \<and> findRunWithEntitlement (ar_id run) (pf_agents p') = Some (run, e)
    \<and> e = entitlement_snapshot.extend (submitted_snapshot env input (us_id u)) \<lparr>en_id = ar_entitlementSnapshotId run\<rparr>
    \<and> ar_conversationId run = Some (cv_convId c) \<and> ar_promptRef run = nova_ref (cv_convId c) (ms_id m)
    \<and> m \<in> set (tb_messages (pf_nova p')) \<and> ms_conversationId m = cv_convId c \<and> ms_text m = cri_message input
    \<and> (\<exists>d. ms_id m = re_genNova env d) \<and> (cv_convId c \<noteq> [] \<or> (\<exists>d. cv_convId c = re_genNova env d)) \<and> nova_db_ok (pf_nova p') \<and> cv_userId c = us_id u"
proof -
  from createRun_cases [OF assms(2,1)] obtain u roles run c m nova1 where
      res: "resolved (cri_auth input) (u, roles) (pf_nova p')" "dto = toAgentRunDto run" "nova_db_ok (pf_nova p')"
      and sub: "submit_message env input (us_id u) nova1 = (Inr (c, m), pf_nova p')"
      and crt: "run_create (re_genAgents env) (re_now env)
          \<lparr>crd_ownerSubject = ac_subject (cri_auth input), crd_ownerUserId = us_id u,
           crd_conversationId = Some (cv_convId c), crd_promptRef = nova_ref (cv_convId c) (ms_id m),
           crd_idempotencyKey = cri_idempotencyKey input,
           crd_snapshot = submitted_snapshot env input (us_id u)\<rparr> (pf_agents p) = (Inr run, pf_agents p')"
    unfolding assms(3) by blast
  from submit_message_ok [OF sub] have m: "m \<in> set (tb_messages (pf_nova p'))" "ms_conversationId m = cv_convId c"
      "ms_text m = cri_message input" "\<exists>d. ms_id m = re_genNova env d" "cv_userId c = us_id u" by auto
  from submit_message_conversation [OF sub] have cid: "cv_convId c \<noteq> [] \<or> (\<exists>d. cv_convId c = re_genNova env d)" .
  from run_create_ok [OF crt] have "agents_db_ok (pf_agents p')" "ar_conversationId run = Some (cv_convId c)"
      "ar_promptRef run = nova_ref (cv_convId c) (ms_id m)" by auto
  with res m cid run_create_found [OF crt] show ?thesis by fastforce
qed

lemma nova_ref_last: "CHR ''/'' \<notin> set i \<Longrightarrow> last (js_split (CHR ''/'') (nova_ref c i)) = i"
  unfolding nova_ref_def using last_js_split_append [of "CHR ''/''" i "''nova-msg://'' @ c"] by simp

lemma message_found:
  assumes "nova_db_ok db" "m \<in> set (tb_messages db)"
  shows "findMessageInConversation (ms_conversationId m) (ms_id m) db = Some m"
proof -
  have "distinct (map ms_id (tb_messages db))" using assms(1) by (simp add: nova_db_ok_def keys_ok_def)
  then have "\<And>x. x \<in> set (tb_messages db) \<Longrightarrow> ms_id x = ms_id m \<Longrightarrow> x = m"
    using assms(2) by (auto simp: distinct_map dest: inj_onD)
  then show ?thesis using assms(2) unfolding findMessageInConversation_def
    by (metis (mono_tags, lifting) find_None_iff_all find_SomeD option.exhaust)
qed

text \<open>What the code relies on of a generated identifier (a UUID).\<close>

definition plain_id :: "string \<Rightarrow> bool" where
  "plain_id i \<longleftrightarrow> i \<noteq> [] \<and> CHR ''/'' \<notin> set i"


section \<open>The answer of a run\<close>

lemma agents_db_ok_patch:
  assumes "agents_db_ok db"
    and "\<And>r. (ar_id (f r), ar_ownerSubject (f r), ar_idempotencyKey (f r), ar_entitlementSnapshotId (f r))
          = (ar_id r, ar_ownerSubject r, ar_idempotencyKey r, ar_entitlementSnapshotId r)"
  shows "agents_db_ok (db\<lparr>ag_runs := patch_rows ar_id i f (ag_runs db)\<rparr>)"
proof -
  have "map ar_id (patch_rows ar_id i f (ag_runs db)) = map ar_id (ag_runs db)"
    by (rule patch_rows_field) (use assms(2) in simp)
  moreover have "map (\<lambda>r. (ar_ownerSubject r, ar_idempotencyKey r)) (patch_rows ar_id i f (ag_runs db))
      = map (\<lambda>r. (ar_ownerSubject r, ar_idempotencyKey r)) (ag_runs db)"
    by (rule patch_rows_field) (use assms(2) in simp)
  moreover have "list_all (\<lambda>r. ar_entitlementSnapshotId r \<in> X) (patch_rows ar_id i f (ag_runs db))
      = list_all (\<lambda>r. ar_entitlementSnapshotId r \<in> X) (ag_runs db)" for X
    using assms(2)
    by (simp add: patch_rows_def list.pred_map comp_def if_distrib [of ar_entitlementSnapshotId])
  ultimately show ?thesis using assms(1) by (simp add: agents_db_ok_def)
qed

lemma setResponseRef_ok:
  "agents_db_ok db \<Longrightarrow> setResponseRef i ref db = (Inr (), db\<lparr>ag_runs :=
     patch_rows ar_id i (\<lambda>r. r\<lparr>ar_responseRef := Some ref\<rparr>) (ag_runs db)\<rparr>)"
  by (simp add: setResponseRef_def op_simps agents_db_ok_patch)

lemma findByIdForOwner_own:
  assumes "agents_db_ok db" "r \<in> set (ag_runs db)"
  shows "findByIdForOwner (ar_id r) (ar_ownerSubject r) db = Some r"
proof -
  have "\<And>x. x \<in> set (ag_runs db) \<Longrightarrow> ar_id x = ar_id r \<Longrightarrow> x = r"
    using assms by (auto simp: agents_db_ok_def distinct_map dest: inj_onD)
  then show ?thesis using assms(2) unfolding findByIdForOwner_def
    by (metis (mono_tags, lifting) find_None_iff_all find_SomeD option.exhaust)
qed

lemma addMessage_ok:
  assumes "addMessage gen d db = (Inr m, db')"
  shows "db' = db\<lparr>tb_messages := tb_messages db @ [m]\<rparr> \<and> nova_db_ok db'
    \<and> m = \<lparr>ms_id = gen db, ms_conversationId = cmd_conversationId d, ms_role = cmd_role d, ms_text = cmd_text d,
              ms_isMCPApps = cmd_isMCPApps d, ms_MCPAppLink = cmd_MCPAppLink d,
              ms_MCPActive = cmd_MCPActive d, ms_createdDate = cmd_createdDate d\<rparr>"
  using assms by (auto simp: addMessage_def op_simps Let_def split: if_splits)

text \<open>C37: The answer of a run is readable by its owner only. Finalizing a verified run appends one
  assistant message with the given text to the run's conversation and pins it on the run, and
  nothing else; the owner's view of the run then names exactly that message, and anyone else is
  answered that the run does not exist.\<close>

theorem finalizeRun_readable:
  assumes "agents_db_ok (pf_agents p)" and "finalizeRun env runId text links p = (Inr ref, p')"
    and "\<forall>db. plain_id (xe_gen (ge_exec env) db)" and "ac_subject auth \<noteq> []"
  shows "\<exists>run e m. verified_run env runId (pf_agents p) run e
    \<and> pf_nova p' = (pf_nova p)\<lparr>tb_messages := tb_messages (pf_nova p) @ [m]\<rparr> \<and> nova_db_ok (pf_nova p')
    \<and> ms_text m = text \<and> ms_role m = RoleAssistant \<and> Some (ms_conversationId m) = ar_conversationId run
    \<and> (ms_MCPActive m = None \<longleftrightarrow> links = [])
    \<and> pf_agents p' = (pf_agents p)\<lparr>ag_runs := patch_rows ar_id runId (\<lambda>r. r\<lparr>ar_responseRef := Some ref\<rparr>) (ag_runs (pf_agents p))\<rparr>
    \<and> agents_db_ok (pf_agents p')
    \<and> (if ac_subject auth = ar_ownerSubject run
       then getRun runId auth p' = (Inr (toAgentRunDto run\<lparr>ard_responseMessageId := Some (ms_id m)\<rparr>), p')
       else \<exists>x. getRun runId auth p' = (Inl x, p'))"
proof -
  from assms(2) obtain run e where l: "loadVerified env runId p = (Inr (run, e), p)"
    by (auto simp: finalizeRun_def op_simps loadVerified_run [OF assms(1)] split: option.splits if_splits prod.splits sum.splits)
  with loadVerified_Inr_iff [OF assms(1)] have v: "verified_run env runId (pf_agents p) run e" by blast
  then have id: "ar_id run = runId" "run \<in> set (ag_runs (pf_agents p))" by (auto simp: verified_run_def dest: findRun_id)
  obtain cid where cid: "ar_conversationId run = Some cid" "some_id (ar_conversationId run) = Some cid"
    using assms(2) l by (auto simp: finalizeRun_def op_simps some_id_Some_iff split: option.splits)
  let ?d = "\<lparr>cmd_conversationId = cid, cmd_role = RoleAssistant, cmd_text = text,
        cmd_isMCPApps = (length links > 0),
        cmd_MCPAppLink = (case links of [] \<Rightarrow> None | l # _ \<Rightarrow> Some (tl_href l)),
        cmd_MCPActive = (if length links > 0 then Some True else None),
        cmd_createdDate = xe_now (ge_exec env)\<rparr>"
  obtain m db where add: "addMessage (xe_gen (ge_exec env)) ?d (pf_nova p) = (Inr m, db)"
    using assms(2) l cid(2)
    by (cases "addMessage (xe_gen (ge_exec env)) ?d (pf_nova p)"; cases "fst (addMessage (xe_gen (ge_exec env)) ?d (pf_nova p))")
      (auto simp: finalizeRun_def op_simps Let_def)
  have p': "ref = nova_ref cid (ms_id m)" "p' = p\<lparr>pf_nova := db,
      pf_agents := (pf_agents p)\<lparr>ag_runs := patch_rows ar_id runId (\<lambda>r. r\<lparr>ar_responseRef := Some ref\<rparr>) (ag_runs (pf_agents p))\<rparr>\<rparr>"
    using assms(2) l cid(2) add id(1)
    by (auto simp: finalizeRun_def op_simps Let_def setResponseRef_ok [OF assms(1)])
  from addMessage_ok [OF add] have m: "db = (pf_nova p)\<lparr>tb_messages := tb_messages (pf_nova p) @ [m]\<rparr>" "nova_db_ok db"
      "ms_text m = text" "ms_role m = RoleAssistant" "ms_conversationId m = cid"
      "ms_MCPActive m = None \<longleftrightarrow> links = []" "plain_id (ms_id m)"
    using assms(3) by auto
  have pf: "pf_nova p' = db" "pf_agents p' = (pf_agents p)\<lparr>ag_runs :=
      patch_rows ar_id runId (\<lambda>r. r\<lparr>ar_responseRef := Some ref\<rparr>) (ag_runs (pf_agents p))\<rparr>"
    by (simp_all add: p'(2))
  have c: "ar_conversationId run = Some cid" "ms_text m = text" "ms_role m = RoleAssistant" "ms_conversationId m = cid"
     "ms_MCPActive m = None \<longleftrightarrow> links = []" "plain_id (ms_id m)" "ref = nova_ref cid (ms_id m)"
     "pf_nova p' = (pf_nova p)\<lparr>tb_messages := tb_messages (pf_nova p) @ [m]\<rparr>" "nova_db_ok (pf_nova p')"
     "pf_agents p' = (pf_agents p)\<lparr>ag_runs := patch_rows ar_id runId (\<lambda>r. r\<lparr>ar_responseRef := Some ref\<rparr>) (ag_runs (pf_agents p))\<rparr>"
    unfolding pf by (fact cid(1) m p'(1) refl)+
  have ok: "agents_db_ok (pf_agents p')" unfolding c(10) by (rule agents_db_ok_patch [OF assms(1)]) simp
  let ?f = "\<lambda>r. r\<lparr>ar_responseRef := Some ref\<rparr>"
  have own: "findByIdForOwner runId s (pf_agents p') =
      (if s = ar_ownerSubject run then Some (?f run) else None)" for s
  proof -
    have "findByIdForOwner runId s (pf_agents p) = (if s = ar_ownerSubject run then Some run else None)"
      using findByIdForOwner_foreign [OF assms(1) id(2)] findByIdForOwner_own [OF assms(1) id(2)] id(1) by auto
    moreover have "findByIdForOwner runId s (pf_agents p') = map_option ?f (findByIdForOwner runId s (pf_agents p))"
      unfolding findByIdForOwner_def c(10) by (simp, subst find_patched) auto
    ultimately show ?thesis by simp
  qed
  have "responseMessageIdFrom (Some ref) = Some (ms_id m)"
    using c(6,7) nova_ref_last [of "ms_id m" cid]
    by (auto simp: responseMessageIdFrom_def some_id_def plain_id_def nova_ref_def)
  then have "toAgentRunDto (?f run) = toAgentRunDto run\<lparr>ard_responseMessageId := Some (ms_id m)\<rparr>"
    by (simp add: toAgentRunDto_def)
  then have own_run: "if ac_subject auth = ar_ownerSubject run
       then getRun runId auth p' = (Inr (toAgentRunDto run\<lparr>ard_responseMessageId := Some (ms_id m)\<rparr>), p')
       else \<exists>x. getRun runId auth p' = (Inl x, p')"
    using assms(4) own by (simp add: getRun_def requireOwnedRun_cases op_simps)
  have conv: "Some (ms_conversationId m) = ar_conversationId run" by (simp add: c)
  show ?thesis by (intro exI conjI) (fact v c ok conv own_run)+
qed

section \<open>Examples\<close>

definition example_gateway :: "unit gateway_env" where
  "example_gateway = \<lparr>ge_exec = example_exec_env\<lparr>xe_gen := (\<lambda>db. replicate (length (tb_messages db) + 20) (CHR ''m''))\<rparr>,
     ge_sha256 = (\<lambda>s. s), ge_registry = fromStaticCatalog\<rparr>"


lemma example_fresh_key:
  "findByOwnerAndIdempotencyKey (ac_subject (cri_auth example_input)) (cri_idempotencyKey example_input)
     (pf_agents example_platform) = None"
  by code_simp

lemma example_not_expired:
  "\<not> (re_now example_run_env div 1000 + re_runTtlSeconds example_run_env) * 1000 \<le> xe_now (ge_exec example_gateway)"
  by code_simp

lemma example_same_platform:
  "ge_sha256 example_gateway = re_sha256 example_run_env" "ge_registry example_gateway = re_registry example_run_env"
  by (simp_all add: example_gateway_def example_run_env_def)

lemma example_plain_ids:
  "\<forall>db. plain_id (re_genNova example_run_env db)" "\<forall>db. plain_id (xe_gen (ge_exec example_gateway) db)"
  by (auto simp: plain_id_def example_run_env_def example_gateway_def)

lemma example_registry_wf: "registry_wf (re_registry example_run_env)"
  by (simp add: example_run_env_def fromStaticCatalog_wf)


definition example_submitted :: "(unit, unit) platform" where
  "example_submitted = snd (createRun example_run_env example_input example_platform)"

lemma example_finalized:
  "agents_db_ok (pf_agents example_submitted)"
  "\<not> isl (fst (finalizeRun example_gateway (replicate 7 (CHR ''y'')) ''hi'' [] example_submitted))"
  by code_simp+

theorem finalizeRun_readable_witness:
  "\<exists>ref p'. finalizeRun example_gateway (replicate 7 (CHR ''y'')) ''hi'' [] example_submitted = (Inr ref, p')
     \<and> nova_db_ok (pf_nova p') \<and> agents_db_ok (pf_agents p')"
proof -
  from succeeds [OF example_finalized(2)] obtain ref p' where
    r: "finalizeRun example_gateway (replicate 7 (CHR ''y'')) ''hi'' [] example_submitted = (Inr ref, p')" by blast
  have "ac_subject example_auth \<noteq> []" by (simp add: example_auth_def)
  from finalizeRun_readable [OF example_finalized(1) r example_plain_ids(2) this] r show ?thesis by blast
qed

end
