(* ===== verification/Api_Routes.thy ===== *)
theory Api_Routes
  imports Authz
begin

text \<open>
  The routers of \<open>api/src/modules\<close> and the route policies they declare. A router is the list of its
  routes in the order of their registration: method, path, guard, schemas, handler.
\<close>

section \<open>Routes\<close>

datatype http_method = GET | POST | PUT | PATCH | DELETE | OtherMethod string

datatype path_segment = Lit string | Param string

text \<open>What a verifier of service tokens is configured with.\<close>

record service_verifier =
  sv_audience :: "string list"
  sv_authorizedParties :: "string list"

text \<open>The middleware before the handler: \<open>authorize(policy)\<close> alone, \<open>authenticate\<close> then
  \<open>authorize(policy)\<close>, or a service authenticator.\<close>

datatype route_guard =
  GuardPolicy route_access_policy
| GuardUser route_access_policy
| GuardService service_verifier

text \<open>\<open>RequestSchemas\<close> of \<open>http/validate.ts\<close>, by the names of the schemas.\<close>

record request_schemas =
  rs_params :: "string option"
  rs_query :: "string option"
  rs_body :: "string option"

record route =
  rt_method :: http_method
  rt_path :: "path_segment list"
  rt_guard :: route_guard
  rt_schemas :: request_schemas
  rt_handler :: string

abbreviation schemas :: "string option \<Rightarrow> string option \<Rightarrow> string option \<Rightarrow> request_schemas" where
  "schemas p q b \<equiv> \<lparr>rs_params = p, rs_query = q, rs_body = b\<rparr>"

abbreviation route :: "http_method \<Rightarrow> path_segment list \<Rightarrow> route_guard \<Rightarrow> request_schemas \<Rightarrow> string \<Rightarrow> route" where
  "route m p g s h \<equiv> \<lparr>rt_method = m, rt_path = p, rt_guard = g, rt_schemas = s, rt_handler = h\<rparr>"

section \<open>The routers\<close>

text \<open>\<open>health/health.routes.ts\<close>\<close>

definition livenessPolicy :: route_access_policy where
  "livenessPolicy = PublicRoute ''health.live''"

definition readinessPolicy :: route_access_policy where
  "readinessPolicy = PublicRoute ''health.ready''"

definition createHealthRouter :: "route list" where
  "createHealthRouter =
     [route GET [Lit ''live''] (GuardPolicy livenessPolicy) (schemas None None None) ''health.live'',
      route GET [Lit ''ready''] (GuardPolicy readinessPolicy) (schemas None None None) ''health.ready'']"

text \<open>\<open>me/me.routes.ts\<close>\<close>

definition mePolicy :: route_access_policy where
  "mePolicy = AuthenticatedRoute ''auth.me'' None"

definition createMeRouter :: "route list" where
  "createMeRouter =
     [route GET [Lit ''me''] (GuardUser mePolicy) (schemas None None None) ''MeController.me'']"

text \<open>\<open>customers/customer.routes.ts\<close>\<close>

definition listCustomersPolicy :: route_access_policy where
  "listCustomersPolicy = PermissionRoute ''customers.list'' ''read-customers'' (Some True)"

definition getCustomerPolicy :: route_access_policy where
  "getCustomerPolicy = PermissionRoute ''customers.get'' ''read-customers'' (Some True)"

definition createCustomerRouter :: "route list" where
  "createCustomerRouter =
     [route GET [] (GuardUser listCustomersPolicy) (schemas None (Some ''listCustomersQuerySchema'') None) ''CustomerController.list'',
      route GET [Param ''id''] (GuardUser getCustomerPolicy) (schemas (Some ''customerIdParamsSchema'') None None) ''CustomerController.getById'']"

text \<open>\<open>products/product.routes.ts\<close>\<close>

definition listProductsPolicy :: route_access_policy where
  "listProductsPolicy = PermissionRoute ''products.list'' ''read-sales'' (Some True)"

definition createProductRouter :: "route list" where
  "createProductRouter =
     [route GET [] (GuardUser listProductsPolicy) (schemas None (Some ''listProductsQuerySchema'') None) ''ProductController.list'']"

text \<open>\<open>sales/sale.routes.ts\<close>\<close>

definition listSalesPolicy :: route_access_policy where
  "listSalesPolicy = PermissionRoute ''sales.list'' ''read-sales'' (Some True)"

definition getSalePolicy :: route_access_policy where
  "getSalePolicy = PermissionRoute ''sales.get'' ''read-sales'' (Some True)"

definition createSalePolicy :: route_access_policy where
  "createSalePolicy = PermissionRoute ''sales.create'' ''write-sales'' (Some True)"

definition createSaleRouter :: "route list" where
  "createSaleRouter =
     [route GET [] (GuardUser listSalesPolicy) (schemas None (Some ''listSalesQuerySchema'') None) ''SaleController.list'',
      route POST [] (GuardUser createSalePolicy) (schemas None None (Some ''createSaleBodySchema'')) ''SaleController.create'',
      route GET [Param ''id''] (GuardUser getSalePolicy) (schemas (Some ''saleIdParamsSchema'') None None) ''SaleController.getById'']"

text \<open>\<open>issues/issue.routes.ts\<close>\<close>

definition listIssuesPolicy :: route_access_policy where
  "listIssuesPolicy = PermissionRoute ''issues.list'' ''read-issues'' (Some True)"

definition getIssuePolicy :: route_access_policy where
  "getIssuePolicy = PermissionRoute ''issues.get'' ''read-issues'' (Some True)"

definition createIssuePolicy :: route_access_policy where
  "createIssuePolicy = PermissionRoute ''issues.create'' ''create-issues'' (Some True)"

definition updateIssuePolicy :: route_access_policy where
  "updateIssuePolicy = PermissionRoute ''issues.update'' ''write-issues'' (Some True)"

definition createIssueRouter :: "route list" where
  "createIssueRouter =
     [route GET [] (GuardUser listIssuesPolicy) (schemas None (Some ''listIssuesQuerySchema'') None) ''IssueController.list'',
      route POST [] (GuardUser createIssuePolicy) (schemas None None (Some ''createIssueBodySchema'')) ''IssueController.create'',
      route GET [Param ''id''] (GuardUser getIssuePolicy) (schemas (Some ''issueIdParamsSchema'') None None) ''IssueController.getById'',
      route PATCH [Param ''id''] (GuardUser updateIssuePolicy) (schemas (Some ''issueIdParamsSchema'') None (Some ''updateIssueBodySchema'')) ''IssueController.update'']"

text \<open>\<open>actions/action.routes.ts\<close>\<close>

definition createActionPolicy :: route_access_policy where
  "createActionPolicy = PermissionRoute ''actions.create'' ''create-actions'' (Some True)"

definition listActionsPolicy :: route_access_policy where
  "listActionsPolicy = PermissionRoute ''actions.list'' ''read-actions'' (Some True)"

definition updateActionPolicy :: route_access_policy where
  "updateActionPolicy = PermissionRoute ''actions.update'' ''write-actions'' (Some True)"

definition addCommentPolicy :: route_access_policy where
  "addCommentPolicy = PermissionRoute ''actions.addComment'' ''write-actions'' (Some True)"

definition createActionRouter :: "route list" where
  "createActionRouter =
     [route POST [] (GuardUser createActionPolicy) (schemas None None (Some ''createActionBodySchema'')) ''ActionController.create'',
      route GET [] (GuardUser listActionsPolicy) (schemas None (Some ''listActionsQuerySchema'') None) ''ActionController.list'',
      route PATCH [Param ''id''] (GuardUser updateActionPolicy) (schemas (Some ''actionIdParamsSchema'') None (Some ''updateActionBodySchema'')) ''ActionController.update'',
      route POST [Param ''id'', Lit ''comments''] (GuardUser addCommentPolicy) (schemas (Some ''actionIdParamsSchema'') None (Some ''addCommentBodySchema'')) ''ActionController.addComment'']"

text \<open>\<open>sops/sop.routes.ts\<close>\<close>

definition listSopsPolicy :: route_access_policy where
  "listSopsPolicy = PermissionRoute ''sops.list'' ''read-sop'' (Some True)"

definition getSopPolicy :: route_access_policy where
  "getSopPolicy = PermissionRoute ''sops.get'' ''read-sop'' (Some True)"

definition createSopPolicy :: route_access_policy where
  "createSopPolicy = PermissionRoute ''sops.create'' ''write-sop'' (Some True)"

definition updateSopPolicy :: route_access_policy where
  "updateSopPolicy = PermissionRoute ''sops.update'' ''write-sop'' (Some True)"

definition addVersionPolicy :: route_access_policy where
  "addVersionPolicy = PermissionRoute ''sops.addVersion'' ''write-sop'' (Some True)"

definition createSopRouter :: "route list" where
  "createSopRouter =
     [route GET [] (GuardUser listSopsPolicy) (schemas None (Some ''listSopsQuerySchema'') None) ''SopController.list'',
      route POST [] (GuardUser createSopPolicy) (schemas None None (Some ''createSopBodySchema'')) ''SopController.create'',
      route GET [Param ''id''] (GuardUser getSopPolicy) (schemas (Some ''sopIdParamsSchema'') None None) ''SopController.getById'',
      route PATCH [Param ''id''] (GuardUser updateSopPolicy) (schemas (Some ''sopIdParamsSchema'') None (Some ''updateSopBodySchema'')) ''SopController.update'',
      route POST [Param ''id'', Lit ''versions''] (GuardUser addVersionPolicy) (schemas (Some ''sopIdParamsSchema'') None (Some ''createSopVersionBodySchema'')) ''SopController.addVersion'']"

text \<open>\<open>admin/admin.routes.ts\<close>\<close>

definition listUsersPolicy :: route_access_policy where
  "listUsersPolicy = PermissionRoute ''admin.users.list'' ''read-users'' (Some True)"

definition getUserPolicy :: route_access_policy where
  "getUserPolicy = PermissionRoute ''admin.users.get'' ''read-users'' (Some True)"

definition createUserPolicy :: route_access_policy where
  "createUserPolicy = PermissionRoute ''admin.users.create'' ''write-users'' (Some True)"

definition updateUserPolicy :: route_access_policy where
  "updateUserPolicy = PermissionRoute ''admin.users.update'' ''write-users'' (Some True)"

definition setRolesPolicy :: route_access_policy where
  "setRolesPolicy = PermissionRoute ''admin.users.setRoles'' ''write-users'' (Some True)"

definition syncUserPolicy :: route_access_policy where
  "syncUserPolicy = PermissionRoute ''admin.users.syncKeycloak'' ''write-users'' (Some True)"

definition listRolesPolicy :: route_access_policy where
  "listRolesPolicy = PermissionRoute ''admin.roles.list'' ''read-permissions'' (Some True)"

definition listPermissionsPolicy :: route_access_policy where
  "listPermissionsPolicy = PermissionRoute ''admin.permissions.list'' ''read-permissions'' (Some True)"

definition matrixPolicy :: route_access_policy where
  "matrixPolicy = PermissionRoute ''admin.rolePermissions.get'' ''read-permissions'' (Some True)"

definition listCapabilitiesPolicy :: route_access_policy where
  "listCapabilitiesPolicy = PermissionRoute ''admin.capabilities.list'' ''read-permissions'' (Some True)"

definition listRoutePoliciesPolicy :: route_access_policy where
  "listRoutePoliciesPolicy = PermissionRoute ''admin.routePolicies.list'' ''read-permissions'' (Some True)"

definition listViewPermissionsPolicy :: route_access_policy where
  "listViewPermissionsPolicy = PermissionRoute ''admin.viewPermissions.list'' ''read-permissions'' (Some True)"

definition createRolePolicy :: route_access_policy where
  "createRolePolicy = PermissionRoute ''admin.roles.create'' ''write-permissions'' (Some True)"

definition updateRolePolicy :: route_access_policy where
  "updateRolePolicy = PermissionRoute ''admin.roles.update'' ''write-permissions'' (Some True)"

definition deleteRolePolicy :: route_access_policy where
  "deleteRolePolicy = PermissionRoute ''admin.roles.delete'' ''write-permissions'' (Some True)"

definition setRolePermissionsPolicy :: route_access_policy where
  "setRolePermissionsPolicy = PermissionRoute ''admin.roles.setPermissions'' ''write-permissions'' (Some True)"

definition createPermissionPolicy :: route_access_policy where
  "createPermissionPolicy = PermissionRoute ''admin.permissions.create'' ''write-permissions'' (Some True)"

definition updatePermissionPolicy :: route_access_policy where
  "updatePermissionPolicy = PermissionRoute ''admin.permissions.update'' ''write-permissions'' (Some True)"

definition deletePermissionPolicy :: route_access_policy where
  "deletePermissionPolicy = PermissionRoute ''admin.permissions.delete'' ''write-permissions'' (Some True)"

definition createCapabilityPolicy :: route_access_policy where
  "createCapabilityPolicy = PermissionRoute ''admin.capabilities.create'' ''write-permissions'' (Some True)"

definition updateCapabilityPolicy :: route_access_policy where
  "updateCapabilityPolicy = PermissionRoute ''admin.capabilities.update'' ''write-permissions'' (Some True)"

definition deleteCapabilityPolicy :: route_access_policy where
  "deleteCapabilityPolicy = PermissionRoute ''admin.capabilities.delete'' ''write-permissions'' (Some True)"

definition updateRoutePolicyPolicy :: route_access_policy where
  "updateRoutePolicyPolicy = PermissionRoute ''admin.routePolicies.update'' ''write-permissions'' (Some True)"

definition updateViewPermissionPolicy :: route_access_policy where
  "updateViewPermissionPolicy = PermissionRoute ''admin.viewPermissions.update'' ''write-permissions'' (Some True)"

definition createAdminRouter :: "route list" where
  "createAdminRouter =
     [route GET [Lit ''users''] (GuardUser listUsersPolicy) (schemas None (Some ''listUsersQuerySchema'') None) ''AdminUserController.list'',
      route POST [Lit ''users''] (GuardUser createUserPolicy) (schemas None None (Some ''createUserBodySchema'')) ''AdminUserController.create'',
      route GET [Lit ''users'', Param ''id''] (GuardUser getUserPolicy) (schemas (Some ''userIdParamsSchema'') None None) ''AdminUserController.getById'',
      route PATCH [Lit ''users'', Param ''id''] (GuardUser updateUserPolicy) (schemas (Some ''userIdParamsSchema'') None (Some ''updateUserBodySchema'')) ''AdminUserController.update'',
      route PUT [Lit ''users'', Param ''id'', Lit ''roles''] (GuardUser setRolesPolicy) (schemas (Some ''userIdParamsSchema'') None (Some ''setRolesBodySchema'')) ''AdminUserController.setRoles'',
      route POST [Lit ''users'', Param ''id'', Lit ''sync-keycloak''] (GuardUser syncUserPolicy) (schemas (Some ''userIdParamsSchema'') None None) ''AdminUserController.syncKeycloak'',
      route GET [Lit ''roles''] (GuardUser listRolesPolicy) (schemas None None None) ''RbacController.listRoles'',
      route GET [Lit ''permissions''] (GuardUser listPermissionsPolicy) (schemas None None None) ''RbacController.listPermissions'',
      route GET [Lit ''role-permissions''] (GuardUser matrixPolicy) (schemas None None None) ''RbacController.getMatrix'',
      route GET [Lit ''capabilities''] (GuardUser listCapabilitiesPolicy) (schemas None None None) ''RbacController.listCapabilities'',
      route GET [Lit ''route-policies''] (GuardUser listRoutePoliciesPolicy) (schemas None None None) ''RbacController.listRoutePolicies'',
      route GET [Lit ''view-permissions''] (GuardUser listViewPermissionsPolicy) (schemas None None None) ''RbacController.listViewPermissions'',
      route POST [Lit ''roles''] (GuardUser createRolePolicy) (schemas None None (Some ''createRoleBodySchema'')) ''RbacAdminController.createRole'',
      route PATCH [Lit ''roles'', Param ''name''] (GuardUser updateRolePolicy) (schemas (Some ''roleNameParamsSchema'') None (Some ''updateRoleBodySchema'')) ''RbacAdminController.updateRole'',
      route DELETE [Lit ''roles'', Param ''name''] (GuardUser deleteRolePolicy) (schemas (Some ''roleNameParamsSchema'') None None) ''RbacAdminController.deleteRole'',
      route PUT [Lit ''roles'', Param ''name'', Lit ''permissions''] (GuardUser setRolePermissionsPolicy) (schemas (Some ''roleNameParamsSchema'') None (Some ''setRolePermissionsBodySchema'')) ''RbacAdminController.setRolePermissions'',
      route POST [Lit ''permissions''] (GuardUser createPermissionPolicy) (schemas None None (Some ''createPermissionBodySchema'')) ''RbacAdminController.createPermission'',
      route PATCH [Lit ''permissions'', Param ''name''] (GuardUser updatePermissionPolicy) (schemas (Some ''permissionNameParamsSchema'') None (Some ''updatePermissionBodySchema'')) ''RbacAdminController.updatePermission'',
      route DELETE [Lit ''permissions'', Param ''name''] (GuardUser deletePermissionPolicy) (schemas (Some ''permissionNameParamsSchema'') None None) ''RbacAdminController.deletePermission'',
      route POST [Lit ''capabilities''] (GuardUser createCapabilityPolicy) (schemas None None (Some ''createCapabilityBodySchema'')) ''RbacAdminController.createCapability'',
      route PATCH [Lit ''capabilities'', Param ''id''] (GuardUser updateCapabilityPolicy) (schemas (Some ''capabilityIdParamsSchema'') None (Some ''updateCapabilityBodySchema'')) ''RbacAdminController.updateCapability'',
      route DELETE [Lit ''capabilities'', Param ''id''] (GuardUser deleteCapabilityPolicy) (schemas (Some ''capabilityIdParamsSchema'') None None) ''RbacAdminController.deleteCapability'',
      route PATCH [Lit ''route-policies'', Param ''routeId''] (GuardUser updateRoutePolicyPolicy) (schemas (Some ''routeIdParamsSchema'') None (Some ''updateRoutePolicyBodySchema'')) ''RbacAdminController.updateRoutePolicy'',
      route PATCH [Lit ''view-permissions'', Param ''viewName'', Param ''mode''] (GuardUser updateViewPermissionPolicy) (schemas (Some ''viewPermissionParamsSchema'') None (Some ''updateViewPermissionBodySchema'')) ''RbacAdminController.updateViewPermission'']"

text \<open>\<open>rbac/rbac-registry.routes.ts\<close>\<close>

definition registryPolicy :: route_access_policy where
  "registryPolicy = AuthenticatedRoute ''rbac.registry.get'' None"

definition createRbacRegistryRouter :: "route list" where
  "createRbacRegistryRouter =
     [route GET [Lit ''registry''] (GuardUser registryPolicy) (schemas None None None) ''RbacRegistryController.get'']"

text \<open>\<open>rbac/internal-rbac-registry.routes.ts\<close>\<close>

definition createInternalRbacRegistryRouter :: "service_verifier \<Rightarrow> route list" where
  "createInternalRbacRegistryRouter serviceAuthenticate =
     [route GET [Lit ''registry''] (GuardService serviceAuthenticate) (schemas None None None) ''RbacRegistryController.get'']"

text \<open>\<open>chat/chat.routes.ts\<close>\<close>

definition listConversationsPolicy :: route_access_policy where
  "listConversationsPolicy = AuthenticatedRoute ''conversations.list'' None"

definition createConversationPolicy :: route_access_policy where
  "createConversationPolicy = AuthenticatedRoute ''conversations.create'' None"

definition getConversationPolicy :: route_access_policy where
  "getConversationPolicy = AuthenticatedRoute ''conversations.get'' None"

definition createConversationsRouter :: "route list" where
  "createConversationsRouter =
     [route GET [] (GuardUser listConversationsPolicy) (schemas None None None) ''ChatController.listConversations'',
      route POST [] (GuardUser createConversationPolicy) (schemas None None None) ''ChatController.createConversation'',
      route GET [Param ''id''] (GuardUser getConversationPolicy) (schemas (Some ''conversationIdParamsSchema'') None None) ''ChatController.getConversation'']"

text \<open>\<open>agent-runs/agent-run.routes.ts\<close>\<close>

definition agentChatPolicy :: route_access_policy where
  "agentChatPolicy = PermissionRoute ''a2a.chat'' ''create-agent-run'' (Some True)"

definition getRunPolicy :: route_access_policy where
  "getRunPolicy = PermissionRoute ''agent-runs.get'' ''read-agent-run'' (Some True)"

definition streamEventsPolicy :: route_access_policy where
  "streamEventsPolicy = PermissionRoute ''agent-runs.events'' ''read-agent-run'' (Some True)"

definition cancelRunPolicy :: route_access_policy where
  "cancelRunPolicy = PermissionRoute ''agent-runs.cancel'' ''cancel-agent-run'' (Some True)"

definition createA2aChatRouter :: "route list" where
  "createA2aChatRouter =
     [route POST [Lit ''chat''] (GuardUser agentChatPolicy) (schemas None None (Some ''createAgentRunBodySchema'')) ''AgentRunController.create'']"

definition createAgentRunRouter :: "route list" where
  "createAgentRunRouter =
     [route GET [] (GuardUser getRunPolicy) (schemas None (Some ''listRunsQuerySchema'') None) ''AgentRunController.list'',
      route GET [Param ''runId''] (GuardUser getRunPolicy) (schemas (Some ''runIdParamsSchema'') None None) ''AgentRunController.getById'',
      route GET [Param ''runId'', Lit ''events''] (GuardUser streamEventsPolicy) (schemas (Some ''runIdParamsSchema'') (Some ''listEventsQuerySchema'') None) ''AgentRunController.streamEvents'',
      route GET [Param ''runId'', Lit ''trace''] (GuardUser streamEventsPolicy) (schemas (Some ''runIdParamsSchema'') (Some ''traceQuerySchema'') None) ''AgentRunController.getTrace'',
      route POST [Param ''runId'', Lit ''cancel''] (GuardUser cancelRunPolicy) (schemas (Some ''runIdParamsSchema'') None None) ''AgentRunController.cancel'']"

text \<open>\<open>agent-runs/tool-gateway.routes.ts\<close>\<close>

definition createToolGatewayRouter :: "service_verifier \<Rightarrow> service_verifier \<Rightarrow> route list" where
  "createToolGatewayRouter serviceAuthenticate entitlementAuthenticate =
     [route GET [Param ''runId'', Lit ''prompt''] (GuardService serviceAuthenticate) (schemas (Some ''toolCallParamsSchema'') None None) ''ToolGatewayController.getPrompt'',
      route GET [Param ''runId'', Lit ''entitlement''] (GuardService entitlementAuthenticate) (schemas (Some ''toolCallParamsSchema'') None None) ''ToolGatewayController.getEntitlement'',
      route POST [Param ''runId'', Lit ''tool-calls''] (GuardService serviceAuthenticate) (schemas (Some ''toolCallParamsSchema'') None (Some ''toolCallBodySchema'')) ''ToolGatewayController.execute'',
      route POST [Param ''runId'', Lit ''finalize''] (GuardService serviceAuthenticate) (schemas (Some ''toolCallParamsSchema'') None (Some ''finalizeBodySchema'')) ''ToolGatewayController.finalize'']"

text \<open>\<open>admin-agents/admin-agent.routes.ts\<close>\<close>

definition listAgentsPolicy :: route_access_policy where
  "listAgentsPolicy = PermissionRoute ''admin.agents.list'' ''read-agents'' (Some True)"

definition getAgentPolicy :: route_access_policy where
  "getAgentPolicy = PermissionRoute ''admin.agents.get'' ''read-agents'' (Some True)"

definition onboardAgentPolicy :: route_access_policy where
  "onboardAgentPolicy = PermissionRoute ''admin.agents.onboard'' ''write-agents'' (Some True)"

definition setEnabledPolicy :: route_access_policy where
  "setEnabledPolicy = PermissionRoute ''admin.agents.setEnabled'' ''write-agents'' (Some True)"

definition removeAgentPolicy :: route_access_policy where
  "removeAgentPolicy = PermissionRoute ''admin.agents.remove'' ''write-agents'' (Some True)"

definition createAdminAgentRouter :: "route list" where
  "createAdminAgentRouter =
     [route GET [] (GuardUser listAgentsPolicy) (schemas None None None) ''AdminAgentController.list'',
      route POST [Lit ''onboard''] (GuardUser onboardAgentPolicy) (schemas None None (Some ''onboardAgentBodySchema'')) ''AdminAgentController.onboard'',
      route GET [Param ''name''] (GuardUser getAgentPolicy) (schemas (Some ''agentNameParamsSchema'') None None) ''AdminAgentController.get'',
      route PATCH [Param ''name''] (GuardUser setEnabledPolicy) (schemas (Some ''agentNameParamsSchema'') None (Some ''setAgentEnabledBodySchema'')) ''AdminAgentController.setEnabled'',
      route DELETE [Param ''name''] (GuardUser removeAgentPolicy) (schemas (Some ''agentNameParamsSchema'') None None) ''AdminAgentController.remove'']"

section \<open>The declared policies\<close>

text \<open>The policies in the order in which the imports of \<open>app.ts\<close> evaluate the modules; loading them
  registers each.\<close>

definition declared_policies :: "route_access_policy list" where
  "declared_policies =
      [livenessPolicy, readinessPolicy]
      @ [mePolicy]
      @ [listCustomersPolicy, getCustomerPolicy]
      @ [listProductsPolicy]
      @ [listSalesPolicy, getSalePolicy, createSalePolicy]
      @ [listIssuesPolicy, getIssuePolicy, createIssuePolicy, updateIssuePolicy]
      @ [createActionPolicy, listActionsPolicy, updateActionPolicy, addCommentPolicy]
      @ [listSopsPolicy, getSopPolicy, createSopPolicy, updateSopPolicy, addVersionPolicy]
      @ [listUsersPolicy, getUserPolicy, createUserPolicy, updateUserPolicy, setRolesPolicy, syncUserPolicy,
       listRolesPolicy, listPermissionsPolicy, matrixPolicy, listCapabilitiesPolicy,
       listRoutePoliciesPolicy, listViewPermissionsPolicy, createRolePolicy, updateRolePolicy,
       deleteRolePolicy, setRolePermissionsPolicy, createPermissionPolicy, updatePermissionPolicy,
       deletePermissionPolicy, createCapabilityPolicy, updateCapabilityPolicy, deleteCapabilityPolicy,
       updateRoutePolicyPolicy, updateViewPermissionPolicy]
      @ [registryPolicy]
      @ [listConversationsPolicy, createConversationPolicy, getConversationPolicy]
      @ [agentChatPolicy, getRunPolicy, streamEventsPolicy, cancelRunPolicy]
      @ [listAgentsPolicy, getAgentPolicy, onboardAgentPolicy, setEnabledPolicy, removeAgentPolicy]"

definition load_policies :: "(policy_store, route_access_policy list) op" where
  "load_policies = mapM defineRoutePolicy declared_policies"

end
