(* ===== verification/Rbac_Seed.thy ===== *)
theory Rbac_Seed
  imports Rbac_Admin
begin

text \<open>
  How the RBAC tables are first filled: the rows the migrations insert
  (\<open>1718000000000-AgentRegistryPermissions.ts\<close>), the RBAC part of the seed
  (\<open>packages/database/src/seeds/seed.ts\<close>, \<open>seed-data.ts\<close>) and its reset, and the
  reconciliation of the code-declared route policies at boot
  (\<open>api/src/rbac/route-policy-reconciler.ts\<close>).
\<close>

section \<open>Upserts\<close>

text \<open>\<open>INSERT ... ON CONFLICT (key) DO UPDATE\<close>: \<open>merge new old\<close> is the updated row.\<close>

fun upsert_row :: "('r \<Rightarrow> 'k) \<Rightarrow> ('r \<Rightarrow> 'r \<Rightarrow> 'r) \<Rightarrow> 'r \<Rightarrow> 'r list \<Rightarrow> 'r list" where
  "upsert_row key merge row [] = [row]"
| "upsert_row key merge row (x # xs) =
     (if key x = key row then merge row x # xs else x # upsert_row key merge row xs)"

definition upsert_rows :: "('r \<Rightarrow> 'k) \<Rightarrow> ('r \<Rightarrow> 'r \<Rightarrow> 'r) \<Rightarrow> 'r list \<Rightarrow> 'r list \<Rightarrow> 'r list" where
  "upsert_rows key merge rows table = foldl (\<lambda>t row. upsert_row key merge row t) table rows"

text \<open>\<open>INSERT ... ON CONFLICT DO NOTHING\<close>\<close>

definition insert_or_ignore :: "('r \<Rightarrow> 'k) \<Rightarrow> 'r list \<Rightarrow> 'r list \<Rightarrow> 'r list" where
  "insert_or_ignore key rows table = upsert_rows key (\<lambda>new old. old) rows table"

lemma map_upsert_row:
  "(\<And>n x. key (merge n x) = key x) \<Longrightarrow>
   map key (upsert_row key merge r t) = js_add (map key t) (key r)"
  by (induction t) (auto simp: js_add_def)

lemma upsert_ignore_prefix: "\<exists>new. upsert_row key (\<lambda>n x. x) r t = t @ new"
  by (induction t) auto

lemma insert_or_ignore_prefix: "\<exists>new. insert_or_ignore key rows t = t @ new"
proof (induction rows arbitrary: t)
  case (Cons r rows)
  from upsert_ignore_prefix [of key r t]
  obtain n1 where "upsert_row key (\<lambda>n x. x) r t = t @ n1" ..
  with Cons.IH [of "t @ n1"] show ?case
    by (auto simp: insert_or_ignore_def upsert_rows_def)
qed (simp add: insert_or_ignore_def upsert_rows_def)

lemma map_insert_or_ignore:
  "map key (insert_or_ignore key rows t) = foldl js_add (map key t) (map key rows)"
  by (induction rows arbitrary: t)
    (auto simp: insert_or_ignore_def upsert_rows_def map_upsert_row)

lemma set_upsert_ignore: "set (upsert_row key (\<lambda>n x. x) r t) \<subseteq> insert r (set t)"
  by (induction t) auto

lemma set_insert_or_ignore: "set (insert_or_ignore key rows t) \<subseteq> set rows \<union> set t"
proof (induction rows arbitrary: t)
  case (Cons r rows)
  then show ?case
    using set_upsert_ignore [of key r t] by (fastforce simp: insert_or_ignore_def upsert_rows_def)
qed (simp add: insert_or_ignore_def upsert_rows_def)

section \<open>The seed\<close>

definition rolesSeed :: "(string \<times> string) list" where
  "rolesSeed =
     [(''sales-user'', ''sales team''),
      (''support-operations-user'', ''operations team''),
      (''admin'', ''super admin users and system admin''),
      (''customer-support'', ''customer support team''),
      (''ops-compliance'', ''compliance team'')]"

definition seedRolesAndPermissions :: "('z rbac_db_scheme, unit) op" where
  "seedRolesAndPermissions =
     thenM (statement (\<lambda>db. db\<lparr>db_roles :=
        upsert_rows rv_name (\<lambda>n x. x\<lparr>rv_description := rv_description n, rv_isSystem := rv_isSystem n\<rparr>)
          (map (\<lambda>(n, d). \<lparr>rv_name = n, rv_description = Some d, rv_isSystem = True,
                           rv_keycloakRoleId = None\<rparr>) rolesSeed) (db_roles db)\<rparr>))
     (thenM (statement (\<lambda>db. db\<lparr>db_permissions :=
        upsert_rows pv_name (\<lambda>n x. x\<lparr>pv_isSystem := pv_isSystem n\<rparr>)
          (map (\<lambda>n. \<lparr>pv_name = n, pv_description = None, pv_isSystem = True\<rparr>) PERMISSIONS)
          (db_permissions db)\<rparr>))
     (statement (\<lambda>db. db\<lparr>db_rolePermissions :=
        insert_or_ignore (\<lambda>x. x)
          (concat (map (\<lambda>(r, ps). map (\<lambda>p. (r, p)) ps) ROLE_PERMISSIONS))
          (db_rolePermissions db)\<rparr>)))"

definition risk_string :: "capability_risk \<Rightarrow> string" where
  "risk_string r = (case r of RiskLow \<Rightarrow> ''low'' | RiskHigh \<Rightarrow> ''high'')"

definition seed_capability_row :: "capability_descriptor \<Rightarrow> capability_row" where
  "seed_capability_row c =
     \<lparr>cr_id = cap_id c, cr_kind = kind_string (cap_kind c), cr_mode = mode_string (cap_mode c),
      cr_risk = risk_string (cap_risk c), cr_resourceScoped = cap_resourceScoped c,
      cr_delegated = (case cap_delegated c of None \<Rightarrow> False | Some b \<Rightarrow> b),
      cr_enabled = True,
      cr_requiresApproval = (case cap_requiresApproval c of None \<Rightarrow> False | Some b \<Rightarrow> b),
      cr_isSystem = True, cr_description = None\<rparr>"

definition seedCapabilities :: "('z rbac_db_scheme, unit) op" where
  "seedCapabilities =
     thenM (statement (\<lambda>db. db\<lparr>db_capabilities :=
        upsert_rows cr_id (\<lambda>n x. n\<lparr>cr_description := cr_description x\<rparr>)
          (map seed_capability_row CAPABILITY_CATALOG) (db_capabilities db)\<rparr>))
     (statement (\<lambda>db. db\<lparr>db_capabilityPermissions :=
        insert_or_ignore (\<lambda>x. x)
          (concat (map (\<lambda>c. map (\<lambda>p. (cap_id c, p)) (cap_requiredPermissions c)) CAPABILITY_CATALOG))
          (db_capabilityPermissions db)\<rparr>))"

definition seed_view_row :: "string \<Rightarrow> string \<times> string \<Rightarrow> view_permission_row" where
  "seed_view_row mode vp =
     \<lparr>vr_viewName = fst vp, vr_mode = mode, vr_permissionName = snd vp, vr_isSystem = True\<rparr>"

definition seedViewPermissions :: "('z rbac_db_scheme, unit) op" where
  "seedViewPermissions =
     statement (\<lambda>db. db\<lparr>db_viewPermissions :=
        upsert_rows (\<lambda>v. (vr_viewName v, vr_mode v)) (\<lambda>n x. n)
          (map (seed_view_row ''read'') MCP_READ_VIEW_PERMISSIONS
           @ map (seed_view_row ''write'') MCP_WRITE_VIEW_PERMISSIONS) (db_viewPermissions db)\<rparr>)"

text \<open>\<open>DELETE FROM\<close> the RBAC tables of \<open>RESET_ORDER\<close>, in its order.\<close>

definition resetSeededData :: "('z rbac_db_scheme, unit) op" where
  "resetSeededData =
     thenM (statement (\<lambda>db. db\<lparr>db_capabilityPermissions := []\<rparr>))
     (thenM (statement (\<lambda>db. db\<lparr>db_capabilities := [], db_capabilityPermissions := []\<rparr>))
     (thenM (statement (\<lambda>db. db\<lparr>db_viewPermissions := []\<rparr>))
     (thenM (statement (\<lambda>db. db\<lparr>db_rolePermissions := []\<rparr>))
     (thenM (statement (\<lambda>db. db\<lparr>db_userRoles := []\<rparr>))
     (thenM (statement (\<lambda>db. db\<lparr>db_permissions := [], db_rolePermissions := [], db_capabilityPermissions := []\<rparr>))
     (statement (\<lambda>db. db\<lparr>db_roles := [], db_rolePermissions := []\<rparr>)))))))"

definition seedDatabase :: "bool \<Rightarrow> string option \<Rightarrow> ('z rbac_db_scheme, unit) op" where
  "seedDatabase reset environment =
     transactionM
       (thenM (if reset \<and> environment \<noteq> Some ''production'' then resetSeededData else returnM ())
       (thenM seedRolesAndPermissions (thenM seedCapabilities seedViewPermissions)))"

text \<open>The tables after the migrations on a fresh install.\<close>

definition migrated_db :: rbac_db where
  "migrated_db =
     \<lparr>db_roles = [],
      db_permissions =
        [\<lparr>pv_name = ''read-agents'', pv_description = Some ''View the A2A agent registry'', pv_isSystem = True\<rparr>,
         \<lparr>pv_name = ''write-agents'', pv_description = Some ''Onboard and manage A2A agents'', pv_isSystem = True\<rparr>],
      db_rolePermissions = [], db_userRoles = [], db_capabilities = [], db_capabilityPermissions = [],
      db_routePolicies = [], db_viewPermissions = [], db_revision = Some 1, db_rbacAudit = []\<rparr>"

definition seeded_db :: rbac_db where
  "seeded_db = snd (seedDatabase False None migrated_db)"

section \<open>Route policy reconciliation\<close>

definition policy_toRow :: "route_access_policy \<Rightarrow> exn + route_policy_row" where
  "policy_toRow policy = (case policy of
      PublicRoute r \<Rightarrow> Inr \<lparr>rr_routeId = r, rr_kind = ''public'', rr_permissionName = None,
                         rr_audit = False, rr_isSystem = True\<rparr>
    | AuthenticatedRoute r audit \<Rightarrow> Inr \<lparr>rr_routeId = r, rr_kind = ''authenticated'',
                         rr_permissionName = None, rr_audit = (audit = Some True), rr_isSystem = True\<rparr>
    | PermissionRoute r p audit \<Rightarrow> Inr \<lparr>rr_routeId = r, rr_kind = ''permission'',
                         rr_permissionName = Some p, rr_audit = (audit = Some True), rr_isSystem = True\<rparr>
    | UnsupportedRoute r \<Rightarrow>
        Inl (OtherErr (''Route policy \"'' @ r @ ''\" has an unsupported shape.'')))"

definition reconcileRoutePolicies :: "route_access_policy list \<Rightarrow> ('z rbac_db_scheme, unit) op" where
  "reconcileRoutePolicies policies =
     (if length policies = 0 then returnM ()
      else bindM (liftM (map_throwing policy_toRow policies)) (\<lambda>rows.
        statement (\<lambda>db. db\<lparr>db_routePolicies := insert_or_ignore rr_routeId rows (db_routePolicies db)\<rparr>)))"

section \<open>Lemmas\<close>

lemma upsert_row_fresh: "key r \<notin> key ` set t \<Longrightarrow> upsert_row key merge r t = t @ [r]"
  by (induction t) auto

lemma upsert_rows_fresh:
  "distinct (map key (t @ rows)) \<Longrightarrow> upsert_rows key merge rows t = t @ rows"
proof (induction rows arbitrary: t)
  case (Cons r rows)
  then have "upsert_row key merge r t = t @ [r]" by (intro upsert_row_fresh) auto
  with Cons.IH [of "t @ [r]"] Cons.prems show ?case by (simp add: upsert_rows_def)
qed (simp add: upsert_rows_def)

lemma insert_or_ignore_fresh:
  "distinct (map key (t @ rows)) \<Longrightarrow> insert_or_ignore key rows t = t @ rows"
  unfolding insert_or_ignore_def by (rule upsert_rows_fresh)

text \<open>A table of lists flattened into pairs, and read back by key.\<close>

definition flat_rows :: "('k \<times> 'v list) list \<Rightarrow> ('k \<times> 'v) list" where
  "flat_rows m = concat (map (\<lambda>(r, ps). map (\<lambda>p. (r, p)) ps) m)"

lemma set_flat_rows: "set (flat_rows m) = {(r, p). \<exists>ps. (r, ps) \<in> set m \<and> p \<in> set ps}"
  by (auto simp: flat_rows_def)

lemma distinct_flat_rows:
  "distinct (map fst m) \<Longrightarrow> list_all (\<lambda>x. distinct (snd x)) m \<Longrightarrow> distinct (flat_rows m)"
proof (induction m)
  case (Cons x m)
  obtain r ps where x: "x = (r, ps)" by (cases x)
  have "r \<notin> fst ` set (flat_rows m)"
    using Cons.prems(1) by (force simp: x set_flat_rows)
  with Cons show ?case
    by (force simp: x flat_rows_def distinct_map inj_on_def)
qed (simp add: flat_rows_def)

lemma filter_flat_rows:
  "distinct (map fst m) \<Longrightarrow>
   map snd (filter (\<lambda>x. fst x = r) (flat_rows m)) = (case map_of m r of None \<Rightarrow> [] | Some ps \<Rightarrow> ps)"
proof (induction m)
  case (Cons x m)
  obtain q ps where x: "x = (q, ps)" by (cases x)
  have own: "filter (\<lambda>x. fst x = r) (map (\<lambda>p. (q, p)) ps) = (if q = r then map (\<lambda>p. (q, p)) ps else [])"
    by (induction ps) auto
  have "map_of m q = None" using Cons.prems by (simp add: x map_of_eq_None_iff)
  with Cons own show ?case
    by (auto simp: x flat_rows_def o_def split: option.splits)
qed (simp add: flat_rows_def)

text \<open>The rows of the seed.\<close>

definition seeded_roles :: "role_view list" where
  "seeded_roles = map (\<lambda>(n, d). \<lparr>rv_name = n, rv_description = Some d, rv_isSystem = True,
     rv_keycloakRoleId = None\<rparr>) rolesSeed"

definition seeded_permissions :: "permission_view list" where
  "seeded_permissions = upsert_rows pv_name (\<lambda>n x. x\<lparr>pv_isSystem := pv_isSystem n\<rparr>)
     (map (\<lambda>n. \<lparr>pv_name = n, pv_description = None, pv_isSystem = True\<rparr>) PERMISSIONS)
     (db_permissions migrated_db)"

definition seeded_views :: "view_permission_row list" where
  "seeded_views = map (seed_view_row ''read'') MCP_READ_VIEW_PERMISSIONS
     @ map (seed_view_row ''write'') MCP_WRITE_VIEW_PERMISSIONS"

definition catalog_requirements :: "(string \<times> string list) list" where
  "catalog_requirements = map (\<lambda>c. (cap_id c, cap_requiredPermissions c)) CAPABILITY_CATALOG"

lemma seeded_role_names: "map rv_name seeded_roles = ROLES"
  by code_simp

lemma distinct_ROLES: "distinct ROLES"
  by code_simp

lemma map_upsert_rows:
  assumes "\<And>n x. key (merge n x) = key x"
  shows "map key (upsert_rows key merge rows t) = foldl js_add (map key t) (map key rows)"
  unfolding upsert_rows_def
  by (induction rows arbitrary: t) (simp_all add: map_upsert_row [of key merge, OF assms])

lemma seeded_permission_names: "set (map pv_name seeded_permissions) = set PERMISSIONS"
proof -
  have "map pv_name seeded_permissions = foldl js_add (map pv_name (db_permissions migrated_db)) PERMISSIONS"
    unfolding seeded_permissions_def by (subst map_upsert_rows) (simp_all add: o_def)
  moreover have "list_all (\<lambda>p. p \<in> set PERMISSIONS) (map pv_name (db_permissions migrated_db))"
    by code_simp
  ultimately show ?thesis by (auto simp: set_foldl_js_add list_all_iff)
qed

lemma seeded_permissions_distinct: "distinct (map pv_name seeded_permissions)"
  by code_simp

lemma distinct_role_permission_lists: "list_all (\<lambda>x. distinct (snd x)) ROLE_PERMISSIONS"
  by code_simp

lemma role_permissions_known: "list_all (\<lambda>x. list_all (\<lambda>p. p \<in> set PERMISSIONS) (snd x)) ROLE_PERMISSIONS"
  by code_simp

lemma catalog_requirements_distinct:
  "distinct (map fst catalog_requirements)" "list_all (\<lambda>x. distinct (snd x)) catalog_requirements"
proof -
  show "distinct (map fst catalog_requirements)"
    by (simp add: catalog_requirements_def o_def)
  show "list_all (\<lambda>x. distinct (snd x)) catalog_requirements" by code_simp
qed

lemma seeded_capability_rows_ok: "list_all capability_row_ok (map seed_capability_row CAPABILITY_CATALOG)"
  by (auto simp: list_all_iff capability_row_ok_def seed_capability_row_def risk_string_def
      elim: kind_string.elims mode_string.elims split: capability_risk.splits)
    (metis capability_kind.exhaust kind_string.simps capability_mode.exhaust mode_string.simps)+

lemma cr_id_seed_row [simp]: "cr_id (seed_capability_row c) = cap_id c"
  by (simp add: seed_capability_row_def)

lemma seeded_views_ok:
  "distinct (map (\<lambda>v. (vr_viewName v, vr_mode v)) seeded_views)"
  "list_all (\<lambda>v. vr_mode v \<in> {''read'', ''write''} \<and> vr_permissionName v \<in> set PERMISSIONS) seeded_views"
  by code_simp+

text \<open>The database after each statement of the seed.\<close>

definition seed_stage :: "role_view list \<Rightarrow> permission_view list \<Rightarrow> (string \<times> string) list \<Rightarrow>
    capability_row list \<Rightarrow> (string \<times> string) list \<Rightarrow> view_permission_row list \<Rightarrow> rbac_db" where
  "seed_stage roles perms rp caps cp views = migrated_db\<lparr>db_roles := roles, db_permissions := perms,
     db_rolePermissions := rp, db_capabilities := caps, db_capabilityPermissions := cp,
     db_viewPermissions := views\<rparr>"

definition seeded_capabilities :: "capability_row list" where
  "seeded_capabilities = map seed_capability_row CAPABILITY_CATALOG"

lemma role_rows_known:
  "list_all (\<lambda>(r, p). r \<in> set ROLES \<and> p \<in> set PERMISSIONS) (flat_rows ROLE_PERMISSIONS)"
  using role_permissions_known unfolding list_all_iff set_ROLES by (force simp: set_flat_rows)

lemma capability_rows_known:
  "list_all (\<lambda>(c, p). c \<in> set (map cr_id seeded_capabilities) \<and> p \<in> set PERMISSIONS) (flat_rows catalog_requirements)"
  using catalog_required_known
  by (auto simp: set_flat_rows list_all_iff catalog_requirements_def seeded_capabilities_def isPermission_def)

lemma seed_stage_ok:
  assumes "distinct (map rv_name roles)" "distinct (map pv_name perms)"
    and "rp = [] \<or> rp = flat_rows ROLE_PERMISSIONS \<and> map rv_name roles = ROLES
           \<and> set (map pv_name perms) = set PERMISSIONS"
    and "caps = [] \<and> cp = [] \<or> caps = seeded_capabilities
           \<and> (cp = [] \<or> cp = flat_rows catalog_requirements \<and> set (map pv_name perms) = set PERMISSIONS)"
    and "views = [] \<or> views = seeded_views \<and> set (map pv_name perms) = set PERMISSIONS"
  shows "rbac_db_ok (seed_stage roles perms rp caps cp views)"
proof -
  have caps: "distinct (map cr_id caps)" "list_all capability_row_ok caps"
    using assms(4) seeded_capability_rows_ok by (auto simp: seeded_capabilities_def o_def)
  have rp: "distinct rp" "list_all (\<lambda>(r, p). r \<in> set (map rv_name roles) \<and> p \<in> set (map pv_name perms)) rp"
    using assms(3) distinct_flat_rows [OF distinct_ROLE_PERMISSIONS distinct_role_permission_lists]
      role_rows_known by (elim disjE conjE; simp)+
  have cp: "distinct cp" "list_all (\<lambda>(c, p). c \<in> set (map cr_id caps) \<and> p \<in> set (map pv_name perms)) cp"
    using assms(4) distinct_flat_rows [OF catalog_requirements_distinct] capability_rows_known
    by (elim disjE conjE; simp)+
  have v: "distinct (map (\<lambda>v. (vr_viewName v, vr_mode v)) views)"
    "list_all (\<lambda>v. vr_mode v \<in> {''read'', ''write''} \<and> vr_permissionName v \<in> set (map pv_name perms)) views"
    using assms(5) seeded_views_ok by auto
  show ?thesis
    using assms(1,2) caps rp cp v
    by (simp add: rbac_db_ok_def seed_stage_def migrated_db_def role_names_def permission_names_def capability_ids_def)
qed

lemma seed_rows_fresh:
  "upsert_rows rv_name (\<lambda>n x. x\<lparr>rv_description := rv_description n, rv_isSystem := rv_isSystem n\<rparr>)
     (map (\<lambda>(n, d). \<lparr>rv_name = n, rv_description = Some d, rv_isSystem = True, rv_keycloakRoleId = None\<rparr>) rolesSeed) []
     = seeded_roles"
  "insert_or_ignore (\<lambda>x. x) (concat (map (\<lambda>(r, ps). map (\<lambda>p. (r, p)) ps) ROLE_PERMISSIONS)) []
     = flat_rows ROLE_PERMISSIONS"
  "upsert_rows cr_id (\<lambda>n x. n\<lparr>cr_description := cr_description x\<rparr>) (map seed_capability_row CAPABILITY_CATALOG) []
     = seeded_capabilities"
  "insert_or_ignore (\<lambda>x. x)
     (concat (map (\<lambda>c. map (\<lambda>p. (cap_id c, p)) (cap_requiredPermissions c)) CAPABILITY_CATALOG)) []
     = flat_rows catalog_requirements"
  "upsert_rows (\<lambda>v. (vr_viewName v, vr_mode v)) (\<lambda>n x. n)
     (map (seed_view_row ''read'') MCP_READ_VIEW_PERMISSIONS
      @ map (seed_view_row ''write'') MCP_WRITE_VIEW_PERMISSIONS) [] = seeded_views"
proof -
  have r: "distinct (map rv_name ([] @ seeded_roles))" by (simp add: seeded_role_names distinct_ROLES)
  show "upsert_rows rv_name (\<lambda>n x. x\<lparr>rv_description := rv_description n, rv_isSystem := rv_isSystem n\<rparr>)
     (map (\<lambda>(n, d). \<lparr>rv_name = n, rv_description = Some d, rv_isSystem = True, rv_keycloakRoleId = None\<rparr>) rolesSeed) []
     = seeded_roles"
    using upsert_rows_fresh [OF r] unfolding seeded_roles_def by simp
  have f: "distinct (map (\<lambda>x. x) ([] @ flat_rows ROLE_PERMISSIONS))"
    using distinct_flat_rows [OF distinct_ROLE_PERMISSIONS distinct_role_permission_lists] by simp
  show "insert_or_ignore (\<lambda>x. x) (concat (map (\<lambda>(r, ps). map (\<lambda>p. (r, p)) ps) ROLE_PERMISSIONS)) []
     = flat_rows ROLE_PERMISSIONS"
    using insert_or_ignore_fresh [OF f] unfolding flat_rows_def by simp
  have c: "distinct (map cr_id ([] @ seeded_capabilities))" by (simp add: seeded_capabilities_def o_def)
  show "upsert_rows cr_id (\<lambda>n x. n\<lparr>cr_description := cr_description x\<rparr>) (map seed_capability_row CAPABILITY_CATALOG) []
     = seeded_capabilities"
    using upsert_rows_fresh [OF c] unfolding seeded_capabilities_def by simp
  have q: "distinct (map (\<lambda>x. x) ([] @ flat_rows catalog_requirements))"
    using distinct_flat_rows [OF catalog_requirements_distinct] by simp
  show "insert_or_ignore (\<lambda>x. x)
     (concat (map (\<lambda>c. map (\<lambda>p. (cap_id c, p)) (cap_requiredPermissions c)) CAPABILITY_CATALOG)) []
     = flat_rows catalog_requirements"
    using insert_or_ignore_fresh [OF q] unfolding flat_rows_def catalog_requirements_def
    by (simp add: o_def)
  have v: "distinct (map (\<lambda>v. (vr_viewName v, vr_mode v)) ([] @ seeded_views))"
    using seeded_views_ok(1) by simp
  show "upsert_rows (\<lambda>v. (vr_viewName v, vr_mode v)) (\<lambda>n x. n)
     (map (seed_view_row ''read'') MCP_READ_VIEW_PERMISSIONS
      @ map (seed_view_row ''write'') MCP_WRITE_VIEW_PERMISSIONS) [] = seeded_views"
    using upsert_rows_fresh [OF v] unfolding seeded_views_def by simp
qed

lemma seed_run:
  "seedDatabase False None migrated_db =
     (Inr (), seed_stage seeded_roles seeded_permissions (flat_rows ROLE_PERMISSIONS)
        seeded_capabilities (flat_rows catalog_requirements) seeded_views)"
proof -
  let ?R = seeded_roles and ?P = seeded_permissions and ?G = "flat_rows ROLE_PERMISSIONS"
    and ?C = seeded_capabilities and ?Q = "flat_rows catalog_requirements" and ?V = seeded_views
  let ?old = "db_permissions migrated_db"
  have R: "map rv_name ?R = ROLES" "distinct (map rv_name ?R)"
    by (simp_all add: seeded_role_names distinct_ROLES)
  have P0: "distinct (map pv_name ?old)" by code_simp
  note ok = seed_stage_ok R seeded_permissions_distinct seeded_permission_names P0
  have st: "rbac_db_ok (seed_stage ?R ?old [] [] [] [])" "rbac_db_ok (seed_stage ?R ?P [] [] [] [])"
    "rbac_db_ok (seed_stage ?R ?P ?G [] [] [])" "rbac_db_ok (seed_stage ?R ?P ?G ?C [] [])"
    "rbac_db_ok (seed_stage ?R ?P ?G ?C ?Q [])" "rbac_db_ok (seed_stage ?R ?P ?G ?C ?Q ?V)"
    by (rule seed_stage_ok; use R seeded_permissions_distinct seeded_permission_names P0 in simp)+
  have m: "migrated_db = seed_stage [] ?old [] [] [] []"
    by (simp add: seed_stage_def migrated_db_def)
  have u: "(seed_stage r p g c q v)\<lparr>db_roles := r'\<rparr> = seed_stage r' p g c q v"
    "(seed_stage r p g c q v)\<lparr>db_permissions := p'\<rparr> = seed_stage r p' g c q v"
    "(seed_stage r p g c q v)\<lparr>db_rolePermissions := g'\<rparr> = seed_stage r p g' c q v"
    "(seed_stage r p g c q v)\<lparr>db_capabilities := c'\<rparr> = seed_stage r p g c' q v"
    "(seed_stage r p g c q v)\<lparr>db_capabilityPermissions := q'\<rparr> = seed_stage r p g c q' v"
    "(seed_stage r p g c q v)\<lparr>db_viewPermissions := v'\<rparr> = seed_stage r p g c q v'"
    "db_roles (seed_stage r p g c q v) = r" "db_permissions (seed_stage r p g c q v) = p"
    "db_rolePermissions (seed_stage r p g c q v) = g" "db_capabilities (seed_stage r p g c q v) = c"
    "db_capabilityPermissions (seed_stage r p g c q v) = q" "db_viewPermissions (seed_stage r p g c q v) = v"
    for r p g c q v r' p' g' c' q' v'
    by (simp_all add: seed_stage_def)
  have pp: "upsert_rows pv_name (\<lambda>n x. x\<lparr>pv_isSystem := pv_isSystem n\<rparr>)
     (map (\<lambda>n. \<lparr>pv_name = n, pv_description = None, pv_isSystem = True\<rparr>) PERMISSIONS) ?old = ?P"
    by (simp add: seeded_permissions_def)
  have s1: "seedRolesAndPermissions (seed_stage [] ?old [] [] [] []) = (Inr (), seed_stage ?R ?P ?G [] [] [])"
    by (simp add: seedRolesAndPermissions_def op_simps u seed_rows_fresh pp st)
  have s2: "seedCapabilities (seed_stage ?R ?P ?G [] [] []) = (Inr (), seed_stage ?R ?P ?G ?C ?Q [])"
    by (simp add: seedCapabilities_def op_simps u seed_rows_fresh st)
  have s3: "seedViewPermissions (seed_stage ?R ?P ?G ?C ?Q []) = (Inr (), seed_stage ?R ?P ?G ?C ?Q ?V)"
    by (simp add: seedViewPermissions_def op_simps u seed_rows_fresh st)
  show ?thesis
    by (subst m) (simp add: seedDatabase_def op_simps s1 s2 s3)
qed

lemma seeded_db_eq:
  "seeded_db = seed_stage seeded_roles seeded_permissions (flat_rows ROLE_PERMISSIONS)
        seeded_capabilities (flat_rows catalog_requirements) seeded_views"
  by (simp add: seeded_db_def seed_run)

lemma seedDatabase_fresh: "fst (seedDatabase False None migrated_db) = Inr ()"
  by (simp add: seed_run)

lemma seeded_db_ok: "rbac_db_ok seeded_db"
  unfolding seeded_db_eq
  by (rule seed_stage_ok; use seeded_role_names distinct_ROLES seeded_permissions_distinct
      seeded_permission_names in simp)

lemma seeded_critical: "critical_covered seeded_db"
proof -
  have "(''admin'', p) \<in> set (flat_rows ROLE_PERMISSIONS)" if "p \<in> set CRITICAL_PERMISSIONS" for p
  proof -
    have "case map_of ROLE_PERMISSIONS ''admin'' of None \<Rightarrow> False
        | Some ps \<Rightarrow> list_all (\<lambda>p. p \<in> set ps) CRITICAL_PERMISSIONS"
      by code_simp
    with that show ?thesis
      by (auto simp: set_flat_rows list_all_iff split: option.splits dest: map_of_SomeD)
  qed
  then show ?thesis
    by (auto simp: critical_covered_def list_all_iff list_ex_iff seeded_db_eq seed_stage_def)
qed

lemma seeded_rolePermissionMap:
  "map_of (rg_rolePermissionMap (mkRegistry (loadData seeded_db))) r = map_of ROLE_PERMISSIONS r"
proof -
  have d: "distinct (map fst (rd_rolePermissions (loadData seeded_db)))"
    by (simp add: loadData_def loadData_from_def Let_def distinct_foldl_push)
  have n: "r \<in> set (role_names seeded_db) \<longleftrightarrow> map_of ROLE_PERMISSIONS r \<noteq> None"
    by (simp add: role_names_def seeded_db_eq seed_stage_def seeded_role_names set_ROLES
        map_of_eq_None_iff del: set_map flip: set_map)
  have g: "db_rolePermissions seeded_db = flat_rows ROLE_PERMISSIONS"
    by (simp add: seeded_db_eq seed_stage_def)
  have ds: "map_of ROLE_PERMISSIONS r = Some ps \<Longrightarrow> js_set ps = ps" for ps
    using distinct_role_permission_lists by (auto simp: list_all_iff js_set_distinct dest!: map_of_SomeD)
  show ?thesis
    unfolding mkRegistry_rolePermissionMap [OF d]
    unfolding loadData_def loaded_rolePermissions [OF seeded_db_ok] n g
      filter_flat_rows [OF distinct_ROLE_PERMISSIONS]
    by (auto simp: ds split: option.splits)
qed

lemma seeded_roleSet: "rg_roleSet (mkRegistry (loadData seeded_db)) = ROLES"
  by (simp add: mkRegistry_def loadData_def loadData_from_def Let_def seeded_db_eq seed_stage_def
      seeded_role_names js_set_distinct distinct_ROLES)

lemma seeded_capability_views:
  "rd_capabilities (loadData seeded_db) = rd_capabilities static_registry_data"
proof -
  have "capability_view_of (foldl push_at [] (flat_rows catalog_requirements)) (seed_capability_row c)
      = static_capability_view c" if "c \<in> set CAPABILITY_CATALOG" for c
  proof -
    have m: "map_of catalog_requirements (cap_id c) = Some (cap_requiredPermissions c)"
      using that catalog_requirements_distinct(1) by (auto simp: catalog_requirements_def)
    have "cv_requiredPermissions (capability_view_of (foldl push_at [] (flat_rows catalog_requirements))
        (seed_capability_row c)) = cap_requiredPermissions c"
      using loaded_required [of "seed_stage [] [] [] [] (flat_rows catalog_requirements) []" "seed_capability_row c"]
        filter_flat_rows [OF catalog_requirements_distinct(1), of "cap_id c"] m
      by (simp add: seed_stage_def)
    then show ?thesis
      by (simp add: capability_view_of_def static_capability_view_def seed_capability_row_def
          risk_string_def split: capability_risk.splits)
  qed
  then show ?thesis
    by (simp add: loadData_def loadData_from_def Let_def seeded_db_eq seed_stage_def
        seeded_capabilities_def static_registry_data_def)
qed

lemma seeded_views_loaded:
  "reg_accessibleViews (mkRegistry (loadData seeded_db)) ps = reg_accessibleViews fromStaticCatalog ps"
proof -
  have "rd_viewPermissions (loadData seeded_db) = rd_viewPermissions static_registry_data"
    by (simp add: loadData_def loadData_from_def Let_def seeded_db_eq seed_stage_def
        seeded_views_def static_registry_data_def seed_view_row_def case_prod_unfold o_def)
  then show ?thesis
    by (simp add: reg_accessibleViews_def mkRegistry_def fromStaticCatalog_def)
qed

lemma static_roleSet_ROLES: "rg_roleSet fromStaticCatalog = ROLES"
  by (simp add: static_roleSet js_set_distinct distinct_ROLES)

section \<open>Properties\<close>

text \<open>C26: A freshly migrated and seeded database enforces the static catalog: the seed succeeds,
  the constraints and the last-admin condition hold, and the registry loaded from it knows the
  same roles, resolves the same permissions in the same order, advertises the same capabilities
  and reads the same views as the static fallback used before the first load.\<close>

theorem seeded_registry_is_static:
  "fst (seedDatabase False None migrated_db) = Inr ()
   \<and> rbac_db_ok seeded_db \<and> critical_covered seeded_db
   \<and> knownRoles (mkRegistry (loadData seeded_db)) vs = knownRoles fromStaticCatalog vs
   \<and> reg_permissionsForRoles (mkRegistry (loadData seeded_db)) roles
       = reg_permissionsForRoles fromStaticCatalog roles
   \<and> capabilityAllowlist (mkRegistry (loadData seeded_db)) ps = capabilityAllowlist fromStaticCatalog ps
   \<and> reg_accessibleViews (mkRegistry (loadData seeded_db)) ps = accessibleViews ps"
proof -
  have "capabilityAllowlist (mkRegistry (loadData seeded_db)) ps = capabilityAllowlist fromStaticCatalog ps"
    by (simp add: capabilityAllowlist_def seeded_capability_views fromStaticCatalog_def)
  then show ?thesis
    by (simp add: seedDatabase_fresh seeded_db_ok seeded_critical knownRoles_def seeded_roleSet
        static_roleSet_ROLES reg_permissionsForRoles_def seeded_rolePermissionMap seeded_views_loaded
        static_rolePermissionMap reg_accessibleViews_static)
qed

text \<open>Reconciling the code-declared route policies at boot keeps every existing row, so an
  administrator's rebinding survives a restart, and declares every route of the code: on success
  the old rows come first unchanged and every declared route id is in the table.\<close>

theorem reconcile_keeps_rebindings:
  assumes "reconcileRoutePolicies policies d = (Inr (), d')"
  shows "(\<exists>new. db_routePolicies d' = db_routePolicies d @ new)
    \<and> rap_routeId ` set policies \<subseteq> rr_routeId ` set (db_routePolicies d')
    \<and> (rbac_db_ok d \<longrightarrow> rbac_db_ok d')"
proof (cases "policies = []")
  case True
  with assms show ?thesis by (simp add: reconcileRoutePolicies_def op_simps)
next
  case False
  with assms obtain rows where rows: "map_throwing policy_toRow policies = Inr rows"
    and d': "d' = d\<lparr>db_routePolicies := insert_or_ignore rr_routeId rows (db_routePolicies d)\<rparr>"
    and ok: "rbac_db_ok d'"
    by (auto simp: reconcileRoutePolicies_def op_simps split: sum.splits if_splits)
  have rid: "policy_toRow p = Inr r \<Longrightarrow> rr_routeId r = rap_routeId p" for p r
    by (auto simp: policy_toRow_def split: route_access_policy.splits)
  from rows have "map rr_routeId rows = map rap_routeId policies"
    by (auto simp: map_throwing_Inr_iff list_all2_conv_all_nth rid intro!: nth_equalityI)
  then have "rap_routeId ` set policies = rr_routeId ` set rows"
    by (metis set_map)
  moreover have "rr_routeId ` set (db_routePolicies d') = rr_routeId ` set (db_routePolicies d) \<union> rr_routeId ` set rows"
    unfolding d' set_map [symmetric] by (simp add: map_insert_or_ignore set_foldl_js_add)
  ultimately show ?thesis
    using insert_or_ignore_prefix [of rr_routeId rows "db_routePolicies d"] ok d' by auto
qed

theorem reconcile_keeps_rebindings_witness:
  "\<exists>d'. reconcileRoutePolicies [PermissionRoute ''agents.list'' ''read-agents'' (Some True)] migrated_db = (Inr (), d')
    \<and> (\<exists>new. db_routePolicies d' = db_routePolicies migrated_db @ new)
    \<and> rap_routeId ` set [PermissionRoute ''agents.list'' ''read-agents'' (Some True)]
        \<subseteq> rr_routeId ` set (db_routePolicies d')"
proof -
  let ?ps = "[PermissionRoute ''agents.list'' ''read-agents'' (Some True)]"
  have "case reconcileRoutePolicies ?ps migrated_db of (Inl e, d) \<Rightarrow> False | (Inr u, d) \<Rightarrow> True"
    by code_simp
  then obtain d' where "reconcileRoutePolicies ?ps migrated_db = (Inr (), d')"
    by (auto split: prod.splits sum.splits)
  with reconcile_keeps_rebindings [OF this] show ?thesis by blast
qed

text \<open>A registry load that interleaves with a mutation is stale and stays stale. The policy
  rows and the revision are read by separate queries; when the rows come from before a committed
  mutation and the revision from after it, the loaded registry grants what the old tables granted,
  and polling sees an unchanged revision and never reloads it.\<close>

theorem interleaved_load_stays_stale:
  assumes "rbac_db_ok d0"
    and "mutate_tx actor (command_work c) d0 = (Inr (), d1)"
  shows "pollForChanges (Some (readRevision d1)) reload (mkRegistry (loadData_from d0 d1))
        = mkRegistry (loadData_from d0 d1)
    \<and> (reg_grants (mkRegistry (loadData_from d0 d1)) r p \<longleftrightarrow> (r, p) \<in> set (db_rolePermissions d0))"
proof -
  have "registry_revision (mkRegistry (loadData_from d0 d1)) = readRevision d1"
    by (simp add: registry_revision_def loadData_from_def Let_def)
  with loaded_grants [OF assms(1)] show ?thesis by (simp add: pollForChanges_def)
qed

theorem interleaved_load_stays_stale_witness:
  "\<exists>d1. mutate_tx example_actor (command_work (SetRolePermissions ''temp'' [])) example_db = (Inr (), d1)
     \<and> (''temp'', ''read-users'') \<notin> set (db_rolePermissions d1)
     \<and> reg_grants (pollForChanges (Some (readRevision d1)) (Some (loadData d1))
                     (mkRegistry (loadData_from example_db d1))) ''temp'' ''read-users''"
proof -
  from example_mutation obtain d1 where
    m: "mutate_tx example_actor (command_work (SetRolePermissions ''temp'' [])) example_db = (Inr (), d1)"
    and g: "db_rolePermissions d1 = map (\<lambda>p. (''admin'', p)) CRITICAL_PERMISSIONS" by blast
  have "(''temp'', ''read-users'') \<notin> set (db_rolePermissions d1)" by (auto simp: g)
  moreover have "(''temp'', ''read-users'') \<in> set (db_rolePermissions example_db)"
    by (simp add: example_db_def)
  ultimately show ?thesis using interleaved_load_stays_stale [OF example_db_ok m] m by auto
qed

text \<open>Reseeding with a reset fails as soon as a route policy names a permission, which every
  booted API has inserted: the reset empties permissions without emptying route_policies, whose
  foreign key restricts the delete, and the whole seed is rolled back.\<close>

theorem reset_blocked_by_route_policies:
  assumes "r \<in> set (db_routePolicies d)" and "rr_permissionName r = Some p"
    and "environment \<noteq> Some ''production''"
  shows "seedDatabase True environment d = (Inl db_query_failed, d)"
proof -
  have bad: "\<not> rbac_db_ok (d'\<lparr>db_permissions := [], db_rolePermissions := [], db_capabilityPermissions := []\<rparr>)"
    if "db_routePolicies d' = db_routePolicies d" for d'
    using assms(1,2) that by (auto simp: rbac_db_ok_def permission_names_def list_all_iff split: option.splits)
  have "\<exists>d'. resetSeededData d = (Inl db_query_failed, d')"
    unfolding resetSeededData_def by (auto simp: op_simps bad)
  then show ?thesis using assms(3) by (auto simp: seedDatabase_def op_simps)
qed

definition booted_db :: rbac_db where
  "booted_db = migrated_db\<lparr>db_routePolicies := [\<lparr>rr_routeId = ''admin.agents.list'', rr_kind = ''permission'',
     rr_permissionName = Some ''read-agents'', rr_audit = True, rr_isSystem = True\<rparr>]\<rparr>"

theorem reset_blocked_by_route_policies_witness:
  "seedDatabase True (Some ''development'') booted_db = (Inl db_query_failed, booted_db)"
  by (rule reset_blocked_by_route_policies
      [of "\<lparr>rr_routeId = ''admin.agents.list'', rr_kind = ''permission'',
            rr_permissionName = Some ''read-agents'', rr_audit = True, rr_isSystem = True\<rparr>" _ "''read-agents''"])
    (simp_all add: booted_db_def)

end
