(* ===== verification/Api_Surface.thy ===== *)
theory Api_Surface
  imports Api_Routes Rbac_Seed Users
begin

text \<open>
  The surface of the API: the application that mounts the routers (\<open>app.ts\<close>), the validation
  middleware (\<open>http/validate.ts\<close>), the terminal handler (\<open>http/not-found.ts\<close>), the store of the rate
  limiter (\<open>http/rate-limit.ts\<close>) and the boot sequence (\<open>main.ts\<close>). What the framework and the
  libraries decide is an argument: which paths a pattern matches (Express), what a schema answers
  (zod), whether a body parses, whether the rate limiter refuses, which tokens verify. Preflight
  requests, which the CORS library answers itself, are outside the model.
\<close>

section \<open>The store of the rate limiter\<close>

text \<open>A store counts the hits of a key; the library refuses a request when the count exceeds the
  limit. The Redis store behind \<open>inner\<close> may throw. Times are milliseconds.\<close>

record increment_response =
  in_totalHits :: nat
  in_resetTime :: int

definition fail_open_increment ::
  "(string \<Rightarrow> ('s, increment_response) op) \<Rightarrow> int \<Rightarrow> int \<Rightarrow> string \<Rightarrow> ('s, increment_response) op" where
  "fail_open_increment inner now windowMs key =
     catchM (inner key) (\<lambda>_. returnM \<lparr>in_totalHits = 1, in_resetTime = now + windowMs\<rparr>)"

definition fail_open_quiet :: "(string \<Rightarrow> ('s, unit) op) \<Rightarrow> string \<Rightarrow> ('s, unit) op" where
  "fail_open_quiet inner key = catchM (inner key) (\<lambda>_. returnM ())"

text \<open>The store never throws, counts like the inner store while that works, and reports a count the
  library accepts (positive) that refuses nobody when it does not.\<close>

lemma fail_open_never_throws:
  "\<exists>r s'. fail_open_increment inner now windowMs key s = (Inr r, s')
     \<and> (case fst (inner key s) of Inr r' \<Rightarrow> r = r' | Inl _ \<Rightarrow> in_totalHits r = 1 \<and> (1 \<le> limit \<longrightarrow> \<not> in_totalHits r > (limit :: nat)))"
  "fst (fail_open_quiet inner' key t) = Inr ()"
  by (auto simp: fail_open_increment_def fail_open_quiet_def op_simps split: prod.splits sum.splits)

section \<open>The application\<close>

record api_config =
  cf_corsAllowedOrigins :: "string list"
  cf_agentsDatabase :: bool
  cf_toolGateway :: service_verifier
  cf_entitlement :: service_verifier

definition mount :: "path_segment list \<Rightarrow> route list \<Rightarrow> route list" where
  "mount prefix routes = map (\<lambda>r. r\<lparr>rt_path := prefix @ rt_path r\<rparr>) routes"

text \<open>The verifier of the internal registry accepts the audience and the parties of both others.\<close>

definition registry_verifier :: "api_config \<Rightarrow> service_verifier" where
  "registry_verifier cfg =
     \<lparr>sv_audience = sv_audience (cf_toolGateway cfg) @ sv_audience (cf_entitlement cfg),
      sv_authorizedParties = sv_authorizedParties (cf_toolGateway cfg) @ sv_authorizedParties (cf_entitlement cfg)\<rparr>"

definition agent_routes :: "api_config \<Rightarrow> route list" where
  "agent_routes cfg =
     mount [Lit ''api'', Lit ''v1'', Lit ''a2a''] createA2aChatRouter
     @ mount [Lit ''api'', Lit ''v1'', Lit ''agent-runs''] createAgentRunRouter
     @ mount [Lit ''api'', Lit ''v1'', Lit ''admin'', Lit ''agents''] createAdminAgentRouter
     @ mount [Lit ''internal'', Lit ''agent-runs''] (createToolGatewayRouter (cf_toolGateway cfg) (cf_entitlement cfg))
     @ mount [Lit ''internal'', Lit ''rbac''] (createInternalRbacRegistryRouter (registry_verifier cfg))"

definition core_routes :: "route list" where
  "core_routes =
     mount [Lit ''health''] createHealthRouter
     @ mount [Lit ''api'', Lit ''v1'', Lit ''auth''] createMeRouter
     @ mount [Lit ''api'', Lit ''v1'', Lit ''customers''] createCustomerRouter
     @ mount [Lit ''api'', Lit ''v1'', Lit ''products''] createProductRouter
     @ mount [Lit ''api'', Lit ''v1'', Lit ''sales''] createSaleRouter
     @ mount [Lit ''api'', Lit ''v1'', Lit ''issues''] createIssueRouter
     @ mount [Lit ''api'', Lit ''v1'', Lit ''actions''] createActionRouter
     @ mount [Lit ''api'', Lit ''v1'', Lit ''sops''] createSopRouter
     @ mount [Lit ''api'', Lit ''v1'', Lit ''admin''] createAdminRouter
     @ mount [Lit ''api'', Lit ''v1'', Lit ''rbac''] createRbacRegistryRouter
     @ mount [Lit ''api'', Lit ''v1'', Lit ''conversations''] createConversationsRouter"

definition app_routes :: "api_config \<Rightarrow> route list" where
  "app_routes cfg = core_routes @ (if cf_agentsDatabase cfg then agent_routes cfg else [])"

section \<open>Requests\<close>

record 'b request =
  rq_method :: http_method
  rq_path :: string
  rq_origin :: "string option"
  rq_authorization :: "string option"
  rq_xRequestId :: "string option"
  rq_content :: 'b

text \<open>The outcome of \<open>schema.parse\<close>: the value, a \<open>ZodError\<close> with its issues (path and message), or
  another error thrown by a refinement.\<close>

datatype zod_outcome = ZodOk | ZodIssues "(string list \<times> string) list" | ZodThrows exn

record 'b api_env =
  en_registry :: rbac_registry
  en_userJwt :: "string \<Rightarrow> jwt_payload option"
  en_serviceJwt :: "string list \<Rightarrow> string \<Rightarrow> jwt_payload option"
  en_matches :: "http_method \<Rightarrow> path_segment list \<Rightarrow> 'b request \<Rightarrow> bool"
  en_parseBody :: "'b request \<Rightarrow> exn option"
  en_limited :: "'b request \<Rightarrow> bool"
  en_parse :: "string \<Rightarrow> 'b request \<Rightarrow> zod_outcome"
  en_uuid :: string

definition cors_origin :: "string list \<Rightarrow> string option \<Rightarrow> exn + unit" where
  "cors_origin allowlist origin =
     (case some_id origin of
        None \<Rightarrow> Inr ()
      | Some host \<Rightarrow> if host \<in> set allowlist then Inr ()
                  else Inl (forbidden_error ''Origin is not allowed by CORS policy.''))"

definition genReqId :: "string \<Rightarrow> string option \<Rightarrow> string" where
  "genReqId uuid header = (case some_id header of Some h \<Rightarrow> h | None \<Rightarrow> uuid)"

definition formatIssues :: "(string list \<times> string) list \<Rightarrow> string" where
  "formatIssues issues = js_join ''; '' (map (\<lambda>(path, message).
     (case some_id (Some (js_join ''.'' path)) of Some p \<Rightarrow> p | None \<Rightarrow> ''(root)'') @ '': '' @ message) issues)"

definition parse_part :: "('b request \<Rightarrow> string \<Rightarrow> zod_outcome) \<Rightarrow> 'b request \<Rightarrow> string option \<Rightarrow> exn + unit" where
  "parse_part parse req schema = (case schema of None \<Rightarrow> Inr ()
     | Some s \<Rightarrow> (case parse req s of ZodOk \<Rightarrow> Inr ()
         | ZodIssues issues \<Rightarrow> Inl (validation_error (formatIssues issues))
         | ZodThrows e \<Rightarrow> Inl e))"

definition validateRequest :: "('b request \<Rightarrow> string \<Rightarrow> zod_outcome) \<Rightarrow> request_schemas \<Rightarrow> 'b request \<Rightarrow> exn + unit" where
  "validateRequest parse s req =
     (case parse_part parse req (rs_params s) of Inl e \<Rightarrow> Inl e
      | Inr _ \<Rightarrow> (case parse_part parse req (rs_query s) of Inl e \<Rightarrow> Inl e
         | Inr _ \<Rightarrow> parse_part parse req (rs_body s)))"

text \<open>The guard of a route: the context of the user it lets through, if it has one.\<close>

definition run_guard :: "'b api_env \<Rightarrow> route_guard \<Rightarrow> string option \<Rightarrow> exn + auth_context option" where
  "run_guard env guard header = (case guard of
       GuardPolicy policy \<Rightarrow> (case fst (authorize (en_registry env) policy None) of Inl e \<Rightarrow> Inl e | Inr _ \<Rightarrow> Inr None)
     | GuardUser policy \<Rightarrow>
         (case protected_request (en_registry env) (en_userJwt env) policy header of
            Inl e \<Rightarrow> Inl e | Inr auth \<Rightarrow> Inr (Some auth))
     | GuardService v \<Rightarrow>
         (case service_authenticate (sv_authorizedParties v) (en_serviceJwt env (sv_audience v)) header of
            Inl e \<Rightarrow> Inl e | Inr _ \<Rightarrow> Inr None))"

datatype api_outcome =
  Handled route "auth_context option"
| Rejected api_error_response
| TooManyRequests

definition find_route :: "'b api_env \<Rightarrow> route list \<Rightarrow> 'b request \<Rightarrow> route option" where
  "find_route env routes req = find (\<lambda>r. en_matches env (rt_method r) (rt_path r) req) routes"

definition notFoundHandler :: exn where
  "notFoundHandler = not_found_error ''The requested endpoint does not exist.''"

text \<open>The chain of \<open>createApp\<close>. The request identifier exists from the logging middleware on: a
  request refused before has none.\<close>

definition handle_request :: "api_config \<Rightarrow> 'b api_env \<Rightarrow> 'b request \<Rightarrow> api_outcome" where
  "handle_request cfg env req =
     (case cors_origin (cf_corsAllowedOrigins cfg) (rq_origin req) of
        Inl e \<Rightarrow> Rejected (error_handler e None)
      | Inr _ \<Rightarrow>
      (case en_parseBody env req of
        Some e \<Rightarrow> Rejected (error_handler e None)
      | None \<Rightarrow>
      (let rid = Some (genReqId (en_uuid env) (rq_xRequestId req)) in
       if en_limited env req then TooManyRequests
       else case find_route env (app_routes cfg) req of
         None \<Rightarrow> Rejected (error_handler notFoundHandler rid)
       | Some r \<Rightarrow>
       (case run_guard env (rt_guard r) (rq_authorization req) of
         Inl e \<Rightarrow> Rejected (error_handler e rid)
       | Inr auth \<Rightarrow>
       (case validateRequest (\<lambda>q s. en_parse env s q) (rt_schemas r) req of
         Inl e \<Rightarrow> Rejected (error_handler e rid)
       | Inr _ \<Rightarrow> Handled r auth)))))"

section \<open>Boot\<close>

text \<open>\<open>reconcileRoutePolicies(dataSource, getRegisteredPolicies())\<close>, then the first load of the
  registry; a failure stops the process.\<close>

definition bootstrap :: "('z rbac_db_scheme, rbac_registry) op" where
  "bootstrap = (\<lambda>db.
     case load_policies [] of
       (Inl e, _) \<Rightarrow> (Inl e, db)
     | (Inr _, store) \<Rightarrow>
         (case reconcileRoutePolicies (getRegisteredPolicies store) db of
            (Inl e, db') \<Rightarrow> (Inl e, db')
          | (Inr _, db') \<Rightarrow> (Inr (mkRegistry (loadData db')), db')))"

section \<open>What the tables say\<close>

text \<open>Facts of the literal tables, checked by evaluation. Every route with a user has a declared
  policy and lies under \<open>/api/v1\<close>; the routes without one are the probes and the internal ones; a
  route that writes names a permission that is not a read permission, except the creation of a
  conversation, which any authenticated user may do.\<close>

definition guard_ok :: "route \<Rightarrow> bool" where
  "guard_ok r = (case rt_guard r of
       GuardPolicy policy \<Rightarrow> take 1 (rt_path r) = [Lit ''health''] \<and> rt_method r = GET
         \<and> policy \<in> set [livenessPolicy, readinessPolicy]
     | GuardUser policy \<Rightarrow> take 2 (rt_path r) = [Lit ''api'', Lit ''v1''] \<and> policy \<in> set declared_policies
         \<and> (case policy of PermissionRoute _ p audit \<Rightarrow> audit = Some True \<and> (rt_method r \<noteq> GET \<longrightarrow> \<not> starts_with ''read-'' p)
            | AuthenticatedRoute i _ \<Rightarrow> rt_method r \<noteq> GET \<longrightarrow> i = ''conversations.create''
            | _ \<Rightarrow> False)
     | GuardService v \<Rightarrow> take 1 (rt_path r) = [Lit ''internal''])"

definition policy_known :: "route_access_policy \<Rightarrow> bool" where
  "policy_known policy = (case policy of
       PermissionRoute _ p _ \<Rightarrow> p \<in> set PERMISSIONS
     | UnsupportedRoute _ \<Rightarrow> False
     | _ \<Rightarrow> True)"

lemma declared_distinct: "distinct (map rap_routeId declared_policies)"
  by code_simp

lemma declared_known: "list_all policy_known declared_policies"
  by code_simp

lemma core_guard_ok: "list_all guard_ok core_routes"
  by code_simp

lemma mount_all: "list_all P (mount prefix routes) \<longleftrightarrow> list_all (\<lambda>r. P (r\<lparr>rt_path := prefix @ rt_path r\<rparr>)) routes"
  by (simp add: mount_def list_all_iff)

definition user_agent_routes :: "route list" where
  "user_agent_routes =
     mount [Lit ''api'', Lit ''v1'', Lit ''a2a''] createA2aChatRouter
     @ mount [Lit ''api'', Lit ''v1'', Lit ''agent-runs''] createAgentRunRouter
     @ mount [Lit ''api'', Lit ''v1'', Lit ''admin'', Lit ''agents''] createAdminAgentRouter"

lemma user_agent_guard_ok: "list_all guard_ok user_agent_routes"
  by code_simp

lemma agent_routes_split:
  "agent_routes cfg = user_agent_routes
     @ mount [Lit ''internal'', Lit ''agent-runs''] (createToolGatewayRouter (cf_toolGateway cfg) (cf_entitlement cfg))
     @ mount [Lit ''internal'', Lit ''rbac''] (createInternalRbacRegistryRouter (registry_verifier cfg))"
  by (simp add: agent_routes_def user_agent_routes_def)

lemma app_guard_ok: "r \<in> set (app_routes cfg) \<Longrightarrow> guard_ok r"
proof -
  have "list_all guard_ok (mount [Lit ''internal'', Lit ''agent-runs''] (createToolGatewayRouter a b))"
    "list_all guard_ok (mount [Lit ''internal'', Lit ''rbac''] (createInternalRbacRegistryRouter c))" for a b c
    by (simp_all add: mount_all createToolGatewayRouter_def createInternalRbacRegistryRouter_def guard_ok_def)
  then have "list_all guard_ok (app_routes cfg)"
    using core_guard_ok user_agent_guard_ok by (simp add: app_routes_def agent_routes_split)
  then show "r \<in> set (app_routes cfg) \<Longrightarrow> guard_ok r" by (simp add: list_all_iff)
qed

section \<open>Loading and boot\<close>

lemma load_policies_from:
  "distinct (map rap_routeId (map snd store @ policies)) \<Longrightarrow> map fst store = map rap_routeId (map snd store) \<Longrightarrow>
   mapM defineRoutePolicy policies store = (Inr policies, store @ map (\<lambda>p. (rap_routeId p, p)) policies)"
proof (induction policies arbitrary: store)
  case (Cons p policies)
  have "rap_routeId p \<notin> fst ` set store"
    using Cons.prems by (metis Un_iff distinct_append disjoint_iff image_set list.set_intros(1) list.simps(9) map_append)
  then have "defineRoutePolicy p store = (Inr p, store @ [(rap_routeId p, p)])" by (simp add: defineRoutePolicy_ok)
  with Cons.IH [of "store @ [(rap_routeId p, p)]"] Cons.prems show ?case by (simp add: op_simps)
qed (simp add: op_simps)

lemma load_policies_run: "load_policies [] = (Inr declared_policies, map (\<lambda>p. (rap_routeId p, p)) declared_policies)"
  using load_policies_from [of "[]" declared_policies] declared_distinct by (simp add: load_policies_def)

definition declared_row :: "route_access_policy \<Rightarrow> route_policy_row" where
  "declared_row policy = (case policy_toRow policy of Inr row \<Rightarrow> row)"

lemma declared_row: "policy_known policy \<Longrightarrow> policy_toRow policy = Inr (declared_row policy)"
  by (cases policy) (simp_all add: declared_row_def policy_toRow_def policy_known_def)

lemma declared_rows: "map_throwing policy_toRow declared_policies = Inr (map declared_row declared_policies)"
  using declared_known by (simp add: map_throwing_Inr_iff list_all2_map2 list_all_iff declared_row list.rel_refl_strong)

lemma rr_routeId_declared_row: "policy_known policy \<Longrightarrow> rr_routeId (declared_row policy) = rap_routeId policy"
  by (cases policy) (simp_all add: declared_row_def policy_toRow_def policy_known_def)

lemma declared_row_ok:
  "policy_known policy \<Longrightarrow> route_row_ok (declared_row policy)
     \<and> (case rr_permissionName (declared_row policy) of None \<Rightarrow> True | Some p \<Rightarrow> p \<in> set PERMISSIONS)"
  by (cases policy) (simp_all add: declared_row_def policy_toRow_def policy_known_def route_row_ok_def)

definition seeded_booted_db :: rbac_db where
  "seeded_booted_db = seeded_db\<lparr>db_routePolicies := map declared_row declared_policies\<rparr>"

lemma declared_rows_distinct: "distinct (map rr_routeId (map declared_row declared_policies))"
proof -
  have "map rr_routeId (map declared_row declared_policies) = map rap_routeId declared_policies"
    using declared_known by (auto simp: list_all_iff rr_routeId_declared_row)
  then show ?thesis by (simp only: declared_distinct)
qed

lemma seeded_booted_ok: "rbac_db_ok seeded_booted_db"
proof -
  have names: "set (permission_names seeded_db) = set PERMISSIONS"
    using seeded_permission_names by (simp add: permission_names_def seeded_db_eq seed_stage_def)
  have same: "role_names seeded_booted_db = role_names seeded_db" "permission_names seeded_booted_db = permission_names seeded_db"
    "capability_ids seeded_booted_db = capability_ids seeded_db"
    by (simp_all add: seeded_booted_db_def role_names_def permission_names_def capability_ids_def)
  have rows: "list_all (\<lambda>r. route_row_ok r \<and> (case rr_permissionName r of None \<Rightarrow> True
      | Some p \<Rightarrow> p \<in> set (permission_names seeded_db))) (map declared_row declared_policies)"
    using declared_known declared_row_ok unfolding names by (auto simp: list_all_iff)
  show ?thesis
    using seeded_db_ok rows declared_rows_distinct unfolding rbac_db_ok_def same
    by (simp add: seeded_booted_db_def)
qed

lemma bootstrap_seeded: "bootstrap seeded_db = (Inr (mkRegistry (loadData seeded_booted_db)), seeded_booted_db)"
proof -
  have empty: "db_routePolicies seeded_db = []" by (simp add: seeded_db_eq seed_stage_def migrated_db_def)
  have some: "declared_policies \<noteq> []" by (simp add: declared_policies_def)
  have ins: "insert_or_ignore rr_routeId (map declared_row declared_policies) [] = map declared_row declared_policies"
    using insert_or_ignore_fresh [of rr_routeId "[]" "map declared_row declared_policies"] declared_rows_distinct by simp
  have rec: "reconcileRoutePolicies declared_policies seeded_db = (Inr (), seeded_booted_db)"
    using some by (simp add: reconcileRoutePolicies_def op_simps declared_rows empty ins seeded_booted_ok
        flip: seeded_booted_db_def)
  have reg: "getRegisteredPolicies (map (\<lambda>p. (rap_routeId p, p)) declared_policies) = declared_policies"
    by (simp add: getRegisteredPolicies_def o_def)
  show ?thesis by (simp add: bootstrap_def load_policies_run reg rec)
qed

section \<open>Guards\<close>

lemma find_route_Some:
  "find_route env routes req = Some r \<Longrightarrow> r \<in> set routes \<and> en_matches env (rt_method r) (rt_path r) req"
  unfolding find_route_def by (drule find_SomeD) simp

lemma handled_inv:
  assumes "handle_request cfg env req = Handled r auth"
  shows "find_route env (app_routes cfg) req = Some r"
    and "run_guard env (rt_guard r) (rq_authorization req) = Inr auth"
    and "validateRequest (\<lambda>q s. en_parse env s q) (rt_schemas r) req = Inr ()"
    and "\<not> en_limited env req"
  using assms by (auto simp: handle_request_def Let_def split: sum.splits option.splits if_splits)

lemma run_guard_user:
  assumes "run_guard env (GuardUser policy) header = Inr auth"
  obtains rest payload where "header = Some (BEARER_PREFIX @ rest)" "en_userJwt env (js_trim rest) = Some payload"
    "auth = Some (buildAuthContext (en_registry env) payload)"
    "fst (authorize (en_registry env) policy auth) = Inr ()"
  using assms by (auto simp: run_guard_def protected_request_def authenticate_Inr_iff split: sum.splits)

lemma run_guard_service:
  assumes "run_guard env (GuardService v) header = Inr auth"
  obtains token payload azp where "bearer (unauthenticated_error ''A service token is required.'') header = Inr token"
    "en_serviceJwt env (sv_audience v) token = Some payload"
    "claim payload ''azp'' = Some (JStr azp)" "azp \<in> set (sv_authorizedParties v)" "auth = None"
  using assms
  by (auto simp: run_guard_def service_authenticate_def service_token_verify_def jstring_Some_iff
      split: sum.splits option.splits if_splits)

text \<open>What a handler may rely on, by the guard of its route.\<close>

definition guarded :: "'b api_env \<Rightarrow> route \<Rightarrow> string option \<Rightarrow> auth_context option \<Rightarrow> bool" where
  "guarded env r header auth = (case rt_guard r of
       GuardPolicy policy \<Rightarrow> take 1 (rt_path r) = [Lit ''health''] \<and> auth = None
     | GuardService v \<Rightarrow> take 1 (rt_path r) = [Lit ''internal''] \<and> auth = None
         \<and> (\<exists>rest payload azp. header = Some (''Bearer '' @ rest)
              \<and> en_serviceJwt env (sv_audience v) (js_trim rest) = Some payload
              \<and> claim payload ''azp'' = Some (JStr azp) \<and> azp \<in> set (sv_authorizedParties v))
     | GuardUser policy \<Rightarrow> policy \<in> set declared_policies
         \<and> (\<exists>rest payload. header = Some (''Bearer '' @ rest) \<and> en_userJwt env (js_trim rest) = Some payload
              \<and> auth = Some (buildAuthContext (en_registry env) payload)
              \<and> (rpv_kind (resolveEffectivePolicy (en_registry env) policy) \<in> {''public'', ''authenticated''}
                 \<or> (\<exists>p role. rpv_permissionName (resolveEffectivePolicy (en_registry env) policy) = Some p \<and> p \<noteq> []
                      \<and> role \<in> set (extractRealmRoles payload) \<and> hasRole (en_registry env) role
                      \<and> reg_grants (en_registry env) role p))))"

lemma run_guard_guarded:
  assumes "guard_ok r" and "run_guard env (rt_guard r) header = Inr auth"
  shows "guarded env r header auth"
proof (cases "rt_guard r")
  case (GuardPolicy policy)
  then show ?thesis using assms by (auto simp: guard_ok_def guarded_def run_guard_def split: sum.splits)
next
  case (GuardUser policy)
  with assms(2) obtain rest payload where g: "header = Some (BEARER_PREFIX @ rest)"
      "en_userJwt env (js_trim rest) = Some payload" "auth = Some (buildAuthContext (en_registry env) payload)"
      "fst (authorize (en_registry env) policy auth) = Inr ()"
    by (auto elim: run_guard_user)
  from GuardUser assms(1) have "policy \<in> set declared_policies" by (simp add: guard_ok_def)
  with g GuardUser show ?thesis
    by (auto simp: guarded_def BEARER_PREFIX_def authorize_Inr_iff set_buildAuthContext_permissions)
next
  case (GuardService v)
  with assms(2) obtain token payload azp where
      "bearer (unauthenticated_error ''A service token is required.'') header = Inr token"
      "en_serviceJwt env (sv_audience v) token = Some payload"
      "claim payload ''azp'' = Some (JStr azp)" "azp \<in> set (sv_authorizedParties v)" "auth = None"
    by (auto elim: run_guard_service)
  with GuardService assms(1) show ?thesis
    by (auto simp: guard_ok_def guarded_def bearer_Inr_iff BEARER_PREFIX_def)
qed

text \<open>C3: Every endpoint of the API is guarded. Whatever the paths match, the schemas accept and the
  administrators have rebound, a handler runs only for a registered route of the application, and
  then it is a probe under \<open>/health\<close>; or an internal endpoint reached with a bearer token that the
  verifier accepts for the audience of that endpoint and whose \<open>azp\<close> is one of its parties; or an
  endpoint with a declared policy, reached with a verified user token whose roles grant what the
  effective policy asks. No endpoint is reached anonymously.\<close>

theorem api_guarded:
  assumes "handle_request cfg env req = Handled r auth"
  shows "r \<in> set (app_routes cfg) \<and> en_matches env (rt_method r) (rt_path r) req
    \<and> guarded env r (rq_authorization req) auth
    \<and> (cf_corsAllowedOrigins cfg = [] \<longrightarrow> rq_origin req \<in> {None, Some []})"
proof -
  note h = handled_inv [OF assms]
  from find_route_Some [OF h(1)] have r: "r \<in> set (app_routes cfg)" "en_matches env (rt_method r) (rt_path r) req" by simp_all
  have "cf_corsAllowedOrigins cfg = [] \<Longrightarrow> rq_origin req \<in> {None, Some []}"
    using assms by (auto simp: handle_request_def cors_origin_def some_id_def split: option.splits sum.splits if_splits)
  with r run_guard_guarded [OF app_guard_ok [OF r(1)] h(2)] show ?thesis by simp
qed

section \<open>A booted platform\<close>

definition declared_view :: "route_access_policy \<Rightarrow> route_policy_view" where
  "declared_view policy = (case policy of
       PublicRoute r \<Rightarrow> \<lparr>rpv_routeId = r, rpv_kind = ''public'', rpv_permissionName = None, rpv_audit = False\<rparr>
     | AuthenticatedRoute r audit \<Rightarrow>
         \<lparr>rpv_routeId = r, rpv_kind = ''authenticated'', rpv_permissionName = None, rpv_audit = (audit = Some True)\<rparr>
     | PermissionRoute r p audit \<Rightarrow>
         \<lparr>rpv_routeId = r, rpv_kind = ''permission'', rpv_permissionName = Some p, rpv_audit = (audit = Some True)\<rparr>
     | UnsupportedRoute r \<Rightarrow> \<lparr>rpv_routeId = r, rpv_kind = ''permission'', rpv_permissionName = None, rpv_audit = False\<rparr>)"

lemma booted_data: "loadData seeded_booted_db = (loadData seeded_db)\<lparr>rd_routePolicies := map declared_view declared_policies\<rparr>"
proof -
  have "\<lparr>rpv_routeId = rr_routeId (declared_row p), rpv_kind = rr_kind (declared_row p),
      rpv_permissionName = rr_permissionName (declared_row p), rpv_audit = rr_audit (declared_row p)\<rparr> = declared_view p"
    if "policy_known p" for p
    using that by (cases p) (simp_all add: declared_row_def policy_toRow_def policy_known_def declared_view_def)
  then have "map (\<lambda>r. \<lparr>rpv_routeId = rr_routeId r, rpv_kind = rr_kind r, rpv_permissionName = rr_permissionName r,
      rpv_audit = rr_audit r\<rparr>) (map declared_row declared_policies) = map declared_view declared_policies"
    using declared_known by (simp add: list_all_iff)
  then show ?thesis by (simp add: loadData_def loadData_from_def Let_def readRevision_def seeded_booted_db_def)
qed

lemma booted_roles:
  "hasRole (mkRegistry (loadData seeded_booted_db)) role \<longleftrightarrow> role \<in> set ROLES"
  "reg_grants (mkRegistry (loadData seeded_booted_db)) role p
     \<longleftrightarrow> (\<exists>ps. map_of ROLE_PERMISSIONS role = Some ps \<and> p \<in> set ps)"
proof -
  have "rg_roleSet (mkRegistry (loadData seeded_booted_db)) = rg_roleSet (mkRegistry (loadData seeded_db))"
    "rg_rolePermissionMap (mkRegistry (loadData seeded_booted_db)) = rg_rolePermissionMap (mkRegistry (loadData seeded_db))"
    by (simp_all add: booted_data mkRegistry_def)
  then show "hasRole (mkRegistry (loadData seeded_booted_db)) role \<longleftrightarrow> role \<in> set ROLES"
    and "reg_grants (mkRegistry (loadData seeded_booted_db)) role p
     \<longleftrightarrow> (\<exists>ps. map_of ROLE_PERMISSIONS role = Some ps \<and> p \<in> set ps)"
    by (simp_all add: hasRole_def seeded_roleSet reg_grants_def seeded_rolePermissionMap)
qed

lemma booted_policy:
  assumes "policy \<in> set declared_policies"
  shows "resolveEffectivePolicy (mkRegistry (loadData seeded_booted_db)) policy = declared_view policy"
proof -
  have ids: "rpv_routeId (declared_view p) = rap_routeId p" for p
    by (cases p) (simp_all add: declared_view_def)
  have "map fst (map (\<lambda>p. (rpv_routeId p, p)) (map declared_view declared_policies)) = map rap_routeId declared_policies"
    by (simp add: ids)
  then have d: "distinct (map fst (map (\<lambda>p. (rpv_routeId p, p)) (map declared_view declared_policies)))"
    by (simp only: declared_distinct)
  have views: "rg_routePolicyMap (mkRegistry (loadData seeded_booted_db))
      = js_map (map (\<lambda>p. (rpv_routeId p, p)) (map declared_view declared_policies))"
    by (simp only: mkRegistry_def booted_data) simp
  have "(rap_routeId policy, declared_view policy) \<in> set (map (\<lambda>p. (rpv_routeId p, p)) (map declared_view declared_policies))"
    using assms by (auto simp: ids image_iff intro!: bexI [of _ policy])
  then have "routePolicy (mkRegistry (loadData seeded_booted_db)) (rap_routeId policy) = Some (declared_view policy)"
    unfolding routePolicy_def views map_of_js_map_distinct [OF d] by (rule map_of_SomeI [OF d])
  then show ?thesis by (simp add: resolveEffectivePolicy_def)
qed


text \<open>On a database that is migrated but not seeded the boot stops: the permissions the policies
  name are not there yet.\<close>

lemma unseeded_boot_fails: "fst (bootstrap migrated_db) = Inl db_query_failed"
proof -
  have bad: "\<not> rbac_db_ok (migrated_db\<lparr>db_routePolicies := insert_or_ignore rr_routeId (map declared_row declared_policies) []\<rparr>)"
    (is "\<not> rbac_db_ok ?db")
  proof
    assume ok: "rbac_db_ok ?db"
    have fresh: "insert_or_ignore rr_routeId (map declared_row declared_policies) [] = map declared_row declared_policies"
      using insert_or_ignore_fresh [of rr_routeId "[]" "map declared_row declared_policies"] declared_rows_distinct by simp
    have "listSalesPolicy \<in> set declared_policies" by (simp add: declared_policies_def)
    with ok have "''read-sales'' \<in> set (permission_names ?db)"
      by (auto simp: rbac_db_ok_def list_all_iff fresh declared_row_def policy_toRow_def listSalesPolicy_def
          dest: bspec [of _ _ listSalesPolicy])
    then show False by (simp add: permission_names_def migrated_db_def)
  qed
  have empty: "db_routePolicies migrated_db = []" by (simp add: migrated_db_def)
  have some: "declared_policies \<noteq> []" by (simp add: declared_policies_def)
  have "reconcileRoutePolicies declared_policies migrated_db = (Inl db_query_failed, migrated_db)"
    using bad some by (simp add: reconcileRoutePolicies_def op_simps declared_rows empty)
  moreover have "getRegisteredPolicies (map (\<lambda>p. (rap_routeId p, p)) declared_policies) = declared_policies"
    by (simp add: getRegisteredPolicies_def o_def)
  ultimately show ?thesis by (simp add: bootstrap_def load_policies_run)
qed

section \<open>Rebinding\<close>

text \<open>Last-admin protection looks at the grants of the critical permissions only. Rebinding a route to
  a permission that no role has passes it and closes the route to everybody; done to the route
  that rebinds routes, no administrator can undo it through the API.\<close>

lemma loaded_route:
  assumes "rbac_db_ok d" and "find (\<lambda>r. rr_routeId r = i) (db_routePolicies d) = Some r"
  shows "routePolicy (mkRegistry (loadData d)) i = Some \<lparr>rpv_routeId = rr_routeId r, rpv_kind = rr_kind r,
     rpv_permissionName = rr_permissionName r, rpv_audit = rr_audit r\<rparr>"
proof -
  let ?view = "\<lambda>p. \<lparr>rpv_routeId = rr_routeId p, rpv_kind = rr_kind p, rpv_permissionName = rr_permissionName p, rpv_audit = rr_audit p\<rparr>"
  let ?pairs = "map (\<lambda>p. (rpv_routeId p, p)) (map ?view (db_routePolicies d))"
  have d: "distinct (map fst ?pairs)" using assms(1) by (simp add: rbac_db_ok_def o_def)
  have "(i, ?view r) \<in> set ?pairs" using find_SomeD [OF assms(2)] by auto
  then have "map_of (js_map ?pairs) i = Some (?view r)"
    unfolding map_of_js_map_distinct [OF d] by (rule map_of_SomeI [OF d])
  then show ?thesis by (simp add: routePolicy_def mkRegistry_def loadData_def loadData_from_def Let_def)
qed

lemma rebinding_locks_out:
  assumes ok: "rbac_db_ok d" "critical_covered d"
    and row: "find (\<lambda>r. rr_routeId r = i) (db_routePolicies d) \<noteq> None"
    and p: "p \<in> set (permission_names d)" "p \<noteq> []" "\<forall>r. (r, p) \<notin> set (db_rolePermissions d)"
  shows "\<exists>d'. mutate_tx actor (command_work (UpdateRoutePolicy i
            \<lparr>urb_kind = ''permission'', urb_permissionName = Some p, urb_audit = None\<rparr>)) d = (Inr (), d')
     \<and> (\<forall>jwtVerify header q audit. isl (protected_request (mkRegistry (loadData d')) jwtVerify (PermissionRoute i q audit) header))"
proof -
  define rebind :: "route_policy_row \<Rightarrow> route_policy_row" where "rebind r = (if rr_routeId r = i then r\<lparr>rr_kind := ''permission'', rr_permissionName := Some p\<rparr> else r)" for r :: route_policy_row
  define d1 where "d1 = d\<lparr>db_routePolicies := map rebind (db_routePolicies d)\<rparr>"
  have keys: "rr_routeId (rebind r) = rr_routeId r" for r by (simp add: rebind_def)
  have same: "role_names d1 = role_names d" "permission_names d1 = permission_names d" "capability_ids d1 = capability_ids d"
    by (simp_all add: d1_def role_names_def permission_names_def capability_ids_def)
  have row_ok: "route_row_ok (rebind r) \<and> (case rr_permissionName (rebind r) of None \<Rightarrow> True | Some q \<Rightarrow> q \<in> set (permission_names d))"
    if "route_row_ok r \<and> (case rr_permissionName r of None \<Rightarrow> True | Some q \<Rightarrow> q \<in> set (permission_names d))" for r
    using that p(1) by (auto simp: rebind_def route_row_ok_def)
  have ok1: "rbac_db_ok d1"
    using ok(1) row_ok unfolding rbac_db_ok_def same by (simp add: d1_def o_def keys list_all_iff)
  have crit: "orphaned_permissions d1 = []"
    using ok(2) by (simp add: orphaned_Nil_iff critical_covered_def d1_def)
  let ?body = "\<lparr>urb_kind = ''permission'', urb_permissionName = Some p, urb_audit = None\<rparr>"
  have exist: "requirePermissionsExist [p] d = (Inr (), d)"
    using p(1) by (simp add: requirePermissionsExist_def op_simps)
  obtain e where work: "command_work (UpdateRoutePolicy i ?body) d = (Inr e, d1)"
    using row ok1 p(2) exist
    by (simp add: updateRoutePolicy_work_def Let_def op_simps some_id_def opt_set_def d1_def rebind_def [abs_def] cong: if_cong)
  have ran: "mutate_tx actor (command_work (UpdateRoutePolicy i ?body)) d = (Inr (), audited actor e d1)"
    unfolding mutate_tx_Inr_iff using work crit by blast
  let ?R = "mkRegistry (loadData (audited actor e d1))"
  have okd: "rbac_db_ok (audited actor e d1)" using ok1 by simp
  have none: "\<not> reg_grants ?R role p" for role
    using loaded_grants [OF okd, of "audited actor e d1" role p] p(3) by (simp add: loadData_def d1_def)
  have policy: "rpv_kind (resolveEffectivePolicy ?R pol) = ''permission'' \<and> rpv_permissionName (resolveEffectivePolicy ?R pol) = Some p"
    if "rap_routeId pol = i" for pol
  proof -
    from row obtain r where r: "find (\<lambda>r. rr_routeId r = i) (db_routePolicies d) = Some r" by blast
    then have found: "find (\<lambda>r. rr_routeId r = i) (db_routePolicies (audited actor e d1)) = Some (rebind r)"
      by (simp add: d1_def find_map o_def keys)
    have "rr_routeId r = i" using find_SomeD [OF r] by simp
    then show ?thesis
      using that by (simp add: resolveEffectivePolicy_def loaded_route [OF okd found] rebind_def)
  qed
  have "isl (protected_request ?R jwtVerify (PermissionRoute i q audit) header)" for jwtVerify header q audit
  proof (cases "protected_request ?R jwtVerify (PermissionRoute i q audit) header")
    case (Inr auth)
    then have "authenticate ?R jwtVerify header = Inr auth" "fst (authorize ?R (PermissionRoute i q audit) (Some auth)) = Inr ()"
      by (auto simp: protected_request_def split: sum.splits)
    with policy [of "PermissionRoute i q audit"] none show ?thesis
      by (auto simp: authorize_Inr_iff authenticate_Inr_iff set_buildAuthContext_permissions)
  qed simp
  with ran show ?thesis by blast
qed

text \<open>A probe runs without authentication: rebound to anything but public, it refuses everybody.\<close>

lemma rebound_probe_refuses:
  assumes "rpv_kind (resolveEffectivePolicy (en_registry env) policy) \<noteq> ''public''"
  shows "run_guard env (GuardPolicy policy) header = Inl unauthenticated_default"
  using assms by (simp add: run_guard_def authorize_def Let_def)

section \<open>Errors before the routes\<close>

text \<open>The framework's own error for a body that does not parse is no application error: the client
  is told of a server error, and without the identifier of its request.\<close>

lemma malformed_body_500:
  assumes "cors_origin (cf_corsAllowedOrigins cfg) (rq_origin req) = Inr ()" and "en_parseBody env req = Some (OtherErr m)"
  shows "\<exists>resp. handle_request cfg env req = Rejected resp \<and> aer_status resp = 500 \<and> aer_correlationId resp = ''unknown''"
  using assms by (simp add: handle_request_def error_handler_def InternalError_def correlationIdOf_def)

section \<open>No route shadows another\<close>

text \<open>What the framework documents of matching: a pattern matches a path of as many segments, its
  literals regardless of case, and \<open>HEAD\<close> requests take the routes of \<open>GET\<close>.\<close>

definition effective_method :: "http_method \<Rightarrow> http_method" where
  "effective_method m = (if m = OtherMethod ''HEAD'' then GET else m)"

definition path_segments :: "string \<Rightarrow> string list" where
  "path_segments path = filter (\<lambda>s. s \<noteq> []) (js_split (CHR ''/'') path)"

fun segment_matches :: "path_segment \<Rightarrow> string \<Rightarrow> bool" where
  "segment_matches (Lit l) s \<longleftrightarrow> map to_lower s = map to_lower l"
| "segment_matches (Param _) s \<longleftrightarrow> s \<noteq> []"

definition express_law :: "(http_method \<Rightarrow> path_segment list \<Rightarrow> 'b request \<Rightarrow> bool) \<Rightarrow> bool" where
  "express_law matches \<longleftrightarrow> (\<forall>m pattern req. matches m pattern req \<longrightarrow>
     m = effective_method (rq_method req) \<and> list_all2 segment_matches pattern (path_segments (rq_path req)))"

fun segments_overlap :: "path_segment \<Rightarrow> path_segment \<Rightarrow> bool" where
  "segments_overlap (Lit a) (Lit b) \<longleftrightarrow> a = b"
| "segments_overlap _ _ \<longleftrightarrow> True"

fun patterns_overlap :: "path_segment list \<Rightarrow> path_segment list \<Rightarrow> bool" where
  "patterns_overlap [] [] \<longleftrightarrow> True"
| "patterns_overlap (x # xs) (y # ys) \<longleftrightarrow> segments_overlap x y \<and> patterns_overlap xs ys"
| "patterns_overlap _ _ \<longleftrightarrow> False"

definition patterns_of :: "route list \<Rightarrow> (http_method \<times> path_segment list) list" where
  "patterns_of routes = map (\<lambda>r. (rt_method r, rt_path r)) routes"

fun no_overlap :: "(http_method \<times> path_segment list) list \<Rightarrow> bool" where
  "no_overlap [] \<longleftrightarrow> True"
| "no_overlap (p # ps) \<longleftrightarrow> list_all (\<lambda>q. fst q = fst p \<longrightarrow> \<not> patterns_overlap (snd p) (snd q)) ps \<and> no_overlap ps"

definition is_lower_literal :: "path_segment \<Rightarrow> bool" where
  "is_lower_literal seg = (case seg of Lit l \<Rightarrow> map to_lower l = l | Param _ \<Rightarrow> True)"

definition example_config :: api_config where
  "example_config = \<lparr>cf_corsAllowedOrigins = [''https://nova''], cf_agentsDatabase = True,
     cf_toolGateway = \<lparr>sv_audience = [''nova-tools''], sv_authorizedParties = [''nova-worker'']\<rparr>,
     cf_entitlement = \<lparr>sv_audience = [''nova-entitlements''], sv_authorizedParties = [''nova-db-mcp'']\<rparr>\<rparr>"

text \<open>The patterns of the application do not depend on its configuration.\<close>

lemma patterns_agent: "patterns_of (agent_routes cfg) = patterns_of (agent_routes example_config)"
  by (simp add: patterns_of_def agent_routes_def mount_def createToolGatewayRouter_def createInternalRbacRegistryRouter_def)

lemma app_no_overlap: "no_overlap (patterns_of (core_routes @ agent_routes example_config))"
  by code_simp

lemma app_lower: "list_all (\<lambda>p. list_all is_lower_literal (snd p)) (patterns_of (core_routes @ agent_routes example_config))"
  by code_simp

lemma no_overlap_append: "no_overlap (xs @ ys) \<Longrightarrow> no_overlap xs"
  by (induction xs) auto

lemma patterns_app:
  "patterns_of (core_routes @ agent_routes cfg) = patterns_of (core_routes @ agent_routes example_config)"
  using patterns_agent [of cfg] unfolding patterns_of_def map_append by simp

lemma app_patterns: "no_overlap (patterns_of (app_routes cfg))"
  "list_all (\<lambda>p. list_all is_lower_literal (snd p)) (patterns_of (app_routes cfg))"
proof -
  have all: "no_overlap (patterns_of (core_routes @ agent_routes cfg))"
    "list_all (\<lambda>p. list_all is_lower_literal (snd p)) (patterns_of (core_routes @ agent_routes cfg))"
    by (subst patterns_app, rule app_no_overlap, subst patterns_app, rule app_lower)
  show "no_overlap (patterns_of (app_routes cfg))"
    using all(1) no_overlap_append [of "patterns_of core_routes" "patterns_of (agent_routes cfg)"]
    by (simp add: app_routes_def patterns_of_def)
  show "list_all (\<lambda>p. list_all is_lower_literal (snd p)) (patterns_of (app_routes cfg))"
    using all(2) by (simp add: app_routes_def patterns_of_def)
qed

lemma patterns_overlap_sym: "patterns_overlap p q = patterns_overlap q p"
proof (induction p q rule: patterns_overlap.induct)
  case (2 x xs y ys)
  then show ?case by (cases x; cases y) auto
qed simp_all

lemma matches_overlap:
  assumes "list_all2 segment_matches p path" "list_all2 segment_matches q path"
    and "list_all is_lower_literal p" "list_all is_lower_literal q"
  shows "patterns_overlap p q"
  using assms
proof (induction p arbitrary: q path)
  case (Cons x p)
  then obtain y q' s rest where q: "q = y # q'" "path = s # rest" by (cases q; cases path) auto
  with Cons.prems have "segments_overlap x y" by (cases x; cases y) (auto simp: is_lower_literal_def)
  with Cons q show ?case by auto
qed (cases q; auto)

lemma no_overlap_distinct:
  assumes "no_overlap (patterns_of routes)" "r \<in> set routes" "r' \<in> set routes" "rt_method r = rt_method r'"
    and "patterns_overlap (rt_path r) (rt_path r')"
  shows "r = r'"
  using assms
proof (induction routes)
  case (Cons x routes)
  then have apart: "\<forall>q \<in> set routes. rt_method q = rt_method x \<longrightarrow> \<not> patterns_overlap (rt_path x) (rt_path q)"
    by (auto simp: patterns_of_def list_all_iff)
  from Cons.prems(1) have rest: "no_overlap (patterns_of routes)" by (simp add: patterns_of_def)
  show ?case
  proof (cases "r = x \<or> r' = x")
    case True
    then show ?thesis using apart Cons.prems(2-5) patterns_overlap_sym by auto
  next
    case False
    then show ?thesis using Cons.IH [OF rest] Cons.prems(2-5) by auto
  qed
qed simp

lemma matching_route_unique:
  assumes law: "express_law (en_matches env)"
    and r: "r \<in> set (app_routes cfg)" "en_matches env (rt_method r) (rt_path r) req"
    and r': "r' \<in> set (app_routes cfg)" "en_matches env (rt_method r') (rt_path r') req"
  shows "r = r'"
proof -
  from law r(2) r'(2) have "rt_method r = rt_method r'"
    unfolding express_law_def by metis
  moreover from law r(2) r'(2) have m: "list_all2 segment_matches (rt_path r) (path_segments (rq_path req))"
      "list_all2 segment_matches (rt_path r') (path_segments (rq_path req))"
    unfolding express_law_def by blast+
  moreover have "list_all is_lower_literal (rt_path r)" "list_all is_lower_literal (rt_path r')"
    using app_patterns(2) [of cfg] r(1) r'(1) by (auto simp: patterns_of_def list_all_iff)
  ultimately show ?thesis
    using no_overlap_distinct [OF app_patterns(1) r(1) r'(1)] matches_overlap by blast
qed

text \<open>C18: No route shadows another. Under the framework's documented matching a request matches at
  most one of the sixty-six routes, so the order in which \<open>app.ts\<close> mounts the routers, and each
  router registers its routes, does not matter: a route whose pattern the request matches is the
  one whose handler is found, and its handler can always be reached.\<close>

theorem routes_unambiguous:
  assumes "express_law (en_matches env)"
    and "r \<in> set (app_routes cfg)" and "en_matches env (rt_method r) (rt_path r) req"
  shows "find_route env (app_routes cfg) req = Some r
    \<and> {r' \<in> set (app_routes cfg). en_matches env (rt_method r') (rt_path r') req} = {r}
    \<and> (\<forall>routes. set routes = set (app_routes cfg) \<longrightarrow> find_route env routes req = Some r)"
proof -
  have only: "r' = r" if "r' \<in> set (app_routes cfg)" "en_matches env (rt_method r') (rt_path r') req" for r'
    using matching_route_unique [OF assms(1) that assms(2,3)] .
  have found: "find_route env routes req = Some r" if "set routes = set (app_routes cfg)" for routes
  proof (cases "find_route env routes req")
    case None
    then show ?thesis using assms(2,3) that by (auto simp: find_route_def find_None_iff_all)
  next
    case (Some r')
    then show ?thesis using find_route_Some [OF Some] that only by auto
  qed
  moreover have "{r' \<in> set (app_routes cfg). en_matches env (rt_method r') (rt_path r') req} = {r}"
    using only assms(2,3) by blast
  ultimately show ?thesis by blast
qed

section \<open>An example platform\<close>

definition example_matches :: "http_method \<Rightarrow> path_segment list \<Rightarrow> unit request \<Rightarrow> bool" where
  "example_matches m pattern req \<longleftrightarrow>
     m = effective_method (rq_method req) \<and> list_all2 segment_matches pattern (path_segments (rq_path req))"

definition example_api_env :: "unit api_env" where
  "example_api_env = \<lparr>en_registry = mkRegistry (loadData seeded_booted_db), en_userJwt = example_verify,
     en_serviceJwt = (\<lambda>_ _. None), en_matches = example_matches, en_parseBody = (\<lambda>_. None), en_limited = (\<lambda>_. False),
     en_parse = (\<lambda>_ _. ZodOk), en_uuid = ''uuid''\<rparr>"

definition example_request :: "unit request" where
  "example_request = \<lparr>rq_method = GET, rq_path = ''/api/v1/Sales/'', rq_origin = Some ''https://nova'',
     rq_authorization = Some ''Bearer tok'', rq_xRequestId = None, rq_content = ()\<rparr>"

definition example_route :: route where
  "example_route = route GET [Lit ''api'', Lit ''v1'', Lit ''sales''] (GuardUser listSalesPolicy)
     (schemas None (Some ''listSalesQuerySchema'') None) ''SaleController.list''"

lemma example_route_in: "example_route \<in> set (app_routes example_config)"
proof -
  have "list_ex (\<lambda>r. r = example_route) core_routes" by code_simp
  then show ?thesis by (auto simp: app_routes_def list_ex_iff)
qed

lemma example_route_matches: "en_matches example_api_env (rt_method example_route) (rt_path example_route) example_request"
proof -
  have "example_matches (rt_method example_route) (rt_path example_route) example_request" by code_simp
  then show ?thesis by (simp add: example_api_env_def)
qed

lemma example_law: "express_law (en_matches example_api_env)"
  by (simp add: express_law_def example_api_env_def example_matches_def)

theorem routes_unambiguous_witness:
  "find_route example_api_env (app_routes example_config) example_request = Some example_route"
  using routes_unambiguous [OF example_law example_route_in example_route_matches] by blast

lemma example_booted: "fst (bootstrap seeded_db) = Inr (en_registry example_api_env)"
  by (simp add: bootstrap_seeded example_api_env_def)


lemma example_handled:
  "\<exists>auth. handle_request example_config example_api_env example_request = Handled example_route auth"
proof -
  have found: "find_route example_api_env (app_routes example_config) example_request = Some example_route"
  proof (cases "find_route example_api_env (app_routes example_config) example_request")
    case None
    then show ?thesis using example_route_in example_route_matches by (auto simp: find_route_def find_None_iff_all)
  next
    case (Some r)
    then show ?thesis
      using find_route_Some [OF Some] matching_route_unique [OF example_law _ _ example_route_in example_route_matches] by auto
  qed
  have auth: "authenticate R example_verify (Some ''Bearer tok'') = Inr (buildAuthContext R example_payload)" for R
    by (simp add: authenticate_def extractBearerToken_def bearer_def token_verify_def example_verify_def
        BEARER_PREFIX_def starts_with_def js_trim_def js_space_def)
  have "''read-sales'' \<in> set (ac_permissions (buildAuthContext (mkRegistry (loadData seeded_booted_db)) example_payload))"
  proof -
    have roles: "''sales-user'' \<in> set (extractRealmRoles example_payload)" "''sales-user'' \<in> set ROLES" by code_simp+
    have "case map_of ROLE_PERMISSIONS ''sales-user'' of None \<Rightarrow> False | Some ps \<Rightarrow> ''read-sales'' \<in> set ps" by code_simp
    then show ?thesis unfolding set_buildAuthContext_permissions booted_roles using roles by (auto split: option.splits)
  qed
  moreover have "listSalesPolicy \<in> set declared_policies" by (simp add: declared_policies_def)
  ultimately have "fst (authorize (mkRegistry (loadData seeded_booted_db)) listSalesPolicy
      (Some (buildAuthContext (mkRegistry (loadData seeded_booted_db)) example_payload))) = Inr ()"
    unfolding authorize_Inr_iff booted_policy [OF \<open>listSalesPolicy \<in> set declared_policies\<close>]
    by (simp add: declared_view_def listSalesPolicy_def)
  moreover have "cors_origin (cf_corsAllowedOrigins example_config) (rq_origin example_request) = Inr ()"
    by (simp add: cors_origin_def some_id_def example_config_def example_request_def)
  moreover have "en_parseBody example_api_env q = None" "\<not> en_limited example_api_env q" "en_parse example_api_env n q = ZodOk"
    "en_registry example_api_env = mkRegistry (loadData seeded_booted_db)" "en_userJwt example_api_env = example_verify" for q n
    by (simp_all add: example_api_env_def)
  moreover have "rt_guard example_route = GuardUser listSalesPolicy"
    "rt_schemas example_route = schemas None (Some ''listSalesQuerySchema'') None"
    "rq_authorization example_request = Some ''Bearer tok''"
    by (simp_all add: example_route_def example_request_def)
  ultimately show ?thesis
    using found by (simp add: handle_request_def Let_def run_guard_def protected_request_def auth validateRequest_def parse_part_def)
qed

theorem api_guarded_witness:
  "\<exists>auth. handle_request example_config example_api_env example_request = Handled example_route auth
     \<and> guarded example_api_env example_route (Some ''Bearer tok'') auth"
proof -
  from example_handled obtain auth where h: "handle_request example_config example_api_env example_request = Handled example_route auth"
    by blast
  with api_guarded [OF h] show ?thesis by (auto simp: example_request_def)
qed

end
