(* ===== verification/Api_Schemas.thy ===== *)
theory Api_Schemas
  imports Capability_Executor Users Rbac_Admin Admin_Agents Tool_Gateway Api_Surface
begin

text \<open>
  The request schemas of the API (\<open>api/src/modules/*/*.schema.ts\<close>), in the combinators of
  \<open>Capability_Executor\<close>: each parses the JSON value of the parameters, the query or the body into the
  input of a service. The UUID, date, email and URL syntax of zod are arguments. \<open>Number\<close> of a numeral
  is read exactly; JavaScript rounds one that needs more than 53 bits, and refuses one beyond its range.
\<close>

section \<open>Coerced numbers\<close>

text \<open>\<open>Number(s)\<close> where it is an integer: white space around, a sign, a decimal literal with an exponent,
  or a literal with a radix prefix; the empty string is zero.\<close>

definition split_sign :: "string \<Rightarrow> int \<times> string" where
  "split_sign s = (if starts_with ''-'' s then (-1, drop 1 s) else if starts_with ''+'' s then (1, drop 1 s) else (1, s))"

definition digits_only :: "string \<Rightarrow> bool" where
  "digits_only s \<longleftrightarrow> s \<noteq> [] \<and> list_all is_digit s"

definition hex_digit_val :: "char \<Rightarrow> nat option" where
  "hex_digit_val c = (let n = of_char c :: nat in
     if is_digit c then Some (digit_val c)
     else if 65 \<le> n \<and> n \<le> 70 then Some (n - 55)
     else if 97 \<le> n \<and> n \<le> 102 then Some (n - 87)
     else None)"

definition radix_value :: "nat \<Rightarrow> string \<Rightarrow> int option" where
  "radix_value radix s =
     (if s = [] then None
      else foldl (\<lambda>acc c. Option.bind acc (\<lambda>v. Option.bind (hex_digit_val c) (\<lambda>d.
             if d < radix then Some (v * int radix + int d) else None))) (Some 0) s)"

definition exponent_value :: "string \<Rightarrow> int option" where
  "exponent_value s = (let (sign, ds) = split_sign s in
     if digits_only ds then Some (sign * int (digits_val ds)) else None)"

text \<open>An integer times a power of ten, if that is an integer.\<close>

definition scaled_integer :: "int \<Rightarrow> int \<Rightarrow> int option" where
  "scaled_integer m e =
     (if 0 \<le> e then Some (m * 10 ^ nat e)
      else if m mod 10 ^ nat (- e) = 0 then Some (m div 10 ^ nat (- e)) else None)"

definition is_exponent_mark :: "char \<Rightarrow> bool" where
  "is_exponent_mark c \<longleftrightarrow> c = CHR ''e'' \<or> c = CHR ''E''"

definition decimal_value :: "string \<Rightarrow> int option" where
  "decimal_value s =
     (let (sign, body) = split_sign s;
          mantissa = takeWhile (\<lambda>c. \<not> is_exponent_mark c) body;
          rest = dropWhile (\<lambda>c. \<not> is_exponent_mark c) body;
          whole = takeWhile (\<lambda>c. c \<noteq> CHR ''.'') mantissa;
          fraction = drop 1 (dropWhile (\<lambda>c. c \<noteq> CHR ''.'') mantissa)
      in if digits_only (whole @ fraction)
         then Option.bind (if rest = [] then Some 0 else exponent_value (tl rest)) (\<lambda>e.
                scaled_integer (sign * int (digits_val (whole @ fraction))) (e - int (length fraction)))
         else None)"

definition js_number_text :: "string \<Rightarrow> int option" where
  "js_number_text text =
     (let s = js_trim text in
      if s = [] then Some 0
      else if take 2 s \<in> {''0x'', ''0X''} then radix_value 16 (drop 2 s)
      else if take 2 s \<in> {''0o'', ''0O''} then radix_value 8 (drop 2 s)
      else if take 2 s \<in> {''0b'', ''0B''} then radix_value 2 (drop 2 s)
      else decimal_value s)"

text \<open>\<open>Number(v)\<close>: an array is its text, which is that of its element if it has one.\<close>

fun js_Number :: "json \<Rightarrow> int option" where
  "js_Number JNull = Some 0"
| "js_Number (JBool b) = Some (if b then 1 else 0)"
| "js_Number (JNum n) = Some n"
| "js_Number (JStr s) = js_number_text s"
| "js_Number (JArr []) = Some 0"
| "js_Number (JArr [JBool b]) = None"
| "js_Number (JArr [v]) = js_Number v"
| "js_Number (JArr (v # w # vs)) = None"
| "js_Number (JObj kvs) = None"

text \<open>\<open>z.coerce.number().int()\<close> with its bounds.\<close>

definition z_count :: "int \<Rightarrow> int option \<Rightarrow> nat schema" where
  "z_count lo hi j = Option.bind (js_Number j) (\<lambda>n.
     if lo \<le> n \<and> (case hi of None \<Rightarrow> True | Some h \<Rightarrow> n \<le> h) then Some (nat n) else None)"

text \<open>\<open>z.enum(['true', 'false']).transform((value) => value === 'true')\<close>\<close>

definition z_flag :: "bool schema" where
  "z_flag = z_enum [(''true'', True), (''false'', False)]"

definition z_one_of :: "string list \<Rightarrow> string schema" where
  "z_one_of values = z_enum (map (\<lambda>v. (v, v)) values)"

definition z_array_max :: "nat \<Rightarrow> 'a schema \<Rightarrow> 'a list schema" where
  "z_array_max hi p j = Option.bind (z_array 0 p j) (\<lambda>xs. if length xs \<le> hi then Some xs else None)"

definition z_check :: "('a \<Rightarrow> bool) \<Rightarrow> 'a schema \<Rightarrow> 'a schema" where
  "z_check P p j = Option.bind (p j) (\<lambda>x. if P x then Some x else None)"

lemma js_number_examples:
  "js_number_text '' 12 '' = Some 12" "js_number_text ''1e2'' = Some 100" "js_number_text ''2.0'' = Some 2"
  "js_number_text ''2.5'' = None" "js_number_text ''0x1F'' = Some 31" "js_number_text ''-3'' = Some (-3)"
  "js_number_text ''1 2'' = None" "js_number_text ''.'' = None" "js_number_text ''5.'' = Some 5" "js_number_text ''25e-1'' = None"
  by code_simp+

section \<open>Identifiers\<close>

text \<open>\<open>z.object({ id: z.string().uuid() })\<close> of customers, sales, issues, actions, procedures, users and
  conversations, and the identifier of a run.\<close>

definition idParams :: "'z exec_env \<Rightarrow> string schema" where
  "idParams env = field ''id'' (z_uuid env)"

definition runIdParams :: "'z exec_env \<Rightarrow> string schema" where
  "runIdParams env = field ''runId'' (z_uuid env)"

section \<open>Customers, products and sales\<close>

definition listCustomersQuery :: "customer_list_filter schema" where
  "listCustomersQuery j =
     Option.bind (z_object j) (\<lambda>_.
     Option.bind (defaulted ''page'' 1 (z_count 1 None) j) (\<lambda>page.
     Option.bind (defaulted ''pageSize'' 20 (z_count 1 (Some 100)) j) (\<lambda>pageSize.
     Option.bind (optional ''active'' z_flag j) (\<lambda>active.
     Option.bind (optional ''search'' (z_trimmed 1 (Some 255)) j) (\<lambda>search.
     Some \<lparr>cf_page = page, cf_pageSize = pageSize, cf_active = active, cf_search = search\<rparr>)))))"

definition listProductsQuery :: "product_list_filter schema" where
  "listProductsQuery j =
     Option.bind (z_object j) (\<lambda>_.
     Option.bind (defaulted ''page'' 1 (z_count 1 None) j) (\<lambda>page.
     Option.bind (defaulted ''pageSize'' 20 (z_count 1 (Some 100)) j) (\<lambda>pageSize.
     Option.bind (optional ''search'' (z_trimmed 1 (Some 255)) j) (\<lambda>search.
     Option.bind (optional ''category'' (z_trimmed 1 (Some 255)) j) (\<lambda>category.
     Option.bind (optional ''inCatalog'' z_flag j) (\<lambda>inCatalog.
     Some \<lparr>pf_page = page, pf_pageSize = pageSize, pf_search = search, pf_category = category,
           pf_inCatalog = inCatalog\<rparr>))))))"

definition listSalesQuery :: "'z exec_env \<Rightarrow> sale_list_filter schema" where
  "listSalesQuery env j =
     Option.bind (z_object j) (\<lambda>_.
     Option.bind (defaulted ''page'' 1 (z_count 1 None) j) (\<lambda>page.
     Option.bind (defaulted ''pageSize'' 20 (z_count 1 (Some 100)) j) (\<lambda>pageSize.
     Option.bind (optional ''customerId'' (z_uuid env) j) (\<lambda>customerId.
     Option.bind (optional ''paymentReceived'' z_flag j) (\<lambda>paymentReceived.
     Option.bind (optional ''from'' (z_datetime env) j) (\<lambda>frm.
     Option.bind (optional ''to'' (z_datetime env) j) (\<lambda>til.
     Some \<lparr>sf_page = page, sf_pageSize = pageSize, sf_customerId = customerId,
           sf_paymentReceived = paymentReceived, sf_from = frm, sf_to = til\<rparr>)))))))"

text \<open>\<open>/^\d{1,3}(\.\d{1,2})?$/\<close> of the trimmed string.\<close>

definition decimal_parts :: "string \<Rightarrow> (string \<times> string) option" where
  "decimal_parts s =
     (case js_split (CHR ''.'') s of
        [whole] \<Rightarrow> if digits_only whole \<and> length whole \<le> 3 then Some (whole, []) else None
      | [whole, fraction] \<Rightarrow> if digits_only whole \<and> length whole \<le> 3 \<and> digits_only fraction \<and> length fraction \<le> 2
          then Some (whole, fraction) else None
      | _ \<Rightarrow> None)"

definition decimalString :: "string schema" where
  "decimalString = z_check (\<lambda>s. decimal_parts s \<noteq> None) (z_trimmed 0 None)"

text \<open>\<open>Number(value) * 100\<close> of such a string, an integer.\<close>

definition decimal_hundredths :: "string \<Rightarrow> nat" where
  "decimal_hundredths s = (case decimal_parts s of
       Some (whole, fraction) \<Rightarrow> 100 * digits_val whole + digits_val (take 2 (fraction @ ''00''))
     | None \<Rightarrow> 0)"

definition saleLineBody :: "'z exec_env \<Rightarrow> (string \<times> int) schema" where
  "saleLineBody env j =
     Option.bind (field ''productId'' (z_uuid env) j) (\<lambda>productId.
     Option.bind (field ''quantity'' (z_check (\<lambda>n. n \<le> 100000) z_positive) j) (\<lambda>quantity. Some (productId, quantity)))"

definition createSaleBody :: "'z exec_env \<Rightarrow> create_sale_input schema" where
  "createSaleBody env j =
     Option.bind (field ''customerId'' (z_uuid env) j) (\<lambda>customerId.
     Option.bind (field ''date'' (z_datetime env) j) (\<lambda>date.
     Option.bind (defaulted ''discountApplied'' ''0.00'' (z_check (\<lambda>s. decimal_hundredths s \<le> 10000) decimalString) j) (\<lambda>discountApplied.
     Option.bind (defaulted ''paymentReceived'' False z_boolean j) (\<lambda>paymentReceived.
     Option.bind (defaulted ''dateOfPayment'' None (z_nullable (z_datetime env)) j) (\<lambda>dateOfPayment.
     Option.bind (field ''items'' (z_array 1 (saleLineBody env)) j) (\<lambda>items.
     if distinct (map fst items) \<and> (paymentReceived \<longrightarrow> dateOfPayment \<noteq> None)
     then Some \<lparr>csi_customerId = customerId, csi_date = date, csi_discountApplied = discountApplied,
           csi_paymentReceived = paymentReceived, csi_dateOfPayment = dateOfPayment, csi_items = items\<rparr>
     else None))))))"

section \<open>Issues and actions\<close>

definition listIssuesQuery :: "'z exec_env \<Rightarrow> issue_list_filter schema" where
  "listIssuesQuery env j =
     Option.bind (z_object j) (\<lambda>_.
     Option.bind (defaulted ''page'' 1 (z_count 1 None) j) (\<lambda>page.
     Option.bind (defaulted ''pageSize'' 20 (z_count 1 (Some 100)) j) (\<lambda>pageSize.
     Option.bind (optional ''status'' (z_enum issue_status_values) j) (\<lambda>status.
     Option.bind (optional ''customerId'' (z_uuid env) j) (\<lambda>customerId.
     Option.bind (optional ''from'' (z_datetime env) j) (\<lambda>frm.
     Option.bind (optional ''to'' (z_datetime env) j) (\<lambda>til.
     Some \<lparr>ilf_page = page, ilf_pageSize = pageSize, ilf_status = status, ilf_customerId = customerId,
           ilf_from = frm, ilf_to = til\<rparr>)))))))"

definition createIssueBody :: "'z exec_env \<Rightarrow> create_issue_input schema" where
  "createIssueBody env j =
     Option.bind (field ''salesId'' (z_uuid env) j) (\<lambda>salesId.
     Option.bind (field ''description'' (z_trimmed 1 (Some 5000)) j) (\<lambda>description.
     Option.bind (field ''dateRaised'' (z_datetime env) j) (\<lambda>dateRaised.
     Option.bind (field ''status'' (z_enum issue_status_values) j) (\<lambda>status.
     Some \<lparr>cii_salesId = salesId, cii_description = description, cii_dateRaised = dateRaised, cii_status = status\<rparr>))))"

definition updateIssueBody :: "'z exec_env \<Rightarrow> update_issue_input schema" where
  "updateIssueBody env j =
     Option.bind (z_object j) (\<lambda>_.
     Option.bind (optional ''description'' (z_trimmed 1 (Some 5000)) j) (\<lambda>description.
     Option.bind (optional ''status'' (z_enum issue_status_values) j) (\<lambda>status.
     Option.bind (optional ''dateLastUpdate'' (z_datetime env) j) (\<lambda>dateLastUpdate.
     if description \<noteq> None \<or> status \<noteq> None
     then Some \<lparr>uii_description = description, uii_status = status, uii_dateLastUpdate = dateLastUpdate\<rparr>
     else None))))"

definition listActionsQuery :: "'z exec_env \<Rightarrow> action_list_filter schema" where
  "listActionsQuery env j =
     Option.bind (z_object j) (\<lambda>_.
     Option.bind (defaulted ''page'' 1 (z_count 1 None) j) (\<lambda>page.
     Option.bind (defaulted ''pageSize'' 50 (z_count 1 (Some 200)) j) (\<lambda>pageSize.
     Option.bind (optional ''status'' (z_enum action_status_values) j) (\<lambda>status.
     Option.bind (optional ''assignedOwnerId'' (z_uuid env) j) (\<lambda>assignedOwnerId.
     Option.bind (optional ''issueId'' (z_uuid env) j) (\<lambda>issueId.
     Some \<lparr>alf_page = page, alf_pageSize = pageSize, alf_status = status,
           alf_assignedOwnerId = assignedOwnerId, alf_issueId = issueId\<rparr>))))))"

definition updateActionBody :: "'z exec_env \<Rightarrow> update_action_input schema" where
  "updateActionBody env j =
     Option.bind (z_object j) (\<lambda>_.
     Option.bind (optional ''status'' (z_enum action_status_values) j) (\<lambda>status.
     Option.bind (optional ''description'' (z_trimmed 1 (Some 5000)) j) (\<lambda>description.
     Option.bind (optional ''assignedOwnerId'' (z_uuid env) j) (\<lambda>assignedOwnerId.
     if status \<noteq> None \<or> description \<noteq> None \<or> assignedOwnerId \<noteq> None
     then Some \<lparr>uai_status = status, uai_description = description, uai_assignedOwnerId = assignedOwnerId\<rparr>
     else None))))"

definition addCommentBody :: "'z exec_env \<Rightarrow> (string \<times> int) schema" where
  "addCommentBody env j =
     Option.bind (field ''comment'' (z_trimmed 1 (Some 5000)) j) (\<lambda>text.
     Option.bind (field ''datetime'' (z_datetime env) j) (\<lambda>datetime. Some (text, datetime)))"

definition createActionBody :: "'z exec_env \<Rightarrow> create_action_input schema" where
  "createActionBody env j =
     Option.bind (field ''issueId'' (z_uuid env) j) (\<lambda>issueId.
     Option.bind (field ''title'' (z_trimmed 1 (Some 255)) j) (\<lambda>title.
     Option.bind (field ''description'' (z_trimmed 1 (Some 5000)) j) (\<lambda>description.
     Option.bind (optional ''assignedOwnerId'' (z_uuid env) j) (\<lambda>assignedOwnerId.
     Option.bind (optional ''status'' (z_enum action_status_values) j) (\<lambda>status.
     Some \<lparr>cai_issueId = issueId, cai_title = title, cai_description = description,
           cai_assignedOwnerId = assignedOwnerId, cai_status = status\<rparr>)))))"

section \<open>Procedures\<close>

definition listSopsQuery :: "sop_list_filter schema" where
  "listSopsQuery j =
     Option.bind (z_object j) (\<lambda>_.
     Option.bind (defaulted ''page'' 1 (z_count 1 None) j) (\<lambda>page.
     Option.bind (defaulted ''pageSize'' 50 (z_count 1 (Some 200)) j) (\<lambda>pageSize.
     Option.bind (optional ''search'' (z_trimmed 1 (Some 255)) j) (\<lambda>search.
     Option.bind (optional ''active'' z_flag j) (\<lambda>active.
     Some \<lparr>slf_page = page, slf_pageSize = pageSize, slf_search = search, slf_active = active\<rparr>)))))"

definition createSopBody :: "create_sop_input schema" where
  "createSopBody j =
     Option.bind (field ''name'' (z_trimmed 1 (Some 255)) j) (\<lambda>name.
     Option.bind (field ''description'' (z_trimmed 1 (Some 2000)) j) (\<lambda>description.
     Option.bind (defaulted ''active'' True z_boolean j) (\<lambda>active.
     Option.bind (field ''fullText'' (z_trimmed 1 (Some 50000)) j) (\<lambda>fullText.
     Some \<lparr>cso_name = name, cso_description = description, cso_active = active, cso_fullText = fullText\<rparr>))))"

definition updateSopBody :: "update_sop_input schema" where
  "updateSopBody j =
     Option.bind (z_object j) (\<lambda>_.
     Option.bind (optional ''name'' (z_trimmed 1 (Some 255)) j) (\<lambda>name.
     Option.bind (optional ''description'' (z_trimmed 1 (Some 2000)) j) (\<lambda>description.
     Option.bind (optional ''active'' z_boolean j) (\<lambda>active.
     if name \<noteq> None \<or> description \<noteq> None \<or> active \<noteq> None
     then Some \<lparr>uso_name = name, uso_description = description, uso_active = active\<rparr>
     else None))))"

definition createSopVersionBody :: "string schema" where
  "createSopVersionBody = field ''fullText'' (z_trimmed 1 (Some 50000))"

section \<open>Users\<close>

text \<open>Roles are checked against the static catalog, not against the registry.\<close>

definition rolesSchema :: "string list schema" where
  "rolesSchema = z_check (\<lambda>roles. list_all isRole roles \<and> distinct roles) (z_array_max 20 (z_trimmed 1 None))"

definition listUsersQuery :: "user_list_filter schema" where
  "listUsersQuery j =
     Option.bind (z_object j) (\<lambda>_.
     Option.bind (defaulted ''page'' 1 (z_count 1 None) j) (\<lambda>page.
     Option.bind (defaulted ''pageSize'' 20 (z_count 1 (Some 100)) j) (\<lambda>pageSize.
     Option.bind (optional ''search'' (z_trimmed 1 (Some 255)) j) (\<lambda>search.
     Option.bind (optional ''role'' (z_check isRole (z_trimmed 1 None)) j) (\<lambda>role.
     Some \<lparr>uf_page = page, uf_pageSize = pageSize, uf_search = search, uf_role = role\<rparr>)))))"

definition createUserBody :: "(string \<Rightarrow> bool) \<Rightarrow> create_user_input schema" where
  "createUserBody isEmail j =
     Option.bind (field ''email'' (z_check isEmail (z_trimmed 0 (Some 320))) j) (\<lambda>email.
     Option.bind (field ''firstName'' (z_trimmed 1 (Some 255)) j) (\<lambda>firstName.
     Option.bind (field ''lastName'' (z_trimmed 1 (Some 255)) j) (\<lambda>lastName.
     Option.bind (defaulted ''middleName'' None (z_nullable (z_trimmed 0 (Some 255))) j) (\<lambda>middleName.
     Option.bind (defaulted ''description'' None (z_nullable (z_trimmed 0 (Some 2000))) j) (\<lambda>description.
     Option.bind (field ''roles'' rolesSchema j) (\<lambda>roles.
     Option.bind (optional ''sendResetPasswordEmail'' z_boolean j) (\<lambda>sendResetPasswordEmail.
     Some \<lparr>cui_email = email, cui_firstName = firstName, cui_lastName = lastName, cui_middleName = middleName,
           cui_description = description, cui_roles = roles, cui_sendResetPasswordEmail = sendResetPasswordEmail\<rparr>)))))))"

definition updateUserBody :: "update_user_input schema" where
  "updateUserBody j =
     Option.bind (z_object j) (\<lambda>_.
     Option.bind (optional ''firstName'' (z_trimmed 1 (Some 255)) j) (\<lambda>firstName.
     Option.bind (optional ''lastName'' (z_trimmed 1 (Some 255)) j) (\<lambda>lastName.
     Option.bind (optional ''middleName'' (z_nullable (z_trimmed 0 (Some 255))) j) (\<lambda>middleName.
     Option.bind (optional ''description'' (z_nullable (z_trimmed 0 (Some 2000))) j) (\<lambda>description.
     Option.bind (optional ''active'' z_boolean j) (\<lambda>active.
     if firstName \<noteq> None \<or> lastName \<noteq> None \<or> middleName \<noteq> None \<or> description \<noteq> None \<or> active \<noteq> None
     then Some \<lparr>uui_firstName = firstName, uui_lastName = lastName, uui_middleName = middleName,
           uui_description = description, uui_active = active\<rparr>
     else None))))))"

definition setRolesBody :: "string list schema" where
  "setRolesBody = field ''roles'' rolesSchema"

section \<open>RBAC administration\<close>

definition is_alnum :: "char \<Rightarrow> bool" where
  "is_alnum c \<longleftrightarrow> (let n = of_char c :: nat in is_digit c \<or> 65 \<le> n \<and> n \<le> 90 \<or> 97 \<le> n \<and> n \<le> 122)"

text \<open>\<open>/^[a-zA-Z0-9][a-zA-Z0-9._-]*$/\<close>\<close>

definition rbac_name_ok :: "string \<Rightarrow> bool" where
  "rbac_name_ok s \<longleftrightarrow> (case s of [] \<Rightarrow> False
     | c # cs \<Rightarrow> is_alnum c \<and> list_all (\<lambda>d. is_alnum d \<or> d \<in> {CHR ''.'', CHR ''_'', CHR ''-''}) cs)"

definition rbacName :: "string schema" where
  "rbacName = z_check rbac_name_ok (z_trimmed 1 (Some 100))"

definition rbac_description :: "string option schema" where
  "rbac_description = z_nullable (z_trimmed 0 (Some 2000))"

definition permissionList :: "string list schema" where
  "permissionList = z_check distinct (z_array_max 200 rbacName)"

definition nameParams :: "string schema" where
  "nameParams = field ''name'' rbacName"

text \<open>The body of a new role or permission, and of an update, whose description is mandatory.\<close>

definition createRoleBody :: "(string \<times> string option) schema" where
  "createRoleBody j =
     Option.bind (field ''name'' rbacName j) (\<lambda>name.
     Option.bind (defaulted ''description'' None rbac_description j) (\<lambda>description. Some (name, description)))"

definition updateRoleBody :: "string option schema" where
  "updateRoleBody = field ''description'' rbac_description"

definition setRolePermissionsBody :: "string list schema" where
  "setRolePermissionsBody = field ''permissions'' permissionList"

definition capabilityIdParams :: "string schema" where
  "capabilityIdParams = field ''id'' rbacName"

definition updateCapabilityBody :: "update_capability_body schema" where
  "updateCapabilityBody j =
     Option.bind (z_object j) (\<lambda>_.
     Option.bind (optional ''enabled'' z_boolean j) (\<lambda>enabled.
     Option.bind (optional ''risk'' (z_one_of [''low'', ''high'']) j) (\<lambda>risk.
     Option.bind (optional ''requiresApproval'' z_boolean j) (\<lambda>requiresApproval.
     Option.bind (optional ''requiredPermissions'' permissionList j) (\<lambda>requiredPermissions.
     Option.bind (optional ''description'' rbac_description j) (\<lambda>description.
     if enabled \<noteq> None \<or> risk \<noteq> None \<or> requiresApproval \<noteq> None \<or> requiredPermissions \<noteq> None \<or> description \<noteq> None
     then Some \<lparr>ucb_enabled = enabled, ucb_risk = risk, ucb_requiresApproval = requiresApproval,
           ucb_requiredPermissions = requiredPermissions, ucb_description = description\<rparr>
     else None))))))"

definition createCapabilityBody :: "create_capability_body schema" where
  "createCapabilityBody j =
     Option.bind (field ''id'' rbacName j) (\<lambda>i.
     Option.bind (field ''kind'' (z_one_of [''agent-skill'', ''mcp-tool'']) j) (\<lambda>kind.
     Option.bind (field ''mode'' (z_one_of [''read'', ''write'']) j) (\<lambda>mode.
     Option.bind (field ''risk'' (z_one_of [''low'', ''high'']) j) (\<lambda>risk.
     Option.bind (defaulted ''resourceScoped'' False z_boolean j) (\<lambda>resourceScoped.
     Option.bind (defaulted ''delegated'' False z_boolean j) (\<lambda>delegated.
     Option.bind (defaulted ''requiresApproval'' False z_boolean j) (\<lambda>requiresApproval.
     Option.bind (field ''requiredPermissions'' permissionList j) (\<lambda>requiredPermissions.
     Option.bind (defaulted ''description'' None rbac_description j) (\<lambda>description.
     Some \<lparr>ccb_id = i, ccb_kind = kind, ccb_mode = mode, ccb_risk = risk, ccb_resourceScoped = resourceScoped,
           ccb_delegated = delegated, ccb_requiresApproval = requiresApproval,
           ccb_requiredPermissions = requiredPermissions, ccb_description = description\<rparr>)))))))))"

definition routeIdParams :: "string schema" where
  "routeIdParams = field ''routeId'' (z_trimmed 1 (Some 150))"

definition updateRoutePolicyBody :: "update_route_body schema" where
  "updateRoutePolicyBody j =
     Option.bind (field ''kind'' (z_one_of [''public'', ''authenticated'', ''permission'']) j) (\<lambda>kind.
     Option.bind (defaulted ''permissionName'' None (z_nullable rbacName) j) (\<lambda>permissionName.
     Option.bind (optional ''audit'' z_boolean j) (\<lambda>audit.
     if kind \<noteq> ''permission'' \<or> length (nullish permissionName []) > 0
     then Some \<lparr>urb_kind = kind, urb_permissionName = permissionName, urb_audit = audit\<rparr>
     else None)))"

definition viewPermissionParams :: "(string \<times> string) schema" where
  "viewPermissionParams j =
     Option.bind (field ''viewName'' (z_trimmed 1 (Some 100)) j) (\<lambda>viewName.
     Option.bind (field ''mode'' (z_one_of [''read'', ''write'']) j) (\<lambda>mode. Some (viewName, mode)))"

definition updateViewPermissionBody :: "string schema" where
  "updateViewPermissionBody = field ''permissionName'' rbacName"

section \<open>The registry of agents\<close>

definition onboardAgentBody :: "(string \<Rightarrow> bool) \<Rightarrow> onboard_agent_input schema" where
  "onboardAgentBody isHttpUrl j =
     Option.bind (field ''hostUrl'' (z_check isHttpUrl (z_trimmed 0 (Some 2048))) j) (\<lambda>hostUrl.
     Option.bind (field ''audience'' (z_trimmed 1 (Some 255)) j) (\<lambda>audience.
     Option.bind (optional ''name'' (z_check AGENT_NAME (z_trimmed 0 None)) j) (\<lambda>name.
     Option.bind (optional ''displayName'' (z_trimmed 1 (Some 255)) j) (\<lambda>displayName.
     Option.bind (optional ''description'' (z_trimmed 1 (Some 2000)) j) (\<lambda>description.
     Option.bind (optional ''tags'' (z_array_max 20 (z_trimmed 1 (Some 40))) j) (\<lambda>tags.
     Option.bind (optional ''enabled'' z_boolean j) (\<lambda>enabled.
     Some \<lparr>oi_hostUrl = hostUrl, oi_audience = audience, oi_name = name, oi_displayName = displayName,
           oi_description = description, oi_tags = tags, oi_enabled = enabled, oi_requestId = None\<rparr>)))))))"

definition setAgentEnabledBody :: "bool schema" where
  "setAgentEnabledBody = field ''enabled'' z_boolean"

definition agentNameParamsSchema :: "string schema" where
  "agentNameParamsSchema = field ''name'' (z_check AGENT_NAME (z_trimmed 0 None))"

section \<open>Agent runs\<close>

definition selectedEntitySchema :: "(string \<times> string) schema" where
  "selectedEntitySchema j =
     Option.bind (field ''type'' (z_one_of [''customer'', ''sale'', ''issue'', ''action'', ''sop'']) j) (\<lambda>t.
     Option.bind (field ''id'' (z_trimmed 1 (Some 255)) j) (\<lambda>i. Some (t, i)))"

definition run_context :: "(string option \<times> (string \<times> string) option) schema" where
  "run_context j =
     Option.bind (z_object j) (\<lambda>_.
     Option.bind (optional ''currentRoute'' (z_trimmed 0 (Some 512)) j) (\<lambda>currentRoute.
     Option.bind (optional ''selectedEntity'' selectedEntitySchema j) (\<lambda>selectedEntity.
     Some (currentRoute, selectedEntity))))"

text \<open>The context is checked and then not used by the service.\<close>

definition createAgentRunBody :: "'z exec_env \<Rightarrow> (string \<times> string option) schema" where
  "createAgentRunBody env j =
     Option.bind (field ''message'' (z_trimmed 1 (Some 4000)) j) (\<lambda>message.
     Option.bind (optional ''conversationId'' (z_uuid env) j) (\<lambda>conversationId.
     Option.bind (optional ''context'' run_context j) (\<lambda>_. Some (message, conversationId))))"

text \<open>Whether the detail asked for is \<open>full\<close>.\<close>

definition eventDetail :: "bool schema" where
  "eventDetail = defaulted ''detail'' False (z_enum [(''user'', False), (''full'', True)])"

definition listEventsQuery :: "(nat \<times> bool) schema" where
  "listEventsQuery j =
     Option.bind (z_object j) (\<lambda>_.
     Option.bind (defaulted ''afterSequence'' 0 (z_count 0 None) j) (\<lambda>afterSequence.
     Option.bind (eventDetail j) (\<lambda>detail. Some (afterSequence, detail))))"

definition traceQuery :: "bool schema" where
  "traceQuery j = Option.bind (z_object j) (\<lambda>_. eventDetail j)"

definition listRunsQuery :: "'z exec_env \<Rightarrow> string schema" where
  "listRunsQuery env = field ''conversationId'' (z_uuid env)"

definition idempotencyKeySchema :: "string schema" where
  "idempotencyKeySchema = z_trimmed 1 (Some 255)"

section \<open>The tool gateway\<close>

definition toolCallBody :: "(string \<times> json) schema" where
  "toolCallBody j =
     Option.bind (field ''capabilityId'' (z_trimmed 1 (Some 128)) j) (\<lambda>capabilityId.
     Option.bind (defaulted ''input'' (JObj []) (\<lambda>v. map_option (\<lambda>_. v) (z_object v)) j) (\<lambda>input.
     Some (capabilityId, input)))"

definition link_type_values :: "(string \<times> link_type) list" where
  "link_type_values =
     [(''customer'', LinkCustomer), (''sale'', LinkSale), (''issue'', LinkIssue), (''action'', LinkAction),
      (''sop'', LinkSop), (''external'', LinkExternal)]"

definition toolLinkSchema :: "tool_link schema" where
  "toolLinkSchema j =
     Option.bind (field ''label'' (z_trimmed 1 (Some 256)) j) (\<lambda>label.
     Option.bind (field ''href'' (z_trimmed 1 (Some 2048)) j) (\<lambda>href.
     Option.bind (field ''type'' (z_enum link_type_values) j) (\<lambda>t.
     Some \<lparr>tl_label = label, tl_href = href, tl_type = t\<rparr>)))"

definition finalizeBody :: "(string \<times> tool_link list) schema" where
  "finalizeBody j =
     Option.bind (field ''text'' (z_trimmed 1 (Some 20000)) j) (\<lambda>text.
     Option.bind (defaulted ''links'' [] (z_array_max 20 toolLinkSchema) j) (\<lambda>links.
     Some (text, links)))"

section \<open>By name\<close>

text \<open>What the routes call the schemas, each with whether it accepts a value.\<close>

definition accepts :: "'a schema \<Rightarrow> json \<Rightarrow> bool" where
  "accepts p j \<longleftrightarrow> p j \<noteq> None"

definition request_schemas_of :: "'z exec_env \<Rightarrow> (string \<Rightarrow> bool) \<Rightarrow> (string \<Rightarrow> bool) \<Rightarrow> (string \<times> (json \<Rightarrow> bool)) list" where
  "request_schemas_of env isEmail isHttpUrl =
     [(''customerIdParamsSchema'', accepts (idParams env)), (''saleIdParamsSchema'', accepts (idParams env)),
      (''issueIdParamsSchema'', accepts (idParams env)), (''actionIdParamsSchema'', accepts (idParams env)),
      (''sopIdParamsSchema'', accepts (idParams env)), (''userIdParamsSchema'', accepts (idParams env)),
      (''conversationIdParamsSchema'', accepts (idParams env)), (''runIdParamsSchema'', accepts (runIdParams env)),
      (''toolCallParamsSchema'', accepts (runIdParams env)),
      (''listCustomersQuerySchema'', accepts listCustomersQuery), (''listProductsQuerySchema'', accepts listProductsQuery),
      (''listSalesQuerySchema'', accepts (listSalesQuery env)), (''createSaleBodySchema'', accepts (createSaleBody env)),
      (''listIssuesQuerySchema'', accepts (listIssuesQuery env)), (''createIssueBodySchema'', accepts (createIssueBody env)),
      (''updateIssueBodySchema'', accepts (updateIssueBody env)),
      (''listActionsQuerySchema'', accepts (listActionsQuery env)), (''updateActionBodySchema'', accepts (updateActionBody env)),
      (''addCommentBodySchema'', accepts (addCommentBody env)), (''createActionBodySchema'', accepts (createActionBody env)),
      (''listSopsQuerySchema'', accepts listSopsQuery), (''createSopBodySchema'', accepts createSopBody),
      (''updateSopBodySchema'', accepts updateSopBody), (''createSopVersionBodySchema'', accepts createSopVersionBody),
      (''listUsersQuerySchema'', accepts listUsersQuery), (''createUserBodySchema'', accepts (createUserBody isEmail)),
      (''updateUserBodySchema'', accepts updateUserBody), (''setRolesBodySchema'', accepts setRolesBody),
      (''roleNameParamsSchema'', accepts nameParams), (''permissionNameParamsSchema'', accepts nameParams),
      (''createRoleBodySchema'', accepts createRoleBody), (''createPermissionBodySchema'', accepts createRoleBody),
      (''updateRoleBodySchema'', accepts updateRoleBody), (''updatePermissionBodySchema'', accepts updateRoleBody),
      (''setRolePermissionsBodySchema'', accepts setRolePermissionsBody),
      (''capabilityIdParamsSchema'', accepts capabilityIdParams),
      (''updateCapabilityBodySchema'', accepts updateCapabilityBody), (''createCapabilityBodySchema'', accepts createCapabilityBody),
      (''routeIdParamsSchema'', accepts routeIdParams), (''updateRoutePolicyBodySchema'', accepts updateRoutePolicyBody),
      (''viewPermissionParamsSchema'', accepts viewPermissionParams),
      (''updateViewPermissionBodySchema'', accepts updateViewPermissionBody),
      (''onboardAgentBodySchema'', accepts (onboardAgentBody isHttpUrl)), (''setAgentEnabledBodySchema'', accepts setAgentEnabledBody),
      (''agentNameParamsSchema'', accepts agentNameParamsSchema),
      (''createAgentRunBodySchema'', accepts (createAgentRunBody env)), (''listEventsQuerySchema'', accepts listEventsQuery),
      (''traceQuerySchema'', accepts traceQuery), (''listRunsQuerySchema'', accepts (listRunsQuery env)),
      (''toolCallBodySchema'', accepts toolCallBody), (''finalizeBodySchema'', accepts finalizeBody)]"

text \<open>A role an administrator has made passes the schema that creates it, but none of the schemas that give
  roles to users.\<close>

lemma authored_role_unassignable:
  "setRolesBody j = Some roles \<Longrightarrow> set roles \<subseteq> set ROLES"
  "createUserBody isEmail j = Some x \<Longrightarrow> set (cui_roles x) \<subseteq> set ROLES"
  "createRoleBody (JObj [(''name'', JStr ''auditor'')]) \<noteq> None" "''auditor'' \<notin> set ROLES"
proof -
  show "setRolesBody j = Some roles \<Longrightarrow> set roles \<subseteq> set ROLES"
    by (auto simp: setRolesBody_def rolesSchema_def field_def z_check_def bind_eq_Some_conv list_all_iff isRole_def split: if_splits)
  show "createUserBody isEmail j = Some x \<Longrightarrow> set (cui_roles x) \<subseteq> set ROLES"
    by (auto simp: createUserBody_def rolesSchema_def field_def z_check_def bind_eq_Some_conv list_all_iff isRole_def split: if_splits)
  show "createRoleBody (JObj [(''name'', JStr ''auditor'')]) \<noteq> None" "''auditor'' \<notin> set ROLES" by code_simp+
qed

end
