(* ===== verification/Platform_History.thy ===== *)
theory Platform_History
  imports Tool_Gateway
begin

text \<open>
  The execution plane as a whole: the requests of users (submission, cancellation) and of the
  worker (prompt, entitlement, tool call, finalization) in any order, over both databases.
\<close>

section \<open>Requests\<close>

datatype platform_command =
  SubmitRun create_run_input
| CancelRun string auth_context
| FetchPrompt string
| FetchEntitlement string
| CallTool string string "json option"
| FinalizeRun string string "tool_link list"

record ('z, 'o) platform_request =
  pr_command :: platform_command
  pr_run :: "('z, 'o) run_env"
  pr_gateway :: "'z gateway_env"

fun platform_handler ::
  "('z, 'o) run_env \<Rightarrow> 'z gateway_env \<Rightarrow> platform_command \<Rightarrow> (('z, 'o) platform, unit) op" where
  "platform_handler env genv (SubmitRun x) = thenM (createRun env x) (returnM ())"
| "platform_handler env genv (CancelRun i auth) = thenM (cancelRun i auth) (returnM ())"
| "platform_handler env genv (FetchPrompt i) = thenM (getPrompt genv i) (returnM ())"
| "platform_handler env genv (FetchEntitlement i) = thenM (getEntitlement genv i) (returnM ())"
| "platform_handler env genv (CallTool i c x) = thenM (executeCapability genv i c x) (returnM ())"
| "platform_handler env genv (FinalizeRun i t ls) = thenM (finalizeRun genv i t ls) (returnM ())"

definition platform_exec :: "('z, 'o) platform_request \<Rightarrow> (('z, 'o) platform, unit) op" where
  "platform_exec r = platform_handler (pr_run r) (pr_gateway r) (pr_command r)"

section \<open>Invariant and history\<close>

text \<open>The part of a run that is fixed when it is created.\<close>

definition run_core :: "agent_run \<Rightarrow> agent_run" where
  "run_core r = r\<lparr>ar_responseRef := None, ar_cancelRequested := False\<rparr>"

definition run_evolves :: "agent_run \<Rightarrow> agent_run \<Rightarrow> bool" where
  "run_evolves r r' \<longleftrightarrow> run_core r = run_core r' \<and> (ar_cancelRequested r \<longrightarrow> ar_cancelRequested r')
     \<and> (ar_responseRef r \<noteq> None \<longrightarrow> ar_responseRef r' \<noteq> None)"

definition agents_kept :: "agents_db \<Rightarrow> agents_db \<Rightarrow> bool" where
  "agents_kept a b \<longleftrightarrow> (\<exists>log. ag_audit b = ag_audit a @ log) \<and> (\<exists>new. ag_entitlements b = ag_entitlements a @ new)
     \<and> ag_events b = ag_events a \<and> (\<exists>old new. ag_runs b = old @ new \<and> list_all2 run_evolves (ag_runs a) old)"

lemma run_evolves_refl [simp]: "run_evolves r r"
  by (simp add: run_evolves_def)

lemma run_evolves_trans: "run_evolves a b \<Longrightarrow> run_evolves b c \<Longrightarrow> run_evolves a c"
  by (auto simp: run_evolves_def)

lemma runs_kept_refl: "list_all2 run_evolves rs rs"
  by (simp add: list.rel_refl)

lemma agents_kept_refl [simp]: "agents_kept a a"
  using runs_kept_refl by (auto simp: agents_kept_def)

lemma agents_kept_trans:
  assumes "agents_kept a b" "agents_kept b c"
  shows "agents_kept a c"
proof -
  from assms obtain old new old2 new2 where r: "ag_runs b = old @ new" "list_all2 run_evolves (ag_runs a) old"
      "ag_runs c = old2 @ new2" "list_all2 run_evolves (old @ new) old2"
    unfolding agents_kept_def by metis
  from r(4) obtain o1 o2 where o: "old2 = o1 @ o2" "list_all2 run_evolves old o1"
    by (auto simp: list_all2_append1)
  have "list_all2 run_evolves (ag_runs a) o1"
    by (rule list_all2_trans [OF run_evolves_trans r(2) o(2)])
  then have "\<exists>old new. ag_runs c = old @ new \<and> list_all2 run_evolves (ag_runs a) old"
    using r(3) o(1) by auto
  with assms show ?thesis unfolding agents_kept_def by (metis (no_types, lifting) append.assoc)
qed

definition platform_ok :: "('z, 'o) platform \<Rightarrow> bool" where
  "platform_ok p \<longleftrightarrow> business_ok (pf_nova p) \<and> agents_db_ok (pf_agents p)"

definition platform_kept :: "('z, 'o) platform \<Rightarrow> ('z, 'o) platform \<Rightarrow> bool" where
  "platform_kept p q \<longleftrightarrow> history_kept (pf_nova p) (pf_nova q) \<and> agents_kept (pf_agents p) (pf_agents q)"

definition agents_inv :: "agents_db \<Rightarrow> agents_db \<Rightarrow> bool" where
  "agents_inv a0 a \<longleftrightarrow> agents_db_ok a \<and> agents_kept a0 a"

definition platform_inv :: "('z, 'o) platform \<Rightarrow> ('z, 'o) platform \<Rightarrow> bool" where
  "platform_inv p0 p \<longleftrightarrow> business_inv (pf_nova p0) (pf_nova p) \<and> agents_inv (pf_agents p0) (pf_agents p)"

lemma preserves_on_nova:
  "preserves (business_inv (pf_nova p0)) m \<Longrightarrow> preserves (platform_inv p0) (on_nova m)"
  by (simp add: preserves_def platform_inv_def on_nova_def split_beta)

lemma preserves_on_agents:
  "preserves (agents_inv (pf_agents p0)) m \<Longrightarrow> preserves (platform_inv p0) (on_agents m)"
  by (simp add: preserves_def platform_inv_def on_agents_def split_beta)

lemma preserves_on_orchestrator: "preserves (platform_inv p0) (on_orchestrator m)"
  by (simp add: preserves_def platform_inv_def on_orchestrator_def split_beta)

lemma preserves_agents_statement:
  "(\<And>s. agents_db_ok (f s) \<Longrightarrow> agents_kept s (f s)) \<Longrightarrow> preserves (agents_inv a0) (agents_statement f)"
  using agents_kept_trans by (fastforce simp: preserves_def agents_inv_def agents_statement_apply)

lemma agents_kept_appends:
  "agents_kept s (s\<lparr>ag_audit := ag_audit s @ l\<rparr>)" "agents_kept s (s\<lparr>ag_entitlements := ag_entitlements s @ es\<rparr>)"
  "agents_kept s (s\<lparr>ag_runs := ag_runs s @ rs\<rparr>)"
  using runs_kept_refl by (auto simp: agents_kept_def)

lemma agents_kept_patch:
  assumes "\<And>r. run_evolves r (f r)"
  shows "agents_kept s (s\<lparr>ag_runs := patch_rows ar_id i f (ag_runs s)\<rparr>)"
proof -
  have "list_all2 run_evolves (ag_runs s) (patch_rows ar_id i f (ag_runs s))"
    using assms by (auto simp: patch_rows_def list.rel_map intro: list.rel_refl)
  then show ?thesis unfolding agents_kept_def by (intro conjI exI [of _ "[]"] exI [of _ "patch_rows ar_id i f (ag_runs s)"]) auto
qed

lemma preserves_agents_writes:
  "preserves (agents_inv a0) (recordToolAudit x)"
  "preserves (agents_inv a0) (setResponseRef i ref)"
  "preserves (agents_inv a0) (requestCancel run)"
  "preserves (agents_inv a0) (run_create gen now d)"
  unfolding recordToolAudit_def setResponseRef_def requestCancel_def run_create_def Let_def
  by (auto intro!: preserves_intros preserves_agents_statement agents_kept_appends agents_kept_patch
      simp: run_evolves_def run_core_def)

lemma preserves_addMessage: "preserves (business_inv (db0 :: 'z nova_db_scheme)) (addMessage gen d)"
  unfolding addMessage_def Let_def
  by (auto intro!: business_intros preserves_business_statement
      simp: history_kept_def business_ok_def versions_contiguous_def details_of_def)

lemma preserves_submit: "preserves (business_inv (db0 :: 'z nova_db_scheme)) (submit_message env x u)"
  unfolding submit_message_def
  by (auto intro!: business_intros business_writes preserves_addMessage split: option.split)

lemmas platform_intros = preserves_intros preserves_case_prod preserves_on_nova preserves_on_agents
  preserves_on_orchestrator preserves_agents_writes preserves_addMessage preserves_submit
  preserves_caller execute_preserves_business

lemma preserves_loadVerified: "preserves (platform_inv p0) (loadVerified env i)"
  unfolding loadVerified_def by (auto intro!: platform_intros)

lemma preserves_platform_handler: "preserves (platform_inv p0) (platform_handler env genv c)"
  by (cases c)
    (auto simp: createRun_def cancelRun_def requireOwnedRun_def getPrompt_def getEntitlement_def executeCapability_def
      finalizeRun_def enqueue_def Let_def
      intro!: platform_intros preserves_loadVerified split: option.split)

interpretation platform: tracked_service platform_exec platform_ok platform_kept
proof unfold_locales
  fix s :: "('z, 'o) platform" and c
  assume ok: "platform_ok s"
  have "platform_inv s (snd (platform_exec c s))"
    unfolding platform_exec_def
    by (rule preserves_platform_handler [unfolded preserves_def, rule_format])
      (use ok in \<open>simp add: platform_inv_def platform_ok_def business_inv_def agents_inv_def\<close>)
  then show "platform_ok (snd (platform_exec c s))" "platform_kept s (snd (platform_exec c s))"
    by (simp_all add: platform_inv_def platform_ok_def platform_kept_def business_inv_def agents_inv_def)
qed (auto simp: platform_kept_def intro: history_kept_trans agents_kept_trans)

text \<open>No sequence of requests rewrites the past. Along every sequence of submissions,
  cancellations, prompt and entitlement reads, tool calls and finalizations, whatever they contain
  and whichever of them fail, the constraints of both databases hold; the business history is only
  extended; audit rows and entitlement snapshots are only appended and never changed; no run
  disappears or changes its owner, prompt, snapshot, key or status, a cancellation is never
  withdrawn and an answer never unset; and the event log is not written.\<close>

theorem platform_history:
  assumes "platform_ok p"
  shows "platform_ok (run_commands platform_exec rs p) \<and> platform_kept p (run_commands platform_exec rs p)"
  using platform.all_inv [OF assms] platform.all_rel [OF assms] by blast

theorem platform_history_witness:
  "platform_kept example_platform (run_commands platform_exec
     [\<lparr>pr_command = SubmitRun example_input, pr_run = example_run_env, pr_gateway = example_gateway\<rparr>,
      \<lparr>pr_command = CallTool ''r1'' ''sop.read'' None, pr_run = example_run_env, pr_gateway = example_gateway\<rparr>]
     example_platform)"
proof -
  have "platform_ok example_platform"
    by (simp add: platform_ok_def example_business_ok example_agents_ok)
  from conjunct2 [OF platform_history [OF this]] show ?thesis .
qed

end
