(* ===== verification/Rbac_Service.thy ===== *)
theory Rbac_Service
  imports Rbac_Db
begin

text \<open>
  The administrators' views of the policy (\<open>api/src/modules/admin/rbac.service.ts\<close>): lists and the
  matrix of roles and permissions, read from the snapshot that the authorization layer enforces.
\<close>

record role_dto =
  rd_name :: string
  rd_description :: "string option"
  rd_isSystem :: bool

record permission_dto =
  pd_name :: string
  pd_description :: "string option"
  pd_isSystem :: bool

record role_permission_matrix =
  mx_roles :: "role_dto list"
  mx_permissions :: "permission_dto list"
  mx_grants :: "(string \<times> string list) list"
  mx_totalGrants :: nat

definition listRoles :: "rbac_registry \<Rightarrow> role_dto list" where
  "listRoles active = map (\<lambda>role. \<lparr>rd_name = rv_name role, rd_description = rv_description role,
     rd_isSystem = rv_isSystem role\<rparr>) (rd_roles (registry_snapshot active))"

definition listPermissions :: "rbac_registry \<Rightarrow> permission_dto list" where
  "listPermissions active = map (\<lambda>permission. \<lparr>pd_name = pv_name permission, pd_description = pv_description permission,
     pd_isSystem = pv_isSystem permission\<rparr>) (rd_permissions (registry_snapshot active))"

definition listCapabilities :: "rbac_registry \<Rightarrow> capability_view list" where
  "listCapabilities active = rd_capabilities (registry_snapshot active)"

definition listRoutePolicies :: "rbac_registry \<Rightarrow> route_policy_view list" where
  "listRoutePolicies active = rd_routePolicies (registry_snapshot active)"

definition listViewPermissions :: "rbac_registry \<Rightarrow> view_permission_view list" where
  "listViewPermissions active = rd_viewPermissions (registry_snapshot active)"

text \<open>The loop over the roles, with the object \<open>grants\<close> and the count it accumulates.\<close>

fun matrix_loop ::
  "registry_data \<Rightarrow> role_view list \<Rightarrow> (string \<times> string list) list \<Rightarrow> nat \<Rightarrow> (string \<times> string list) list \<times> nat" where
  "matrix_loop snapshot [] grants totalGrants = (grants, totalGrants)"
| "matrix_loop snapshot (role # roles) grants totalGrants =
     (let granted = (case map_of (rd_rolePermissions snapshot) (rv_name role) of None \<Rightarrow> [] | Some ps \<Rightarrow> ps)
      in matrix_loop snapshot roles (AList.update (rv_name role) granted grants) (totalGrants + length granted))"

definition getMatrix :: "rbac_registry \<Rightarrow> role_permission_matrix" where
  "getMatrix active =
     (let snapshot = registry_snapshot active;
          (grants, totalGrants) = matrix_loop snapshot (rd_roles snapshot) [] 0
      in \<lparr>mx_roles = listRoles active, mx_permissions = listPermissions active,
          mx_grants = grants, mx_totalGrants = totalGrants\<rparr>)"

section \<open>The matrix shows what is enforced\<close>

lemma matrix_loop_grants:
  "map_of (fst (matrix_loop snapshot roles grants n)) r =
     (if r \<in> rv_name ` set roles
      then Some (case map_of (rd_rolePermissions snapshot) r of None \<Rightarrow> [] | Some ps \<Rightarrow> ps)
      else map_of grants r)"
  by (induction roles arbitrary: grants n) (auto simp: Let_def update_conv')

lemma matrix_loop_total:
  "snd (matrix_loop snapshot roles grants n) =
     n + (\<Sum>role \<leftarrow> roles. length (case map_of (rd_rolePermissions snapshot) (rv_name role) of None \<Rightarrow> [] | Some ps \<Rightarrow> ps))"
  by (induction roles arbitrary: grants n) (auto simp: Let_def)

lemma matrix_grants:
  assumes "rbac_db_ok d"
  shows "map_of (mx_grants (getMatrix (mkRegistry (loadData d)))) r =
     (if r \<in> set (role_names d) then Some (map snd (filter (\<lambda>x. fst x = r) (db_rolePermissions d))) else None)"
proof -
  have roles: "rv_name ` set (rd_roles (loadData d)) = set (role_names d)"
    by (simp add: loadData_def loadData_from_def Let_def role_names_def)
  show ?thesis
    using matrix_loop_grants [of "loadData d" "rd_roles (loadData d)" "[]" 0 r] roles
      loaded_rolePermissions [OF assms, of d r]
    by (simp add: getMatrix_def registry_snapshot_def Let_def split_beta loadData_def [symmetric])
qed

lemma matrix_enforced:
  assumes "rbac_db_ok d"
  shows "(\<exists>ps. map_of (mx_grants (getMatrix (mkRegistry (loadData d)))) r = Some ps \<and> p \<in> set ps)
    \<longleftrightarrow> reg_grants (mkRegistry (loadData d)) r p"
proof -
  have known: "(r, p) \<in> set (db_rolePermissions d) \<Longrightarrow> r \<in> set (role_names d)"
    using assms by (auto simp: rbac_db_ok_def list_all_iff)
  show ?thesis
    using loaded_grants [OF assms, of d r p] known
    by (force simp: matrix_grants [OF assms] loadData_def [symmetric])
qed

lemma grants_by_role:
  assumes "distinct names" and "\<forall>x \<in> set rows. fst x \<in> set names"
  shows "(\<Sum>n \<leftarrow> names. length (filter (\<lambda>x. fst x = n) rows)) = length rows"
  using assms
proof (induction names arbitrary: rows)
  case Nil
  then show ?case by (cases rows) auto
next
  case (Cons n names)
  let ?rest = "filter (\<lambda>x. fst x \<noteq> n) rows"
  have same: "filter (\<lambda>x. fst x = m) rows = filter (\<lambda>x. fst x = m) ?rest" if "m \<in> set names" for m
    using Cons.prems(1) that by (auto intro!: filter_cong)
  then have "(\<Sum>m \<leftarrow> names. length (filter (\<lambda>x. fst x = m) rows)) = (\<Sum>m \<leftarrow> names. length (filter (\<lambda>x. fst x = m) ?rest))"
    by (intro arg_cong [of _ _ sum_list] map_cong) auto
  also have "\<dots> = length ?rest" using Cons.prems by (intro Cons.IH) auto
  finally show ?case using sum_length_filter_compl [of "\<lambda>x. fst x = n" rows] by simp
qed

text \<open>The matrix of a loaded registry shows exactly the grants that are enforced, for exactly the
  roles that exist, and counts the rows of the table.\<close>

lemma matrix_total:
  assumes "rbac_db_ok d"
  shows "mx_totalGrants (getMatrix (mkRegistry (loadData d))) = length (db_rolePermissions d)"
proof -
  let ?count = "\<lambda>n. length (filter (\<lambda>x. fst x = n) (db_rolePermissions d))"
  have roles: "rd_roles (loadData d) = db_roles d" by (simp add: loadData_def loadData_from_def Let_def)
  have "(case map_of (rd_rolePermissions (loadData d)) (rv_name role) of None \<Rightarrow> [] | Some ps \<Rightarrow> ps)
      = map snd (filter (\<lambda>x. fst x = rv_name role) (db_rolePermissions d))" if "role \<in> set (db_roles d)" for role
    using loaded_rolePermissions [OF assms, of d "rv_name role"] that
    by (simp add: loadData_def role_names_def)
  then have "mx_totalGrants (getMatrix (mkRegistry (loadData d))) = (\<Sum>role \<leftarrow> db_roles d. ?count (rv_name role))"
    by (simp add: getMatrix_def registry_snapshot_def Let_def split_beta matrix_loop_total roles cong: map_cong)
  also have "\<dots> = (\<Sum>n \<leftarrow> role_names d. ?count n)" by (simp add: role_names_def o_def)
  also have "\<dots> = length (db_rolePermissions d)"
    using assms by (intro grants_by_role) (auto simp: rbac_db_ok_def list_all_iff)
  finally show ?thesis .
qed

end
