(* ===== verification/Json_Text.thy ===== *)
theory Json_Text
  imports Snapshot
begin

text \<open>
  JSON as text: \<open>JSON.stringify\<close> and \<open>JSON.parse\<close> on the values of the model, whose numbers are
  integers and whose characters are the code units below 256; a text outside that (a fraction, an
  exponent, a higher escape) has no value here. Objects keep the order of their keys.
\<close>

section \<open>Printing\<close>

fun json_stringify :: "json \<Rightarrow> string" where
  "json_stringify JNull = ''null''"
| "json_stringify (JBool b) = (if b then ''true'' else ''false'')"
| "json_stringify (JNum n) = show_int n"
| "json_stringify (JStr s) = json_string s"
| "json_stringify (JArr xs) = ''['' @ js_join '','' (map json_stringify xs) @ '']''"
| "json_stringify (JObj kvs) = ''{'' @ js_join '','' (map (\<lambda>(k, v). json_key k @ json_stringify v) kvs) @ ''}''"

section \<open>Parsing\<close>

definition json_space :: "char \<Rightarrow> bool" where
  "json_space c \<longleftrightarrow> of_char c \<in> {9, 10, 13, 32 :: nat}"

definition skip_ws :: "string \<Rightarrow> string" where
  "skip_ws s = dropWhile json_space s"

definition hex_of :: "char \<Rightarrow> nat option" where
  "hex_of c = (let n = of_char c :: nat in
     if 48 \<le> n \<and> n \<le> 57 then Some (n - 48)
     else if 97 \<le> n \<and> n \<le> 102 then Some (n - 87)
     else if 65 \<le> n \<and> n \<le> 70 then Some (n - 55) else None)"

definition hex4 :: "char \<Rightarrow> char \<Rightarrow> char \<Rightarrow> char \<Rightarrow> char option" where
  "hex4 a b c d = (case (hex_of a, hex_of b, hex_of c, hex_of d) of
       (Some w, Some x, Some y, Some z) \<Rightarrow>
         (let n = 4096 * w + 256 * x + 16 * y + z in if n < 256 then Some (char_of n) else None)
     | _ \<Rightarrow> None)"

definition escape_value :: "char \<Rightarrow> char option" where
  "escape_value c =
     map_of [(CHR 0x22, CHR 0x22), (CHR 0x5C, CHR 0x5C), (CHR ''/'', CHR ''/''), (CHR ''b'', CHR 0x08),
       (CHR ''f'', CHR 0x0C), (CHR ''n'', CHR 0x0A), (CHR ''r'', CHR 0x0D), (CHR ''t'', CHR 0x09)] c"

text \<open>The characters of a string after its opening quote.\<close>

fun parse_chars :: "string \<Rightarrow> (string \<times> string) option" where
  "parse_chars [] = None"
| "parse_chars (c # s) =
     (if c = CHR 0x22 then Some ([], s)
      else if c = CHR 0x5C then
        (case s of
           [] \<Rightarrow> None
         | e # s1 \<Rightarrow>
             if e = CHR ''u'' then
               (case s1 of
                  h1 # h2 # h3 # h4 # s2 \<Rightarrow>
                    (case hex4 h1 h2 h3 h4 of
                       None \<Rightarrow> None
                     | Some x \<Rightarrow> map_option (apfst (Cons x)) (parse_chars s2))
                | _ \<Rightarrow> None)
             else (case escape_value e of
                     None \<Rightarrow> None
                   | Some x \<Rightarrow> map_option (apfst (Cons x)) (parse_chars s1)))
      else if (of_char c :: nat) < 32 then None
      else map_option (apfst (Cons c)) (parse_chars s))"

definition parse_nat :: "string \<Rightarrow> (nat \<times> string) option" where
  "parse_nat s =
     (let ds = takeWhile is_digit s; r = dropWhile is_digit s
      in if ds = [] \<or> (length ds > 1 \<and> hd ds = CHR ''0'')
            \<or> (r \<noteq> [] \<and> hd r \<in> {CHR ''.'', CHR ''e'', CHR ''E''})
         then None else Some (digits_val ds, r))"

definition parse_int :: "string \<Rightarrow> (int \<times> string) option" where
  "parse_int s =
     (if s \<noteq> [] \<and> hd s = CHR ''-'' then map_option (apfst (\<lambda>n. - int n)) (parse_nat (tl s))
      else map_option (apfst int) (parse_nat s))"

text \<open>The first argument bounds the nesting; the length of the text is enough.\<close>

fun parse_value :: "nat \<Rightarrow> string \<Rightarrow> (json \<times> string) option"
  and parse_elements :: "nat \<Rightarrow> string \<Rightarrow> (json list \<times> string) option"
  and parse_members :: "nat \<Rightarrow> string \<Rightarrow> ((string \<times> json) list \<times> string) option" where
  "parse_value 0 s = None"
| "parse_value (Suc n) s =
     (case skip_ws s of
        [] \<Rightarrow> None
      | c # r \<Rightarrow>
          if c = CHR 0x22 then map_option (apfst JStr) (parse_chars r)
          else if c = CHR ''['' then
            (if starts_with '']'' (skip_ws r) then Some (JArr [], tl (skip_ws r))
             else map_option (apfst JArr) (parse_elements n r))
          else if c = CHR ''{'' then
            (if starts_with ''}'' (skip_ws r) then Some (JObj [], tl (skip_ws r))
             else map_option (apfst (\<lambda>kvs. JObj (js_map kvs))) (parse_members n r))
          else if starts_with ''null'' (c # r) then Some (JNull, drop 3 r)
          else if starts_with ''true'' (c # r) then Some (JBool True, drop 3 r)
          else if starts_with ''false'' (c # r) then Some (JBool False, drop 4 r)
          else map_option (apfst JNum) (parse_int (c # r)))"
| "parse_elements 0 s = None"
| "parse_elements (Suc n) s =
     (case parse_value n s of
        None \<Rightarrow> None
      | Some (v, r) \<Rightarrow>
          (case skip_ws r of
             [] \<Rightarrow> None
           | c # r1 \<Rightarrow>
               if c = CHR '','' then map_option (apfst (Cons v)) (parse_elements n r1)
               else if c = CHR '']'' then Some ([v], r1)
               else None))"
| "parse_members 0 s = None"
| "parse_members (Suc n) s =
     (case skip_ws s of
        [] \<Rightarrow> None
      | c # r \<Rightarrow>
          if c \<noteq> CHR 0x22 then None
          else (case parse_chars r of
             None \<Rightarrow> None
           | Some (k, r1) \<Rightarrow>
               if \<not> starts_with '':'' (skip_ws r1) then None
               else (case parse_value n (tl (skip_ws r1)) of
                  None \<Rightarrow> None
                | Some (v, r2) \<Rightarrow>
                    (case skip_ws r2 of
                       [] \<Rightarrow> None
                     | d # r3 \<Rightarrow>
                         if d = CHR '','' then map_option (apfst (Cons (k, v))) (parse_members n r3)
                         else if d = CHR ''}'' then Some ([(k, v)], r3)
                         else None))))"

definition json_parse :: "string \<Rightarrow> json option" where
  "json_parse s =
     (case parse_value (Suc (length s)) s of
        None \<Rightarrow> None
      | Some (v, r) \<Rightarrow> if skip_ws r = [] then Some v else None)"

section \<open>What is printed reads back\<close>

fun json_wf :: "json \<Rightarrow> bool" where
  "json_wf (JArr xs) = list_all json_wf xs"
| "json_wf (JObj kvs) = (distinct (map fst kvs) \<and> list_all (\<lambda>kv. json_wf (snd kv)) kvs)"
| "json_wf v = True"

lemma update_new: "k \<notin> fst ` set al \<Longrightarrow> AList.update k v al = al @ [(k, v)]"
  by (induction al) auto

lemma js_map_noop: "distinct (map fst ps) \<Longrightarrow> js_map ps = ps"
proof -
  have "distinct (map fst (acc @ ps)) \<Longrightarrow> foldl (\<lambda>m p. AList.update (fst p) (snd p) m) acc ps = acc @ ps"
    for acc :: "('a \<times> 'b) list"
  proof (induction ps arbitrary: acc)
    case (Cons p ps)
    have "AList.update (fst p) (snd p) acc = acc @ [p]"
      using Cons.prems update_new [of "fst p" acc "snd p"] by simp
    with Cons show ?case by simp
  qed simp
  from this [of "[]"] show "distinct (map fst ps) \<Longrightarrow> js_map ps = ps" by (simp add: js_map_def)
qed

lemma hex_of_digit: "d < 16 \<Longrightarrow> hex_of (hex_digit d) = Some d"
proof -
  have "list_all (\<lambda>d. hex_of (hex_digit d) = Some d) [0, 1, 2, 3, 4, 5, 6, 7, 8, 9, 10, 11, 12, 13, 14, 15]"
    by code_simp
  moreover assume "d < 16"
  then have "d = 0 \<or> d = 1 \<or> d = 2 \<or> d = 3 \<or> d = 4 \<or> d = 5 \<or> d = 6 \<or> d = 7 \<or> d = 8 \<or> d = 9 \<or> d = 10
      \<or> d = 11 \<or> d = 12 \<or> d = 13 \<or> d = 14 \<or> d = 15" by presburger
  ultimately show ?thesis by auto
qed

lemma parse_chars_escape:
  "parse_chars (json_escape c @ s) = map_option (apfst (Cons c)) (parse_chars s)"
proof -
  have u: "hex4 (CHR ''0'') (CHR ''0'') (hex_digit (of_char c div 16)) (hex_digit (of_char c mod 16)) = Some c"
    if "(of_char c :: nat) < 32"
    using that by (simp add: hex4_def hex_of_digit) (simp add: hex_of_def)
  have "c = CHR 0x08" if "(of_char c :: nat) = 8"
    using that of_char_eq_iff [of c "CHR 0x08", where ?'a = nat] by simp
  moreover have "c = CHR 0x09" if "(of_char c :: nat) = 9"
    using that of_char_eq_iff [of c "CHR 0x09", where ?'a = nat] by simp
  moreover have "c = CHR 0x0A" if "(of_char c :: nat) = 10"
    using that of_char_eq_iff [of c "CHR 0x0A", where ?'a = nat] by simp
  moreover have "c = CHR 0x0C" if "(of_char c :: nat) = 12"
    using that of_char_eq_iff [of c "CHR 0x0C", where ?'a = nat] by simp
  moreover have "c = CHR 0x0D" if "(of_char c :: nat) = 13"
    using that of_char_eq_iff [of c "CHR 0x0D", where ?'a = nat] by simp
  ultimately show ?thesis
    by (auto simp: json_escape_def Let_def escape_value_def u)
qed

lemma parse_chars_string:
  "parse_chars (concat (map json_escape t) @ CHR 0x22 # r) = Some (t, r)"
  by (induction t) (simp_all add: parse_chars_escape del: parse_chars.simps(2), simp)

text \<open>A number ends where no digit, fraction or exponent follows.\<close>

definition number_end :: "string \<Rightarrow> bool" where
  "number_end r \<longleftrightarrow> r = [] \<or> (\<not> is_digit (hd r) \<and> hd r \<notin> {CHR ''.'', CHR ''e'', CHR ''E''})"

lemma show_nat_leading: "10 \<le> n \<Longrightarrow> hd (show_nat n) \<noteq> CHR ''0''"
proof (induction n rule: show_nat.induct)
  case (1 n)
  have d: "digit_char d \<noteq> CHR ''0''" if "0 < d" "d < 10" for d
    using of_char_digit [OF that(2)] that(1) by auto
  from 1 show ?case
  proof (cases "n div 10 < 10")
    case True
    with 1(2) d [of "n div 10"] show ?thesis
      by (subst show_nat.simps, subst show_nat.simps) (simp add: div_greater_zero_iff)
  next
    case False
    with 1 show ?thesis by (subst show_nat.simps) (simp add: hd_append)
  qed
qed

lemma parse_nat_show: "number_end r \<Longrightarrow> parse_nat (show_nat n @ r) = Some (n, r)"
proof -
  assume r: "number_end r"
  have "\<forall>c \<in> set (show_nat n). is_digit c" using show_nat_digits [of n] by (simp add: list_all_iff)
  then have t: "takeWhile is_digit (show_nat n @ r) = show_nat n" "dropWhile is_digit (show_nat n @ r) = r"
    using r by (cases r; simp add: number_end_def takeWhile_tail dropWhile_append3)+
  have "length (show_nat n) > 1 \<Longrightarrow> hd (show_nat n) \<noteq> CHR ''0''"
  proof (cases "10 \<le> n")
    case False
    then have "length (show_nat n) = 1" by (subst show_nat.simps) simp
    then show "length (show_nat n) > 1 \<Longrightarrow> hd (show_nat n) \<noteq> CHR ''0''" by simp
  qed (rule show_nat_leading)
  with t r show ?thesis by (auto simp: parse_nat_def Let_def number_end_def)
qed

lemma show_nat_hd: "is_digit (hd (show_nat n))"
  using show_nat_digits [of n] by (cases "show_nat n") auto

lemma parse_int_show: "number_end r \<Longrightarrow> parse_int (show_int n @ r) = Some (n, r)"
  using show_nat_hd [of "nat n"]
  by (auto simp: parse_int_def show_int_def parse_nat_show hd_append)

lemma show_int_first:
  "show_int n \<noteq> []" "\<not> json_space (hd (show_int n))"
  "hd (show_int n) \<notin> {CHR 0x22, CHR ''['', CHR '']'', CHR ''{'', CHR ''}'', CHR ''n'', CHR ''t'', CHR ''f''}"
  using show_nat_hd [of "nat n"] by (auto simp: show_int_def is_digit_def json_space_def)

definition elements_text :: "json list \<Rightarrow> string" where
  "elements_text xs = js_join '','' (map json_stringify xs) @ '']''"

definition members_text :: "(string \<times> json) list \<Rightarrow> string" where
  "members_text kvs = js_join '','' (map (\<lambda>(k, v). json_key k @ json_stringify v) kvs) @ ''}''"

lemma skip_ws_noop: "s \<noteq> [] \<Longrightarrow> \<not> json_space (hd s) \<Longrightarrow> skip_ws (s @ r) = s @ r"
  by (cases s) (simp_all add: skip_ws_def)

lemma skip_ws_Cons [simp]: "\<not> json_space c \<Longrightarrow> skip_ws (c # r) = c # r"
  by (simp add: skip_ws_def)

lemma json_space_not [simp]:
  "\<not> json_space (CHR 0x22)" "\<not> json_space (CHR ''['')" "\<not> json_space (CHR '']'')" "\<not> json_space (CHR ''{'')"
  "\<not> json_space (CHR ''}'')" "\<not> json_space (CHR '','')" "\<not> json_space (CHR '':'')" "\<not> json_space (CHR ''n'')"
  "\<not> json_space (CHR ''t'')" "\<not> json_space (CHR ''f'')"
  by (simp_all add: json_space_def)

lemma number_end_Cons [simp]: "number_end (CHR '','' # r)" "number_end (CHR '']'' # r)" "number_end (CHR ''}'' # r)"
  by (simp_all add: number_end_def is_digit_def)

lemma stringify_first:
  "json_stringify v \<noteq> [] \<and> \<not> json_space (hd (json_stringify v)) \<and> hd (json_stringify v) \<notin> {CHR '']'', CHR ''}''}"
proof (cases v)
  case (JNum n)
  with show_int_first [of n] show ?thesis by simp
qed (auto simp: json_string_def)

lemma starts_with_Cons: "starts_with [c] s \<longleftrightarrow> s \<noteq> [] \<and> hd s = c"
  by (cases s) (auto simp: starts_with_def)

definition reads_back :: "json \<Rightarrow> bool" where
  "reads_back v \<longleftrightarrow> (\<forall>n r. length (json_stringify v) < n \<longrightarrow> number_end r \<longrightarrow>
     parse_value n (json_stringify v @ r) = Some (v, r))"

lemma elements_text_simps:
  "elements_text [x] = json_stringify x @ '']''"
  "elements_text (x # y # zs) = json_stringify x @ '','' @ elements_text (y # zs)"
  by (simp_all add: elements_text_def)

lemma members_text_simps:
  "members_text [(k, v)] = json_string k @ '':'' @ json_stringify v @ ''}''"
  "members_text ((k, v) # y # zs) = json_string k @ '':'' @ json_stringify v @ '','' @ members_text (y # zs)"
  by (simp_all add: members_text_def json_key_def)

lemma elements_read_back:
  assumes "xs \<noteq> []" and "list_all reads_back xs" and "length (elements_text xs) < n"
  shows "parse_elements n (elements_text xs @ r) = Some (xs, r)"
  using assms
proof (induction xs arbitrary: n)
  case (Cons x xs)
  then obtain m where n: "n = Suc m" by (cases n) auto
  show ?case
  proof (cases xs)
    case Nil
    with Cons.prems n show ?thesis by (simp add: elements_text_simps reads_back_def)
  next
    case (Cons y zs)
    have x: "parse_value m (json_stringify x @ CHR '','' # elements_text xs @ r)
        = Some (x, CHR '','' # elements_text xs @ r)"
      using Cons.prems n Cons by (simp add: elements_text_simps reads_back_def)
    have "parse_elements m (elements_text xs @ r) = Some (xs, r)"
      using Cons Cons.prems n by (intro Cons.IH) (simp_all add: elements_text_simps)
    with x n Cons show ?thesis by (simp add: elements_text_simps)
  qed
qed simp

lemma members_read_back:
  assumes "kvs \<noteq> []" and "list_all (\<lambda>kv. reads_back (snd kv)) kvs" and "length (members_text kvs) < n"
  shows "parse_members n (members_text kvs @ r) = Some (kvs, r)"
  using assms
proof (induction kvs arbitrary: n)
  case (Cons kv kvs)
  then obtain m where n: "n = Suc m" by (cases n) auto
  obtain k v where kv: "kv = (k, v)" by fastforce
  show ?case
  proof (cases kvs)
    case Nil
    with Cons.prems n kv show ?thesis
      by (simp add: members_text_simps json_string_def parse_chars_string reads_back_def starts_with_Cons)
  next
    case (Cons y zs)
    have x: "parse_value m (json_stringify v @ CHR '','' # members_text kvs @ r)
        = Some (v, CHR '','' # members_text kvs @ r)"
      using Cons.prems n kv Cons by (simp add: members_text_simps reads_back_def)
    have "parse_members m (members_text kvs @ r) = Some (kvs, r)"
      using Cons Cons.prems n kv by (intro Cons.IH) (simp_all add: members_text_simps)
    with x n kv Cons show ?thesis
      by (simp add: members_text_simps json_string_def parse_chars_string starts_with_Cons)
  qed
qed simp

lemma reads_back_atom:
  "reads_back JNull" "reads_back (JBool b)" "reads_back (JStr s)" "reads_back (JNum n)"
proof -
  show "reads_back JNull" "reads_back (JBool b)"
    by (auto simp: reads_back_def starts_with_def less_Suc_eq_0_disj gr0_conv_Suc dest!: less_imp_Suc_add)
  show "reads_back (JStr s)"
    by (auto simp: reads_back_def json_string_def parse_chars_string dest!: less_imp_Suc_add)
  show "reads_back (JNum n)"
    unfolding reads_back_def
  proof (intro allI impI)
    fix k r assume k: "length (json_stringify (JNum n)) < k" "number_end r"
    obtain c t where ct: "show_int n = c # t" using show_int_first(1) [of n] by (cases "show_int n") auto
    from k(1) obtain m where "k = Suc m" by (cases k) auto
    with show_int_first [of n] ct parse_int_show [OF k(2), of n]
    show "parse_value k (json_stringify (JNum n) @ r) = Some (JNum n, r)"
      by (simp add: starts_with_def)
  qed
qed

lemma stringify_reads_back: "json_wf v \<Longrightarrow> reads_back v"
proof (induction v)
  case (JArr xs)
  show ?case
  proof (cases "xs = []")
    case True
    then show ?thesis by (auto simp: reads_back_def starts_with_Cons dest!: less_imp_Suc_add)
  next
    case False
    have all: "list_all reads_back xs" using JArr by (auto simp: list_all_iff)
    have hd: "skip_ws (elements_text xs @ r) = elements_text xs @ r" "\<not> starts_with '']'' (elements_text xs @ r)" for r
      using stringify_first [of "hd xs"] False
      by (cases xs; cases "tl xs"; auto simp: elements_text_simps starts_with_Cons intro!: skip_ws_noop)+
    show ?thesis unfolding reads_back_def
    proof (intro allI impI)
      fix n r assume n: "length (json_stringify (JArr xs)) < n"
      then obtain m where m: "n = Suc m" "length (elements_text xs) < m"
        by (cases n) (auto simp: elements_text_def)
      have "json_stringify (JArr xs) @ r = CHR ''['' # elements_text xs @ r" by (simp add: elements_text_def)
      then show "parse_value n (json_stringify (JArr xs) @ r) = Some (JArr xs, r)"
        using elements_read_back [OF False all m(2)] hd m(1) by simp
    qed
  qed
next
  case (JObj kvs)
  show ?case
  proof (cases "kvs = []")
    case True
    then show ?thesis by (auto simp: reads_back_def starts_with_Cons js_map_def dest!: less_imp_Suc_add)
  next
    case False
    have all: "list_all (\<lambda>kv. reads_back (snd kv)) kvs" using JObj by (fastforce simp: list_all_iff)
    have hd: "skip_ws (members_text kvs @ r) = members_text kvs @ r" "\<not> starts_with ''}'' (members_text kvs @ r)" for r
      using False by (cases kvs; cases "tl kvs"; auto simp: members_text_simps json_string_def starts_with_Cons)+
    show ?thesis unfolding reads_back_def
    proof (intro allI impI)
      fix n r assume n: "length (json_stringify (JObj kvs)) < n"
      then obtain m where m: "n = Suc m" "length (members_text kvs) < m"
        by (cases n) (auto simp: members_text_def)
      have "json_stringify (JObj kvs) @ r = CHR ''{'' # members_text kvs @ r" by (simp add: members_text_def)
      moreover have "js_map kvs = kvs" using JObj.prems by (intro js_map_noop) simp
      ultimately show "parse_value n (json_stringify (JObj kvs) @ r) = Some (JObj kvs, r)"
        using members_read_back [OF False all m(2)] hd m(1) by simp
    qed
  qed
qed (simp_all add: reads_back_atom)

lemma json_roundtrip:
  assumes "json_wf v"
  shows "json_parse (json_stringify v) = Some v"
proof -
  have "number_end []" by (simp add: number_end_def)
  with stringify_reads_back [OF assms] have
    "parse_value (Suc (length (json_stringify v))) (json_stringify v @ []) = Some (v, [])"
    unfolding reads_back_def by blast
  then show ?thesis by (simp add: json_parse_def skip_ws_def)
qed

text \<open>A printed value has no control character, in particular no line feed.\<close>

definition plain_char :: "char \<Rightarrow> bool" where
  "plain_char c \<longleftrightarrow> 32 \<le> (of_char c :: nat)"

lemma hex_digit_plain: "d < 16 \<Longrightarrow> plain_char (hex_digit d)"
proof -
  have "list_all (\<lambda>d. plain_char (hex_digit d)) [0, 1, 2, 3, 4, 5, 6, 7, 8, 9, 10, 11, 12, 13, 14, 15]"
    by code_simp
  moreover assume "d < 16"
  then have "d = 0 \<or> d = 1 \<or> d = 2 \<or> d = 3 \<or> d = 4 \<or> d = 5 \<or> d = 6 \<or> d = 7 \<or> d = 8 \<or> d = 9 \<or> d = 10
      \<or> d = 11 \<or> d = 12 \<or> d = 13 \<or> d = 14 \<or> d = 15" by presburger
  ultimately show ?thesis by auto
qed

lemma json_escape_plain_char: "list_all plain_char (json_escape c)"
proof -
  have h: "plain_char (hex_digit (of_char c mod 16))" by (rule hex_digit_plain) simp
  have "plain_char (hex_digit (of_char c div 16))" if "(of_char c :: nat) < 32"
    by (rule hex_digit_plain) (use that in simp)
  with h show ?thesis by (auto simp: json_escape_def Let_def plain_char_def)
qed

lemma json_string_plain: "list_all plain_char (json_string s)"
proof -
  have "list_all plain_char (concat (map json_escape s))"
    using json_escape_plain_char by (induction s) auto
  then show ?thesis by (simp add: json_string_def plain_char_def)
qed

lemma js_join_plain: "list_all plain_char sep \<Longrightarrow> (\<And>x. x \<in> set xs \<Longrightarrow> list_all plain_char x) \<Longrightarrow> list_all plain_char (js_join sep xs)"
  by (induction sep xs rule: js_join.induct) auto

lemma show_int_plain: "list_all plain_char (show_int n)"
  using show_nat_digits [of "nat n"] show_nat_digits [of "nat (- n)"]
  by (auto simp: show_int_def list_all_iff is_digit_def plain_char_def)

lemma plain_char_marks [simp]:
  "plain_char (CHR ''['')" "plain_char (CHR '']'')" "plain_char (CHR ''{'')" "plain_char (CHR ''}'')"
  "plain_char (CHR '','')" "plain_char (CHR '':'')"
  by (simp_all add: plain_char_def)

lemma stringify_plain: "list_all plain_char (json_stringify v)"
proof (induction v)
  case (JObj kvs)
  then show ?case
    by (auto simp: json_key_def json_string_plain intro!: js_join_plain)
next
  case (JArr xs)
  then show ?case by (auto intro!: js_join_plain)
qed (simp_all add: json_string_plain show_int_plain, simp_all add: plain_char_def)

end
