(* ===== verification/Event_Stream.thy ===== *)
theory Event_Stream
  imports Agent_Runs Json_Text
begin

text \<open>
  The server-sent event stream of a run
  (\<open>streamEvents\<close> of \<open>api/src/modules/agent-runs/agent-run.controller.ts\<close>). The handler sends a
  first batch, and unless the run has ended a one-second timer then polls: each tick is an
  asynchronous callback, split here at its \<open>await\<close> into the request of a batch, the read of the
  database and the continuation. Writes after the response has ended are dropped.
\<close>

section \<open>What is written\<close>

definition newline :: string where
  "newline = [CHR 0x0A]"

text \<open>\<open>toISO\<close> is \<open>Date.prototype.toISOString\<close>.\<close>

definition event_json :: "(int \<Rightarrow> string) \<Rightarrow> agent_run_event_dto \<Rightarrow> json" where
  "event_json toISO e = JObj [(''id'', JStr (evd_id e)), (''sequence'', JNum (evd_sequence e)),
     (''type'', JStr (evd_type e)), (''payload'', evd_payload e), (''createdAt'', JStr (toISO (evd_createdAt e)))]"

datatype sse_write = EventFrame agent_run_event_dto | KeepAlive

fun render :: "(int \<Rightarrow> string) \<Rightarrow> sse_write \<Rightarrow> string" where
  "render toISO (EventFrame e) =
     ''id: '' @ show_int (evd_sequence e) @ newline
     @ ''event: '' @ evd_type e @ newline
     @ ''data: '' @ json_stringify (event_json toISO e) @ newline @ newline"
| "render toISO KeepAlive = '': keep-alive'' @ newline @ newline"

section \<open>The connection\<close>

datatype tick =
  Requested int
| Answered "exn + agent_run \<times> agent_run_event_dto list"

record sse_stream =
  ss_cursor :: int
  ss_out :: "sse_write list"
  ss_timer :: bool
  ss_closed :: bool
  ss_ended :: bool
  ss_ticks :: "tick list"

text \<open>\<open>Number.parseInt(s, 10)\<close>; \<open>None\<close> is \<open>NaN\<close>.\<close>

definition js_parse_int :: "string \<Rightarrow> int option" where
  "js_parse_int s =
     (let t = dropWhile js_space s;
          negative = starts_with ''-'' t;
          u = (if negative \<or> starts_with ''+'' t then tl t else t);
          ds = takeWhile is_digit u
      in if ds = [] then None else Some (if negative then - int (digits_val ds) else int (digits_val ds)))"

definition initial_cursor :: "string option \<Rightarrow> int \<Rightarrow> int" where
  "initial_cursor lastEventId afterSequence =
     (let cursor = (case some_id lastEventId of Some s \<Rightarrow> js_parse_int s | None \<Rightarrow> Some afterSequence)
      in case cursor of None \<Rightarrow> 0 | Some c \<Rightarrow> if c < 0 then 0 else c)"

definition send_batch :: "agent_run_event_dto list \<Rightarrow> sse_stream \<Rightarrow> sse_stream" where
  "send_batch events s = s\<lparr>
     ss_cursor := (if events = [] then ss_cursor s else evd_sequence (last events)),
     ss_out := (if ss_ended s then ss_out s else ss_out s @ map EventFrame events)\<rparr>"

definition write_keep_alive :: "sse_stream \<Rightarrow> sse_stream" where
  "write_keep_alive s = s\<lparr>ss_out := (if ss_ended s then ss_out s else ss_out s @ [KeepAlive])\<rparr>"

definition stop :: "sse_stream \<Rightarrow> sse_stream" where
  "stop s = s\<lparr>ss_closed := True, ss_timer := False, ss_ended := True\<rparr>"

definition isTerminal :: "run_status \<Rightarrow> bool" where
  "isTerminal status \<longleftrightarrow> status \<in> set TERMINAL_AGENT_RUN_STATUSES"

text \<open>The handler up to the start of the timer.\<close>

definition streamEvents ::
  "string \<Rightarrow> auth_context \<Rightarrow> string option \<Rightarrow> int \<Rightarrow> bool \<Rightarrow> (('z, 'o) platform, sse_stream) op" where
  "streamEvents runId auth lastEventId afterSequence detailed =
     (let cursor = initial_cursor lastEventId afterSequence in
      bindM (getEventBatch runId cursor auth detailed) (\<lambda>(run, events).
      let s = send_batch events \<lparr>ss_cursor = cursor, ss_out = [], ss_timer = False, ss_closed = False,
                ss_ended = False, ss_ticks = []\<rparr>
      in returnM (if isTerminal (ar_status run) then stop s else s\<lparr>ss_timer := True\<rparr>)))"

text \<open>The continuation of a tick after its \<open>await\<close>.\<close>

fun resume_tick :: "exn + agent_run \<times> agent_run_event_dto list \<Rightarrow> sse_stream \<Rightarrow> sse_stream" where
  "resume_tick (Inl e) s = stop s"
| "resume_tick (Inr (run, events)) s =
     (let s' = write_keep_alive (send_batch events s)
      in if isTerminal (ar_status run) then stop s' else s')"

text \<open>What the stream relies on of the worker, which writes the agents' database from another
  program: it appends events with higher sequence numbers.\<close>

definition log_grows :: "('z, 'o) platform \<Rightarrow> ('z, 'o) platform \<Rightarrow> bool" where
  "log_grows p q \<longleftrightarrow> agents_db_ok (pf_agents q)
     \<and> (\<forall>runId d. \<exists>new. event_log runId d (pf_agents q) = event_log runId d (pf_agents p) @ new)"

text \<open>The steps of a connection; a new tick may fire while one is under way only if \<open>overlap\<close>.\<close>

inductive stream_step ::
  "bool \<Rightarrow> string \<Rightarrow> auth_context \<Rightarrow> bool \<Rightarrow> sse_stream \<times> ('z, 'o) platform \<Rightarrow> sse_stream \<times> ('z, 'o) platform \<Rightarrow> bool"
  for overlap runId auth detailed where
  fire: "ss_timer s \<Longrightarrow> \<not> ss_closed s \<Longrightarrow> overlap \<or> ss_ticks s = [] \<Longrightarrow>
    stream_step overlap runId auth detailed (s, p) (s\<lparr>ss_ticks := ss_ticks s @ [Requested (ss_cursor s)]\<rparr>, p)"
| read: "i < length (ss_ticks s) \<Longrightarrow> ss_ticks s ! i = Requested c \<Longrightarrow>
    stream_step overlap runId auth detailed (s, p)
      (s\<lparr>ss_ticks := (ss_ticks s)[i := Answered (fst (getEventBatch runId c auth detailed p))]\<rparr>, p)"
| continue: "i < length (ss_ticks s) \<Longrightarrow> ss_ticks s ! i = Answered r \<Longrightarrow>
    stream_step overlap runId auth detailed (s, p)
      (resume_tick r (s\<lparr>ss_ticks := take i (ss_ticks s) @ drop (Suc i) (ss_ticks s)\<rparr>), p)"
| disconnect: "stream_step overlap runId auth detailed (s, p)
    (s\<lparr>ss_closed := True, ss_timer := False, ss_ended := True\<rparr>, p)"
| worker: "log_grows p q \<Longrightarrow> stream_step overlap runId auth detailed (s, p) (s, q)"

inductive_cases stream_stepE: "stream_step overlap runId auth detailed (s, p) (t, q)"

inductive stream_reachable ::
  "bool \<Rightarrow> string \<Rightarrow> auth_context \<Rightarrow> bool \<Rightarrow> sse_stream \<times> ('z, 'o) platform \<Rightarrow> sse_stream \<times> ('z, 'o) platform \<Rightarrow> bool"
  for overlap runId auth detailed where
  refl: "stream_reachable overlap runId auth detailed c c"
| step: "stream_reachable overlap runId auth detailed c d \<Longrightarrow> stream_step overlap runId auth detailed d e \<Longrightarrow>
    stream_reachable overlap runId auth detailed c e"

text \<open>The events among the writes.\<close>

fun written_event :: "sse_write \<Rightarrow> agent_run_event_dto list" where
  "written_event (EventFrame e) = [e]"
| "written_event KeepAlive = []"

definition sent_events :: "sse_stream \<Rightarrow> agent_run_event_dto list" where
  "sent_events s = concat (map written_event (ss_out s))"

lemma written_frames [simp]: "concat (map (written_event \<circ> EventFrame) es) = es"
  by (induction es) auto

lemma sent_simps [simp]:
  "sent_events (s\<lparr>ss_ticks := t\<rparr>) = sent_events s" "sent_events (s\<lparr>ss_timer := b\<rparr>) = sent_events s"
  "sent_events (stop s) = sent_events s" "sent_events (write_keep_alive s) = sent_events s"
  "sent_events (s\<lparr>ss_closed := a, ss_timer := b, ss_ended := c\<rparr>) = sent_events s"
  "\<not> ss_ended s \<Longrightarrow> sent_events (send_batch es s) = sent_events s @ es"
  "ss_ended s \<Longrightarrow> sent_events (send_batch es s) = sent_events s"
  by (simp_all add: sent_events_def stop_def write_keep_alive_def send_batch_def)

section \<open>Serial polling is gapless\<close>

text \<open>The part of the log a connection that starts after \<open>c0\<close> has to send.\<close>

definition due :: "string \<Rightarrow> bool \<Rightarrow> int \<Rightarrow> ('z, 'o) platform \<Rightarrow> agent_run_event_dto list" where
  "due runId d c0 p = map toAgentRunEventDto (filter (\<lambda>e. c0 < ev_sequence e) (event_log runId d (pf_agents p)))"

definition after :: "int \<Rightarrow> agent_run_event_dto list \<Rightarrow> int" where
  "after c0 sent = (if sent = [] then c0 else evd_sequence (last sent))"

lemma due_grows: "log_grows p q \<Longrightarrow> \<exists>new. due runId d c0 q = due runId d c0 p @ new"
proof -
  assume "log_grows p q"
  then obtain new where "event_log runId d (pf_agents q) = event_log runId d (pf_agents p) @ new"
    unfolding log_grows_def by blast
  then show ?thesis by (simp add: due_def)
qed

lemma filter_later: "c0 \<le> c \<Longrightarrow> filter (\<lambda>e. c < f e) (filter (\<lambda>e. c0 < (f e :: int)) xs) = filter (\<lambda>e. c < f e) xs"
  by (auto intro: filter_cong)

lemma due_strict:
  "agents_db_ok (pf_agents p) \<Longrightarrow> sorted_wrt (\<lambda>x y. evd_sequence x < evd_sequence y) (due runId d c0 p)"
  using runlog.after_sorted [of "pf_agents p" c0 runId d]
  by (simp add: due_def sorted_wrt_map toAgentRunEventDto_def)

lemma batch_after:
  assumes "agents_db_ok (pf_agents p)" and "due runId d c0 p = sent @ rest"
  shows "map toAgentRunEventDto (listUserEventsAfter runId d (pf_agents p) (after c0 sent) k) = take k rest"
proof -
  let ?log = "event_log runId d (pf_agents p)"
  have fetch: "map toAgentRunEventDto (listUserEventsAfter runId d (pf_agents p) a k)
      = take k (map toAgentRunEventDto (filter (\<lambda>e. a < ev_sequence e) ?log))" for a
    by (simp add: runlog.fetch_eq [OF assms(1)] take_map)
  show ?thesis
  proof (cases "sent = []")
    case True
    with assms(2) show ?thesis by (simp add: fetch after_def due_def)
  next
    case False
    let ?a = "evd_sequence (last sent)"
    have dto: "evd_sequence (toAgentRunEventDto e) = ev_sequence e" for e by (simp add: toAgentRunEventDto_def)
    have "last sent \<in> set (due runId d c0 p)" using False assms(2) by simp
    then have "c0 < ?a" by (auto simp: due_def dto)
    then have "filter (\<lambda>e. ?a < ev_sequence e) ?log
        = filter (\<lambda>e. ?a < ev_sequence e) (filter (\<lambda>e. c0 < ev_sequence e) ?log)"
      by (intro filter_later [symmetric]) simp
    then have "map toAgentRunEventDto (filter (\<lambda>e. ?a < ev_sequence e) ?log)
        = filter (\<lambda>e. ?a < evd_sequence e) (due runId d c0 p)"
      by (simp add: due_def filter_map comp_def dto)
    also have "\<dots> = rest"
      using drop_after [OF due_strict [OF assms(1)], of "length sent" runId d c0] False assms(2) by simp
    finally show ?thesis by (simp add: fetch after_def False)
  qed
qed

lemma getEventBatch_run:
  "getEventBatch runId c auth d p =
     (case fst (requireOwnedRun runId auth p) of
        Inl e \<Rightarrow> Inl e
      | Inr run \<Rightarrow> Inr (run, map toAgentRunEventDto (listUserEventsAfter runId d (pf_agents p) c MAX_EVENT_BATCH)), p)"
  by (auto simp: getEventBatch_def requireOwnedRun_cases op_simps split: sum.splits option.splits)

text \<open>What a tick under way may hold while polls do not overlap.\<close>

fun tick_ok :: "agent_run_event_dto list \<Rightarrow> int \<Rightarrow> tick list \<Rightarrow> bool" where
  "tick_ok rest c [] = True"
| "tick_ok rest c [Requested d] = (d = c)"
| "tick_ok rest c [Answered (Inl e)] = True"
| "tick_ok rest c [Answered (Inr (run, b))] = (\<exists>r. rest = b @ r)"
| "tick_ok rest c _ = False"

lemma tick_ok_grows: "tick_ok rest c ts \<Longrightarrow> tick_ok (rest @ new) c ts"
  by (cases "(rest, c, ts)" rule: tick_ok.cases) auto

definition stream_inv :: "string \<Rightarrow> bool \<Rightarrow> int \<Rightarrow> sse_stream \<times> ('z, 'o) platform \<Rightarrow> bool" where
  "stream_inv runId d c0 = (\<lambda>(s, p). agents_db_ok (pf_agents p)
     \<and> (\<exists>rest. due runId d c0 p = sent_events s @ rest
         \<and> (\<not> ss_ended s \<longrightarrow> ss_cursor s = after c0 (sent_events s) \<and> tick_ok rest (ss_cursor s) (ss_ticks s))))"

lemma stream_inv_open:
  assumes "agents_db_ok (pf_agents p)" and "streamEvents runId auth i a d p = (Inr s, p')"
  shows "stream_inv runId d (initial_cursor i a) (s, p)"
proof -
  let ?c = "initial_cursor i a"
  let ?b = "map toAgentRunEventDto (listUserEventsAfter runId d (pf_agents p) ?c MAX_EVENT_BATCH)"
  have b: "?b = take MAX_EVENT_BATCH (due runId d ?c p)"
    using batch_after [OF assms(1), of runId d ?c "[]"] by (simp add: after_def)
  let ?s = "send_batch ?b \<lparr>ss_cursor = ?c, ss_out = [], ss_timer = False, ss_closed = False,
                ss_ended = False, ss_ticks = []\<rparr>"
  from assms(2) have s: "s = stop ?s \<or> s = ?s\<lparr>ss_timer := True\<rparr>"
    by (auto simp: streamEvents_def getEventBatch_run op_simps Let_def split: sum.splits if_splits)
  have "sent_events ?s = ?b" by (subst sent_simps) (simp_all add: sent_events_def)
  moreover have "ss_cursor ?s = after ?c ?b" "ss_ticks ?s = []" by (simp_all add: send_batch_def after_def)
  ultimately show ?thesis
    using s assms(1) b by (auto simp: stream_inv_def stop_def intro!: exI [of _ "drop MAX_EVENT_BATCH (due runId d ?c p)"])
qed

lemma stream_inv_step:
  assumes "stream_step False runId auth d c e" and "stream_inv runId d c0 c"
  shows "stream_inv runId d c0 e"
  using assms
proof cases
  case (fire s p)
  with assms(2) show ?thesis by (auto simp: stream_inv_def)
next
  case (read i s x p)
  from assms(2) read obtain rest where db: "agents_db_ok (pf_agents p)" and due: "due runId d c0 p = sent_events s @ rest"
    and ok: "\<not> ss_ended s \<longrightarrow> ss_cursor s = after c0 (sent_events s) \<and> tick_ok rest (ss_cursor s) (ss_ticks s)"
    by (auto simp: stream_inv_def)
  have "tick_ok rest (ss_cursor s) ((ss_ticks s)[i := Answered (fst (getEventBatch runId x auth d p))])"
    if open': "\<not> ss_ended s"
  proof -
    from ok open' have t: "tick_ok rest (ss_cursor s) (ss_ticks s)" "ss_cursor s = after c0 (sent_events s)" by auto
    from t(1) read(3,4) have one: "ss_ticks s = [Requested x]" "i = 0" "x = ss_cursor s"
      by (cases "(rest, ss_cursor s, ss_ticks s)" rule: tick_ok.cases; auto)+
    have "\<exists>r. rest = map toAgentRunEventDto (listUserEventsAfter runId d (pf_agents p) x MAX_EVENT_BATCH) @ r"
      unfolding one(3) t(2) batch_after [OF db due] by (metis append_take_drop_id)
    with one show ?thesis by (auto simp: getEventBatch_run split: sum.split)
  qed
  with db due ok read show ?thesis by (auto simp: stream_inv_def)
next
  case (continue i s r p)
  from assms(2) continue obtain rest where db: "agents_db_ok (pf_agents p)" and due: "due runId d c0 p = sent_events s @ rest"
    and ok: "\<not> ss_ended s \<longrightarrow> ss_cursor s = after c0 (sent_events s) \<and> tick_ok rest (ss_cursor s) (ss_ticks s)"
    by (auto simp: stream_inv_def)
  let ?s = "s\<lparr>ss_ticks := take i (ss_ticks s) @ drop (Suc i) (ss_ticks s)\<rparr>"
  show ?thesis
  proof (cases "ss_ended s")
    case True
    then have "ss_ended (resume_tick r ?s)" "sent_events (resume_tick r ?s) = sent_events s"
      by (cases r rule: sum.exhaust; auto simp: Let_def stop_def write_keep_alive_def send_batch_def sent_events_def)+
    with db due continue show ?thesis by (auto simp: stream_inv_def)
  next
    case False
    with ok have t: "tick_ok rest (ss_cursor s) (ss_ticks s)" "ss_cursor s = after c0 (sent_events s)" by auto
    from t(1) continue(3,4) have one: "ss_ticks s = [Answered r]" "i = 0"
      by (cases "(rest, ss_cursor s, ss_ticks s)" rule: tick_ok.cases; auto)+
    show ?thesis
    proof (cases r)
      case (Inl x)
      with db due continue show ?thesis by (auto simp: stream_inv_def stop_def sent_events_def)
    next
      case (Inr rb)
      obtain run b where rb: "rb = (run, b)" by fastforce
      from t(1) one(1) Inr rb obtain r2 where r2: "rest = b @ r2" by auto
      let ?t = "write_keep_alive (send_batch b ?s)"
      have st: "sent_events ?t = sent_events s @ b" "ss_ticks ?t = []" "ss_ended ?t = False"
        "ss_cursor ?t = after c0 (sent_events s @ b)"
        using False one t(2) by (simp_all add: write_keep_alive_def send_batch_def after_def sent_events_def) 
      have due': "due runId d c0 p = sent_events ?t @ r2" unfolding st(1) using due r2 by simp
      have e: "e = (if isTerminal (ar_status run) then stop ?t else ?t, p)"
        using continue(2) Inr rb by (simp add: Let_def)
      have "sent_events (fst e) = sent_events ?t" unfolding e by simp
      moreover have "\<not> ss_ended (fst e) \<longrightarrow> ss_cursor (fst e) = after c0 (sent_events ?t) \<and> ss_ticks (fst e) = []"
        unfolding e st(1) using st(2,4) by (simp add: stop_def)
      ultimately show ?thesis using db due' e by (auto simp: stream_inv_def)
    qed
  qed
next
  case (disconnect s p)
  with assms(2) show ?thesis by (auto simp: stream_inv_def)
next
  case (worker p q s)
  with assms(2) due_grows [of p q runId d c0] show ?thesis
    by (auto simp: stream_inv_def log_grows_def intro: tick_ok_grows)
qed

lemma stream_inv_reachable:
  assumes "stream_reachable False runId auth d c e" and "stream_inv runId d c0 c"
  shows "stream_inv runId d c0 e"
  using assms by (induction rule: stream_reachable.induct) (auto intro: stream_inv_step)

text \<open>One more poll, from its tick to its continuation.\<close>

lemma one_poll:
  assumes "ss_timer s" "\<not> ss_closed s" "\<not> ss_ended s" "ss_ticks s = []"
    and "requireOwnedRun runId auth p = (Inr run, p)"
  shows "\<exists>s'. stream_reachable overlap runId auth d (s, p) (s', p)
    \<and> sent_events s' = sent_events s @ map toAgentRunEventDto
         (listUserEventsAfter runId d (pf_agents p) (ss_cursor s) MAX_EVENT_BATCH)
    \<and> ss_ended s' = isTerminal (ar_status run)"
proof -
  let ?b = "map toAgentRunEventDto (listUserEventsAfter runId d (pf_agents p) (ss_cursor s) MAX_EVENT_BATCH)"
  let ?r = "Inr (run, ?b) :: exn + agent_run \<times> agent_run_event_dto list"
  let ?s1 = "s\<lparr>ss_ticks := ss_ticks s @ [Requested (ss_cursor s)]\<rparr>"
  let ?s2 = "?s1\<lparr>ss_ticks := (ss_ticks ?s1)[0 := Answered (fst (getEventBatch runId (ss_cursor s) auth d p))]\<rparr>"
  let ?s3 = "resume_tick ?r (?s2\<lparr>ss_ticks := take 0 (ss_ticks ?s2) @ drop (Suc 0) (ss_ticks ?s2)\<rparr>)"
  have "stream_step overlap runId auth d (s, p) (?s1, p)"
    by (rule stream_step.fire) (use assms in auto)
  moreover have "stream_step overlap runId auth d (?s1, p) (?s2, p)"
    by (rule stream_step.read) (use assms(4) in simp_all)
  moreover have "stream_step overlap runId auth d (?s2, p) (?s3, p)"
    by (rule stream_step.continue) (use assms(4,5) in \<open>simp_all add: getEventBatch_run\<close>)
  ultimately have "stream_reachable overlap runId auth d (s, p) (?s3, p)"
    by (meson stream_reachable.intros)
  moreover have "sent_events ?s3 = sent_events s @ ?b"
    using assms(3) by (simp add: Let_def)
  moreover have "ss_ended ?s3 = isTerminal (ar_status run)"
    using assms(3) by (simp add: Let_def stop_def write_keep_alive_def send_batch_def)
  ultimately show ?thesis by blast
qed

text \<open>C12: Serial polling delivers the log without gaps. As long as no poll is started while another is under
  way, then whatever the worker appends and whenever the client leaves, what a connection has sent
  is a prefix of the visible log after the position it started from, in order and with nothing
  missing, repeated or out of place; and each further poll on a quiet connection delivers the next
  200 events (or all that are left) and ends the response exactly when the run has ended.\<close>

theorem serial_stream_gapless:
  assumes "agents_db_ok (pf_agents p0)"
    and "streamEvents runId auth lastEventId afterSequence d p0 = (Inr s0, p0)"
    and "stream_reachable False runId auth d (s0, p0) (s, p)"
  shows "\<exists>rest. due runId d (initial_cursor lastEventId afterSequence) p = sent_events s @ rest
    \<and> sorted_wrt (\<lambda>x y. evd_sequence x < evd_sequence y) (sent_events s @ rest)
    \<and> (ss_timer s \<and> \<not> ss_closed s \<and> \<not> ss_ended s \<and> ss_ticks s = [] \<longrightarrow>
        (\<forall>run. requireOwnedRun runId auth p = (Inr run, p) \<longrightarrow>
          (\<exists>s'. stream_reachable False runId auth d (s, p) (s', p)
             \<and> sent_events s' = sent_events s @ take 200 rest \<and> ss_ended s' = isTerminal (ar_status run))))"
proof -
  let ?c = "initial_cursor lastEventId afterSequence"
  have inv: "stream_inv runId d ?c (s, p)"
    by (rule stream_inv_reachable [OF assms(3) stream_inv_open [OF assms(1,2)]])
  then obtain rest where db: "agents_db_ok (pf_agents p)" and due: "due runId d ?c p = sent_events s @ rest"
    and cur: "\<not> ss_ended s \<longrightarrow> ss_cursor s = after ?c (sent_events s)"
    by (auto simp: stream_inv_def)
  have sorted: "sorted_wrt (\<lambda>x y. evd_sequence x < evd_sequence y) (sent_events s @ rest)"
    using due_strict [OF db, of runId d ?c] due by simp
  have "\<exists>s'. stream_reachable False runId auth d (s, p) (s', p)
             \<and> sent_events s' = sent_events s @ take 200 rest \<and> ss_ended s' = isTerminal (ar_status run)"
    if "ss_timer s" "\<not> ss_closed s" "\<not> ss_ended s" "ss_ticks s = []" "requireOwnedRun runId auth p = (Inr run, p)" for run
    using one_poll [OF that, of False d] cur that(3)
    by (simp add: batch_after [OF db due] MAX_EVENT_BATCH_def)
  with due sorted show ?thesis by blast
qed

theorem serial_stream_gapless_witness:
  "\<exists>s0. streamEvents ''r1'' example_auth None 0 False example_platform = (Inr s0, example_platform)
     \<and> (\<exists>rest. due ''r1'' False 0 example_platform = sent_events s0 @ rest)"
proof -
  have "\<not> isl (fst (streamEvents ''r1'' example_auth None 0 False example_platform))" by code_simp
  moreover have "snd (streamEvents ''r1'' example_auth None 0 False example_platform) = example_platform"
    by (simp add: streamEvents_def getEventBatch_run op_simps Let_def split: sum.split)
  ultimately obtain s0 where s0: "streamEvents ''r1'' example_auth None 0 False example_platform = (Inr s0, example_platform)"
    using succeeds by (metis snd_conv)
  from serial_stream_gapless [OF example_platform_ok(2) s0 stream_reachable.refl]
  have "\<exists>rest. due ''r1'' False (initial_cursor None 0) example_platform = sent_events s0 @ rest" by blast
  moreover have "initial_cursor None 0 = 0" by (simp add: initial_cursor_def some_id_def)
  ultimately show ?thesis using s0 by auto
qed

text \<open>Two ticks that overlap (a read that takes longer than the interval) send the same events twice.\<close>

definition quiet_platform :: "(unit, unit) platform" where
  "quiet_platform = example_platform\<lparr>pf_agents := example_agents\<lparr>ag_events := []\<rparr>\<rparr>"

definition open_stream :: sse_stream where
  "open_stream = \<lparr>ss_cursor = 0, ss_out = [], ss_timer = True, ss_closed = False, ss_ended = False, ss_ticks = []\<rparr>"

lemma overlapping_polls_repeat:
  "\<exists>s. streamEvents ''r1'' example_auth None 0 False quiet_platform = (Inr open_stream, quiet_platform)
    \<and> stream_reachable True ''r1'' example_auth False (open_stream, quiet_platform) (s, example_platform)
    \<and> map evd_id (sent_events s) = [''v1'', ''v1'']"
proof -
  let ?step = "stream_step True ''r1'' example_auth False"
  let ?b = "fst (getEventBatch ''r1'' 0 example_auth False example_platform)"
  let ?e = "toAgentRunEventDto (example_event ''v1'' 1 VisibleUser)"
  let ?s = "\<lambda>out c ts. \<lparr>ss_cursor = c, ss_out = out, ss_timer = True, ss_closed = False, ss_ended = False, ss_ticks = ts\<rparr>"
  have b: "?b = Inr (example_run, [?e])" by code_simp
  have nt: "\<not> isTerminal (ar_status example_run)" by code_simp
  have grows: "log_grows quiet_platform example_platform"
    by (simp add: log_grows_def quiet_platform_def event_log_def visible_events_def example_agents_ok)
  have w: "?step (?s [] 0 [], quiet_platform) (?s [] 0 [], example_platform)" by (rule stream_step.worker [OF grows])
  have f1: "?step (?s [] 0 [], example_platform) (?s [] 0 [Requested 0], example_platform)"
    using stream_step.fire [of "?s [] 0 []" True "''r1''" example_auth False example_platform] by simp
  have f2: "?step (?s [] 0 [Requested 0], example_platform) (?s [] 0 [Requested 0, Requested 0], example_platform)"
    using stream_step.fire [of "?s [] 0 [Requested 0]" True "''r1''" example_auth False example_platform] by simp
  have r1: "?step (?s [] 0 [Requested 0, Requested 0], example_platform) (?s [] 0 [Answered ?b, Requested 0], example_platform)"
    using stream_step.read [of 0 "?s [] 0 [Requested 0, Requested 0]" 0 True "''r1''" example_auth False example_platform] by simp
  have r2: "?step (?s [] 0 [Answered ?b, Requested 0], example_platform) (?s [] 0 [Answered ?b, Answered ?b], example_platform)"
    using stream_step.read [of 1 "?s [] 0 [Answered ?b, Requested 0]" 0 True "''r1''" example_auth False example_platform] by simp
  have c1: "?step (?s [] 0 [Answered ?b, Answered ?b], example_platform) (?s [EventFrame ?e, KeepAlive] 1 [Answered ?b], example_platform)"
    using stream_step.continue [of 0 "?s [] 0 [Answered ?b, Answered ?b]" ?b True "''r1''" example_auth False example_platform] nt
    by (simp add: b Let_def send_batch_def write_keep_alive_def toAgentRunEventDto_def example_event_def)
  have c2: "?step (?s [EventFrame ?e, KeepAlive] 1 [Answered ?b], example_platform)
      (?s [EventFrame ?e, KeepAlive, EventFrame ?e, KeepAlive] 1 [], example_platform)"
    using stream_step.continue [of 0 "?s [EventFrame ?e, KeepAlive] 1 [Answered ?b]" ?b True "''r1''" example_auth False example_platform] nt
    by (simp add: b Let_def send_batch_def write_keep_alive_def toAgentRunEventDto_def example_event_def)
  have opens: "streamEvents ''r1'' example_auth None 0 False quiet_platform = (Inr open_stream, quiet_platform)" by code_simp
  have reach: "stream_reachable True ''r1'' example_auth False (open_stream, quiet_platform)
      (?s [EventFrame ?e, KeepAlive, EventFrame ?e, KeepAlive] 1 [], example_platform)"
    unfolding open_stream_def
    by (rule stream_reachable.step [OF _ c2], rule stream_reachable.step [OF _ c1],
        rule stream_reachable.step [OF _ r2], rule stream_reachable.step [OF _ r1],
        rule stream_reachable.step [OF _ f2], rule stream_reachable.step [OF _ f1],
        rule stream_reachable.step [OF _ w], rule stream_reachable.refl)
  have twice: "map evd_id (sent_events (?s [EventFrame ?e, KeepAlive, EventFrame ?e, KeepAlive] 1 [])) = [''v1'', ''v1'']"
    by (simp add: sent_events_def toAgentRunEventDto_def example_event_def)
  show ?thesis by (intro exI conjI, rule opens, rule reach, rule twice)
qed
end
