(* ===== verification/Api_Controllers.thy ===== *)
theory Api_Controllers
  imports Api_Schemas Platform_History Rbac_Service Event_Stream
begin

text \<open>
  The controllers of the API (\<open>api/src/modules/*/*.controller.ts\<close>) on the state of the process: the
  business and RBAC tables with the active registry and Keycloak (\<open>world\<close>), the agents' database, the
  orchestrator, and the registry of agents. A controller takes what validation has parsed and the
  caller's context and answers with a status and a value; the JSON text of the values is not modelled.
  What a request draws from outside (identifiers, the clock, the libraries) is the record \<open>api_services\<close>.
\<close>

section \<open>The state of the process\<close>

record ('z, 'o, 'k, 'a) api_state =
  as_world :: "('z, 'k) nova_world"
  as_runs :: agents_db
  as_orchestrator :: 'o
  as_admin :: 'a

record ('z, 'o, 'k, 'e) api_services =
  sx_exec :: "'z exec_env"
  sx_isEmail :: "string \<Rightarrow> bool"
  sx_isHttpUrl :: "string \<Rightarrow> bool"
  sx_kc :: "'k kc_client option"
  sx_run :: "('z, 'o) run_env"
  sx_agents :: 'e
  sx_databaseUp :: bool
  sx_cachePing :: "bool option"

definition on_world :: "(('z, 'k) nova_world, 'r) op \<Rightarrow> (('z, 'o, 'k, 'a) api_state, 'r) op" where
  "on_world m = (\<lambda>s. case m (as_world s) of (r, w) \<Rightarrow> (r, s\<lparr>as_world := w\<rparr>))"

definition on_business :: "('z nova_db_scheme, 'r) op \<Rightarrow> (('z, 'o, 'k, 'a) api_state, 'r) op" where
  "on_business m = on_world (on_db m)"

definition platform_of :: "('z, 'o, 'k, 'a) api_state \<Rightarrow> ('z, 'o) platform" where
  "platform_of s = \<lparr>pf_nova = w_db (as_world s), pf_agents = as_runs s, pf_orchestrator = as_orchestrator s\<rparr>"

definition on_platform :: "(('z, 'o) platform, 'r) op \<Rightarrow> (('z, 'o, 'k, 'a) api_state, 'r) op" where
  "on_platform m = (\<lambda>s. case m (platform_of s) of (r, p) \<Rightarrow>
     (r, s\<lparr>as_world := (as_world s)\<lparr>w_db := pf_nova p\<rparr>, as_runs := pf_agents p, as_orchestrator := pf_orchestrator p\<rparr>))"

definition on_admin :: "('a, 'r) op \<Rightarrow> (('z, 'o, 'k, 'a) api_state, 'r) op" where
  "on_admin m = (\<lambda>s. case m (as_admin s) of (r, a) \<Rightarrow> (r, s\<lparr>as_admin := a\<rparr>))"

definition getActiveRegistry :: "(('z, 'o, 'k, 'a) api_state, rbac_registry) op" where
  "getActiveRegistry = getM (\<lambda>s. w_active (as_world s))"

text \<open>The environments of the run service and the tool gateway, with the registry active at the call.\<close>

definition run_env_of :: "('z, 'o, 'k, 'e) api_services \<Rightarrow> rbac_registry \<Rightarrow> ('z, 'o) run_env" where
  "run_env_of S R = (sx_run S)\<lparr>re_registry := R\<rparr>"

definition gateway_env_of :: "('z, 'o, 'k, 'e) api_services \<Rightarrow> rbac_registry \<Rightarrow> 'z gateway_env" where
  "gateway_env_of S R = \<lparr>ge_exec = sx_exec S, ge_sha256 = re_sha256 (sx_run S), ge_registry = R\<rparr>"

text \<open>\<open>res.status(code).json(value)\<close> after the service has answered.\<close>

definition reply :: "nat \<Rightarrow> ('s, 'r) op \<Rightarrow> ('s, nat \<times> 'r) op" where
  "reply code m = bindM m (\<lambda>x. returnM (code, x))"

definition req_auth :: "auth_context option \<Rightarrow> ('s, auth_context) op" where
  "req_auth auth = someM auth unauthenticated_default"

definition actorOf :: "auth_context option \<Rightarrow> ('s, rbac_actor) op" where
  "actorOf auth = bindM (req_auth auth) (\<lambda>a. returnM \<lparr>actor_subject = ac_subject a, actor_userId = None\<rparr>)"

section \<open>Probes and the caller\<close>

text \<open>\<open>/health/ready\<close>: the status code, and the words for the service, the database and the cache. The
  cache is \<open>None\<close> when it is not configured.\<close>

definition health_ready :: "bool \<Rightarrow> bool option \<Rightarrow> nat \<times> string \<times> string \<times> string" where
  "health_ready databaseUp cachePing =
     (if databaseUp then 200 else 503, if databaseUp then ''ok'' else ''unavailable'',
      if databaseUp then ''up'' else ''down'',
      case cachePing of None \<Rightarrow> ''not_configured'' | Some b \<Rightarrow> if b then ''up'' else ''down'')"

definition MeController_me :: "('z, 'o, 'k, 'e) api_services \<Rightarrow> auth_context option \<Rightarrow> (('z, 'o, 'k, 'a) api_state, nat \<times> current_user_dto) op" where
  "MeController_me S auth = bindM getActiveRegistry (\<lambda>R.
     reply 200 (on_business (me (xe_gen (sx_exec S)) (xe_now (sx_exec S)) R auth)))"

section \<open>Customers, products, sales\<close>

definition CustomerController_list ::
  "('z, 'o, 'k, 'e) api_services \<Rightarrow> customer_list_filter \<Rightarrow> (('z, 'o, 'k, 'a) api_state, nat \<times> customer paginated_result) op" where
  "CustomerController_list S q = reply 200 (on_business (listCustomers (xe_ilike (sx_exec S)) q))"

definition CustomerController_getById :: "string \<Rightarrow> (('z, 'o, 'k, 'a) api_state, nat \<times> customer) op" where
  "CustomerController_getById i = reply 200 (on_business (getCustomerById i))"

definition ProductController_list ::
  "('z, 'o, 'k, 'e) api_services \<Rightarrow> product_list_filter \<Rightarrow> (('z, 'o, 'k, 'a) api_state, nat \<times> product paginated_result) op" where
  "ProductController_list S q = reply 200 (on_business (listProducts (xe_ilike (sx_exec S)) q))"

definition SaleController_list :: "sale_list_filter \<Rightarrow> (('z, 'o, 'k, 'a) api_state, nat \<times> sale_dto paginated_result) op" where
  "SaleController_list q = reply 200 (on_business (listSales q))"

definition SaleController_getById :: "string \<Rightarrow> (('z, 'o, 'k, 'a) api_state, nat \<times> sale_dto) op" where
  "SaleController_getById i = reply 200 (on_business (getSaleById i))"

definition SaleController_create ::
  "('z, 'o, 'k, 'e) api_services \<Rightarrow> create_sale_input \<Rightarrow> (('z, 'o, 'k, 'a) api_state, nat \<times> sale_dto) op" where
  "SaleController_create S body = reply 201 (on_business (createSale (xe_gen (sx_exec S)) body))"

section \<open>Issues and actions\<close>

definition IssueController_list :: "issue_list_filter \<Rightarrow> (('z, 'o, 'k, 'a) api_state, nat \<times> issue_dto paginated_result) op" where
  "IssueController_list q = reply 200 (on_business (listIssues q))"

definition IssueController_getById :: "string \<Rightarrow> (('z, 'o, 'k, 'a) api_state, nat \<times> issue_dto) op" where
  "IssueController_getById i = reply 200 (on_business (getIssueById i))"

definition IssueController_create ::
  "('z, 'o, 'k, 'e) api_services \<Rightarrow> create_issue_input \<Rightarrow> (('z, 'o, 'k, 'a) api_state, nat \<times> issue_dto) op" where
  "IssueController_create S body = reply 201 (on_business (createIssue (xe_gen (sx_exec S)) body))"

definition IssueController_update ::
  "('z, 'o, 'k, 'e) api_services \<Rightarrow> string \<Rightarrow> update_issue_input \<Rightarrow> (('z, 'o, 'k, 'a) api_state, nat \<times> issue_dto) op" where
  "IssueController_update S i body = reply 200 (on_business (updateIssue (xe_now (sx_exec S)) i body))"

definition ActionController_create ::
  "('z, 'o, 'k, 'e) api_services \<Rightarrow> auth_context option \<Rightarrow> create_action_input \<Rightarrow> (('z, 'o, 'k, 'a) api_state, nat \<times> action_dto) op" where
  "ActionController_create S auth body = bindM (req_auth auth) (\<lambda>a.
     reply 201 (on_business (createAction (xe_gen (sx_exec S)) (xe_now (sx_exec S)) body a)))"

definition ActionController_list :: "action_list_filter \<Rightarrow> (('z, 'o, 'k, 'a) api_state, nat \<times> action_dto paginated_result) op" where
  "ActionController_list q = reply 200 (on_business (listActions q))"

definition ActionController_update ::
  "('z, 'o, 'k, 'e) api_services \<Rightarrow> auth_context option \<Rightarrow> string \<Rightarrow> update_action_input \<Rightarrow> (('z, 'o, 'k, 'a) api_state, nat \<times> action_dto) op" where
  "ActionController_update S auth i body = bindM (req_auth auth) (\<lambda>a.
     reply 200 (on_business (updateAction (xe_gen (sx_exec S)) (xe_now (sx_exec S)) i body a)))"

definition ActionController_addComment ::
  "('z, 'o, 'k, 'e) api_services \<Rightarrow> auth_context option \<Rightarrow> string \<Rightarrow> string \<times> int
   \<Rightarrow> (('z, 'o, 'k, 'a) api_state, nat \<times> action_comment \<times> user option) op" where
  "ActionController_addComment S auth i body = bindM (req_auth auth) (\<lambda>a.
     reply 201 (on_business (addComment (xe_gen (sx_exec S)) (xe_now (sx_exec S)) i (fst body) (snd body) a)))"

section \<open>Procedures\<close>

definition SopController_list ::
  "('z, 'o, 'k, 'e) api_services \<Rightarrow> sop_list_filter \<Rightarrow> (('z, 'o, 'k, 'a) api_state, nat \<times> sop_dto paginated_result) op" where
  "SopController_list S q = reply 200 (on_business (listSops (xe_ilike (sx_exec S)) q))"

definition SopController_getById ::
  "string \<Rightarrow> (('z, 'o, 'k, 'a) api_state, nat \<times> sop_dto) op" where
  "SopController_getById i = reply 200 (on_business (getSopById i))"

definition SopController_create ::
  "('z, 'o, 'k, 'e) api_services \<Rightarrow> auth_context option \<Rightarrow> create_sop_input \<Rightarrow> (('z, 'o, 'k, 'a) api_state, nat \<times> sop_dto) op" where
  "SopController_create S auth body = bindM (req_auth auth) (\<lambda>a.
     reply 201 (on_business (createSop (xe_gen (sx_exec S)) (xe_now (sx_exec S)) body a)))"

definition SopController_update ::
  "string \<Rightarrow> update_sop_input \<Rightarrow> (('z, 'o, 'k, 'a) api_state, nat \<times> sop_dto) op" where
  "SopController_update i body = reply 200 (on_business (updateSop i body))"

definition SopController_addVersion ::
  "('z, 'o, 'k, 'e) api_services \<Rightarrow> auth_context option \<Rightarrow> string \<Rightarrow> string \<Rightarrow> (('z, 'o, 'k, 'a) api_state, nat \<times> sop_detail) op" where
  "SopController_addVersion S auth i fullText = bindM (req_auth auth) (\<lambda>a.
     reply 201 (on_business (addVersion (xe_gen (sx_exec S)) (xe_now (sx_exec S)) i fullText a)))"

section \<open>Conversations\<close>

definition ChatController_listConversations ::
  "('z, 'o, 'k, 'e) api_services \<Rightarrow> auth_context option \<Rightarrow> (('z, 'o, 'k, 'a) api_state, nat \<times> conversation_dto list) op" where
  "ChatController_listConversations S auth = bindM (req_auth auth) (\<lambda>a.
     reply 200 (on_business (listConversations (xe_gen (sx_exec S)) (xe_now (sx_exec S)) a)))"

definition ChatController_getConversation ::
  "('z, 'o, 'k, 'e) api_services \<Rightarrow> auth_context option \<Rightarrow> string \<Rightarrow> (('z, 'o, 'k, 'a) api_state, nat \<times> conversation_dto) op" where
  "ChatController_getConversation S auth i = bindM (req_auth auth) (\<lambda>a.
     reply 200 (on_business (getConversation (xe_gen (sx_exec S)) (xe_now (sx_exec S)) i a)))"

definition ChatController_createConversation ::
  "('z, 'o, 'k, 'e) api_services \<Rightarrow> auth_context option \<Rightarrow> (('z, 'o, 'k, 'a) api_state, nat \<times> conversation_dto) op" where
  "ChatController_createConversation S auth = bindM (req_auth auth) (\<lambda>a.
     reply 201 (on_business (createConversation (xe_gen (sx_exec S)) (xe_now (sx_exec S)) a)))"

section \<open>Users\<close>

definition AdminUserController_list ::
  "('z, 'o, 'k, 'e) api_services \<Rightarrow> user_list_filter \<Rightarrow> (('z, 'o, 'k, 'a) api_state, nat \<times> admin_user_dto paginated_result) op" where
  "AdminUserController_list S q = reply 200 (on_world (admin_listUsers (xe_ilike (sx_exec S)) q))"

definition AdminUserController_getById ::
  "string \<Rightarrow> (('z, 'o, 'k, 'a) api_state, nat \<times> admin_user_dto) op" where
  "AdminUserController_getById i = reply 200 (on_world (admin_getUser i))"

definition AdminUserController_create ::
  "('z, 'o, 'k, 'e) api_services \<Rightarrow> create_user_input \<Rightarrow> (('z, 'o, 'k, 'a) api_state, nat \<times> admin_user_dto) op" where
  "AdminUserController_create S body = reply 201 (on_world (admin_createUser (xe_gen (sx_exec S)) (xe_now (sx_exec S)) (sx_kc S) body))"

definition AdminUserController_update ::
  "('z, 'o, 'k, 'e) api_services \<Rightarrow> string \<Rightarrow> update_user_input \<Rightarrow> (('z, 'o, 'k, 'a) api_state, nat \<times> admin_user_dto) op" where
  "AdminUserController_update S i body = reply 200 (on_world (admin_updateUser (sx_kc S) i body))"

definition AdminUserController_setRoles ::
  "('z, 'o, 'k, 'e) api_services \<Rightarrow> string \<Rightarrow> string list \<Rightarrow> (('z, 'o, 'k, 'a) api_state, nat \<times> admin_user_dto) op" where
  "AdminUserController_setRoles S i roles = reply 200 (on_world (admin_setUserRoles (sx_kc S) i roles))"

definition AdminUserController_syncKeycloak ::
  "('z, 'o, 'k, 'e) api_services \<Rightarrow> string \<Rightarrow> (('z, 'o, 'k, 'a) api_state, nat \<times> admin_user_dto) op" where
  "AdminUserController_syncKeycloak S i = reply 200 (on_world (admin_syncUserToKeycloak (sx_kc S) i))"

section \<open>RBAC\<close>

text \<open>The mutations: the handler of each is the command it makes of the parameters and the body.\<close>

definition RbacAdminController ::
  "('z, 'o, 'k, 'e) api_services \<Rightarrow> auth_context option \<Rightarrow> nat \<Rightarrow> rbac_command \<Rightarrow> (('z, 'o, 'k, 'a) api_state, nat \<times> rbac_write_result) op" where
  "RbacAdminController S auth code c = bindM (actorOf auth) (\<lambda>actor.
     reply code (on_world (rbac_exec (sx_kc S) actor c)))"

definition RbacAdminController_createRole ::
  "('z, 'o, 'k, 'e) api_services \<Rightarrow> auth_context option \<Rightarrow> string \<times> string option \<Rightarrow> (('z, 'o, 'k, 'a) api_state, nat \<times> rbac_write_result) op" where
  "RbacAdminController_createRole S auth body = RbacAdminController S auth 201 (CreateRole (fst body) (snd body))"

definition RbacAdminController_updateRole ::
  "('z, 'o, 'k, 'e) api_services \<Rightarrow> auth_context option \<Rightarrow> string \<Rightarrow> string option \<Rightarrow> (('z, 'o, 'k, 'a) api_state, nat \<times> rbac_write_result) op" where
  "RbacAdminController_updateRole S auth name description = RbacAdminController S auth 200 (UpdateRole name description)"

definition RbacAdminController_deleteRole ::
  "('z, 'o, 'k, 'e) api_services \<Rightarrow> auth_context option \<Rightarrow> string \<Rightarrow> (('z, 'o, 'k, 'a) api_state, nat \<times> rbac_write_result) op" where
  "RbacAdminController_deleteRole S auth name = RbacAdminController S auth 200 (DeleteRole name)"

definition RbacAdminController_createPermission ::
  "('z, 'o, 'k, 'e) api_services \<Rightarrow> auth_context option \<Rightarrow> string \<times> string option \<Rightarrow> (('z, 'o, 'k, 'a) api_state, nat \<times> rbac_write_result) op" where
  "RbacAdminController_createPermission S auth body = RbacAdminController S auth 201 (CreatePermission (fst body) (snd body))"

definition RbacAdminController_updatePermission ::
  "('z, 'o, 'k, 'e) api_services \<Rightarrow> auth_context option \<Rightarrow> string \<Rightarrow> string option \<Rightarrow> (('z, 'o, 'k, 'a) api_state, nat \<times> rbac_write_result) op" where
  "RbacAdminController_updatePermission S auth name description = RbacAdminController S auth 200 (UpdatePermission name description)"

definition RbacAdminController_deletePermission ::
  "('z, 'o, 'k, 'e) api_services \<Rightarrow> auth_context option \<Rightarrow> string \<Rightarrow> (('z, 'o, 'k, 'a) api_state, nat \<times> rbac_write_result) op" where
  "RbacAdminController_deletePermission S auth name = RbacAdminController S auth 200 (DeletePermission name)"

definition RbacAdminController_setRolePermissions ::
  "('z, 'o, 'k, 'e) api_services \<Rightarrow> auth_context option \<Rightarrow> string \<Rightarrow> string list \<Rightarrow> (('z, 'o, 'k, 'a) api_state, nat \<times> rbac_write_result) op" where
  "RbacAdminController_setRolePermissions S auth name permissions = RbacAdminController S auth 200 (SetRolePermissions name permissions)"

definition RbacAdminController_createCapability ::
  "('z, 'o, 'k, 'e) api_services \<Rightarrow> auth_context option \<Rightarrow> create_capability_body \<Rightarrow> (('z, 'o, 'k, 'a) api_state, nat \<times> rbac_write_result) op" where
  "RbacAdminController_createCapability S auth body = RbacAdminController S auth 201 (CreateCapability body)"

definition RbacAdminController_updateCapability ::
  "('z, 'o, 'k, 'e) api_services \<Rightarrow> auth_context option \<Rightarrow> string \<Rightarrow> update_capability_body \<Rightarrow> (('z, 'o, 'k, 'a) api_state, nat \<times> rbac_write_result) op" where
  "RbacAdminController_updateCapability S auth i body = RbacAdminController S auth 200 (UpdateCapability i body)"

definition RbacAdminController_deleteCapability ::
  "('z, 'o, 'k, 'e) api_services \<Rightarrow> auth_context option \<Rightarrow> string \<Rightarrow> (('z, 'o, 'k, 'a) api_state, nat \<times> rbac_write_result) op" where
  "RbacAdminController_deleteCapability S auth i = RbacAdminController S auth 200 (DeleteCapability i)"

definition RbacAdminController_updateRoutePolicy ::
  "('z, 'o, 'k, 'e) api_services \<Rightarrow> auth_context option \<Rightarrow> string \<Rightarrow> update_route_body \<Rightarrow> (('z, 'o, 'k, 'a) api_state, nat \<times> rbac_write_result) op" where
  "RbacAdminController_updateRoutePolicy S auth i body = RbacAdminController S auth 200 (UpdateRoutePolicy i body)"

definition RbacAdminController_updateViewPermission ::
  "('z, 'o, 'k, 'e) api_services \<Rightarrow> auth_context option \<Rightarrow> string \<times> string \<Rightarrow> string \<Rightarrow> (('z, 'o, 'k, 'a) api_state, nat \<times> rbac_write_result) op" where
  "RbacAdminController_updateViewPermission S auth params permissionName = RbacAdminController S auth 200 (UpdateViewPermission (fst params) (snd params) permissionName)"

definition RbacController_listRoles ::
  "(('z, 'o, 'k, 'a) api_state, nat \<times> role_dto list) op" where
  "RbacController_listRoles = reply 200 (bindM getActiveRegistry (\<lambda>R. returnM (listRoles R)))"

definition RbacController_listPermissions ::
  "(('z, 'o, 'k, 'a) api_state, nat \<times> permission_dto list) op" where
  "RbacController_listPermissions = reply 200 (bindM getActiveRegistry (\<lambda>R. returnM (listPermissions R)))"

definition RbacController_getMatrix ::
  "(('z, 'o, 'k, 'a) api_state, nat \<times> role_permission_matrix) op" where
  "RbacController_getMatrix = reply 200 (bindM getActiveRegistry (\<lambda>R. returnM (getMatrix R)))"

definition RbacController_listCapabilities ::
  "(('z, 'o, 'k, 'a) api_state, nat \<times> capability_view list) op" where
  "RbacController_listCapabilities = reply 200 (bindM getActiveRegistry (\<lambda>R. returnM (listCapabilities R)))"

definition RbacController_listRoutePolicies ::
  "(('z, 'o, 'k, 'a) api_state, nat \<times> route_policy_view list) op" where
  "RbacController_listRoutePolicies = reply 200 (bindM getActiveRegistry (\<lambda>R. returnM (listRoutePolicies R)))"

definition RbacController_listViewPermissions ::
  "(('z, 'o, 'k, 'a) api_state, nat \<times> view_permission_view list) op" where
  "RbacController_listViewPermissions = reply 200 (bindM getActiveRegistry (\<lambda>R. returnM (listViewPermissions R)))"

text \<open>The registry as the clients read it, revalidated by its revision. The service's own current
  registry is read here, not the holder's.\<close>

definition registry_etag :: "rbac_registry \<Rightarrow> string" where
  "registry_etag R = ''W/'' @ quoted (''rbac-'' @ show_int (rd_revision (registry_snapshot R)))"

definition RbacRegistryController_get ::
  "string option \<Rightarrow> (('z, 'o, 'k, 'a) api_state, nat \<times> registry_data option) op" where
  "RbacRegistryController_get ifNoneMatch = bindM (getM (\<lambda>s. w_current (as_world s))) (\<lambda>R.
     returnM (if ifNoneMatch = Some (registry_etag R) then (304, None) else (200, Some (registry_snapshot R))))"

section \<open>The registry of agents\<close>

type_synonym ('z, 'o, 'k, 'w, 'g, 'd) agent_services = "('z, 'o, 'k, ('w, 'g, 'd) agent_env) api_services"
type_synonym ('z, 'o, 'k, 'w, 'g, 'd) agent_state = "('z, 'o, 'k, ('w, 'g, 'd) agent_admin) api_state"

definition AdminAgentController_list ::
  "(('z, 'o, 'k, 'w, 'g, 'd) agent_state, nat \<times> agent_registration_dto list) op" where
  "AdminAgentController_list = reply 200 (on_admin list_agents)"

definition AdminAgentController_get ::
  "string \<Rightarrow> (('z, 'o, 'k, 'w, 'g, 'd) agent_state, nat \<times> agent_registration_dto) op" where
  "AdminAgentController_get name = reply 200 (on_admin (get_agent name))"

definition AdminAgentController_onboard ::
  "('z, 'o, 'k, 'w, 'g, 'd) agent_services \<Rightarrow> auth_context option \<Rightarrow> string \<Rightarrow> onboard_agent_input \<Rightarrow> (('z, 'o, 'k, 'w, 'g, 'd) agent_state, nat \<times> agent_registration_dto) op" where
  "AdminAgentController_onboard S auth requestId body = bindM (actorOf auth) (\<lambda>actor.
     reply 201 (on_admin (onboard (sx_agents S) actor (body\<lparr>oi_requestId := Some requestId\<rparr>))))"

definition AdminAgentController_setEnabled ::
  "('z, 'o, 'k, 'w, 'g, 'd) agent_services \<Rightarrow> auth_context option \<Rightarrow> string \<Rightarrow> bool \<Rightarrow> (('z, 'o, 'k, 'w, 'g, 'd) agent_state, nat \<times> agent_registration_dto) op" where
  "AdminAgentController_setEnabled S auth name enabled = bindM (actorOf auth) (\<lambda>actor.
     reply 200 (on_admin (set_agent_enabled (sx_agents S) actor name enabled)))"

definition AdminAgentController_remove ::
  "('z, 'o, 'k, 'w, 'g, 'd) agent_services \<Rightarrow> auth_context option \<Rightarrow> string \<Rightarrow> (('z, 'o, 'k, 'w, 'g, 'd) agent_state, nat \<times> unit) op" where
  "AdminAgentController_remove S auth name = bindM (actorOf auth) (\<lambda>actor.
     reply 204 (on_admin (remove_agent (sx_agents S) actor name)))"

section \<open>Agent runs\<close>

definition AgentRunController_create ::
  "('z, 'o, 'k, 'e) api_services \<Rightarrow> auth_context option \<Rightarrow> string option \<Rightarrow> string option \<Rightarrow> string \<times> string option \<Rightarrow> (('z, 'o, 'k, 'a) api_state, nat \<times> agent_run_dto) op" where
  "AgentRunController_create S auth idempotencyKey xRequestId body = bindM (req_auth auth) (\<lambda>a.
     bindM (someM (Option.bind idempotencyKey (\<lambda>k. idempotencyKeySchema (JStr k)))
       (validation_error ''An Idempotency-Key header is required.'')) (\<lambda>key.
     bindM getActiveRegistry (\<lambda>R.
     reply 202 (on_platform (createRun (run_env_of S R)
       \<lparr>cri_message = fst body, cri_conversationId = snd body, cri_auth = a, cri_idempotencyKey = key,
        cri_requestId = nullish xRequestId []\<rparr>)))))"

definition AgentRunController_getById ::
  "auth_context option \<Rightarrow> string \<Rightarrow> (('z, 'o, 'k, 'a) api_state, nat \<times> agent_run_dto) op" where
  "AgentRunController_getById auth runId = bindM (req_auth auth) (\<lambda>a. reply 200 (on_platform (getRun runId a)))"

definition AgentRunController_list ::
  "auth_context option \<Rightarrow> string \<Rightarrow> (('z, 'o, 'k, 'a) api_state, nat \<times> agent_run_dto list) op" where
  "AgentRunController_list auth conversationId = bindM (req_auth auth) (\<lambda>a.
     reply 200 (on_platform (listRunsForConversation conversationId a)))"

definition AgentRunController_getTrace ::
  "auth_context option \<Rightarrow> string \<Rightarrow> bool \<Rightarrow> (('z, 'o, 'k, 'a) api_state, nat \<times> (agent_run \<times> agent_run_event_dto list) option) op" where
  "AgentRunController_getTrace auth runId detailed = bindM (req_auth auth) (\<lambda>a.
     reply 200 (on_platform (getRunTrace runId a detailed)))"

definition AgentRunController_cancel ::
  "auth_context option \<Rightarrow> string \<Rightarrow> (('z, 'o, 'k, 'a) api_state, nat \<times> agent_run_dto) op" where
  "AgentRunController_cancel auth runId = bindM (req_auth auth) (\<lambda>a. reply 200 (on_platform (cancelRun runId a)))"

definition AgentRunController_streamEvents ::
  "auth_context option \<Rightarrow> string option \<Rightarrow> string \<Rightarrow> nat \<times> bool \<Rightarrow> (('z, 'o, 'k, 'a) api_state, nat \<times> sse_stream) op" where
  "AgentRunController_streamEvents auth lastEventId runId query = bindM (req_auth auth) (\<lambda>a.
     reply 200 (on_platform (streamEvents runId a lastEventId (int (fst query)) (snd query))))"

section \<open>The tool gateway\<close>

definition ToolGatewayController_getPrompt ::
  "('z, 'o, 'k, 'e) api_services \<Rightarrow> string \<Rightarrow> (('z, 'o, 'k, 'a) api_state, nat \<times> string) op" where
  "ToolGatewayController_getPrompt S runId = bindM getActiveRegistry (\<lambda>R.
     reply 200 (on_platform (getPrompt (gateway_env_of S R) runId)))"

definition ToolGatewayController_getEntitlement ::
  "('z, 'o, 'k, 'e) api_services \<Rightarrow> string \<Rightarrow> (('z, 'o, 'k, 'a) api_state, nat \<times> entitlement_view) op" where
  "ToolGatewayController_getEntitlement S runId = bindM getActiveRegistry (\<lambda>R.
     reply 200 (on_platform (getEntitlement (gateway_env_of S R) runId)))"

definition ToolGatewayController_execute ::
  "('z, 'o, 'k, 'e) api_services \<Rightarrow> string \<Rightarrow> string \<times> json \<Rightarrow> (('z, 'o, 'k, 'a) api_state, nat \<times> tool_call_result) op" where
  "ToolGatewayController_execute S runId body = bindM getActiveRegistry (\<lambda>R.
     reply 200 (on_platform (executeCapability (gateway_env_of S R) runId (fst body) (Some (snd body)))))"

definition ToolGatewayController_finalize ::
  "('z, 'o, 'k, 'e) api_services \<Rightarrow> string \<Rightarrow> string \<times> tool_link list \<Rightarrow> (('z, 'o, 'k, 'a) api_state, nat \<times> string) op" where
  "ToolGatewayController_finalize S runId body = bindM getActiveRegistry (\<lambda>R.
     reply 200 (on_platform (finalizeRun (gateway_env_of S R) runId (fst body) (snd body))))"

section \<open>Dispatch\<close>

text \<open>What a request carries beside its path: the parameters Express takes from it, the query, the body,
  and the headers the handlers read.\<close>

record http_content =
  hc_params :: json
  hc_query :: json
  hc_body :: json
  hc_idempotencyKey :: "string option"
  hc_lastEventId :: "string option"
  hc_ifNoneMatch :: "string option"

text \<open>The part a schema is applied to.\<close>

definition schema_part :: "string \<Rightarrow> http_content \<Rightarrow> json" where
  "schema_part name c =
     (if ends_with ''ParamsSchema'' name then hc_params c
      else if ends_with ''QuerySchema'' name then hc_query c else hc_body c)"

text \<open>A handler reads the value validation has put in the request's place.\<close>

definition validated :: "'v schema \<Rightarrow> json \<Rightarrow> ('v \<Rightarrow> ('s, 'r) op) \<Rightarrow> ('s, 'r) op" where
  "validated p j f = (case p j of Some x \<Rightarrow> f x | None \<Rightarrow> throwM (OtherErr ''unvalidated''))"

text \<open>Only the status of the answer is kept here.\<close>

definition answer :: "('s, nat \<times> 'r) op \<Rightarrow> ('s, nat) op" where
  "answer m = bindM m (\<lambda>(code, x). returnM code)"

definition handlers ::
  "('z, 'o, 'k, 'w, 'g, 'd) agent_services \<Rightarrow> auth_context option \<Rightarrow> string option \<Rightarrow> string \<Rightarrow> http_content
   \<Rightarrow> (string \<times> (('z, 'o, 'k, 'w, 'g, 'd) agent_state, nat) op) list" where
  "handlers S auth xRequestId requestId c =
     [(''health.live'', returnM 200),
      (''health.ready'', returnM (fst (health_ready (sx_databaseUp S) (sx_cachePing S)))),
      (''MeController.me'', answer (MeController_me S auth)),
      (''CustomerController.list'', validated listCustomersQuery (hc_query c) (\<lambda>q. answer (CustomerController_list S q))),
      (''CustomerController.getById'', validated (idParams (sx_exec S)) (hc_params c) (\<lambda>i. answer (CustomerController_getById i))),
      (''ProductController.list'', validated listProductsQuery (hc_query c) (\<lambda>q. answer (ProductController_list S q))),
      (''SaleController.list'', validated (listSalesQuery (sx_exec S)) (hc_query c) (\<lambda>q. answer (SaleController_list q))),
      (''SaleController.create'', validated (createSaleBody (sx_exec S)) (hc_body c) (\<lambda>b. answer (SaleController_create S b))),
      (''SaleController.getById'', validated (idParams (sx_exec S)) (hc_params c) (\<lambda>i. answer (SaleController_getById i))),
      (''IssueController.list'', validated (listIssuesQuery (sx_exec S)) (hc_query c) (\<lambda>q. answer (IssueController_list q))),
      (''IssueController.create'', validated (createIssueBody (sx_exec S)) (hc_body c) (\<lambda>b. answer (IssueController_create S b))),
      (''IssueController.getById'', validated (idParams (sx_exec S)) (hc_params c) (\<lambda>i. answer (IssueController_getById i))),
      (''IssueController.update'', validated (idParams (sx_exec S)) (hc_params c) (\<lambda>i. validated (updateIssueBody (sx_exec S)) (hc_body c) (\<lambda>b. answer (IssueController_update S i b)))),
      (''ActionController.create'', validated (createActionBody (sx_exec S)) (hc_body c) (\<lambda>b. answer (ActionController_create S auth b))),
      (''ActionController.list'', validated (listActionsQuery (sx_exec S)) (hc_query c) (\<lambda>q. answer (ActionController_list q))),
      (''ActionController.update'', validated (idParams (sx_exec S)) (hc_params c) (\<lambda>i. validated (updateActionBody (sx_exec S)) (hc_body c) (\<lambda>b. answer (ActionController_update S auth i b)))),
      (''ActionController.addComment'', validated (idParams (sx_exec S)) (hc_params c) (\<lambda>i. validated (addCommentBody (sx_exec S)) (hc_body c) (\<lambda>b. answer (ActionController_addComment S auth i b)))),
      (''SopController.list'', validated listSopsQuery (hc_query c) (\<lambda>q. answer (SopController_list S q))),
      (''SopController.create'', validated createSopBody (hc_body c) (\<lambda>b. answer (SopController_create S auth b))),
      (''SopController.getById'', validated (idParams (sx_exec S)) (hc_params c) (\<lambda>i. answer (SopController_getById i))),
      (''SopController.update'', validated (idParams (sx_exec S)) (hc_params c) (\<lambda>i. validated updateSopBody (hc_body c) (\<lambda>b. answer (SopController_update i b)))),
      (''SopController.addVersion'', validated (idParams (sx_exec S)) (hc_params c) (\<lambda>i. validated createSopVersionBody (hc_body c) (\<lambda>b. answer (SopController_addVersion S auth i b)))),
      (''AdminUserController.list'', validated listUsersQuery (hc_query c) (\<lambda>q. answer (AdminUserController_list S q))),
      (''AdminUserController.create'', validated (createUserBody (sx_isEmail S)) (hc_body c) (\<lambda>b. answer (AdminUserController_create S b))),
      (''AdminUserController.getById'', validated (idParams (sx_exec S)) (hc_params c) (\<lambda>i. answer (AdminUserController_getById i))),
      (''AdminUserController.update'', validated (idParams (sx_exec S)) (hc_params c) (\<lambda>i. validated updateUserBody (hc_body c) (\<lambda>b. answer (AdminUserController_update S i b)))),
      (''AdminUserController.setRoles'', validated (idParams (sx_exec S)) (hc_params c) (\<lambda>i. validated setRolesBody (hc_body c) (\<lambda>b. answer (AdminUserController_setRoles S i b)))),
      (''AdminUserController.syncKeycloak'', validated (idParams (sx_exec S)) (hc_params c) (\<lambda>i. answer (AdminUserController_syncKeycloak S i))),
      (''RbacController.listRoles'', answer (RbacController_listRoles)),
      (''RbacController.listPermissions'', answer (RbacController_listPermissions)),
      (''RbacController.getMatrix'', answer (RbacController_getMatrix)),
      (''RbacController.listCapabilities'', answer (RbacController_listCapabilities)),
      (''RbacController.listRoutePolicies'', answer (RbacController_listRoutePolicies)),
      (''RbacController.listViewPermissions'', answer (RbacController_listViewPermissions)),
      (''RbacAdminController.createRole'', validated createRoleBody (hc_body c) (\<lambda>b. answer (RbacAdminController_createRole S auth b))),
      (''RbacAdminController.updateRole'', validated nameParams (hc_params c) (\<lambda>n. validated updateRoleBody (hc_body c) (\<lambda>d. answer (RbacAdminController_updateRole S auth n d)))),
      (''RbacAdminController.deleteRole'', validated nameParams (hc_params c) (\<lambda>n. answer (RbacAdminController_deleteRole S auth n))),
      (''RbacAdminController.setRolePermissions'', validated nameParams (hc_params c) (\<lambda>n. validated setRolePermissionsBody (hc_body c) (\<lambda>ps. answer (RbacAdminController_setRolePermissions S auth n ps)))),
      (''RbacAdminController.createPermission'', validated createRoleBody (hc_body c) (\<lambda>b. answer (RbacAdminController_createPermission S auth b))),
      (''RbacAdminController.updatePermission'', validated nameParams (hc_params c) (\<lambda>n. validated updateRoleBody (hc_body c) (\<lambda>d. answer (RbacAdminController_updatePermission S auth n d)))),
      (''RbacAdminController.deletePermission'', validated nameParams (hc_params c) (\<lambda>n. answer (RbacAdminController_deletePermission S auth n))),
      (''RbacAdminController.createCapability'', validated createCapabilityBody (hc_body c) (\<lambda>b. answer (RbacAdminController_createCapability S auth b))),
      (''RbacAdminController.updateCapability'', validated capabilityIdParams (hc_params c) (\<lambda>i. validated updateCapabilityBody (hc_body c) (\<lambda>b. answer (RbacAdminController_updateCapability S auth i b)))),
      (''RbacAdminController.deleteCapability'', validated capabilityIdParams (hc_params c) (\<lambda>i. answer (RbacAdminController_deleteCapability S auth i))),
      (''RbacAdminController.updateRoutePolicy'', validated routeIdParams (hc_params c) (\<lambda>i. validated updateRoutePolicyBody (hc_body c) (\<lambda>b. answer (RbacAdminController_updateRoutePolicy S auth i b)))),
      (''RbacAdminController.updateViewPermission'', validated viewPermissionParams (hc_params c) (\<lambda>v. validated updateViewPermissionBody (hc_body c) (\<lambda>n. answer (RbacAdminController_updateViewPermission S auth v n)))),
      (''RbacRegistryController.get'', answer (RbacRegistryController_get (hc_ifNoneMatch c))),
      (''ChatController.listConversations'', answer (ChatController_listConversations S auth)),
      (''ChatController.createConversation'', answer (ChatController_createConversation S auth)),
      (''ChatController.getConversation'', validated (idParams (sx_exec S)) (hc_params c) (\<lambda>i. answer (ChatController_getConversation S auth i))),
      (''AgentRunController.create'', validated (createAgentRunBody (sx_exec S)) (hc_body c) (\<lambda>b. answer (AgentRunController_create S auth (hc_idempotencyKey c) xRequestId b))),
      (''AgentRunController.list'', validated (listRunsQuery (sx_exec S)) (hc_query c) (\<lambda>q. answer (AgentRunController_list auth q))),
      (''AgentRunController.getById'', validated (runIdParams (sx_exec S)) (hc_params c) (\<lambda>i. answer (AgentRunController_getById auth i))),
      (''AgentRunController.streamEvents'', validated (runIdParams (sx_exec S)) (hc_params c) (\<lambda>i. validated listEventsQuery (hc_query c) (\<lambda>q. answer (AgentRunController_streamEvents auth (hc_lastEventId c) i q)))),
      (''AgentRunController.getTrace'', validated (runIdParams (sx_exec S)) (hc_params c) (\<lambda>i. validated traceQuery (hc_query c) (\<lambda>d. answer (AgentRunController_getTrace auth i d)))),
      (''AgentRunController.cancel'', validated (runIdParams (sx_exec S)) (hc_params c) (\<lambda>i. answer (AgentRunController_cancel auth i))),
      (''AdminAgentController.list'', answer (AdminAgentController_list)),
      (''AdminAgentController.onboard'', validated (onboardAgentBody (sx_isHttpUrl S)) (hc_body c) (\<lambda>b. answer (AdminAgentController_onboard S auth requestId b))),
      (''AdminAgentController.get'', validated agentNameParamsSchema (hc_params c) (\<lambda>n. answer (AdminAgentController_get n))),
      (''AdminAgentController.setEnabled'', validated agentNameParamsSchema (hc_params c) (\<lambda>n. validated setAgentEnabledBody (hc_body c) (\<lambda>e. answer (AdminAgentController_setEnabled S auth n e)))),
      (''AdminAgentController.remove'', validated agentNameParamsSchema (hc_params c) (\<lambda>n. answer (AdminAgentController_remove S auth n))),
      (''ToolGatewayController.getPrompt'', validated (runIdParams (sx_exec S)) (hc_params c) (\<lambda>i. answer (ToolGatewayController_getPrompt S i))),
      (''ToolGatewayController.getEntitlement'', validated (runIdParams (sx_exec S)) (hc_params c) (\<lambda>i. answer (ToolGatewayController_getEntitlement S i))),
      (''ToolGatewayController.execute'', validated (runIdParams (sx_exec S)) (hc_params c) (\<lambda>i. validated toolCallBody (hc_body c) (\<lambda>b. answer (ToolGatewayController_execute S i b)))),
      (''ToolGatewayController.finalize'', validated (runIdParams (sx_exec S)) (hc_params c) (\<lambda>i. validated finalizeBody (hc_body c) (\<lambda>b. answer (ToolGatewayController_finalize S i b))))]"

end
