(* ===== verification/Policy_Frame.thy ===== *)
theory Policy_Frame
  imports Platform_History Rbac_Service
begin

text \<open>
  The frames of the two halves of the business database. The services of the business tables, the
  runs and the tools never touch the policy tables; the RBAC administration never touches the business
  tables. Both halves share the roles of the users, which only user administration writes.
\<close>

section \<open>The policy part\<close>

text \<open>All RBAC tables but the roles of the users, the audit log and the revision included.\<close>

definition policy_part :: "'z rbac_db_scheme \<Rightarrow> rbac_db" where
  "policy_part db = rbac_db.truncate (db\<lparr>db_userRoles := []\<rparr>)"

lemma policy_part_loaded: "policy_part db = policy_part db' \<Longrightarrow> loadData db = loadData db'"
  by (simp add: policy_part_def rbac_db.truncate_def loadData_def loadData_from_def readRevision_def)

lemma policy_part_covered: "policy_part db = policy_part db' \<Longrightarrow> critical_covered db = critical_covered db'"
  by (simp add: policy_part_def rbac_db.truncate_def critical_covered_def)

lemma policy_part_audit: "policy_part db = policy_part db' \<Longrightarrow> db_rbacAudit db = db_rbacAudit db'"
  by (simp add: policy_part_def rbac_db.truncate_def)

definition policy_is :: "rbac_db \<Rightarrow> 'z rbac_db_scheme \<Rightarrow> bool" where
  "policy_is c db \<longleftrightarrow> policy_part db = c"

lemma policy_statement:
  "(\<And>s. policy_part (f s) = policy_part s) \<Longrightarrow> preserves (policy_is c) (nova_statement f)"
  by (simp add: preserves_def policy_is_def nova_statement_apply)

lemma policy_writes:
  "preserves (policy_is c) (user_create gen now cud)"
  "preserves (policy_is c) (user_patch i uf)"
  "preserves (policy_is c) (setKeycloakId i k)"
  "preserves (policy_is c) (replaceRoles i roles)"
  "preserves (policy_is c) (sale_create gen sd)"
  "preserves (policy_is c) (issue_create gen id')"
  "preserves (policy_is c) (issue_update i iu t)"
  "preserves (policy_is c) (action_create gen ad)"
  "preserves (policy_is c) (action_update i au u)"
  "preserves (policy_is c) (comment_create gen i u txt t)"
  "preserves (policy_is c) (conversation_create gen t u)"
  "preserves (policy_is c) (sop_update i su)"
  "preserves (policy_is c) (sop_create gen sc u t)"
  "preserves (policy_is c) (sop_addVersion i txt u t)"
  "preserves (policy_is c) (addMessage gen cm)"
  unfolding user_create_def user_patch_def setKeycloakId_def replaceRoles_def sale_create_def issue_create_def
    issue_update_def action_create_def action_update_def comment_create_def conversation_create_def
    sop_update_def sop_create_def sop_addVersion_def addMessage_def insert_detail_def Let_def
  by (auto intro!: business_intros policy_statement simp: policy_part_def rbac_db.truncate_def)

lemma policy_caller: "preserves (policy_is c) (resolveCurrentUser gen now auth)"
  unfolding resolveCurrentUser_def provision_profile_def Let_def
  by (auto intro!: business_intros policy_writes split: option.splits)

lemmas policy_intros = business_intros policy_writes policy_caller

lemmas business_services = createSale_def getSaleById_def createIssue_def getIssueById_def updateIssue_def
  createAction_def getActionById_def updateAction_def addComment_def createSop_def getSopById_def
  updateSop_def addVersion_def createConversation_def

lemma policy_business: "preserves (policy_is c) (business_handler gen now auth x)"
  by (cases x) (auto simp: business_services Let_def intro!: policy_intros split: option.split)

lemmas write_capabilities = markActionCompleted_def cap_createSale_def cap_createIssue_def cap_createAction_def
  addActionComment_def cap_updateAction_def cap_updateIssue_def cap_createSop_def cap_updateSop_def addSopVersion_def

lemma policy_execute:
  fixes env :: "'z exec_env"
  shows "preserves (policy_is c) (execute env i input auth)"
proof (cases "map_of (executors :: (string \<times> 'z handler) list) i")
  case None
  then show ?thesis by (simp add: execute_def preserves_throwM)
next
  case (Some h)
  then have "h \<in> snd ` set (executors :: (string \<times> 'z handler) list)"
    by (metis image_iff map_of_SomeD snd_conv)
  then have "preserves (policy_is c) (h env auth input)"
    unfolding executors_def
    by (auto simp: read_handlers read_services write_capabilities business_services Let_def
        intro!: policy_intros preserves_parse_input split: option.split)
  with Some show ?thesis by (simp add: execute_def)
qed

text \<open>On the platform.\<close>

definition platform_policy_is :: "rbac_db \<Rightarrow> ('z, 'o) platform \<Rightarrow> bool" where
  "platform_policy_is c p \<longleftrightarrow> policy_is c (pf_nova p)"

lemma policy_on_nova: "preserves (policy_is c) m \<Longrightarrow> preserves (platform_policy_is c) (on_nova m)"
  by (simp add: preserves_def platform_policy_is_def on_nova_def split_beta)

lemma policy_on_agents: "preserves (platform_policy_is c) (on_agents m)"
  by (simp add: preserves_def platform_policy_is_def on_agents_def split_beta)

lemma policy_on_orchestrator: "preserves (platform_policy_is c) (on_orchestrator m)"
  by (simp add: preserves_def platform_policy_is_def on_orchestrator_def split_beta)

lemma policy_submit: "preserves (policy_is c) (submit_message env x u)"
  unfolding submit_message_def by (auto intro!: policy_intros split: option.split)

lemmas platform_policy_intros = preserves_intros preserves_case_prod policy_on_nova policy_on_agents
  policy_on_orchestrator policy_submit policy_writes policy_caller policy_execute

lemma policy_platform: "preserves (platform_policy_is c) (platform_handler env genv x)"
proof -
  have "preserves (platform_policy_is c) (loadVerified genv i)" for i
    unfolding loadVerified_def by (auto intro!: platform_policy_intros)
  then show ?thesis
    by (cases x)
      (auto simp: createRun_def cancelRun_def requireOwnedRun_def getPrompt_def getEntitlement_def executeCapability_def
        finalizeRun_def enqueue_def Let_def intro!: platform_policy_intros split: option.split)
qed

section \<open>The business part\<close>

definition business_is :: "(string \<times> string) list \<Rightarrow> 'z \<Rightarrow> 'z rbac_db_scheme \<Rightarrow> bool" where
  "business_is u m db \<longleftrightarrow> db_userRoles db = u \<and> rbac_db.more db = m"

lemma business_command_work: "preserves (business_is u m) (command_work c)"
  by (cases c) (auto simp: work_defs Let_def business_is_def delete_role_row_def delete_permission_row_def
      delete_capability_row_def intro!: work_intros preserves_statement_frame split: option.splits)

text \<open>What one command may change of the process: the policy tables, the registries, Keycloak.\<close>

definition world_business_is :: "(string \<times> string) list \<Rightarrow> 'z \<Rightarrow> ('z, 'k) world \<Rightarrow> bool" where
  "world_business_is u m w \<longleftrightarrow> business_is u m (w_db w)"

text \<open>The registries of the process are the ones loaded from the tables.\<close>

definition policy_current :: "('z, 'k) world \<Rightarrow> bool" where
  "policy_current w \<longleftrightarrow> w_current w = mkRegistry (loadData (w_db w)) \<and> w_active w = w_current w"

definition rbac_frame :: "(string \<times> string) list \<Rightarrow> 'z \<Rightarrow> ('z, 'k) world \<Rightarrow> bool" where
  "rbac_frame u m w \<longleftrightarrow> world_business_is u m w \<and> policy_current w"

lemma frame_on_kc: "preserves (rbac_frame u m) (on_kc f)"
  by (auto simp: preserves_def on_kc_def rbac_frame_def world_business_is_def policy_current_def split: prod.splits)

lemma frame_mutate: "preserves (rbac_frame u m) (mutate actor (command_work c))"
proof (rule preserves_def [THEN iffD2, rule_format])
  fix w :: "('a, 'b) world"
  assume w: "rbac_frame u m w"
  show "rbac_frame u m (snd (mutate actor (command_work c) w))"
  proof (cases rule: mutate_cases [of actor "command_work c" w])
    case (failed e)
    then show ?thesis using w by simp
  next
    case (committed en d1)
    have "business_is u m d1"
      using preservesD [OF business_command_work _ committed(1)] w by (simp add: rbac_frame_def world_business_is_def)
    with committed(3) show ?thesis
      by (simp add: rbac_frame_def world_business_is_def business_is_def policy_current_def audited_def)
  qed
qed

lemma frame_current_result: "preserves (rbac_frame u m) (current_result kc)"
  unfolding current_result_def by (intro preserves_intros)

text \<open>The stored Keycloak identifier is followed by a reload.\<close>

lemma frame_store_keycloakId: "preserves (rbac_frame u m) (thenM (on_db (set_keycloakRoleId n i)) (bindM refresh (\<lambda>_. returnM ())))"
  by (auto simp: preserves_def on_db_def set_keycloakRoleId_def refresh_def op_simps Let_def rbac_frame_def
      world_business_is_def business_is_def policy_current_def)

lemma rbac_exec_frame: "preserves (rbac_frame u m) (rbac_exec client actor c)"
proof -
  have plain: "preserves (rbac_frame u m) (bindM (mutate actor (command_work c)) plain_result)" for c
    unfolding plain_result_def by (intro preserves_bindM frame_mutate preserves_returnM)
  show ?thesis
  proof (cases c)
    case (CreateRole n d)
    have store: "preserves (rbac_frame u m) (case k of None \<Rightarrow> returnM ()
        | Some i \<Rightarrow> thenM (on_db (set_keycloakRoleId n i)) (bindM refresh (\<lambda>_. returnM ())))" for k
      by (cases k) (simp_all add: preserves_returnM frame_store_keycloakId)
    show ?thesis
      unfolding CreateRole rbac_exec.simps createRole_def
      by (rule preserves_thenM [OF frame_mutate [of u m actor "CreateRole n d", simplified]
            preserves_bindM [OF frame_on_kc preserves_thenM [OF store frame_current_result]]])
  next
    case (UpdateRole n d)
    then show ?thesis
      using frame_mutate [of u m actor "UpdateRole n d"]
      by (auto simp: updateRole_def intro!: preserves_thenM preserves_bindM frame_on_kc frame_current_result)
  next
    case (DeleteRole n)
    then show ?thesis
      using frame_mutate [of u m actor "DeleteRole n"]
      by (auto simp: deleteRole_def intro!: preserves_thenM preserves_bindM frame_on_kc frame_current_result)
  qed (simp_all only: rbac_exec.simps plain)
qed

text \<open>The business tables as a function of that part.\<close>

lemma business_part_eq:
  assumes "rbac_db.more db = rbac_db.more db'"
  shows "tb_users db = tb_users db'" "tb_customers db = tb_customers db'" "tb_products db = tb_products db'"
    "tb_sales db = tb_sales db'" "tb_productsSold db = tb_productsSold db'" "tb_issues db = tb_issues db'"
    "tb_actions db = tb_actions db'" "tb_comments db = tb_comments db'" "tb_sops db = tb_sops db'"
    "tb_sopDetails db = tb_sopDetails db'" "tb_conversations db = tb_conversations db'" "tb_messages db = tb_messages db'"
  using assms by (cases db; cases db'; simp)+

lemma business_ok_transfer:
  assumes "business_ok db" "rbac_db_ok db'" "business_is (db_userRoles db) (rbac_db.more db) db'"
  shows "business_ok db' \<and> history_kept db db'"
proof -
  have more: "rbac_db.more db' = rbac_db.more db" and roles: "db_userRoles db' = db_userRoles db"
    using assms(3) by (simp_all add: business_is_def)
  note same = business_part_eq [OF more]
  have "keys_ok db'" "references_ok db'" "rows_ok db'" "versions_contiguous db'"
    using assms(1) unfolding business_ok_def nova_db_ok_def keys_ok_def references_ok_def rows_ok_def
      versions_contiguous_def details_of_def same roles by simp_all
  moreover have "history_kept db db'" by (simp add: history_kept_def same)
  ultimately show ?thesis using assms(2) by (simp add: business_ok_def nova_db_ok_def)
qed

end
