(* ===== verification/Api_Service.thy ===== *)
theory Api_Service
  imports Api_Controllers Policy_Frame
begin

text \<open>
  The API as a whole: a request passes the chain of \<open>Api_Surface\<close> with the schemas of \<open>Api_Schemas\<close>,
  then its controller runs on the state of the process. The lemmas follow any sequence of requests.
\<close>

section \<open>Serving a request\<close>

record ('z, 'o, 'k, 'w, 'g, 'd) http_call =
  hx_env :: "http_content api_env"
  hx_services :: "('z, 'o, 'k, 'w, 'g, 'd) agent_services"
  hx_issues :: "string \<Rightarrow> json \<Rightarrow> (string list \<times> string) list"
  hx_request :: "http_content request"

definition schema_outcome ::
  "('z, 'o, 'k, 'e) api_services \<Rightarrow> (string \<Rightarrow> json \<Rightarrow> (string list \<times> string) list) \<Rightarrow> string \<Rightarrow> http_content request \<Rightarrow> zod_outcome" where
  "schema_outcome S issues name req =
     (let j = schema_part name (rq_content req)
      in case map_of (request_schemas_of (sx_exec S) (sx_isEmail S) (sx_isHttpUrl S)) name of
           Some acc \<Rightarrow> if acc j then ZodOk else ZodIssues (issues name j)
         | None \<Rightarrow> ZodOk)"

text \<open>The environment of the chain: the active registry of the process decides.\<close>

definition env_at ::
  "('z, 'o, 'k, 'w, 'g, 'd) http_call \<Rightarrow> ('z, 'o, 'k, 'w, 'g, 'd) agent_state \<Rightarrow> http_content api_env" where
  "env_at c s = (hx_env c)\<lparr>en_registry := w_active (as_world s),
     en_parse := schema_outcome (hx_services c) (hx_issues c)\<rparr>"

datatype http_answer = Answered route nat | Refused api_error_response | Limited

definition serve ::
  "api_config \<Rightarrow> ('z, 'o, 'k, 'w, 'g, 'd) http_call \<Rightarrow> (('z, 'o, 'k, 'w, 'g, 'd) agent_state, http_answer) op" where
  "serve cfg c = (\<lambda>s.
     let req = hx_request c; rid = genReqId (en_uuid (hx_env c)) (rq_xRequestId req)
     in case handle_request cfg (env_at c s) req of
          Rejected e \<Rightarrow> (Inr (Refused e), s)
        | TooManyRequests \<Rightarrow> (Inr Limited, s)
        | Handled r auth \<Rightarrow>
            (case map_of (handlers (hx_services c) auth (rq_xRequestId req) rid (rq_content req)) (rt_handler r) of
               None \<Rightarrow> (Inr (Refused (error_handler (OtherErr ''no handler'') (Some rid))), s)
             | Some h \<Rightarrow> (case h s of
                   (Inl e, s') \<Rightarrow> (Inr (Refused (error_handler e (Some rid))), s')
                 | (Inr code, s') \<Rightarrow> (Inr (Answered r code), s'))))"

section \<open>What every request keeps\<close>

text \<open>The state of a process in service: the constraints of both databases hold, the critical permissions are
  granted, and the registry that decides is the one loaded from the tables.\<close>

definition api_ok :: "('z, 'o, 'k, 'a) api_state \<Rightarrow> bool" where
  "api_ok s \<longleftrightarrow> business_ok (w_db (as_world s)) \<and> critical_covered (w_db (as_world s))
     \<and> policy_current (as_world s) \<and> agents_db_ok (as_runs s)"

definition api_kept :: "('z, 'o, 'k, 'a) api_state \<Rightarrow> ('z, 'o, 'k, 'a) api_state \<Rightarrow> bool" where
  "api_kept s t \<longleftrightarrow> history_kept (w_db (as_world s)) (w_db (as_world t)) \<and> agents_kept (as_runs s) (as_runs t)
     \<and> (\<exists>log. db_rbacAudit (w_db (as_world t)) = db_rbacAudit (w_db (as_world s)) @ log)"

definition api_inv :: "('z, 'o, 'k, 'a) api_state \<Rightarrow> ('z, 'o, 'k, 'a) api_state \<Rightarrow> bool" where
  "api_inv s0 s \<longleftrightarrow> api_ok s \<and> api_kept s0 s"

lemma api_kept_refl [simp]: "api_kept s s"
  by (simp add: api_kept_def)

lemma api_kept_trans: "api_kept s t \<Longrightarrow> api_kept t u \<Longrightarrow> api_kept s u"
  unfolding api_kept_def
  by (elim conjE exE, intro conjI, erule (1) history_kept_trans, erule (1) agents_kept_trans) simp

lemma api_invI: "api_inv s0 s \<Longrightarrow> api_ok t \<Longrightarrow> api_kept s t \<Longrightarrow> api_inv s0 t"
  unfolding api_inv_def using api_kept_trans by blast

lemma preserves_conj: "preserves I m \<Longrightarrow> preserves J m \<Longrightarrow> preserves (\<lambda>s. I s \<and> J s) m"
  by (simp add: preserves_def)

lemma preserves_unit_result: "preserves I (thenM m (returnM ())) \<longleftrightarrow> preserves I m"
proof -
  have "snd (thenM m (returnM ()) s) = snd (m s)" for s
    by (simp add: thenM_def bindM_def returnM_def split: prod.split sum.split)
  then show ?thesis by (simp add: preserves_def)
qed

text \<open>A step of the process that leaves the policy tables and the registries alone.\<close>

definition calm ::
  "'z nova_db_scheme \<Rightarrow> rbac_db \<Rightarrow> rbac_registry \<Rightarrow> rbac_registry \<Rightarrow> ('z, 'k) nova_world \<Rightarrow> bool" where
  "calm db0 c cur act w \<longleftrightarrow> business_inv db0 (w_db w) \<and> policy_is c (w_db w) \<and> w_current w = cur \<and> w_active w = act"

lemma calm_on_db:
  "preserves (business_inv db0) m \<Longrightarrow> preserves (policy_is c) m \<Longrightarrow> preserves (calm db0 c cur act) (on_db m)"
  by (simp add: preserves_def calm_def on_db_def split_beta)

lemma calm_on_kc: "preserves (calm db0 c cur act) (on_kc f)"
  by (simp add: preserves_def calm_def on_kc_def split_beta)

lemma calm_same:
  assumes "calm (w_db w) (policy_part (w_db w)) (w_current w) (w_active w) w'"
    and "critical_covered (w_db w)" "policy_current w"
  shows "business_ok (w_db w') \<and> critical_covered (w_db w') \<and> policy_current w' \<and> history_kept (w_db w) (w_db w')
    \<and> db_rbacAudit (w_db w') = db_rbacAudit (w_db w)"
proof -
  have part: "policy_part (w_db w') = policy_part (w_db w)" using assms(1) by (simp add: calm_def policy_is_def)
  from assms policy_part_covered [OF part] policy_part_audit [OF part] policy_part_loaded [OF part] show ?thesis
    by (simp add: calm_def business_inv_def policy_current_def)
qed

lemma calm_start: "business_ok (w_db w) \<Longrightarrow> calm (w_db w) (policy_part (w_db w)) (w_current w) (w_active w) w"
  by (simp add: calm_def business_inv_def policy_is_def)

lemma api_on_world:
  assumes "\<And>db0 c cur act. preserves (calm db0 c cur act) m"
  shows "preserves (api_inv s0) (on_world m)"
proof (rule preserves_def [THEN iffD2, rule_format])
  fix s assume s: "api_inv s0 s"
  let ?w = "as_world s" and ?w' = "snd (m (as_world s))"
  have ok: "api_ok s" using s by (simp add: api_inv_def)
  have "calm (w_db ?w) (policy_part (w_db ?w)) (w_current ?w) (w_active ?w) ?w'"
    by (rule assms [unfolded preserves_def, rule_format]) (use ok in \<open>simp add: calm_start api_ok_def\<close>)
  from calm_same [OF this] ok s show "api_inv s0 (snd (on_world m s))"
    by (intro api_invI [OF s]) (simp_all add: on_world_def split_beta api_ok_def api_kept_def)
qed

lemma api_on_business:
  assumes "\<And>db0. preserves (business_inv db0) m" and "\<And>c. preserves (policy_is c) m"
  shows "preserves (api_inv s0) (on_business m)"
  unfolding on_business_def by (rule api_on_world) (rule calm_on_db [OF assms])

lemma api_on_platform:
  assumes "\<And>p0. preserves (platform_inv p0) m" and "\<And>c. preserves (platform_policy_is c) m"
  shows "preserves (api_inv s0) (on_platform m)"
proof (rule preserves_def [THEN iffD2, rule_format])
  fix s assume s: "api_inv s0 s"
  let ?w = "as_world s" and ?p = "snd (m (platform_of s))"
  have ok: "api_ok s" using s by (simp add: api_inv_def)
  have "platform_inv (platform_of s) ?p"
    by (rule assms(1) [unfolded preserves_def, rule_format])
      (use ok in \<open>simp add: platform_inv_def platform_of_def api_ok_def business_inv_def agents_inv_def\<close>)
  moreover have "platform_policy_is (policy_part (w_db ?w)) ?p"
    by (rule assms(2) [unfolded preserves_def, rule_format]) (simp add: platform_policy_is_def platform_of_def policy_is_def)
  ultimately have "calm (w_db ?w) (policy_part (w_db ?w)) (w_current ?w) (w_active ?w) (?w\<lparr>w_db := pf_nova ?p\<rparr>)"
    and "agents_inv (as_runs s) (pf_agents ?p)"
    by (simp_all add: calm_def platform_inv_def platform_policy_is_def platform_of_def)
  with calm_same [OF this(1)] ok s show "api_inv s0 (snd (on_platform m s))"
    by (intro api_invI [OF s]) (simp_all add: on_platform_def split_beta api_ok_def api_kept_def agents_inv_def)
qed

lemma api_on_admin: "preserves (api_inv s0) (on_admin m)"
proof (rule preserves_def [THEN iffD2, rule_format])
  fix s assume s: "api_inv s0 s"
  then show "api_inv s0 (snd (on_admin m s))"
    by (intro api_invI [OF s]) (simp_all add: api_inv_def on_admin_def split_beta api_ok_def api_kept_def)
qed

lemma api_on_rbac: "preserves (api_inv s0) (on_world (rbac_exec client actor c))"
proof (rule preserves_def [THEN iffD2, rule_format])
  fix s assume s: "api_inv s0 s"
  let ?w = "as_world s" and ?w' = "snd (rbac_exec client actor c (as_world s))"
  have ok: "api_ok s" using s by (simp add: api_inv_def)
  then have "rbac_step_ok (db_rbacAudit (w_db ?w)) ?w"
    by (simp add: rbac_step_ok_def rbac_world_ok_def api_ok_def business_ok_def nova_db_ok_def policy_current_def)
  then have step: "rbac_step_ok (db_rbacAudit (w_db ?w)) ?w'"
    by (rule rbac_exec_step_ok [unfolded preserves_def, rule_format])
  have "rbac_frame (db_userRoles (w_db ?w)) (rbac_db.more (w_db ?w)) ?w"
    using ok by (simp add: rbac_frame_def world_business_is_def business_is_def api_ok_def)
  then have frame: "rbac_frame (db_userRoles (w_db ?w)) (rbac_db.more (w_db ?w)) ?w'"
    by (rule rbac_exec_frame [unfolded preserves_def, rule_format])
  have "business_ok (w_db ?w') \<and> history_kept (w_db ?w) (w_db ?w')"
    using ok step frame
    by (intro business_ok_transfer) (simp_all add: api_ok_def rbac_step_ok_def rbac_world_ok_def rbac_frame_def world_business_is_def)
  with step frame ok show "api_inv s0 (snd (on_world (rbac_exec client actor c) s))"
    by (intro api_invI [OF s])
      (simp_all add: on_world_def split_beta api_ok_def api_kept_def rbac_step_ok_def rbac_world_ok_def rbac_frame_def)
qed

section \<open>The controllers\<close>

lemma api_getM: "preserves (api_inv s0) (getM f)"
  by (rule preserves_getM)

lemmas controller_intros = preserves_bindM preserves_thenM preserves_returnM preserves_throwM preserves_getM
  preserves_someM preserves_guardM preserves_liftM preserves_case_prod

lemma preserves_reply: "preserves I m \<Longrightarrow> preserves I (reply code m)"
  unfolding reply_def by (intro controller_intros)

lemma preserves_answer: "preserves I m \<Longrightarrow> preserves I (answer m)"
  unfolding answer_def by (intro controller_intros)

lemma preserves_validated: "(\<And>x. preserves I (f x)) \<Longrightarrow> preserves I (validated p j f)"
  unfolding validated_def by (auto intro: controller_intros split: option.split)

lemma preserves_req_auth: "preserves I (req_auth auth)"
  unfolding req_auth_def by (intro controller_intros)

lemma preserves_actorOf: "preserves I (actorOf auth)"
  unfolding actorOf_def by (intro controller_intros preserves_req_auth)

lemma preserves_getActiveRegistry: "preserves I getActiveRegistry"
  unfolding getActiveRegistry_def by (intro controller_intros)

lemmas part_intros = preserves_reply preserves_answer preserves_validated preserves_req_auth preserves_actorOf
  preserves_getActiveRegistry preserves_bindM preserves_returnM preserves_throwM preserves_getM preserves_someM preserves_liftM

text \<open>The services, as the parts of a request.\<close>

lemma kept_services:
  "preserves (business_inv db0) (createSale gen x)" "preserves (policy_is c) (createSale gen x)"
  "preserves (business_inv db0) (createIssue gen y)" "preserves (policy_is c) (createIssue gen y)"
  "preserves (business_inv db0) (updateIssue now i z)" "preserves (policy_is c) (updateIssue now i z)"
  "preserves (business_inv db0) (createAction gen now u a)" "preserves (policy_is c) (createAction gen now u a)"
  "preserves (business_inv db0) (updateAction gen now i v a)" "preserves (policy_is c) (updateAction gen now i v a)"
  "preserves (business_inv db0) (addComment gen now i txt k a)" "preserves (policy_is c) (addComment gen now i txt k a)"
  "preserves (business_inv db0) (createSop gen now w a)" "preserves (policy_is c) (createSop gen now w a)"
  "preserves (business_inv db0) (updateSop i r)" "preserves (policy_is c) (updateSop i r)"
  "preserves (business_inv db0) (addVersion gen now i txt a)" "preserves (policy_is c) (addVersion gen now i txt a)"
  "preserves (business_inv db0) (createConversation gen now a)" "preserves (policy_is c) (createConversation gen now a)"
  "preserves (business_inv db0) (listConversations gen now a)" "preserves (policy_is c) (listConversations gen now a)"
  "preserves (business_inv db0) (getConversation gen now i a)" "preserves (policy_is c) (getConversation gen now i a)"
  "preserves (business_inv db0) (me gen now R auth)" "preserves (policy_is c) (me gen now R auth)"
  unfolding business_services listConversations_def getConversation_def me_def Let_def
  by (auto intro!: business_intros business_writes policy_writes policy_caller split: option.split)

lemma kept_reads:
  "preserves I (listCustomers il f1)" "preserves I (getCustomerById i)" "preserves I (listProducts il f2)"
  "preserves I (listSales f3)" "preserves I (getSaleById i)" "preserves I (listIssues f4)" "preserves I (getIssueById i)"
  "preserves I (listActions f5)" "preserves I (listSops il f6)" "preserves I (getSopById i)"
  unfolding read_services Let_def by (auto intro!: business_intros split: option.split)

lemma kept_runs:
  "preserves (platform_inv p0) (createRun env x)" "preserves (platform_policy_is c) (createRun env x)"
  "preserves (platform_inv p0) (cancelRun i a)" "preserves (platform_policy_is c) (cancelRun i a)"
  "preserves (platform_inv p0) (getPrompt genv i)" "preserves (platform_policy_is c) (getPrompt genv i)"
  "preserves (platform_inv p0) (getEntitlement genv i)" "preserves (platform_policy_is c) (getEntitlement genv i)"
  "preserves (platform_inv p0) (executeCapability genv i n j)" "preserves (platform_policy_is c) (executeCapability genv i n j)"
  "preserves (platform_inv p0) (finalizeRun genv i t ls)" "preserves (platform_policy_is c) (finalizeRun genv i t ls)"
  using preserves_platform_handler [of _ _ _ "SubmitRun x"] policy_platform [of _ _ _ "SubmitRun x"]
    preserves_platform_handler [of _ _ _ "CancelRun i a"] policy_platform [of _ _ _ "CancelRun i a"]
    preserves_platform_handler [of _ _ _ "FetchPrompt i"] policy_platform [of _ _ _ "FetchPrompt i"]
    preserves_platform_handler [of _ _ _ "FetchEntitlement i"] policy_platform [of _ _ _ "FetchEntitlement i"]
    preserves_platform_handler [of _ _ _ "CallTool i n j"] policy_platform [of _ _ _ "CallTool i n j"]
    preserves_platform_handler [of _ _ _ "FinalizeRun i t ls"] policy_platform [of _ _ _ "FinalizeRun i t ls"]
  by (simp_all only: platform_handler.simps preserves_unit_result)

lemma kept_run_reads:
  "preserves I (getRun i a)" "preserves I (listRunsForConversation i a)" "preserves I (getRunTrace i a d)"
  "preserves I (streamEvents i a l n d)"
proof -
  have owned: "preserves I (requireOwnedRun i a)" for I :: "('a, 'b) platform \<Rightarrow> bool"
    unfolding requireOwnedRun_def by (auto intro!: controller_intros)
  show "preserves I (getRun i a)" "preserves I (listRunsForConversation i a)" "preserves I (getRunTrace i a d)"
    "preserves I (streamEvents i a l n d)"
    unfolding getRun_def listRunsForConversation_def getRunTrace_def streamEvents_def getEventBatch_def Let_def
    by (auto intro!: controller_intros owned)
qed

lemma kept_user_patch:
  "preserves (business_inv db0) (user_patch i f)"
  unfolding user_patch_def Let_def
  by (auto intro!: business_intros preserves_business_statement
      simp: history_kept_def business_ok_def versions_contiguous_def details_of_def)

lemma kept_users:
  "preserves (calm db0 c cur act) (admin_listUsers il f)" "preserves (calm db0 c cur act) (admin_getUser i)"
  "preserves (calm db0 c cur act) (admin_createUser gen now kc x)" "preserves (calm db0 c cur act) (admin_updateUser kc i y)"
  "preserves (calm db0 c cur act) (admin_setUserRoles kc i rs)" "preserves (calm db0 c cur act) (admin_syncUserToKeycloak kc i)"
  unfolding admin_listUsers_def admin_getUser_def admin_createUser_def admin_updateUser_def admin_setUserRoles_def
    admin_syncUserToKeycloak_def syncAndReload_def reloadWithStatus_def requireUser_def dto_of_def do_sync_def Let_def
  by (auto intro!: controller_intros calm_on_db calm_on_kc preserves_user_writes kept_user_patch policy_writes
      split: option.split)

lemmas api_on_users = kept_users [THEN api_on_world]

lemmas controllers =
  MeController_me_def CustomerController_list_def CustomerController_getById_def ProductController_list_def
  SaleController_list_def SaleController_getById_def SaleController_create_def IssueController_list_def
  IssueController_getById_def IssueController_create_def IssueController_update_def
  ActionController_create_def ActionController_list_def ActionController_update_def
  ActionController_addComment_def SopController_list_def SopController_getById_def SopController_create_def
  SopController_update_def SopController_addVersion_def ChatController_listConversations_def
  ChatController_getConversation_def ChatController_createConversation_def AdminUserController_list_def
  AdminUserController_getById_def AdminUserController_create_def AdminUserController_update_def
  AdminUserController_setRoles_def AdminUserController_syncKeycloak_def RbacAdminController_def
  RbacAdminController_createRole_def RbacAdminController_updateRole_def RbacAdminController_deleteRole_def
  RbacAdminController_createPermission_def RbacAdminController_updatePermission_def
  RbacAdminController_deletePermission_def RbacAdminController_setRolePermissions_def
  RbacAdminController_createCapability_def RbacAdminController_updateCapability_def
  RbacAdminController_deleteCapability_def RbacAdminController_updateRoutePolicy_def
  RbacAdminController_updateViewPermission_def RbacController_listRoles_def RbacController_listPermissions_def
  RbacController_getMatrix_def RbacController_listCapabilities_def RbacController_listRoutePolicies_def
  RbacController_listViewPermissions_def RbacRegistryController_get_def AdminAgentController_list_def
  AdminAgentController_get_def AdminAgentController_onboard_def AdminAgentController_setEnabled_def
  AdminAgentController_remove_def AgentRunController_create_def AgentRunController_getById_def
  AgentRunController_list_def AgentRunController_getTrace_def AgentRunController_cancel_def
  AgentRunController_streamEvents_def ToolGatewayController_getPrompt_def
  ToolGatewayController_getEntitlement_def ToolGatewayController_execute_def
  ToolGatewayController_finalize_def

lemma handlers_keep:
  fixes S :: "('z, 'o, 'k, 'w, 'g, 'd) agent_services"
  shows "list_all (\<lambda>p. preserves (api_inv s0) (snd p)) (handlers S auth xRequestId requestId content)"
  unfolding handlers_def list.pred_inject snd_conv controllers simp_thms
  by (intro conjI list.pred_inject(1) part_intros api_on_business api_on_platform api_on_rbac api_on_admin api_on_users
      kept_services kept_reads kept_runs kept_run_reads)

lemma serve_keeps: "preserves (api_inv s0) (serve cfg c)"
proof (rule preserves_def [THEN iffD2, rule_format])
  fix s :: "('a, 'b, 'c, 'd, 'e, 'f) agent_state"
  assume s: "api_inv s0 s"
  show "api_inv s0 (snd (serve cfg c s))"
  proof (cases "handle_request cfg (env_at c s) (hx_request c)")
    case (Handled r auth)
    let ?table = "handlers (hx_services c) auth (rq_xRequestId (hx_request c))
      (genReqId (en_uuid (hx_env c)) (rq_xRequestId (hx_request c))) (rq_content (hx_request c))"
    show ?thesis
    proof (cases "map_of ?table (rt_handler r)")
      case None
      with s Handled show ?thesis by (simp add: serve_def Let_def)
    next
      case (Some h)
      then have "preserves (api_inv s0) h"
        using handlers_keep [of s0 "hx_services c" auth "rq_xRequestId (hx_request c)"
            "genReqId (en_uuid (hx_env c)) (rq_xRequestId (hx_request c))" "rq_content (hx_request c)"]
        by (auto simp: list_all_iff dest!: map_of_SomeD)
      then have "api_inv s0 (snd (h s))" using s by (simp add: preserves_def)
      with Handled Some show ?thesis
        by (simp add: serve_def Let_def split: prod.split sum.split) auto
    qed
  qed (use s in \<open>simp_all add: serve_def Let_def\<close>)
qed

interpretation api: tracked_service "serve cfg" api_ok api_kept
proof unfold_locales
  fix s :: "('a, 'b, 'c, 'd, 'e, 'f) agent_state" and c
  assume "api_ok s"
  then have "api_inv s (snd (serve cfg c s))"
    by (intro serve_keeps [unfolded preserves_def, rule_format]) (simp add: api_inv_def)
  then show "api_ok (snd (serve cfg c s))" "api_kept s (snd (serve cfg c s))" unfolding api_inv_def by blast+
qed (auto intro: api_kept_trans)

section \<open>Every route has its handler and its schemas\<close>

text \<open>The table of handlers has the order in which the routes are registered.\<close>

lemmas routers = createHealthRouter_def createMeRouter_def createCustomerRouter_def createProductRouter_def
  createSaleRouter_def createIssueRouter_def createActionRouter_def createSopRouter_def createAdminRouter_def
  createRbacRegistryRouter_def createConversationsRouter_def createA2aChatRouter_def createAgentRunRouter_def
  createAdminAgentRouter_def createToolGatewayRouter_def createInternalRbacRegistryRouter_def

lemma mounted: "map rt_handler (mount pre rs) = map rt_handler rs" "map rt_schemas (mount pre rs) = map rt_schemas rs"
  by (simp_all add: mount_def)

lemma routes_handled:
  "map rt_handler (core_routes @ agent_routes cfg)
     = map fst (handlers S auth xRequestId requestId content) @ [''RbacRegistryController.get'']"
  by (simp only: core_routes_def agent_routes_def map_append mounted routers list.map route.simps handlers_def
      fst_conv append_Cons append_Nil append_assoc)

definition schemas_of_route :: "request_schemas \<Rightarrow> string list" where
  "schemas_of_route sch = List.map_filter (\<lambda>f. f sch) [rs_params, rs_query, rs_body]"

lemma schemas_of_route: "schemas_of_route (schemas p q b) = (case p of None \<Rightarrow> [] | Some x \<Rightarrow> [x])
    @ (case q of None \<Rightarrow> [] | Some x \<Rightarrow> [x]) @ (case b of None \<Rightarrow> [] | Some x \<Rightarrow> [x])"
  by (simp add: schemas_of_route_def List.map_filter_def split: option.split)

lemma routes_validated:
  "set (concat (map schemas_of_route (map rt_schemas (core_routes @ agent_routes cfg))))
     \<subseteq> set (map fst (request_schemas_of env isEmail isHttpUrl))"
  unfolding core_routes_def agent_routes_def map_append mounted routers list.map route.simps schemas_of_route
     request_schemas_of_def fst_conv concat_append concat.simps option.case append.simps append_Nil2 set_append
     list.set Un_subset_iff insert_subset
  by (intro conjI empty_subsetI insertI1 insertI2)

section \<open>Which requests have an effect\<close>

text \<open>The handlers that may write: all that are not reads, and the reads that first provision the caller or
  record that a snapshot failed its check.\<close>

definition PROVISIONING_READS :: "string list" where
  "PROVISIONING_READS = [''MeController.me'', ''ChatController.listConversations'', ''ChatController.getConversation'',
     ''ToolGatewayController.getPrompt'', ''ToolGatewayController.getEntitlement'']"

definition WRITING_HANDLERS :: "string list" where
  "WRITING_HANDLERS = PROVISIONING_READS @
     [''SaleController.create'', ''IssueController.create'', ''IssueController.update'', ''ActionController.create'',
      ''ActionController.update'', ''ActionController.addComment'', ''SopController.create'', ''SopController.update'',
      ''SopController.addVersion'', ''ChatController.createConversation'', ''AdminUserController.create'',
      ''AdminUserController.update'', ''AdminUserController.setRoles'', ''AdminUserController.syncKeycloak'',
      ''RbacAdminController.createRole'', ''RbacAdminController.updateRole'', ''RbacAdminController.deleteRole'',
      ''RbacAdminController.createPermission'', ''RbacAdminController.updatePermission'',
      ''RbacAdminController.deletePermission'', ''RbacAdminController.setRolePermissions'',
      ''RbacAdminController.createCapability'', ''RbacAdminController.updateCapability'',
      ''RbacAdminController.deleteCapability'', ''RbacAdminController.updateRoutePolicy'',
      ''RbacAdminController.updateViewPermission'', ''AdminAgentController.onboard'', ''AdminAgentController.setEnabled'',
      ''AdminAgentController.remove'', ''AgentRunController.create'', ''AgentRunController.cancel'',
      ''ToolGatewayController.execute'', ''ToolGatewayController.finalize'']"

lemma no_writeI: "(\<And>I. preserves I m) \<Longrightarrow> no_write m"
  by (simp add: no_write_iff)

lemma reads_lifted:
  assumes "no_write m"
  shows "preserves I (on_business m)"
  using assms by (simp add: no_write_def preserves_def on_business_def on_world_def on_db_def split_beta)

lemma reads_lifted_world: "no_write m \<Longrightarrow> preserves I (on_world m)"
  by (simp add: no_write_def preserves_def on_world_def split_beta)

lemma reads_lifted_platform: "no_write m \<Longrightarrow> preserves I (on_platform m)"
  by (simp add: no_write_def preserves_def on_platform_def platform_of_def split_beta)

lemma reads_lifted_admin: "no_write m \<Longrightarrow> preserves I (on_admin m)"
  by (simp add: no_write_def preserves_def on_admin_def split_beta)

lemma kept_admin_reads:
  "preserves I (admin_listUsers il f)" "preserves I (admin_getUser i)" "preserves J list_agents" "preserves J (get_agent n)"
  unfolding admin_listUsers_def admin_getUser_def requireUser_def dto_of_def list_agents_def get_agent_def
  by (auto intro!: controller_intros split: option.split)

lemmas read_intros = reads_lifted [OF no_writeI] reads_lifted_world [OF no_writeI] reads_lifted_platform [OF no_writeI]
  reads_lifted_admin [OF no_writeI]

lemma handlers_read:
  fixes S :: "('z, 'o, 'k, 'w, 'g, 'd) agent_services"
  shows "list_all (\<lambda>p. fst p \<in> set WRITING_HANDLERS \<or> preserves I (snd p)) (handlers S auth xRequestId requestId content)"
  unfolding handlers_def list.pred_inject snd_conv fst_conv WRITING_HANDLERS_def PROVISIONING_READS_def
  by (simp, unfold controllers)
    (intro conjI part_intros read_intros kept_reads kept_run_reads kept_admin_reads)

definition effect_route :: "route \<Rightarrow> bool" where
  "effect_route r \<longleftrightarrow> (rt_handler r \<in> set WRITING_HANDLERS \<longrightarrow>
     (rt_method r = GET \<longrightarrow> rt_handler r \<in> set PROVISIONING_READS) \<and> (case rt_guard r of GuardPolicy p \<Rightarrow> False | _ \<Rightarrow> True))"

lemma mount_effect: "list_all effect_route (mount pre rs) \<longleftrightarrow> list_all effect_route rs"
  by (simp add: mount_def list_all_iff effect_route_def)

lemma effect_routes: "list_all effect_route (core_routes @ agent_routes cfg)"
  unfolding core_routes_def agent_routes_def list_all_append mount_effect routers
  by (intro conjI) (simp_all add: effect_route_def WRITING_HANDLERS_def PROVISIONING_READS_def)

text \<open>What the tables ask of a route: its row if it has one, else its declaration.\<close>

definition table_policy :: "'z rbac_db_scheme \<Rightarrow> route_access_policy \<Rightarrow> string \<times> string option" where
  "table_policy d policy = (case find (\<lambda>r. rr_routeId r = rap_routeId policy) (db_routePolicies d) of
       Some row \<Rightarrow> (rr_kind row, rr_permissionName row)
     | None \<Rightarrow> (case policy of
           PublicRoute _ \<Rightarrow> (''public'', None)
         | AuthenticatedRoute _ _ \<Rightarrow> (''authenticated'', None)
         | PermissionRoute _ p _ \<Rightarrow> (''permission'', Some p)
         | UnsupportedRoute _ \<Rightarrow> (''permission'', None)))"

definition table_allows :: "'z rbac_db_scheme \<Rightarrow> route_access_policy \<Rightarrow> string list \<Rightarrow> bool" where
  "table_allows d policy roles \<longleftrightarrow> fst (table_policy d policy) \<in> {''public'', ''authenticated''}
     \<or> (case snd (table_policy d policy) of None \<Rightarrow> False
        | Some p \<Rightarrow> p \<noteq> [] \<and> list_ex (\<lambda>role. (role, p) \<in> set (db_rolePermissions d)) roles)"

lemma loaded_no_route:
  assumes "find (\<lambda>r. rr_routeId r = i) (db_routePolicies d) = None"
  shows "routePolicy (mkRegistry (loadData d)) i = None"
proof -
  let ?view = "\<lambda>p. \<lparr>rpv_routeId = rr_routeId p, rpv_kind = rr_kind p, rpv_permissionName = rr_permissionName p, rpv_audit = rr_audit p\<rparr>"
  let ?pairs = "map (\<lambda>p. (rpv_routeId p, p)) (map ?view (db_routePolicies d))"
  have "i \<notin> fst ` set (js_map ?pairs)" using assms by (auto simp: set_js_map_keys find_None_iff_all)
  then have "map_of (js_map ?pairs) i = None" by (simp add: map_of_eq_None_iff)
  then show ?thesis by (simp add: routePolicy_def mkRegistry_def loadData_def loadData_from_def Let_def)
qed

lemma loaded_policy:
  assumes "rbac_db_ok d"
  shows "rpv_kind (resolveEffectivePolicy (mkRegistry (loadData d)) policy) = fst (table_policy d policy)"
    "rpv_permissionName (resolveEffectivePolicy (mkRegistry (loadData d)) policy) = snd (table_policy d policy)"
  by (cases "find (\<lambda>r. rr_routeId r = rap_routeId policy) (db_routePolicies d)";
      simp add: resolveEffectivePolicy_def table_policy_def loaded_route [OF assms] loaded_no_route
        split: route_access_policy.split)+

lemma serve_handled:
  assumes "serve cfg c s = (r, t)" "t \<noteq> s"
  obtains rt auth h where "handle_request cfg (env_at c s) (hx_request c) = Handled rt auth"
    "rt_handler rt \<in> set WRITING_HANDLERS"
proof (cases "handle_request cfg (env_at c s) (hx_request c)")
  case (Handled rt auth)
  let ?table = "handlers (hx_services c) auth (rq_xRequestId (hx_request c))
    (genReqId (en_uuid (hx_env c)) (rq_xRequestId (hx_request c))) (rq_content (hx_request c))"
  obtain h where h: "map_of ?table (rt_handler rt) = Some h" and t: "snd (h s) = t"
    using assms Handled by (auto simp: serve_def Let_def split: option.splits prod.splits sum.splits)
  have "rt_handler rt \<in> set WRITING_HANDLERS \<or> preserves (\<lambda>x. x = s) h"
    using handlers_read [of "\<lambda>x. x = s" "hx_services c" auth "rq_xRequestId (hx_request c)"
        "genReqId (en_uuid (hx_env c)) (rq_xRequestId (hx_request c))" "rq_content (hx_request c)"] map_of_SomeD [OF h]
    by (auto simp: list_all_iff)
  with t assms(2) have "rt_handler rt \<in> set WRITING_HANDLERS" by (auto simp: preserves_def)
  with Handled that show ?thesis by blast
qed (use assms in \<open>auto simp: serve_def Let_def\<close>)

section \<open>Properties\<close>


lemma effect_of:
  assumes "rt \<in> set (app_routes cfg)" "rt_handler rt \<in> set WRITING_HANDLERS"
  shows "(rt_method rt = GET \<longrightarrow> rt_handler rt \<in> set PROVISIONING_READS) \<and> (\<forall>p. rt_guard rt \<noteq> GuardPolicy p)"
proof -
  have "rt \<in> set (core_routes @ agent_routes cfg)" using assms(1) by (auto simp: app_routes_def split: if_splits)
  with effect_routes assms(2) show ?thesis
    by (fastforce simp: list_all_iff effect_route_def split: route_guard.splits)
qed

lemma granted_by_tables:
  assumes "api_ok s" and "guarded (env_at c s) rt header auth" and "rt_guard rt = GuardUser policy"
  obtains rest payload where "header = Some (''Bearer '' @ rest)" "en_userJwt (hx_env c) (js_trim rest) = Some payload"
    "table_allows (w_db (as_world s)) policy (extractRealmRoles payload)"
proof -
  let ?d = "w_db (as_world s)" and ?R = "mkRegistry (loadData (w_db (as_world s)))"
  have db: "rbac_db_ok ?d" using assms(1) by (simp add: api_ok_def business_ok_def nova_db_ok_def)
  have R: "en_registry (env_at c s) = ?R" and jwt: "en_userJwt (env_at c s) = en_userJwt (hx_env c)"
    using assms(1) by (simp_all add: api_ok_def policy_current_def env_at_def)
  from assms(2,3) obtain rest payload where h: "header = Some (''Bearer '' @ rest)"
      "en_userJwt (hx_env c) (js_trim rest) = Some payload"
      "rpv_kind (resolveEffectivePolicy ?R policy) \<in> {''public'', ''authenticated''}
       \<or> (\<exists>p role. rpv_permissionName (resolveEffectivePolicy ?R policy) = Some p \<and> p \<noteq> []
            \<and> role \<in> set (extractRealmRoles payload) \<and> reg_grants ?R role p)"
    unfolding guarded_def R jwt by auto
  have "reg_grants ?R role p \<longleftrightarrow> (role, p) \<in> set (db_rolePermissions ?d)" for role p
    using loaded_grants [OF db, of ?d role p] by (simp add: loadData_def)
  with h(3) have "table_allows ?d policy (extractRealmRoles payload)"
    by (auto simp: table_allows_def loaded_policy [OF db] list_ex_iff)
  with h that show ?thesis by blast
qed


section \<open>An example process\<close>

definition example_http_matches :: "http_method \<Rightarrow> path_segment list \<Rightarrow> http_content request \<Rightarrow> bool" where
  "example_http_matches m pattern req \<longleftrightarrow>
     m = effective_method (rq_method req) \<and> list_all2 segment_matches pattern (path_segments (rq_path req))"

definition example_me_payload :: jwt_payload where
  "example_me_payload = \<lparr>pl_sub = Some ''s1'', pl_iss = None, pl_aud = Some (AudOne ''nova-api''),
     pl_claims = [(''email'', JStr ''a@x'')]\<rparr>"

definition example_http_env :: "http_content api_env" where
  "example_http_env = \<lparr>en_registry = fromStaticCatalog, en_userJwt = (\<lambda>t. if t = ''tok'' then Some example_me_payload else None),
     en_serviceJwt = (\<lambda>_ _. None), en_matches = example_http_matches, en_parseBody = (\<lambda>_. None), en_limited = (\<lambda>_. False),
     en_parse = (\<lambda>_ _. ZodOk), en_uuid = ''uuid''\<rparr>"

definition example_content :: http_content where
  "example_content = \<lparr>hc_params = JObj [], hc_query = JObj [], hc_body = JNull, hc_idempotencyKey = None,
     hc_lastEventId = None, hc_ifNoneMatch = None\<rparr>"

definition example_me_request :: "http_content request" where
  "example_me_request = \<lparr>rq_method = GET, rq_path = ''/api/v1/auth/me'', rq_origin = None,
     rq_authorization = Some ''Bearer tok'', rq_xRequestId = None, rq_content = example_content\<rparr>"

definition example_services :: "(unit, unit, unit, unit, unit, audit_entry list) agent_services" where
  "example_services = \<lparr>sx_exec = example_exec_env, sx_isEmail = (\<lambda>_. True), sx_isHttpUrl = (\<lambda>_. True), sx_kc = None,
     sx_run = example_run_env, sx_agents = example_agent_env, sx_databaseUp = True, sx_cachePing = None\<rparr>"

definition example_call :: "(unit, unit, unit, unit, unit, audit_entry list) http_call" where
  "example_call = \<lparr>hx_env = example_http_env, hx_services = example_services, hx_issues = (\<lambda>_ _. []),
     hx_request = example_me_request\<rparr>"

definition example_process :: "(unit, unit, unit, unit, unit, audit_entry list) agent_state" where
  "example_process = \<lparr>as_world = \<lparr>w_db = example_nova, w_current = mkRegistry (loadData example_nova),
       w_active = mkRegistry (loadData example_nova), w_kc = ()\<rparr>,
     as_runs = example_agents, as_orchestrator = (), as_admin = example_agent_admin\<rparr>"

lemma example_process_ok: "api_ok example_process"
proof -
  have "critical_covered example_nova" by code_simp
  then show ?thesis
    by (simp add: api_ok_def example_process_def example_business_ok example_agents_ok policy_current_def)
qed

definition example_me_route :: route where
  "example_me_route = route GET [Lit ''api'', Lit ''v1'', Lit ''auth'', Lit ''me''] (GuardUser mePolicy)
     (schemas None None None) ''MeController.me''"

lemma example_me_found: "find_route (env_at example_call example_process) (app_routes example_config) example_me_request = Some example_me_route"
proof -
  have "find (\<lambda>r. example_http_matches (rt_method r) (rt_path r) example_me_request)
      (mount [Lit ''health''] createHealthRouter @ mount [Lit ''api'', Lit ''v1'', Lit ''auth''] createMeRouter) = Some example_me_route"
    by code_simp
  moreover have "en_matches (env_at example_call example_process) = example_http_matches"
    by (simp add: env_at_def example_call_def example_http_env_def)
  ultimately show ?thesis
    by (simp add: find_route_def app_routes_def core_routes_def find_append split: option.splits)
qed

lemma example_me_handled:
  "\<exists>auth. handle_request example_config (env_at example_call example_process) example_me_request = Handled example_me_route (Some auth)
     \<and> ac_subject auth = ''s1'' \<and> ac_email auth = Some ''a@x'' \<and> ac_applicationUserId auth = None"
proof -
  have "case run_guard (env_at example_call example_process) (GuardUser mePolicy) (Some ''Bearer tok'') of
      Inr (Some auth) \<Rightarrow> ac_subject auth = ''s1'' \<and> ac_email auth = Some ''a@x'' \<and> ac_applicationUserId auth = None | _ \<Rightarrow> False"
    by code_simp
  then show ?thesis
    using example_me_found
    by (auto simp: handle_request_def cors_origin_def example_me_request_def some_id_def env_at_def example_call_def
        example_http_env_def example_me_route_def validateRequest_def parse_part_def split: sum.splits option.splits)
qed

lemma example_me_links:
  assumes "ac_subject auth = ''s1''" "ac_email auth = Some ''a@x''" "ac_applicationUserId auth = None"
  shows "map us_keycloakId (tb_users (snd (resolveCurrentUser gen now auth example_nova))) = [Some ''s1'']"
proof -
  have free: "user_findByKeycloakId ''s1'' example_nova = None"
    and row: "map_option (\<lambda>v. (us_id (fst v), us_keycloakId (fst v))) (user_findByEmail ''a@x'' example_nova) = Some (''u1'', None)"
    by code_simp+
  have run: "case setKeycloakId ''u1'' (Some ''s1'') example_nova of (Inl e, d) \<Rightarrow> False
      | (Inr x, d) \<Rightarrow> map us_keycloakId (tb_users d) = [Some ''s1'']" by code_simp
  from row obtain u roles where "user_findByEmail ''a@x'' example_nova = Some (u, roles)" "us_id u = ''u1''" "us_keycloakId u = None"
    by auto
  with free run show ?thesis
    by (auto simp: resolveCurrentUser_def assms some_id_def op_simps split: prod.splits sum.splits)
qed

lemma me_handler: "map_of (handlers S a x rid content) ''MeController.me'' = Some (answer (MeController_me S a))"
  unfolding handlers_def by simp

lemma example_me_effect: "snd (serve example_config example_call example_process) \<noteq> example_process"
proof -
  obtain auth where h: "handle_request example_config (env_at example_call example_process) example_me_request
      = Handled example_me_route (Some auth)"
    and auth: "ac_subject auth = ''s1''" "ac_email auth = Some ''a@x''" "ac_applicationUserId auth = None"
    using example_me_handled by blast
  have "snd (serve example_config example_call example_process)
      = snd (answer (MeController_me example_services (Some auth)) example_process)"
    using h by (simp add: me_handler serve_def Let_def example_call_def example_me_route_def split: prod.split sum.split)
  moreover have "map us_keycloakId (tb_users (w_db (as_world (snd (answer (MeController_me example_services (Some auth)) example_process)))))
      = [Some ''s1'']"
    using example_me_links [OF auth]
    by (simp add: answer_def reply_def MeController_me_def getActiveRegistry_def me_def op_simps on_business_def on_world_def
        on_db_def example_process_def split: prod.split sum.split) (metis snd_conv)
  moreover have "map us_keycloakId (tb_users (w_db (as_world example_process))) = [None]"
    by (simp add: example_process_def example_nova_def rbac_db.defs example_db_def)
  ultimately show ?thesis by (metis list.inject option.distinct(1))
qed



end
