(* ===== verification/Api_Validation.thy ===== *)
theory Api_Validation
  imports Api_Controllers
begin

text \<open>
  What validation buys the services: bounded pages, and sales whose discount means the same
  to the schema, which compares it as a number, and to the service, which parses it into a scaled integer.
\<close>

section \<open>Bounds of coerced numbers\<close>

lemma z_count_bounds:
  assumes "z_count lo (Some hi) j = Some n" "0 \<le> lo"
  shows "nat lo \<le> n \<and> n \<le> nat hi"
  using assms by (auto simp: z_count_def bind_eq_Some_conv split: if_splits)

lemma z_count_least: "z_count lo None j = Some n \<Longrightarrow> 0 \<le> lo \<Longrightarrow> nat lo \<le> n"
  by (auto simp: z_count_def bind_eq_Some_conv split: if_splits)

lemma page_field: "defaulted ''page'' 1 (z_count 1 None) j = Some n \<Longrightarrow> 1 \<le> n"
  by (auto simp: defaulted_def dest: z_count_least split: option.splits)

lemma page_size_field:
  "defaulted ''pageSize'' d (z_count 1 (Some (int hi))) j = Some n \<Longrightarrow> 1 \<le> d \<Longrightarrow> d \<le> hi \<Longrightarrow> 1 \<le> n \<and> n \<le> hi"
  by (auto simp: defaulted_def dest: z_count_bounds split: option.splits)

lemmas page_size_fields = page_size_field [where hi = 100, simplified] page_size_field [where hi = 200, simplified]

section \<open>Lists\<close>

text \<open>A read that answers 200 with a value of a kind, or fails; the state stays.\<close>

definition reads_with :: "('s, nat \<times> 'r) op \<Rightarrow> ('r \<Rightarrow> bool) \<Rightarrow> bool" where
  "reads_with m P \<longleftrightarrow> (\<forall>s. snd (m s) = s \<and> (case fst (m s) of Inl e \<Rightarrow> True | Inr (code, x) \<Rightarrow> code = 200 \<and> P x))"

definition page_within :: "nat \<Rightarrow> 'a paginated_result \<Rightarrow> bool" where
  "page_within hi r \<longleftrightarrow> 1 \<le> pr_page r \<and> 1 \<le> pr_pageSize r \<and> pr_pageSize r \<le> hi \<and> length (pr_items r) \<le> pr_pageSize r
     \<and> pr_total r \<le> pr_totalPages r * pr_pageSize r"

lemma page_slice_length: "length (page_slice page pageSize xs) \<le> pageSize"
  by (simp add: page_slice_def)

lemma built_within:
  "1 \<le> page \<Longrightarrow> 1 \<le> pageSize \<Longrightarrow> pageSize \<le> hi \<Longrightarrow> length items \<le> pageSize
    \<Longrightarrow> page_within hi (buildPaginatedResult items n page pageSize)"
  using buildPaginatedResult_pages(2) [of pageSize n items page]
  by (simp add: page_within_def buildPaginatedResult_def)

lemma reads_with_validated:
  "(\<And>q. p j = Some q \<Longrightarrow> reads_with (f q) P) \<Longrightarrow> reads_with (validated p j f) P"
  by (auto simp: validated_def reads_with_def throwM_def split: option.split)

lemma reads_with_get:
  "(\<And>db. P (g db)) \<Longrightarrow> reads_with (reply 200 (on_business (getM g))) P"
  by (simp add: reads_with_def reply_def on_business_def on_world_def on_db_def op_simps)

lemmas list_services = listCustomers_def customer_findPaginated_def listProducts_def product_findPaginated_def
  listSales_def sale_findPaginated_def listIssues_def listActions_def listSops_def find_paginated_def

lemma list_query_pages:
  "listCustomersQuery j = Some qc \<Longrightarrow> 1 \<le> cf_page qc \<and> 1 \<le> cf_pageSize qc \<and> cf_pageSize qc \<le> 100"
  "listProductsQuery j = Some qp \<Longrightarrow> 1 \<le> pf_page qp \<and> 1 \<le> pf_pageSize qp \<and> pf_pageSize qp \<le> 100"
  "listSalesQuery env j = Some qs \<Longrightarrow> 1 \<le> sf_page qs \<and> 1 \<le> sf_pageSize qs \<and> sf_pageSize qs \<le> 100"
  "listIssuesQuery env j = Some qi \<Longrightarrow> 1 \<le> ilf_page qi \<and> 1 \<le> ilf_pageSize qi \<and> ilf_pageSize qi \<le> 100"
  "listActionsQuery env j = Some qa \<Longrightarrow> 1 \<le> alf_page qa \<and> 1 \<le> alf_pageSize qa \<and> alf_pageSize qa \<le> 200"
  "listSopsQuery j = Some qo \<Longrightarrow> 1 \<le> slf_page qo \<and> 1 \<le> slf_pageSize qo \<and> slf_pageSize qo \<le> 200"
  "listUsersQuery j = Some qu \<Longrightarrow> 1 \<le> uf_page qu \<and> 1 \<le> uf_pageSize qu \<and> uf_pageSize qu \<le> 100"
  by (auto simp: listCustomersQuery_def listProductsQuery_def listSalesQuery_def listIssuesQuery_def listActionsQuery_def
      listSopsQuery_def listUsersQuery_def bind_eq_Some_conv
      dest: page_field [simplified] page_size_fields)

lemma lists_within:
  "1 \<le> cf_page qc \<Longrightarrow> 1 \<le> cf_pageSize qc \<Longrightarrow> cf_pageSize qc \<le> hi \<Longrightarrow> reads_with (CustomerController_list S qc) (page_within hi)"
  "1 \<le> pf_page qp \<Longrightarrow> 1 \<le> pf_pageSize qp \<Longrightarrow> pf_pageSize qp \<le> hi \<Longrightarrow> reads_with (ProductController_list S qp) (page_within hi)"
  "1 \<le> sf_page qs \<Longrightarrow> 1 \<le> sf_pageSize qs \<Longrightarrow> sf_pageSize qs \<le> hi \<Longrightarrow> reads_with (SaleController_list qs) (page_within hi)"
  "1 \<le> ilf_page qi \<Longrightarrow> 1 \<le> ilf_pageSize qi \<Longrightarrow> ilf_pageSize qi \<le> hi \<Longrightarrow> reads_with (IssueController_list qi) (page_within hi)"
  "1 \<le> alf_page qa \<Longrightarrow> 1 \<le> alf_pageSize qa \<Longrightarrow> alf_pageSize qa \<le> hi \<Longrightarrow> reads_with (ActionController_list qa) (page_within hi)"
  "1 \<le> slf_page qo \<Longrightarrow> 1 \<le> slf_pageSize qo \<Longrightarrow> slf_pageSize qo \<le> hi \<Longrightarrow> reads_with (SopController_list S qo) (page_within hi)"
  unfolding CustomerController_list_def ProductController_list_def SaleController_list_def IssueController_list_def
    ActionController_list_def SopController_list_def listCustomers_def listProducts_def listSales_def listIssues_def
    listActions_def listSops_def
  by (rule reads_with_get, simp add: Let_def split_beta built_within page_slice_length customer_findPaginated_def
      product_findPaginated_def sale_findPaginated_def issue_findPaginated_def action_findPaginated_def
      sop_findPaginated_def find_paginated_def)+

lemma users_within:
  "1 \<le> uf_page q \<Longrightarrow> 1 \<le> uf_pageSize q \<Longrightarrow> uf_pageSize q \<le> hi \<Longrightarrow> reads_with (AdminUserController_list S q) (page_within hi)"
  by (simp add: reads_with_def AdminUserController_list_def admin_listUsers_def reply_def on_world_def op_simps split_beta
      built_within page_slice_length user_findPaginated_def find_paginated_def Let_def)


section \<open>Sales\<close>

lemma digits_val_append: "digits_val (a @ b) = digits_val a * 10 ^ length b + digits_val b"
proof (induction b rule: rev_induct)
  case (snoc c b)
  then show ?case using digits_val_snoc [of "a @ b" c] by simp
qed simp

lemma decimal_parts_join: "decimal_parts s = Some (w, f) \<Longrightarrow> s = (if js_split (CHR ''.'') s = [w] then w else w @ ''.'' @ f)"
proof -
  assume p: "decimal_parts s = Some (w, f)"
  have j: "js_join ''.'' (js_split (CHR ''.'') s) = s" by (rule js_join_split)
  from p have "js_split (CHR ''.'') s = [w] \<or> js_split (CHR ''.'') s = [w, f]"
    by (auto simp: decimal_parts_def split: list.splits if_splits)
  then show ?thesis using j by auto
qed

lemma decimal_parts_digits:
  assumes "decimal_parts s = Some (w, f)"
  shows "digits_only w" "list_all is_digit f" "length f \<le> 2"
    "hd (js_split (CHR ''.'') s) = w" "(case tl (js_split (CHR ''.'') s) of [] \<Rightarrow> [] | x # _ \<Rightarrow> x) = f"
  using assms by (auto simp: decimal_parts_def digits_only_def split: list.splits if_splits)

lemma discount_same_value:
  assumes "decimal_parts s = Some (w, f)"
  shows "decimalToScaledBigInt s 2 = Inr (int (decimal_hundredths s))"
proof -
  note d = decimal_parts_digits [OF assms] and s = decimal_parts_join [OF assms]
  have w: "w \<noteq> []" "list_all is_digit w" using d(1) by (simp_all add: digits_only_def)
  have chars: "\<And>c. c \<in> set s \<Longrightarrow> is_digit c \<or> c = CHR ''.''"
    using s w(2) d(2) by (auto simp: list_all_iff split: if_splits)
  have ne: "s \<noteq> []" "hd s = hd w" using s w(1) by (auto split: if_splits)
  have blank: "\<not> js_space c" if "c \<in> set s" for c
    using chars [OF that] is_digit_not_space [of c] by (auto simp: js_space_def)
  have trim: "js_trim s = s" using ne(1) by (intro js_trim_noop blank) auto
  have "is_digit (hd w)" using w by (cases w) auto
  then have "hd s \<noteq> CHR ''-''" using ne(2) by auto
  then have neg: "\<not> starts_with ''-'' s" using ne(1) by (cases s) (auto simp: starts_with_def)
  have len: "length (take 2 (f @ ''00'')) = 2" by simp
  have pad: "replicate 2 (CHR ''0'') = ''00''" by (simp add: numeral_2_eq_2)
  have "digits_val (w @ take 2 (f @ ''00'')) = 100 * digits_val w + digits_val (take 2 (f @ ''00''))"
    unfolding digits_val_append len by simp
  then show ?thesis
    using w d neg trim by (simp add: decimalToScaledBigInt_def Let_def pad decimal_hundredths_def assms)
qed

lemma z_all_Some: "z_all p js = Some xs \<Longrightarrow> list_all2 (\<lambda>j x. p j = Some x) js xs"
  by (induction js arbitrary: xs) (auto simp: bind_eq_Some_conv)

lemma z_array_each:
  assumes "z_array lo p j = Some xs" and "\<And>j x. p j = Some x \<Longrightarrow> Q x"
  shows "lo \<le> length xs \<and> list_all Q xs"
proof -
  from assms(1) obtain js where js: "lo \<le> length js" "list_all2 (\<lambda>j x. p j = Some x) js xs"
    by (auto simp: z_array_def split: json.splits if_splits dest: z_all_Some)
  then have "list_all Q xs" using assms(2) by (fastforce simp: list_all_length list_all2_conv_all_nth)
  with js list_all2_lengthD [OF js(2)] show ?thesis by simp
qed

lemma sale_line_body: "saleLineBody env j = Some it \<Longrightarrow> 0 < snd it \<and> snd it \<le> 100000"
  by (auto simp: saleLineBody_def field_def z_check_def z_positive_def bind_eq_Some_conv split: if_splits)

lemma sale_body:
  assumes "createSaleBody env j = Some b"
  shows "csi_items b \<noteq> []" "distinct (map fst (csi_items b))" "list_all (\<lambda>it. 0 < snd it \<and> snd it \<le> 100000) (csi_items b)"
    "csi_paymentReceived b \<Longrightarrow> csi_dateOfPayment b \<noteq> None"
    "decimal_parts (csi_discountApplied b) \<noteq> None" "decimal_hundredths (csi_discountApplied b) \<le> 10000"
proof -
  obtain d items where b: "csi_discountApplied b = d" "csi_items b = items"
    and d: "defaulted ''discountApplied'' ''0.00'' (z_check (\<lambda>s. decimal_hundredths s \<le> 10000) decimalString) j = Some d"
    and items: "field ''items'' (z_array 1 (saleLineBody env)) j = Some items"
    and rest: "distinct (map fst items)" "csi_paymentReceived b \<Longrightarrow> csi_dateOfPayment b \<noteq> None"
    using assms by (auto simp: createSaleBody_def bind_eq_Some_conv split: if_splits)
  from items have "1 \<le> length items \<and> list_all (\<lambda>it. 0 < snd it \<and> snd it \<le> 100000) items"
    by (auto simp: field_def bind_eq_Some_conv dest!: z_array_each [where Q = "\<lambda>it. 0 < snd it \<and> snd it \<le> 100000"]
        sale_line_body)
  moreover have "decimal_parts d \<noteq> None \<and> decimal_hundredths d \<le> 10000"
  proof -
    have "decimal_parts ''0.00'' \<noteq> None \<and> decimal_hundredths ''0.00'' \<le> 10000" by code_simp
    with d show ?thesis
      by (auto simp: defaulted_def z_check_def decimalString_def bind_eq_Some_conv split: option.splits if_splits)
  qed
  ultimately show "csi_items b \<noteq> []" "distinct (map fst (csi_items b))" "list_all (\<lambda>it. 0 < snd it \<and> snd it \<le> 100000) (csi_items b)"
    "csi_paymentReceived b \<Longrightarrow> csi_dateOfPayment b \<noteq> None"
    "decimal_parts (csi_discountApplied b) \<noteq> None" "decimal_hundredths (csi_discountApplied b) \<le> 10000"
    using b rest by auto
qed

lemma catalog_price_nonneg:
  assumes "nova_db_ok db" "product_findById i db = Some p" "decimalToScaledBigInt (pd_price p) 2 = Inr c"
  shows "0 \<le> c"
proof -
  have "p \<in> set (tb_products db)" using assms(2) by (auto simp: product_findById_def dest: find_SomeD)
  then have "money_between 0 (Some max_numeric_12_2) (pd_price p)"
    using assms(1) by (simp add: nova_db_ok_def rows_ok_def list_all_iff)
  with assms(3) show ?thesis by (simp add: money_between_def)
qed

text \<open>What the service stores for a validated body: the lines at catalog prices and their discounted total.\<close>

definition sale_total_ok :: "'z nova_db_scheme \<Rightarrow> create_sale_input \<Rightarrow> int \<Rightarrow> sale_dto \<Rightarrow> bool" where
  "sale_total_ok db b c dto \<longleftrightarrow> (\<exists>t lines. decimalToScaledBigInt (sa_totalAmountReceipt (sdt_sale dto)) 2 = Inr t
     \<and> list_all2 (\<lambda>it l. rl_quantity l = snd it \<and> (\<exists>p. product_findById (fst it) db = Some p
          \<and> decimalToScaledBigInt (pd_price p) 2 = Inr (rl_priceCents l))) (csi_items b) lines
     \<and> 0 \<le> t \<and> t \<le> receipt_subtotal lines \<and> \<bar>10000 * t - receipt_subtotal lines * (10000 - c)\<bar> \<le> 5000)"

lemma created_sale_total:
  assumes ok: "nova_db_ok db" and run: "createSale gen b db = (Inr dto, db')"
    and items: "list_all (\<lambda>it. 0 < snd it \<and> snd it \<le> 100000) (csi_items b)"
    and c: "csi_discountApplied b \<noteq> []" "decimalToScaledBigInt (csi_discountApplied b) 2 = Inr c" "0 \<le> c" "c \<le> 10000"
  shows "sale_total_ok db b c dto"
proof -
  obtain s t where st: "sale_priced db b t" "sa_totalAmountReceipt s = scaledBigIntToDecimal t 2" "sa_id s = gen db"
      "nova_db_ok (db\<lparr>tb_sales := tb_sales db @ [s]\<rparr>)" "sale_findById (gen db) db' = Some dto"
      "db' = db\<lparr>tb_sales := tb_sales db @ [s], tb_productsSold := tb_productsSold db @
        map (\<lambda>it. \<lparr>ps_saleId = gen db, ps_productId = fst it, ps_quantity = snd it\<rparr>) (csi_items b)\<rparr>"
    using createSale_cases [OF ok run] by blast
  have "sdt_sale dto = s" using sale_reads_back [OF ok st(4), of db' "csi_items b"] st by auto
  then have total: "decimalToScaledBigInt (sa_totalAmountReceipt (sdt_sale dto)) 2 = Inr t"
    by (simp add: st(2) parse_formatted)
  from st(1) obtain lines where lines: "list_all2 (\<lambda>it l. rl_quantity l = snd it \<and> (\<exists>p. product_findById (fst it) db = Some p
        \<and> decimalToScaledBigInt (pd_price p) 2 = Inr (rl_priceCents l))) (csi_items b) lines"
      "computeReceiptTotalCents lines (Some (csi_discountApplied b)) = Inr t"
    by (auto simp: sale_priced_def)
  have "list_all (\<lambda>l. 0 \<le> rl_priceCents l \<and> 0 \<le> rl_quantity l) lines"
    using lines(1) items catalog_price_nonneg [OF ok]
    by (fastforce simp: list_all2_conv_all_nth list_all_length)
  then have sub: "0 \<le> receipt_subtotal lines" by (rule receipt_subtotal_nonneg)
  let ?x = "receipt_subtotal lines * (10000 - c)"
  have "0 \<le> ?x" "?x \<le> receipt_subtotal lines * 10000" using sub c(3,4) by (auto intro: mult_left_mono)
  note r = round_half_up [OF this]
  have "t = (?x + 5000) sdiv 10000" using lines(2) c(1,2) by (simp add: computeReceiptTotalCents_def Let_def)
  with r total lines(1) show ?thesis unfolding sale_total_ok_def by blast
qed

text \<open>C32: A sale that passes validation is priced within its catalog value. For every body the schema accepts the
  service reads the discount as the very number the schema compared with 100, in hundredths of a percent; the body has
  lines, on distinct products with quantities from 1 to 100000, and a date of payment if it is paid. If the sale
  is then created, its stored total is the discounted value of those lines at catalog prices, to
  the nearest cent, and lies between zero and their undiscounted value; if not, nothing changes.\<close>

theorem validated_sale_within_catalog:
  assumes "nova_db_ok db" and "createSaleBody env j = Some b"
  shows "\<exists>c. decimalToScaledBigInt (csi_discountApplied b) 2 = Inr c \<and> c = int (decimal_hundredths (csi_discountApplied b))
    \<and> c \<le> 10000 \<and> csi_items b \<noteq> [] \<and> distinct (map fst (csi_items b))
    \<and> list_all (\<lambda>it. 0 < snd it \<and> snd it \<le> 100000) (csi_items b)
    \<and> (csi_paymentReceived b \<longrightarrow> csi_dateOfPayment b \<noteq> None)
    \<and> (case createSale gen b db of (Inl e, db') \<Rightarrow> db' = db | (Inr dto, db') \<Rightarrow> sale_total_ok db b c dto)"
proof -
  note body = sale_body [OF assms(2)]
  obtain w f where parts: "decimal_parts (csi_discountApplied b) = Some (w, f)" using body(5) by auto
  note same = discount_same_value [OF parts]
  have "csi_discountApplied b \<noteq> []" using parts by (auto simp: decimal_parts_def digits_only_def)
  note created = created_sale_total [OF assms(1) _ body(3) this same]
  have "\<And>e db'. createSale gen b db = (Inl e, db') \<Longrightarrow> db' = db" by (rule createSale_error [OF assms(1)])
  with created body same show ?thesis by (auto split: prod.split sum.split)
qed

definition example_sale_body :: json where
  "example_sale_body = JObj [(''customerId'', JStr ''c1''), (''date'', JStr ''d''), (''discountApplied'', JStr '' 12.5 ''),
     (''items'', JArr [JObj [(''productId'', JStr ''p1''), (''quantity'', JNum 3)]])]"

theorem validated_sale_within_catalog_witness:
  "\<exists>b. createSaleBody example_exec_env example_sale_body = Some b
     \<and> decimalToScaledBigInt (csi_discountApplied b) 2 = Inr (int (decimal_hundredths (csi_discountApplied b)))"
proof -
  have "case createSaleBody example_exec_env example_sale_body of None \<Rightarrow> False | Some b \<Rightarrow> True" by code_simp
  then obtain b where b: "createSaleBody example_exec_env example_sale_body = Some b" by (auto split: option.splits)
  from validated_sale_within_catalog [OF example_nova_ok b] b show ?thesis by auto
qed

end
