(* ===== verification/Event_Client.thy ===== *)
theory Event_Client
  imports Event_Stream "HOL-Library.While_Combinator"
begin

text \<open>
  The client of the event stream (\<open>frontend/web/src/features/chat/useAgentRunEvents.ts\<close>): how it
  cuts the text into frames, what a frame does to its state, and its reconnects. A chunk is what
  one \<open>read\<close> delivers, already decoded. Unmounting the component, which only stops everything, is
  left out. \<open>None\<close> as the cursor is \<open>NaN\<close>; a sequence that is not a number counts as \<open>NaN\<close>.
\<close>

section \<open>Frames\<close>

record parsed_frame =
  pf_type :: string
  pf_data :: string

text \<open>\<open>buffer.split('\n\n')\<close>\<close>

fun split_blocks :: "string \<Rightarrow> string list" where
  "split_blocks [] = [[]]"
| "split_blocks [c] = [[c]]"
| "split_blocks (c # d # s) =
     (if c = CHR 0x0A \<and> d = CHR 0x0A then [] # split_blocks s
      else (case split_blocks (d # s) of [] \<Rightarrow> [[c]] | b # bs \<Rightarrow> (c # b) # bs))"

definition frame_line :: "string \<Rightarrow> string \<times> string list \<Rightarrow> string \<times> string list" where
  "frame_line line = (\<lambda>(type, dataLines).
     if starts_with '':'' line \<or> length line = 0 then (type, dataLines)
     else if starts_with ''event:'' line then (js_trim (drop 6 line), dataLines)
     else if starts_with ''data:'' line then (type, dataLines @ [js_trim (drop 5 line)])
     else (type, dataLines))"

definition block_frames :: "string \<Rightarrow> parsed_frame list" where
  "block_frames block =
     (let (type, dataLines) = fold frame_line (js_split (CHR 0x0A) block) (''message'', [])
      in if dataLines \<noteq> [] then [\<lparr>pf_type = type, pf_data = js_join newline dataLines\<rparr>] else [])"

definition parseFrames :: "string \<Rightarrow> parsed_frame list \<times> string" where
  "parseFrames buffer =
     (let blocks = split_blocks buffer in (concat (map block_frames (butlast blocks)), last blocks))"

section \<open>The state of the hook\<close>

record stream_client =
  cl_cursor :: "int option"
  cl_events :: "json list"
  cl_terminalSeen :: bool
  cl_isComplete :: bool
  cl_isStreaming :: bool
  cl_error :: "string option"
  cl_attempt :: nat

definition TERMINAL_EVENT_TYPES :: "string list" where
  "TERMINAL_EVENT_TYPES = [''run.completed'', ''run.failed'', ''run.canceled'', ''run.expired'']"

definition MAX_RECONNECT_DELAY_MS :: nat where
  "MAX_RECONNECT_DELAY_MS = 10000"

definition BASE_RECONNECT_DELAY_MS :: nat where
  "BASE_RECONNECT_DELAY_MS = 500"

text \<open>\<open>===\<close> on parsed values: two objects or arrays are never the same.\<close>

fun strict_eq :: "json option \<Rightarrow> json option \<Rightarrow> bool" where
  "strict_eq (Some (JObj _)) _ = False"
| "strict_eq (Some (JArr _)) _ = False"
| "strict_eq a b = (a = b)"

definition math_max :: "int option \<Rightarrow> int option \<Rightarrow> int option" where
  "math_max a b = (case (a, b) of (Some x, Some y) \<Rightarrow> Some (max x y) | _ \<Rightarrow> None)"

text \<open>\<open>None\<close> is the \<open>TypeError\<close> of reading a property of \<open>null\<close>.\<close>

definition handleFrame :: "parsed_frame \<Rightarrow> stream_client \<Rightarrow> stream_client option" where
  "handleFrame f c =
     (case json_parse (pf_data f) of
        None \<Rightarrow> Some c
      | Some JNull \<Rightarrow> None
      | Some event \<Rightarrow>
          (let c1 = c\<lparr>cl_cursor := math_max (cl_cursor c) (jnumber (jget ''sequence'' event)),
                 cl_events := (if list_ex (\<lambda>x. strict_eq (jget ''id'' x) (jget ''id'' event)) (cl_events c)
                               then cl_events c else cl_events c @ [event])\<rparr>
           in Some (if pf_type f \<in> set TERMINAL_EVENT_TYPES
                    then c1\<lparr>cl_terminalSeen := True, cl_isComplete := True, cl_isStreaming := False\<rparr>
                    else c1)))"

text \<open>The frames of one read, until one throws.\<close>

fun handle_frames :: "parsed_frame list \<Rightarrow> stream_client \<Rightarrow> stream_client \<times> bool" where
  "handle_frames [] c = (c, True)"
| "handle_frames (f # fs) c = (case handleFrame f c of None \<Rightarrow> (c, False) | Some c1 \<Rightarrow> handle_frames fs c1)"

text \<open>The read loop over the chunks of a response.\<close>

fun read_loop :: "string \<Rightarrow> string list \<Rightarrow> stream_client \<Rightarrow> stream_client" where
  "read_loop buffer [] c = c"
| "read_loop buffer (chunk # chunks) c =
     (let (frames, rest) = parseFrames (buffer @ chunk); (c1, ok) = handle_frames frames c
      in if ok then read_loop rest chunks c1 else c1)"

section \<open>Connections\<close>

datatype fetch_result = FetchFailed | FetchResponse nat "string list option"

datatype after_connection = Reconnect nat | SessionExpired | Finished

definition scheduleReconnect :: "stream_client \<Rightarrow> stream_client \<times> after_connection" where
  "scheduleReconnect c =
     (c\<lparr>cl_isStreaming := False, cl_attempt := cl_attempt c + 1\<rparr>,
      Reconnect (min (BASE_RECONNECT_DELAY_MS * 2 ^ cl_attempt c) MAX_RECONNECT_DELAY_MS))"

definition connect :: "fetch_result \<Rightarrow> stream_client \<Rightarrow> stream_client \<times> after_connection" where
  "connect response c =
     (case response of
        FetchFailed \<Rightarrow> scheduleReconnect c
      | FetchResponse status body \<Rightarrow>
          if status = 401
          then (c\<lparr>cl_error := Some ''Your session has expired.'', cl_isStreaming := False\<rparr>, SessionExpired)
          else if \<not> (200 \<le> status \<and> status \<le> 299) \<or> body = None
          then scheduleReconnect (c\<lparr>cl_error := Some ''Unable to stream run progress.''\<rparr>)
          else (let c1 = c\<lparr>cl_attempt := 0, cl_isStreaming := True, cl_error := None\<rparr>;
                    c2 = read_loop [] (the body) c1
                in if \<not> cl_terminalSeen c2 then scheduleReconnect c2
                   else (c2\<lparr>cl_isStreaming := False\<rparr>, Finished)))"

definition new_client :: "int \<Rightarrow> stream_client" where
  "new_client afterSequence =
     \<lparr>cl_cursor = Some afterSequence, cl_events = [], cl_terminalSeen = False, cl_isComplete = False,
      cl_isStreaming = False, cl_error = None, cl_attempt = 0\<rparr>"

section \<open>The frames do not depend on the chunks\<close>

lemma split_blocks_nonempty [simp]: "split_blocks s \<noteq> []"
  by (induction s rule: split_blocks.induct) (auto split: list.splits)

lemma split_blocks_single: "split_blocks s = [b] \<Longrightarrow> b = s"
  by (induction s arbitrary: b rule: split_blocks.induct) (auto split: if_splits list.splits)

lemma split_blocks_append:
  "split_blocks (x @ y) = butlast (split_blocks x) @ split_blocks (last (split_blocks x) @ y)"
proof (induction x rule: split_blocks.induct)
  case (3 c d s)
  show ?case
  proof (cases "c = CHR 0x0A \<and> d = CHR 0x0A")
    case False
    obtain b bs where b: "split_blocks (d # s) = b # bs" by (cases "split_blocks (d # s)") auto
    show ?thesis
    proof (cases "bs = []")
      case True
      with b have "b = d # s" by (simp add: split_blocks_single)
      with False b True have "split_blocks (c # d # s) = [c # d # s]" by simp
      then show ?thesis by simp
    next
      case False': False
      with 3(2) False b show ?thesis by (auto split: list.split)
    qed
  qed (use 3 in simp)
qed simp_all

lemma split_blocks_rest: "split_blocks (last (split_blocks s)) = [last (split_blocks s)]"
proof -
  have "split_blocks s = butlast (split_blocks s) @ split_blocks (last (split_blocks s))"
    using split_blocks_append [of s "[]"] by simp
  moreover have "split_blocks s = butlast (split_blocks s) @ [last (split_blocks s)]" by simp
  ultimately show ?thesis by (metis same_append_eq)
qed

lemma parseFrames_append:
  "parseFrames (x @ y) = (fst (parseFrames x) @ fst (parseFrames (snd (parseFrames x) @ y)),
     snd (parseFrames (snd (parseFrames x) @ y)))"
  by (simp add: parseFrames_def Let_def split_blocks_append [of x y] butlast_append)

lemma handle_frames_append:
  "handle_frames (fs @ gs) c = (case handle_frames fs c of (c1, ok) \<Rightarrow> if ok then handle_frames gs c1 else (c1, False))"
  by (induction fs arbitrary: c) (auto split: option.splits)

lemma read_loop_buffered:
  "split_blocks buffer = [buffer] \<Longrightarrow>
   read_loop buffer chunks c = fst (handle_frames (fst (parseFrames (buffer @ concat chunks))) c)"
proof (induction chunks arbitrary: buffer c)
  case Nil
  then show ?case by (simp add: parseFrames_def)
next
  case (Cons chunk chunks)
  obtain frames rest where f: "parseFrames (buffer @ chunk) = (frames, rest)" by fastforce
  then have "split_blocks rest = [rest]" using split_blocks_rest by (auto simp: parseFrames_def Let_def)
  from Cons.IH [OF this] f parseFrames_append [of "buffer @ chunk" "concat chunks"]
  show ?case by (auto simp: handle_frames_append split: prod.splits)
qed

lemma read_loop_chunks: "read_loop [] chunks c = fst (handle_frames (fst (parseFrames (concat chunks))) c)"
  by (simp add: read_loop_buffered)

section \<open>What the server writes is what the client reads\<close>

definition AGENT_EVENT_TYPES :: "string list" where
  "AGENT_EVENT_TYPES =
     [''run.created'', ''run.accepted'', ''run.started'', ''planner.started'', ''planner.completed'',
      ''agent.selected'', ''agent.call.started'', ''agent.call.progress'', ''agent.call.completed'',
      ''agent.call.failed'', ''agent.task.received'', ''agent.task.denied'', ''agent.schema.loaded'',
      ''agent.query.started'', ''agent.query.completed'', ''agent.query.rejected'', ''agent.read.started'',
      ''agent.read.completed'', ''agent.read.failed'', ''agent.read.denied'', ''agent.write.started'',
      ''agent.write.completed'', ''agent.write.failed'', ''agent.write.denied'', ''agent.node.started'',
      ''agent.node.completed'', ''agent.completed'', ''approval.required'', ''tool.call.started'',
      ''tool.call.completed'', ''tool.call.failed'', ''authz.allowed'', ''authz.denied'',
      ''agent.authz.allowed'', ''agent.authz.denied'', ''artifact.created'', ''webhook.delivery.started'',
      ''webhook.delivery.succeeded'', ''webhook.delivery.failed'', ''run.completed'', ''run.failed'',
      ''run.canceled'']"

definition event_ok :: "agent_run_event_dto \<Rightarrow> bool" where
  "event_ok e \<longleftrightarrow> evd_type e \<in> set AGENT_EVENT_TYPES \<and> json_wf (evd_payload e)"

definition plain_type :: "string \<Rightarrow> bool" where
  "plain_type t \<longleftrightarrow> js_trim t = t \<and> CHR 0x0A \<notin> set t"

lemma event_types_plain: "list_all plain_type AGENT_EVENT_TYPES"
  by code_simp

definition frame_of :: "(int \<Rightarrow> string) \<Rightarrow> agent_run_event_dto \<Rightarrow> parsed_frame" where
  "frame_of toISO e = \<lparr>pf_type = evd_type e, pf_data = json_stringify (event_json toISO e)\<rparr>"

lemma no_newline:
  "CHR 0x0A \<notin> set (show_int n)" "CHR 0x0A \<notin> set (json_stringify v)"
  using show_int_plain [of n] stringify_plain [of v] by (auto simp: list_all_iff plain_char_def)

lemma data_trimmed: "js_trim ('' '' @ json_stringify (event_json toISO e)) = json_stringify (event_json toISO e)"
proof -
  have "js_trim ('' '' @ s) = js_trim s" for s by (simp add: js_trim_def js_space_def)
  moreover have "js_trim (json_stringify (event_json toISO e)) = json_stringify (event_json toISO e)"
    by (rule js_trim_noop) (simp_all add: event_json_def js_space_def)
  ultimately show ?thesis by simp
qed

definition frame_body :: "(int \<Rightarrow> string) \<Rightarrow> agent_run_event_dto \<Rightarrow> string" where
  "frame_body toISO e = ''id: '' @ show_int (evd_sequence e) @ CHR 0x0A # ''event: '' @ evd_type e
     @ CHR 0x0A # ''data: '' @ json_stringify (event_json toISO e)"

lemma block_frames_body:
  assumes "event_ok e"
  shows "block_frames (frame_body toISO e) = [frame_of toISO e]"
proof -
  from assms event_types_plain have t: "plain_type (evd_type e)" by (auto simp: event_ok_def list_all_iff)
  then have "js_trim ('' '' @ evd_type e) = evd_type e" by (simp add: js_trim_def js_space_def plain_type_def)
  moreover have "js_split (CHR 0x0A) (frame_body toISO e)
      = [''id: '' @ show_int (evd_sequence e), ''event: '' @ evd_type e,
         ''data: '' @ json_stringify (event_json toISO e)]"
    using t no_newline unfolding frame_body_def plain_type_def
    by (simp only: js_split_append js_split_no_sep append_assoc [symmetric]) (simp add: js_split_no_sep)
  ultimately show ?thesis
    using data_trimmed [of toISO e]
    by (simp add: block_frames_def frame_line_def starts_with_def frame_of_def)
qed

lemma split_plain: "CHR 0x0A \<notin> set s \<Longrightarrow> split_blocks s = [s]"
  by (induction s rule: split_blocks.induct) auto

lemma split_line:
  "split_blocks x = [x] \<Longrightarrow> x \<noteq> [] \<Longrightarrow> last x \<noteq> CHR 0x0A \<Longrightarrow> y \<noteq> [] \<Longrightarrow> CHR 0x0A \<notin> set y \<Longrightarrow>
   split_blocks (x @ CHR 0x0A # y) = [x @ CHR 0x0A # y]"
proof (induction x rule: split_blocks.induct)
  case (2 c)
  obtain d z where y: "y = d # z" using 2 by (cases y) auto
  have "split_blocks y = [y]" using 2 by (intro split_plain) simp
  with 2 y show ?case by auto
next
  case (3 c d s)
  then have "\<not> (c = CHR 0x0A \<and> d = CHR 0x0A)" "split_blocks (d # s) = [d # s]"
    using split_blocks_single by (auto split: if_splits list.splits)
  with 3 show ?case by auto
qed simp

lemma split_block:
  "split_blocks s = [s] \<Longrightarrow> s = [] \<or> last s \<noteq> CHR 0x0A \<Longrightarrow>
   split_blocks (s @ CHR 0x0A # CHR 0x0A # r) = s # split_blocks r"
proof (induction s rule: split_blocks.induct)
  case (3 c d s)
  then have "\<not> (c = CHR 0x0A \<and> d = CHR 0x0A)" "split_blocks (d # s) = [d # s]"
    using split_blocks_single by (auto split: if_splits list.splits)
  with 3 show ?case by auto
qed auto

lemma three_lines:
  assumes "a \<noteq> []" "b \<noteq> []" "c \<noteq> []" and "CHR 0x0A \<notin> set a" "CHR 0x0A \<notin> set b" "CHR 0x0A \<notin> set c"
  shows "split_blocks ((a @ CHR 0x0A # b @ CHR 0x0A # c) @ CHR 0x0A # CHR 0x0A # r)
    = (a @ CHR 0x0A # b @ CHR 0x0A # c) # split_blocks r"
proof -
  have l: "last a \<noteq> CHR 0x0A" "last b \<noteq> CHR 0x0A" "last c \<noteq> CHR 0x0A" using assms by (metis last_in_set)+
  have "split_blocks (a @ CHR 0x0A # b) = [a @ CHR 0x0A # b]"
    using assms l by (intro split_line split_plain) auto
  then have "split_blocks ((a @ CHR 0x0A # b) @ CHR 0x0A # c) = [(a @ CHR 0x0A # b) @ CHR 0x0A # c]"
    by (rule split_line) (use assms l in auto)
  then have "split_blocks (((a @ CHR 0x0A # b) @ CHR 0x0A # c) @ CHR 0x0A # CHR 0x0A # r)
      = ((a @ CHR 0x0A # b) @ CHR 0x0A # c) # split_blocks r"
    by (rule split_block) (use assms l in auto)
  then show ?thesis by simp
qed

lemma frame_body_block:
  assumes "event_ok e"
  shows "split_blocks (frame_body toISO e @ CHR 0x0A # CHR 0x0A # r) = frame_body toISO e # split_blocks r"
proof -
  have t: "CHR 0x0A \<notin> set (evd_type e)" using assms event_types_plain
    by (auto simp: event_ok_def list_all_iff plain_type_def)
  have f: "frame_body toISO e = (''id: '' @ show_int (evd_sequence e)) @ CHR 0x0A # (''event: '' @ evd_type e)
      @ CHR 0x0A # (''data: '' @ json_stringify (event_json toISO e))"
    by (simp add: frame_body_def)
  show ?thesis unfolding f by (rule three_lines) (use t no_newline in auto)
qed

lemma parse_rendered:
  "list_all event_ok (concat (map written_event ws)) \<Longrightarrow>
   parseFrames (concat (map (render toISO) ws)) = (map (frame_of toISO) (concat (map written_event ws)), [])"
proof (induction ws)
  case (Cons w ws)
  let ?r = "concat (map (render toISO) ws)"
  show ?case
  proof (cases w)
    case (EventFrame e)
    then have ok: "event_ok e" using Cons.prems by simp
    have "render toISO w @ ?r = frame_body toISO e @ CHR 0x0A # CHR 0x0A # ?r"
      by (simp add: EventFrame frame_body_def newline_def)
    with frame_body_block [OF ok, of toISO ?r] block_frames_body [OF ok, of toISO] Cons EventFrame
    show ?thesis by (simp add: parseFrames_def Let_def)
  next
    case KeepAlive
    have "split_blocks ('': keep-alive'' @ CHR 0x0A # CHR 0x0A # ?r) = '': keep-alive'' # split_blocks ?r"
      by (rule split_block) simp_all
    moreover have "block_frames '': keep-alive'' = []"
      by (simp add: block_frames_def frame_line_def starts_with_def)
    ultimately show ?thesis using Cons KeepAlive by (simp add: parseFrames_def Let_def newline_def)
  qed
qed (simp add: parseFrames_def)

text \<open>The effect of one event.\<close>

definition apply_event :: "(int \<Rightarrow> string) \<Rightarrow> agent_run_event_dto \<Rightarrow> stream_client \<Rightarrow> stream_client" where
  "apply_event toISO e c =
     (let c1 = c\<lparr>cl_cursor := math_max (cl_cursor c) (Some (evd_sequence e)),
            cl_events := (if JStr (evd_id e) \<in> (\<lambda>x. case jget ''id'' x of Some v \<Rightarrow> v | None \<Rightarrow> JNull) ` set (cl_events c)
                          then cl_events c else cl_events c @ [event_json toISO e])\<rparr>
      in if evd_type e \<in> set TERMINAL_EVENT_TYPES
         then c1\<lparr>cl_terminalSeen := True, cl_isComplete := True, cl_isStreaming := False\<rparr> else c1)"

lemma strict_eq_JStr: "strict_eq v (Some (JStr i)) \<longleftrightarrow> v = Some (JStr i)"
  by (cases "(v, Some (JStr i))" rule: strict_eq.cases) auto

lemma event_json_roundtrip:
  "event_ok e \<Longrightarrow> json_parse (json_stringify (event_json toISO e)) = Some (event_json toISO e)"
  by (rule json_roundtrip) (simp add: event_json_def event_ok_def)

lemma handleFrame_event:
  assumes "event_ok e"
  shows "handleFrame (frame_of toISO e) c = Some (apply_event toISO e c)"
proof -
  from event_json_roundtrip [OF assms] have p: "json_parse (pf_data (frame_of toISO e)) = Some (event_json toISO e)"
    by (simp add: frame_of_def)
  have x: "(\<exists>x \<in> set es. jget ''id'' x = Some (JStr i))
      \<longleftrightarrow> JStr i \<in> (\<lambda>x. case jget ''id'' x of Some v \<Rightarrow> v | None \<Rightarrow> JNull) ` set es" for i es
    by (force simp: image_iff split: option.split)
  show ?thesis unfolding handleFrame_def p
    by (simp add: event_json_def Let_def strict_eq_JStr list_ex_iff frame_of_def apply_event_def x)
qed

lemma handle_frames_events:
  "list_all event_ok es \<Longrightarrow> handle_frames (map (frame_of toISO) es) c = (fold (apply_event toISO) es c, True)"
  by (induction es arbitrary: c) (simp_all add: handleFrame_event)

lemma frames_parsed:
  assumes "list_all event_ok (concat (map written_event ws))"
    and "concat chunks = concat (map (render toISO) ws)"
  shows "read_loop [] chunks c = fold (apply_event toISO) (concat (map written_event ws)) c"
  by (simp add: read_loop_chunks assms(2) parse_rendered [OF assms(1)] handle_frames_events [OF assms(1)])

text \<open>C28: What the stream writes is what the client gets. For any sequence of event frames and
  keep-alives with events of the declared types, and however the network cuts the text into
  chunks, the client ends in the state of applying exactly those events, once each and in order;
  its JSON parser gives back the value the server serialized.\<close>

theorem frames_roundtrip:
  assumes "list_all event_ok (concat (map written_event ws))"
    and "concat chunks = concat (map (render toISO) ws)"
  shows "read_loop [] chunks c = fold (apply_event toISO) (concat (map written_event ws)) c
    \<and> (\<forall>e \<in> set (concat (map written_event ws)). json_parse (json_stringify (event_json toISO e)) = Some (event_json toISO e))"
  using frames_parsed [OF assms] assms(1) event_json_roundtrip by (auto simp: list_all_iff)

section \<open>A session against the server\<close>

text \<open>The request of a connection: the cursor goes into \<open>Last-Event-ID\<close> (when positive) and
  \<open>afterSequence\<close>; \<open>afterSequence=NaN\<close> is refused by the query schema.\<close>

definition serve ::
  "(int \<Rightarrow> string) \<Rightarrow> ('z, 'o) platform \<Rightarrow> string \<Rightarrow> auth_context \<Rightarrow> bool \<Rightarrow> int option \<Rightarrow> fetch_result" where
  "serve toISO p runId auth detailed cursor =
     (case cursor of
        None \<Rightarrow> FetchResponse 400 (Some [])
      | Some n \<Rightarrow>
          (case fst (streamEvents runId auth (if n > 0 then Some (show_int n) else None) n detailed p) of
             Inl e \<Rightarrow> FetchResponse (status_by_category (exn_category e)) (Some [])
           | Inr s \<Rightarrow> FetchResponse 200 (Some [concat (map (render toISO) (ss_out s))])))"

definition session ::
  "(int option \<Rightarrow> fetch_result) \<Rightarrow> stream_client \<Rightarrow> (stream_client \<times> after_connection) option" where
  "session server c =
     while_option (\<lambda>(c, next). case next of Reconnect _ \<Rightarrow> True | _ \<Rightarrow> False)
       (\<lambda>(c, next). connect (server (cl_cursor c)) c) (c, Reconnect 0)"

lemma js_parse_int_show: "0 < n \<Longrightarrow> js_parse_int (show_int n) = Some n"
proof -
  assume n: "0 < n"
  have d: "\<forall>c \<in> set (show_nat (nat n)). is_digit c" using show_nat_digits [of "nat n"] by (simp add: list_all_iff)
  obtain c t where ct: "show_nat (nat n) = c # t" by (cases "show_nat (nat n)") auto
  with d have c: "is_digit c" by simp
  then have "\<not> js_space c" "c \<noteq> CHR ''-''" "c \<noteq> CHR ''+''" by (auto simp: is_digit_def js_space_def)
  moreover have "takeWhile is_digit (show_nat (nat n)) = show_nat (nat n)" using d by (simp add: takeWhile_eq_all_conv)
  moreover have "digits_val (c # t) = nat n" using ct digits_val_show_nat [of "nat n"] by simp
  ultimately show ?thesis using n ct
    by (simp add: js_parse_int_def show_int_def starts_with_def Let_def)
qed

definition ends_run :: "agent_run_event_dto \<Rightarrow> bool" where
  "ends_run e \<longleftrightarrow> evd_type e \<in> set TERMINAL_EVENT_TYPES"

lemma due_ids:
  assumes "agents_db_ok (pf_agents p)"
  shows "distinct (map evd_id (due runId d c0 p))"
proof -
  have "distinct (map ev_id (event_log runId d (pf_agents p)))"
    using assms distinct_map_filter
    by (fastforce simp: agents_db_ok_def event_log_def visible_events_def distinct_map)
  then have "distinct (map ev_id (filter (\<lambda>e. c0 < ev_sequence e) (event_log runId d (pf_agents p))))"
    by (rule distinct_map_filter)
  then show ?thesis by (simp add: due_def comp_def toAgentRunEventDto_def)
qed

lemma due_positive: "e \<in> set (due runId d c0 p) \<Longrightarrow> c0 < evd_sequence e"
  by (auto simp: due_def toAgentRunEventDto_def)

definition client_at :: "(int \<Rightarrow> string) \<Rightarrow> agent_run_event_dto list \<Rightarrow> stream_client \<Rightarrow> bool" where
  "client_at toISO sent c \<longleftrightarrow> cl_cursor c = Some (after 0 sent) \<and> cl_events c = map (event_json toISO) sent"

lemma fold_events:
  assumes "agents_db_ok (pf_agents p)" and "due runId d 0 p = sent @ es @ rest" and "client_at toISO sent c"
  shows "client_at toISO (sent @ es) (fold (apply_event toISO) es c)
    \<and> cl_terminalSeen (fold (apply_event toISO) es c) = (cl_terminalSeen c \<or> list_ex ends_run es)
    \<and> (list_ex ends_run es \<longrightarrow> cl_isComplete (fold (apply_event toISO) es c))
    \<and> (cl_isComplete c \<longrightarrow> cl_isComplete (fold (apply_event toISO) es c))"
  using assms(2,3)
proof (induction es arbitrary: sent c)
  case Nil
  then show ?case by simp
next
  case (Cons e es)
  have "after 0 sent < evd_sequence e"
  proof (cases "sent = []")
    case True
    with Cons.prems(1) due_positive [of e runId d 0 p] show ?thesis by (simp add: after_def)
  next
    case False
    then have "last sent \<in> set sent" by simp
    with due_strict [OF assms(1), of runId d 0] Cons.prems(1) False
    show ?thesis by (simp add: after_def sorted_wrt_append)
  qed
  then have "math_max (Some (after 0 sent)) (Some (evd_sequence e)) = Some (after 0 (sent @ [e]))"
    by (simp add: math_max_def after_def)
  moreover have "evd_id e \<notin> evd_id ` set sent"
    using due_ids [OF assms(1), of runId d 0] Cons.prems(1) by auto
  then have "JStr (evd_id e) \<notin> (\<lambda>x. case jget ''id'' x of Some v \<Rightarrow> v | None \<Rightarrow> JNull) ` set (cl_events c)"
    using Cons.prems(2) by (auto simp: client_at_def event_json_def)
  ultimately have at: "client_at toISO (sent @ [e]) (apply_event toISO e c)"
    "cl_terminalSeen (apply_event toISO e c) = (cl_terminalSeen c \<or> ends_run e)"
    "ends_run e \<longrightarrow> cl_isComplete (apply_event toISO e c)"
    "cl_isComplete c \<longrightarrow> cl_isComplete (apply_event toISO e c)"
    using Cons.prems(2) by (auto simp: client_at_def apply_event_def Let_def ends_run_def)
  have "due runId d 0 p = (sent @ [e]) @ es @ rest" using Cons.prems(1) by simp
  from Cons.IH [OF this at(1)] at(2-4) show ?case by auto
qed

lemma served_batch:
  assumes "agents_db_ok (pf_agents p)" and "requireOwnedRun runId auth p = (Inr run, p)"
    and "isTerminal (ar_status run)" and "due runId d 0 p = sent @ rest"
  shows "serve toISO p runId auth d (Some (after 0 sent))
    = FetchResponse 200 (Some [concat (map (render toISO) (map EventFrame (take 200 rest)))])"
proof -
  have "0 \<le> after 0 sent"
    using due_positive [of "last sent" runId d 0 p] assms(4) by (auto simp: after_def less_imp_le)
  then have "initial_cursor (if after 0 sent > 0 then Some (show_int (after 0 sent)) else None) (after 0 sent) = after 0 sent"
    by (auto simp: initial_cursor_def some_id_def js_parse_int_show show_int_first(1))
  with batch_after [OF assms(1,4), of MAX_EVENT_BATCH] assms(2,3) show ?thesis
    by (simp add: serve_def streamEvents_def getEventBatch_run op_simps Let_def stop_def send_batch_def MAX_EVENT_BATCH_def)
qed

lemma connection_step:
  assumes "agents_db_ok (pf_agents p)" and "requireOwnedRun runId auth p = (Inr run, p)"
    and "isTerminal (ar_status run)" and "due runId d 0 p = sent @ rest" and "list_all event_ok (due runId d 0 p)"
    and "client_at toISO sent c" and "\<not> cl_terminalSeen c"
  shows "\<exists>c' next. connect (serve toISO p runId auth d (cl_cursor c)) c = (c', next)
    \<and> client_at toISO (sent @ take 200 rest) c'
    \<and> (if list_ex ends_run (take 200 rest) then next = Finished \<and> cl_isComplete c'
       else \<not> cl_terminalSeen c' \<and> (\<exists>k. next = Reconnect k))"
proof -
  let ?b = "take 200 rest" and ?c1 = "c\<lparr>cl_attempt := 0, cl_isStreaming := True, cl_error := None\<rparr>"
  have cur: "cl_cursor c = Some (after 0 sent)" using assms(6) by (simp add: client_at_def)
  have ok: "list_all event_ok ?b" using assms(4,5) by (auto simp: list_all_iff dest: in_set_takeD)
  have read: "read_loop [] [concat (map (render toISO) (map EventFrame ?b))] ?c1 = fold (apply_event toISO) ?b ?c1"
    using frames_parsed [of "map EventFrame ?b" "[concat (map (render toISO) (map EventFrame ?b))]" toISO ?c1] ok by simp
  have due: "due runId d 0 p = sent @ ?b @ drop 200 rest" using assms(4) by simp
  have at: "client_at toISO sent ?c1" using assms(6) by (simp add: client_at_def)
  note f = fold_events [OF assms(1) due at]
  have "connect (serve toISO p runId auth d (cl_cursor c)) c =
      (let c2 = fold (apply_event toISO) ?b ?c1 in
       if \<not> cl_terminalSeen c2 then scheduleReconnect c2 else (c2\<lparr>cl_isStreaming := False\<rparr>, Finished))"
    unfolding cur served_batch [OF assms(1-4)] connect_def using read by (simp add: Let_def)
  with f assms(7) show ?thesis
    by (auto simp: Let_def scheduleReconnect_def client_at_def)
qed

lemma while_option_None_iterate: "while_option b f s = None \<Longrightarrow> b ((f ^^ k) s)"
  by (auto simp: while_option_def split: if_splits)

lemma while_option_Some_iterate:
  assumes "while_option b f s = Some t"
  shows "\<exists>k. t = (f ^^ k) s \<and> \<not> b t \<and> (\<forall>j < k. b ((f ^^ j) s))"
proof -
  let ?k = "LEAST k. \<not> b ((f ^^ k) s)"
  from assms have ex: "\<exists>k. \<not> b ((f ^^ k) s)" and t: "t = (f ^^ ?k) s"
    by (auto simp: while_option_def split: if_splits)
  have "\<not> b ((f ^^ ?k) s)" using ex by (rule LeastI_ex)
  moreover have "\<forall>j < ?k. b ((f ^^ j) s)" using not_less_Least by blast
  ultimately show ?thesis using t by blast
qed

text \<open>After \<open>k\<close> connections: still waiting, or finished with the end of the run in hand.\<close>

definition session_inv ::
  "(int \<Rightarrow> string) \<Rightarrow> agent_run_event_dto list \<Rightarrow> nat \<Rightarrow> stream_client \<times> after_connection \<Rightarrow> bool" where
  "session_inv toISO log k = (\<lambda>(c, next). \<exists>sent rest. log = sent @ rest \<and> client_at toISO sent c
     \<and> (case next of
          Reconnect _ \<Rightarrow> \<not> list_ex ends_run sent \<and> \<not> cl_terminalSeen c \<and> min (200 * k) (length log) \<le> length sent
        | Finished \<Rightarrow> list_ex ends_run sent \<and> cl_isComplete c
        | SessionExpired \<Rightarrow> False))"

definition waiting :: "stream_client \<times> after_connection \<Rightarrow> bool" where
  "waiting = (\<lambda>(c, next). case next of Reconnect _ \<Rightarrow> True | _ \<Rightarrow> False)"

lemma session_while:
  "session server c = while_option waiting (\<lambda>(c, next). connect (server (cl_cursor c)) c) (c, Reconnect 0)"
  by (simp add: session_def waiting_def)

lemma session_inv_waiting:
  assumes "session_inv toISO log (length log) s" and "waiting s"
  shows "\<not> list_ex ends_run log"
proof -
  obtain c m where s: "s = (c, Reconnect m)"
    using assms(2) by (cases s) (auto simp: waiting_def split: after_connection.splits)
  with assms(1) obtain sent rest where "log = sent @ rest" "\<not> list_ex ends_run sent"
      "min (200 * length log) (length log) \<le> length sent"
    unfolding session_inv_def by auto
  then show ?thesis by simp
qed

lemma session_inv_step:
  assumes "agents_db_ok (pf_agents p)" and "requireOwnedRun runId auth p = (Inr run, p)"
    and "isTerminal (ar_status run)" and "list_all event_ok (due runId d 0 p)"
    and "session_inv toISO (due runId d 0 p) k s" and "waiting s"
  shows "session_inv toISO (due runId d 0 p) (Suc k) ((\<lambda>(c, next). connect (serve toISO p runId auth d (cl_cursor c)) c) s)"
proof -
  obtain c m where s: "s = (c, Reconnect m)"
    using assms(6) by (cases s) (auto simp: waiting_def split: after_connection.splits)
  from assms(5) s obtain sent rest where i: "due runId d 0 p = sent @ rest" "client_at toISO sent c"
      "\<not> list_ex ends_run sent" "\<not> cl_terminalSeen c" "min (200 * k) (length (due runId d 0 p)) \<le> length sent"
    by (auto simp: session_inv_def)
  from connection_step [OF assms(1-3) i(1) assms(4) i(2,4)] obtain c' nxt where
      c': "connect (serve toISO p runId auth d (cl_cursor c)) c = (c', nxt)"
        "client_at toISO (sent @ take 200 rest) c'"
        "if list_ex ends_run (take 200 rest) then nxt = Finished \<and> cl_isComplete c'
         else \<not> cl_terminalSeen c' \<and> (\<exists>k. nxt = Reconnect k)"
    by blast
  have log: "due runId d 0 p = (sent @ take 200 rest) @ drop 200 rest" using i(1) by simp
  have len: "min (200 * Suc k) (length (due runId d 0 p)) \<le> length (sent @ take 200 rest)"
    using i(1,5) by (simp add: min_def split: if_splits)
  show ?thesis
    using c'(3) unfolding s session_inv_def prod.case c'(1)
    by (intro exI [of _ "sent @ take 200 rest"] exI [of _ "drop 200 rest"])
      (use log c'(2) i(3) len in \<open>auto split: if_splits\<close>)
qed

lemma session_inv_iterate:
  assumes "agents_db_ok (pf_agents p)" and "requireOwnedRun runId auth p = (Inr run, p)"
    and "isTerminal (ar_status run)" and "list_all event_ok (due runId d 0 p)"
    and "session_inv toISO (due runId d 0 p) 0 s"
    and "\<And>j. j < k \<Longrightarrow> waiting (((\<lambda>(c, next). connect (serve toISO p runId auth d (cl_cursor c)) c) ^^ j) s)"
  shows "session_inv toISO (due runId d 0 p) k (((\<lambda>(c, next). connect (serve toISO p runId auth d (cl_cursor c)) c) ^^ k) s)"
  using assms(6)
proof (induction k)
  case (Suc k)
  have "session_inv toISO (due runId d 0 p) k (((\<lambda>(c, next). connect (serve toISO p runId auth d (cl_cursor c)) c) ^^ k) s)"
    using Suc by simp
  from session_inv_step [OF assms(1-4) this] Suc.prems show ?case by simp
qed (simp add: assms(5))

text \<open>C29: The client sees the end of a run exactly if the log records one. Against a run that has ended,
  a session of reconnects that resume from the last sequence finishes, complete, with a gapless
  prefix of the visible log up to and including an event that ends the run, however many batches
  of 200 that takes, if the log has such an event; if it has none the session never finishes, the
  client reconnects forever.\<close>

theorem client_completes_iff:
  assumes "agents_db_ok (pf_agents p)" and "requireOwnedRun runId auth p = (Inr run, p)"
    and "isTerminal (ar_status run)" and "list_all event_ok (due runId d 0 p)"
  shows "if list_ex ends_run (due runId d 0 p)
    then \<exists>c n. session (serve toISO p runId auth d) (new_client 0) = Some (c, Finished) \<and> cl_isComplete c
      \<and> cl_events c = map (event_json toISO) (take n (due runId d 0 p))
      \<and> list_ex ends_run (take n (due runId d 0 p))
    else session (serve toISO p runId auth d) (new_client 0) = None"
proof -
  let ?log = "due runId d 0 p" and ?s = "(new_client 0, Reconnect 0)"
  let ?f = "\<lambda>(c, next). connect (serve toISO p runId auth d (cl_cursor c)) c"
  let ?session = "session (serve toISO p runId auth d) (new_client 0)"
  have start: "session_inv toISO ?log 0 ?s"
    by (simp add: session_inv_def client_at_def new_client_def after_def)
  note iterate = session_inv_iterate [OF assms start]
  show ?thesis
  proof (cases ?session)
    case None
    then have w: "waiting ((?f ^^ k) ?s)" for k
      unfolding session_while by (rule while_option_None_iterate)
    have "session_inv toISO ?log (length ?log) ((?f ^^ length ?log) ?s)" by (rule iterate) (rule w)
    with w [of "length ?log"] have "\<not> list_ex ends_run ?log" by (intro session_inv_waiting)
    with None show ?thesis by simp
  next
    case (Some t)
    then have "\<exists>k. t = (?f ^^ k) ?s \<and> \<not> waiting t \<and> (\<forall>j < k. waiting ((?f ^^ j) ?s))"
      unfolding session_while by (rule while_option_Some_iterate)
    then obtain k where "session_inv toISO ?log k t" "\<not> waiting t" using iterate by blast
    then obtain c sent rest where t: "t = (c, Finished)" "?log = sent @ rest" "client_at toISO sent c"
        "list_ex ends_run sent" "cl_isComplete c"
      by (cases t) (auto simp: session_inv_def waiting_def split: after_connection.splits)
    then have "list_ex ends_run ?log" "take (length sent) ?log = sent" by auto
    with t Some show ?thesis by (auto simp: client_at_def intro!: exI [of _ "length sent"])
  qed
qed
section \<open>Examples\<close>

definition example_writes :: "sse_write list" where
  "example_writes = [EventFrame (toAgentRunEventDto (example_event ''v1'' 1 VisibleUser)), KeepAlive]"

theorem frames_roundtrip_witness:
  "read_loop [] (map (\<lambda>c. [c]) (concat (map (render (\<lambda>_. ''t'')) example_writes))) (new_client 0)
     = apply_event (\<lambda>_. ''t'') (toAgentRunEventDto (example_event ''v1'' 1 VisibleUser)) (new_client 0)"
proof -
  have ok: "list_all event_ok (concat (map written_event example_writes))" by code_simp
  have "concat (map (\<lambda>c. [c]) s) = s" for s :: string by (induction s) simp_all
  from conjunct1 [OF frames_roundtrip [OF ok this]] show ?thesis by (simp add: example_writes_def)
qed

text \<open>An ended run whose log records its end, and one (expired) whose log does not.\<close>

definition ended_platform :: "run_status \<Rightarrow> agent_run_event list \<Rightarrow> (unit, unit) platform" where
  "ended_platform status events = example_platform\<lparr>pf_agents := example_agents\<lparr>
     ag_runs := [example_run\<lparr>ar_status := status\<rparr>], ag_events := events\<rparr>\<rparr>"

definition completed_platform :: "(unit, unit) platform" where
  "completed_platform = ended_platform Completed
     [example_event ''v1'' 1 VisibleUser, (example_event ''v2'' 2 VisibleUser)\<lparr>ev_type := ''run.completed''\<rparr>]"

definition expired_platform :: "(unit, unit) platform" where
  "expired_platform = ended_platform Expired [example_event ''v1'' 1 VisibleUser]"

lemma ended_facts:
  "agents_db_ok (pf_agents completed_platform)" "agents_db_ok (pf_agents expired_platform)"
  "list_all event_ok (due ''r1'' False 0 completed_platform)" "list_all event_ok (due ''r1'' False 0 expired_platform)"
  "list_ex ends_run (due ''r1'' False 0 completed_platform)" "\<not> list_ex ends_run (due ''r1'' False 0 expired_platform)"
  by code_simp+

lemma ended_runs:
  "requireOwnedRun ''r1'' example_auth completed_platform = (Inr (example_run\<lparr>ar_status := Completed\<rparr>), completed_platform)"
  "requireOwnedRun ''r1'' example_auth expired_platform = (Inr (example_run\<lparr>ar_status := Expired\<rparr>), expired_platform)"
  by (simp_all add: requireOwnedRun_cases findByIdForOwner_def completed_platform_def expired_platform_def
      ended_platform_def example_run_def example_auth_def)

lemma ended_statuses:
  "isTerminal (ar_status (example_run\<lparr>ar_status := Completed\<rparr>))" "isTerminal (ar_status (example_run\<lparr>ar_status := Expired\<rparr>))"
  by (simp_all add: isTerminal_def TERMINAL_AGENT_RUN_STATUSES_def)

theorem client_completes_iff_witness:
  "(\<exists>c. session (serve (\<lambda>_. ''t'') completed_platform ''r1'' example_auth False) (new_client 0) = Some (c, Finished))
   \<and> session (serve (\<lambda>_. ''t'') expired_platform ''r1'' example_auth False) (new_client 0) = None"
proof
  show "\<exists>c. session (serve (\<lambda>_. ''t'') completed_platform ''r1'' example_auth False) (new_client 0) = Some (c, Finished)"
    using client_completes_iff [OF ended_facts(1) ended_runs(1) ended_statuses(1) ended_facts(3), where toISO = "\<lambda>_. ''t''"]
      ended_facts(5) by auto
  show "session (serve (\<lambda>_. ''t'') expired_platform ''r1'' example_auth False) (new_client 0) = None"
    using client_completes_iff [OF ended_facts(2) ended_runs(2) ended_statuses(2) ended_facts(4), where toISO = "\<lambda>_. ''t''"]
      ended_facts(6) by auto
qed

end
