(* ===== verification/Web_Client.thy ===== *)
theory Web_Client
  imports Json_Text
begin

text \<open>
  The plumbing of the web client (\<open>frontend/web/src\<close>): typed errors (\<open>lib/errors.ts\<close>), the HTTP client
  (\<open>api/httpClient.ts\<close>), the retry policy (\<open>api/queryClient.ts\<close>), the session and its gate
  (\<open>auth/AuthProvider.tsx\<close>, \<open>auth/RequireAuth.tsx\<close>), the environment (\<open>lib/env.ts\<close>) and the links an
  agent may emit (\<open>lib/novaLinks.ts\<close>). The browser's \<open>fetch\<close>, the session's tokens and the URL
  encoding of a query are arguments.
\<close>

section \<open>Errors\<close>

record client_error =
  ce_status :: nat
  ce_code :: string
  ce_message :: string
  ce_correlationId :: "string option"

definition client_asString :: "json option \<Rightarrow> string option" where
  "client_asString v = some_id (jstring v)"

definition defaultMessage :: "nat \<Rightarrow> string" where
  "defaultMessage status =
     (if status = 401 then ''Your session has expired. Please sign in again.''
      else if status = 403 then ''You do not have permission to perform this action.''
      else if status = 404 then ''The requested resource was not found.''
      else if 500 \<le> status then ''Something went wrong on our side. Please try again.''
      else ''The request could not be completed.'')"

text \<open>The body is \<open>undefined\<close> when the response has none; only an object has the fields.\<close>

definition problem_field :: "string \<Rightarrow> json option \<Rightarrow> json option" where
  "problem_field k body = (case body of Some v \<Rightarrow> jget k v | None \<Rightarrow> None)"

definition apiErrorFromResponse :: "nat \<Rightarrow> json option \<Rightarrow> client_error" where
  "apiErrorFromResponse status body =
     \<lparr>ce_status = status,
      ce_code = (case client_asString (problem_field ''code'' body) of Some c \<Rightarrow> c | None \<Rightarrow> ''http_'' @ show_nat status),
      ce_message = (case client_asString (problem_field ''detail'' body) of Some d \<Rightarrow> d
         | None \<Rightarrow> (case client_asString (problem_field ''title'' body) of Some t \<Rightarrow> t | None \<Rightarrow> defaultMessage status)),
      ce_correlationId = client_asString (problem_field ''correlationId'' body)\<rparr>"

definition networkError :: client_error where
  "networkError = \<lparr>ce_status = 0, ce_code = ''network_error'',
     ce_message = ''Unable to reach the server. Check your connection.'', ce_correlationId = None\<rparr>"

text \<open>A thrown value: an \<open>ApiError\<close>, another \<open>Error\<close> with its message, or anything else.\<close>

datatype thrown = ThrownApi client_error | ThrownError string | ThrownOther

definition toUserMessage :: "thrown \<Rightarrow> string" where
  "toUserMessage error = (case error of
       ThrownApi e \<Rightarrow> ce_message e
     | ThrownError m \<Rightarrow> if m \<noteq> [] then m else ''An unexpected error occurred.''
     | ThrownOther \<Rightarrow> ''An unexpected error occurred.'')"

definition query_retry :: "nat \<Rightarrow> thrown \<Rightarrow> bool" where
  "query_retry failureCount error =
     (case error of
        ThrownApi e \<Rightarrow> if ce_status e \<in> {401, 403, 404, 400} then False else failureCount < 2
      | _ \<Rightarrow> failureCount < 2)"

section \<open>The HTTP client\<close>

datatype query_value = QStr string | QNum int | QBool bool | QNull | QUndefined

fun query_string :: "query_value \<Rightarrow> string" where
  "query_string (QStr s) = s"
| "query_string (QNum n) = show_int n"
| "query_string (QBool b) = (if b then ''true'' else ''false'')"
| "query_string QNull = ''null''"
| "query_string QUndefined = ''undefined''"

definition buildUrl ::
  "string \<Rightarrow> string \<Rightarrow> (string \<times> query_value) list \<Rightarrow> string \<times> (string \<times> string) list" where
  "buildUrl apiBaseUrl path query =
     (let base = (if ends_with ''/'' apiBaseUrl then butlast apiBaseUrl else apiBaseUrl);
          url = base @ (if starts_with ''/'' path then path else ''/'' @ path)
      in (url, foldl (\<lambda>params (key, v).
            if v \<noteq> QUndefined \<and> v \<noteq> QNull \<and> v \<noteq> QStr [] then AList.update key (query_string v) params else params) [] query))"

record request_options =
  ro_query :: "(string \<times> query_value) list"
  ro_body :: "json option"
  ro_headers :: "(string \<times> string) list"
  ro_anonymous :: bool

record client_request =
  hq_method :: string
  hq_url :: "string \<times> (string \<times> string) list"
  hq_headers :: "(string \<times> string) list"
  hq_payload :: "string option"

record http_response =
  hr_status :: nat
  hr_text :: string

text \<open>The session behind the token bridge, the browser, and what the request changes there.\<close>

record 's http_env =
  he_apiBaseUrl :: string
  he_getToken :: "'s \<Rightarrow> string option \<times> 's"
  he_onUnauthorized :: "'s \<Rightarrow> 's"
  he_fetch :: "client_request \<Rightarrow> 's \<Rightarrow> http_response option \<times> 's"

text \<open>Header names are lower case here; \<open>set\<close> replaces.\<close>

definition request_headers :: "request_options \<Rightarrow> string option \<Rightarrow> (string \<times> string) list" where
  "request_headers options token =
     (let h1 = foldl (\<lambda>h (k, v). AList.update k v h) [(''accept'', ''application/json'')] (ro_headers options);
          h2 = (case some_id token of Some t \<Rightarrow> AList.update ''authorization'' (''Bearer '' @ t) h1 | None \<Rightarrow> h1)
      in if ro_body options \<noteq> None then AList.update ''content-type'' ''application/json'' h2 else h2)"

definition safeJsonParse :: "string \<Rightarrow> json" where
  "safeJsonParse text = (case json_parse text of Some v \<Rightarrow> v | None \<Rightarrow> JStr text)"

definition client_ok :: "nat \<Rightarrow> bool" where
  "client_ok status \<longleftrightarrow> 200 \<le> status \<and> status \<le> 299"

definition http_request ::
  "'s http_env \<Rightarrow> string \<Rightarrow> string \<Rightarrow> request_options \<Rightarrow> (client_error, 's, json option) eop" where
  "http_request env method path options = (\<lambda>s0.
     let (token, s1) = (if ro_anonymous options then (None, s0) else he_getToken env s0);
         req = \<lparr>hq_method = method, hq_url = buildUrl (he_apiBaseUrl env) path (ro_query options),
                hq_headers = request_headers options token, hq_payload = map_option json_stringify (ro_body options)\<rparr>
     in case he_fetch env req s1 of
          (None, s2) \<Rightarrow> (Inl networkError, s2)
        | (Some response, s2) \<Rightarrow>
            (let s3 = (if hr_status response = 401 then he_onUnauthorized env s2 else s2)
             in if hr_status response = 204 then (Inr None, s3)
                else let body = (if length (hr_text response) > 0 then Some (safeJsonParse (hr_text response)) else None)
                     in if \<not> client_ok (hr_status response)
                        then (Inl (apiErrorFromResponse (hr_status response) body), s3)
                        else (Inr body, s3)))"

section \<open>The API's errors as the client sees them\<close>

text \<open>\<open>res.status(status).json(body)\<close> of the API's error handler.\<close>

definition error_body :: "api_error_response \<Rightarrow> json" where
  "error_body r = JObj ([(''type'', JStr (aer_type r)), (''title'', JStr (aer_title r)), (''status'', JNum (int (aer_status r))),
     (''code'', JStr (aer_code r)), (''correlationId'', JStr (aer_correlationId r))]
     @ (case aer_detail r of None \<Rightarrow> [] | Some d \<Rightarrow> [(''detail'', JStr d)]))"

definition error_answer :: "api_error_response \<Rightarrow> http_response" where
  "error_answer r = \<lparr>hr_status = aer_status r, hr_text = json_stringify (error_body r)\<rparr>"

lemma error_body_fields:
  "jget ''code'' (error_body r) = Some (JStr (aer_code r))"
  "jget ''title'' (error_body r) = Some (JStr (aer_title r))"
  "jget ''detail'' (error_body r) = map_option JStr (aer_detail r)"
  "jget ''correlationId'' (error_body r) = Some (JStr (aer_correlationId r))"
  by (simp_all add: error_body_def split: option.splits)

lemma error_body_parses: "safeJsonParse (json_stringify (error_body r)) = error_body r"
proof -
  have "json_wf (error_body r)" by (simp add: error_body_def split: option.splits)
  then show ?thesis by (simp add: safeJsonParse_def json_roundtrip)
qed

lemma json_text_nonempty: "json_stringify (error_body r) \<noteq> []"
  by (simp add: error_body_def)

definition seen_error :: "api_error_response \<Rightarrow> client_error" where
  "seen_error r = \<lparr>ce_status = aer_status r,
     ce_code = (if aer_code r = [] then ''http_'' @ show_nat (aer_status r) else aer_code r),
     ce_message = (case some_id (aer_detail r) of Some d \<Rightarrow> d
        | None \<Rightarrow> if aer_title r = [] then defaultMessage (aer_status r) else aer_title r),
     ce_correlationId = some_id (Some (aer_correlationId r))\<rparr>"

lemma apiErrorFromResponse_seen: "apiErrorFromResponse (aer_status r) (Some (error_body r)) = seen_error r"
  by (cases "aer_detail r")
    (auto simp: apiErrorFromResponse_def seen_error_def problem_field_def client_asString_def error_body_fields some_id_def)

lemma error_status_not_ok: "\<not> client_ok (aer_status (error_handler e rid)) \<and> aer_status (error_handler e rid) \<noteq> 204"
  using status_by_category_range [of "exn_category e"] by (simp add: error_handler_status client_ok_def)

text \<open>C22: An error of the API reaches the user as what it is. Whatever a handler throws, the answer of the
  error handler, sent as JSON, makes the call of the client fail with an error that carries the status
  of the error's category, its code, the correlation identifier, and as message the detail or else the
  title; and the session ends exactly if the caller was unauthenticated. Nothing is lost or mixed up
  between the two ends, for every method, path, options and state of the session.\<close>

theorem client_sees_api_error:
  assumes "he_fetch env req s1 = (Some (error_answer (error_handler e rid)), s2)"
    and "(if ro_anonymous options then (None, s) else he_getToken env s) = (token, s1)"
    and "req = \<lparr>hq_method = method, hq_url = buildUrl (he_apiBaseUrl env) path (ro_query options),
           hq_headers = request_headers options token, hq_payload = map_option json_stringify (ro_body options)\<rparr>"
  shows "http_request env method path options s
    = (Inl (seen_error (error_handler e rid)), if exn_category e = CatUnauthenticated then he_onUnauthorized env s2 else s2)"
proof -
  have "aer_status (error_handler e rid) = 401 \<longleftrightarrow> exn_category e = CatUnauthenticated"
    using status_by_category_inj [of "exn_category e" CatUnauthenticated] by (simp add: error_handler_status)
  then show ?thesis
    using assms error_status_not_ok [of e rid]
    by (simp add: http_request_def Let_def split_beta error_answer_def error_body_parses json_text_nonempty
        apiErrorFromResponse_seen)
qed

definition example_http_env :: "bool http_env" where
  "example_http_env = \<lparr>he_apiBaseUrl = ''http://api/'', he_getToken = (\<lambda>s. (Some ''t'', s)), he_onUnauthorized = (\<lambda>_. False),
     he_fetch = (\<lambda>_ s. (Some (error_answer (error_handler (unauthenticated_error ''Token expired.'') (Some ''r1''))), s))\<rparr>"

theorem client_sees_api_error_witness:
  "fst (http_request example_http_env ''GET'' ''/me'' \<lparr>ro_query = [], ro_body = None, ro_headers = [], ro_anonymous = False\<rparr> True)
     = Inl (seen_error (error_handler (unauthenticated_error ''Token expired.'') (Some ''r1'')))
   \<and> snd (http_request example_http_env ''GET'' ''/me'' \<lparr>ro_query = [], ro_body = None, ro_headers = [], ro_anonymous = False\<rparr> True)
     = False"
proof -
  let ?e = "unauthenticated_error ''Token expired.''"
  have "http_request example_http_env ''GET'' ''/me'' \<lparr>ro_query = [], ro_body = None, ro_headers = [], ro_anonymous = False\<rparr> True
      = (Inl (seen_error (error_handler ?e (Some ''r1''))),
         if exn_category ?e = CatUnauthenticated then he_onUnauthorized example_http_env True else True)"
    by (rule client_sees_api_error [OF _ _ refl]) (simp_all add: example_http_env_def)
  then show ?thesis by (simp add: example_http_env_def)
qed

text \<open>The token is sent unless the request is anonymous or there is none, and no header of the caller
  can replace it.\<close>

lemma request_headers_token:
  "token = Some t \<Longrightarrow> t \<noteq> [] \<Longrightarrow> map_of (request_headers options token) ''authorization'' = Some (''Bearer '' @ t)"
  by (simp add: request_headers_def Let_def some_id_def update_conv')

lemma retry_gives_up: "query_retry n e \<Longrightarrow> n < 2"
  by (auto simp: query_retry_def split: thrown.splits if_splits)

lemma no_retry_of_refusals:
  "exn_category e \<in> {CatValidation, CatUnauthenticated, CatForbidden, CatNotFound} \<Longrightarrow>
   \<not> query_retry n (ThrownApi (seen_error (error_handler e rid)))"
  by (auto simp: query_retry_def seen_error_def error_handler_status)

section \<open>The environment\<close>

definition readString :: "string option \<Rightarrow> string \<Rightarrow> string" where
  "readString v fallback = (case some_id (map_option js_trim v) of Some t \<Rightarrow> t | None \<Rightarrow> fallback)"

definition readBoolean :: "(string \<Rightarrow> string) \<Rightarrow> string option \<Rightarrow> bool \<Rightarrow> bool" where
  "readBoolean toLowerCase v fallback = (case v of None \<Rightarrow> fallback | Some x \<Rightarrow> toLowerCase (js_trim x) = ''true'')"

record app_env =
  av_apiBaseUrl :: string
  av_keycloakUrl :: string
  av_keycloakRealm :: string
  av_keycloakClientId :: string
  av_appName :: string
  av_useMocks :: bool
  av_isProduction :: bool

definition buildEnv :: "(string \<Rightarrow> string) \<Rightarrow> bool \<Rightarrow> (string \<Rightarrow> string option) \<Rightarrow> app_env" where
  "buildEnv toLowerCase isProduction var =
     (let useMocks = readBoolean toLowerCase (var ''VITE_USE_MOCKS'') (\<not> isProduction)
      in \<lparr>av_apiBaseUrl = readString (var ''VITE_API_BASE_URL'') ''http://localhost:3000/api/v1'',
          av_keycloakUrl = readString (var ''VITE_KEYCLOAK_URL'') ''http://localhost:8080'',
          av_keycloakRealm = readString (var ''VITE_KEYCLOAK_REALM'') ''nova'',
          av_keycloakClientId = readString (var ''VITE_KEYCLOAK_CLIENT_ID'') ''nova-frontend'',
          av_appName = readString (var ''VITE_APP_NAME'') ''Nova'',
          av_useMocks = useMocks \<and> \<not> isProduction, av_isProduction = isProduction\<rparr>)"

lemma no_mocks_in_production: "\<not> av_useMocks (buildEnv lc True var)"
  by (simp add: buildEnv_def Let_def)

text \<open>The module's comment promises to fail fast when a production build lacks a value; it falls back
  to the local defaults instead.\<close>

lemma production_falls_back: "av_apiBaseUrl (buildEnv lc True (\<lambda>_. None)) = ''http://localhost:3000/api/v1''"
  by (simp add: buildEnv_def Let_def readString_def some_id_def)

section \<open>The session\<close>

datatype session_status = Initializing | Authenticated | Unauthenticated | SessionError

datatype session_event = InitResolved bool | InitRejected | Unauthorized401 | MockLogin

fun session_step :: "session_status \<Rightarrow> session_event \<Rightarrow> session_status" where
  "session_step s (InitResolved authenticated) = (if authenticated then Authenticated else Unauthenticated)"
| "session_step s InitRejected = SessionError"
| "session_step s Unauthorized401 = Unauthenticated"
| "session_step s MockLogin = Authenticated"

datatype gate = GateLoading string | GateError string | GateLogin | GateOpen

definition requireAuth :: "session_status \<Rightarrow> bool \<Rightarrow> bool \<Rightarrow> bool \<Rightarrow> gate" where
  "requireAuth status isLoadingUser userError hasUser =
     (if status = Initializing then GateLoading ''Starting Nova''
      else if status = SessionError then GateError ''Sign-in unavailable''
      else if status = Unauthenticated then GateLogin
      else if isLoadingUser then GateLoading ''Loading your workspace''
      else if userError \<or> \<not> hasUser then GateError ''Could not load your profile''
      else GateOpen)"

text \<open>The gate opens only with a session and a profile; after a 401 it leads to the login, whatever
  profile is still cached.\<close>

lemma gate_open_iff:
  "requireAuth status l e u = GateOpen \<longleftrightarrow> status = Authenticated \<and> \<not> l \<and> \<not> e \<and> u"
  by (cases status) (auto simp: requireAuth_def)

lemma gate_after_401: "requireAuth (session_step s Unauthorized401) l e u = GateLogin"
  by (simp add: requireAuth_def)

text \<open>\<open>getToken\<close> of the Keycloak session: a failed refresh yields no token.\<close>

definition keycloak_getToken :: "('s \<Rightarrow> bool \<times> 's) \<Rightarrow> ('s \<Rightarrow> string option) \<Rightarrow> 's \<Rightarrow> string option \<times> 's" where
  "keycloak_getToken updateToken token = (\<lambda>s. case updateToken s of
     (True, s') \<Rightarrow> (token s', s') | (False, s') \<Rightarrow> (None, s'))"

section \<open>Links emitted by an agent\<close>

definition hex_upper :: "nat \<Rightarrow> char" where
  "hex_upper d = (if d < 10 then char_of (48 + d) else char_of (55 + d))"

definition percent :: "nat \<Rightarrow> string" where
  "percent n = [CHR ''%'', hex_upper (n div 16), hex_upper (n mod 16)]"

definition uri_unreserved :: "char \<Rightarrow> bool" where
  "uri_unreserved c \<longleftrightarrow> (let n = of_char c :: nat in
     48 \<le> n \<and> n \<le> 57 \<or> 65 \<le> n \<and> n \<le> 90 \<or> 97 \<le> n \<and> n \<le> 122
     \<or> n \<in> {33, 39, 40, 41, 42, 45, 46, 95, 126})"

text \<open>A code unit of 128 to 255 takes two bytes in UTF-8.\<close>

definition encode_char :: "char \<Rightarrow> string" where
  "encode_char c = (let n = of_char c :: nat in
     if uri_unreserved c then [c]
     else if n < 128 then percent n
     else percent (192 + n div 64) @ percent (128 + n mod 64))"

definition encodeURIComponent :: "string \<Rightarrow> string" where
  "encodeURIComponent s = concat (map encode_char s)"

definition resolveNovaLink :: "string \<Rightarrow> string option" where
  "resolveNovaLink link =
     (let i = encodeURIComponent (last (js_split (CHR ''/'') link))
      in if length i = 0 then None
         else if starts_with ''nova://sales/'' link then Some (''/app/sales/'' @ i)
         else if starts_with ''nova://issues/'' link then Some (''/app/issues/'' @ i)
         else if starts_with ''nova://customers/'' link then Some (''/app/customers?customer='' @ i)
         else if starts_with ''nova://actions/'' link then Some (''/app/actions?action='' @ i)
         else if starts_with ''nova://sops/'' link then Some (''/app/sops/'' @ i)
         else if starts_with ''nova://roles/'' link then Some (''/app/admin/roles?role='' @ i)
         else None)"

definition isResolvableNovaLink :: "string \<Rightarrow> bool" where
  "isResolvableNovaLink link \<longleftrightarrow> resolveNovaLink link \<noteq> None"

definition nova_targets :: "string list" where
  "nova_targets = [''/app/sales/'', ''/app/issues/'', ''/app/customers?customer='', ''/app/actions?action='',
     ''/app/sops/'', ''/app/admin/roles?role='']"

lemma of_char_hex_upper: "d < 16 \<Longrightarrow> of_char (hex_upper d) \<in> {48..57} \<union> {65..70 :: nat}"
  by (auto simp: hex_upper_def of_char_of)

lemma hex_upper_unreserved: "d < 16 \<Longrightarrow> uri_unreserved (hex_upper d)"
  using of_char_hex_upper [of d] by (auto simp: uri_unreserved_def Let_def)

lemma percent_chars: "n < 256 \<Longrightarrow> c \<in> set (percent n) \<Longrightarrow> uri_unreserved c \<or> c = CHR ''%''"
  using hex_upper_unreserved [of "n div 16"] hex_upper_unreserved [of "n mod 16"] by (auto simp: percent_def)

lemma encode_chars:
  assumes "c \<in> set (encodeURIComponent s)"
  shows "uri_unreserved c \<or> c = CHR ''%''"
proof -
  from assms obtain x where x: "x \<in> set s" "c \<in> set (encode_char x)" by (auto simp: encodeURIComponent_def)
  have "(of_char x :: nat) < 64 * 64" using nat_of_char_less_256 [of x] by linarith
  then have "192 + of_char x div 64 < (256 :: nat)" "128 + of_char x mod 64 < (256 :: nat)"
    by (simp_all add: div_less_iff_less_mult less_trans [OF mod_less_divisor])
  moreover have "c \<in> set (percent n) \<Longrightarrow> n < 256 \<Longrightarrow> uri_unreserved c \<or> c = CHR ''%''" for n
    using percent_chars by blast
  ultimately show ?thesis
    using x(2) nat_of_char_less_256 [of x] by (auto simp: encode_char_def Let_def split: if_splits)
qed

lemma encode_no_separator:
  assumes "c \<in> {CHR ''/'', CHR ''?'', CHR ''#'', CHR ''&'', CHR '':'', CHR 0x5C}"
  shows "c \<notin> set (encodeURIComponent s)"
  using assms encode_chars [of c s] by (auto simp: uri_unreserved_def Let_def)

lemma novaLink_target:
  assumes "resolveNovaLink link = Some t"
  shows "\<exists>p\<in>set nova_targets. \<exists>i. i \<noteq> [] \<and> t = p @ i \<and> i = encodeURIComponent (last (js_split (CHR ''/'') link))"
  using assms by (auto simp: resolveNovaLink_def nova_targets_def Let_def split: if_splits)

end
