(* ===== verification/Keycloak_Client.thy ===== *)
theory Keycloak_Client
  imports Keycloak Service_Token Web_Client
begin

text \<open>
  The client of Keycloak's Admin REST API (\<open>api/src/auth/keycloak-admin-client.ts\<close>): the token it caches and
  one request per method. The server is the argument \<open>fetch\<close> with its own state, whose clock the client
  reads; the body of an answer is what the endpoint's type says, or unreadable. \<open>keycloak_client\<close> is the
  record that \<open>Keycloak\<close> takes as its client. The status of a \<open>KeycloakAdminError\<close> is left out: nothing reads it.
\<close>

section \<open>Requests and answers\<close>

record keycloak_config =
  kf_baseUrl :: string
  kf_realm :: string
  kf_clientId :: string
  kf_clientSecret :: string

datatype kc_request_body = NoBody | FormBody "(string \<times> string) list" | JsonBody json

record kc_request =
  kq_method :: string
  kq_url :: string
  kq_bearer :: "string option"
  kq_body :: kc_request_body

datatype kc_payload = TokenPayload token_response | UsersPayload "string list" | RolePayload realm_role | RolesPayload "realm_role list"

text \<open>An answer has a status, the \<open>Location\<close> header, and a body if it is JSON of the type read.\<close>

datatype kc_answer = KcTimeout | KcFailed | KcAnswer nat "string option" "kc_payload option"

type_synonym 'k kc_server = "kc_request \<Rightarrow> 'k \<Rightarrow> kc_answer \<times> 'k"

record 'k kc_state =
  ks_cachedToken :: "(string \<times> int) option"
  ks_server :: 'k

record 'k kc_env =
  kv_config :: keycloak_config
  kv_fetch :: "'k kc_server"
  kv_now :: "'k \<Rightarrow> int"

definition TOKEN_EXPIRY_SKEW_MS :: int where
  "TOKEN_EXPIRY_SKEW_MS = 15000"

definition adminBase :: "keycloak_config \<Rightarrow> string" where
  "adminBase config = kf_baseUrl config @ ''/admin/realms/'' @ encodeURIComponent (kf_realm config)"

type_synonym ('k, 'a) kc_op = "(kc_error, 'k kc_state, 'a) eop"

definition fetchWithTimeout :: "'k kc_env \<Rightarrow> kc_request \<Rightarrow> ('k, nat \<times> string option \<times> kc_payload option) kc_op" where
  "fetchWithTimeout env request = (\<lambda>s. case kv_fetch env request (ks_server s) of (answer, k) \<Rightarrow>
     (case answer of
        KcTimeout \<Rightarrow> Inl (KeycloakAdminError ''Keycloak admin request timed out.'')
      | KcFailed \<Rightarrow> Inl (KeycloakAdminError ''Keycloak admin request failed.'')
      | KcAnswer status location body \<Rightarrow> Inr (status, location, body), s\<lparr>ks_server := k\<rparr>))"

text \<open>\<open>await response.json()\<close>: a body that is not what its type says is another error.\<close>

definition readBody :: "(kc_payload \<Rightarrow> 'a option) \<Rightarrow> kc_payload option \<Rightarrow> ('k, 'a) kc_op" where
  "readBody read body = someM (Option.bind body read) KcOther"

fun as_token :: "kc_payload \<Rightarrow> token_response option" where
  "as_token (TokenPayload t) = Some t" | "as_token _ = None"

fun as_users :: "kc_payload \<Rightarrow> string list option" where
  "as_users (UsersPayload us) = Some us" | "as_users _ = None"

fun as_role :: "kc_payload \<Rightarrow> realm_role option" where
  "as_role (RolePayload r) = Some r" | "as_role _ = None"

fun as_roles :: "kc_payload \<Rightarrow> realm_role list option" where
  "as_roles (RolesPayload rs) = Some rs" | "as_roles _ = None"

definition kc_token_request :: "keycloak_config \<Rightarrow> kc_request" where
  "kc_token_request config = \<lparr>kq_method = ''POST'',
     kq_url = kf_baseUrl config @ ''/realms/'' @ encodeURIComponent (kf_realm config) @ ''/protocol/openid-connect/token'',
     kq_bearer = None,
     kq_body = FormBody [(''grant_type'', ''client_credentials''), (''client_id'', kf_clientId config),
       (''client_secret'', kf_clientSecret config)]\<rparr>"

definition kc_getToken :: "'k kc_env \<Rightarrow> ('k, string) kc_op" where
  "kc_getToken env = (\<lambda>s.
     let now = kv_now env (ks_server s);
         request = bindM (fetchWithTimeout env (kc_token_request (kv_config env))) (\<lambda>(status, _, body).
           thenM (guardM (response_ok status) (KeycloakAdminError ''Failed to obtain a Keycloak admin token.''))
           (bindM (readBody as_token body) (\<lambda>json.
            bindM (someM (some_id (tk_access_token json))
                (KeycloakAdminError ''Keycloak token response did not include an access token.'')) (\<lambda>token.
            thenM (modifyM (\<lambda>s. s\<lparr>ks_cachedToken := Some (token,
                now + (case tk_expires_in json of None \<Rightarrow> 60 | Some e \<Rightarrow> e) * 1000)\<rparr>))
              (returnM token)))))
     in case ks_cachedToken s of
          Some (val, expiresAt) \<Rightarrow> if expiresAt - TOKEN_EXPIRY_SKEW_MS > now then (Inr val, s) else request s
        | None \<Rightarrow> request s)"

definition authedFetch ::
  "'k kc_env \<Rightarrow> string \<Rightarrow> string \<Rightarrow> kc_request_body \<Rightarrow> ('k, nat \<times> string option \<times> kc_payload option) kc_op" where
  "authedFetch env m path body = bindM (kc_getToken env) (\<lambda>token.
     fetchWithTimeout env \<lparr>kq_method = m, kq_url = adminBase (kv_config env) @ path, kq_bearer = Some token, kq_body = body\<rparr>)"

section \<open>Methods\<close>

definition ensureOk :: "nat \<Rightarrow> nat list \<Rightarrow> string \<Rightarrow> ('k, unit) kc_op" where
  "ensureOk status others message = guardM (response_ok status \<or> status \<in> set others) (KeycloakAdminError message)"

definition user_path :: "string \<Rightarrow> string" where
  "user_path userId = ''/users/'' @ encodeURIComponent userId"

definition role_mappings_path :: "string \<Rightarrow> string" where
  "role_mappings_path userId = user_path userId @ ''/role-mappings/realm''"

definition role_path :: "string \<Rightarrow> string" where
  "role_path name = ''/roles/'' @ encodeURIComponent name"

definition findUserByUsername :: "'k kc_env \<Rightarrow> string \<Rightarrow> ('k, string option) kc_op" where
  "findUserByUsername env username =
     bindM (authedFetch env ''GET'' (''/users?exact=true&username='' @ encodeURIComponent username) NoBody) (\<lambda>(status, _, body).
     thenM (ensureOk status [] ''Failed to query Keycloak users.'')
     (bindM (readBody as_users body) (\<lambda>users. returnM (case users of [] \<Rightarrow> None | u # _ \<Rightarrow> Some u))))"

definition new_user_json :: "kc_new_user \<Rightarrow> json" where
  "new_user_json input = JObj [(''username'', JStr (kn_username input)), (''email'', JStr (kn_email input)),
     (''firstName'', JStr (kn_firstName input)), (''lastName'', JStr (kn_lastName input)),
     (''enabled'', JBool (kn_enabled input)), (''emailVerified'', JBool False),
     (''requiredActions'', JArr [JStr ''UPDATE_PASSWORD''])]"

definition kc_client_createUser :: "'k kc_env \<Rightarrow> kc_new_user \<Rightarrow> ('k, string) kc_op" where
  "kc_client_createUser env input =
     bindM (authedFetch env ''POST'' ''/users'' (JsonBody (new_user_json input))) (\<lambda>(status, location, _).
     bindM (if status = 409 then findUserByUsername env (kn_username input) else returnM None) (\<lambda>conflicting.
     case conflicting of
       Some existing \<Rightarrow> returnM existing
     | None \<Rightarrow>
       thenM (ensureOk status [201] ''Failed to create the Keycloak user.'')
       (case Option.bind location (\<lambda>l. some_id (Some (last (js_split (CHR ''/'') l)))) of
          Some i \<Rightarrow> returnM i
        | None \<Rightarrow> bindM (findUserByUsername env (kn_username input)) (\<lambda>existing.
            someM existing (KeycloakAdminError ''Keycloak did not return the created user id.'')))))"

definition setUserEnabled :: "'k kc_env \<Rightarrow> string \<Rightarrow> bool \<Rightarrow> ('k, unit) kc_op" where
  "setUserEnabled env userId enabled =
     bindM (authedFetch env ''PUT'' (user_path userId) (JsonBody (JObj [(''enabled'', JBool enabled)]))) (\<lambda>(status, _, _).
     ensureOk status [204] ''Failed to update the Keycloak user.'')"

definition updateUserProfile :: "'k kc_env \<Rightarrow> string \<Rightarrow> string \<Rightarrow> string \<Rightarrow> ('k, unit) kc_op" where
  "updateUserProfile env userId firstName lastName =
     bindM (authedFetch env ''PUT'' (user_path userId)
       (JsonBody (JObj [(''firstName'', JStr firstName), (''lastName'', JStr lastName)]))) (\<lambda>(status, _, _).
     ensureOk status [204] ''Failed to update the Keycloak user.'')"

definition getRealmRole :: "'k kc_env \<Rightarrow> string \<Rightarrow> ('k, realm_role option) kc_op" where
  "getRealmRole env name =
     bindM (authedFetch env ''GET'' (role_path name) NoBody) (\<lambda>(status, _, body).
     if status = 404 then returnM None
     else thenM (ensureOk status [] ''Failed to read a Keycloak realm role.'')
       (bindM (readBody as_role body) (\<lambda>role. returnM (Some role))))"

definition createRealmRole :: "'k kc_env \<Rightarrow> string \<Rightarrow> string option \<Rightarrow> ('k, realm_role) kc_op" where
  "createRealmRole env name description =
     bindM (authedFetch env ''POST'' ''/roles'' (JsonBody (JObj ((''name'', JStr name)
       # (case some_id description of Some d \<Rightarrow> [(''description'', JStr d)] | None \<Rightarrow> []))))) (\<lambda>(status, _, _).
     bindM (if status = 409 then getRealmRole env name else returnM None) (\<lambda>conflicting.
     case conflicting of
       Some existing \<Rightarrow> returnM existing
     | None \<Rightarrow>
       thenM (ensureOk status [201] ''Failed to create the Keycloak realm role.'')
       (bindM (getRealmRole env name) (\<lambda>created.
        someM created (KeycloakAdminError ''Keycloak did not return the created realm role.'')))))"

definition updateRealmRole :: "'k kc_env \<Rightarrow> string \<Rightarrow> string option \<Rightarrow> ('k, unit) kc_op" where
  "updateRealmRole env name description =
     bindM (authedFetch env ''PUT'' (role_path name)
       (JsonBody (JObj [(''name'', JStr name), (''description'', JStr (nullish description []))]))) (\<lambda>(status, _, _).
     ensureOk status [204] ''Failed to update the Keycloak realm role.'')"

definition deleteRealmRole :: "'k kc_env \<Rightarrow> string \<Rightarrow> ('k, unit) kc_op" where
  "deleteRealmRole env name =
     bindM (authedFetch env ''DELETE'' (role_path name) NoBody) (\<lambda>(status, _, _).
     ensureOk status [204, 404] ''Failed to delete the Keycloak realm role.'')"

definition getUserRealmRoles :: "'k kc_env \<Rightarrow> string \<Rightarrow> ('k, string list) kc_op" where
  "getUserRealmRoles env userId =
     bindM (authedFetch env ''GET'' (role_mappings_path userId) NoBody) (\<lambda>(status, _, body).
     thenM (ensureOk status [] ''Failed to read Keycloak role mappings.'')
     (bindM (readBody as_roles body) (\<lambda>roles. returnM (map rr_name roles))))"

definition roles_json :: "realm_role list \<Rightarrow> json" where
  "roles_json roles = JArr (map (\<lambda>r. JObj [(''id'', JStr (rr_id r)), (''name'', JStr (rr_name r))]) roles)"

definition addRealmRoles :: "'k kc_env \<Rightarrow> string \<Rightarrow> realm_role list \<Rightarrow> ('k, unit) kc_op" where
  "addRealmRoles env userId roles =
     (if length roles = 0 then returnM ()
      else bindM (authedFetch env ''POST'' (role_mappings_path userId) (JsonBody (roles_json roles))) (\<lambda>(status, _, _).
        ensureOk status [204] ''Failed to add Keycloak role mappings.''))"

definition removeRealmRoles :: "'k kc_env \<Rightarrow> string \<Rightarrow> realm_role list \<Rightarrow> ('k, unit) kc_op" where
  "removeRealmRoles env userId roles =
     (if length roles = 0 then returnM ()
      else bindM (authedFetch env ''DELETE'' (role_mappings_path userId) (JsonBody (roles_json roles))) (\<lambda>(status, _, _).
        ensureOk status [204] ''Failed to remove Keycloak role mappings.''))"

definition sendUpdatePasswordEmail :: "'k kc_env \<Rightarrow> string \<Rightarrow> ('k, unit) kc_op" where
  "sendUpdatePasswordEmail env userId =
     bindM (authedFetch env ''PUT'' (user_path userId @ ''/execute-actions-email'') (JsonBody (JArr [JStr ''UPDATE_PASSWORD'']))) (\<lambda>(status, _, _).
     ensureOk status [204] ''Failed to send the Keycloak action email.'')"

definition keycloak_client :: "'k kc_env \<Rightarrow> 'k kc_state kc_client" where
  "keycloak_client env =
     \<lparr>kc_createRealmRole = createRealmRole env, kc_updateRealmRole = updateRealmRole env,
      kc_getRealmRole = getRealmRole env, kc_deleteRealmRole = deleteRealmRole env,
      kc_createUser = kc_client_createUser env, kc_findUserByUsername = findUserByUsername env,
      kc_setUserEnabled = setUserEnabled env, kc_updateUserProfile = updateUserProfile env,
      kc_getUserRealmRoles = getUserRealmRoles env, kc_addRealmRoles = addRealmRoles env,
      kc_removeRealmRoles = removeRealmRoles env, kc_sendUpdatePasswordEmail = sendUpdatePasswordEmail env\<rparr>"

section \<open>Paths\<close>

lemma hex_upper_inj: "d < 16 \<Longrightarrow> e < 16 \<Longrightarrow> hex_upper d = hex_upper e \<Longrightarrow> d = e"
  by (auto simp: hex_upper_def dest!: arg_cong [where f = "of_char :: char \<Rightarrow> nat"] split: if_splits)

lemma percent_inj:
  assumes "m < 256" "n < 256" "percent m @ x = percent n @ y"
  shows "m = n \<and> x = y"
proof -
  from assms(1,2) have "m div 16 < 16" "n div 16 < 16" by linarith+
  with assms(3) hex_upper_inj [of "m div 16" "n div 16"] hex_upper_inj [of "m mod 16" "n mod 16"]
  have "m div 16 = n div 16" "m mod 16 = n mod 16" "x = y" by (simp_all add: percent_def)
  then show ?thesis by (metis div_mult_mod_eq)
qed

lemma two_bytes_inj:
  assumes "m < 256" "n < (256 :: nat)"
    and "percent (192 + m div 64) @ percent (128 + m mod 64) @ x = percent (192 + n div 64) @ percent (128 + n mod 64) @ y"
  shows "m = n \<and> x = y"
proof -
  have b: "192 + m div 64 < 256" "192 + n div 64 < 256" "128 + m mod 64 < 256" "128 + n mod 64 < 256"
    using assms(1,2) by linarith+
  from percent_inj [OF b(1,2) assms(3)] have "m div 64 = n div 64"
    and "percent (128 + m mod 64) @ x = percent (128 + n mod 64) @ y" by auto
  with percent_inj [OF b(3,4), of x y] have "m div 64 = n div 64" "m mod 64 = n mod 64" "x = y" by auto
  then show ?thesis by (metis div_mult_mod_eq)
qed

lemma byte_kinds_apart:
  assumes "m < 128" "n < (256 :: nat)"
  shows "percent m @ x \<noteq> percent (192 + n div 64) @ y"
proof
  assume e: "percent m @ x = percent (192 + n div 64) @ y"
  have "m < 256" "192 + n div 64 < 256" using assms by linarith+
  from percent_inj [OF this e] assms(1) show False by simp
qed

lemma percent_starts: "percent n = CHR ''%'' # [hex_upper (n div 16), hex_upper (n mod 16)]"
  by (simp add: percent_def)

lemma percent_reserved: "\<not> uri_unreserved (CHR ''%'')"
  by code_simp

lemma encode_char_prefix_free:
  assumes "encode_char c @ x = encode_char d @ y"
  shows "c = d \<and> x = y"
proof -
  let ?m = "of_char c :: nat" and ?n = "of_char d :: nat"
  have b: "?m < 256" "?n < 256" by (rule nat_of_char_less_256)+
  have inj: "?m = ?n \<Longrightarrow> c = d" by simp
  consider "uri_unreserved c" "uri_unreserved d" | "uri_unreserved c" "\<not> uri_unreserved d"
    | "\<not> uri_unreserved c" "uri_unreserved d" | "\<not> uri_unreserved c" "\<not> uri_unreserved d" by blast
  then show ?thesis
  proof cases
    case 1
    with assms show ?thesis by (simp add: encode_char_def Let_def)
  next
    case 2
    with assms percent_reserved show ?thesis by (auto simp: encode_char_def Let_def percent_starts split: if_splits)
  next
    case 3
    with assms percent_reserved show ?thesis by (auto simp: encode_char_def Let_def percent_starts split: if_splits)
  next
    case 4
    with assms b show ?thesis
      using percent_inj [of ?m ?n x y] two_bytes_inj [of ?m ?n x y] inj
        byte_kinds_apart [of ?m ?n x "percent (128 + ?n mod 64) @ y"] byte_kinds_apart [of ?n ?m y "percent (128 + ?m mod 64) @ x"]
      by (simp add: encode_char_def Let_def split: if_splits)
  qed
qed

lemma encode_char_some: "encode_char c \<noteq> []"
  by (simp add: encode_char_def Let_def percent_def)

lemma encodeURIComponent_inj: "encodeURIComponent s = encodeURIComponent t \<longleftrightarrow> s = t"
proof (induction s arbitrary: t)
  case Nil
  then show ?case by (cases t) (simp_all add: encodeURIComponent_def encode_char_some)
next
  case (Cons c s)
  show ?case
  proof (cases t)
    case Nil
    then show ?thesis by (simp add: encodeURIComponent_def encode_char_some)
  next
    case t: (Cons d u)
    have "encode_char c @ encodeURIComponent s = encode_char d @ encodeURIComponent u \<Longrightarrow> c = d \<and> s = u"
      using encode_char_prefix_free [of c "encodeURIComponent s" d "encodeURIComponent u"] Cons.IH [of u] by simp
    then show ?thesis unfolding t by (auto simp: encodeURIComponent_def)
  qed
qed

section \<open>Documented behaviour of the server\<close>

text \<open>\<open>valid_until k v t\<close>: the server accepts token \<open>v\<close> while its clock is before \<open>t\<close>. The token endpoint answers
  a token and its lifetime, which outlives the request; the endpoints of the role mappings answer as
  documented when the token is accepted, and no request shortens the life of a token.\<close>

definition kc_ask :: "'k kc_env \<Rightarrow> string \<Rightarrow> string \<Rightarrow> kc_request_body \<Rightarrow> string \<Rightarrow> 'k \<Rightarrow> kc_answer \<times> 'k" where
  "kc_ask env m path body token = kv_fetch env
     \<lparr>kq_method = m, kq_url = adminBase (kv_config env) @ path, kq_bearer = Some token, kq_body = body\<rparr>"

record 'k kc_view =
  vw_valid_until :: "'k \<Rightarrow> string \<Rightarrow> int \<Rightarrow> bool"
  vw_roles_of :: "'k \<Rightarrow> string \<Rightarrow> string list"
  vw_realm :: "'k \<Rightarrow> string set"

definition kc_still :: "'k kc_view \<Rightarrow> 'k \<Rightarrow> 'k \<Rightarrow> bool" where
  "kc_still V k k' \<longleftrightarrow> (\<forall>v t. vw_valid_until V k v t \<longrightarrow> vw_valid_until V k' v t)"

definition kc_quiet :: "'k kc_view \<Rightarrow> 'k \<Rightarrow> 'k \<Rightarrow> bool" where
  "kc_quiet V k k' \<longleftrightarrow> kc_still V k k' \<and> vw_roles_of V k' = vw_roles_of V k \<and> vw_realm V k' = vw_realm V k"

definition kc_live :: "'k kc_env \<Rightarrow> 'k kc_view \<Rightarrow> 'k \<Rightarrow> string \<Rightarrow> bool" where
  "kc_live env V k v \<longleftrightarrow> (\<exists>t. vw_valid_until V k v t \<and> kv_now env k < t)"

definition kc_token_law :: "'k kc_env \<Rightarrow> 'k kc_view \<Rightarrow> bool" where
  "kc_token_law env V \<longleftrightarrow> (\<forall>k. \<exists>token e location k'.
     kv_fetch env (kc_token_request (kv_config env)) k
       = (KcAnswer 200 location (Some (TokenPayload \<lparr>tk_access_token = Some token, tk_expires_in = Some e\<rparr>)), k')
     \<and> token \<noteq> [] \<and> vw_valid_until V k' token (kv_now env k + e * 1000) \<and> kv_now env k' < kv_now env k + e * 1000
     \<and> kc_quiet V k k')"

definition kc_read_law :: "'k kc_env \<Rightarrow> 'k kc_view \<Rightarrow> bool" where
  "kc_read_law env V \<longleftrightarrow> (\<forall>k v. kc_live env V k v \<longrightarrow>
     (\<forall>u. \<exists>roles location k'.
        kc_ask env ''GET'' (role_mappings_path u) NoBody v k = (KcAnswer 200 location (Some (RolesPayload roles)), k')
        \<and> map rr_name roles = vw_roles_of V k u \<and> kc_quiet V k k')
   \<and> (\<forall>r. \<exists>location body k'. kc_quiet V k k' \<and>
        (if r \<in> vw_realm V k
         then \<exists>role. kc_ask env ''GET'' (role_path r) NoBody v k = (KcAnswer 200 location (Some (RolePayload role)), k')
                \<and> rr_name role = r
         else kc_ask env ''GET'' (role_path r) NoBody v k = (KcAnswer 404 location body, k'))))"

definition kc_write_law :: "'k kc_env \<Rightarrow> 'k kc_view \<Rightarrow> bool" where
  "kc_write_law env V \<longleftrightarrow> (\<forall>k v u reps. kc_live env V k v \<longrightarrow> reps \<noteq> [] \<longrightarrow>
     (rr_name ` set reps \<subseteq> vw_realm V k \<longrightarrow> (\<exists>location body k'.
        kc_ask env ''POST'' (role_mappings_path u) (JsonBody (roles_json reps)) v k = (KcAnswer 204 location body, k')
        \<and> kc_still V k k' \<and> (\<forall>w. set (vw_roles_of V k' w) =
             (if w = u then set (vw_roles_of V k u) \<union> rr_name ` set reps else set (vw_roles_of V k w)))))
   \<and> (\<exists>location body k'.
        kc_ask env ''DELETE'' (role_mappings_path u) (JsonBody (roles_json reps)) v k = (KcAnswer 204 location body, k')
        \<and> kc_still V k k' \<and> (\<forall>w. set (vw_roles_of V k' w) =
             (if w = u then set (vw_roles_of V k u) - rr_name ` set reps else set (vw_roles_of V k w)))))"

definition kc_server_lawful :: "'k kc_env \<Rightarrow> 'k kc_view \<Rightarrow> bool" where
  "kc_server_lawful env V \<longleftrightarrow> kc_token_law env V \<and> kc_read_law env V \<and> kc_write_law env V
     \<and> (\<forall>k u. set (vw_roles_of V k u) \<subseteq> vw_realm V k)"

text \<open>The client's own state: its cached token is accepted as long as it says.\<close>

definition kc_cache_good :: "'k kc_view \<Rightarrow> 'k kc_state \<Rightarrow> bool" where
  "kc_cache_good V s \<longleftrightarrow> (\<forall>v t. ks_cachedToken s = Some (v, t) \<longrightarrow> vw_valid_until V (ks_server s) v t)"

lemma kc_still_trans: "kc_still V a b \<Longrightarrow> kc_still V b c \<Longrightarrow> kc_still V a c"
  by (simp add: kc_still_def)

lemma kc_cache_still: "kc_cache_good V s \<Longrightarrow> kc_still V (ks_server s) k \<Longrightarrow> kc_cache_good V (s\<lparr>ks_server := k\<rparr>)"
  by (simp add: kc_cache_good_def kc_still_def)

lemma cached_token_reused:
  assumes "ks_cachedToken s = Some (v, t)" and "t - TOKEN_EXPIRY_SKEW_MS > kv_now env (ks_server s)"
  shows "kc_getToken env s = (Inr v, s)"
  using assms by (simp add: kc_getToken_def Let_def)

lemma failed_token_keeps_cache:
  "kc_getToken env s = (Inl e, s') \<Longrightarrow> ks_cachedToken s' = ks_cachedToken s"
  by (auto simp: kc_getToken_def Let_def fetchWithTimeout_def readBody_def op_defs
      split: option.splits prod.splits kc_answer.splits if_splits sum.splits)

lemma kc_getToken_live:
  assumes law: "kc_server_lawful env V" and good: "kc_cache_good V s"
  shows "\<exists>v s'. kc_getToken env s = (Inr v, s') \<and> kc_cache_good V s' \<and> kc_live env V (ks_server s') v
    \<and> kc_quiet V (ks_server s) (ks_server s')"
proof (cases "\<exists>v t. ks_cachedToken s = Some (v, t) \<and> t - TOKEN_EXPIRY_SKEW_MS > kv_now env (ks_server s)")
  case True
  then obtain v t where c: "ks_cachedToken s = Some (v, t)" "t - TOKEN_EXPIRY_SKEW_MS > kv_now env (ks_server s)" by blast
  with good have "vw_valid_until V (ks_server s) v t" by (simp add: kc_cache_good_def)
  with c have "kc_live env V (ks_server s) v" by (auto simp: kc_live_def TOKEN_EXPIRY_SKEW_MS_def intro!: exI [of _ t])
  with cached_token_reused [OF c] good show ?thesis by (auto simp: kc_quiet_def kc_still_def)
next
  case False
  from law have "kc_token_law env V" by (simp add: kc_server_lawful_def)
  then obtain v e location k' where f: "kv_fetch env (kc_token_request (kv_config env)) (ks_server s)
      = (KcAnswer 200 location (Some (TokenPayload \<lparr>tk_access_token = Some v, tk_expires_in = Some e\<rparr>)), k')"
    "v \<noteq> []" "vw_valid_until V k' v (kv_now env (ks_server s) + e * 1000)"
    "kv_now env k' < kv_now env (ks_server s) + e * 1000" "kc_quiet V (ks_server s) k'"
    unfolding kc_token_law_def by meson
  let ?s = "\<lparr>ks_cachedToken = Some (v, kv_now env (ks_server s) + e * 1000), ks_server = k'\<rparr>"
  have "kc_getToken env s = (Inr v, ?s)"
    using False f(1,2) by (cases s)
      (auto simp: kc_getToken_def Let_def fetchWithTimeout_def readBody_def op_simps response_ok_def some_id_def
        split: option.splits)
  moreover have "kc_cache_good V ?s" using f(3) by (simp add: kc_cache_good_def)
  moreover have "kc_live env V k' v" using f(3,4) by (auto simp: kc_live_def)
  ultimately show ?thesis using f(5) by (intro exI [of _ v] exI [of _ ?s]) simp
qed

lemma authedFetch_answer:
  assumes "kc_getToken env s = (Inr v, s1)" and "kc_ask env m path body v (ks_server s1) = (KcAnswer status location answer, k')"
  shows "authedFetch env m path body s = (Inr (status, location, answer), s1\<lparr>ks_server := k'\<rparr>)"
  using assms by (simp add: authedFetch_def fetchWithTimeout_def kc_ask_def op_simps)

abbreviation kc_kept :: "'k kc_view \<Rightarrow> 'k kc_state \<Rightarrow> 'k kc_state \<Rightarrow> bool" where
  "kc_kept V \<equiv> kc_same (kc_cache_good V) (\<lambda>s. vw_roles_of V (ks_server s)) (\<lambda>s. vw_realm V (ks_server s))"

lemma client_reads_mappings:
  assumes law: "kc_server_lawful env V" and good: "kc_cache_good V s"
  shows "\<exists>s'. getUserRealmRoles env u s = (Inr (vw_roles_of V (ks_server s) u), s') \<and> kc_kept V s s'"
proof -
  have read: "kc_read_law env V" using law by (simp add: kc_server_lawful_def)
  from kc_getToken_live [OF law good] obtain v s1 where t: "kc_getToken env s = (Inr v, s1)" "kc_cache_good V s1"
    "kc_live env V (ks_server s1) v" "kc_quiet V (ks_server s) (ks_server s1)" by blast
  from read t(3) obtain roles location k' where a: "kc_ask env ''GET'' (role_mappings_path u) NoBody v (ks_server s1)
      = (KcAnswer 200 location (Some (RolesPayload roles)), k')" "map rr_name roles = vw_roles_of V (ks_server s1) u"
    "kc_quiet V (ks_server s1) k'" unfolding kc_read_law_def by meson
  show ?thesis using authedFetch_answer [OF t(1) a(1)] a(2,3) t(2,4) kc_cache_still [OF t(2), of k']
    by (auto simp: getUserRealmRoles_def op_simps ensureOk_def response_ok_def readBody_def
        kc_same_def kc_quiet_def)
qed

lemma client_reads_role:
  assumes law: "kc_server_lawful env V" and good: "kc_cache_good V s"
  shows "\<exists>rep s'. getRealmRole env r s = (Inr rep, s') \<and> kc_kept V s s'
    \<and> (rep = None \<longleftrightarrow> r \<notin> vw_realm V (ks_server s)) \<and> (\<forall>x. rep = Some x \<longrightarrow> rr_name x = r)"
proof -
  have read: "kc_read_law env V" using law by (simp add: kc_server_lawful_def)
  from kc_getToken_live [OF law good] obtain v s1 where t: "kc_getToken env s = (Inr v, s1)" "kc_cache_good V s1"
    "kc_live env V (ks_server s1) v" "kc_quiet V (ks_server s) (ks_server s1)" by blast
  from read t(3) obtain location body k' where a: "kc_quiet V (ks_server s1) k'"
    "if r \<in> vw_realm V (ks_server s1)
     then \<exists>role. kc_ask env ''GET'' (role_path r) NoBody v (ks_server s1) = (KcAnswer 200 location (Some (RolePayload role)), k')
            \<and> rr_name role = r
     else kc_ask env ''GET'' (role_path r) NoBody v (ks_server s1) = (KcAnswer 404 location body, k')"
    unfolding kc_read_law_def by meson
  show ?thesis
  proof (cases "r \<in> vw_realm V (ks_server s1)")
    case True
    with a(2) obtain role where r: "kc_ask env ''GET'' (role_path r) NoBody v (ks_server s1)
      = (KcAnswer 200 location (Some (RolePayload role)), k')" "rr_name role = r" by auto
    show ?thesis using authedFetch_answer [OF t(1) r(1)] r(2) a(1) t(2,4) kc_cache_still [OF t(2), of k'] True
      by (auto simp: getRealmRole_def op_simps ensureOk_def response_ok_def readBody_def
          kc_same_def kc_quiet_def)
  next
    case False
    with a(2) have r: "kc_ask env ''GET'' (role_path r) NoBody v (ks_server s1) = (KcAnswer 404 location body, k')" by simp
    show ?thesis using authedFetch_answer [OF t(1) r] a(1) t(2,4) kc_cache_still [OF t(2), of k'] False
      by (auto simp: getRealmRole_def op_simps kc_same_def kc_quiet_def)
  qed
qed

lemma client_adds_mappings:
  assumes law: "kc_server_lawful env V" and good: "kc_cache_good V s"
    and reps: "rr_name ` set reps \<subseteq> vw_realm V (ks_server s)"
  shows "\<exists>s'. addRealmRoles env u reps s = (Inr (), s') \<and> kc_cache_good V s'
    \<and> (\<forall>w. set (vw_roles_of V (ks_server s') w) = (if w = u then set (vw_roles_of V (ks_server s) u) \<union> rr_name ` set reps
                                                       else set (vw_roles_of V (ks_server s) w)))"
proof (cases "reps = []")
  case True
  with good show ?thesis by (simp add: addRealmRoles_def op_simps)
next
  case False
  from kc_getToken_live [OF law good] obtain v s1 where t: "kc_getToken env s = (Inr v, s1)" "kc_cache_good V s1"
    "kc_live env V (ks_server s1) v" "kc_quiet V (ks_server s) (ks_server s1)" by blast
  then have same: "vw_roles_of V (ks_server s1) = vw_roles_of V (ks_server s)" "vw_realm V (ks_server s1) = vw_realm V (ks_server s)"
    by (simp_all add: kc_quiet_def)
  have "kc_write_law env V" using law by (simp add: kc_server_lawful_def)
  from this [unfolded kc_write_law_def, rule_format, OF t(3) False, THEN conjunct1, rule_format, unfolded same, OF reps, of u]
  obtain location body k' where a:
    "kc_ask env ''POST'' (role_mappings_path u) (JsonBody (roles_json reps)) v (ks_server s1) = (KcAnswer 204 location body, k')"
    "kc_still V (ks_server s1) k'"
    "\<forall>w. set (vw_roles_of V k' w) = (if w = u then set (vw_roles_of V (ks_server s) u) \<union> rr_name ` set reps
                                       else set (vw_roles_of V (ks_server s) w))" by blast
  show ?thesis using authedFetch_answer [OF t(1) a(1)] False a(3) kc_cache_still [OF t(2) a(2)]
    by (intro exI [of _ "s1\<lparr>ks_server := k'\<rparr>"]) (simp add: addRealmRoles_def op_simps ensureOk_def response_ok_def)
qed

lemma client_removes_mappings:
  assumes law: "kc_server_lawful env V" and good: "kc_cache_good V s"
  shows "\<exists>s'. removeRealmRoles env u reps s = (Inr (), s') \<and> kc_cache_good V s'
    \<and> (\<forall>w. set (vw_roles_of V (ks_server s') w) = (if w = u then set (vw_roles_of V (ks_server s) u) - rr_name ` set reps
                                                       else set (vw_roles_of V (ks_server s) w)))"
proof (cases "reps = []")
  case True
  with good show ?thesis by (simp add: removeRealmRoles_def op_simps)
next
  case False
  from kc_getToken_live [OF law good] obtain v s1 where t: "kc_getToken env s = (Inr v, s1)" "kc_cache_good V s1"
    "kc_live env V (ks_server s1) v" "kc_quiet V (ks_server s) (ks_server s1)" by blast
  then have same: "vw_roles_of V (ks_server s1) = vw_roles_of V (ks_server s)" by (simp add: kc_quiet_def)
  have "kc_write_law env V" using law by (simp add: kc_server_lawful_def)
  from this [unfolded kc_write_law_def, rule_format, OF t(3) False, THEN conjunct2, unfolded same, of u]
  obtain location body k' where a:
    "kc_ask env ''DELETE'' (role_mappings_path u) (JsonBody (roles_json reps)) v (ks_server s1) = (KcAnswer 204 location body, k')"
    "kc_still V (ks_server s1) k'"
    "\<forall>w. set (vw_roles_of V k' w) = (if w = u then set (vw_roles_of V (ks_server s) u) - rr_name ` set reps
                                       else set (vw_roles_of V (ks_server s) w))" by blast
  show ?thesis using authedFetch_answer [OF t(1) a(1)] False a(3) kc_cache_still [OF t(2) a(2)]
    by (intro exI [of _ "s1\<lparr>ks_server := k'\<rparr>"]) (simp add: removeRealmRoles_def op_simps ensureOk_def response_ok_def)
qed

lemma kc_client_lawful:
  assumes law: "kc_server_lawful env V"
  shows "kc_lawful (keycloak_client env) (kc_cache_good V) (\<lambda>s. vw_roles_of V (ks_server s)) (\<lambda>s. vw_realm V (ks_server s))"
  unfolding kc_lawful_def
  using client_reads_mappings [OF law] client_reads_role [OF law] client_adds_mappings [OF law]
    client_removes_mappings [OF law] law [unfolded kc_server_lawful_def, THEN conjunct2, THEN conjunct2, THEN conjunct2]
  by (simp add: keycloak_client_def)

text \<open>Creating is idempotent: a conflict resolves to what exists.\<close>

lemma createRealmRole_conflict:
  assumes "authedFetch env ''POST'' ''/roles'' (JsonBody (JObj ((''name'', JStr name)
      # (case some_id description of Some d \<Rightarrow> [(''description'', JStr d)] | None \<Rightarrow> [])))) s = (Inr (409, location, body), s1)"
    and "getRealmRole env name s1 = (Inr (Some role), s2)"
  shows "createRealmRole env name description s = (Inr role, s2)"
  using assms by (simp add: createRealmRole_def op_simps)

lemma createUser_conflict:
  assumes "authedFetch env ''POST'' ''/users'' (JsonBody (new_user_json input)) s = (Inr (409, location, body), s1)"
    and "findUserByUsername env (kn_username input) s1 = (Inr (Some i), s2)"
  shows "kc_client_createUser env input s = (Inr i, s2)"
  using assms by (simp add: kc_client_createUser_def op_simps)

section \<open>A server with tokens of one minute\<close>

record kc_example =
  xe_clock :: int
  xe_until :: int
  xe_roles :: "string \<Rightarrow> string list"

definition example_realm :: "string list" where
  "example_realm = [''admin'', ''sales-user'', ''offline_access'']"

definition example_config :: keycloak_config where
  "example_config = \<lparr>kf_baseUrl = ''http://keycloak'', kf_realm = ''nova'', kf_clientId = ''api'', kf_clientSecret = ''s3cret''\<rparr>"

fun named_roles :: "kc_request_body \<Rightarrow> string list" where
  "named_roles (JsonBody (JArr rs)) = map (\<lambda>r. case r of JObj [_, (_, JStr n)] \<Rightarrow> n | _ \<Rightarrow> []) rs"
| "named_roles _ = []"

definition example_admin :: "kc_request \<Rightarrow> kc_example \<Rightarrow> kc_answer \<times> kc_example" where
  "example_admin q k =
     (if starts_with (adminBase example_config @ ''/roles/'') (kq_url q) then
        (case find (\<lambda>r. adminBase example_config @ role_path r = kq_url q) example_realm of
           None \<Rightarrow> KcAnswer 404 None None
         | Some r \<Rightarrow> KcAnswer 200 None (Some (RolePayload \<lparr>rr_id = r, rr_name = r\<rparr>)), k)
      else let held = xe_roles k (kq_url q) in
        if kq_method q = ''GET'' then
          (KcAnswer 200 None (Some (RolesPayload (map (\<lambda>r. \<lparr>rr_id = r, rr_name = r\<rparr>) (filter (\<lambda>r. r \<in> set example_realm) held)))), k)
        else (KcAnswer 204 None None, k\<lparr>xe_roles := (xe_roles k)(kq_url q :=
          (if kq_method q = ''POST'' then held @ named_roles (kq_body q)
           else filter (\<lambda>r. r \<notin> set (named_roles (kq_body q))) held))\<rparr>))"

definition example_fetch :: "kc_example kc_server" where
  "example_fetch q k =
     (let k' = k\<lparr>xe_clock := xe_clock k + 1\<rparr> in
      if kq_bearer q = None then
        (KcAnswer 200 None (Some (TokenPayload \<lparr>tk_access_token = Some ''t'', tk_expires_in = Some 60\<rparr>)),
         k'\<lparr>xe_until := max (xe_until k) (xe_clock k + 60000)\<rparr>)
      else if kq_bearer q = Some ''t'' \<and> xe_clock k < xe_until k then example_admin q k'
      else (KcAnswer 401 None None, k'))"

definition example_env :: "kc_example kc_env" where
  "example_env = \<lparr>kv_config = example_config, kv_fetch = example_fetch, kv_now = xe_clock\<rparr>"

definition example_view :: "kc_example kc_view" where
  "example_view = \<lparr>vw_valid_until = (\<lambda>k v t. v = ''t'' \<and> t \<le> xe_until k),
     vw_roles_of = (\<lambda>k u. filter (\<lambda>r. r \<in> set example_realm) (xe_roles k (adminBase example_config @ role_mappings_path u))),
     vw_realm = (\<lambda>_. set example_realm)\<rparr>"

lemma named_roles_json [simp]: "named_roles (JsonBody (roles_json rs)) = map rr_name rs"
  by (simp add: roles_json_def)

lemma example_paths:
  "\<not> starts_with (adminBase example_config @ ''/roles/'') (adminBase example_config @ role_mappings_path u)"
  "starts_with (adminBase example_config @ ''/roles/'') (adminBase example_config @ role_path r)"
  "role_mappings_path u = role_mappings_path w \<longleftrightarrow> u = w" "role_path r = role_path r' \<longleftrightarrow> r = r'"
  by (simp_all add: starts_with_def role_mappings_path_def user_path_def role_path_def encodeURIComponent_inj)

lemma example_live: "kc_live example_env example_view k v \<longleftrightarrow> v = ''t'' \<and> xe_clock k < xe_until k"
  by (auto simp: kc_live_def example_env_def example_view_def intro: exI [of _ "xe_until k"])

lemma example_found: "find (\<lambda>r'. r' = r) xs = (if r \<in> set xs then Some r else None)"
  by (induction xs) auto

lemma example_ask: "xe_clock k < xe_until k \<Longrightarrow> kc_ask example_env m path body ''t'' k = example_admin
    \<lparr>kq_method = m, kq_url = adminBase example_config @ path, kq_bearer = Some ''t'', kq_body = body\<rparr> (k\<lparr>xe_clock := xe_clock k + 1\<rparr>)"
  by (simp add: kc_ask_def example_env_def example_fetch_def)

lemma example_view_simps:
  "vw_valid_until example_view k v t \<longleftrightarrow> v = ''t'' \<and> t \<le> xe_until k"
  "vw_roles_of example_view k u = filter (\<lambda>r. r \<in> set example_realm) (xe_roles k (adminBase example_config @ role_mappings_path u))"
  "vw_realm example_view k = set example_realm"
  by (simp_all add: example_view_def)

lemma example_reads_mappings:
  assumes "xe_clock k < xe_until k"
  shows "kc_ask example_env ''GET'' (role_mappings_path u) NoBody ''t'' k
    = (KcAnswer 200 None (Some (RolesPayload (map (\<lambda>r. \<lparr>rr_id = r, rr_name = r\<rparr>) (vw_roles_of example_view k u)))),
       k\<lparr>xe_clock := xe_clock k + 1\<rparr>)"
  unfolding example_ask [OF assms] by (simp add: example_admin_def example_paths Let_def example_view_simps)

lemma example_reads_role:
  assumes "xe_clock k < xe_until k"
  shows "kc_ask example_env ''GET'' (role_path r) NoBody ''t'' k
    = (if r \<in> vw_realm example_view k then KcAnswer 200 None (Some (RolePayload \<lparr>rr_id = r, rr_name = r\<rparr>)) else KcAnswer 404 None None,
       k\<lparr>xe_clock := xe_clock k + 1\<rparr>)"
  unfolding example_ask [OF assms] by (simp add: example_admin_def example_paths example_found Let_def example_view_simps)

lemma example_writes_mappings:
  assumes "xe_clock k < xe_until k" and "m \<noteq> ''GET''"
  shows "kc_ask example_env m (role_mappings_path u) (JsonBody (roles_json reps)) ''t'' k
    = (KcAnswer 204 None None, k\<lparr>xe_clock := xe_clock k + 1,
        xe_roles := (xe_roles k)(adminBase example_config @ role_mappings_path u :=
          (let held = xe_roles k (adminBase example_config @ role_mappings_path u) in
           if m = ''POST'' then held @ map rr_name reps else filter (\<lambda>r. r \<notin> rr_name ` set reps) held))\<rparr>)"
  unfolding example_ask [OF assms(1)] using assms(2) by (simp add: example_admin_def example_paths Let_def)

lemma example_quiet: "kc_quiet example_view k (k\<lparr>xe_clock := t\<rparr>)"
  by (simp add: kc_quiet_def kc_still_def example_view_def)

lemma example_read_law: "kc_read_law example_env example_view"
  unfolding kc_read_law_def example_live
proof (intro allI impI conjI; elim conjE)
  fix k :: kc_example and v u assume v: "v = ''t''" and t: "xe_clock k < xe_until k"
  show "\<exists>roles location k'. kc_ask example_env ''GET'' (role_mappings_path u) NoBody v k
      = (KcAnswer 200 location (Some (RolesPayload roles)), k') \<and> map rr_name roles = vw_roles_of example_view k u
      \<and> kc_quiet example_view k k'"
    unfolding v example_reads_mappings [OF t] using example_quiet by (simp add: o_def)
next
  fix k :: kc_example and v r assume v: "v = ''t''" and t: "xe_clock k < xe_until k"
  show "\<exists>location body k'. kc_quiet example_view k k' \<and>
      (if r \<in> vw_realm example_view k
       then \<exists>role. kc_ask example_env ''GET'' (role_path r) NoBody v k = (KcAnswer 200 location (Some (RolePayload role)), k')
              \<and> rr_name role = r
       else kc_ask example_env ''GET'' (role_path r) NoBody v k = (KcAnswer 404 location body, k'))"
    unfolding v example_reads_role [OF t] using example_quiet [of k]
    by (intro exI [of _ None] exI [of _ "k\<lparr>xe_clock := xe_clock k + 1\<rparr>"]) simp
qed

lemma example_adds:
  fixes k :: kc_example
  assumes t: "xe_clock k < xe_until k" and r: "rr_name ` set reps \<subseteq> vw_realm example_view k"
  shows "\<exists>location body k'. kc_ask example_env ''POST'' (role_mappings_path u) (JsonBody (roles_json reps)) ''t'' k
      = (KcAnswer 204 location body, k') \<and> kc_still example_view k k' \<and> (\<forall>w. set (vw_roles_of example_view k' w) =
          (if w = u then set (vw_roles_of example_view k u) \<union> rr_name ` set reps else set (vw_roles_of example_view k w)))"
  using r unfolding example_writes_mappings [OF t, of "''POST''", simplified]
  by (auto simp: kc_still_def example_view_simps example_paths)

lemma example_removes:
  fixes k :: kc_example
  assumes t: "xe_clock k < xe_until k"
  shows "\<exists>location body k'. kc_ask example_env ''DELETE'' (role_mappings_path u) (JsonBody (roles_json reps)) ''t'' k
      = (KcAnswer 204 location body, k') \<and> kc_still example_view k k' \<and> (\<forall>w. set (vw_roles_of example_view k' w) =
          (if w = u then set (vw_roles_of example_view k u) - rr_name ` set reps else set (vw_roles_of example_view k w)))"
  unfolding example_writes_mappings [OF t, of "''DELETE''", simplified]
  by (auto simp: kc_still_def example_view_simps example_paths)

lemma example_write_law: "kc_write_law example_env example_view"
  unfolding kc_write_law_def example_live by (intro allI impI conjI; elim conjE; hypsubst) (rule example_adds example_removes; assumption)+

lemma example_token_law: "kc_token_law example_env example_view"
  by (auto simp: kc_token_law_def example_env_def example_fetch_def example_view_def kc_token_request_def Let_def
      kc_quiet_def kc_still_def)

lemma example_server_lawful: "kc_server_lawful example_env example_view"
  by (auto simp: kc_server_lawful_def example_token_law example_read_law example_write_law example_view_simps)

section \<open>Properties\<close>



end
