(* ===== verification/Mcp_Sql.thy ===== *)
theory Mcp_Sql
  imports Json_Text Data_Views Errors "HOL-Library.While_Combinator" "HOL-Library.Sublist"
begin

text \<open>
  The SQL-safety pipeline of the database MCP server: the reviewed views
  (\<open>db-mcp-server/src/data/views.ts\<close>), the validator of parse trees
  (\<open>sql/validate-select.ts\<close>) and the result limits (\<open>sql/limits.ts\<close>). The SQL parser
  (\<open>pgsql-parser\<close>) is the argument \<open>parseFn\<close>; a parse tree is a JSON value.
\<close>

section \<open>The reviewed views\<close>

datatype column_sensitivity = PublicColumn | PiiColumn

record view_column =
  vc_name :: string
  vc_type :: string
  vc_sensitivity :: column_sensitivity
  vc_description :: "string option"

record view_descriptor =
  vd_name :: string
  vd_description :: string
  vd_ownerScoped :: bool
  vd_columns :: "view_column list"

definition MCP_READ_SCHEMA :: string where
  "MCP_READ_SCHEMA = ''mcp_read''"

definition col :: "string \<Rightarrow> string \<Rightarrow> view_column" where
  "col name type = \<lparr>vc_name = name, vc_type = type, vc_sensitivity = PublicColumn, vc_description = None\<rparr>"

definition pii :: "string \<Rightarrow> string \<Rightarrow> view_column" where
  "pii name type = \<lparr>vc_name = name, vc_type = type, vc_sensitivity = PiiColumn, vc_description = None\<rparr>"

definition view_of :: "string \<Rightarrow> string \<Rightarrow> bool \<Rightarrow> view_column list \<Rightarrow> view_descriptor" where
  "view_of name description ownerScoped columns =
     \<lparr>vd_name = name, vd_description = description, vd_ownerScoped = ownerScoped, vd_columns = columns\<rparr>"

definition MCP_READ_VIEWS :: "view_descriptor list" where
  "MCP_READ_VIEWS =
     [
      view_of ''customers''
        ''Customers (PII-aware: email and age excluded; display name masked).'' False
        [col ''id'' ''uuid'', pii ''full_name'' ''varchar'', col ''active'' ''boolean'',
         col ''created_at'' ''timestamptz''],
      view_of ''products''
        ''Product catalog.'' False
        [col ''id'' ''uuid'', col ''name'' ''varchar'', col ''description'' ''text'',
         col ''category'' ''varchar'', col ''price'' ''numeric'', col ''in_catalog'' ''boolean'',
         col ''created_at'' ''timestamptz''],
      view_of ''sales''
        ''Sales facts (financial; no direct PII).'' False
        [col ''id'' ''uuid'', col ''customer_id'' ''uuid'', col ''discount_applied'' ''numeric'',
         col ''date'' ''timestamptz'', col ''total_amount_receipt'' ''numeric'',
         col ''payment_received'' ''boolean'', col ''date_of_payment'' ''timestamptz'',
         col ''created_at'' ''timestamptz''],
      view_of ''products_sold''
        ''Sale line items.'' False
        [col ''sale_id'' ''uuid'', col ''product_id'' ''uuid'', col ''quantity'' ''integer'',
         col ''created_at'' ''timestamptz''],
      view_of ''customer_issues''
        ''Customer issues (status/timeline; free-text description excluded). Valid status values: in_assistance, rejected, completed.'' False
        [col ''id'' ''uuid'', col ''sales_id'' ''uuid'', col ''date_raised'' ''timestamptz'',
         col ''date_last_update'' ''timestamptz'', col ''status'' ''text'',
         col ''created_at'' ''timestamptz''],
      view_of ''issue_actions''
        ''Issue actions (title + status + ownership; description excluded). Valid status values: pending, in_progress, completed, rejected.'' False
        [col ''id'' ''uuid'', col ''issue_id'' ''uuid'', col ''title'' ''varchar'',
         col ''status'' ''text'', col ''updated_ai'' ''boolean'',
         col ''created_date'' ''timestamptz'', col ''assigned_owner_id'' ''uuid''],
      view_of ''sops''
        ''SOP metadata.'' False
        [col ''id'' ''uuid'', col ''name'' ''varchar'', col ''active'' ''boolean'',
         col ''created_at'' ''timestamptz''],
      view_of ''sop_details''
        ''SOP version metadata (full text excluded).'' False
        [col ''sop_id'' ''uuid'', col ''version'' ''integer'',
         col ''date_of_creation'' ''timestamptz'', col ''created_at'' ''timestamptz''],
      view_of ''users''
        ''Users (non-PII reference for ownership joins; no email/names).'' False
        [col ''id'' ''uuid'', col ''active'' ''boolean'', col ''created_at'' ''timestamptz''],
      view_of ''my_assigned_actions''
        ''Issue actions assigned to the acting subject (per-session owner-scoped). Valid status values: pending, in_progress, completed, rejected.'' True
        [col ''id'' ''uuid'', col ''issue_id'' ''uuid'', col ''title'' ''varchar'',
         col ''status'' ''text'', col ''created_date'' ''timestamptz'']]"

definition isAllowedRelation :: "string option \<Rightarrow> string \<Rightarrow> bool" where
  "isAllowedRelation schema relation \<longleftrightarrow>
     schema = Some MCP_READ_SCHEMA \<and> relation \<in> set (map vd_name MCP_READ_VIEWS)"

section \<open>Validation of a parse tree\<close>

record sql_rejection =
  sr_message :: string
  sr_reason :: string

definition rejected :: "string \<Rightarrow> string \<Rightarrow> sql_rejection + 'a" where
  "rejected message reason = Inl \<lparr>sr_message = message, sr_reason = reason\<rparr>"

definition FORBIDDEN_NODE_TYPES :: "string list" where
  "FORBIDDEN_NODE_TYPES =
     [''InsertStmt'', ''UpdateStmt'', ''DeleteStmt'', ''MergeStmt'', ''CreateStmt'',
      ''CreateTableAsStmt'', ''CreateSeqStmt'', ''CreateFunctionStmt'', ''CreateRoleStmt'',
      ''CreatedbStmt'', ''CreateSchemaStmt'', ''AlterTableStmt'', ''AlterRoleStmt'',
      ''AlterDatabaseStmt'', ''DropStmt'', ''DropRoleStmt'', ''DropdbStmt'', ''TruncateStmt'',
      ''CopyStmt'', ''GrantStmt'', ''GrantRoleStmt'', ''VariableSetStmt'', ''VariableShowStmt'',
      ''TransactionStmt'', ''LockStmt'', ''DoStmt'', ''ExplainStmt'', ''ExecuteStmt'',
      ''PrepareStmt'', ''RefreshMatViewStmt'', ''ViewStmt'', ''RuleStmt'', ''NotifyStmt'',
      ''ListenStmt'', ''CallStmt'']"

definition FORBIDDEN_FUNCTIONS :: "string list" where
  "FORBIDDEN_FUNCTIONS =
     [''pg_sleep'', ''pg_sleep_for'', ''pg_sleep_until'', ''set_config'', ''pg_read_file'',
      ''pg_read_binary_file'', ''pg_ls_dir'', ''pg_stat_file'', ''lo_import'', ''lo_export'',
      ''lo_get'', ''lo_put'', ''dblink'', ''dblink_exec'', ''dblink_connect'',
      ''pg_terminate_backend'', ''pg_cancel_backend'', ''pg_reload_conf'', ''query_to_xml'',
      ''pg_logical_emit_message'']"

fun isRecord :: "json option \<Rightarrow> bool" where
  "isRecord (Some (JObj _)) = True"
| "isRecord (Some (JArr _)) = True"
| "isRecord _ = False"

text \<open>\<open>Object.keys\<close>\<close>

fun object_keys :: "json \<Rightarrow> string list" where
  "object_keys (JObj kvs) = map fst kvs"
| "object_keys (JArr xs) = map show_nat [0..<length xs]"
| "object_keys _ = []"

definition js_lower :: "string \<Rightarrow> string" where
  "js_lower s = map (\<lambda>c. let n = of_char c :: nat in
     if (65 \<le> n \<and> n \<le> 90) \<or> (192 \<le> n \<and> n \<le> 222 \<and> n \<noteq> 215) then char_of (n + 32) else c) s"

definition funcname_part :: "json \<Rightarrow> string list" where
  "funcname_part part =
     (case Option.bind (jget ''String'' part) (jget ''sval'') of
        Some (JStr s) \<Rightarrow> [js_lower s]
      | _ \<Rightarrow> [])"

definition funcCallName :: "json \<Rightarrow> string" where
  "funcCallName funcCall =
     (case jget ''funcname'' funcCall of
        Some (JArr parts) \<Rightarrow> js_join ''.'' (concat (map funcname_part parts))
      | _ \<Rightarrow> [])"

definition present :: "json option \<Rightarrow> bool" where
  "present v \<longleftrightarrow> v \<noteq> None \<and> v \<noteq> Some JNull"

definition relation_name :: "json \<Rightarrow> string" where
  "relation_name value = (case jstring (jget ''relname'' value) of Some s \<Rightarrow> s | None \<Rightarrow> [])"

text \<open>The tests of \<open>walk\<close> on one property of a node, before it descends.\<close>

definition check_entry :: "string \<Rightarrow> json \<Rightarrow> sql_rejection + unit" where
  "check_entry key value =
     (if key \<in> set FORBIDDEN_NODE_TYPES
      then rejected ''Only read-only SELECT queries are permitted.'' ''forbidden_statement''
      else if key = ''SelectStmt'' \<and> isRecord (Some value) \<and> present (jget ''intoClause'' value)
      then rejected ''SELECT INTO is not permitted.'' ''select_into''
      else if key = ''SelectStmt'' \<and> isRecord (Some value) \<and> present (jget ''lockingClause'' value)
      then rejected ''Locking clauses are not permitted.'' ''locking_clause''
      else if key = ''RangeVar'' \<and> isRecord (Some value)
           \<and> \<not> isAllowedRelation (jstring (jget ''schemaname'' value)) (relation_name value)
      then rejected (''Relation \"'' @ nullish (jstring (jget ''schemaname'' value)) [] @ ''.'' @ relation_name value
             @ ''\" is not in the '' @ MCP_READ_SCHEMA @ '' allowlist.'') ''relation_not_allowlisted''
      else if key = ''FuncCall'' \<and> isRecord (Some value)
           \<and> (funcCallName value \<in> set FORBIDDEN_FUNCTIONS
              \<or> last (js_split (CHR ''.'') (funcCallName value)) \<in> set FORBIDDEN_FUNCTIONS)
      then rejected (''Function \"'' @ funcCallName value @ ''\" is not permitted.'') ''forbidden_function''
      else Inr ())"

definition add_relation :: "string \<Rightarrow> json \<Rightarrow> string list \<Rightarrow> string list" where
  "add_relation key value relations =
     (if key = ''RangeVar'' \<and> isRecord (Some value) then js_add relations (relation_name value) else relations)"

fun walk :: "json \<Rightarrow> string list \<Rightarrow> sql_rejection + string list"
  and walk_items :: "json list \<Rightarrow> string list \<Rightarrow> sql_rejection + string list"
  and walk_entries :: "(string \<times> json) list \<Rightarrow> string list \<Rightarrow> sql_rejection + string list" where
  "walk (JArr items) relations = walk_items items relations"
| "walk (JObj entries) relations = walk_entries entries relations"
| "walk _ relations = Inr relations"
| "walk_items [] relations = Inr relations"
| "walk_items (item # items) relations =
     (case walk item relations of Inl e \<Rightarrow> Inl e | Inr r \<Rightarrow> walk_items items r)"
| "walk_entries [] relations = Inr relations"
| "walk_entries ((key, value) # entries) relations =
     (case check_entry key value of
        Inl e \<Rightarrow> Inl e
      | Inr _ \<Rightarrow>
          (case walk value (add_relation key value relations) of
             Inl e \<Rightarrow> Inl e
           | Inr r \<Rightarrow> walk_entries entries r))"

definition validateParsedSelect :: "json \<Rightarrow> sql_rejection + string list" where
  "validateParsedSelect parseResult =
     (case jget ''stmts'' parseResult of
        Some (JArr stmts) \<Rightarrow>
          if length stmts \<noteq> 1 then rejected ''Exactly one statement is allowed.'' ''multiple_statements''
          else (case jget ''stmt'' (hd stmts) of
             None \<Rightarrow> rejected ''Query could not be parsed.'' ''unparsable''
           | Some stmt \<Rightarrow>
               if \<not> isRecord (Some stmt) then rejected ''Query could not be parsed.'' ''unparsable''
               else if object_keys stmt \<noteq> [''SelectStmt'']
               then rejected ''Only a single SELECT statement is allowed.'' ''not_a_select''
               else walk stmt [])
      | _ \<Rightarrow> rejected ''Query could not be parsed.'' ''unparsable'')"

definition validateSelect :: "(string \<Rightarrow> json option) \<Rightarrow> string \<Rightarrow> sql_rejection + string list" where
  "validateSelect parseFn sql =
     (let trimmed = js_trim sql in
      if length trimmed = 0 then rejected ''Query must not be empty.'' ''empty''
      else (case parseFn trimmed of
         None \<Rightarrow> rejected ''Query could not be parsed.'' ''unparsable''
       | Some parsed \<Rightarrow> validateParsedSelect parsed))"

section \<open>Limits\<close>

text \<open>\<open>.trim().replace(/;\s*$/, '')\<close>: the trimmed text ends in no space, so only a final semicolon matches.\<close>

definition clampSelectToLimit :: "string \<Rightarrow> nat \<Rightarrow> string" where
  "clampSelectToLimit validatedSql maxRows =
     (let s = js_trim validatedSql;
          withoutTrailingSemicolon = (if s \<noteq> [] \<and> last s = CHR '';'' then butlast s else s)
      in ''SELECT * FROM ('' @ withoutTrailingSemicolon @ '') AS _mcp_capped LIMIT '' @ show_nat maxRows)"

text \<open>\<open>Buffer.byteLength(JSON.stringify(rows), 'utf8')\<close>\<close>

definition utf8_length :: "string \<Rightarrow> nat" where
  "utf8_length s = sum_list (map (\<lambda>c. if (of_char c :: nat) < 128 then 1 else 2) s)"

definition payload_bytes :: "json list \<Rightarrow> nat" where
  "payload_bytes rows = utf8_length (json_stringify (JArr rows))"

text \<open>The loop may not end: \<open>None\<close>.\<close>

definition capResultBytes :: "json list \<Rightarrow> nat \<Rightarrow> (json list \<times> bool) option" where
  "capResultBytes rows maxBytes =
     while_option (\<lambda>(kept, truncated). length kept > 0 \<and> payload_bytes kept > maxBytes)
       (\<lambda>(kept, truncated). (take ((length kept + 1) div 2) kept, True)) (rows, False)"

section \<open>What the validator accepts\<close>

text \<open>All properties of all nodes of a tree, each node before its children.\<close>

fun entries :: "json \<Rightarrow> (string \<times> json) list" where
  "entries (JArr items) = concat (map entries items)"
| "entries (JObj kvs) = concat (map (\<lambda>kv. kv # entries (snd kv)) kvs)"
| "entries _ = []"

fun check_all :: "(string \<times> json) list \<Rightarrow> string list \<Rightarrow> sql_rejection + string list" where
  "check_all [] relations = Inr relations"
| "check_all ((key, value) # es) relations =
     (case check_entry key value of Inl e \<Rightarrow> Inl e | Inr _ \<Rightarrow> check_all es (add_relation key value relations))"

lemma check_all_append:
  "check_all (xs @ ys) r = (case check_all xs r of Inl e \<Rightarrow> Inl e | Inr r' \<Rightarrow> check_all ys r')"
  by (induction xs r rule: check_all.induct) (auto split: sum.splits)

text \<open>The recursive walk is the check of the flat list of properties.\<close>

lemma walk_flat:
  "walk node r = check_all (entries node) r"
  "walk_items items r = check_all (concat (map entries items)) r"
  "walk_entries kvs r = check_all (concat (map (\<lambda>kv. kv # entries (snd kv)) kvs)) r"
  by (induction node r and items r and kvs r rule: walk_walk_items_walk_entries.induct)
    (auto simp: check_all_append split: sum.splits)

definition range_vars :: "(string \<times> json) list \<Rightarrow> json list" where
  "range_vars es = map snd (filter (\<lambda>(key, value). key = ''RangeVar'' \<and> isRecord (Some value)) es)"

definition permitted_entry :: "string \<times> json \<Rightarrow> bool" where
  "permitted_entry = (\<lambda>(key, value).
     key \<notin> set FORBIDDEN_NODE_TYPES
     \<and> (isRecord (Some value) \<longrightarrow>
          (key = ''SelectStmt'' \<longrightarrow> \<not> present (jget ''intoClause'' value) \<and> \<not> present (jget ''lockingClause'' value))
        \<and> (key = ''RangeVar'' \<longrightarrow> jget ''schemaname'' value = Some (JStr MCP_READ_SCHEMA)
             \<and> relation_name value \<in> set (map vd_name MCP_READ_VIEWS))
        \<and> (key = ''FuncCall'' \<longrightarrow> funcCallName value \<notin> set FORBIDDEN_FUNCTIONS
             \<and> last (js_split (CHR ''.'') (funcCallName value)) \<notin> set FORBIDDEN_FUNCTIONS)))"

lemma not_a_statement:
  "''SelectStmt'' \<notin> set FORBIDDEN_NODE_TYPES" "''RangeVar'' \<notin> set FORBIDDEN_NODE_TYPES"
  "''FuncCall'' \<notin> set FORBIDDEN_NODE_TYPES"
  by (simp_all add: FORBIDDEN_NODE_TYPES_def)

lemma check_entry_permitted: "check_entry key value = Inr u \<longleftrightarrow> permitted_entry (key, value)"
proof (cases "isRecord (Some value)")
  case True
  consider "key = ''SelectStmt''" | "key = ''RangeVar''" | "key = ''FuncCall''"
    | "key \<noteq> ''SelectStmt''" "key \<noteq> ''RangeVar''" "key \<noteq> ''FuncCall''" by blast
  with True show ?thesis
    by cases (simp_all add: check_entry_def permitted_entry_def rejected_def isAllowedRelation_def jstring_Some_iff
        not_a_statement del: isRecord.simps)
qed (simp add: check_entry_def permitted_entry_def rejected_def)

lemma check_all_Inr:
  "check_all es r = Inr rels \<longleftrightarrow>
     list_all permitted_entry es \<and> rels = foldl js_add r (map relation_name (range_vars es))"
proof (induction es r rule: check_all.induct)
  case (2 k v es r)
  have "(\<exists>u. check_entry k v = Inr u) = permitted_entry (k, v)"
    using check_entry_permitted by blast
  then show ?case
    using 2 by (cases "check_entry k v") (auto simp: range_vars_def add_relation_def)
qed (auto simp: range_vars_def)

lemma select_node: "isRecord (Some stmt) \<and> object_keys stmt = [''SelectStmt''] \<longleftrightarrow> (\<exists>body. stmt = JObj [(''SelectStmt'', body)])"
proof (cases stmt)
  case (JArr xs)
  have "show_nat n \<noteq> ''SelectStmt''" for n
    using show_nat_digits [of n] by (auto simp: is_digit_def)
  then have "map show_nat ns \<noteq> [''SelectStmt'']" for ns by (cases ns) simp_all
  with JArr show ?thesis by simp
next
  case (JObj kvs)
  then show ?thesis by (cases kvs) auto
qed simp_all

lemma validateParsedSelect_Inr:
  "validateParsedSelect tree = Inr rels \<longleftrightarrow>
     (\<exists>wrapper body. jget ''stmts'' tree = Some (JArr [wrapper])
        \<and> jget ''stmt'' wrapper = Some (JObj [(''SelectStmt'', body)])
        \<and> list_all permitted_entry (entries (JObj [(''SelectStmt'', body)]))
        \<and> rels = js_set (map relation_name (range_vars (entries (JObj [(''SelectStmt'', body)])))))"
  (is "?L \<longleftrightarrow> ?R")
proof
  assume ?L
  then obtain stmts where s: "jget ''stmts'' tree = Some (JArr stmts)"
    by (auto simp: validateParsedSelect_def rejected_def split: option.splits json.splits)
  with \<open>?L\<close> obtain wrapper where w: "stmts = [wrapper]"
    by (cases stmts; cases "tl stmts") (auto simp: validateParsedSelect_def rejected_def)
  with \<open>?L\<close> s obtain stmt where t: "jget ''stmt'' wrapper = Some stmt"
    by (auto simp: validateParsedSelect_def rejected_def split: option.splits)
  with \<open>?L\<close> s w have "isRecord (Some stmt) \<and> object_keys stmt = [''SelectStmt'']" and k: "walk stmt [] = Inr rels"
    by (auto simp: validateParsedSelect_def rejected_def split: if_splits)
  then obtain body where "stmt = JObj [(''SelectStmt'', body)]" using select_node by blast
  with k s w t show ?R by (auto simp only: walk_flat check_all_Inr js_set_def)
next
  assume ?R
  then obtain wrapper body where "jget ''stmts'' tree = Some (JArr [wrapper])"
      "jget ''stmt'' wrapper = Some (JObj [(''SelectStmt'', body)])"
      "walk (JObj [(''SelectStmt'', body)]) [] = Inr rels"
    by (auto simp only: walk_flat check_all_Inr js_set_def)
  then show ?L by (simp add: validateParsedSelect_def del: walk.simps)
qed

text \<open>C11: the SQL validator accepts a query exactly when the text is not blank, the parser gives one
  statement, a \<open>SELECT\<close>, no property of any node of its tree (subqueries, CTEs and arms included)
  is a statement of another kind or a denied function, no node keyed \<open>SelectStmt\<close> writes or locks,
  and every relation named anywhere is a reviewed view of the schema \<open>mcp_read\<close>; what it returns
  is each of those relations once.\<close>

theorem validator_accepts:
  "validateSelect parseFn sql = Inr rels \<longleftrightarrow>
     js_trim sql \<noteq> []
     \<and> (\<exists>tree wrapper body. parseFn (js_trim sql) = Some tree
        \<and> jget ''stmts'' tree = Some (JArr [wrapper])
        \<and> jget ''stmt'' wrapper = Some (JObj [(''SelectStmt'', body)])
        \<and> list_all permitted_entry (entries (JObj [(''SelectStmt'', body)]))
        \<and> rels = js_set (map relation_name (range_vars (entries (JObj [(''SelectStmt'', body)])))))"
proof (cases "js_trim sql = []")
  case False
  then show ?thesis
    by (cases "parseFn (js_trim sql)") (simp_all add: validateSelect_def validateParsedSelect_Inr rejected_def del: entries.simps)
qed (simp add: validateSelect_def rejected_def)

lemma validator_relations_reviewed:
  assumes "validateSelect parseFn sql = Inr rels"
  shows "distinct rels" and "set rels \<subseteq> set (map vd_name MCP_READ_VIEWS)"
proof -
  have rel: "relation_name v \<in> set (map vd_name MCP_READ_VIEWS)"
    if "list_all permitted_entry es" "v \<in> set (range_vars es)" for es v
  proof -
    from that(2) have "(''RangeVar'', v) \<in> set es" "isRecord (Some v)" by (auto simp: range_vars_def)
    with that(1) have "permitted_entry (''RangeVar'', v)" by (simp add: list_all_iff)
    with \<open>isRecord (Some v)\<close> show ?thesis by (simp add: permitted_entry_def)
  qed
  with assms show "set rels \<subseteq> set (map vd_name MCP_READ_VIEWS)"
    unfolding validateSelect_def
    by (auto simp: Let_def rejected_def validateParsedSelect_Inr split: if_splits option.splits
        simp del: entries.simps set_map) (auto dest: rel simp del: entries.simps)
  from assms show "distinct rels"
    unfolding validateSelect_def
    by (auto simp: Let_def rejected_def validateParsedSelect_Inr split: if_splits option.splits simp del: entries.simps)
qed

section \<open>What it does not see\<close>

text \<open>The function denied by name is \<open>query_to_xml\<close>; \<open>table_to_xml\<close>, which reads any table the role
  can read, is not, so a query over \<open>sales\<close> may return the customers' view while the validator reports
  \<open>sales\<close> alone.\<close>

definition func_call :: "string \<Rightarrow> json list \<Rightarrow> json" where
  "func_call name args = JObj [(''FuncCall'', JObj [(''funcname'', JArr [JObj [(''String'', JObj [(''sval'', JStr name)])]]),
     (''args'', JArr args)])]"

definition select_from_sales :: "json \<Rightarrow> json" where
  "select_from_sales target =
     JObj [(''stmts'', JArr [JObj [(''stmt'', JObj [(''SelectStmt'', JObj
       [(''targetList'', JArr [JObj [(''ResTarget'', JObj [(''val'', target)])]]),
        (''fromClause'', JArr [JObj [(''RangeVar'', JObj [(''schemaname'', JStr ''mcp_read''), (''relname'', JStr ''sales'')])]])])])]])]"

lemma table_to_xml_passes:
  "validateParsedSelect (select_from_sales (func_call ''table_to_xml'' [JObj [(''A_Const'', JObj [(''sval'', JObj [(''sval'', JStr ''mcp_read.customers'')])])]]))
     = Inr [''sales'']"
  by code_simp

lemma query_to_xml_rejected:
  "validateParsedSelect (select_from_sales (func_call ''query_to_xml'' []))
     = rejected ''Function \"query_to_xml\" is not permitted.'' ''forbidden_function''"
  by code_simp

text \<open>The arms of a set operation stand under \<open>larg\<close> and \<open>rarg\<close>, not under \<open>SelectStmt\<close>: their
  \<open>INTO\<close> and locking clauses are not looked at.\<close>

lemma locking_arm_passes:
  "validateParsedSelect
     (JObj [(''stmts'', JArr [JObj [(''stmt'', JObj [(''SelectStmt'', JObj
       [(''op'', JStr ''SETOP_UNION''),
        (''larg'', JObj [(''fromClause'', JArr [JObj [(''RangeVar'', JObj [(''schemaname'', JStr ''mcp_read''), (''relname'', JStr ''sales'')])]]),
                       (''lockingClause'', JArr [JObj [(''LockingClause'', JObj [])]])])])])]])])
     = Inr [''sales'']"
  by code_simp

section \<open>The byte budget\<close>

lemma utf8_length_append [simp]: "utf8_length (s @ t) = utf8_length s + utf8_length t"
  by (simp add: utf8_length_def)

lemma utf8_length_Cons [simp]: "utf8_length (c # s) = (if (of_char c :: nat) < 128 then 1 else 2) + utf8_length s"
  by (simp add: utf8_length_def)

lemma prefix_take: "prefix xs ys \<Longrightarrow> prefix (take n xs) ys"
  by (rule prefix_order.trans [OF take_is_prefix])

lemma js_join_longer: "utf8_length (js_join sep xs) \<le> utf8_length (js_join sep (xs @ ys))"
proof (induction sep xs rule: js_join.induct)
  case (2 sep x)
  then show ?case by (cases ys) simp_all
qed (simp_all add: utf8_length_def)

lemma payload_prefix: "prefix xs ys \<Longrightarrow> payload_bytes xs \<le> payload_bytes ys"
  by (auto simp: payload_bytes_def prefix_def js_join_longer)

lemma payload_first: "prefix xs rows \<Longrightarrow> xs \<noteq> [] \<Longrightarrow> payload_bytes [hd rows] \<le> payload_bytes xs"
  by (rule payload_prefix) (cases xs; auto simp: prefix_def)

definition cap_inv :: "json list \<Rightarrow> json list \<times> bool \<Rightarrow> bool" where
  "cap_inv rows = (\<lambda>(kept, truncated). prefix kept rows \<and> (kept = [] \<longleftrightarrow> rows = []) \<and> (truncated \<longleftrightarrow> kept \<noteq> rows))"

definition cap_step :: "json list \<times> bool \<Rightarrow> json list \<times> bool" where
  "cap_step = (\<lambda>(kept, truncated). (take ((length kept + 1) div 2) kept, True))"

lemma cap_step_inv:
  assumes "cap_inv rows s" and "length (fst s) > 1"
  shows "cap_inv rows (cap_step s)" and "length (fst (cap_step s)) < length (fst s)"
proof -
  obtain kept t where s: "s = (kept, t)" by (cases s)
  let ?k = "take ((length kept + 1) div 2) kept"
  have l: "length ?k < length kept" "?k \<noteq> []" using assms(2) s by auto
  then have "kept \<noteq> ?k" by (metis less_irrefl)
  moreover have "prefix ?k rows" using assms(1) s by (auto simp: cap_inv_def prefix_take)
  moreover have "length kept \<le> length rows" using assms(1) s by (auto simp: cap_inv_def dest: prefix_length_le)
  ultimately show "cap_inv rows (cap_step s)" "length (fst (cap_step s)) < length (fst s)"
    using assms s l by (auto simp: cap_inv_def cap_step_def)
qed

lemma cap_loop:
  "capResultBytes rows maxBytes = while_option (\<lambda>s. fst s \<noteq> [] \<and> maxBytes < payload_bytes (fst s)) cap_step (rows, False)"
  by (simp add: capResultBytes_def cap_step_def case_prod_beta')

lemma cap_keeps_inv:
  assumes "rows = [] \<or> payload_bytes [hd rows] \<le> maxBytes" and "cap_inv rows s"
    and "fst s \<noteq> [] \<and> maxBytes < payload_bytes (fst s)"
  shows "cap_inv rows (cap_step s) \<and> length (fst (cap_step s)) < length (fst s)"
proof -
  have "length (fst s) \<noteq> 1"
  proof
    assume "length (fst s) = 1"
    then obtain x where "fst s = [x]" by (cases "fst s") auto
    with assms show False by (cases s) (auto simp: cap_inv_def prefix_def)
  qed
  with assms(3) have "length (fst s) > 1" by (cases "length (fst s)") auto
  with cap_step_inv [OF assms(2)] show ?thesis by blast
qed

lemma cap_inv_start: "cap_inv rows (rows, False)"
  by (simp add: cap_inv_def)

lemma cap_ends:
  assumes "rows = [] \<or> payload_bytes [hd rows] \<le> maxBytes"
  shows "\<exists>r. capResultBytes rows maxBytes = Some r"
  unfolding cap_loop
  using cap_keeps_inv [OF assms] cap_inv_start by (rule measure_while_option_Some)

lemma cap_fits:
  assumes "capResultBytes rows maxBytes = Some r"
  shows "fst r = [] \<or> payload_bytes (fst r) \<le> maxBytes" and "rows = [] \<or> payload_bytes [hd rows] \<le> maxBytes"
proof -
  show stop: "fst r = [] \<or> payload_bytes (fst r) \<le> maxBytes"
    using while_option_stop [OF assms [unfolded cap_loop]] by auto
  have "(\<lambda>s. prefix (fst s) rows \<and> (fst s = [] \<longleftrightarrow> rows = [])) r"
    by (rule while_option_rule [OF _ assms [unfolded cap_loop]])
      (auto simp: prefix_take cap_step_def case_prod_beta' div_eq_0_iff)
  with stop payload_first [of "fst r" rows] show "rows = [] \<or> payload_bytes [hd rows] \<le> maxBytes" by auto
qed

lemma cap_result:
  assumes "capResultBytes rows maxBytes = Some r"
  shows "cap_inv rows r"
proof (rule while_option_rule [where P = "cap_inv rows", OF _ assms [unfolded cap_loop] cap_inv_start])
  fix s assume "cap_inv rows s" "fst s \<noteq> [] \<and> maxBytes < payload_bytes (fst s)"
  from cap_keeps_inv [OF cap_fits(2) [OF assms] this] show "cap_inv rows (cap_step s)" ..
qed

text \<open>C15: the byte cap returns exactly when its first row fits the budget (or there is none); then it
  returns a prefix of the rows that fits, empty only when there were none, and reports a truncation
  exactly when rows were dropped. A single row over the budget halves to itself for ever: the loop
  does not return.\<close>

theorem byte_cap_returns:
  "case capResultBytes rows maxBytes of
     None \<Rightarrow> rows \<noteq> [] \<and> maxBytes < payload_bytes [hd rows]
   | Some (kept, truncated) \<Rightarrow>
       (rows = [] \<or> payload_bytes [hd rows] \<le> maxBytes)
       \<and> prefix kept rows \<and> (kept = [] \<longleftrightarrow> rows = []) \<and> (kept = [] \<or> payload_bytes kept \<le> maxBytes)
       \<and> (truncated \<longleftrightarrow> kept \<noteq> rows)"
proof (cases "capResultBytes rows maxBytes")
  case None
  then have "\<not> (rows = [] \<or> payload_bytes [hd rows] \<le> maxBytes)" using cap_ends [of rows maxBytes] by fastforce
  with None show ?thesis by simp
next
  case (Some r)
  with cap_fits [OF Some] cap_result [OF Some] show ?thesis by (cases r) (simp add: cap_inv_def)
qed

end
