(* ===== verification/Mcp_Auth.thy ===== *)
theory Mcp_Auth
  imports Mcp_Sql Service_Token Capabilities
begin

text \<open>
  Authentication and authorization of the database MCP server (\<open>db-mcp-server/src/auth\<close>): the
  resource server, the client that fetches and re-verifies a run's entitlement snapshot, the
  capability gate, the per-view permissions, and the schema description filtered by them
  (\<open>schema/describe-schema.ts\<close>, \<open>routes/catalog.ts\<close>).
\<close>

section \<open>The caller\<close>

record verified_caller =
  vr_azp :: string
  vr_subject :: string

definition mcp_extractBearer :: "string option \<Rightarrow> mcp_exn + string" where
  "mcp_extractBearer header =
     (case header of
        None \<Rightarrow> Inl (McpError McpUnauthenticated ''A bearer token is required.'')
      | Some h \<Rightarrow>
          if h = [] \<or> \<not> starts_with ''Bearer '' h then Inl (McpError McpUnauthenticated ''A bearer token is required.'')
          else let token = js_trim (drop (length ''Bearer '') h)
               in if token = [] then Inl (McpError McpUnauthenticated ''A bearer token is required.'') else Inr token)"

text \<open>\<open>jwtVerify\<close> checks signature, issuer, audience and algorithm; it is an argument.\<close>

definition resource_verify ::
  "string list \<Rightarrow> (string \<Rightarrow> jwt_payload option) \<Rightarrow> string option \<Rightarrow> mcp_exn + verified_caller" where
  "resource_verify authorizedParties jwtVerify header =
     (case mcp_extractBearer header of
        Inl e \<Rightarrow> Inl e
      | Inr token \<Rightarrow>
          (case jwtVerify token of
             None \<Rightarrow> Inl (McpError McpUnauthenticated ''The provided token is invalid or expired.'')
           | Some payload \<Rightarrow>
               (case some_id (jstring (claim payload ''azp'')) of
                  None \<Rightarrow> Inl (McpError McpUnauthenticated ''The token was issued to an unauthorized party.'')
                | Some azp \<Rightarrow>
                    if azp \<notin> set authorizedParties
                    then Inl (McpError McpUnauthenticated ''The token was issued to an unauthorized party.'')
                    else Inr \<lparr>vr_azp = azp, vr_subject = nullish (pl_sub payload) azp\<rparr>)))"

lemma resource_verify_pinned:
  "resource_verify parties jwtVerify header = Inr caller \<longleftrightarrow>
     (\<exists>token payload. mcp_extractBearer header = Inr token \<and> jwtVerify token = Some payload
        \<and> claim payload ''azp'' = Some (JStr (vr_azp caller)) \<and> vr_azp caller \<noteq> []
        \<and> vr_azp caller \<in> set parties \<and> vr_subject caller = nullish (pl_sub payload) (vr_azp caller))"
  by (cases caller) (auto simp: resource_verify_def some_id_def jstring_Some_iff split: sum.splits option.splits if_splits)

section \<open>The entitlement snapshot of a run\<close>

record verified_snapshot =
  vs_runId :: string
  vs_ownerSubject :: string
  vs_roles :: "string list"
  vs_permissions :: "string list"
  vs_capabilityAllowlist :: "string list"
  vs_expiresAtEpochS :: int

record entitlement_response =
  er_runId :: string
  er_ownerSubject :: string
  er_roles :: "string list"
  er_permissions :: "string list"
  er_capabilityAllowlist :: "string list"
  er_snapshotHash :: string
  er_issuedAt :: string
  er_expiresAt :: string

text \<open>\<open>Math.floor(Date.parse(s) / 1000)\<close>; \<open>None\<close> is \<open>NaN\<close>, which \<open>JSON.stringify\<close> writes as \<open>null\<close>.\<close>

definition epoch_seconds :: "(string \<Rightarrow> int option) \<Rightarrow> string \<Rightarrow> int option" where
  "epoch_seconds dateParse s = map_option (\<lambda>ms. ms div 1000) (dateParse s)"

definition json_epoch :: "int option \<Rightarrow> string" where
  "json_epoch t = (case t of None \<Rightarrow> ''null'' | Some s \<Rightarrow> show_int s)"

definition response_hash :: "(string \<Rightarrow> string) \<Rightarrow> entitlement_response \<Rightarrow> int option \<Rightarrow> int option \<Rightarrow> string" where
  "response_hash sha256 body issuedAtEpochS expiresAtEpochS =
     ''sha256:'' @ sha256
       (''{'' @ json_key ''ownerSubject'' @ json_string (er_ownerSubject body)
        @ '','' @ json_key ''roles'' @ json_string_array (sortedUnique (er_roles body))
        @ '','' @ json_key ''permissions'' @ json_string_array (sortedUnique (er_permissions body))
        @ '','' @ json_key ''capabilityAllowlist'' @ json_string_array (sortedUnique (er_capabilityAllowlist body))
        @ '','' @ json_key ''issuedAtEpochS'' @ json_epoch issuedAtEpochS
        @ '','' @ json_key ''expiresAtEpochS'' @ json_epoch expiresAtEpochS @ ''}'')"

definition response_payload :: "entitlement_response \<Rightarrow> int \<Rightarrow> int \<Rightarrow> snapshot_payload" where
  "response_payload body issuedAtEpochS expiresAtEpochS =
     \<lparr>sp_ownerSubject = er_ownerSubject body, sp_roles = er_roles body, sp_permissions = er_permissions body,
      sp_capabilityAllowlist = er_capabilityAllowlist body, sp_issuedAtEpochS = issuedAtEpochS,
      sp_expiresAtEpochS = expiresAtEpochS\<rparr>"

lemma response_hash_shared:
  "response_hash sha256 body (Some i) (Some e) = computeSnapshotHash sha256 (response_payload body i e)"
  by (simp add: response_hash_def computeSnapshotHash_def snapshot_canonical_def response_payload_def json_epoch_def)

definition snapshot_verify ::
  "(string \<Rightarrow> string) \<Rightarrow> (string \<Rightarrow> int option) \<Rightarrow> int \<Rightarrow> entitlement_response \<Rightarrow> mcp_exn + verified_snapshot" where
  "snapshot_verify sha256 dateParse now body =
     (let issuedAtEpochS = epoch_seconds dateParse (er_issuedAt body);
          expiresAtEpochS = epoch_seconds dateParse (er_expiresAt body);
          recomputed = response_hash sha256 body issuedAtEpochS expiresAtEpochS
      in if recomputed \<noteq> er_snapshotHash body
         then Inl (McpError McpForbidden ''Entitlement snapshot failed integrity verification.'')
         else (case expiresAtEpochS of
            None \<Rightarrow> Inl (McpError McpForbidden ''Entitlement snapshot has expired.'')
          | Some e \<Rightarrow>
              if e * 1000 \<le> now then Inl (McpError McpForbidden ''Entitlement snapshot has expired.'')
              else Inr \<lparr>vs_runId = er_runId body, vs_ownerSubject = er_ownerSubject body, vs_roles = er_roles body,
                     vs_permissions = er_permissions body, vs_capabilityAllowlist = er_capabilityAllowlist body,
                     vs_expiresAtEpochS = e\<rparr>))"

text \<open>The control plane answers a run and a bearer token; the token client is the state.\<close>

record 'w snapshot_env =
  sn_token_config :: token_client_config
  sn_idp :: "'w idp"
  sn_api :: "string \<Rightarrow> string \<Rightarrow> entitlement_response fetched"
  sn_baseUrl :: string
  sn_encodeURIComponent :: "string \<Rightarrow> string"
  sn_sha256 :: "string \<Rightarrow> string"
  sn_dateParse :: "string \<Rightarrow> int option"
  sn_now :: int

definition entitlement_url :: "'w snapshot_env \<Rightarrow> string \<Rightarrow> string" where
  "entitlement_url env runId =
     sn_baseUrl env @ ''/internal/agent-runs/'' @ sn_encodeURIComponent env runId @ ''/entitlement''"

definition fetchVerified ::
  "'w snapshot_env \<Rightarrow> string \<Rightarrow> (mcp_exn, 'w token_client, verified_snapshot) eop" where
  "fetchVerified env runId = (\<lambda>client.
     case getToken (sn_token_config env) (sn_idp env) (sn_now env) client of
       (Inl _, client1) \<Rightarrow> (Inl (McpOther ''ServiceTokenError''), client1)
     | (Inr token, client1) \<Rightarrow>
         (case sn_api env (entitlement_url env runId) token of
            Fetched status body \<Rightarrow>
              (let client2 = (if status = 401 then invalidate client1 else client1) in
               if \<not> response_ok status
               then (Inl (McpError McpForbidden ''No valid entitlement snapshot for this run.''), client2)
               else (case body of
                  None \<Rightarrow> (Inl (McpOther ''SyntaxError''), client2)
                | Some b \<Rightarrow> (snapshot_verify (sn_sha256 env) (sn_dateParse env) (sn_now env) b, client2)))
          | _ \<Rightarrow> (Inl (McpError McpUpstreamUnavailable ''Could not reach the entitlement service.''), client1)))"

lemma snapshot_verify_sound:
  assumes "snapshot_verify sha256 dateParse now body = Inr snap"
  shows "now < vs_expiresAtEpochS snap * 1000"
    and "epoch_seconds dateParse (er_expiresAt body) = Some (vs_expiresAtEpochS snap)"
    and "response_hash sha256 body (epoch_seconds dateParse (er_issuedAt body)) (Some (vs_expiresAtEpochS snap)) = er_snapshotHash body"
    and "vs_permissions snap = er_permissions body" "vs_capabilityAllowlist snap = er_capabilityAllowlist body"
    and "vs_ownerSubject snap = er_ownerSubject body" "vs_runId snap = er_runId body"
  using assms by (auto simp: snapshot_verify_def Let_def split: if_splits option.splits)

lemma fetchVerified_sound:
  assumes "fetchVerified env runId client = (Inr snap, client')"
  shows "\<exists>token status body. sn_api env (entitlement_url env runId) token = Fetched status (Some body)
    \<and> response_ok status \<and> snapshot_verify (sn_sha256 env) (sn_dateParse env) (sn_now env) body = Inr snap"
  using assms
  by (auto simp: fetchVerified_def Let_def split: prod.splits sum.splits fetched.splits if_splits option.splits)

text \<open>The expiry and the content are what the hash covers; the run's identity is not: the answer for
  another run of the same snapshot passes under any \<open>runId\<close>, which the client does not compare.\<close>

lemma snapshot_verify_any_run:
  "snapshot_verify sha256 dateParse now body = Inr snap \<Longrightarrow>
   snapshot_verify sha256 dateParse now (body\<lparr>er_runId := other\<rparr>) = Inr (snap\<lparr>vs_runId := other\<rparr>)"
  by (auto simp: snapshot_verify_def response_hash_def Let_def split: if_splits option.splits)

section \<open>The capability gate\<close>

definition authorizeCapability :: "verified_snapshot \<Rightarrow> string \<Rightarrow> mcp_exn + unit" where
  "authorizeCapability snapshot capabilityId =
     (case getCapability capabilityId of
        None \<Rightarrow> Inl (McpError McpForbidden ''Unknown capability.'')
      | Some c \<Rightarrow>
          if \<not> permissionsSatisfyCapability c (vs_permissions snapshot)
          then Inl (McpError McpForbidden ''Not entitled to this capability.'')
          else if capabilityId \<notin> set (vs_capabilityAllowlist snapshot)
          then Inl (McpError McpForbidden ''Capability is not in the entitlement allowlist.'')
          else Inr ())"

definition isEntitled :: "verified_snapshot \<Rightarrow> string \<Rightarrow> bool" where
  "isEntitled snapshot capabilityId \<longleftrightarrow>
     (case getCapability capabilityId of
        None \<Rightarrow> False
      | Some c \<Rightarrow> permissionsSatisfyCapability c (vs_permissions snapshot)
          \<and> capabilityId \<in> set (vs_capabilityAllowlist snapshot))"

text \<open>The tools listed and the tools that run are decided alike.\<close>

lemma authorizeCapability_iff: "authorizeCapability snapshot c = Inr u \<longleftrightarrow> isEntitled snapshot c"
  by (auto simp: authorizeCapability_def isEntitled_def split: option.splits)

lemma authorizeCapability_error:
  "authorizeCapability snapshot c = Inl e \<Longrightarrow> \<exists>m. e = McpError McpForbidden m"
  by (auto simp: authorizeCapability_def split: option.splits if_splits)

section \<open>Views\<close>

definition entitledViews :: "string list \<Rightarrow> string list" where
  "entitledViews permissions = js_set (accessibleViews (js_set permissions))"

record view_denial =
  vd_view :: string
  vd_requiredPermission :: "string option"

definition findForbiddenView :: "string list \<Rightarrow> string list \<Rightarrow> view_denial option" where
  "findForbiddenView relations entitled =
     (case find (\<lambda>relation. relation \<notin> set entitled) relations of
        None \<Rightarrow> None
      | Some view \<Rightarrow> Some \<lparr>vd_view = view, vd_requiredPermission = permissionForView view\<rparr>)"

lemma findForbiddenView_None:
  "findForbiddenView relations (entitledViews permissions) = None \<longleftrightarrow>
     (\<forall>v \<in> set relations. \<exists>p. permissionForView v = Some p \<and> p \<in> set permissions)"
proof -
  have "findForbiddenView relations entitled = None \<longleftrightarrow> find (\<lambda>relation. relation \<notin> set entitled) relations = None" for entitled
    by (simp add: findForbiddenView_def split: option.splits)
  then show ?thesis by (simp add: find_None_iff_all entitledViews_def set_accessibleViews)
qed

lemma findForbiddenView_Some:
  "findForbiddenView relations (entitledViews permissions) = Some d \<Longrightarrow>
     vd_view d \<in> set relations \<and> vd_requiredPermission d = permissionForView (vd_view d)
     \<and> (\<forall>p. permissionForView (vd_view d) = Some p \<longrightarrow> p \<notin> set permissions)"
  by (auto simp: findForbiddenView_def entitledViews_def set_accessibleViews split: option.splits dest: find_SomeD)

text \<open>Every reviewed view has a permission, so a refused relation names one.\<close>

lemma reviewed_views_have_permission: "v \<in> set (map vd_name MCP_READ_VIEWS) \<Longrightarrow> permissionForView v \<noteq> None"
proof -
  have "list_all (\<lambda>v. permissionForView v \<noteq> None) (map vd_name MCP_READ_VIEWS)" by code_simp
  then show "v \<in> set (map vd_name MCP_READ_VIEWS) \<Longrightarrow> permissionForView v \<noteq> None" unfolding list_all_iff by blast
qed

record described_column =
  dc_name :: string
  dc_type :: string
  dc_pii :: bool
  dc_description :: "string option"

record described_view =
  dv_schema :: string
  dv_name :: string
  dv_description :: string
  dv_ownerScoped :: bool
  dv_columns :: "described_column list"

definition view_allowed :: "string list option \<Rightarrow> view_descriptor \<Rightarrow> bool" where
  "view_allowed allowed view \<longleftrightarrow> (case allowed of None \<Rightarrow> True | Some names \<Rightarrow> vd_name view \<in> set names)"

definition describeSchema :: "string list option \<Rightarrow> described_view list" where
  "describeSchema allowed =
     map (\<lambda>view. \<lparr>dv_schema = MCP_READ_SCHEMA, dv_name = vd_name view, dv_description = vd_description view,
         dv_ownerScoped = vd_ownerScoped view,
         dv_columns = map (\<lambda>c. \<lparr>dc_name = vc_name c, dc_type = vc_type c, dc_pii = (vc_sensitivity c = PiiColumn),
           dc_description = some_id (vc_description c)\<rparr>) (vd_columns view)\<rparr>)
       (filter (view_allowed allowed) MCP_READ_VIEWS)"

record listed_view =
  lv_schema :: string
  lv_name :: string
  lv_description :: string
  lv_ownerScoped :: bool

definition listViews :: "string list option \<Rightarrow> listed_view list" where
  "listViews allowed =
     map (\<lambda>view. \<lparr>lv_schema = MCP_READ_SCHEMA, lv_name = vd_name view, lv_description = vd_description view,
         lv_ownerScoped = vd_ownerScoped view\<rparr>)
       (filter (view_allowed allowed) MCP_READ_VIEWS)"

lemma describeSchema_names: "map dv_name (describeSchema allowed) = map vd_name (filter (view_allowed allowed) MCP_READ_VIEWS)"
  by (simp add: describeSchema_def o_def)

lemma describeSchema_entitled:
  "view \<in> dv_name ` set (describeSchema (Some (entitledViews permissions))) \<longleftrightarrow>
     view \<in> set (map vd_name MCP_READ_VIEWS) \<and> (\<exists>p. permissionForView view = Some p \<and> p \<in> set permissions)"
proof -
  have "dv_name ` set (describeSchema allowed) = set (map vd_name (filter (view_allowed allowed) MCP_READ_VIEWS))" for allowed
    by (simp only: describeSchema_names [symmetric] set_map)
  then show ?thesis by (auto simp: view_allowed_def entitledViews_def set_accessibleViews)
qed

text \<open>The described surface and the queryable surface agree: what is described passes the view check
  and the validator's allowlist, and conversely.\<close>

lemma described_is_queryable:
  "view \<in> dv_name ` set (describeSchema (Some (entitledViews permissions))) \<longleftrightarrow>
     isAllowedRelation (Some MCP_READ_SCHEMA) view \<and> findForbiddenView [view] (entitledViews permissions) = None"
  by (simp add: describeSchema_entitled findForbiddenView_None isAllowedRelation_def)

end
