(* ===== verification/Mcp_Server.thy ===== *)
theory Mcp_Server
  imports Mcp_Auth
begin

text \<open>
  The tools of the database MCP server and their transport: the read-only data source
  (\<open>data/readonly-datasource.ts\<close>), the audit trail (\<open>audit/audit.ts\<close>), the three tools with
  their guard (\<open>tools/register-tools.ts\<close>), and the HTTP host with its sessions and rate limiter
  (\<open>server.ts\<close>). The database and the MCP SDK are arguments.
\<close>

section \<open>What a tool call touches\<close>

datatype mcp_decision = McpAllow | McpDeny

record mcp_audit_event =
  ma_runId :: string
  ma_ownerSubject :: string
  ma_caller :: string
  ma_capability :: string
  ma_decision :: mcp_decision
  ma_reason :: "string option"
  ma_relations :: "string list option"
  ma_rowCount :: "nat option"
  ma_truncated :: "bool option"
  ma_durationMs :: "int option"

datatype mcp_log = SqlRejectedLog string | ViewForbiddenLog string | ToolErrorLog string mcp_error_code

text \<open>A statement is its text and its parameters. The statements sent to the database, the audit
  trail and the warnings only grow.\<close>

type_synonym db_statement = "string \<times> json list"

record mcp_world =
  mw_sent :: "db_statement list"
  mw_audit :: "mcp_audit_event list"
  mw_log :: "mcp_log list"

text \<open>The answer of the database to a statement depends on what was sent before; an error has a code
  or none.\<close>

type_synonym db_answer = "db_statement list \<Rightarrow> db_statement \<Rightarrow> string option + json list"

record tool_context =
  tx_snapshot :: verified_snapshot
  tx_caller :: verified_caller
  tx_connects :: bool
  tx_answer :: db_answer
  tx_maxRows :: nat
  tx_statementTimeoutMs :: nat
  tx_maxResultBytes :: nat
  tx_parseFn :: "string \<Rightarrow> json option"
  tx_sha256 :: "string \<Rightarrow> string"
  tx_durationMs :: int

definition audit_record :: "mcp_audit_event \<Rightarrow> mcp_world \<Rightarrow> mcp_world" where
  "audit_record event w = w\<lparr>mw_audit := mw_audit w @ [event]\<rparr>"

definition warn :: "mcp_log \<Rightarrow> mcp_world \<Rightarrow> mcp_world" where
  "warn entry w = w\<lparr>mw_log := mw_log w @ [entry]\<rparr>"

definition event_of :: "tool_context \<Rightarrow> string \<Rightarrow> mcp_decision \<Rightarrow> string option \<Rightarrow> mcp_audit_event" where
  "event_of ctx cap decision reason =
     \<lparr>ma_runId = vs_runId (tx_snapshot ctx), ma_ownerSubject = vs_ownerSubject (tx_snapshot ctx),
      ma_caller = vr_azp (tx_caller ctx), ma_capability = cap, ma_decision = decision, ma_reason = reason,
      ma_relations = None, ma_rowCount = None, ma_truncated = None, ma_durationMs = None\<rparr>"

definition hashSql :: "(string \<Rightarrow> string) \<Rightarrow> string \<Rightarrow> string" where
  "hashSql sha256 sql = ''sha256:'' @ take 32 (sha256 sql)"

section \<open>The read-only data source\<close>

definition db_query :: "db_answer \<Rightarrow> string \<Rightarrow> json list \<Rightarrow> (string option, mcp_world, json list) eop" where
  "db_query answer sql params = (\<lambda>w. (answer (mw_sent w) (sql, params), w\<lparr>mw_sent := mw_sent w @ [(sql, params)]\<rparr>))"

definition toQueryError :: "string option \<Rightarrow> mcp_exn" where
  "toQueryError code =
     (if code = Some ''57014'' then McpError McpSqlRejected ''The query exceeded the time limit.''
      else McpError McpSqlRejected ''The query could not be executed.'')"

text \<open>\<open>SELECT set_config('name', $1, true)\<close>\<close>

definition set_config_text :: "string \<Rightarrow> string" where
  "set_config_text name = ''SELECT set_config('' @ [CHR 0x27] @ name @ [CHR 0x27] @ '', $1, true)''"

definition run_in_read_only :: "tool_context \<Rightarrow> string \<Rightarrow> json list \<Rightarrow> (string option, mcp_world, json list) eop" where
  "run_in_read_only ctx sql params =
     thenM (db_query (tx_answer ctx) ''BEGIN READ ONLY'' [])
    (thenM (db_query (tx_answer ctx) (set_config_text ''statement_timeout'') [JStr (show_nat (tx_statementTimeoutMs ctx))])
    (thenM (db_query (tx_answer ctx) (set_config_text ''nova.owner_subject'') [JStr (vs_ownerSubject (tx_snapshot ctx))])
    (bindM (db_query (tx_answer ctx) sql params) (\<lambda>rows.
     thenM (db_query (tx_answer ctx) ''COMMIT'' []) (returnM rows)))))"

text \<open>A failing \<open>ROLLBACK\<close> is ignored.\<close>

definition runSelect :: "tool_context \<Rightarrow> string \<Rightarrow> json list \<Rightarrow> (mcp_exn, mcp_world, json list) eop" where
  "runSelect ctx sql params = (\<lambda>w.
     if \<not> tx_connects ctx then (Inl (McpOther ''connect''), w)
     else case run_in_read_only ctx sql params w of
            (Inr rows, w1) \<Rightarrow> (Inr rows, w1)
          | (Inl code, w1) \<Rightarrow> (Inl (toQueryError code), snd (db_query (tx_answer ctx) ''ROLLBACK'' [] w1)))"

section \<open>The tools\<close>

definition DESCRIBE_CAPABILITY :: string where
  "DESCRIBE_CAPABILITY = ''data.schema.describe''"

definition SELECT_CAPABILITY :: string where
  "SELECT_CAPABILITY = ''data.query.select''"

fun select_scalar :: "json \<Rightarrow> bool" where
  "select_scalar (JArr _) = False"
| "select_scalar (JObj _) = False"
| "select_scalar _ = True"

text \<open>\<open>runSelectArgs.parse\<close>: \<open>None\<close> is a \<open>ZodError\<close>.\<close>

definition runSelectArgs :: "json \<Rightarrow> (string \<times> json list option) option" where
  "runSelectArgs rawArgs =
     (case rawArgs of
        JObj kvs \<Rightarrow>
          (case map_of kvs ''sql'' of
             Some (JStr sql) \<Rightarrow>
               if length sql < 1 \<or> 20000 < length sql then None
               else (case map_of kvs ''params'' of
                  None \<Rightarrow> Some (sql, None)
                | Some (JArr params) \<Rightarrow>
                    if length params \<le> 64 \<and> list_all select_scalar params then Some (sql, Some params) else None
                | Some _ \<Rightarrow> None)
           | _ \<Rightarrow> None)
      | _ \<Rightarrow> None)"

text \<open>A handler body may not return: \<open>None\<close>.\<close>

type_synonym 'a handler = "mcp_world \<Rightarrow> ((mcp_exn + 'a) \<times> mcp_world) option"

definition described_column_json :: "described_column \<Rightarrow> json" where
  "described_column_json c =
     JObj ([(''name'', JStr (dc_name c)), (''type'', JStr (dc_type c)), (''pii'', JBool (dc_pii c))]
       @ (case dc_description c of None \<Rightarrow> [] | Some d \<Rightarrow> [(''description'', JStr d)]))"

definition described_view_json :: "described_view \<Rightarrow> json" where
  "described_view_json v =
     JObj [(''schema'', JStr (dv_schema v)), (''name'', JStr (dv_name v)), (''description'', JStr (dv_description v)),
       (''ownerScoped'', JBool (dv_ownerScoped v)), (''columns'', JArr (map described_column_json (dv_columns v)))]"

definition listed_view_json :: "listed_view \<Rightarrow> json" where
  "listed_view_json v =
     JObj [(''schema'', JStr (lv_schema v)), (''name'', JStr (lv_name v)), (''description'', JStr (lv_description v)),
       (''ownerScoped'', JBool (lv_ownerScoped v))]"

definition describe_body :: "tool_context \<Rightarrow> json \<Rightarrow> json handler" where
  "describe_body ctx views = (\<lambda>w.
     case authorizeCapability (tx_snapshot ctx) DESCRIBE_CAPABILITY of
       Inl e \<Rightarrow> Some (Inl e, w)
     | Inr _ \<Rightarrow> Some (Inr (JObj [(''views'', views)]), audit_record (event_of ctx DESCRIBE_CAPABILITY McpAllow None) w))"

definition allowedViews :: "tool_context \<Rightarrow> string list" where
  "allowedViews ctx = entitledViews (vs_permissions (tx_snapshot ctx))"

definition denial_reason :: "view_denial \<Rightarrow> string" where
  "denial_reason d =
     ''view_forbidden:'' @ vd_view d
     @ (case some_id (vd_requiredPermission d) of None \<Rightarrow> [] | Some p \<Rightarrow> '':'' @ p)"

definition denial_message :: "view_denial \<Rightarrow> string" where
  "denial_message d =
     (case some_id (vd_requiredPermission d) of
        Some p \<Rightarrow> ''Not entitled to read mcp_read.'' @ vd_view d @ '' (requires '' @ p @ '').''
      | None \<Rightarrow> ''Not entitled to read mcp_read.'' @ vd_view d @ ''.'')"

definition select_result :: "tool_context \<Rightarrow> string \<Rightarrow> string list \<Rightarrow> json list \<Rightarrow> bool \<Rightarrow> json" where
  "select_result ctx sql relations rows truncated =
     JObj [(''sqlHash'', JStr (hashSql (tx_sha256 ctx) sql)), (''relations'', JArr (map JStr relations)),
       (''rowCount'', JNum (int (length rows))), (''truncated'', JBool truncated), (''rows'', JArr rows)]"

definition select_event :: "tool_context \<Rightarrow> string list \<Rightarrow> json list \<Rightarrow> bool \<Rightarrow> mcp_audit_event" where
  "select_event ctx relations rows truncated =
     (event_of ctx SELECT_CAPABILITY McpAllow None)
       \<lparr>ma_relations := Some relations, ma_rowCount := Some (length rows), ma_truncated := Some truncated,
        ma_durationMs := Some (tx_durationMs ctx)\<rparr>"

definition run_select_body :: "tool_context \<Rightarrow> json \<Rightarrow> json handler" where
  "run_select_body ctx rawArgs = (\<lambda>w.
     case authorizeCapability (tx_snapshot ctx) SELECT_CAPABILITY of
       Inl e \<Rightarrow> Some (Inl e, w)
     | Inr _ \<Rightarrow>
         (case runSelectArgs rawArgs of
            None \<Rightarrow> Some (Inl (McpOther ''ZodError''), w)
          | Some (sql, params) \<Rightarrow>
              (case validateSelect (tx_parseFn ctx) sql of
                 Inl rejection \<Rightarrow>
                   Some (Inl (McpError McpSqlRejected (sr_message rejection)),
                     warn (SqlRejectedLog (sr_reason rejection))
                       (audit_record (event_of ctx SELECT_CAPABILITY McpDeny (Some (''sql_rejected:'' @ sr_reason rejection))) w))
               | Inr relations \<Rightarrow>
                   (case findForbiddenView relations (allowedViews ctx) of
                      Some denial \<Rightarrow>
                        Some (Inl (McpError McpViewForbidden (denial_message denial)),
                          warn (ViewForbiddenLog (vd_view denial))
                            (audit_record ((event_of ctx SELECT_CAPABILITY McpDeny (Some (denial_reason denial)))
                               \<lparr>ma_relations := Some relations\<rparr>) w))
                    | None \<Rightarrow>
                        (case runSelect ctx (clampSelectToLimit sql (tx_maxRows ctx)) (nullish params []) w of
                           (Inl e, w1) \<Rightarrow> Some (Inl e, w1)
                         | (Inr rawRows, w1) \<Rightarrow>
                             (case capResultBytes rawRows (tx_maxResultBytes ctx) of
                                None \<Rightarrow> None
                              | Some (rows, truncated) \<Rightarrow>
                                  Some (Inr (select_result ctx sql relations rows truncated),
                                    audit_record (select_event ctx relations rows truncated) w1)))))))"

record tool_result =
  tr_text :: string
  tr_structured :: "json option"
  tr_isError :: bool

fun mcp_code_text :: "mcp_error_code \<Rightarrow> string" where
  "mcp_code_text McpUnauthenticated = ''unauthenticated''"
| "mcp_code_text McpForbidden = ''forbidden''"
| "mcp_code_text McpViewForbidden = ''view_forbidden''"
| "mcp_code_text McpInvalidRequest = ''invalid_request''"
| "mcp_code_text McpSqlRejected = ''sql_rejected''"
| "mcp_code_text McpUpstreamUnavailable = ''upstream_unavailable''"
| "mcp_code_text McpInternal = ''internal''"

definition tool_guard ::
  "string \<Rightarrow> tool_context \<Rightarrow> string \<Rightarrow> json handler \<Rightarrow> mcp_world \<Rightarrow> (tool_result \<times> mcp_world) option" where
  "tool_guard tool ctx cap body = (\<lambda>w.
     case body w of
       None \<Rightarrow> None
     | Some (Inr res, w1) \<Rightarrow> Some (\<lparr>tr_text = json_stringify res, tr_structured = Some res, tr_isError = False\<rparr>, w1)
     | Some (Inl e, w1) \<Rightarrow>
         (let (code, message) = toSafeError e;
              w2 = (if code = McpForbidden \<or> code = McpUnauthenticated
                    then audit_record (event_of ctx cap McpDeny (Some (mcp_code_text code))) w1 else w1)
          in Some (\<lparr>tr_text = json_stringify (JObj [(''error'', JStr (mcp_code_text code)), (''message'', JStr message)]),
                    tr_structured = None, tr_isError = True\<rparr>, warn (ToolErrorLog tool code) w2)))"

definition describe_schema_tool :: "tool_context \<Rightarrow> json \<Rightarrow> mcp_world \<Rightarrow> (tool_result \<times> mcp_world) option" where
  "describe_schema_tool ctx _ = tool_guard ''describe_schema'' ctx DESCRIBE_CAPABILITY
     (describe_body ctx (JArr (map described_view_json (describeSchema (Some (allowedViews ctx))))))"

definition list_views_tool :: "tool_context \<Rightarrow> json \<Rightarrow> mcp_world \<Rightarrow> (tool_result \<times> mcp_world) option" where
  "list_views_tool ctx _ = tool_guard ''list_views'' ctx DESCRIBE_CAPABILITY
     (describe_body ctx (JArr (map listed_view_json (listViews (Some (allowedViews ctx))))))"

definition run_select_query :: "tool_context \<Rightarrow> json \<Rightarrow> mcp_world \<Rightarrow> (tool_result \<times> mcp_world) option" where
  "run_select_query ctx rawArgs = tool_guard ''run_select_query'' ctx SELECT_CAPABILITY (run_select_body ctx rawArgs)"

definition registerTools ::
  "tool_context \<Rightarrow> (string \<times> (json \<Rightarrow> mcp_world \<Rightarrow> (tool_result \<times> mcp_world) option)) list" where
  "registerTools ctx =
     (let hasAnyView = length (allowedViews ctx) > 0 in
      (if isEntitled (tx_snapshot ctx) DESCRIBE_CAPABILITY \<and> hasAnyView
       then [(''describe_schema'', describe_schema_tool ctx), (''list_views'', list_views_tool ctx)] else [])
      @ (if isEntitled (tx_snapshot ctx) SELECT_CAPABILITY \<and> hasAnyView
         then [(''run_select_query'', run_select_query ctx)] else []))"

section \<open>What reaches the database\<close>

definition SQL_PARAMS :: "tool_context \<Rightarrow> string \<Rightarrow> json list \<Rightarrow> db_statement list" where
  "SQL_PARAMS ctx sql params =
     [(''BEGIN READ ONLY'', []),
      (set_config_text ''statement_timeout'', [JStr (show_nat (tx_statementTimeoutMs ctx))]),
      (set_config_text ''nova.owner_subject'', [JStr (vs_ownerSubject (tx_snapshot ctx))]),
      (sql, params), (''COMMIT'', [])]"

definition sent :: "mcp_world \<Rightarrow> db_statement list \<Rightarrow> mcp_world" where
  "sent w qs = w\<lparr>mw_sent := mw_sent w @ qs\<rparr>"

lemma sent_sent [simp]: "sent (sent w xs) ys = sent w (xs @ ys)"
  by (simp add: sent_def)

lemma sent_fields [simp]:
  "mw_sent (sent w qs) = mw_sent w @ qs" "mw_audit (sent w qs) = mw_audit w" "mw_log (sent w qs) = mw_log w"
  by (simp_all add: sent_def)

lemma db_query_sent: "db_query answer sql params w = (answer (mw_sent w) (sql, params), sent w [(sql, params)])"
  by (simp add: db_query_def sent_def)

text \<open>The statements of a transaction go out in order; the first that fails ends them.\<close>

definition sends :: "db_statement list \<Rightarrow> ('e, mcp_world, 'a) eop \<Rightarrow> bool" where
  "sends qs m \<longleftrightarrow> (\<forall>w r w'. m w = (r, w') \<longrightarrow>
     (if isl r then \<exists>k. w' = sent w (take (Suc k) qs) else w' = sent w qs))"

lemma sendsI:
  "(\<And>w r w'. m w = (r, w') \<Longrightarrow> if isl r then \<exists>k. w' = sent w (take (Suc k) qs) else w' = sent w qs) \<Longrightarrow> sends qs m"
  unfolding sends_def by blast

lemma sendsD: "sends qs m \<Longrightarrow> m w = (r, w') \<Longrightarrow> if isl r then \<exists>k. w' = sent w (take (Suc k) qs) else w' = sent w qs"
  unfolding sends_def by blast

lemma sends_query: "sends [(sql, params)] (db_query answer sql params)"
  by (rule sendsI) (auto simp: db_query_sent)

lemma sends_bindM:
  assumes "sends [q] m" and "\<And>x. sends qs (f x)"
  shows "sends (q # qs) (bindM m f)"
proof (rule sendsI)
  fix w r w' assume b: "bindM m f w = (r, w')"
  obtain r1 w1 where m: "m w = (r1, w1)" by (cases "m w")
  from sendsD [OF assms(1) m] have w1: "w1 = sent w [q]" by (auto split: if_splits)
  show "if isl r then \<exists>k. w' = sent w (take (Suc k) (q # qs)) else w' = sent w (q # qs)"
  proof (cases r1)
    case (Inl e)
    with m w1 b have "isl r" "w' = sent w (take (Suc 0) (q # qs))" by (auto simp: op_simps)
    then show ?thesis by (simp only: if_True) blast
  next
    case (Inr x)
    with m b have "f x w1 = (r, w')" by (simp add: op_simps)
    show ?thesis
    proof (cases "isl r")
      case True
      with sendsD [OF assms(2) \<open>f x w1 = (r, w')\<close>] obtain k where "w' = sent w1 (take (Suc k) qs)" by auto
      with w1 have "w' = sent w (take (Suc (Suc k)) (q # qs))" by simp
      with True show ?thesis by (simp only: if_True) blast
    next
      case False
      with sendsD [OF assms(2) \<open>f x w1 = (r, w')\<close>] w1 show ?thesis by simp
    qed
  qed
qed

lemmas sends_thenM = sends_bindM [of _ _ _ "\<lambda>_. n" for n, folded thenM_def]

lemma sends_returnM: "sends [] (returnM x)"
  by (simp add: sends_def op_simps sent_def)

lemma run_in_read_only_sends: "sends (SQL_PARAMS ctx sql params) (run_in_read_only ctx sql params)"
  unfolding run_in_read_only_def SQL_PARAMS_def
  by (intro sends_thenM sends_bindM sends_query sends_returnM)

lemma runSelect_sends:
  assumes "runSelect ctx sql params w = (r, w')"
  shows "case r of
      Inr rows \<Rightarrow> w' = sent w (SQL_PARAMS ctx sql params)
    | Inl e \<Rightarrow> \<exists>k. w' = sent w (take k (SQL_PARAMS ctx sql params) @ (if k = 0 then [] else [(''ROLLBACK'', [])]))"
proof (cases "tx_connects ctx")
  case False
  with assms have "r = Inl (McpOther ''connect'')" "w' = sent w []" by (auto simp: runSelect_def sent_def)
  then show ?thesis by (auto intro: exI [of _ 0])
next
  case True
  obtain q w1 where q: "run_in_read_only ctx sql params w = (q, w1)" by (cases "run_in_read_only ctx sql params w")
  note sends = sendsD [OF run_in_read_only_sends q]
  show ?thesis
  proof (cases q)
    case (Inr rows)
    with assms True q sends show ?thesis by (auto simp: runSelect_def)
  next
    case (Inl code)
    with sends obtain k where "w1 = sent w (take (Suc k) (SQL_PARAMS ctx sql params))" by auto
    with Inl assms True q have "r = Inl (toQueryError code)"
        "w' = sent w (take (Suc k) (SQL_PARAMS ctx sql params) @ [(''ROLLBACK'', [])])"
      by (auto simp: runSelect_def db_query_sent)
    then show ?thesis by (auto intro: exI [of _ "Suc k"])
  qed
qed

lemma runSelect_error: "runSelect ctx sql params w = (Inl e, w') \<Longrightarrow> toSafeError e \<noteq> (McpForbidden, m) \<and> toSafeError e \<noteq> (McpUnauthenticated, m)"
  by (auto simp: runSelect_def toQueryError_def split: if_splits prod.splits sum.splits)

definition select_allowed :: "tool_context \<Rightarrow> json \<Rightarrow> string \<Rightarrow> json list \<Rightarrow> string list \<Rightarrow> bool" where
  "select_allowed ctx rawArgs sql params relations \<longleftrightarrow>
     isEntitled (tx_snapshot ctx) SELECT_CAPABILITY
     \<and> (\<exists>p. runSelectArgs rawArgs = Some (sql, p) \<and> params = nullish p [])
     \<and> validateSelect (tx_parseFn ctx) sql = Inr relations
     \<and> list_all (\<lambda>v. \<exists>p. permissionForView v = Some p \<and> p \<in> set (vs_permissions (tx_snapshot ctx))) relations"

text \<open>A call that passes every gate runs one read-only transaction, or a prefix of it that is rolled
  back; a call that does not reaches the database with nothing and is denied.\<close>

definition answered :: "tool_context \<Rightarrow> string \<Rightarrow> json list \<Rightarrow> string list \<Rightarrow> mcp_world \<Rightarrow> tool_result \<Rightarrow> mcp_world \<Rightarrow> bool" where
  "answered ctx sql params relations w res w' \<longleftrightarrow>
     (\<exists>rows truncated. \<not> tr_isError res
        \<and> tr_structured res = Some (select_result ctx sql relations rows truncated)
        \<and> (rows = [] \<or> payload_bytes rows \<le> tx_maxResultBytes ctx)
        \<and> mw_sent w' = mw_sent w @ SQL_PARAMS ctx (clampSelectToLimit sql (tx_maxRows ctx)) params
        \<and> mw_audit w' = mw_audit w @ [select_event ctx relations rows truncated])"

definition aborted :: "tool_context \<Rightarrow> string \<Rightarrow> json list \<Rightarrow> mcp_world \<Rightarrow> tool_result \<Rightarrow> mcp_world \<Rightarrow> bool" where
  "aborted ctx sql params w res w' \<longleftrightarrow>
     (\<exists>k. tr_isError res
        \<and> mw_sent w' = mw_sent w @ take k (SQL_PARAMS ctx (clampSelectToLimit sql (tx_maxRows ctx)) params)
             @ (if k = 0 then [] else [(''ROLLBACK'', [])])
        \<and> mw_audit w' = mw_audit w)"

definition refused :: "mcp_world \<Rightarrow> tool_result \<Rightarrow> mcp_world \<Rightarrow> bool" where
  "refused w res w' \<longleftrightarrow>
     tr_isError res \<and> mw_sent w' = mw_sent w
     \<and> (\<exists>denials. mw_audit w' = mw_audit w @ denials \<and> length denials \<le> 1
          \<and> list_all (\<lambda>e. ma_decision e = McpDeny) denials)"

lemma audit_record_fields [simp]:
  "mw_sent (audit_record e w) = mw_sent w" "mw_audit (audit_record e w) = mw_audit w @ [e]" "mw_log (audit_record e w) = mw_log w"
  by (simp_all add: audit_record_def)

lemma warn_fields [simp]: "mw_sent (warn e w) = mw_sent w" "mw_audit (warn e w) = mw_audit w"
  by (simp_all add: warn_def)

lemma event_of_decision [simp]: "ma_decision (event_of ctx c d r) = d"
  by (simp add: event_of_def)

lemma guard_refused:
  assumes "body w = Some (Inl e, w1)" and "mw_sent w1 = mw_sent w"
    and "mw_audit w1 = mw_audit w @ denials" "length denials \<le> (if \<exists>m. e = McpError McpForbidden m then 0 else 1)"
    and "list_all (\<lambda>e. ma_decision e = McpDeny) denials"
    and "\<And>m. e \<noteq> McpError McpUnauthenticated m"
    and "tool_guard tool ctx cap body w = Some (res, w')"
  shows "refused w res w'"
proof (cases "\<exists>m. e = McpError McpForbidden m")
  case True
  then obtain m where "e = McpError McpForbidden m" ..
  with assms show ?thesis by (auto simp: tool_guard_def refused_def)
next
  case False
  obtain code msg where safe: "toSafeError e = (code, msg)" by (cases "toSafeError e")
  with False assms(6) have "code \<noteq> McpForbidden" "code \<noteq> McpUnauthenticated" by (cases e; auto)+
  with assms(1,7) safe have "tr_isError res" "mw_sent w' = mw_sent w1" "mw_audit w' = mw_audit w1"
    by (auto simp: tool_guard_def)
  with False assms(2-5) show ?thesis by (auto simp: refused_def)
qed

lemma run_select_refused:
  assumes "run_select_query ctx rawArgs w = Some (res, w')"
    and "\<nexists>sql params relations. select_allowed ctx rawArgs sql params relations"
  shows "refused w res w'"
proof (cases "authorizeCapability (tx_snapshot ctx) SELECT_CAPABILITY")
  case (Inl e)
  with authorizeCapability_error obtain m where m: "e = McpError McpForbidden m" by blast
  have "run_select_body ctx rawArgs w = Some (Inl e, w)" using Inl by (simp add: run_select_body_def)
  from guard_refused [OF this _ _ _ _ _ assms(1) [unfolded run_select_query_def], of "[]"] m
  show ?thesis by simp
next
  case a: (Inr u)
  show ?thesis
  proof (cases "runSelectArgs rawArgs")
    case None
    have "run_select_body ctx rawArgs w = Some (Inl (McpOther ''ZodError''), w)" using a None by (simp add: run_select_body_def)
    from guard_refused [OF this _ _ _ _ _ assms(1) [unfolded run_select_query_def], of "[]"]
    show ?thesis by simp
  next
    case (Some args)
    obtain sql p where args: "runSelectArgs rawArgs = Some (sql, p)" using Some by (cases args) auto
    show ?thesis
    proof (cases "validateSelect (tx_parseFn ctx) sql")
      case (Inl rejection)
      have "run_select_body ctx rawArgs w = Some (Inl (McpError McpSqlRejected (sr_message rejection)),
          warn (SqlRejectedLog (sr_reason rejection))
            (audit_record (event_of ctx SELECT_CAPABILITY McpDeny (Some (''sql_rejected:'' @ sr_reason rejection))) w))"
        using a args Inl by (simp add: run_select_body_def)
      from guard_refused [OF this _ _ _ _ _ assms(1) [unfolded run_select_query_def]]
      show ?thesis by simp
    next
      case (Inr relations)
      have "isEntitled (tx_snapshot ctx) SELECT_CAPABILITY" using a authorizeCapability_iff by blast
      with assms(2) args Inr obtain denial where d: "findForbiddenView relations (allowedViews ctx) = Some denial"
        using findForbiddenView_None [of relations "vs_permissions (tx_snapshot ctx)"]
        by (cases "findForbiddenView relations (allowedViews ctx)") (auto simp: select_allowed_def allowedViews_def list_all_iff)
      have "run_select_body ctx rawArgs w = Some (Inl (McpError McpViewForbidden (denial_message denial)),
          warn (ViewForbiddenLog (vd_view denial))
            (audit_record ((event_of ctx SELECT_CAPABILITY McpDeny (Some (denial_reason denial)))\<lparr>ma_relations := Some relations\<rparr>) w))"
        using a args Inr d by (simp add: run_select_body_def)
      from guard_refused [OF this _ _ _ _ _ assms(1) [unfolded run_select_query_def]]
      show ?thesis by simp
    qed
  qed
qed

lemma run_select_body_allowed:
  assumes "select_allowed ctx rawArgs sql params relations"
  shows "run_select_body ctx rawArgs w =
    (case runSelect ctx (clampSelectToLimit sql (tx_maxRows ctx)) params w of
       (Inl e, w1) \<Rightarrow> Some (Inl e, w1)
     | (Inr rawRows, w1) \<Rightarrow>
         (case capResultBytes rawRows (tx_maxResultBytes ctx) of
            None \<Rightarrow> None
          | Some (rows, truncated) \<Rightarrow>
              Some (Inr (select_result ctx sql relations rows truncated),
                audit_record (select_event ctx relations rows truncated) w1)))"
proof -
  have "authorizeCapability (tx_snapshot ctx) SELECT_CAPABILITY = Inr ()"
    using assms authorizeCapability_iff by (auto simp: select_allowed_def)
  moreover have "findForbiddenView relations (allowedViews ctx) = None"
    using assms findForbiddenView_None [of relations "vs_permissions (tx_snapshot ctx)"]
    by (simp add: select_allowed_def allowedViews_def list_all_iff)
  ultimately show ?thesis using assms by (auto simp: select_allowed_def run_select_body_def)
qed

lemma run_select_allowed:
  assumes "run_select_query ctx rawArgs w = Some (res, w')" and "select_allowed ctx rawArgs sql params relations"
  shows "answered ctx sql params relations w res w' \<or> aborted ctx sql params w res w'"
proof -
  note body = run_select_body_allowed [OF assms(2), of w]
  note guarded = assms(1) [unfolded run_select_query_def tool_guard_def]
  obtain r w1 where run: "runSelect ctx (clampSelectToLimit sql (tx_maxRows ctx)) params w = (r, w1)"
    by (cases "runSelect ctx (clampSelectToLimit sql (tx_maxRows ctx)) params w")
  show ?thesis
  proof (cases r)
    case (Inl e)
    obtain code msg where safe: "toSafeError e = (code, msg)" by (cases "toSafeError e")
    with runSelect_error [OF run [unfolded Inl]] have "code \<noteq> McpForbidden" "code \<noteq> McpUnauthenticated" by auto
    with guarded body run Inl safe have "tr_isError res" "mw_sent w' = mw_sent w1" "mw_audit w' = mw_audit w1" by auto
    with runSelect_sends [OF run] Inl show ?thesis by (auto simp: aborted_def)
  next
    case (Inr rawRows)
    with guarded body run obtain c where cap: "capResultBytes rawRows (tx_maxResultBytes ctx) = Some c"
      by (cases "capResultBytes rawRows (tx_maxResultBytes ctx)") auto
    with guarded body run Inr
    have "\<not> tr_isError res" "tr_structured res = Some (select_result ctx sql relations (fst c) (snd c))"
      "w' = audit_record (select_event ctx relations (fst c) (snd c)) w1"
      by (auto split: prod.splits)
    with cap_fits(1) [OF cap] runSelect_sends [OF run] Inr
    show ?thesis unfolding answered_def by (intro disjI1 exI [of _ "fst c"] exI [of _ "snd c"]) simp
  qed
qed


definition example_answer :: db_answer where
  "example_answer _ q = Inr (if take 13 (fst q) = ''SELECT * FROM'' then [JObj [(''n'', JNum 1)]] else [])"

definition example_snapshot_view :: verified_snapshot where
  "example_snapshot_view =
     \<lparr>vs_runId = ''r1'', vs_ownerSubject = ''u1'', vs_roles = [], vs_permissions = [''create-agent-run'', ''read-sales''],
      vs_capabilityAllowlist = [''data.query.select''], vs_expiresAtEpochS = 100\<rparr>"

definition example_context :: tool_context where
  "example_context =
     \<lparr>tx_snapshot = example_snapshot_view, tx_caller = \<lparr>vr_azp = ''nova-agent-sql-analyst'', vr_subject = ''svc''\<rparr>,
      tx_connects = True, tx_answer = example_answer, tx_maxRows = 500, tx_statementTimeoutMs = 5000,
      tx_maxResultBytes = 1000000, tx_parseFn = \<lambda>_. Some (select_from_sales (JObj [(''A_Const'', JNull)])),
      tx_sha256 = \<lambda>_. ''00'', tx_durationMs = 3\<rparr>"

definition empty_world :: mcp_world where
  "empty_world = \<lparr>mw_sent = [], mw_audit = [], mw_log = []\<rparr>"

definition sql_args :: "string \<Rightarrow> json" where
  "sql_args sql = JObj [(''sql'', JStr sql)]"

lemma example_allowed:
  "validateSelect (tx_parseFn example_context) ''SELECT 1'' = Inr [''sales'']"
  "isEntitled example_snapshot_view SELECT_CAPABILITY"
  "runSelectArgs (sql_args ''SELECT 1'') = Some (''SELECT 1'', None)"
proof -
  have "validateSelect (\<lambda>_. Some (select_from_sales (JObj [(''A_Const'', JNull)]))) ''SELECT 1'' = Inr [''sales'']" by code_simp
  then show "validateSelect (tx_parseFn example_context) ''SELECT 1'' = Inr [''sales'']" by (simp add: example_context_def)
  show "isEntitled example_snapshot_view SELECT_CAPABILITY" by code_simp
  show "runSelectArgs (sql_args ''SELECT 1'') = Some (''SELECT 1'', None)" by (simp add: runSelectArgs_def sql_args_def)
qed

lemma example_select_allowed:
  assumes "tx_snapshot ctx = example_snapshot_view" and "tx_parseFn ctx = tx_parseFn example_context"
  shows "select_allowed ctx (sql_args ''SELECT 1'') ''SELECT 1'' [] [''sales'']"
  using assms example_allowed
  by (simp add: select_allowed_def nullish_def permissionForView_def MCP_READ_VIEW_PERMISSIONS_def example_snapshot_view_def)

lemma cap_noop: "payload_bytes rows \<le> maxBytes \<Longrightarrow> capResultBytes rows maxBytes = Some (rows, False)"
  unfolding cap_loop by (subst while_option_unfold) simp

lemma example_rows:
  assumes "tx_connects ctx" and "tx_answer ctx = example_answer"
  shows "\<exists>w1. runSelect ctx (clampSelectToLimit ''SELECT 1'' n) [] w = (Inr [JObj [(''n'', JNum 1)]], w1)"
proof -
  have "take 13 (clampSelectToLimit ''SELECT 1'' n) = ''SELECT * FROM''" by (simp add: clampSelectToLimit_def Let_def)
  then have "example_answer h (clampSelectToLimit ''SELECT 1'' n, ps) = Inr [JObj [(''n'', JNum 1)]]" for h ps
    by (simp add: example_answer_def)
  moreover have "\<exists>rows. example_answer h q = Inr rows" for h q by (simp add: example_answer_def)
  ultimately show ?thesis
    using assms by (auto simp: runSelect_def run_in_read_only_def op_simps db_query_sent example_answer_def split: prod.splits)
qed

lemma example_row_bytes: "payload_bytes [JObj [(''n'', JNum 1)]] = 9"
  by code_simp


section \<open>Where the trail and the budget fail\<close>

text \<open>The tool never returns when a single row is over the byte budget, its transaction committed.\<close>

lemma huge_row_hangs:
  "run_select_query (example_context\<lparr>tx_maxResultBytes := 8\<rparr>) (sql_args ''SELECT 1'') w = None"
proof -
  let ?ctx = "example_context\<lparr>tx_maxResultBytes := 8\<rparr>"
  have ctx: "tx_snapshot ?ctx = example_snapshot_view" "tx_parseFn ?ctx = tx_parseFn example_context" "tx_connects ?ctx"
    "tx_answer ?ctx = example_answer" "tx_maxResultBytes ?ctx = 8"
    by (simp_all add: example_context_def)
  from example_rows [OF ctx(3,4)] obtain w1 where
    "runSelect ?ctx (clampSelectToLimit ''SELECT 1'' (tx_maxRows ?ctx)) [] w = (Inr [JObj [(''n'', JNum 1)]], w1)" by blast
  moreover have "capResultBytes [JObj [(''n'', JNum 1)]] 8 = None"
    using cap_fits(2) [of "[JObj [(''n'', JNum 1)]]" 8] example_row_bytes
    by (cases "capResultBytes [JObj [(''n'', JNum 1)]] 8") auto
  ultimately show ?thesis
    using run_select_body_allowed [OF example_select_allowed [OF ctx(1,2)], of w] ctx(5)
    by (simp add: run_select_query_def tool_guard_def)
qed

text \<open>A call that passed every gate and fails in the database leaves no audit record, although
  statements were sent.\<close>

lemma failed_query_unaudited:
  assumes "run_select_query ctx rawArgs w = Some (res, w')" and "tr_isError res"
    and "select_allowed ctx rawArgs sql params relations"
  shows "mw_audit w' = mw_audit w"
  using run_select_allowed [OF assms(1,3)] assms(2) by (auto simp: answered_def aborted_def)

lemma registered_tools_entitled:
  assumes "(''run_select_query'', h) \<in> set (registerTools ctx)"
  shows "h = run_select_query ctx" and "isEntitled (tx_snapshot ctx) SELECT_CAPABILITY" and "allowedViews ctx \<noteq> []"
  using assms by (auto simp: registerTools_def Let_def split: if_splits)

section \<open>The HTTP host\<close>

text \<open>A session of the SDK's transport, bound at its creation to a caller and a tool context.\<close>

record mcp_session =
  ss_caller :: verified_caller
  ss_context :: tool_context

record 'w mcp_host =
  mh_sessions :: "(string \<times> mcp_session) list"
  mh_tokens :: "'w token_client"

record mcp_request =
  mq_authorization :: "string option"
  mq_session :: "string option"
  mq_runId :: "string option"
  mq_body :: json

text \<open>The SDK recognises an initialize request, and handles it: it fails, or announces the id of the
  new session. The context of a session's tools takes the snapshot and the caller.\<close>

record 'w host_env =
  he_authorizedParties :: "string list"
  he_jwtVerify :: "string \<Rightarrow> jwt_payload option"
  he_snapshot :: "'w snapshot_env"
  he_isInitializeRequest :: "json \<Rightarrow> bool"
  he_initialize :: "tool_context \<Rightarrow> json \<Rightarrow> mcp_exn + string"
  he_context :: "verified_snapshot \<Rightarrow> verified_caller \<Rightarrow> tool_context"

datatype mcp_response = Refused nat string string | HandledBy string tool_context | Catalog "described_view list"

definition refuse :: "nat \<Rightarrow> mcp_exn \<Rightarrow> mcp_response" where
  "refuse status e = (let (code, message) = toSafeError e in Refused status (mcp_code_text code) message)"

definition session_of :: "string option \<Rightarrow> (string \<times> mcp_session) list \<Rightarrow> (string \<times> mcp_session) option" where
  "session_of header sessions =
     (case some_id header of
        None \<Rightarrow> None
      | Some i \<Rightarrow> map_option (Pair i) (map_of sessions i))"

definition handlePost :: "'w host_env \<Rightarrow> mcp_request \<Rightarrow> 'w mcp_host \<Rightarrow> mcp_response \<times> 'w mcp_host" where
  "handlePost env req = (\<lambda>host.
     case resource_verify (he_authorizedParties env) (he_jwtVerify env) (mq_authorization req) of
       Inl e \<Rightarrow> (refuse 401 e, host)
     | Inr caller \<Rightarrow>
         (case session_of (mq_session req) (mh_sessions host) of
            Some (i, existing) \<Rightarrow> (HandledBy i (ss_context existing), host)
          | None \<Rightarrow>
              if some_id (mq_session req) \<noteq> None \<or> \<not> he_isInitializeRequest env (mq_body req)
              then (Refused 400 ''invalid_request'' ''No valid session; send an initialize request.'', host)
              else (case some_id (mq_runId req) of
                 None \<Rightarrow> (Refused 400 ''invalid_request'' ''Missing X-Nova-Run-Id header.'', host)
               | Some runId \<Rightarrow>
                   (case fetchVerified (he_snapshot env) runId (mh_tokens host) of
                      (Inl e, tokens) \<Rightarrow>
                        (refuse (if fst (toSafeError e) = McpUpstreamUnavailable then 503 else 403) e, host\<lparr>mh_tokens := tokens\<rparr>)
                    | (Inr snapshot, tokens) \<Rightarrow>
                        (let ctx = he_context env snapshot caller;
                             host1 = host\<lparr>mh_tokens := tokens\<rparr>
                         in case he_initialize env ctx (mq_body req) of
                              Inl e \<Rightarrow> (refuse 500 e, host1)
                            | Inr i \<Rightarrow>
                                (HandledBy i ctx, host1\<lparr>mh_sessions :=
                                   AList.update i \<lparr>ss_caller = caller, ss_context = ctx\<rparr> (mh_sessions host1)\<rparr>))))))"

definition handleSessionRequest :: "'w host_env \<Rightarrow> mcp_request \<Rightarrow> 'w mcp_host \<Rightarrow> mcp_response \<times> 'w mcp_host" where
  "handleSessionRequest env req = (\<lambda>host.
     case resource_verify (he_authorizedParties env) (he_jwtVerify env) (mq_authorization req) of
       Inl e \<Rightarrow> (refuse 401 e, host)
     | Inr _ \<Rightarrow>
         (case session_of (mq_session req) (mh_sessions host) of
            Some (i, session) \<Rightarrow> (HandledBy i (ss_context session), host)
          | None \<Rightarrow> (Refused 404 ''invalid_request'' ''Unknown or expired session.'', host)))"

text \<open>\<open>transport.onclose\<close>\<close>

definition session_closed :: "string \<Rightarrow> 'w mcp_host \<Rightarrow> 'w mcp_host" where
  "session_closed i host = host\<lparr>mh_sessions := AList.delete i (mh_sessions host)\<rparr>"

definition handleCatalog :: "'w host_env \<Rightarrow> mcp_request \<Rightarrow> mcp_response" where
  "handleCatalog env req =
     (case resource_verify (he_authorizedParties env) (he_jwtVerify env) (mq_authorization req) of
        Inl e \<Rightarrow> refuse 401 e
      | Inr _ \<Rightarrow> Catalog (describeSchema None))"

datatype mcp_step = Post mcp_request | SessionRequest mcp_request | CatalogRequest mcp_request | Closed string

definition at_time :: "int \<Rightarrow> 'w host_env \<Rightarrow> 'w host_env" where
  "at_time now env = env\<lparr>he_snapshot := (he_snapshot env)\<lparr>sn_now := now\<rparr>\<rparr>"

fun host_step :: "'w host_env \<Rightarrow> mcp_step \<Rightarrow> 'w mcp_host \<Rightarrow> 'w mcp_host" where
  "host_step env (Post req) host = snd (handlePost env req host)"
| "host_step env (SessionRequest req) host = snd (handleSessionRequest env req host)"
| "host_step env (CatalogRequest req) host = host"
| "host_step env (Closed i) host = session_closed i host"

text \<open>Every session is bound to a pinned caller and to a snapshot that was intact and unexpired when
  it was fetched, for as long as it lives.\<close>

definition session_ok :: "'w host_env \<Rightarrow> mcp_session \<Rightarrow> bool" where
  "session_ok env ss \<longleftrightarrow> (\<exists>now body snapshot.
     snapshot_verify (sn_sha256 (he_snapshot env)) (sn_dateParse (he_snapshot env)) now body = Inr snapshot
     \<and> ss_context ss = he_context env snapshot (ss_caller ss)
     \<and> vr_azp (ss_caller ss) \<in> set (he_authorizedParties env))"

definition host_ok :: "'w host_env \<Rightarrow> 'w mcp_host \<Rightarrow> bool" where
  "host_ok env host \<longleftrightarrow> (\<forall>ss \<in> snd ` set (mh_sessions host). session_ok env ss)"

lemma update_values: "snd ` set (AList.update k v al) \<subseteq> insert v (snd ` set al)"
  by (induction al) auto

lemma handlePost_ok: "host_ok env host \<Longrightarrow> host_ok env (snd (handlePost env req host))"
proof -
  assume ok: "host_ok env host"
  have new: "session_ok env \<lparr>ss_caller = caller, ss_context = he_context env snapshot caller\<rparr>"
    if "resource_verify (he_authorizedParties env) (he_jwtVerify env) (mq_authorization req) = Inr caller"
      "fetchVerified (he_snapshot env) runId tokens = (Inr snapshot, tokens')" for caller runId tokens snapshot tokens'
    using fetchVerified_sound [OF that(2)] that(1) by (auto simp: session_ok_def resource_verify_pinned)
  have keep: "host_ok env (host\<lparr>mh_tokens := t\<rparr>)" for t using ok by (simp add: host_ok_def)
  have "host_ok env (host\<lparr>mh_tokens := t, mh_sessions := AList.update i ss (mh_sessions host)\<rparr>)"
    if "session_ok env ss" for t i ss
  proof -
    have "\<forall>x \<in> snd ` set (AList.update i ss (mh_sessions host)). session_ok env x"
      using ok that update_values [of i ss "mh_sessions host"] unfolding host_ok_def by blast
    then show ?thesis by (simp add: host_ok_def)
  qed
  with ok keep new show ?thesis
    by (auto simp: handlePost_def Let_def split: sum.splits option.splits prod.splits)
qed

lemma host_sessions_verified:
  "host_ok env host \<Longrightarrow> host_ok env (fold (\<lambda>(now, st). host_step (at_time now env) st) steps host)"
proof (induction steps arbitrary: host)
  case (Cons s steps)
  obtain now st where s: "s = (now, st)" by (cases s)
  have at: "host_ok (at_time now env) h = host_ok env h" for h
    by (simp add: host_ok_def session_ok_def at_time_def)
  have "host_ok env (host_step (at_time now env) st host)"
  proof (cases st)
    case (Closed i)
    with Cons.prems show ?thesis by (auto simp: host_ok_def session_closed_def AList.delete_eq)
  qed (use Cons.prems handlePost_ok [of "at_time now env"] at in \<open>auto simp: handleSessionRequest_def split: sum.splits option.splits prod.splits\<close>)
  with Cons.IH s show ?case by simp
qed simp

text \<open>No request is handled without a pinned token.\<close>

lemma handled_authenticated:
  assumes "handlePost env req host = (HandledBy i ctx, host') \<or> handleSessionRequest env req host = (HandledBy i ctx, host')"
  shows "\<exists>caller. resource_verify (he_authorizedParties env) (he_jwtVerify env) (mq_authorization req) = Inr caller"
  using assms
  by (cases "resource_verify (he_authorizedParties env) (he_jwtVerify env) (mq_authorization req)")
    (auto simp: handlePost_def handleSessionRequest_def refuse_def split: prod.splits)

text \<open>An existing session answers whichever authorized caller names it, and at any time: neither its
  caller nor the expiry of its snapshot is looked at again.\<close>

lemma session_reused:
  assumes "resource_verify (he_authorizedParties env) (he_jwtVerify env) (mq_authorization req) = Inr caller"
    and "session_of (mq_session req) (mh_sessions host) = Some (i, ss)"
  shows "handlePost env req host = (HandledBy i (ss_context ss), host)"
  using assms by (simp add: handlePost_def)

section \<open>The rate limiter\<close>

record rate_limit_config =
  rl_windowMs :: int
  rl_max :: int

type_synonym rate_buckets = "(string \<times> (int \<times> int)) list"

definition rateLimiter :: "rate_limit_config \<Rightarrow> string option \<Rightarrow> int \<Rightarrow> rate_buckets \<Rightarrow> bool \<times> rate_buckets" where
  "rateLimiter config ip now buckets =
     (let key = nullish ip ''unknown'' in
      case map_of buckets key of
        None \<Rightarrow> (True, AList.update key (1, now + rl_windowMs config) buckets)
      | Some (count, resetAt) \<Rightarrow>
          if resetAt \<le> now then (True, AList.update key (1, now + rl_windowMs config) buckets)
          else if rl_max config \<le> count then (False, buckets)
          else (True, AList.update key (count + 1, resetAt) buckets))"

fun limited :: "rate_limit_config \<Rightarrow> string option \<Rightarrow> int list \<Rightarrow> rate_buckets \<Rightarrow> bool list" where
  "limited config ip [] buckets = []"
| "limited config ip (now # ts) buckets =
     (case rateLimiter config ip now buckets of (ok, b) \<Rightarrow> ok # limited config ip ts b)"

text \<open>Within a window exactly the first requests up to the maximum pass.\<close>

lemma limited_window:
  assumes "map_of buckets (nullish ip ''unknown'') = Some (count, resetAt)"
    and "list_all (\<lambda>t. t < resetAt) ts" and "count \<le> rl_max config"
  shows "limited config ip ts buckets =
    replicate (min (length ts) (nat (rl_max config - count))) True
    @ replicate (length ts - nat (rl_max config - count)) False"
  using assms
proof (induction ts arbitrary: buckets count)
  case (Cons now ts)
  show ?case
  proof (cases "rl_max config \<le> count")
    case True
    with Cons.prems have "limited config ip (now # ts) buckets = False # limited config ip ts buckets"
      by (simp add: rateLimiter_def)
    with Cons True show ?thesis by simp
  next
    case False
    let ?b = "AList.update (nullish ip ''unknown'') (count + 1, resetAt) buckets"
    have "nat (rl_max config - count) = Suc (nat (rl_max config - (count + 1)))" using False by simp
    moreover have "limited config ip (now # ts) buckets = True # limited config ip ts ?b"
      using Cons.prems False by (simp add: rateLimiter_def)
    moreover have "map_of ?b (nullish ip ''unknown'') = Some (count + 1, resetAt)" by (simp add: update_conv')
    ultimately show ?thesis using Cons.IH [of ?b "count + 1"] Cons.prems False by simp
  qed
qed simp

end
