(* ===== verification/Trace_Model.thy ===== *)
theory Trace_Model
  imports Event_Stream
begin

text \<open>
  The run trace of the web client (\<open>frontend/web/src/features/chat/traceModel.ts\<close>): how the events
  of a run become lines, grouped tool and agent invocations, and summary counts. The arrays of
  sub-steps are shared between the copies of an invocation; they live in a store and an invocation
  holds a reference. The characters of the texts above 255 (ellipsis, em dash) are those of code page 1252.
\<close>

section \<open>Items\<close>

datatype invocation_status = Running | Completed | Failed
datatype trace_kind = ToolItem | AgentItem | LifecycleItem

text \<open>\<open>Omit<TraceItem, 'id'>\<close>: \<open>None\<close> is \<open>undefined\<close>.\<close>

record trace_line =
  tl_line :: string
  tl_kind :: trace_kind
  tl_input :: "json option"
  tl_output :: "json option"
  tl_technical :: bool

record trace_item =
  ti_id :: string
  ti_line :: trace_line
  ti_status :: "invocation_status option"

record trace_invocation =
  iv_id :: string
  iv_kind :: trace_kind
  iv_label :: string
  iv_capability :: string
  iv_agent :: string
  iv_status :: invocation_status
  iv_input :: "json option"
  iv_output :: "json option"
  iv_error :: "string option"
  iv_substeps :: nat

definition AGENT_INTERNAL_PREFIXES :: "string list" where
  "AGENT_INTERNAL_PREFIXES = [''agent.schema.'', ''agent.query.'', ''agent.mcp.'', ''agent.read.'', ''agent.write.'',
     ''agent.node.'', ''agent.authz.'']"

definition payloadString :: "json \<Rightarrow> string \<Rightarrow> string" where
  "payloadString payload key = (case jstring (jget key payload) of Some s \<Rightarrow> s | None \<Rightarrow> [])"

definition isAgentInternalEvent :: "string \<Rightarrow> bool" where
  "isAgentInternalEvent type \<longleftrightarrow> list_ex (\<lambda>prefix. starts_with prefix type) AGENT_INTERNAL_PREFIXES"

definition invocationStatusFromTerminal :: "string \<Rightarrow> invocation_status" where
  "invocationStatusFromTerminal type = (if ends_with ''.completed'' type then Completed else Failed)"

text \<open>The text before the last dot, unless that dot is the first character or there is none.\<close>

definition operationFamily :: "string \<Rightarrow> string" where
  "operationFamily type =
     (let family = js_join ''.'' (butlast (js_split (CHR ''.'') type))
      in if family = [] then type else family)"

definition payload_errored :: "json \<Rightarrow> bool" where
  "payload_errored payload \<longleftrightarrow> jget ''error'' payload = Some (JBool True)"

definition substepStatus :: "agent_run_event_dto \<Rightarrow> invocation_status" where
  "substepStatus event =
     (if ends_with ''.started'' (evd_type event) then Running
      else if ends_with ''.completed'' (evd_type event) \<or> ends_with ''.loaded'' (evd_type event)
           \<or> ends_with ''.allowed'' (evd_type event)
      then (if payload_errored (evd_payload event) then Failed else Completed)
      else Failed)"

definition toolLabel :: "string \<Rightarrow> invocation_status \<Rightarrow> string" where
  "toolLabel cap status =
     (if cap \<noteq> [] then cap else if status = Running then ''Tool'' else ''Tool step'')"

definition agentLabel :: "string \<Rightarrow> invocation_status \<Rightarrow> string" where
  "agentLabel agent status =
     (if agent \<noteq> [] then agent else if status = Running then ''Agent'' else ''Agent step'')"

definition ellipsis :: string where
  "ellipsis = [CHR 0x85]"

definition quoted :: "string \<Rightarrow> string" where
  "quoted s = [CHR 0x22] @ s @ [CHR 0x22]"

definition dash :: string where
  "dash = [CHR 0x97]"

section \<open>Lines\<close>

definition queryStartedLine :: "string \<Rightarrow> string" where
  "queryStartedLine tool = (if tool \<noteq> [] then ''Running '' @ tool @ ellipsis else ''Querying data'' @ ellipsis)"

definition plain_line :: "string \<Rightarrow> trace_kind \<Rightarrow> trace_line" where
  "plain_line line kind = \<lparr>tl_line = line, tl_kind = kind, tl_input = None, tl_output = None, tl_technical = False\<rparr>"

definition technical_line :: "string \<Rightarrow> trace_kind \<Rightarrow> trace_line" where
  "technical_line line kind = (plain_line line kind)\<lparr>tl_technical := True\<rparr>"

definition queryCompletedLine :: "string \<Rightarrow> int option \<Rightarrow> json \<Rightarrow> trace_line" where
  "queryCompletedLine tool rowCount payload =
     (if payload_errored payload then
        (let reason = payloadString payload ''reason'' in
         (plain_line
           (if tool \<noteq> [] then
              (if reason \<noteq> [] then tool @ '': query failed '' @ dash @ '' '' @ reason else tool @ '': query failed.'')
            else if reason \<noteq> [] then ''Query failed: '' @ reason else ''Query failed.'')
           AgentItem)\<lparr>tl_output := (if reason \<noteq> [] then Some (JStr reason) else None)\<rparr>)
      else
        (plain_line
          (if tool \<noteq> [] then
             (case rowCount of Some n \<Rightarrow> tool @ '': read '' @ show_int n @ '' row(s).'' | None \<Rightarrow> tool @ '': query complete.'')
           else (case rowCount of Some n \<Rightarrow> ''Read '' @ show_int n @ '' row(s).'' | None \<Rightarrow> ''Query complete.''))
          AgentItem)\<lparr>tl_output := jget ''output'' payload\<rparr>)"

definition readCompletedLine :: "string \<Rightarrow> int option \<Rightarrow> string" where
  "readCompletedLine cap rowCount =
     (if cap \<noteq> [] then
        (case rowCount of Some n \<Rightarrow> cap @ '': found '' @ show_int n @ '' record(s).'' | None \<Rightarrow> cap @ '': lookup complete.'')
      else (case rowCount of Some n \<Rightarrow> ''Found '' @ show_int n @ '' record(s).'' | None \<Rightarrow> ''Lookup complete.''))"

definition jnumber :: "json option \<Rightarrow> int option" where
  "jnumber v = (case v of Some (JNum n) \<Rightarrow> Some n | _ \<Rightarrow> None)"

text \<open>\<open>s ? ` (${s})` : ''\<close>\<close>

definition in_parens :: "string \<Rightarrow> string" where
  "in_parens s = (if s \<noteq> [] then '' ('' @ s @ '')'' else [])"

definition describeEvent :: "agent_run_event_dto \<Rightarrow> trace_line option" where
  "describeEvent event =
     (let payload = evd_payload event;
          type = evd_type event;
          cap = payloadString payload ''capability'';
          tool = payloadString payload ''tool'';
          agent = payloadString payload ''agent'';
          summary = payloadString payload ''summary'';
          node = payloadString payload ''node'';
          reasonCode = (if payloadString payload ''reasonCode'' \<noteq> [] then payloadString payload ''reasonCode''
                        else payloadString payload ''reason'');
          rowCount = jnumber (jget ''rowCount'' payload);
          ms = jnumber (jget ''ms'' payload);
          inp = jget ''input'' payload;
          out = jget ''output'' payload
      in if type \<in> {''run.accepted'', ''run.started''} then Some (plain_line (''Starting'' @ ellipsis) LifecycleItem)
      else if type = ''planner.started'' then Some (plain_line (''Planning your request'' @ ellipsis) LifecycleItem)
      else if type = ''planner.completed'' then Some (technical_line ''Plan ready.'' LifecycleItem)
      else if type = ''tool.call.started'' then
        Some ((plain_line (if cap \<noteq> [] then ''Running '' @ cap @ ellipsis else ''Running a step'' @ ellipsis) ToolItem)\<lparr>tl_input := inp\<rparr>)
      else if type = ''tool.call.completed'' then
        Some ((plain_line (if summary \<noteq> [] then summary else ''Finished '' @ cap @ ''.'') ToolItem)\<lparr>tl_input := inp, tl_output := out\<rparr>)
      else if type = ''tool.call.failed'' then
        Some ((plain_line (''A step did not complete'' @ in_parens cap @ ''.'') ToolItem)\<lparr>tl_input := inp\<rparr>)
      else if type = ''agent.call.started'' then
        Some ((plain_line (if agent \<noteq> [] then ''Asking '' @ agent @ ellipsis else ''Consulting an agent'' @ ellipsis) AgentItem)\<lparr>tl_input := inp\<rparr>)
      else if type = ''agent.call.completed'' then
        Some ((plain_line ((if agent \<noteq> [] then agent else ''Agent'') @ '' finished.'') AgentItem)\<lparr>tl_output := out\<rparr>)
      else if type = ''agent.call.failed'' then
        Some (plain_line ((if agent \<noteq> [] then agent else ''Agent'') @ '' did not complete'' @ in_parens cap @ ''.'') AgentItem)
      else if type = ''agent.schema.loaded'' then Some (plain_line (''Inspecting available data'' @ ellipsis) AgentItem)
      else if type \<in> {''agent.query.started'', ''agent.mcp.started''} then
        Some ((plain_line (queryStartedLine tool) AgentItem)\<lparr>tl_input := inp\<rparr>)
      else if type \<in> {''agent.query.completed'', ''agent.mcp.completed''} then Some (queryCompletedLine tool rowCount payload)
      else if type \<in> {''agent.query.rejected'', ''agent.mcp.rejected''} then
        Some (plain_line (if tool \<noteq> [] then tool @ '': query rejected before running.'' else ''A query was rejected before running.'') AgentItem)
      else if type = ''agent.mcp.failed'' then
        Some (plain_line (if tool \<noteq> [] then tool @ '': query did not complete.'' else ''A query did not complete.'') AgentItem)
      else if type = ''agent.read.started'' then
        Some ((plain_line (if cap \<noteq> [] then ''Looking up '' @ cap @ ellipsis else ''Looking up data'' @ ellipsis) AgentItem)\<lparr>tl_input := inp\<rparr>)
      else if type = ''agent.read.completed'' then
        Some ((plain_line (readCompletedLine cap rowCount) AgentItem)\<lparr>tl_output := out\<rparr>)
      else if type \<in> {''agent.read.failed'', ''agent.read.denied''} then
        Some (plain_line (''A lookup did not complete'' @ in_parens cap @ ''.'') AgentItem)
      else if type = ''agent.write.started'' then
        Some ((plain_line (if cap \<noteq> [] then ''Applying '' @ cap @ ellipsis else ''Applying a change'' @ ellipsis) ToolItem)\<lparr>tl_input := inp\<rparr>)
      else if type = ''agent.write.completed'' then
        Some ((plain_line (if summary \<noteq> [] then summary else if cap \<noteq> [] then ''Applied '' @ cap @ ''.'' else ''Change applied.'') ToolItem)
          \<lparr>tl_input := inp, tl_output := out\<rparr>)
      else if type \<in> {''agent.write.failed'', ''agent.write.denied''} then
        Some ((plain_line (''A change did not complete'' @ in_parens cap @ ''.'') ToolItem)\<lparr>tl_input := inp\<rparr>)
      else if type = ''agent.task.received'' then Some (technical_line ''Agent received the task.'' AgentItem)
      else if type = ''agent.completed'' then Some (technical_line ''Agent reasoning complete.'' AgentItem)
      else if type = ''agent.node.started'' then
        Some (technical_line (if node \<noteq> [] then ''Entering '' @ quoted node @ ellipsis else ''Entering a step'' @ ellipsis) AgentItem)
      else if type = ''agent.node.completed'' then
        Some (technical_line (if node \<noteq> [] then quoted node @ '' done'' @ (case ms of Some n \<Rightarrow> '' ('' @ show_int n @ '' ms)'' | None \<Rightarrow> []) else ''Step done.'') AgentItem)
      else if type \<in> {''authz.allowed'', ''agent.authz.allowed''} then
        Some (technical_line (''Authorized'' @ (if cap \<noteq> [] then '' '' @ cap else []) @ ''.'') AgentItem)
      else if type \<in> {''authz.denied'', ''agent.authz.denied''} then
        Some (technical_line (''Authorization denied'' @ (if cap \<noteq> [] then '' for '' @ cap else []) @ in_parens reasonCode @ ''.'') AgentItem)
      else if type = ''run.failed'' then Some (plain_line ''The run failed.'' LifecycleItem)
      else if type = ''run.canceled'' then Some (plain_line ''Run canceled.'' LifecycleItem)
      else if type = ''run.completed'' then Some (plain_line ''Done.'' LifecycleItem)
      else None)"

text \<open>The items an event contributes: none when it has no line, or a technical one outside the detailed view.\<close>

definition shown :: "bool \<Rightarrow> agent_run_event_dto \<Rightarrow> trace_line option" where
  "shown detailed event =
     (case describeEvent event of
        None \<Rightarrow> None
      | Some described \<Rightarrow> if detailed \<or> \<not> tl_technical described then Some described else None)"

definition toTraceItems :: "agent_run_event_dto list \<Rightarrow> bool \<Rightarrow> trace_item list" where
  "toTraceItems events detailed =
     concat (map (\<lambda>event. case shown detailed event of
         None \<Rightarrow> []
       | Some described \<Rightarrow> [\<lparr>ti_id = evd_id event, ti_line = described, ti_status = None\<rparr>]) events)"

section \<open>Grouping\<close>

text \<open>The local variables of \<open>buildTraceView\<close>, and the store of the sub-step arrays.\<close>

record trace_state =
  ts_lifecycle :: "trace_item list"
  ts_invocations :: "trace_invocation list"
  ts_openTool :: "trace_invocation option"
  ts_openAgent :: "trace_invocation option"
  ts_openSubsteps :: nat
  ts_runningOps :: "(string \<times> nat) list"
  ts_arrays :: "trace_item list list"

definition trace_start :: trace_state where
  "trace_start = \<lparr>ts_lifecycle = [], ts_invocations = [], ts_openTool = None, ts_openAgent = None,
     ts_openSubsteps = 0, ts_runningOps = [], ts_arrays = [[]]\<rparr>"

text \<open>\<open>a ?? b\<close>: \<open>null\<close> counts as absent.\<close>

definition coalesce :: "json option \<Rightarrow> json option \<Rightarrow> json option" where
  "coalesce a b = (if a = None \<or> a = Some JNull then b else a)"

definition pushLifecycle :: "bool \<Rightarrow> agent_run_event_dto \<Rightarrow> trace_state \<Rightarrow> trace_state" where
  "pushLifecycle detailed event s =
     (case shown detailed event of
        None \<Rightarrow> s
      | Some described \<Rightarrow>
          s\<lparr>ts_lifecycle := ts_lifecycle s @ [\<lparr>ti_id = evd_id event, ti_line = described, ti_status = None\<rparr>]\<rparr>)"

definition merge_substep :: "trace_line \<Rightarrow> invocation_status \<Rightarrow> trace_item \<Rightarrow> trace_item" where
  "merge_substep described status prev =
     prev\<lparr>ti_line := (ti_line prev)\<lparr>tl_line := tl_line described,
            tl_input := coalesce (tl_input (ti_line prev)) (tl_input described),
            tl_output := coalesce (tl_output described) (tl_output (ti_line prev))\<rparr>,
          ti_status := Some status\<rparr>"

definition set_open_array :: "trace_item list \<Rightarrow> trace_state \<Rightarrow> trace_state" where
  "set_open_array items s = s\<lparr>ts_arrays := (ts_arrays s)[ts_openSubsteps s := items]\<rparr>"

definition open_array :: "trace_state \<Rightarrow> trace_item list" where
  "open_array s = ts_arrays s ! ts_openSubsteps s"

definition addAgentSubstep :: "bool \<Rightarrow> agent_run_event_dto \<Rightarrow> trace_state \<Rightarrow> trace_state" where
  "addAgentSubstep detailed event s =
     (case shown detailed event of
        None \<Rightarrow> s
      | Some described \<Rightarrow>
          let status = substepStatus event;
              family = operationFamily (evd_type event);
              pushed = open_array s @ [\<lparr>ti_id = evd_id event, ti_line = described, ti_status = Some status\<rparr>]
          in if status = Running
             then set_open_array pushed (s\<lparr>ts_runningOps := AList.update family (length (open_array s)) (ts_runningOps s)\<rparr>)
             else (case map_of (ts_runningOps s) family of
               Some runningIndex \<Rightarrow>
                 set_open_array ((open_array s)[runningIndex := merge_substep described status (open_array s ! runningIndex)])
                   (s\<lparr>ts_runningOps := AList.delete family (ts_runningOps s)\<rparr>)
             | None \<Rightarrow> set_open_array pushed s))"

text \<open>A new array \<open>[]\<close>.\<close>

definition fresh_array :: "trace_state \<Rightarrow> nat \<times> trace_state" where
  "fresh_array s = (length (ts_arrays s), s\<lparr>ts_arrays := ts_arrays s @ [[]]\<rparr>)"

definition push_invocation :: "trace_invocation \<Rightarrow> trace_state \<Rightarrow> trace_state" where
  "push_invocation iv s = s\<lparr>ts_invocations := ts_invocations s @ [iv]\<rparr>"

definition replace_last :: "trace_invocation \<Rightarrow> trace_state \<Rightarrow> trace_state" where
  "replace_last iv s = s\<lparr>ts_invocations := butlast (ts_invocations s) @ [iv]\<rparr>"

definition error_patch :: "string option \<Rightarrow> trace_invocation \<Rightarrow> trace_invocation" where
  "error_patch e iv = (case e of None \<Rightarrow> iv | Some m \<Rightarrow> iv\<lparr>iv_error := Some m\<rparr>)"

definition trace_tool_started :: "agent_run_event_dto \<Rightarrow> trace_state \<Rightarrow> trace_state" where
  "trace_tool_started event s =
     (let cap = payloadString (evd_payload event) ''capability'';
          (ref, s1) = fresh_array s;
          iv = \<lparr>iv_id = evd_id event, iv_kind = ToolItem, iv_label = toolLabel cap Running, iv_capability = cap,
                iv_agent = [], iv_status = Running, iv_input = jget ''input'' (evd_payload event), iv_output = None,
                iv_error = None, iv_substeps = ref\<rparr>
      in push_invocation iv (s1\<lparr>ts_openTool := Some iv\<rparr>))"

definition trace_tool_ended :: "agent_run_event_dto \<Rightarrow> trace_state \<Rightarrow> trace_state" where
  "trace_tool_ended event s =
     (let payload = evd_payload event;
          cap = payloadString payload ''capability'';
          status = invocationStatusFromTerminal (evd_type event);
          errorText = jstring (jget ''error'' payload);
          s1 = (case ts_openTool s of
             Some opened \<Rightarrow>
               replace_last (error_patch errorText (opened\<lparr>iv_status := status,
                 iv_label := toolLabel (if iv_capability opened \<noteq> [] then iv_capability opened else cap) status,
                 iv_input := coalesce (iv_input opened) (jget ''input'' payload), iv_output := jget ''output'' payload\<rparr>)) s
           | None \<Rightarrow>
               let (ref, s2) = fresh_array s
               in push_invocation (error_patch errorText \<lparr>iv_id = evd_id event, iv_kind = ToolItem, iv_label = toolLabel cap status,
                    iv_capability = cap, iv_agent = [], iv_status = status, iv_input = jget ''input'' payload,
                    iv_output = jget ''output'' payload, iv_error = None, iv_substeps = ref\<rparr>) s2)
      in s1\<lparr>ts_openTool := None\<rparr>)"

definition trace_agent_started :: "agent_run_event_dto \<Rightarrow> trace_state \<Rightarrow> trace_state" where
  "trace_agent_started event s =
     (let cap = payloadString (evd_payload event) ''capability'';
          agent = payloadString (evd_payload event) ''agent'';
          (ref, s1) = fresh_array s;
          iv = \<lparr>iv_id = evd_id event, iv_kind = AgentItem, iv_label = agentLabel agent Running, iv_capability = cap,
                iv_agent = agent, iv_status = Running, iv_input = jget ''input'' (evd_payload event), iv_output = None,
                iv_error = None, iv_substeps = ref\<rparr>
      in push_invocation iv (s1\<lparr>ts_openSubsteps := ref, ts_runningOps := [], ts_openAgent := Some iv\<rparr>))"

definition trace_agent_ended :: "agent_run_event_dto \<Rightarrow> trace_state \<Rightarrow> trace_state" where
  "trace_agent_ended event s =
     (let payload = evd_payload event;
          cap = payloadString payload ''capability'';
          agent = payloadString payload ''agent'';
          status = invocationStatusFromTerminal (evd_type event);
          reason = jstring (jget ''reason'' payload);
          s1 = (case ts_openAgent s of
             Some opened \<Rightarrow>
               let errorText = (case reason of Some r \<Rightarrow> Some r
                   | None \<Rightarrow> (case jstring (jget ''error'' payload) of Some m \<Rightarrow> Some m | None \<Rightarrow> iv_error opened))
               in replace_last (error_patch errorText (opened\<lparr>iv_status := status,
                    iv_label := agentLabel (if iv_agent opened \<noteq> [] then iv_agent opened else agent) status,
                    iv_input := coalesce (iv_input opened) (jget ''input'' payload),
                    iv_output := coalesce (jget ''output'' payload) (iv_output opened)\<rparr>)) s
           | None \<Rightarrow>
               let (ref, s2) = fresh_array s
               in push_invocation (error_patch reason \<lparr>iv_id = evd_id event, iv_kind = AgentItem, iv_label = agentLabel agent status,
                    iv_capability = cap, iv_agent = agent, iv_status = status, iv_input = None,
                    iv_output = jget ''output'' payload, iv_error = None, iv_substeps = ref\<rparr>) s2)
      in s1\<lparr>ts_openAgent := None\<rparr>)"

definition trace_step :: "bool \<Rightarrow> agent_run_event_dto \<Rightarrow> trace_state \<Rightarrow> trace_state" where
  "trace_step detailed event s =
     (if evd_type event = ''tool.call.started'' then trace_tool_started event s
      else if evd_type event \<in> {''tool.call.completed'', ''tool.call.failed''} then trace_tool_ended event s
      else if evd_type event = ''agent.call.started'' then trace_agent_started event s
      else if evd_type event \<in> {''agent.call.completed'', ''agent.call.failed''} then trace_agent_ended event s
      else if ts_openAgent s \<noteq> None \<and> isAgentInternalEvent (evd_type event) then addAgentSubstep detailed event s
      else pushLifecycle detailed event s)"

record trace_view =
  tv_lifecycle :: "trace_item list"
  tv_invocations :: "(trace_invocation \<times> trace_item list) list"

definition view_of_state :: "trace_state \<Rightarrow> trace_view" where
  "view_of_state s = \<lparr>tv_lifecycle = ts_lifecycle s,
     tv_invocations = map (\<lambda>iv. (iv, ts_arrays s ! iv_substeps iv)) (ts_invocations s)\<rparr>"

definition buildTraceView :: "agent_run_event_dto list \<Rightarrow> bool \<Rightarrow> trace_view" where
  "buildTraceView events detailed = view_of_state (fold (trace_step detailed) events trace_start)"

section \<open>Summary\<close>

record trace_summary =
  tm_toolCount :: nat
  tm_agentCount :: nat
  tm_stepCount :: nat

definition summarizeEvents :: "agent_run_event_dto list \<Rightarrow> bool \<Rightarrow> trace_summary" where
  "summarizeEvents events detailed =
     (let view = buildTraceView events detailed;
          tools = length (filter (\<lambda>(iv, _). iv_kind iv = ToolItem) (tv_invocations view));
          agents = length (filter (\<lambda>(iv, _). iv_kind iv \<noteq> ToolItem) (tv_invocations view));
          substepCount = sum_list (map (\<lambda>(_, steps). length steps) (tv_invocations view));
          toolSubstepCount = sum_list (map (\<lambda>(_, steps). length (filter (\<lambda>st. \<not> tl_technical (ti_line st)) steps)) (tv_invocations view))
      in \<lparr>tm_toolCount = tools + toolSubstepCount, tm_agentCount = agents,
          tm_stepCount = length (tv_lifecycle view) + length (tv_invocations view) + substepCount\<rparr>)"

definition summaryLabel :: "trace_summary \<Rightarrow> string" where
  "summaryLabel summary =
     js_join ('' '' @ [CHR 0xB7] @ '' '')
       [show_nat (tm_toolCount summary) @ '' '' @ (if tm_toolCount summary = 1 then ''tool'' else ''tools''),
        show_nat (tm_agentCount summary) @ '' '' @ (if tm_agentCount summary = 1 then ''agent'' else ''agents'')]"

text \<open>\<open>JSON.stringify(value, null, 2)\<close>\<close>

fun json_pretty :: "nat \<Rightarrow> json \<Rightarrow> string" where
  "json_pretty i (JArr xs) =
     (if xs = [] then ''[]''
      else ''['' @ newline @ js_join ('','' @ newline) (map (\<lambda>x. replicate (i + 2) (CHR '' '') @ json_pretty (i + 2) x) xs)
        @ newline @ replicate i (CHR '' '') @ '']'')"
| "json_pretty i (JObj kvs) =
     (if kvs = [] then ''{}''
      else ''{'' @ newline
        @ js_join ('','' @ newline) (map (\<lambda>(k, v). replicate (i + 2) (CHR '' '') @ json_string k @ '': '' @ json_pretty (i + 2) v) kvs)
        @ newline @ replicate i (CHR '' '') @ ''}'')"
| "json_pretty i v = json_stringify v"

definition formatIo :: "json option \<Rightarrow> string" where
  "formatIo v = (case v of None \<Rightarrow> dash | Some x \<Rightarrow> json_pretty 0 x)"

section \<open>One invocation per call\<close>

definition call_start :: "agent_run_event_dto \<Rightarrow> trace_kind option" where
  "call_start e = (if evd_type e = ''tool.call.started'' then Some ToolItem
     else if evd_type e = ''agent.call.started'' then Some AgentItem else None)"

definition call_end :: "agent_run_event_dto \<Rightarrow> trace_kind option" where
  "call_end e = (if evd_type e \<in> {''tool.call.completed'', ''tool.call.failed''} then Some ToolItem
     else if evd_type e \<in> {''agent.call.completed'', ''agent.call.failed''} then Some AgentItem else None)"

definition end_status :: "agent_run_event_dto \<Rightarrow> invocation_status" where
  "end_status e = (if evd_type e \<in> {''tool.call.completed'', ''agent.call.completed''} then Completed else Failed)"

text \<open>No call starts or ends while another is open.\<close>

fun sequential :: "trace_kind option \<Rightarrow> agent_run_event_dto list \<Rightarrow> bool" where
  "sequential opened [] = True"
| "sequential opened (e # es) =
     (case call_start e of
        Some k \<Rightarrow> opened = None \<and> sequential (Some k) es
      | None \<Rightarrow>
          (case call_end e of
             Some k \<Rightarrow> (opened = None \<or> opened = Some k) \<and> sequential None es
           | None \<Rightarrow> sequential opened es))"

text \<open>What became of an open call: the status of the next event that ends it.\<close>

fun outcome :: "trace_kind \<Rightarrow> agent_run_event_dto list \<Rightarrow> invocation_status" where
  "outcome k [] = Running"
| "outcome k (e # es) = (if call_end e = Some k then end_status e else outcome k es)"

text \<open>The calls of a log: one entry per start, with its outcome, and one per end that had no start.\<close>

fun call_log :: "trace_kind option \<Rightarrow> agent_run_event_dto list \<Rightarrow> (string \<times> trace_kind \<times> invocation_status) list" where
  "call_log opened [] = []"
| "call_log opened (e # es) =
     (case call_start e of
        Some k \<Rightarrow> (evd_id e, k, outcome k es) # call_log (Some k) es
      | None \<Rightarrow>
          (case call_end e of
             Some k \<Rightarrow> (if opened = None then [(evd_id e, k, end_status e)] else []) @ call_log None es
           | None \<Rightarrow> call_log opened es))"

definition iv_key :: "trace_invocation \<Rightarrow> string \<times> trace_kind \<times> invocation_status" where
  "iv_key iv = (iv_id iv, iv_kind iv, iv_status iv)"

text \<open>The state while the call \<open>opened\<close> is open: it is the last invocation, still running.\<close>

definition tracks :: "trace_kind option \<Rightarrow> trace_state \<Rightarrow> bool" where
  "tracks opened s \<longleftrightarrow>
     (case opened of
        None \<Rightarrow> ts_openTool s = None \<and> ts_openAgent s = None
      | Some k \<Rightarrow> (\<exists>iv. iv_kind iv = k \<and> iv_status iv = Running \<and> ts_invocations s \<noteq> [] \<and> last (ts_invocations s) = iv
          \<and> ts_openTool s = (if k = ToolItem then Some iv else None)
          \<and> ts_openAgent s = (if k = AgentItem then Some iv else None) \<and> (k = ToolItem \<or> k = AgentItem)))"

lemma call_types:
  "call_start e = Some ToolItem \<longleftrightarrow> evd_type e = ''tool.call.started''"
  "call_start e = Some AgentItem \<longleftrightarrow> evd_type e = ''agent.call.started''"
  "call_end e = Some ToolItem \<longleftrightarrow> evd_type e \<in> {''tool.call.completed'', ''tool.call.failed''}"
  "call_end e = Some AgentItem \<longleftrightarrow> evd_type e \<in> {''agent.call.completed'', ''agent.call.failed''}"
  "call_start e \<noteq> Some LifecycleItem" "call_end e \<noteq> Some LifecycleItem"
  by (auto simp: call_start_def call_end_def)

lemma status_of_end: "call_end e = Some k \<Longrightarrow> invocationStatusFromTerminal (evd_type e) = end_status e"
  by (auto simp: call_end_def invocationStatusFromTerminal_def end_status_def ends_with_def split: if_splits)

lemma error_patch_key [simp]: "iv_key (error_patch m iv) = iv_key iv"
  by (simp add: iv_key_def error_patch_def split: option.splits)

lemma other_event_keeps:
  assumes "call_start e = None" and "call_end e = None"
  shows "ts_invocations (trace_step d e s) = ts_invocations s" "tracks opened (trace_step d e s) = tracks opened s"
proof -
  have keeps: "ts_invocations (trace_step d e s) = ts_invocations s" "ts_openTool (trace_step d e s) = ts_openTool s"
    "ts_openAgent (trace_step d e s) = ts_openAgent s"
    using assms by (auto simp: trace_step_def call_start_def call_end_def addAgentSubstep_def pushLifecycle_def
        set_open_array_def Let_def split: if_splits option.splits)
  then show "ts_invocations (trace_step d e s) = ts_invocations s" "tracks opened (trace_step d e s) = tracks opened s"
    by (simp_all only: tracks_def keeps)
qed

lemma started_pushes:
  assumes "call_start e = Some k" and "tracks None s"
  shows "map iv_key (ts_invocations (trace_step d e s)) = map iv_key (ts_invocations s) @ [(evd_id e, k, Running)]"
    and "tracks (Some k) (trace_step d e s)"
  using assms
  by (auto simp: call_start_def trace_step_def trace_tool_started_def trace_agent_started_def Let_def fresh_array_def
      push_invocation_def tracks_def iv_key_def split: if_splits)

lemma ended_orphan:
  assumes "call_end e = Some k" and "tracks None s"
  shows "map iv_key (ts_invocations (trace_step d e s)) = map iv_key (ts_invocations s) @ [(evd_id e, k, end_status e)]"
    and "tracks None (trace_step d e s)"
  using assms status_of_end [OF assms(1)]
  by (auto simp: call_end_def trace_step_def trace_tool_ended_def trace_agent_ended_def Let_def fresh_array_def
      push_invocation_def tracks_def iv_key_def error_patch_def split: if_splits option.splits)

lemma ended_closes:
  assumes "call_end e = Some k" and "tracks (Some k) s"
  shows "map iv_key (ts_invocations (trace_step d e s))
      = map iv_key (butlast (ts_invocations s)) @ [(iv_id (last (ts_invocations s)), k, end_status e)]"
    and "tracks None (trace_step d e s)"
  using assms status_of_end [OF assms(1)]
  by (auto simp: call_end_def trace_step_def trace_tool_ended_def trace_agent_ended_def Let_def
      replace_last_def tracks_def iv_key_def error_patch_def split: if_splits option.splits)

lemma tracks_open:
  assumes "tracks (Some k) s"
  shows "map iv_key (ts_invocations s) = map iv_key (butlast (ts_invocations s)) @ [(iv_id (last (ts_invocations s)), k, Running)]"
proof -
  from assms have "ts_invocations s = butlast (ts_invocations s) @ [last (ts_invocations s)]"
    "iv_key (last (ts_invocations s)) = (iv_id (last (ts_invocations s)), k, Running)"
    by (auto simp: tracks_def iv_key_def)
  then show ?thesis by (metis list.map(1) list.map(2) map_append)
qed

lemma trace_keys:
  assumes "sequential opened es" and "tracks opened s"
  shows "map iv_key (ts_invocations (fold (trace_step d) es s)) =
    (case opened of
       None \<Rightarrow> map iv_key (ts_invocations s)
     | Some k \<Rightarrow> map iv_key (butlast (ts_invocations s)) @ [(iv_id (last (ts_invocations s)), k, outcome k es)])
    @ call_log opened es"
  using assms
proof (induction es arbitrary: opened s)
  case Nil
  then show ?case using tracks_open by (cases opened) auto
next
  case (Cons e es)
  let ?s = "trace_step d e s"
  consider (start) k where "call_start e = Some k"
    | (orphan) k where "call_start e = None" "call_end e = Some k" "opened = None"
    | (close) k where "call_start e = None" "call_end e = Some k" "opened = Some k"
    | (other) "call_start e = None" "call_end e = None"
    using Cons.prems(1) by (cases "call_start e"; cases "call_end e") auto
  then show ?case
  proof cases
    case start
    with Cons.prems have o: "opened = None" "sequential (Some k) es" by simp_all
    from started_pushes [OF start, of s d] Cons.prems(2) o
    have s: "map iv_key (ts_invocations ?s) = map iv_key (ts_invocations s) @ [(evd_id e, k, Running)]" "tracks (Some k) ?s"
      by simp_all
    with tracks_open [OF s(2)]
    have "map iv_key (butlast (ts_invocations ?s)) = map iv_key (ts_invocations s)" "iv_id (last (ts_invocations ?s)) = evd_id e"
      by simp_all
    with Cons.IH [OF o(2) s(2)] o start show ?thesis by simp
  next
    case orphan
    from ended_orphan [OF orphan(2), of s d] Cons.prems orphan Cons.IH [of None ?s] show ?thesis by simp
  next
    case close
    from ended_closes [OF close(2), of s d] Cons.prems close Cons.IH [of None ?s] show ?thesis by simp
  next
    case other
    from other_event_keeps [OF other, where d = d and s = s] Cons.prems other Cons.IH [of opened ?s]
    show ?thesis by (simp split: option.splits)
  qed
qed

lemma tracks_start: "tracks None trace_start"
  by (simp add: tracks_def trace_start_def)

lemma keys_count: "length (filter (\<lambda>(iv, _). iv_kind iv \<noteq> ToolItem) (map (\<lambda>iv. (iv, f iv)) ivs))
    = length (filter (\<lambda>(_, k, _). k \<noteq> ToolItem) (map iv_key ivs))"
  by (induction ivs) (simp_all add: iv_key_def)

text \<open>C16: as long as the calls of a run do not overlap, its trace shows every call once: one
  invocation for each start, in order, with the status of the event that ended it (still running if none
  did), and one for each end without a start; the summary counts the agents among them.\<close>

theorem trace_shows_each_call:
  assumes "sequential None events"
  shows "map (\<lambda>(iv, _). (iv_id iv, iv_kind iv, iv_status iv)) (tv_invocations (buildTraceView events detailed)) = call_log None events
    \<and> tm_agentCount (summarizeEvents events detailed) = length (filter (\<lambda>(_, k, _). k \<noteq> ToolItem) (call_log None events))"
proof -
  have "ts_invocations trace_start = []" by (simp add: trace_start_def)
  with trace_keys [OF assms tracks_start, of detailed]
  have keys: "map iv_key (ts_invocations (fold (trace_step detailed) events trace_start)) = call_log None events" by simp
  have view: "tv_invocations (buildTraceView events detailed)
      = map (\<lambda>iv. (iv, ts_arrays (fold (trace_step detailed) events trace_start) ! iv_substeps iv))
          (ts_invocations (fold (trace_step detailed) events trace_start))"
    by (simp add: buildTraceView_def view_of_state_def)
  have "map (\<lambda>(iv, _). (iv_id iv, iv_kind iv, iv_status iv)) (tv_invocations (buildTraceView events detailed))
      = map iv_key (ts_invocations (fold (trace_step detailed) events trace_start))"
    by (simp add: view o_def iv_key_def)
  moreover have "tm_agentCount (summarizeEvents events detailed)
      = length (filter (\<lambda>(_, k, _). k \<noteq> ToolItem) (map iv_key (ts_invocations (fold (trace_step detailed) events trace_start))))"
    unfolding summarizeEvents_def Let_def view keys_count by simp
  ultimately show ?thesis by (simp only: keys simp_thms)
qed

definition call_event :: "string \<Rightarrow> string \<Rightarrow> agent_run_event_dto" where
  "call_event i type = \<lparr>evd_id = i, evd_sequence = 0, evd_type = type, evd_payload = JObj [], evd_createdAt = 0\<rparr>"

theorem trace_shows_each_call_witness:
  "map (\<lambda>(iv, _). (iv_id iv, iv_kind iv, iv_status iv))
     (tv_invocations (buildTraceView [call_event ''1'' ''tool.call.started'', call_event ''2'' ''tool.call.failed'',
        call_event ''3'' ''agent.call.started'', call_event ''4'' ''agent.query.started''] False))
   = [(''1'', ToolItem, Failed), (''3'', AgentItem, Running)]"
  using conjunct1 [OF trace_shows_each_call [of "[call_event ''1'' ''tool.call.started'', call_event ''2'' ''tool.call.failed'',
        call_event ''3'' ''agent.call.started'', call_event ''4'' ''agent.query.started'']" False]]
  by (simp add: call_event_def call_start_def call_end_def end_status_def)

text \<open>A tool call inside an agent call is lost: the agent's end overwrites the last invocation, which
  is the tool's, and the agent's own stays running.\<close>

lemma nested_call_lost:
  "map (\<lambda>(iv, _). (iv_id iv, iv_kind iv, iv_status iv))
     (tv_invocations (buildTraceView [call_event ''1'' ''agent.call.started'', call_event ''2'' ''tool.call.started'',
        call_event ''3'' ''tool.call.completed'', call_event ''4'' ''agent.call.completed''] False))
   = [(''1'', AgentItem, Running), (''1'', AgentItem, Completed)]"
  by code_simp

section \<open>Sub-steps\<close>

text \<open>The references are in range, an open agent's array is the live one, and a running operation points
  into it: no index of the code is out of range.\<close>

definition trace_ok :: "trace_state \<Rightarrow> bool" where
  "trace_ok s \<longleftrightarrow>
     ts_openSubsteps s < length (ts_arrays s)
     \<and> list_all (\<lambda>iv. iv_substeps iv < length (ts_arrays s)) (ts_invocations s)
     \<and> list_all (\<lambda>(_, i). i < length (open_array s)) (ts_runningOps s)
     \<and> (\<forall>iv. ts_openTool s = Some iv \<or> ts_openAgent s = Some iv \<longrightarrow> ts_invocations s \<noteq> [] \<and> iv_substeps iv < length (ts_arrays s))"

lemma set_delete: "set (AList.delete k al) \<subseteq> set al"
  by (induction al) auto

lemma set_update: "set (AList.update k v al) \<subseteq> insert (k, v) (set al)"
  by (induction al) auto

lemma addAgentSubstep_ok: "trace_ok s \<Longrightarrow> trace_ok (addAgentSubstep d e s)"
  using set_delete [of "operationFamily (evd_type e)" "ts_runningOps s"]
    set_update [of "operationFamily (evd_type e)" "length (open_array s)" "ts_runningOps s"]
  by (fastforce simp: trace_ok_def addAgentSubstep_def set_open_array_def open_array_def Let_def list_all_iff
      split: option.splits if_splits)

lemma substeps_patch [simp]: "iv_substeps (error_patch m iv) = iv_substeps iv"
  by (simp add: error_patch_def split: option.splits)

lemma push_ok:
  assumes "trace_ok s" and "iv_substeps iv = length (ts_arrays s)"
  shows "trace_ok (push_invocation iv (snd (fresh_array s)))"
    and "trace_ok (push_invocation iv ((snd (fresh_array s))\<lparr>ts_openTool := Some iv\<rparr>))"
    and "trace_ok (push_invocation iv ((snd (fresh_array s))\<lparr>ts_openSubsteps := length (ts_arrays s), ts_runningOps := [], ts_openAgent := Some iv\<rparr>))"
  using assms by (auto simp: trace_ok_def push_invocation_def fresh_array_def open_array_def nth_append list_all_iff less_Suc_eq)

lemma replace_ok:
  assumes "trace_ok s" and "iv_substeps iv < length (ts_arrays s)"
  shows "trace_ok (replace_last iv s)"
  using assms by (auto simp: trace_ok_def replace_last_def open_array_def list_all_iff dest: in_set_butlastD)

lemma close_ok: "trace_ok s \<Longrightarrow> trace_ok (s\<lparr>ts_openTool := None\<rparr>)" "trace_ok s \<Longrightarrow> trace_ok (s\<lparr>ts_openAgent := None\<rparr>)"
  by (auto simp: trace_ok_def open_array_def)

lemma fresh_split: "fresh_array s = (length (ts_arrays s), snd (fresh_array s))"
  by (simp add: fresh_array_def)

lemma opened_in_range:
  "trace_ok s \<Longrightarrow> ts_openTool s = Some iv \<Longrightarrow> iv_substeps iv < length (ts_arrays s)"
  "trace_ok s \<Longrightarrow> ts_openAgent s = Some iv \<Longrightarrow> iv_substeps iv < length (ts_arrays s)"
  by (simp_all add: trace_ok_def)

lemma trace_step_ok:
  assumes "trace_ok s"
  shows "trace_ok (trace_step d e s)"
proof -
  note fresh = fresh_split [of s]
  have "trace_ok (trace_tool_started e s)" "trace_ok (trace_agent_started e s)"
    unfolding trace_tool_started_def trace_agent_started_def Let_def by (subst fresh, simp add: push_ok [OF assms])+
  moreover have "trace_ok (trace_tool_ended e s)"
    unfolding trace_tool_ended_def Let_def
    by (rule close_ok, cases "ts_openTool s")
      (simp, subst fresh, simp add: push_ok [OF assms], simp add: replace_ok [OF assms] opened_in_range [OF assms])
  moreover have "trace_ok (trace_agent_ended e s)"
    unfolding trace_agent_ended_def Let_def
    by (rule close_ok, cases "ts_openAgent s")
      (simp, subst fresh, simp add: push_ok [OF assms], simp add: replace_ok [OF assms] opened_in_range [OF assms])
  moreover have "trace_ok (pushLifecycle d e s)"
    using assms by (auto simp: pushLifecycle_def trace_ok_def open_array_def split: option.splits)
  ultimately show ?thesis using addAgentSubstep_ok [OF assms] by (simp add: trace_step_def)
qed

lemma fold_trace_ok: "trace_ok s \<Longrightarrow> trace_ok (fold (trace_step d) events s)"
  by (induction events arbitrary: s) (simp_all add: trace_step_ok)

text \<open>C40: along any sequence of events, well-bracketed or not, the grouping stays well-formed: the
  array of the open agent and of every invocation exists, every running operation points into the open
  array, and while a call is open
  there is an invocation to replace, so no index the code uses is out of range.\<close>

theorem trace_always_ok: "trace_ok (fold (trace_step d) events trace_start)"
  by (rule fold_trace_ok) (simp add: trace_ok_def trace_start_def open_array_def)

end
