(* ===== verification/Web_Api.thy ===== *)
theory Web_Api
  imports Web_Client Api_Surface
begin

text \<open>
  The functions through which the web client calls the API (\<open>frontend/web/src/api/*.api.ts\<close>), and the
  endpoint each of them reaches. A call is the method, the path below the base URL and the options it
  hands to the HTTP client. Bodies are JSON values; a parameter object of a query is the function from
  its keys to their values.
\<close>

section \<open>The verbs of the client\<close>

record api_call =
  cl_method :: http_method
  cl_path :: string
  cl_options :: request_options

definition http_get :: "string \<Rightarrow> (string \<times> query_value) list \<Rightarrow> api_call" where
  "http_get path query = \<lparr>cl_method = GET, cl_path = path,
     cl_options = \<lparr>ro_query = query, ro_body = None, ro_headers = [], ro_anonymous = False\<rparr>\<rparr>"

definition http_post :: "string \<Rightarrow> json option \<Rightarrow> (string \<times> string) list \<Rightarrow> api_call" where
  "http_post path body headers = \<lparr>cl_method = POST, cl_path = path,
     cl_options = \<lparr>ro_query = [], ro_body = body, ro_headers = headers, ro_anonymous = False\<rparr>\<rparr>"

definition http_put :: "string \<Rightarrow> json option \<Rightarrow> api_call" where
  "http_put path body = \<lparr>cl_method = PUT, cl_path = path,
     cl_options = \<lparr>ro_query = [], ro_body = body, ro_headers = [], ro_anonymous = False\<rparr>\<rparr>"

definition http_patch :: "string \<Rightarrow> json option \<Rightarrow> api_call" where
  "http_patch path body = \<lparr>cl_method = PATCH, cl_path = path,
     cl_options = \<lparr>ro_query = [], ro_body = body, ro_headers = [], ro_anonymous = False\<rparr>\<rparr>"

definition http_delete :: "string \<Rightarrow> api_call" where
  "http_delete path = \<lparr>cl_method = DELETE, cl_path = path,
     cl_options = \<lparr>ro_query = [], ro_body = None, ro_headers = [], ro_anonymous = False\<rparr>\<rparr>"

text \<open>\<open>v ?? n\<close>, \<open>...(v ? { k: v } : {})\<close> and \<open>...(v !== undefined ? { k: v } : {})\<close>.\<close>

definition nullish :: "query_value \<Rightarrow> int \<Rightarrow> query_value" where
  "nullish v n = (if v = QUndefined \<or> v = QNull then QNum n else v)"

fun truthy :: "query_value \<Rightarrow> bool" where
  "truthy (QStr s) \<longleftrightarrow> s \<noteq> []"
| "truthy (QNum n) \<longleftrightarrow> n \<noteq> 0"
| "truthy (QBool b) \<longleftrightarrow> b"
| "truthy QNull \<longleftrightarrow> False"
| "truthy QUndefined \<longleftrightarrow> False"

definition if_truthy :: "(string \<Rightarrow> query_value) \<Rightarrow> string \<Rightarrow> (string \<times> query_value) list" where
  "if_truthy ps k = (if truthy (ps k) then [(k, ps k)] else [])"

definition if_defined :: "(string \<Rightarrow> query_value) \<Rightarrow> string \<Rightarrow> (string \<times> query_value) list" where
  "if_defined ps k = (if ps k \<noteq> QUndefined then [(k, ps k)] else [])"

section \<open>The calls\<close>

text \<open>\<open>api/actions.api.ts\<close>\<close>

definition listActions_call :: "(string \<Rightarrow> query_value) \<Rightarrow> api_call" where
  "listActions_call ps = http_get ''/actions''
     ([(''page'', nullish (ps ''page'') 1), (''pageSize'', nullish (ps ''pageSize'') 50)]
       @ if_truthy ps ''status'' @ if_truthy ps ''assignedOwnerId'' @ if_truthy ps ''issueId'')"

definition updateAction_call :: "string \<Rightarrow> json \<Rightarrow> api_call" where
  "updateAction_call i body = http_patch (''/actions/'' @ i) (Some body)"

definition addActionComment_call :: "string \<Rightarrow> json \<Rightarrow> api_call" where
  "addActionComment_call i body = http_post (''/actions/'' @ i @ ''/comments'') (Some body) []"

text \<open>\<open>api/admin.api.ts\<close>\<close>

definition listUsers_call :: "(string \<Rightarrow> query_value) \<Rightarrow> api_call" where
  "listUsers_call ps = http_get ''/admin/users''
     ([(''page'', nullish (ps ''page'') 1), (''pageSize'', nullish (ps ''pageSize'') 20)]
       @ if_truthy ps ''search'' @ if_truthy ps ''role'')"

definition createUser_call :: "json \<Rightarrow> api_call" where
  "createUser_call body = http_post ''/admin/users'' (Some body) []"

definition updateUser_call :: "string \<Rightarrow> json \<Rightarrow> api_call" where
  "updateUser_call i body = http_patch (''/admin/users/'' @ i) (Some body)"

definition setUserRoles_call :: "string \<Rightarrow> string list \<Rightarrow> api_call" where
  "setUserRoles_call i names = http_put (''/admin/users/'' @ i @ ''/roles'')
     (Some (JObj [(''roles'', JArr (map JStr names))]))"

definition syncUserToKeycloak_call :: "string \<Rightarrow> api_call" where
  "syncUserToKeycloak_call i = http_post (''/admin/users/'' @ i @ ''/sync-keycloak'') None []"

definition listRoles_call :: "api_call" where
  "listRoles_call = http_get ''/admin/roles'' []"

definition listPermissions_call :: "api_call" where
  "listPermissions_call = http_get ''/admin/permissions'' []"

definition getRolePermissionMatrix_call :: "api_call" where
  "getRolePermissionMatrix_call = http_get ''/admin/role-permissions'' []"

text \<open>\<open>api/agentRuns.api.ts\<close>\<close>

definition createAgentRun_call :: "json \<Rightarrow> string \<Rightarrow> api_call" where
  "createAgentRun_call body key = http_post ''/a2a/chat'' (Some body) [(''idempotency-key'', key)]"

definition getAgentRun_call :: "string \<Rightarrow> api_call" where
  "getAgentRun_call i = http_get (''/agent-runs/'' @ i) []"

definition cancelAgentRun_call :: "string \<Rightarrow> api_call" where
  "cancelAgentRun_call i = http_post (''/agent-runs/'' @ i @ ''/cancel'') None []"

definition listConversationRuns_call :: "string \<Rightarrow> api_call" where
  "listConversationRuns_call i = http_get (''/agent-runs?conversationId='' @ encodeURIComponent i) []"

definition getAgentRunTrace_call :: "string \<Rightarrow> bool \<Rightarrow> api_call" where
  "getAgentRunTrace_call i detailed = http_get (''/agent-runs/'' @ i @ ''/trace'' @ (if detailed then ''?detail=full'' else [])) []"

text \<open>\<open>api/agents.api.ts\<close>\<close>

definition listAgents_call :: "api_call" where
  "listAgents_call = http_get ''/admin/agents'' []"

definition getAgent_call :: "string \<Rightarrow> api_call" where
  "getAgent_call name = http_get (''/admin/agents/'' @ encodeURIComponent name) []"

definition onboardAgent_call :: "json \<Rightarrow> api_call" where
  "onboardAgent_call body = http_post ''/admin/agents/onboard'' (Some body) []"

definition setAgentEnabled_call :: "string \<Rightarrow> bool \<Rightarrow> api_call" where
  "setAgentEnabled_call name enabled = http_patch (''/admin/agents/'' @ encodeURIComponent name)
     (Some (JObj [(''enabled'', JBool enabled)]))"

definition removeAgent_call :: "string \<Rightarrow> api_call" where
  "removeAgent_call name = http_delete (''/admin/agents/'' @ encodeURIComponent name)"

text \<open>\<open>api/auth.api.ts\<close>\<close>

definition getCurrentUser_call :: "api_call" where
  "getCurrentUser_call = http_get ''/auth/me'' []"

text \<open>\<open>api/chat.api.ts\<close>\<close>

definition listConversations_call :: "api_call" where
  "listConversations_call = http_get ''/conversations'' []"

definition getConversation_call :: "string \<Rightarrow> api_call" where
  "getConversation_call i = http_get (''/conversations/'' @ i) []"

definition createConversation_call :: "api_call" where
  "createConversation_call = http_post ''/conversations'' None []"

text \<open>\<open>api/customers.api.ts\<close>\<close>

definition listCustomers_call :: "(string \<Rightarrow> query_value) \<Rightarrow> api_call" where
  "listCustomers_call ps = http_get ''/customers''
     ([(''page'', nullish (ps ''page'') 1), (''pageSize'', nullish (ps ''pageSize'') 20)]
       @ if_truthy ps ''search'' @ if_defined ps ''active'')"

definition getCustomer_call :: "string \<Rightarrow> api_call" where
  "getCustomer_call i = http_get (''/customers/'' @ i) []"

definition createCustomer_call :: "json \<Rightarrow> api_call" where
  "createCustomer_call body = http_post ''/customers'' (Some body) []"

definition updateCustomer_call :: "string \<Rightarrow> json \<Rightarrow> api_call" where
  "updateCustomer_call i body = http_patch (''/customers/'' @ i) (Some body)"

text \<open>\<open>api/issues.api.ts\<close>\<close>

definition listIssues_call :: "(string \<Rightarrow> query_value) \<Rightarrow> api_call" where
  "listIssues_call ps = http_get ''/issues''
     ([(''page'', nullish (ps ''page'') 1), (''pageSize'', nullish (ps ''pageSize'') 20)]
       @ if_truthy ps ''status'' @ if_truthy ps ''customerId'' @ if_truthy ps ''from'' @ if_truthy ps ''to'')"

definition getIssue_call :: "string \<Rightarrow> api_call" where
  "getIssue_call i = http_get (''/issues/'' @ i) []"

definition createIssue_call :: "json \<Rightarrow> api_call" where
  "createIssue_call body = http_post ''/issues'' (Some body) []"

definition updateIssue_call :: "string \<Rightarrow> json \<Rightarrow> api_call" where
  "updateIssue_call i body = http_patch (''/issues/'' @ i) (Some body)"

text \<open>\<open>api/products.api.ts\<close>\<close>

definition listProducts_call :: "(string \<Rightarrow> query_value) \<Rightarrow> api_call" where
  "listProducts_call ps = http_get ''/products''
     ([(''page'', nullish (ps ''page'') 1), (''pageSize'', nullish (ps ''pageSize'') 50)]
       @ if_truthy ps ''search'')"

text \<open>\<open>api/rbac.api.ts\<close>\<close>

definition getRbacRegistry_call :: "api_call" where
  "getRbacRegistry_call = http_get ''/rbac/registry'' []"

definition createRole_call :: "json \<Rightarrow> api_call" where
  "createRole_call body = http_post ''/admin/roles'' (Some body) []"

definition updateRole_call :: "string \<Rightarrow> json \<Rightarrow> api_call" where
  "updateRole_call name description = http_patch (''/admin/roles/'' @ encodeURIComponent name)
     (Some (JObj [(''description'', description)]))"

definition deleteRole_call :: "string \<Rightarrow> api_call" where
  "deleteRole_call name = http_delete (''/admin/roles/'' @ encodeURIComponent name)"

definition setRolePermissions_call :: "string \<Rightarrow> string list \<Rightarrow> api_call" where
  "setRolePermissions_call name names = http_put (''/admin/roles/'' @ encodeURIComponent name @ ''/permissions'')
     (Some (JObj [(''permissions'', JArr (map JStr names))]))"

definition createPermission_call :: "json \<Rightarrow> api_call" where
  "createPermission_call body = http_post ''/admin/permissions'' (Some body) []"

definition deletePermission_call :: "string \<Rightarrow> api_call" where
  "deletePermission_call name = http_delete (''/admin/permissions/'' @ encodeURIComponent name)"

definition createCapability_call :: "json \<Rightarrow> api_call" where
  "createCapability_call body = http_post ''/admin/capabilities'' (Some body) []"

definition updateCapability_call :: "string \<Rightarrow> json \<Rightarrow> api_call" where
  "updateCapability_call name body = http_patch (''/admin/capabilities/'' @ encodeURIComponent name) (Some body)"

definition deleteCapability_call :: "string \<Rightarrow> api_call" where
  "deleteCapability_call name = http_delete (''/admin/capabilities/'' @ encodeURIComponent name)"

text \<open>\<open>api/sales.api.ts\<close>\<close>

definition listSales_call :: "(string \<Rightarrow> query_value) \<Rightarrow> api_call" where
  "listSales_call ps = http_get ''/sales''
     ([(''page'', nullish (ps ''page'') 1), (''pageSize'', nullish (ps ''pageSize'') 20)]
       @ if_truthy ps ''customerId'' @ if_defined ps ''paymentReceived'' @ if_truthy ps ''from'' @ if_truthy ps ''to'')"

definition getSale_call :: "string \<Rightarrow> api_call" where
  "getSale_call i = http_get (''/sales/'' @ i) []"

definition createSale_call :: "json \<Rightarrow> api_call" where
  "createSale_call body = http_post ''/sales'' (Some body) []"

text \<open>\<open>api/sops.api.ts\<close>\<close>

definition listSops_call :: "(string \<Rightarrow> query_value) \<Rightarrow> api_call" where
  "listSops_call ps = http_get ''/sops''
     ([(''page'', nullish (ps ''page'') 1), (''pageSize'', nullish (ps ''pageSize'') 50)]
       @ if_truthy ps ''search'' @ if_defined ps ''active'')"

definition getSop_call :: "string \<Rightarrow> api_call" where
  "getSop_call i = http_get (''/sops/'' @ i) []"

definition createSop_call :: "json \<Rightarrow> api_call" where
  "createSop_call body = http_post ''/sops'' (Some body) []"

definition createSopVersion_call :: "string \<Rightarrow> json \<Rightarrow> api_call" where
  "createSopVersion_call i body = http_post (''/sops/'' @ i @ ''/versions'') (Some body) []"

definition updateSop_call :: "string \<Rightarrow> json \<Rightarrow> api_call" where
  "updateSop_call i body = http_patch (''/sops/'' @ i) (Some body)"

section \<open>Where a call arrives\<close>

text \<open>The client is configured with \<open><origin>/api/v1\<close>. The browser ends the path at a query or a
  fragment.\<close>

definition pathname :: "api_call \<Rightarrow> string" where
  "pathname c = ''/api/v1'' @ takeWhile (\<lambda>ch. ch \<noteq> CHR ''?'' \<and> ch \<noteq> CHR ''#'') (cl_path c)"

definition pattern_matches :: "http_method \<Rightarrow> path_segment list \<Rightarrow> 'b request \<Rightarrow> bool" where
  "pattern_matches m pattern req \<longleftrightarrow>
     m = effective_method (rq_method req) \<and> list_all2 segment_matches pattern (path_segments (rq_path req))"

text \<open>An identifier that the browser leaves alone in a path, as every UUID is.\<close>

definition plain_segment :: "string \<Rightarrow> bool" where
  "plain_segment i \<longleftrightarrow> i \<noteq> [] \<and> i \<notin> {''.'', ''..''} \<and> list_all uri_unreserved i"

text \<open>Every call the client makes, with the endpoint it is meant for: the pattern and the handler.
  \<open>createCustomer\<close> and \<open>updateCustomer\<close> are announced as not implemented by the server.\<close>

definition client_calls ::
  "(string \<Rightarrow> query_value) \<Rightarrow> string \<Rightarrow> json \<Rightarrow> string list \<Rightarrow> string \<Rightarrow> bool \<Rightarrow> string \<Rightarrow> bool \<Rightarrow> json
    \<Rightarrow> (api_call \<times> path_segment list \<times> string) list" where
  "client_calls ps i body names key detailed name enabled description =
     [(listActions_call ps, [Lit ''api'', Lit ''v1'', Lit ''actions''], ''ActionController.list''),
      (updateAction_call i body, [Lit ''api'', Lit ''v1'', Lit ''actions'', Param ''id''], ''ActionController.update''),
      (addActionComment_call i body, [Lit ''api'', Lit ''v1'', Lit ''actions'', Param ''id'', Lit ''comments''], ''ActionController.addComment''),
      (listUsers_call ps, [Lit ''api'', Lit ''v1'', Lit ''admin'', Lit ''users''], ''AdminUserController.list''),
      (createUser_call body, [Lit ''api'', Lit ''v1'', Lit ''admin'', Lit ''users''], ''AdminUserController.create''),
      (updateUser_call i body, [Lit ''api'', Lit ''v1'', Lit ''admin'', Lit ''users'', Param ''id''], ''AdminUserController.update''),
      (setUserRoles_call i names, [Lit ''api'', Lit ''v1'', Lit ''admin'', Lit ''users'', Param ''id'', Lit ''roles''], ''AdminUserController.setRoles''),
      (syncUserToKeycloak_call i, [Lit ''api'', Lit ''v1'', Lit ''admin'', Lit ''users'', Param ''id'', Lit ''sync-keycloak''], ''AdminUserController.syncKeycloak''),
      (listRoles_call, [Lit ''api'', Lit ''v1'', Lit ''admin'', Lit ''roles''], ''RbacController.listRoles''),
      (listPermissions_call, [Lit ''api'', Lit ''v1'', Lit ''admin'', Lit ''permissions''], ''RbacController.listPermissions''),
      (getRolePermissionMatrix_call, [Lit ''api'', Lit ''v1'', Lit ''admin'', Lit ''role-permissions''], ''RbacController.getMatrix''),
      (createAgentRun_call body key, [Lit ''api'', Lit ''v1'', Lit ''a2a'', Lit ''chat''], ''AgentRunController.create''),
      (getAgentRun_call i, [Lit ''api'', Lit ''v1'', Lit ''agent-runs'', Param ''runId''], ''AgentRunController.getById''),
      (cancelAgentRun_call i, [Lit ''api'', Lit ''v1'', Lit ''agent-runs'', Param ''runId'', Lit ''cancel''], ''AgentRunController.cancel''),
      (listConversationRuns_call i, [Lit ''api'', Lit ''v1'', Lit ''agent-runs''], ''AgentRunController.list''),
      (getAgentRunTrace_call i detailed, [Lit ''api'', Lit ''v1'', Lit ''agent-runs'', Param ''runId'', Lit ''trace''], ''AgentRunController.getTrace''),
      (listAgents_call, [Lit ''api'', Lit ''v1'', Lit ''admin'', Lit ''agents''], ''AdminAgentController.list''),
      (getAgent_call name, [Lit ''api'', Lit ''v1'', Lit ''admin'', Lit ''agents'', Param ''name''], ''AdminAgentController.get''),
      (onboardAgent_call body, [Lit ''api'', Lit ''v1'', Lit ''admin'', Lit ''agents'', Lit ''onboard''], ''AdminAgentController.onboard''),
      (setAgentEnabled_call name enabled, [Lit ''api'', Lit ''v1'', Lit ''admin'', Lit ''agents'', Param ''name''], ''AdminAgentController.setEnabled''),
      (removeAgent_call name, [Lit ''api'', Lit ''v1'', Lit ''admin'', Lit ''agents'', Param ''name''], ''AdminAgentController.remove''),
      (getCurrentUser_call, [Lit ''api'', Lit ''v1'', Lit ''auth'', Lit ''me''], ''MeController.me''),
      (listConversations_call, [Lit ''api'', Lit ''v1'', Lit ''conversations''], ''ChatController.listConversations''),
      (getConversation_call i, [Lit ''api'', Lit ''v1'', Lit ''conversations'', Param ''id''], ''ChatController.getConversation''),
      (createConversation_call, [Lit ''api'', Lit ''v1'', Lit ''conversations''], ''ChatController.createConversation''),
      (listCustomers_call ps, [Lit ''api'', Lit ''v1'', Lit ''customers''], ''CustomerController.list''),
      (getCustomer_call i, [Lit ''api'', Lit ''v1'', Lit ''customers'', Param ''id''], ''CustomerController.getById''),
      (listIssues_call ps, [Lit ''api'', Lit ''v1'', Lit ''issues''], ''IssueController.list''),
      (getIssue_call i, [Lit ''api'', Lit ''v1'', Lit ''issues'', Param ''id''], ''IssueController.getById''),
      (createIssue_call body, [Lit ''api'', Lit ''v1'', Lit ''issues''], ''IssueController.create''),
      (updateIssue_call i body, [Lit ''api'', Lit ''v1'', Lit ''issues'', Param ''id''], ''IssueController.update''),
      (listProducts_call ps, [Lit ''api'', Lit ''v1'', Lit ''products''], ''ProductController.list''),
      (getRbacRegistry_call, [Lit ''api'', Lit ''v1'', Lit ''rbac'', Lit ''registry''], ''RbacRegistryController.get''),
      (createRole_call body, [Lit ''api'', Lit ''v1'', Lit ''admin'', Lit ''roles''], ''RbacAdminController.createRole''),
      (updateRole_call name description, [Lit ''api'', Lit ''v1'', Lit ''admin'', Lit ''roles'', Param ''name''], ''RbacAdminController.updateRole''),
      (deleteRole_call name, [Lit ''api'', Lit ''v1'', Lit ''admin'', Lit ''roles'', Param ''name''], ''RbacAdminController.deleteRole''),
      (setRolePermissions_call name names, [Lit ''api'', Lit ''v1'', Lit ''admin'', Lit ''roles'', Param ''name'', Lit ''permissions''], ''RbacAdminController.setRolePermissions''),
      (createPermission_call body, [Lit ''api'', Lit ''v1'', Lit ''admin'', Lit ''permissions''], ''RbacAdminController.createPermission''),
      (deletePermission_call name, [Lit ''api'', Lit ''v1'', Lit ''admin'', Lit ''permissions'', Param ''name''], ''RbacAdminController.deletePermission''),
      (createCapability_call body, [Lit ''api'', Lit ''v1'', Lit ''admin'', Lit ''capabilities''], ''RbacAdminController.createCapability''),
      (updateCapability_call name body, [Lit ''api'', Lit ''v1'', Lit ''admin'', Lit ''capabilities'', Param ''id''], ''RbacAdminController.updateCapability''),
      (deleteCapability_call name, [Lit ''api'', Lit ''v1'', Lit ''admin'', Lit ''capabilities'', Param ''id''], ''RbacAdminController.deleteCapability''),
      (listSales_call ps, [Lit ''api'', Lit ''v1'', Lit ''sales''], ''SaleController.list''),
      (getSale_call i, [Lit ''api'', Lit ''v1'', Lit ''sales'', Param ''id''], ''SaleController.getById''),
      (createSale_call body, [Lit ''api'', Lit ''v1'', Lit ''sales''], ''SaleController.create''),
      (listSops_call ps, [Lit ''api'', Lit ''v1'', Lit ''sops''], ''SopController.list''),
      (getSop_call i, [Lit ''api'', Lit ''v1'', Lit ''sops'', Param ''id''], ''SopController.getById''),
      (createSop_call body, [Lit ''api'', Lit ''v1'', Lit ''sops''], ''SopController.create''),
      (createSopVersion_call i body, [Lit ''api'', Lit ''v1'', Lit ''sops'', Param ''id'', Lit ''versions''], ''SopController.addVersion''),
      (updateSop_call i body, [Lit ''api'', Lit ''v1'', Lit ''sops'', Param ''id''], ''SopController.update'')]"

lemma plain_no_separator:
  assumes "plain_segment i"
  shows "i \<noteq> []" "CHR ''/'' \<notin> set i" "CHR ''?'' \<notin> set i" "CHR ''#'' \<notin> set i"
  using assms by (auto simp: plain_segment_def list_all_iff uri_unreserved_def Let_def)

lemma encode_segment:
  "CHR ''/'' \<notin> set (encodeURIComponent n)" "CHR ''?'' \<notin> set (encodeURIComponent n)" "CHR ''#'' \<notin> set (encodeURIComponent n)"
  by (rule encode_no_separator; simp)+

lemma encode_char_nonempty [simp]: "encode_char c \<noteq> []"
  by (simp add: encode_char_def percent_def Let_def)

lemma encode_nonempty: "n \<noteq> [] \<Longrightarrow> encodeURIComponent n \<noteq> []"
  by (cases n) (simp_all add: encodeURIComponent_def)

lemma path_segments_Nil [simp]: "path_segments [] = []"
  by (simp add: path_segments_def)

lemma path_segments_slash: "path_segments (CHR ''/'' # s) = path_segments s"
  by (simp add: path_segments_def)

lemma path_segments_last: "CHR ''/'' \<notin> set s \<Longrightarrow> s \<noteq> [] \<Longrightarrow> path_segments s = [s]"
  by (simp add: path_segments_def js_split_no_sep)

lemma path_segments_cons: "CHR ''/'' \<notin> set s \<Longrightarrow> s \<noteq> [] \<Longrightarrow> path_segments (s @ CHR ''/'' # t) = s # path_segments t"
  by (simp add: path_segments_def js_split_append js_split_no_sep)

lemma takeWhile_plain:
  "CHR ''?'' \<notin> set s \<Longrightarrow> CHR ''#'' \<notin> set s \<Longrightarrow>
   takeWhile (\<lambda>ch. ch \<noteq> CHR ''?'' \<and> ch \<noteq> CHR ''#'') (s @ t) = s @ takeWhile (\<lambda>ch. ch \<noteq> CHR ''?'' \<and> ch \<noteq> CHR ''#'') t"
  by (induction s) auto

lemma takeWhile_all_plain:
  "CHR ''?'' \<notin> set s \<Longrightarrow> CHR ''#'' \<notin> set s \<Longrightarrow> takeWhile (\<lambda>ch. ch \<noteq> CHR ''?'' \<and> ch \<noteq> CHR ''#'') s = s"
  using takeWhile_plain [of s "[]"] by simp

lemmas call_defs =
  listActions_call_def updateAction_call_def addActionComment_call_def listUsers_call_def
  createUser_call_def updateUser_call_def setUserRoles_call_def syncUserToKeycloak_call_def
  listRoles_call_def listPermissions_call_def getRolePermissionMatrix_call_def createAgentRun_call_def
  getAgentRun_call_def cancelAgentRun_call_def listConversationRuns_call_def getAgentRunTrace_call_def
  listAgents_call_def getAgent_call_def onboardAgent_call_def setAgentEnabled_call_def
  removeAgent_call_def getCurrentUser_call_def listConversations_call_def getConversation_call_def
  createConversation_call_def listCustomers_call_def getCustomer_call_def createCustomer_call_def
  updateCustomer_call_def listIssues_call_def getIssue_call_def createIssue_call_def updateIssue_call_def
  listProducts_call_def getRbacRegistry_call_def createRole_call_def updateRole_call_def
  deleteRole_call_def setRolePermissions_call_def createPermission_call_def deletePermission_call_def
  createCapability_call_def updateCapability_call_def deleteCapability_call_def listSales_call_def
  getSale_call_def createSale_call_def listSops_call_def getSop_call_def createSop_call_def
  createSopVersion_call_def updateSop_call_def

lemmas verb_defs = http_get_def http_post_def http_put_def http_patch_def http_delete_def

lemma client_calls_match:
  assumes "plain_segment i" "name \<noteq> []"
  shows "list_all (\<lambda>(c, p, h). list_all2 segment_matches p (path_segments (pathname c)))
    (client_calls ps i body names key detailed name enabled description)"
  using plain_no_separator [OF assms(1)] encode_segment [of name] encode_nonempty [OF assms(2)]
  by (simp add: client_calls_def call_defs verb_defs pathname_def path_segments_def takeWhile_plain takeWhile_all_plain
      js_split_append js_split_no_sep)

definition user_route :: "route \<Rightarrow> bool" where
  "user_route r = (case rt_guard r of GuardUser _ \<Rightarrow> True | _ \<Rightarrow> False)"

definition call_routed :: "api_call \<times> path_segment list \<times> string \<Rightarrow> bool" where
  "call_routed = (\<lambda>(c, p, h). effective_method (cl_method c) = cl_method c
      \<and> list_ex (\<lambda>r. rt_method r = cl_method c \<and> rt_path r = p \<and> rt_handler r = h \<and> user_route r)
          (core_routes @ user_agent_routes))"

lemma client_calls_routed_parts:
  "list_all call_routed (take 15 (client_calls ps i body names key detailed name enabled description))"
  "list_all call_routed (take 15 (drop 15 (client_calls ps i body names key detailed name enabled description)))"
  "list_all call_routed (drop 30 (client_calls ps i body names key detailed name enabled description))"
  subgoal by code_simp
  subgoal by code_simp
  subgoal by code_simp
  done

lemma client_calls_routed:
  "list_all call_routed (client_calls ps i body names key detailed name enabled description)"
proof -
  have split: "xs = take 15 xs @ take 15 (drop 15 xs) @ drop 30 xs" for xs :: "'x list"
    by (metis add_One_commute append_take_drop_id drop_drop numeral_Bit0 numeral_plus_numeral)
  show ?thesis
    by (subst split) (simp only: list_all_append client_calls_routed_parts)
qed

lemma pattern_matches_law: "express_law pattern_matches"
  by (simp add: express_law_def pattern_matches_def)

lemma find_matching_route:
  assumes "express_law (en_matches env)" "r \<in> set (app_routes cfg)" "en_matches env (rt_method r) (rt_path r) req"
  shows "find_route env (app_routes cfg) req = Some r"
proof -
  have "find_route env (app_routes cfg) req \<noteq> None"
    using assms(2,3) by (auto simp: find_route_def find_None_iff)
  then obtain r' where r': "find_route env (app_routes cfg) req = Some r'" by blast
  then have "r' = r"
    using matching_route_unique [OF assms(1) _ _ assms(2,3)] by (auto simp: find_route_Some)
  with r' show ?thesis by simp
qed


definition example_client_env :: "unit api_env" where
  "example_client_env = example_api_env\<lparr>en_matches := pattern_matches\<rparr>"


text \<open>Nothing serves the two customer mutations.\<close>

lemma customers_not_posted:
  "list_all (\<lambda>(m, p). m = POST \<longrightarrow> \<not> list_all2 segment_matches p [''api'', ''v1'', ''customers''])
     (patterns_of (core_routes @ agent_routes example_config))"
  by code_simp

lemma customers_not_patched:
  "list_all (\<lambda>(m, p). m = PATCH \<longrightarrow> \<not> list_all2 segment_matches p [''api'', ''v1'', ''customers'', i])
     (patterns_of (core_routes @ agent_routes example_config))"
  by code_simp

lemma customer_mutations_unserved:
  assumes "en_matches env = pattern_matches" and "plain_segment i"
    and "(rq_method req, rq_path req) \<in> {(POST, pathname (createCustomer_call body)), (PATCH, pathname (updateCustomer_call i body))}"
  shows "find_route env (app_routes cfg) req = None"
proof -
  have segs: "path_segments (pathname (createCustomer_call body)) = [''api'', ''v1'', ''customers'']"
    "path_segments (pathname (updateCustomer_call i body)) = [''api'', ''v1'', ''customers'', i]"
    using plain_no_separator [OF assms(2)]
    by (simp_all add: createCustomer_call_def updateCustomer_call_def verb_defs pathname_def path_segments_def
        takeWhile_all_plain js_split_no_sep)
  have "\<not> pattern_matches (rt_method r) (rt_path r) req" if "r \<in> set (core_routes @ agent_routes cfg)" for r
  proof -
    have "(rt_method r, rt_path r) \<in> set (patterns_of (core_routes @ agent_routes example_config))"
      using that patterns_app [of cfg] by (metis (no_types, lifting) image_eqI list.set_map patterns_of_def)
    then show ?thesis
      using assms(3) segs customers_not_posted customers_not_patched [of i]
      by (auto simp: pattern_matches_def list_all_iff effective_method_def)
  qed
  then show ?thesis
    unfolding find_route_def find_None_iff assms(1) app_routes_def by auto
qed

end
