(* ===== verification/Web_Pages.thy ===== *)
theory Web_Pages
  imports Web_Api
begin

text \<open>
  The pages of the web client: permission helpers (\<open>auth/permissions.ts\<close>), navigation and sidebar,
  the router with its guards, the calls each page makes and the permissions its buttons ask for, and
  the logic of the pages that edit something. Rendering is not modelled; a screen is the name of the
  component that is shown.
\<close>

section \<open>Permission helpers\<close>

record web_user =
  wu_id :: string
  wu_email :: string
  wu_firstName :: string
  wu_lastName :: string
  wu_roles :: "string list"
  wu_permissions :: "string list"

definition ui_hasPermission :: "web_user option \<Rightarrow> string \<Rightarrow> bool" where
  "ui_hasPermission user permission = (case user of None \<Rightarrow> False | Some u \<Rightarrow> permission \<in> set (wu_permissions u))"

definition ui_hasAnyPermission :: "web_user option \<Rightarrow> string list \<Rightarrow> bool" where
  "ui_hasAnyPermission user permissions = list_ex (ui_hasPermission user) permissions"

definition ui_hasAllPermissions :: "web_user option \<Rightarrow> string list \<Rightarrow> bool" where
  "ui_hasAllPermissions user permissions = list_all (ui_hasPermission user) permissions"

definition ui_hasRole :: "web_user option \<Rightarrow> string \<Rightarrow> bool" where
  "ui_hasRole user role = (case user of None \<Rightarrow> False | Some u \<Rightarrow> role \<in> set (wu_roles u))"

definition to_upper :: "char \<Rightarrow> char" where
  "to_upper c = (let n = of_char c :: nat in if 97 \<le> n \<and> n \<le> 122 then char_of (n - 32) else c)"

text \<open>\<open>part.charAt(0).toUpperCase() + part.slice(1)\<close>, for the ASCII letters that names consist of.\<close>

fun capitalize :: "string \<Rightarrow> string" where
  "capitalize [] = []"
| "capitalize (c # cs) = to_upper c # cs"

definition permissionLabel :: "string \<Rightarrow> string" where
  "permissionLabel permission = capitalize (map (\<lambda>c. if c = CHR ''-'' then CHR '' '' else c) permission)"

definition roleLabel :: "string \<Rightarrow> string" where
  "roleLabel role = js_join '' '' (map capitalize (js_split (CHR ''-'') role))"

section \<open>Navigation\<close>

record nav_item =
  ni_to :: string
  ni_label :: string
  ni_anyOf :: "string list option"

record nav_group =
  ng_label :: string
  ng_items :: "nav_item list"

abbreviation nav :: "string \<Rightarrow> string \<Rightarrow> string list option \<Rightarrow> nav_item" where
  "nav t l a \<equiv> \<lparr>ni_to = t, ni_label = l, ni_anyOf = a\<rparr>"

definition NAV_GROUPS :: "nav_group list" where
  "NAV_GROUPS =
     [\<lparr>ng_label = ''Workspace'', ng_items =
        [nav ''/app'' ''Dashboard'' None, nav ''/app/chat'' ''Agent Chat'' None]\<rparr>,
      \<lparr>ng_label = ''Operations'', ng_items =
        [nav ''/app/customers'' ''Customers'' (Some [''read-customers'']),
         nav ''/app/products'' ''Products'' (Some [''read-sales'']),
         nav ''/app/sales'' ''Sales'' (Some [''read-sales'']),
         nav ''/app/issues'' ''Issues'' (Some [''read-issues'']),
         nav ''/app/actions'' ''Actions'' (Some [''read-actions'']),
         nav ''/app/sops'' ''SOPs'' (Some [''read-sop''])]\<rparr>,
      \<lparr>ng_label = ''Administration'', ng_items =
        [nav ''/app/admin/users'' ''Users'' (Some [''read-users'']),
         nav ''/app/admin/roles'' ''Roles & Permissions'' (Some [''read-permissions'']),
         nav ''/app/admin/capabilities'' ''Capabilities'' (Some [''read-permissions'']),
         nav ''/app/admin/agents'' ''Agent Registry'' (Some [''read-agents''])]\<rparr>]"

definition isVisible :: "web_user option \<Rightarrow> nav_item \<Rightarrow> bool" where
  "isVisible user item = (case ni_anyOf item of None \<Rightarrow> True | Some ps \<Rightarrow> ui_hasAnyPermission user ps)"

text \<open>A group without a visible item is not shown.\<close>

definition sidebar :: "web_user option \<Rightarrow> (string \<times> nav_item list) list" where
  "sidebar user = filter (\<lambda>(l, items). items \<noteq> [])
     (map (\<lambda>g. (ng_label g, filter (isVisible user) (ng_items g))) NAV_GROUPS)"

section \<open>The router\<close>

datatype screen = Page string | ForbiddenScreen | NotFoundScreen | Redirect string

record page_route =
  pr_path :: "path_segment list"
  pr_page :: string
  pr_anyOf :: "string list option"

abbreviation screen_route :: "path_segment list \<Rightarrow> string \<Rightarrow> string list option \<Rightarrow> page_route" where
  "screen_route p c a \<equiv> \<lparr>pr_path = p, pr_page = c, pr_anyOf = a\<rparr>"

text \<open>The routes below \<open>RequireAuth\<close> and \<open>AppShell\<close>, in the order of the file, with the permissions of
  the \<open>RequirePermission\<close> around them.\<close>

definition AppRouter :: "page_route list" where
  "AppRouter =
     [screen_route [Lit ''app''] ''DashboardPage'' None,
      screen_route [Lit ''app'', Lit ''chat''] ''AgentChatPage'' None,
      screen_route [Lit ''app'', Lit ''customers''] ''CustomersPage'' (Some [''read-customers'']),
      screen_route [Lit ''app'', Lit ''products''] ''ProductsPage'' (Some [''read-sales'']),
      screen_route [Lit ''app'', Lit ''sales''] ''SalesPage'' (Some [''read-sales'']),
      screen_route [Lit ''app'', Lit ''sales'', Param ''id''] ''SaleDetailPage'' (Some [''read-sales'']),
      screen_route [Lit ''app'', Lit ''sales'', Lit ''new''] ''NewSalePage'' (Some [''write-sales'']),
      screen_route [Lit ''app'', Lit ''issues''] ''IssuesPage'' (Some [''read-issues'']),
      screen_route [Lit ''app'', Lit ''issues'', Param ''id''] ''IssueDetailPage'' (Some [''read-issues'']),
      screen_route [Lit ''app'', Lit ''issues'', Lit ''new''] ''NewIssuePage'' (Some [''create-issues'']),
      screen_route [Lit ''app'', Lit ''actions''] ''ActionsPage'' (Some [''read-actions'']),
      screen_route [Lit ''app'', Lit ''sops''] ''SopsPage'' (Some [''read-sop'']),
      screen_route [Lit ''app'', Lit ''sops'', Param ''id''] ''SopDetailPage'' (Some [''read-sop'']),
      screen_route [Lit ''app'', Lit ''sops'', Lit ''new''] ''SopEditorPage'' (Some [''write-sop'']),
      screen_route [Lit ''app'', Lit ''sops'', Param ''id'', Lit ''edit''] ''SopEditorPage'' (Some [''write-sop'']),
      screen_route [Lit ''app'', Lit ''admin'', Lit ''users''] ''AdminUsersPage'' (Some [''read-users'']),
      screen_route [Lit ''app'', Lit ''admin'', Lit ''roles''] ''RolesPermissionsPage'' (Some [''read-permissions'']),
      screen_route [Lit ''app'', Lit ''admin'', Lit ''capabilities''] ''CapabilitiesPage'' (Some [''read-permissions'']),
      screen_route [Lit ''app'', Lit ''admin'', Lit ''agents''] ''AgentRegistryPage'' (Some [''read-agents''])]"

text \<open>The library ranks a route without parameters above one with a parameter in its place, whatever
  the order of the declarations.\<close>

definition page_at :: "string list \<Rightarrow> page_route option" where
  "page_at segs =
     (let here = filter (\<lambda>r. list_all2 segment_matches (pr_path r) segs) AppRouter
      in case find (\<lambda>r. list_all (\<lambda>s. case s of Lit _ \<Rightarrow> True | Param _ \<Rightarrow> False) (pr_path r)) here of
           Some r \<Rightarrow> Some r
         | None \<Rightarrow> find (\<lambda>_. True) here)"

definition requirePermission_screen :: "web_user option \<Rightarrow> string list option \<Rightarrow> screen \<Rightarrow> screen" where
  "requirePermission_screen user anyOf s =
     (case anyOf of None \<Rightarrow> s | Some ps \<Rightarrow> if ui_hasAnyPermission user ps then s else ForbiddenScreen)"

definition app_screen :: "web_user option \<Rightarrow> string \<Rightarrow> screen" where
  "app_screen user path =
     (let segs = path_segments path
      in if list_all2 segment_matches [Lit ''login''] segs then Page ''LoginPage''
         else if list_all2 segment_matches [Lit ''logout''] segs then Page ''LogoutRoute''
         else if segs = [] \<or> \<not> segment_matches (Lit ''app'') (hd segs) then Redirect ''/app''
         else case page_at segs of
           None \<Rightarrow> NotFoundScreen
         | Some r \<Rightarrow> requirePermission_screen user (pr_anyOf r) (Page (pr_page r)))"

text \<open>On a path in lower case the patterns match by plain equality.\<close>

fun segment_equal :: "path_segment \<Rightarrow> string \<Rightarrow> bool" where
  "segment_equal (Lit l) s \<longleftrightarrow> l = s"
| "segment_equal (Param _) s \<longleftrightarrow> s \<noteq> []"

definition page_at_lower :: "string list \<Rightarrow> page_route option" where
  "page_at_lower segs =
     (let here = filter (\<lambda>r. list_all2 segment_equal (pr_path r) segs) AppRouter
      in case find (\<lambda>r. list_all (\<lambda>s. case s of Lit _ \<Rightarrow> True | Param _ \<Rightarrow> False) (pr_path r)) here of
           Some r \<Rightarrow> Some r
         | None \<Rightarrow> find (\<lambda>_. True) here)"

definition lower_segments :: "string list \<Rightarrow> bool" where
  "lower_segments segs \<longleftrightarrow> list_all (\<lambda>s. map to_lower s = s) segs"

lemma AppRouter_lower: "list_all (\<lambda>r. list_all is_lower_literal (pr_path r)) AppRouter"
  by code_simp

lemma segments_equal:
  "list_all is_lower_literal p \<Longrightarrow> lower_segments segs \<Longrightarrow> list_all2 segment_matches p segs = list_all2 segment_equal p segs"
proof (induction p arbitrary: segs)
  case (Cons x p)
  then show ?case by (cases x; cases segs) (auto simp: is_lower_literal_def lower_segments_def)
qed simp

lemma page_at_lower:
  assumes "lower_segments segs"
  shows "page_at segs = page_at_lower segs"
proof -
  have "filter (\<lambda>r. list_all2 segment_matches (pr_path r) segs) AppRouter
      = filter (\<lambda>r. list_all2 segment_equal (pr_path r) segs) AppRouter"
    using AppRouter_lower segments_equal [OF _ assms] by (intro filter_cong) (auto simp: list_all_iff)
  then show ?thesis by (simp add: page_at_def page_at_lower_def)
qed

text \<open>An item of the sidebar leads to a page, and is visible exactly when that page opens.\<close>

definition nav_exact :: "nav_item \<Rightarrow> bool" where
  "nav_exact item = (case page_at_lower (path_segments (ni_to item)) of
       None \<Rightarrow> False | Some r \<Rightarrow> pr_anyOf r = ni_anyOf item)"

lemma nav_all_exact: "list_all (\<lambda>g. list_all nav_exact (ng_items g)) NAV_GROUPS"
  by code_simp

definition under_app :: "string list \<Rightarrow> bool" where
  "under_app segs \<longleftrightarrow> segs \<noteq> [] \<and> hd segs = ''app'' \<and> lower_segments segs"

lemma nav_under_app: "list_all (\<lambda>g. list_all (\<lambda>i. under_app (path_segments (ni_to i))) (ng_items g)) NAV_GROUPS"
  by code_simp

lemma app_screen_under_app:
  "under_app (path_segments path) \<Longrightarrow> app_screen user path =
     (case page_at (path_segments path) of None \<Rightarrow> NotFoundScreen
      | Some r \<Rightarrow> requirePermission_screen user (pr_anyOf r) (Page (pr_page r)))"
  by (cases "path_segments path") (auto simp: under_app_def app_screen_def to_lower_def Let_def of_char_of)

lemma nav_opens:
  assumes "g \<in> set NAV_GROUPS" "item \<in> set (ng_items g)"
  shows "\<exists>c. app_screen user (ni_to item) = (if isVisible user item then Page c else ForbiddenScreen)"
proof -
  from assms nav_under_app have under: "under_app (path_segments (ni_to item))" by (auto simp: list_all_iff)
  then have "page_at (path_segments (ni_to item)) = page_at_lower (path_segments (ni_to item))"
    by (simp add: under_app_def page_at_lower)
  with assms nav_all_exact obtain r where "page_at (path_segments (ni_to item)) = Some r" "pr_anyOf r = ni_anyOf item"
    by (auto simp: list_all_iff nav_exact_def split: option.splits)
  moreover note under
  ultimately show ?thesis
    by (auto simp: app_screen_under_app requirePermission_screen_def isVisible_def split: option.splits)
qed

lemma sidebar_opens:
  assumes "(l, items) \<in> set (sidebar user)" "item \<in> set items"
  shows "\<exists>c. app_screen user (ni_to item) = Page c"
proof -
  from assms obtain g where "g \<in> set NAV_GROUPS" "item \<in> set (ng_items g)" "isVisible user item"
    by (auto simp: sidebar_def)
  then show ?thesis using nav_opens [of g item user] by auto
qed

section \<open>The calls of the pages\<close>

text \<open>What a page asks the API for, by the handler its call reaches: the calls it makes when it is
  opened, and those its forms and buttons make. The list in front holds the permissions the page asks
  for itself before it makes the call or shows the button.\<close>

type_synonym page_calls = "(string list \<times> string) list"

definition AppShell_calls :: page_calls where
  "AppShell_calls = [([], ''MeController.me''), ([], ''RbacRegistryController.get'')]"

definition DashboardPage_calls :: page_calls where
  "DashboardPage_calls =
     [([''read-customers''], ''CustomerController.list''), ([''read-sales''], ''SaleController.list''),
      ([''read-issues''], ''IssueController.list''), ([''read-actions''], ''ActionController.list''),
      ([''read-sop''], ''SopController.list''), ([''read-users''], ''AdminUserController.list''),
      ([''read-permissions''], ''RbacController.getMatrix''), ([], ''ChatController.listConversations'')]"

definition AgentChatPage_calls :: page_calls where
  "AgentChatPage_calls =
     [([], ''ChatController.listConversations''), ([], ''ChatController.getConversation''),
      ([], ''AgentRunController.list''), ([], ''AgentRunController.streamEvents''),
      ([], ''AgentRunController.getTrace''), ([], ''AgentRunController.create'')]"

definition CustomersPage_calls :: page_calls where
  "CustomersPage_calls =
     [([], ''CustomerController.list'')]"

definition ProductsPage_calls :: page_calls where
  "ProductsPage_calls =
     [([], ''ProductController.list'')]"

definition SalesPage_calls :: page_calls where
  "SalesPage_calls =
     [([], ''SaleController.list'')]"

definition SaleDetailPage_calls :: page_calls where
  "SaleDetailPage_calls =
     [([], ''SaleController.getById'')]"

definition NewSalePage_calls :: page_calls where
  "NewSalePage_calls =
     [([], ''CustomerController.list''), ([], ''ProductController.list''), ([], ''SaleController.create'')]"

definition IssuesPage_calls :: page_calls where
  "IssuesPage_calls =
     [([], ''IssueController.list'')]"

definition IssueDetailPage_calls :: page_calls where
  "IssueDetailPage_calls =
     [([], ''IssueController.getById''), ([''write-issues''], ''IssueController.update'')]"

definition NewIssuePage_calls :: page_calls where
  "NewIssuePage_calls =
     [([], ''SaleController.list''), ([], ''IssueController.create'')]"

definition ActionsPage_calls :: page_calls where
  "ActionsPage_calls =
     [([], ''ActionController.list'')]"

definition ActionCard_calls :: page_calls where
  "ActionCard_calls =
     [([''write-actions''], ''ActionController.update''),
      ([''write-actions''], ''ActionController.addComment'')]"

definition SopsPage_calls :: page_calls where
  "SopsPage_calls =
     [([], ''SopController.list'')]"

definition SopDetailPage_calls :: page_calls where
  "SopDetailPage_calls =
     [([], ''SopController.getById'')]"

definition SopEditorPage_calls :: page_calls where
  "SopEditorPage_calls =
     [([], ''SopController.getById''), ([], ''SopController.update''), ([], ''SopController.addVersion''),
      ([], ''SopController.create'')]"

definition AdminUsersPage_calls :: page_calls where
  "AdminUsersPage_calls =
     [([], ''AdminUserController.list''), ([''write-users''], ''AdminUserController.syncKeycloak''),
      ([''write-users''], ''AdminUserController.create''),
      ([''write-users''], ''AdminUserController.setRoles'')]"

definition RolesPermissionsPage_calls :: page_calls where
  "RolesPermissionsPage_calls =
     [([''write-permissions''], ''RbacAdminController.setRolePermissions''),
      ([''write-permissions''], ''RbacAdminController.createRole''),
      ([''write-permissions''], ''RbacAdminController.deleteRole''),
      ([''write-permissions''], ''RbacAdminController.createPermission''),
      ([''write-permissions''], ''RbacAdminController.deletePermission'')]"

definition CapabilitiesPage_calls :: page_calls where
  "CapabilitiesPage_calls =
     [([''write-permissions''], ''RbacAdminController.updateCapability''),
      ([''write-permissions''], ''RbacAdminController.deleteCapability''),
      ([''write-permissions''], ''RbacAdminController.createCapability'')]"

definition AgentRegistryPage_calls :: page_calls where
  "AgentRegistryPage_calls =
     [([], ''AdminAgentController.list''), ([''write-agents''], ''AdminAgentController.setEnabled''),
      ([''write-agents''], ''AdminAgentController.onboard''),
      ([''write-agents''], ''AdminAgentController.remove'')]"

definition page_calls_of :: "(string \<times> page_calls) list" where
  "page_calls_of =
     [(''DashboardPage'', DashboardPage_calls),
      (''AgentChatPage'', AgentChatPage_calls),
      (''CustomersPage'', CustomersPage_calls),
      (''ProductsPage'', ProductsPage_calls),
      (''SalesPage'', SalesPage_calls),
      (''SaleDetailPage'', SaleDetailPage_calls),
      (''NewSalePage'', NewSalePage_calls),
      (''IssuesPage'', IssuesPage_calls),
      (''IssueDetailPage'', IssueDetailPage_calls @ ActionCard_calls),
      (''NewIssuePage'', NewIssuePage_calls),
      (''ActionsPage'', ActionsPage_calls @ ActionCard_calls),
      (''SopsPage'', SopsPage_calls),
      (''SopDetailPage'', SopDetailPage_calls),
      (''SopEditorPage'', SopEditorPage_calls),
      (''AdminUsersPage'', AdminUsersPage_calls),
      (''RolesPermissionsPage'', RolesPermissionsPage_calls),
      (''CapabilitiesPage'', CapabilitiesPage_calls),
      (''AgentRegistryPage'', AgentRegistryPage_calls)]"

text \<open>A permission that implies another in every role of the catalog, and one that every role has.\<close>

definition role_implies :: "string \<Rightarrow> string \<Rightarrow> bool" where
  "role_implies x p \<longleftrightarrow> list_all (\<lambda>(r, ps). x \<in> set ps \<longrightarrow> p \<in> set ps) ROLE_PERMISSIONS"

definition in_every_role :: "string \<Rightarrow> bool" where
  "in_every_role p \<longleftrightarrow> list_all (\<lambda>(r, ps). p \<in> set ps) ROLE_PERMISSIONS"

definition implied_pairs :: "(string \<times> string) list" where
  "implied_pairs = [(''write-sales'', ''read-customers''), (''write-sales'', ''read-sales''),
     (''create-issues'', ''read-sales''), (''write-sop'', ''read-sop'')]"

definition common_permissions :: "string list" where
  "common_permissions = [''create-agent-run'', ''read-agent-run'']"

lemma implied_pairs_ok: "list_all (\<lambda>(x, p). role_implies x p) implied_pairs"
  by code_simp

lemma common_permissions_ok: "list_all in_every_role common_permissions"
  by code_simp

definition covers :: "string \<Rightarrow> string \<Rightarrow> bool" where
  "covers x p \<longleftrightarrow> x = p \<or> list_ex (\<lambda>q. q = (x, p)) implied_pairs"

definition covered :: "string list option \<Rightarrow> string list \<Rightarrow> string \<Rightarrow> bool" where
  "covered anyOf gate p \<longleftrightarrow>
     (case anyOf of None \<Rightarrow> False | Some xs \<Rightarrow> list_all (\<lambda>x. covers x p) xs)
     \<or> list_ex (\<lambda>x. covers x p) gate \<or> list_ex (\<lambda>q. q = p) common_permissions"

text \<open>The permission each handler behind an authenticated route is guarded with; \<open>None\<close> when a user
  is enough.\<close>

definition guard_permission :: "route \<Rightarrow> (string \<times> string option) list" where
  "guard_permission r = (case rt_guard r of
       GuardUser (PermissionRoute i p audit) \<Rightarrow> [(rt_handler r, Some p)]
     | GuardUser (AuthenticatedRoute i audit) \<Rightarrow> [(rt_handler r, None)]
     | _ \<Rightarrow> [])"

definition handler_permissions :: "(string \<times> string option) list" where
  "handler_permissions =
     [(''MeController.me'', None), (''CustomerController.list'', Some ''read-customers''),
      (''CustomerController.getById'', Some ''read-customers''),
      (''ProductController.list'', Some ''read-sales''), (''SaleController.list'', Some ''read-sales''),
      (''SaleController.create'', Some ''write-sales''), (''SaleController.getById'', Some ''read-sales''),
      (''IssueController.list'', Some ''read-issues''), (''IssueController.create'', Some ''create-issues''),
      (''IssueController.getById'', Some ''read-issues''),
      (''IssueController.update'', Some ''write-issues''),
      (''ActionController.create'', Some ''create-actions''),
      (''ActionController.list'', Some ''read-actions''),
      (''ActionController.update'', Some ''write-actions''),
      (''ActionController.addComment'', Some ''write-actions''), (''SopController.list'', Some ''read-sop''),
      (''SopController.create'', Some ''write-sop''), (''SopController.getById'', Some ''read-sop''),
      (''SopController.update'', Some ''write-sop''), (''SopController.addVersion'', Some ''write-sop''),
      (''AdminUserController.list'', Some ''read-users''),
      (''AdminUserController.create'', Some ''write-users''),
      (''AdminUserController.getById'', Some ''read-users''),
      (''AdminUserController.update'', Some ''write-users''),
      (''AdminUserController.setRoles'', Some ''write-users''),
      (''AdminUserController.syncKeycloak'', Some ''write-users''),
      (''RbacController.listRoles'', Some ''read-permissions''),
      (''RbacController.listPermissions'', Some ''read-permissions''),
      (''RbacController.getMatrix'', Some ''read-permissions''),
      (''RbacController.listCapabilities'', Some ''read-permissions''),
      (''RbacController.listRoutePolicies'', Some ''read-permissions''),
      (''RbacController.listViewPermissions'', Some ''read-permissions''),
      (''RbacAdminController.createRole'', Some ''write-permissions''),
      (''RbacAdminController.updateRole'', Some ''write-permissions''),
      (''RbacAdminController.deleteRole'', Some ''write-permissions''),
      (''RbacAdminController.setRolePermissions'', Some ''write-permissions''),
      (''RbacAdminController.createPermission'', Some ''write-permissions''),
      (''RbacAdminController.updatePermission'', Some ''write-permissions''),
      (''RbacAdminController.deletePermission'', Some ''write-permissions''),
      (''RbacAdminController.createCapability'', Some ''write-permissions''),
      (''RbacAdminController.updateCapability'', Some ''write-permissions''),
      (''RbacAdminController.deleteCapability'', Some ''write-permissions''),
      (''RbacAdminController.updateRoutePolicy'', Some ''write-permissions''),
      (''RbacAdminController.updateViewPermission'', Some ''write-permissions''),
      (''RbacRegistryController.get'', None), (''ChatController.listConversations'', None),
      (''ChatController.createConversation'', None), (''ChatController.getConversation'', None),
      (''AgentRunController.create'', Some ''create-agent-run''),
      (''AgentRunController.list'', Some ''read-agent-run''),
      (''AgentRunController.getById'', Some ''read-agent-run''),
      (''AgentRunController.streamEvents'', Some ''read-agent-run''),
      (''AgentRunController.getTrace'', Some ''read-agent-run''),
      (''AgentRunController.cancel'', Some ''cancel-agent-run''),
      (''AdminAgentController.list'', Some ''read-agents''),
      (''AdminAgentController.onboard'', Some ''write-agents''),
      (''AdminAgentController.get'', Some ''read-agents''),
      (''AdminAgentController.setEnabled'', Some ''write-agents''),
      (''AdminAgentController.remove'', Some ''write-agents'')]"

lemma handler_permissions: "concat (map guard_permission (core_routes @ user_agent_routes)) = handler_permissions"
  by code_simp

definition call_covered :: "string list option \<Rightarrow> string list \<times> string \<Rightarrow> bool" where
  "call_covered anyOf c = list_all (\<lambda>(h, p). h = snd c \<longrightarrow>
     (case p of None \<Rightarrow> True | Some q \<Rightarrow> covered anyOf (fst c) q)) handler_permissions"

lemmas covered_defs = call_covered_def handler_permissions_def covered_def covers_def implied_pairs_def common_permissions_def

lemma shell_covered: "list_all (call_covered None) AppShell_calls"
  by (simp add: AppShell_calls_def covered_defs)

lemmas calls_defs = DashboardPage_calls_def AgentChatPage_calls_def CustomersPage_calls_def ProductsPage_calls_def
  SalesPage_calls_def SaleDetailPage_calls_def NewSalePage_calls_def IssuesPage_calls_def IssueDetailPage_calls_def
  NewIssuePage_calls_def ActionsPage_calls_def ActionCard_calls_def SopsPage_calls_def SopDetailPage_calls_def
  SopEditorPage_calls_def AdminUsersPage_calls_def RolesPermissionsPage_calls_def CapabilitiesPage_calls_def
  AgentRegistryPage_calls_def

lemma pages_covered:
  "list_all (\<lambda>r. case map_of page_calls_of (pr_page r) of
      None \<Rightarrow> False | Some cs \<Rightarrow> list_all (call_covered (pr_anyOf r)) cs) AppRouter"
  by code_simp

lemma covered_grant:
  assumes cov: "covered anyOf gate q"
    and roles: "roles \<noteq> []" "\<forall>r \<in> set roles. isRole r" "permissionsForRoles roles = Inr perms"
    and guard: "\<forall>xs. anyOf = Some xs \<longrightarrow> (\<exists>x \<in> set xs. x \<in> set perms)" and gate: "set gate \<subseteq> set perms"
  shows "q \<in> set perms"
proof -
  obtain gs where "permissionsForRoles roles = Inr gs" "distinct gs" "set gs = {p. \<exists>r \<in> set roles. (r, p) \<in> static_grants}"
    by (rule permissionsForRoles_known [OF roles(2)])
  with roles(3) have "set perms = {p. \<exists>r \<in> set roles. (r, p) \<in> static_grants}" by simp
  then have perms: "p \<in> set perms \<longleftrightarrow> (\<exists>r \<in> set roles. (r, p) \<in> static_grants)" for p by blast
  have implied: "p \<in> set perms" if "covers x p" "x \<in> set perms" for x p
  proof (cases "x = p")
    case False
    with that(1) implied_pairs_ok have "role_implies x p" by (auto simp: covers_def list_all_iff list_ex_iff)
    then show ?thesis
      using that(2) unfolding perms by (fastforce simp: role_implies_def list_all_iff static_grants_def)
  qed (use that in simp)
  have common: "q \<in> set perms" if "list_ex (\<lambda>p. p = q) common_permissions"
  proof -
    from that common_permissions_ok have "in_every_role q" by (auto simp: list_all_iff list_ex_iff)
    moreover obtain r ps where "r \<in> set roles" "(r, ps) \<in> set ROLE_PERMISSIONS"
      using roles(1,2) by (cases roles) (auto simp: isRole_iff dest: map_of_SomeD)
    ultimately show ?thesis unfolding perms by (fastforce simp: in_every_role_def list_all_iff static_grants_def)
  qed
  from cov show ?thesis
    using implied common guard gate
    by (auto simp: covered_def list_all_iff list_ex_iff split: option.splits)
qed

lemma page_guard_open:
  "requirePermission_screen (Some u) anyOf (Page c) = Page c' \<longleftrightarrow>
     c' = c \<and> (\<forall>xs. anyOf = Some xs \<longrightarrow> (\<exists>x \<in> set xs. x \<in> set (wu_permissions u)))"
  by (auto simp: requirePermission_screen_def ui_hasAnyPermission_def ui_hasPermission_def list_ex_iff split: option.splits)

lemma covered_route:
  assumes "call_covered anyOf (gate, rt_handler r)" "r \<in> set (app_routes cfg)" "rt_guard r = GuardUser policy"
  shows "(\<exists>i audit. policy = AuthenticatedRoute i audit) \<or> (\<exists>i q audit. policy = PermissionRoute i q audit \<and> covered anyOf gate q)"
proof -
  have r: "r \<in> set (core_routes @ user_agent_routes)"
    using assms(2,3)
    by (auto simp: app_routes_def agent_routes_split mount_def createToolGatewayRouter_def createInternalRbacRegistryRouter_def
        split: if_splits)
  have entry: "e \<in> set handler_permissions" if "e \<in> set (guard_permission r)" for e
  proof -
    have "e \<in> set (concat (map guard_permission (core_routes @ user_agent_routes)))"
      using that r unfolding set_concat set_map by blast
    then show ?thesis by (simp only: handler_permissions)
  qed
  have "guard_ok r" using assms(2) by (rule app_guard_ok)
  then show ?thesis
  proof (cases policy)
    case (PermissionRoute i q audit)
    then have "(rt_handler r, Some q) \<in> set handler_permissions"
      using assms(3) by (intro entry) (simp add: guard_permission_def)
    then have "covered anyOf gate q" using assms(1) by (auto simp: call_covered_def list_all_iff)
    with PermissionRoute show ?thesis by blast
  qed (use assms(3) in \<open>auto simp: guard_ok_def\<close>)
qed

text \<open>C19: The web client never shows a signed-in user a page whose calls the API then refuses. On a
  platform booted on a migrated and seeded database, let a user hold any of the built-in roles. When
  the router opens a page for that user, every call the page makes, once the page's own condition on
  the permissions holds, reaches an endpoint whose guard lets the user through.\<close>

theorem pages_authorized:
  assumes "fst (bootstrap seeded_db) = Inr R"
    and "roles \<noteq> []" and "set roles \<subseteq> set ROLES" and "permissionsForRoles roles = Inr (wu_permissions u)"
    and "pr \<in> set AppRouter" and "requirePermission_screen (Some u) (pr_anyOf pr) (Page (pr_page pr)) = Page c"
    and "map_of page_calls_of c = Some calls" and "(gate, handler) \<in> set calls" and "ui_hasAllPermissions (Some u) gate"
    and "r \<in> set (app_routes cfg)" and "rt_handler r = handler" and "rt_guard r = GuardUser policy"
    and "ac_permissions auth = wu_permissions u"
  shows "fst (authorize R policy (Some auth)) = Inr ()"
proof -
  from assms(1) have R: "R = mkRegistry (loadData seeded_booted_db)" by (simp add: bootstrap_seeded)
  have "guard_ok r" using assms(10) by (rule app_guard_ok)
  with assms(12) have "policy \<in> set declared_policies" by (simp add: guard_ok_def)
  note view = booted_policy [OF this]
  from assms(6) have c: "c = pr_page pr"
    and guard: "\<forall>xs. pr_anyOf pr = Some xs \<longrightarrow> (\<exists>x \<in> set xs. x \<in> set (wu_permissions u))"
    unfolding page_guard_open by blast+
  from assms(9) have gate: "set gate \<subseteq> set (wu_permissions u)"
    by (auto simp: ui_hasAllPermissions_def ui_hasPermission_def list_all_iff)
  from assms(3) have known: "\<forall>r \<in> set roles. isRole r" by (auto simp: isRole_def)
  have cc: "call_covered (pr_anyOf pr) (gate, rt_handler r)"
    using pages_covered assms(5,7,8,11) unfolding list_all_iff c by fastforce
  from covered_route [OF cc assms(10,12)] show ?thesis
  proof
    assume "\<exists>i audit. policy = AuthenticatedRoute i audit"
    then show ?thesis unfolding authorize_Inr_iff unfolding R view by (auto simp: declared_view_def)
  next
    assume "\<exists>i q audit. policy = PermissionRoute i q audit \<and> covered (pr_anyOf pr) gate q"
    then obtain i q audit where p: "policy = PermissionRoute i q audit" "covered (pr_anyOf pr) gate q" by blast
    from covered_grant [OF p(2) assms(2) known assms(4) guard gate] have q: "q \<in> set (wu_permissions u)" .
    have "q \<noteq> []"
      using \<open>policy \<in> set declared_policies\<close> declared_known p(1) by (auto simp: list_all_iff policy_known_def PERMISSIONS_def)
    with p(1) q assms(13) show ?thesis unfolding authorize_Inr_iff unfolding R view by (auto simp: declared_view_def)
  qed
qed

definition example_sales_user :: web_user where
  "example_sales_user = \<lparr>wu_id = ''u1'', wu_email = ''sam@nova'', wu_firstName = ''Sam'', wu_lastName = ''Hill'',
     wu_roles = [''sales-user''],
     wu_permissions = [''read-customers'', ''write-customers'', ''read-issues'', ''read-sales'', ''write-sales'',
       ''read-actions'', ''read-sop'', ''create-agent-run'', ''read-agent-run'', ''cancel-agent-run'']\<rparr>"

definition example_auth :: auth_context where
  "example_auth = (buildAuthContext (en_registry example_api_env) example_payload)
     \<lparr>ac_permissions := wu_permissions example_sales_user\<rparr>"

theorem pages_authorized_witness:
  "fst (authorize (en_registry example_api_env) listCustomersPolicy (Some example_auth)) = Inr ()"
proof (rule pages_authorized)
  show "fst (bootstrap seeded_db) = Inr (en_registry example_api_env)" by (rule example_booted)
  show "[''sales-user''] \<noteq> []" by simp
  show "set [''sales-user''] \<subseteq> set ROLES" by (simp add: ROLES_def)
  show "permissionsForRoles [''sales-user''] = Inr (wu_permissions example_sales_user)" by code_simp
  show "screen_route [Lit ''app'', Lit ''sales'', Lit ''new''] ''NewSalePage'' (Some [''write-sales'']) \<in> set AppRouter"
    by (simp add: AppRouter_def)
  show "requirePermission_screen (Some example_sales_user)
      (pr_anyOf (screen_route [Lit ''app'', Lit ''sales'', Lit ''new''] ''NewSalePage'' (Some [''write-sales''])))
      (Page (pr_page (screen_route [Lit ''app'', Lit ''sales'', Lit ''new''] ''NewSalePage'' (Some [''write-sales'']))))
    = Page ''NewSalePage''"
    by code_simp
  show "map_of page_calls_of ''NewSalePage'' = Some NewSalePage_calls" by (simp add: page_calls_of_def)
  show "([], ''CustomerController.list'') \<in> set NewSalePage_calls" by (simp add: NewSalePage_calls_def)
  show "ui_hasAllPermissions (Some example_sales_user) []" by (simp add: ui_hasAllPermissions_def)
  have "list_ex (\<lambda>r. r = route GET [Lit ''api'', Lit ''v1'', Lit ''customers''] (GuardUser listCustomersPolicy)
      (schemas None (Some ''listCustomersQuerySchema'') None) ''CustomerController.list'') core_routes"
    by code_simp
  then show "route GET [Lit ''api'', Lit ''v1'', Lit ''customers''] (GuardUser listCustomersPolicy)
      (schemas None (Some ''listCustomersQuerySchema'') None) ''CustomerController.list'' \<in> set (app_routes example_config)"
    by (auto simp: app_routes_def list_ex_iff)
  show "ac_permissions example_auth = wu_permissions example_sales_user" by (simp add: example_auth_def)
qed simp_all

text \<open>The guards alone do not ensure it. A role made by an administrator that has \<open>write-sales\<close> and
  nothing else opens the page for a new sale, whose list of customers the API refuses.\<close>

lemma new_sale_page_unusable:
  assumes "wu_permissions u = [''write-sales'']" "ac_permissions auth = [''write-sales'']"
    and "fst (bootstrap seeded_db) = Inr R"
  shows "app_screen (Some u) ''/app/sales/new'' = Page ''NewSalePage''"
    and "([], ''CustomerController.list'') \<in> set NewSalePage_calls"
    and "fst (authorize R listCustomersPolicy (Some auth)) \<noteq> Inr ()"
proof -
  have segs: "path_segments ''/app/sales/new'' = [''app'', ''sales'', ''new'']" by code_simp
  have under: "under_app (path_segments ''/app/sales/new'')" by code_simp
  have "page_at_lower [''app'', ''sales'', ''new'']
      = Some (screen_route [Lit ''app'', Lit ''sales'', Lit ''new''] ''NewSalePage'' (Some [''write-sales'']))"
    by code_simp
  then have "page_at (path_segments ''/app/sales/new'')
      = Some (screen_route [Lit ''app'', Lit ''sales'', Lit ''new''] ''NewSalePage'' (Some [''write-sales'']))"
    using under segs page_at_lower [of "path_segments ''/app/sales/new''"] by (simp add: under_app_def)
  then show "app_screen (Some u) ''/app/sales/new'' = Page ''NewSalePage''"
    using assms(1) under
    by (simp add: app_screen_under_app requirePermission_screen_def ui_hasAnyPermission_def ui_hasPermission_def)
  show "([], ''CustomerController.list'') \<in> set NewSalePage_calls" by (simp add: NewSalePage_calls_def)
  have "listCustomersPolicy \<in> set declared_policies" by (simp add: declared_policies_def)
  note view = booted_policy [OF this]
  from assms(3) have R: "R = mkRegistry (loadData seeded_booted_db)" by (simp add: bootstrap_seeded)
  show "fst (authorize R listCustomersPolicy (Some auth)) \<noteq> Inr ()"
    unfolding authorize_Inr_iff unfolding R view
    using assms(2) by (simp add: declared_view_def listCustomersPolicy_def)
qed

end
