(* ===== verification/Web_Forms.thy ===== *)
theory Web_Forms
  imports Web_Pages Agent_Runs Trace_Model
begin

text \<open>
  The pages of the web client that edit something: the grant matrix
  (\<open>features/admin/RolesPermissionsPage.tsx\<close>), the capability editor, the chat page, the cards of the
  actions, the counters of the dashboard and the smaller forms. What a page keeps in its state is a
  record or a table; a button is a function on it, with the request it submits.
\<close>

section \<open>The grant matrix\<close>

text \<open>\<open>Record<string, readonly string[]>\<close> and \<open>Record<string, Set<string>>\<close> are tables by role name.\<close>

type_synonym grant_table = "(string \<times> string list) list"

definition buildDraft :: "grant_table \<Rightarrow> grant_table" where
  "buildDraft rolePermissions = map (\<lambda>(role, perms). (role, js_set perms)) rolePermissions"

record draft_state =
  ds_revision :: int
  ds_draft :: grant_table

text \<open>A changed revision discards the edits.\<close>

definition rebaseline :: "int \<Rightarrow> grant_table \<Rightarrow> draft_state \<Rightarrow> draft_state" where
  "rebaseline revision rolePermissions s =
     (if ds_revision s \<noteq> revision then \<lparr>ds_revision = revision, ds_draft = buildDraft rolePermissions\<rparr> else s)"

definition totalGrants :: "grant_table \<Rightarrow> nat" where
  "totalGrants draft = sum_list (map (\<lambda>(r, perms). length perms) draft)"

definition table_get :: "grant_table \<Rightarrow> string \<Rightarrow> string list" where
  "table_get t role = (case map_of t role of Some ps \<Rightarrow> ps | None \<Rightarrow> [])"

definition role_dirty :: "grant_table \<Rightarrow> grant_table \<Rightarrow> string \<Rightarrow> bool" where
  "role_dirty rolePermissions draft name =
     (let original = js_set (table_get rolePermissions name); current = table_get draft name
      in length original \<noteq> length current \<or> list_ex (\<lambda>p. p \<notin> set original) current)"

definition dirtyRoles :: "string list \<Rightarrow> grant_table \<Rightarrow> grant_table \<Rightarrow> string list" where
  "dirtyRoles roles rolePermissions draft = filter (role_dirty rolePermissions draft) roles"

definition toggle_grant :: "bool \<Rightarrow> string \<Rightarrow> string \<Rightarrow> grant_table \<Rightarrow> grant_table" where
  "toggle_grant canWrite roleName permission draft =
     (if \<not> canWrite then draft
      else let s = table_get draft roleName
           in AList.update roleName
                (if permission \<in> set s then filter (\<lambda>p. p \<noteq> permission) s else s @ [permission]) draft)"

text \<open>\<open>for (const roleName of dirtyRoles) await setRolePermissions(...)\<close>: the first refused call stops it.\<close>

fun save_matrix :: "'k kc_client option \<Rightarrow> rbac_actor \<Rightarrow> grant_table \<Rightarrow> string list \<Rightarrow> (('z, 'k) world, unit) op" where
  "save_matrix client actor draft [] = returnM ()"
| "save_matrix client actor draft (r # rs) =
     thenM (rbac_exec client actor (SetRolePermissions r (table_get draft r))) (save_matrix client actor draft rs)"

definition draft_ok :: "grant_table \<Rightarrow> bool" where
  "draft_ok draft \<longleftrightarrow> list_all (\<lambda>(r, ps). distinct ps) draft"

lemma draft_ok_get: "draft_ok draft \<Longrightarrow> distinct (table_get draft r)"
  by (auto simp: draft_ok_def table_get_def list_all_iff split: option.splits dest: map_of_SomeD)

lemma draft_ok_build: "draft_ok (buildDraft t)"
  by (auto simp: draft_ok_def buildDraft_def list_all_iff)

lemma AList_update_ok: "draft_ok draft \<Longrightarrow> distinct ps \<Longrightarrow> draft_ok (AList.update r ps draft)"
  by (induction draft) (auto simp: draft_ok_def)

lemma toggle_grant_get:
  "set (table_get (toggle_grant True r p draft) r') =
     (if r' = r then (if p \<in> set (table_get draft r) then set (table_get draft r) - {p} else insert p (set (table_get draft r)))
      else set (table_get draft r'))"
  by (auto simp: toggle_grant_def table_get_def update_conv' Let_def)

lemma toggle_grant_ok: "draft_ok draft \<Longrightarrow> draft_ok (toggle_grant w r p draft)"
  by (auto simp: toggle_grant_def Let_def draft_ok_get intro!: AList_update_ok)

text \<open>Clicking a cell twice restores it, and a reader's clicks change nothing.\<close>

lemma toggle_twice:
  "set (table_get (toggle_grant True r p (toggle_grant True r p draft)) r') = set (table_get draft r')"
  by (auto simp: toggle_grant_get)

lemma toggle_reader: "toggle_grant False r p draft = draft"
  by (simp add: toggle_grant_def)

lemma role_dirty_iff:
  assumes "draft_ok draft"
  shows "role_dirty t draft r \<longleftrightarrow> set (table_get draft r) \<noteq> set (table_get t r)"
proof -
  have d: "distinct (table_get draft r)" "distinct (js_set (table_get t r))"
    using assms by (simp_all add: draft_ok_get)
  have "length (js_set (table_get t r)) = card (set (table_get t r))" "length (table_get draft r) = card (set (table_get draft r))"
    using d distinct_card by fastforce+
  moreover have "set (table_get draft r) = set (table_get t r)"
    if "card (set (table_get t r)) = card (set (table_get draft r))" "set (table_get draft r) \<subseteq> set (table_get t r)"
    using that by (simp add: card_subset_eq)
  ultimately show ?thesis
    by (auto simp: role_dirty_def Let_def list_ex_iff)
qed

lemma setRolePermissions_db:
  assumes "rbac_db_ok (w_db w)"
    and "rbac_exec client actor (SetRolePermissions role perms) w = (Inr res, w')"
  shows "rbac_db_ok (w_db w')"
    and "(r, p) \<in> set (db_rolePermissions (w_db w')) \<longleftrightarrow>
      (if r = role then p \<in> set perms else (r, p) \<in> set (db_rolePermissions (w_db w)))"
    and "reg_grants (w_active w') r p \<longleftrightarrow> (r, p) \<in> set (db_rolePermissions (w_db w'))"
proof -
  from assms(2) obtain reg where m: "mutate actor (command_work (SetRolePermissions role perms)) w = (Inr reg, w')"
    by (auto simp: op_simps plain_result_def split: prod.splits sum.splits)
  then obtain en d1 where work: "setRolePermissions_work role perms (w_db w) = (Inr en, d1)"
    and w': "w_active w' = mkRegistry (loadData (audited actor en d1))" "w_db w' = audited actor en d1"
    by (cases rule: mutate_cases [of actor "command_work (SetRolePermissions role perms)" w]) auto
  have ok: "rbac_db_ok d1"
    using preservesD [OF command_work_ok [of "SetRolePermissions role perms"] assms(1)] work by simp
  then show db: "rbac_db_ok (w_db w')" by (simp add: w')
  have "db_rolePermissions d1 =
      filter (\<lambda>(r, p). r \<noteq> role) (db_rolePermissions (w_db w)) @ map (\<lambda>p. (role, p)) perms"
    using work by (auto simp: setRolePermissions_work_def requireRole_def requirePermissionsExist_def op_simps
        split: option.splits if_splits prod.splits sum.splits)
  then show "(r, p) \<in> set (db_rolePermissions (w_db w')) \<longleftrightarrow>
      (if r = role then p \<in> set perms else (r, p) \<in> set (db_rolePermissions (w_db w)))"
    by (auto simp: w' audited_def)
  show "reg_grants (w_active w') r p \<longleftrightarrow> (r, p) \<in> set (db_rolePermissions (w_db w'))"
    using db by (simp add: w' loadData_def loaded_grants)
qed

lemma save_matrix_db:
  assumes "rbac_db_ok (w_db w)" "save_matrix client actor draft rs w = (Inr (), w')"
  shows "rbac_db_ok (w_db w') \<and> (\<forall>r p. (r, p) \<in> set (db_rolePermissions (w_db w')) \<longleftrightarrow>
      (if r \<in> set rs then p \<in> set (table_get draft r) else (r, p) \<in> set (db_rolePermissions (w_db w))))
    \<and> (rs \<noteq> [] \<longrightarrow> (\<forall>r p. reg_grants (w_active w') r p \<longleftrightarrow> (r, p) \<in> set (db_rolePermissions (w_db w'))))"
  using assms
proof (induction rs arbitrary: w)
  case (Cons r rs)
  from Cons.prems(2) obtain res w1 where
      step: "rbac_exec client actor (SetRolePermissions r (table_get draft r)) w = (Inr res, w1)"
      and rest: "save_matrix client actor draft rs w1 = (Inr (), w')"
    by (auto simp: op_simps split: prod.splits sum.splits)
  note one = setRolePermissions_db [OF Cons.prems(1) step]
  show ?case
  proof (cases "rs = []")
    case True
    with rest have "w' = w1" by (simp add: op_simps)
    with True one show ?thesis by simp
  next
    case False
    with Cons.IH [OF one(1) rest] one(2) show ?thesis by auto
  qed
qed (auto simp: op_simps)



section \<open>The capability editor\<close>

text \<open>\<open>CapabilityDto\<close> carries no description, so the form starts with an empty one.\<close>

record capability_dto =
  cy_id :: string
  cy_kind :: string
  cy_mode :: string
  cy_risk :: string
  cy_resourceScoped :: bool
  cy_delegated :: bool
  cy_enabled :: bool
  cy_requiresApproval :: bool
  cy_isSystem :: bool
  cy_requiredPermissions :: "string list"

record capability_form =
  cf_id :: string
  cf_kind :: string
  cf_mode :: string
  cf_risk :: string
  cf_resourceScoped :: bool
  cf_delegated :: bool
  cf_requiresApproval :: bool
  cf_requiredPermissions :: "string list"
  cf_description :: string

definition EMPTY_capability_form :: capability_form where
  "EMPTY_capability_form = \<lparr>cf_id = [], cf_kind = ''agent-skill'', cf_mode = ''read'', cf_risk = ''low'',
     cf_resourceScoped = False, cf_delegated = False, cf_requiresApproval = False,
     cf_requiredPermissions = [], cf_description = []\<rparr>"

definition toForm :: "capability_dto \<Rightarrow> capability_form" where
  "toForm c = \<lparr>cf_id = cy_id c, cf_kind = cy_kind c, cf_mode = cy_mode c, cf_risk = cy_risk c,
     cf_resourceScoped = cy_resourceScoped c, cf_delegated = cy_delegated c,
     cf_requiresApproval = cy_requiresApproval c, cf_requiredPermissions = cy_requiredPermissions c,
     cf_description = []\<rparr>"

definition form_description :: "capability_form \<Rightarrow> string option" where
  "form_description values = (if cf_description values \<noteq> [] then Some (cf_description values) else None)"

definition capability_update_body :: "capability_form \<Rightarrow> update_capability_body" where
  "capability_update_body values = \<lparr>ucb_enabled = None, ucb_risk = Some (cf_risk values),
     ucb_requiresApproval = Some (cf_requiresApproval values),
     ucb_requiredPermissions = Some (cf_requiredPermissions values),
     ucb_description = Some (form_description values)\<rparr>"

definition capability_create_body :: "capability_form \<Rightarrow> create_capability_body" where
  "capability_create_body values = \<lparr>ccb_id = cf_id values, ccb_kind = cf_kind values, ccb_mode = cf_mode values,
     ccb_risk = cf_risk values, ccb_resourceScoped = cf_resourceScoped values, ccb_delegated = cf_delegated values,
     ccb_requiresApproval = cf_requiresApproval values, ccb_requiredPermissions = cf_requiredPermissions values,
     ccb_description = form_description values\<rparr>"

text \<open>The submitted command: an update of the edited capability, else a creation.\<close>

definition capability_submit :: "capability_dto option \<Rightarrow> capability_form \<Rightarrow> rbac_command" where
  "capability_submit edited values = (case edited of
       Some c \<Rightarrow> UpdateCapability (cy_id c) (capability_update_body values)
     | None \<Rightarrow> CreateCapability (capability_create_body values))"

definition capability_toggle :: "capability_dto \<Rightarrow> rbac_command" where
  "capability_toggle c = UpdateCapability (cy_id c) \<lparr>ucb_enabled = Some (\<not> cy_enabled c), ucb_risk = None,
     ucb_requiresApproval = None, ucb_requiredPermissions = None, ucb_description = None\<rparr>"

text \<open>Opening the editor and saving without touching the form erases the description on record and
  keeps everything else.\<close>

lemma capability_edit_forgets:
  "patch_capability (capability_update_body (toForm c)) row
     = row\<lparr>cr_risk := cy_risk c, cr_requiresApproval := cy_requiresApproval c, cr_description := None\<rparr>"
  by (simp add: patch_capability_def capability_update_body_def toForm_def form_description_def opt_set_def)

text \<open>Which roles can use a capability: \<open>rolesByCapability\<close> of \<open>CapabilitiesPage.tsx\<close>.\<close>

definition rolesByCapability :: "grant_table \<Rightarrow> capability_dto \<Rightarrow> string list" where
  "rolesByCapability rolePermissions c =
     map fst (filter (\<lambda>(r, perms). list_all (\<lambda>p. p \<in> set perms) (cy_requiredPermissions c)) rolePermissions)"

lemma rolesByCapability_iff:
  assumes "distinct (map fst t)"
  shows "r \<in> set (rolesByCapability t c)
     \<longleftrightarrow> r \<in> fst ` set t \<and> set (cy_requiredPermissions c) \<subseteq> set (table_get t r)"
proof -
  have get: "table_get t r = perms" if "(r, perms) \<in> set t" for perms
    using assms that by (simp add: table_get_def)
  have "r \<in> set (rolesByCapability t c) \<longleftrightarrow>
      (\<exists>perms. (r, perms) \<in> set t \<and> set (cy_requiredPermissions c) \<subseteq> set perms)"
    by (auto simp: rolesByCapability_def list_all_iff subset_iff image_iff)
  also have "\<dots> \<longleftrightarrow> r \<in> fst ` set t \<and> set (cy_requiredPermissions c) \<subseteq> set (table_get t r)"
    using get by (metis (no_types, lifting) fst_conv imageE image_eqI prod.collapse)
  finally show ?thesis .
qed

text \<open>A capability that requires nothing is shown as usable by every role, though the registry lets
  nobody use it.\<close>

lemma capability_without_permissions:
  assumes "distinct (map fst t)" "cy_requiredPermissions c = []"
  shows "set (rolesByCapability t c) = fst ` set t"
    and "cv_requiredPermissions v = [] \<Longrightarrow> \<not> reg_permissionsSatisfyCapability v perms"
proof -
  show "set (rolesByCapability t c) = fst ` set t"
    using assms(2) by (intro set_eqI) (simp add: rolesByCapability_iff [OF assms(1)])
  show "cv_requiredPermissions v = [] \<Longrightarrow> \<not> reg_permissionsSatisfyCapability v perms"
    by (simp add: reg_satisfies_iff)
qed

section \<open>The chat page\<close>

datatype pending_status = Sending | SendError

record chat_page =
  cp_activeId :: "string option"
  cp_pending :: "(string \<times> pending_status) option"
  cp_runId :: "string option"

definition setActive :: "string option \<Rightarrow> chat_page \<Rightarrow> chat_page" where
  "setActive i page = page\<lparr>cp_pending := None, cp_runId := None, cp_activeId := some_id i\<rparr>"

text \<open>\<open>mutationFn\<close>: every call draws a new key.\<close>

definition chat_request :: "chat_page \<Rightarrow> string \<Rightarrow> string \<Rightarrow> api_call" where
  "chat_request page message newKey = createAgentRun_call
     (JObj ([(''message'', JStr message)]
       @ (case some_id (cp_activeId page) of Some i \<Rightarrow> [(''conversationId'', JStr i)] | None \<Rightarrow> [])
       @ [(''context'', JObj [(''currentRoute'', JStr ''/app/chat'')])])) newKey"

definition chat_send :: "string \<Rightarrow> string \<Rightarrow> chat_page \<Rightarrow> chat_page \<times> api_call" where
  "chat_send message newKey page =
     (page\<lparr>cp_pending := Some (message, Sending)\<rparr>, chat_request page message newKey)"

definition chat_retry :: "string \<Rightarrow> chat_page \<Rightarrow> chat_page \<times> api_call option" where
  "chat_retry newKey page = (case cp_pending page of
       Some (message, st) \<Rightarrow> (page\<lparr>cp_pending := Some (message, Sending)\<rparr>, Some (chat_request page message newKey))
     | None \<Rightarrow> (page, None))"

definition chat_created :: "string \<Rightarrow> string option \<Rightarrow> chat_page \<Rightarrow> chat_page" where
  "chat_created runId conversationId page =
     page\<lparr>cp_pending := None, cp_runId := Some runId,
       cp_activeId := (case some_id conversationId of Some c \<Rightarrow> Some c | None \<Rightarrow> cp_activeId page)\<rparr>"

definition chat_failed :: "chat_page \<Rightarrow> chat_page" where
  "chat_failed page = page\<lparr>cp_pending := map_option (\<lambda>(m, st). (m, SendError)) (cp_pending page)\<rparr>"

definition isRunActive :: "bool \<Rightarrow> chat_page \<Rightarrow> bool" where
  "isRunActive isComplete page \<longleftrightarrow> cp_runId page \<noteq> None \<and> \<not> isComplete"

definition composer_disabled :: "bool \<Rightarrow> chat_page \<Rightarrow> bool" where
  "composer_disabled isComplete page \<longleftrightarrow>
     isRunActive isComplete page \<or> (case cp_pending page of Some (m, Sending) \<Rightarrow> True | _ \<Rightarrow> False)"

text \<open>\<open>ChatComposer\<close>: nothing is sent while it is disabled, and never an empty message.\<close>

definition composer_submit :: "bool \<Rightarrow> string \<Rightarrow> string option" where
  "composer_submit disabled text = (if js_trim text = [] \<or> disabled then None else Some (js_trim text))"

definition runByMessageId :: "(string \<times> string option) list \<Rightarrow> (string \<times> string) list" where
  "runByMessageId runs = js_map (concat (map (\<lambda>(runId, m). case some_id m of Some i \<Rightarrow> [(i, runId)] | None \<Rightarrow> []) runs))"

lemma one_submission_at_a_time:
  "composer_submit (composer_disabled c (fst (chat_send m k page))) text = None"
  by (simp add: composer_submit_def composer_disabled_def chat_send_def)

lemma retry_resends:
  "chat_retry k' (chat_failed (fst (chat_send m k page)))
     = (fst (chat_send m k page), Some (chat_request page m k'))"
  by (simp add: chat_retry_def chat_failed_def chat_send_def chat_request_def)

definition idempotency_key :: "api_call \<Rightarrow> string option" where
  "idempotency_key c = map_of (ro_headers (cl_options c)) ''idempotency-key''"

lemma chat_request_key: "idempotency_key (chat_request page m k) = Some k"
  by (simp add: idempotency_key_def chat_request_def createAgentRun_call_def http_post_def)

text \<open>The retry is a new submission to the server: when the answer to the first one was lost after the
  server had made the run, the retry makes a second run, with the same message, since its key has not
  been seen.\<close>

lemma createRun_new_key:
  assumes "nova_db_ok (pf_nova p)" and "createRun env input p = (Inr dto, p')"
    and "findByOwnerAndIdempotencyKey (ac_subject (cri_auth input)) (cri_idempotencyKey input) (pf_agents p) = None"
  shows "nova_db_ok (pf_nova p')
    \<and> (\<exists>run. ag_runs (pf_agents p') = ag_runs (pf_agents p) @ [run] \<and> ar_idempotencyKey run = cri_idempotencyKey input)"
  using createRun_cases [OF assms(2,1)] assms(3) by (fastforce dest: run_create_ok)

lemma chat_retry_duplicates:
  assumes "nova_db_ok (pf_nova p)"
    and "createRun env (input\<lparr>cri_idempotencyKey := k\<rparr>) p = (Inr dto, p1)"
    and "createRun env' (input\<lparr>cri_idempotencyKey := k'\<rparr>) p1 = (Inr dto', p2)"
    and "findByOwnerAndIdempotencyKey (ac_subject (cri_auth input)) k (pf_agents p) = None"
    and "findByOwnerAndIdempotencyKey (ac_subject (cri_auth input)) k' (pf_agents p1) = None"
  shows "length (ag_runs (pf_agents p2)) = length (ag_runs (pf_agents p)) + 2"
proof -
  from createRun_new_key [OF assms(1,2)] assms(4)
  obtain run where one: "nova_db_ok (pf_nova p1)" "ag_runs (pf_agents p1) = ag_runs (pf_agents p) @ [run]" by auto
  from createRun_new_key [OF one(1) assms(3)] assms(5)
  obtain run' where "ag_runs (pf_agents p2) = ag_runs (pf_agents p1) @ [run']" by auto
  with one show ?thesis by simp
qed

section \<open>The cards of the actions\<close>

record action_card =
  cd_id :: string
  cd_status :: string
  cd_dependsOn :: "string list"

definition BLOCKING_TRANSITIONS :: "string list" where
  "BLOCKING_TRANSITIONS = [''in_progress'', ''completed'']"

text \<open>A dependency that is not among the loaded actions counts as met.\<close>

definition unmetDependencies :: "(string \<rightharpoonup> action_card) \<Rightarrow> action_card \<Rightarrow> string list" where
  "unmetDependencies actionsById action =
     filter (\<lambda>d. case actionsById d of Some target \<Rightarrow> cd_status target \<noteq> ''completed'' | None \<Rightarrow> False) (cd_dependsOn action)"

datatype status_change = NoChange | AskFirst string | Submit api_call

definition submit_status :: "action_card \<Rightarrow> string \<Rightarrow> api_call" where
  "submit_status action status = updateAction_call (cd_id action) (JObj [(''status'', JStr status)])"

definition requestStatusChange :: "(string \<rightharpoonup> action_card) \<Rightarrow> action_card \<Rightarrow> string \<Rightarrow> status_change" where
  "requestStatusChange actionsById action status =
     (if status = cd_status action then NoChange
      else if status \<in> set BLOCKING_TRANSITIONS \<and> length (unmetDependencies actionsById action) > 0 then AskFirst status
      else Submit (submit_status action status))"

text \<open>An action is started or completed without a question only when every loaded dependency is
  completed.\<close>

lemma submit_without_question:
  assumes "requestStatusChange byId action status = Submit c" "status \<in> set BLOCKING_TRANSITIONS"
    and "d \<in> set (cd_dependsOn action)" "byId d = Some target"
  shows "cd_status target = ''completed'' \<and> c = submit_status action status"
  using assms by (auto simp: requestStatusChange_def unmetDependencies_def filter_empty_conv split: if_splits)

section \<open>The dashboard\<close>

text \<open>The card of the open issues counts in the page of five that the dashboard loads; those of the
  actions and the procedures in a page of a hundred.\<close>

definition dashboard_issues_call :: api_call where
  "dashboard_issues_call = listIssues_call (\<lambda>k. if k = ''pageSize'' then QNum 5 else QUndefined)"

definition openIssues :: "string list \<Rightarrow> nat" where
  "openIssues statuses = length (filter (\<lambda>s. s = ''in_assistance'') statuses)"

definition dashboard_openIssues :: "string list \<Rightarrow> nat" where
  "dashboard_openIssues all_statuses = openIssues (take 5 all_statuses)"

lemma dashboard_asks_for_five:
  "snd (buildUrl base (cl_path dashboard_issues_call) (ro_query (cl_options dashboard_issues_call)))
     = [(''page'', ''1''), (''pageSize'', ''5'')]"
  by code_simp

text \<open>With six issues in assistance the card shows five.\<close>

lemma dashboard_undercounts:
  "openIssues (replicate 6 ''in_assistance'') = 6" "dashboard_openIssues (replicate 6 ''in_assistance'') = 5"
  by code_simp+

lemma dashboard_openIssues_le: "dashboard_openIssues xs \<le> min 5 (openIssues xs)"
proof -
  have "filter P (take 5 xs) = take (length (filter P (take 5 xs))) (filter P xs)" for P :: "string \<Rightarrow> bool"
    by (metis append_eq_conv_conj append_take_drop_id filter_append)
  then have "length (filter P (take 5 xs)) \<le> length (filter P xs)" for P :: "string \<Rightarrow> bool"
    by (metis length_take min.cobounded1)
  moreover have "length (filter P (take 5 xs)) \<le> 5" for P :: "string \<Rightarrow> bool"
    using length_filter_le [of P "take 5 xs"] by simp
  ultimately show ?thesis by (simp add: dashboard_openIssues_def openIssues_def)
qed

section \<open>Breadcrumbs\<close>

definition LABELS :: "(string \<times> string) list" where
  "LABELS = [(''app'', ''Home''), (''chat'', ''Agent Chat''), (''admin'', ''Admin''), (''users'', ''Users''),
     (''roles'', ''Roles & Permissions''), (''customers'', ''Customers''), (''products'', ''Products''),
     (''sales'', ''Sales''), (''issues'', ''Issues''), (''actions'', ''Actions''), (''sops'', ''SOPs''),
     (''new'', ''New''), (''edit'', ''Edit'')]"

definition labelFor :: "string \<Rightarrow> string" where
  "labelFor segment = (case map_of LABELS segment of
       Some known \<Rightarrow> known
     | None \<Rightarrow> if length segment > 18 then ''Detail'' else capitalize segment)"

text \<open>A crumb: its label, where it leads, and whether it is the last one, which is not a link.\<close>

definition breadcrumbs :: "string \<Rightarrow> (string \<times> string \<times> bool) list" where
  "breadcrumbs location =
     (let segments = path_segments location
      in map (\<lambda>i. (labelFor (segments ! i), ''/'' @ js_join ''/'' (take (Suc i) segments), i = length segments - 1))
           [0..<length segments])"

text \<open>On every page of the administration the crumb \<open>Admin\<close> is a link to a page that does not exist.\<close>

lemma admin_crumb_dead:
  "(''Admin'', ''/app/admin'', False) \<in> set (breadcrumbs ''/app/admin/users'')"
  "app_screen user ''/app/admin'' = NotFoundScreen"
proof -
  have "breadcrumbs ''/app/admin/users''
      = [(''Home'', ''/app'', False), (''Admin'', ''/app/admin'', False), (''Users'', ''/app/admin/users'', True)]"
    by code_simp
  then show "(''Admin'', ''/app/admin'', False) \<in> set (breadcrumbs ''/app/admin/users'')" by simp
  have u: "under_app (path_segments ''/app/admin'')" by code_simp
  have "page_at_lower (path_segments ''/app/admin'') = None" by code_simp
  with u have "page_at (path_segments ''/app/admin'') = None" by (simp add: under_app_def page_at_lower)
  then show "app_screen user ''/app/admin'' = NotFoundScreen" using u by (simp add: app_screen_under_app)
qed

section \<open>Smaller forms\<close>

text \<open>\<open>SopEditorPage.tsx\<close>: an edit updates the header, then adds a version; a failure of the second
  call leaves the first in place. The path carries the procedure's identifier when editing.\<close>

definition sop_save :: "string option \<Rightarrow> string \<Rightarrow> string \<Rightarrow> bool \<Rightarrow> string \<Rightarrow> api_call list" where
  "sop_save sopId name description active fullText =
     (case some_id sopId of
        Some i \<Rightarrow>
          [updateSop_call i (JObj [(''name'', JStr name), (''description'', JStr description), (''active'', JBool active)]),
           createSopVersion_call i (JObj [(''fullText'', JStr fullText)])]
      | None \<Rightarrow>
          [createSop_call (JObj [(''name'', JStr name), (''description'', JStr description),
             (''active'', JBool active), (''fullText'', JStr fullText)])])"

text \<open>\<open>RoleAssignmentModal.tsx\<close>\<close>

definition toggle_role :: "string \<Rightarrow> string list \<Rightarrow> string list" where
  "toggle_role role current =
     (if role \<in> set current then filter (\<lambda>v. v \<noteq> role) current else current @ [role])"

lemma toggle_role_twice: "set (toggle_role r (toggle_role r rs)) = set rs"
  by (auto simp: toggle_role_def)

lemma toggle_role_distinct: "distinct rs \<Longrightarrow> distinct (toggle_role r rs)"
  by (simp add: toggle_role_def)

text \<open>\<open>OnboardAgentModal.tsx\<close>\<close>

definition parseTags :: "string option \<Rightarrow> string list" where
  "parseTags v = (case some_id v of None \<Rightarrow> []
     | Some s \<Rightarrow> take 20 (filter (\<lambda>tag. length tag > 0) (map js_trim (js_split (CHR '','') s))))"

lemma parseTags_ok: "length (parseTags v) \<le> 20" "tag \<in> set (parseTags v) \<Longrightarrow> tag \<noteq> []"
  by (auto simp: parseTags_def split: option.splits dest!: in_set_takeD)

text \<open>\<open>Pagination.tsx\<close>: the pages the two buttons lead to; nothing is shown for a single page.\<close>

definition pagination :: "int \<Rightarrow> int \<Rightarrow> (int option \<times> int option) option" where
  "pagination page totalPages =
     (if totalPages \<le> 1 then None
      else Some (if page \<le> 1 then None else Some (page - 1), if page \<ge> totalPages then None else Some (page + 1)))"

lemma pagination_in_range:
  assumes "pagination page n = Some (prev, nxt)" "1 \<le> page" "page \<le> n" "prev = Some q \<or> nxt = Some q"
  shows "1 \<le> q \<and> q \<le> n"
  using assms by (auto simp: pagination_def split: if_splits)

text \<open>\<open>RbacRegistryProvider.tsx\<close>: the permission a route asks for, from the registry's policies.\<close>

definition requiredPermissionForRoute :: "route_policy_view list \<Rightarrow> string \<Rightarrow> string option" where
  "requiredPermissionForRoute routePolicies routeId =
     (case map_of (js_map (map (\<lambda>p. (rpv_routeId p, p)) routePolicies)) routeId of
        Some policy \<Rightarrow> if rpv_kind policy = ''permission'' then rpv_permissionName policy else None
      | None \<Rightarrow> None)"

end
