(* ===== verification/Web_Contract.thy ===== *)
theory Web_Contract
  imports Web_Forms Tool_Gateway
begin

text \<open>
  The links of an agent's answer, from the capability that makes them (\<open>capability-executor.ts\<close>) over
  the message that carries the first of them (\<open>tool-gateway.service.ts\<close>) to the chat that shows them
  (\<open>ChatMessage.tsx\<close>, \<open>McpAppLinkCard.tsx\<close>).
\<close>

section \<open>What the chat shows\<close>

datatype shown_link = OpensAt string string | Inert string

text \<open>\<open>ToolLink\<close>\<close>

definition ToolLink :: "tool_link \<Rightarrow> shown_link" where
  "ToolLink l =
     (let internal = (if starts_with ''nova://'' (tl_href l) then some_id (resolveNovaLink (tl_href l)) else None)
      in case internal of Some t \<Rightarrow> OpensAt t (tl_label l) | None \<Rightarrow> Inert (tl_label l))"

text \<open>\<open>McpAppLinkCard\<close>: its title, the text of the link, and the button or the badge.\<close>

definition McpAppLinkCard :: "string \<Rightarrow> bool option \<Rightarrow> string \<times> string \<times> shown_link" where
  "McpAppLinkCard l active =
     (if active = Some False then ''MCP app (inactive)'' else ''Open in Nova'', l,
      case some_id (resolveNovaLink l) of Some t \<Rightarrow> OpensAt t ''Open'' | None \<Rightarrow> Inert ''Unsupported link'')"

text \<open>The card of a message, if it has one.\<close>

definition ChatMessage_card :: "message \<Rightarrow> (string \<times> string \<times> shown_link) option" where
  "ChatMessage_card m =
     (if ms_isMCPApps m then map_option (\<lambda>l. McpAppLinkCard l (ms_MCPActive m)) (some_id (ms_MCPAppLink m)) else None)"

section \<open>The links of the capabilities\<close>

fun link_type_value :: "link_type \<Rightarrow> string" where
  "link_type_value LinkCustomer = ''customer''"
| "link_type_value LinkSale = ''sale''"
| "link_type_value LinkIssue = ''issue''"
| "link_type_value LinkAction = ''action''"
| "link_type_value LinkSop = ''sop''"
| "link_type_value LinkExternal = ''external''"

text \<open>The form of every link: the scheme, the type in the singular, and an identifier.\<close>

definition entity_link :: "tool_link \<Rightarrow> bool" where
  "entity_link l \<longleftrightarrow> tl_type l \<noteq> LinkExternal
     \<and> starts_with (''nova://'' @ link_type_value (tl_type l) @ ''/'') (tl_href l)"

lemma entity_link_link:
  "entity_link (link label (''nova://'' @ link_type_value t @ ''/'' @ i) t) \<longleftrightarrow> t \<noteq> LinkExternal"
  by (simp add: entity_link_def link_def starts_with_def)

definition entity_links :: "('s, tool_call_result) op \<Rightarrow> bool" where
  "entity_links m \<longleftrightarrow> (\<forall>s r s'. m s = (Inr r, s') \<longrightarrow> list_all entity_link (tr_links r))"

lemma entity_links_bind: "(\<And>x. entity_links (f x)) \<Longrightarrow> entity_links (bindM m f)"
  by (auto simp: entity_links_def bindM_def split: prod.splits sum.splits)

lemma entity_links_return: "entity_links (returnM r) \<longleftrightarrow> list_all entity_link (tr_links r)"
  by (simp add: entity_links_def returnM_def)

lemma entity_links_case_prod: "(\<And>a b. entity_links (f a b)) \<Longrightarrow> entity_links (case x of (a, b) \<Rightarrow> f a b)"
  by (cases x) simp

lemma entity_links_case_option:
  "entity_links m \<Longrightarrow> (\<And>x. entity_links (f x)) \<Longrightarrow> entity_links (case y of None \<Rightarrow> m | Some x \<Rightarrow> f x)"
  by (cases y) simp_all

lemmas write_handlers = markActionCompleted_def cap_createSale_def cap_createIssue_def cap_createAction_def
  addActionComment_def cap_updateAction_def cap_updateIssue_def cap_createSop_def cap_updateSop_def addSopVersion_def

lemmas link_makers = customer_link_def action_link_def issue_link_def sop_link_def

lemma handler_links: "h \<in> snd ` set executors \<Longrightarrow> entity_links (h env auth input)"
  unfolding executors_def
  by (auto simp: read_handlers write_handlers link_makers Let_def entity_links_return result_def list_all_iff
        entity_link_def link_def starts_with_def
      intro!: entity_links_bind entity_links_case_prod entity_links_case_option split: option.split)

lemma execute_links:
  fixes env :: "'z exec_env"
  shows "entity_links (execute env i input auth)"
proof (cases "map_of (executors :: (string \<times> 'z handler) list) i")
  case None
  then show ?thesis by (simp add: execute_def entity_links_def throwM_def)
next
  case (Some h)
  then have "h \<in> snd ` set executors" by (metis image_eqI map_of_SomeD snd_conv)
  with Some show ?thesis by (simp add: execute_def handler_links)
qed

section \<open>They lead nowhere\<close>

text \<open>The client resolves the types in the plural only.\<close>

lemma entity_link_href:
  "entity_link l \<Longrightarrow> \<exists>t i. t \<noteq> LinkExternal \<and> tl_href l = ''nova://'' @ link_type_value t @ ''/'' @ i"
  unfolding entity_link_def starts_with_def by (metis append.assoc append_take_drop_id)

lemma entity_link_unresolved: "entity_link l \<Longrightarrow> resolveNovaLink (tl_href l) = None"
proof -
  assume "entity_link l"
  then obtain t i where "t \<noteq> LinkExternal" "tl_href l = ''nova://'' @ link_type_value t @ ''/'' @ i"
    using entity_link_href by blast
  then show ?thesis by (cases t) (simp_all add: resolveNovaLink_def Let_def starts_with_def)
qed

lemma entity_link_inert:
  assumes "entity_link l"
  shows "ToolLink l = Inert (tl_label l)" "McpAppLinkCard (tl_href l) (Some True) = (''Open in Nova'', tl_href l, Inert ''Unsupported link'')"
  using entity_link_unresolved [OF assms] by (simp_all add: ToolLink_def McpAppLinkCard_def some_id_def)

text \<open>The message that finalizing a run appends.\<close>

lemma finalizeRun_message:
  assumes "agents_db_ok (pf_agents p)" and "finalizeRun env runId text links p = (Inr ref, p')"
  shows "\<exists>m. pf_nova p' = (pf_nova p)\<lparr>tb_messages := tb_messages (pf_nova p) @ [m]\<rparr>
    \<and> ms_isMCPApps m = (links \<noteq> [])
    \<and> ms_MCPAppLink m = (case links of [] \<Rightarrow> None | l # _ \<Rightarrow> Some (tl_href l))
    \<and> ms_MCPActive m = (if links \<noteq> [] then Some True else None)"
  using assms(2)
  by (auto simp: finalizeRun_def op_simps Let_def loadVerified_run [OF assms(1)] setResponseRef_ok [OF assms(1)]
      split: option.splits if_splits prod.splits sum.splits dest!: addMessage_ok)

text \<open>C23: The links of an agent's answer lead nowhere. Every link a capability emits names its type in
  the singular, and the client resolves none of them: the chat shows each as plain text, and when the
  run is finalized with the links of a tool result, the appended message carries the first link and
  its card says that the link is unsupported.\<close>

theorem tool_links_inert:
  assumes "execute env i input auth db = (Inr r, db')"
    and "agents_db_ok (pf_agents p)" and "finalizeRun genv runId text (tr_links r) p = (Inr ref, p')"
  shows "list_all (\<lambda>l. resolveNovaLink (tl_href l) = None \<and> ToolLink l = Inert (tl_label l)) (tr_links r)
    \<and> (\<exists>m. pf_nova p' = (pf_nova p)\<lparr>tb_messages := tb_messages (pf_nova p) @ [m]\<rparr>
         \<and> ChatMessage_card m = (case tr_links r of [] \<Rightarrow> None
             | l # _ \<Rightarrow> Some (''Open in Nova'', tl_href l, Inert ''Unsupported link'')))"
proof -
  have links: "list_all entity_link (tr_links r)"
    using execute_links [of env i input auth] assms(1) unfolding entity_links_def by blast
  from finalizeRun_message [OF assms(2,3)] obtain m where
    m: "pf_nova p' = (pf_nova p)\<lparr>tb_messages := tb_messages (pf_nova p) @ [m]\<rparr>"
      "ms_isMCPApps m = (tr_links r \<noteq> [])"
      "ms_MCPAppLink m = (case tr_links r of [] \<Rightarrow> None | l # _ \<Rightarrow> Some (tl_href l))"
      "ms_MCPActive m = (if tr_links r \<noteq> [] then Some True else None)" by blast
  have "ChatMessage_card m = (case tr_links r of [] \<Rightarrow> None
      | l # _ \<Rightarrow> Some (''Open in Nova'', tl_href l, Inert ''Unsupported link''))"
    using m(2-4) links entity_link_href entity_link_inert(2)
    by (fastforce simp: ChatMessage_card_def some_id_def split: list.splits)
  moreover have "list_all (\<lambda>l. resolveNovaLink (tl_href l) = None \<and> ToolLink l = Inert (tl_label l)) (tr_links r)"
    using links by (simp add: list_all_iff entity_link_unresolved entity_link_inert(1))
  ultimately show ?thesis using m(1) by blast
qed

definition example_answer :: "exn + tool_call_result" where
  "example_answer = fst (execute example_exec_env ''customers.get'' (Some (JObj [(''customerId'', JStr ''c1'')])) pinned_auth example_nova)"

definition example_links :: "tool_link list" where
  "example_links = [\<lparr>tl_label = ''Open C X'', tl_href = ''nova://customer/c1'', tl_type = LinkCustomer\<rparr>]"

lemma example_answer:
  "(case example_answer of Inl e \<Rightarrow> False | Inr r \<Rightarrow> tr_links r = example_links)"
  by code_simp

lemma example_linked:
  "\<not> isl (fst (finalizeRun example_gateway (replicate 7 (CHR ''y'')) ''hi'' example_links example_submitted))"
  by code_simp

theorem tool_links_inert_witness:
  "\<exists>ref p' m. finalizeRun example_gateway (replicate 7 (CHR ''y'')) ''hi'' example_links example_submitted = (Inr ref, p')
     \<and> tb_messages (pf_nova p') = tb_messages (pf_nova example_submitted) @ [m]
     \<and> ChatMessage_card m = Some (''Open in Nova'', ''nova://customer/c1'', Inert ''Unsupported link'')"
proof -
  obtain r where r: "example_answer = Inr r" "tr_links r = example_links"
    using example_answer by (auto split: sum.splits)
  obtain db' where e: "execute example_exec_env ''customers.get'' (Some (JObj [(''customerId'', JStr ''c1'')])) pinned_auth example_nova
      = (Inr r, db')"
    using r(1) by (metis example_answer_def prod.collapse)
  from succeeds [OF example_linked] obtain ref p' where
    f: "finalizeRun example_gateway (replicate 7 (CHR ''y'')) ''hi'' (tr_links r) example_submitted = (Inr ref, p')"
    unfolding r(2) by blast
  from tool_links_inert [OF e example_finalized(1) f] f show ?thesis by (auto simp: r(2) example_links_def)
qed

end
